(* ===== verification/Prelude.thy ===== *)
theory Prelude
  imports Complex_Main "HOL-Library.AList"
begin

text \<open>
  Shared vocabulary of the development: the result type of a fallible Go call, decoded JSON
  values, the template variables, the string helpers of Go's \<open>strings\<close> package the source
  uses, and the list and table lemmas every component proof rests on.

  A Go function \<open>func (..) (T, error)\<close> that changes state is a function returning
  \<open>(error + 'a) \<times> world\<close>; one that does not is a function returning \<open>error + 'a\<close>. Instants
  are nanoseconds since the Unix epoch and durations are nanoseconds, both as \<open>int\<close>.
\<close>

named_theorems table_simps \<open>equations of the generic row tables\<close>
named_theorems frame_simps \<open>what an operation leaves unchanged\<close>
named_theorems go_simps \<open>evaluation of the Go string helpers\<close>

type_synonym id = string
type_synonym time = int
type_synonym duration = int
type_synonym usd = rat

definition nanosecond :: duration where "nanosecond = 1"
definition second :: duration where "second = 1000000000"
definition minute :: duration where "minute = 60 * second"
definition hour :: duration where "hour = 60 * minute"

lemmas duration_defs = nanosecond_def second_def minute_def hour_def

section \<open>Values\<close>

text \<open>
  What \<open>json.Unmarshal\<close> into an \<open>any\<close> yields: \<open>nil\<close>, \<open>bool\<close>, \<open>float64\<close> (kept as an exact
  rational), \<open>string\<close>, \<open>[]any\<close> and \<open>map[string]any\<close> (an association list with distinct keys).
\<close>

datatype json =
    JNull
  | JBool bool
  | JNum rat
  | JStr string
  | JArr "json list"
  | JObj "(string \<times> json) list"

text \<open>\<open>templates.Vars\<close>, a \<open>map[string]any\<close>: assignment is \<open>AList.update\<close>.\<close>

type_synonym vars = "(string \<times> json) list"

abbreviation var_set :: "string \<Rightarrow> json \<Rightarrow> vars \<Rightarrow> vars" where
  "var_set \<equiv> AList.update"

abbreviation var_get :: "vars \<Rightarrow> string \<Rightarrow> json option" where
  "var_get \<equiv> map_of"

lemma var_get_set [simp]: "var_get (var_set k v vs) k' = (if k' = k then Some v else var_get vs k')"
  by (simp add: update_conv)

section \<open>Go strings\<close>

text \<open>The white space \<open>strings.TrimSpace\<close> and \<open>strings.Fields\<close> cut, on single bytes.\<close>

definition is_space :: "char \<Rightarrow> bool" where
  "is_space c \<longleftrightarrow> c \<in> {CHR '' '', CHR 0x09, CHR 0x0A, CHR 0x0B, CHR 0x0C, CHR 0x0D}"

definition trim_left :: "(char \<Rightarrow> bool) \<Rightarrow> string \<Rightarrow> string" where
  "trim_left p s = dropWhile p s"

definition trim_right :: "(char \<Rightarrow> bool) \<Rightarrow> string \<Rightarrow> string" where
  "trim_right p s = rev (dropWhile p (rev s))"

definition trim_func :: "(char \<Rightarrow> bool) \<Rightarrow> string \<Rightarrow> string" where
  "trim_func p s = trim_right p (trim_left p s)"

definition trim_space :: "string \<Rightarrow> string" where
  "trim_space s = trim_func is_space s"

definition to_lower_char :: "char \<Rightarrow> char" where
  "to_lower_char c = (let n = of_char c :: nat in if 65 \<le> n \<and> n \<le> 90 then char_of (n + 32) else c)"

definition to_lower :: "string \<Rightarrow> string" where
  "to_lower s = map to_lower_char s"

fun has_prefix :: "string \<Rightarrow> string \<Rightarrow> bool" where
  "has_prefix s [] = True"
| "has_prefix [] (p # ps) = False"
| "has_prefix (c # s) (p # ps) = (c = p \<and> has_prefix s ps)"

definition has_suffix :: "string \<Rightarrow> string \<Rightarrow> bool" where
  "has_suffix s suf = has_prefix (rev s) (rev suf)"

definition trim_prefix :: "string \<Rightarrow> string \<Rightarrow> string" where
  "trim_prefix s p = (if has_prefix s p then drop (length p) s else s)"

definition trim_suffix :: "string \<Rightarrow> string \<Rightarrow> string" where
  "trim_suffix s p = (if has_suffix s p then take (length s - length p) s else s)"

text \<open>\<open>strings.CutPrefix\<close>: the rest and true, or nothing.\<close>

definition cut_prefix :: "string \<Rightarrow> string \<Rightarrow> string option" where
  "cut_prefix s p = (if has_prefix s p then Some (drop (length p) s) else None)"

text \<open>\<open>strings.Fields\<close>: the maximal runs of non-space bytes.\<close>

function go_fields :: "string \<Rightarrow> string list" where
  "go_fields s =
     (let t = dropWhile is_space s in
      if t = [] then []
      else takeWhile (\<lambda>c. \<not> is_space c) t # go_fields (dropWhile (\<lambda>c. \<not> is_space c) t))"
  by pat_completeness auto
termination
proof (relation "measure length", goal_cases)
  case (2 s t)
  then obtain c cs where t: "t = c # cs" by (meson neq_Nil_conv)
  with 2 have "\<not> is_space c" by (metis hd_dropWhile list.distinct(1) list.sel(1))
  with t have "length (dropWhile (\<lambda>c. \<not> is_space c) t) < length t"
    by (simp add: le_imp_less_Suc length_dropWhile_le)
  also have "\<dots> \<le> length s" using 2 by (simp add: length_dropWhile_le)
  finally show ?case by simp
qed simp

declare go_fields.simps [simp del]

lemma has_prefix_append [simp]: "has_prefix (p @ s) p"
  by (induction p) auto

lemma has_prefix_iff: "has_prefix s p \<longleftrightarrow> (\<exists>r. s = p @ r)"
  by (induction s p rule: has_prefix.induct) auto

lemma cut_prefix_append [simp]: "cut_prefix (p @ s) p = Some s"
  by (simp add: cut_prefix_def)

lemma cut_prefix_Some: "cut_prefix s p = Some r \<longleftrightarrow> s = p @ r"
  by (auto simp: cut_prefix_def has_prefix_iff)

lemma set_trim_func: "set (trim_func p s) \<subseteq> set s"
  by (auto simp: trim_func_def trim_right_def trim_left_def dest!: set_dropWhileD)

lemma length_trim_func: "length (trim_func p s) \<le> length s"
  unfolding trim_func_def trim_right_def trim_left_def
  using length_dropWhile_le[of p s] length_dropWhile_le[of p "rev (dropWhile p s)"] by simp

lemma trim_func_ends:
  assumes "trim_func p s \<noteq> []"
  shows "\<not> p (hd (trim_func p s))" and "\<not> p (last (trim_func p s))"
proof -
  let ?l = "dropWhile p s"
  have r: "trim_func p s = rev (dropWhile p (rev ?l))"
    by (simp add: trim_func_def trim_right_def trim_left_def)
  with assms have ne: "dropWhile p (rev ?l) \<noteq> []" by simp
  then show "\<not> p (last (trim_func p s))"
    using hd_dropWhile[OF ne] by (simp add: r last_rev)
  from ne obtain a b where ab: "rev ?l = a @ b" "dropWhile p (rev ?l) = b" "b \<noteq> []"
    by (metis takeWhile_dropWhile_id)
  then have "?l = rev b @ rev a" by (metis rev_append rev_rev_ident)
  with ab have "hd (trim_func p s) = hd ?l" "?l \<noteq> []"
    by (simp_all add: r)
  then show "\<not> p (hd (trim_func p s))" using hd_dropWhile[of p s] by simp
qed

section \<open>Formatting\<close>

text \<open>\<open>strconv\<close> on natural numbers and \<open>fmt\<close>'s \<open>%q\<close> on a string of printable or ASCII bytes.\<close>

fun show_nat :: "nat \<Rightarrow> string" where
  "show_nat n = (if n < 10 then [char_of (48 + n)] else show_nat (n div 10) @ [char_of (48 + n mod 10)])"

declare show_nat.simps [simp del]

definition show_int :: "int \<Rightarrow> string" where
  "show_int i = (if i < 0 then ''-'' @ show_nat (nat (- i)) else show_nat (nat i))"

definition hex_digit :: "nat \<Rightarrow> char" where
  "hex_digit d = (if d < 10 then char_of (48 + d) else char_of (87 + d))"

definition quote_char :: "char \<Rightarrow> string" where
  "quote_char c =
     (let n = of_char c :: nat; bs = CHR 0x5C in
      if c = CHR 0x22 \<or> c = bs then [bs, c]
      else if n = 7 then [bs, CHR ''a''] else if n = 8 then [bs, CHR ''b'']
      else if n = 9 then [bs, CHR ''t''] else if n = 10 then [bs, CHR ''n'']
      else if n = 11 then [bs, CHR ''v''] else if n = 12 then [bs, CHR ''f'']
      else if n = 13 then [bs, CHR ''r'']
      else if n < 32 \<or> n = 127 then [bs, CHR ''x'', hex_digit (n div 16), hex_digit (n mod 16)]
      else [c])"

definition go_quote :: "string \<Rightarrow> string" where
  "go_quote s = [CHR 0x22] @ concat (map quote_char s) @ [CHR 0x22]"

text \<open>The first n runes of valid UTF-8: a continuation byte belongs to the rune before it.\<close>

definition continuation :: "char \<Rightarrow> bool" where
  "continuation c \<longleftrightarrow> (let n = of_char c :: nat in 128 \<le> n \<and> n < 192)"

fun take_runes :: "nat \<Rightarrow> string \<Rightarrow> string" where
  "take_runes n [] = []"
| "take_runes n (c # s) =
     (if continuation c then c # take_runes n s
      else if n = 0 then [] else c # take_runes (n - 1) s)"

definition rune_count :: "string \<Rightarrow> nat" where
  "rune_count s = length (filter (\<lambda>c. \<not> continuation c) s)"

section \<open>Lists\<close>

lemma concat_map_Nil: "concat (map f xs) = [] \<longleftrightarrow> (\<forall>x \<in> set xs. f x = [])"
  by (induction xs) auto

section \<open>Row tables\<close>

text \<open>
  A SQLite table is the list of its rows in rowid order. \<open>tbl_get\<close> is a lookup by primary key,
  \<open>tbl_insert\<close> an \<open>INSERT\<close> that fails on a duplicate key, \<open>tbl_update\<close> an \<open>UPDATE ... WHERE id = ?\<close>.
\<close>

definition tbl_get :: "('r \<Rightarrow> id) \<Rightarrow> id \<Rightarrow> 'r list \<Rightarrow> 'r option" where
  "tbl_get key i t = find (\<lambda>r. key r = i) t"

definition tbl_insert :: "('r \<Rightarrow> id) \<Rightarrow> 'r \<Rightarrow> 'r list \<Rightarrow> 'r list option" where
  "tbl_insert key r t = (if key r \<in> key ` set t then None else Some (t @ [r]))"

definition tbl_update :: "('r \<Rightarrow> id) \<Rightarrow> id \<Rightarrow> ('r \<Rightarrow> 'r) \<Rightarrow> 'r list \<Rightarrow> 'r list" where
  "tbl_update key i f t = map (\<lambda>r. if key r = i then f r else r) t"

definition tbl_delete :: "('r \<Rightarrow> id) \<Rightarrow> id \<Rightarrow> 'r list \<Rightarrow> 'r list" where
  "tbl_delete key i t = filter (\<lambda>r. key r \<noteq> i) t"

lemma tbl_get_Some: "tbl_get key i t = Some r \<Longrightarrow> r \<in> set t \<and> key r = i"
  by (auto simp: tbl_get_def find_Some_iff)

lemma tbl_get_None: "tbl_get key i t = None \<longleftrightarrow> i \<notin> key ` set t"
  by (auto simp: tbl_get_def find_None_iff)

lemma tbl_get_append [table_simps]:
  "tbl_get key i (t @ [r]) =
    (case tbl_get key i t of Some r' \<Rightarrow> Some r' | None \<Rightarrow> if key r = i then Some r else None)"
  by (induction t) (auto simp: tbl_get_def)

lemma tbl_get_update [table_simps]:
  "(\<And>r. key (f r) = key r) \<Longrightarrow>
   tbl_get key j (tbl_update key i f t) = (if i = j then map_option f (tbl_get key j t) else tbl_get key j t)"
  by (induction t) (auto simp: tbl_get_def tbl_update_def)

lemma tbl_get_in_set:
  "distinct (map key t) \<Longrightarrow> r \<in> set t \<Longrightarrow> tbl_get key (key r) t = Some r"
  by (induction t) (auto simp: tbl_get_def)

lemma map_tbl_update: "(\<And>r. g (f r) = g r) \<Longrightarrow> map g (tbl_update key i f t) = map g t"
  by (simp add: tbl_update_def)

lemma length_tbl_update [simp]: "length (tbl_update key i f t) = length t"
  by (simp add: tbl_update_def)

lemma set_tbl_update: "set (tbl_update key i f t) = (\<lambda>r. if key r = i then f r else r) ` set t"
  by (simp add: tbl_update_def)

end
