(* ===== verification/Domain.thy ===== *)
theory Domain
  imports Prelude
begin

text \<open>
  The data types of \<open>internal/domain\<close>: sentinel errors, pipelines and their runs, runs, loops,
  templates, triggers, deliveries, schedules, firings, sessions and approvals. A Go string
  enumeration is a datatype, a nullable column an \<open>option\<close>. Field names carry a prefix per
  record because HOL record selectors share one name space.
\<close>

section \<open>Errors (errors.go)\<close>

text \<open>
  One constructor per message format of a validation problem (\<open>pipelines.Problem.Message\<close>),
  carrying the format's arguments.
\<close>

datatype problem_msg =
    InvalidYaml string
  | InvalidTimeout string
  | TooManySteps nat nat
  | TimeoutExceeds duration duration
  | DuplicateStepId id
  | BadWorktree id string
  | SharedRequiresNeed id
  | BadRetries id int nat
  | TemplateNotFound id string
  | WithInvalid id string
  | ForeachInvalid id
  | UnknownNeed id id
  | NeedNotBefore id id
  | PartOfCycle id
  | WorkspaceNotFound id
  | WorkspaceMismatch string string

record problem =
  pb_line :: nat
  pb_msg :: problem_msg

text \<open>
  An error value: a sentinel (with the constant part of the wrapping message), the pipeline
  errors carrying the problem list, SQLite's foreign-key complaint, and any other error.
\<close>

datatype error =
    ErrNotFound
  | ErrConflict string
  | ErrForbidden
  | ErrInvalid string
  | ErrInvalidProblems "problem list"
  | ErrValidation "problem list"
  | ErrUnknownTrigger
  | ErrBadSecret
  | ErrTooLarge
  | ErrForeignKey
  | ErrOther string

section \<open>Pipelines (pipeline.go)\<close>

record pipeline =
  pl_id :: id
  pl_owner :: "id option"
  pl_name :: string
  pl_workspace :: id
  pl_yaml :: string
  pl_created :: time
  pl_updated :: time

record pipeline_input =
  pin_name :: string
  pin_workspace :: id
  pin_yaml :: string
  pin_shared :: bool

datatype pipeline_run_state =
  PipelineRunRunning | PipelineRunSuccess | PipelineRunFailed | PipelineRunCancelled | PipelineRunTimeout

definition pr_terminal :: "pipeline_run_state \<Rightarrow> bool" where
  "pr_terminal s \<longleftrightarrow> s \<noteq> PipelineRunRunning"

record pipeline_run =
  pr_id :: id
  pr_pipeline :: id
  pr_origin :: string
  pr_origin_ref :: string
  pr_input :: string
  pr_state :: pipeline_run_state
  pr_started :: time
  pr_finished :: "time option"
  pr_cost :: usd

datatype step_run_state =
  StepRunPending | StepRunRunning | StepRunSuccess | StepRunFailed | StepRunSkipped | StepRunCancelled

fun sr_terminal :: "step_run_state \<Rightarrow> bool" where
  "sr_terminal StepRunSuccess = True"
| "sr_terminal StepRunFailed = True"
| "sr_terminal StepRunSkipped = True"
| "sr_terminal StepRunCancelled = True"
| "sr_terminal _ = False"

record step_run =
  sr_id :: id
  sr_pipeline_run :: id
  sr_step :: id
  sr_index :: nat
  sr_item :: string
  sr_run :: "id option"
  sr_attempt :: nat
  sr_state :: step_run_state
  sr_report :: string
  sr_started :: "time option"
  sr_finished :: "time option"
  sr_worktree :: string

section \<open>Runs and loops (run.go, loop.go)\<close>

datatype run_outcome = RunRunning | RunSuccess | RunFailed | RunTimeout | RunNeedsHuman

record run =
  rn_id :: id
  rn_session :: id
  rn_template :: "id option"
  rn_trigger :: "id option"
  rn_delivery :: "id option"
  rn_origin :: string
  rn_step_run :: "id option"
  rn_loop :: id
  rn_iteration :: nat
  rn_started :: time
  rn_finished :: "time option"
  rn_outcome :: run_outcome
  rn_report :: string
  rn_summary :: string
  rn_cost :: usd

datatype loop_state = LoopRunning | LoopDone | LoopExhausted | LoopFailed | LoopStopped

definition loop_terminal :: "loop_state \<Rightarrow> bool" where
  "loop_terminal s \<longleftrightarrow> s \<noteq> LoopRunning"

definition default_loop_until_field :: string where
  "default_loop_until_field = ''done''"

record loop =
  lp_id :: id
  lp_template :: id
  lp_session :: "id option"
  lp_origin :: string
  lp_origin_ref :: string
  lp_until :: string
  lp_max :: int
  lp_iteration :: nat
  lp_state :: loop_state
  lp_created :: time
  lp_updated :: time

section \<open>Templates, triggers, deliveries (template.go, trigger.go, delivery.go, inputs.go)\<close>

record tmpl =
  tp_id :: id
  tp_owner :: "id option"
  tp_name :: string
  tp_workspace :: id
  tp_profile :: id
  tp_title :: string
  tp_prompt :: string
  tp_system_prompt :: string
  tp_report_schema :: string
  tp_loop_until :: string
  tp_loop_max :: int
  tp_created :: time
  tp_updated :: time

datatype trigger_kind = TriggerGeneric | TriggerGrafana | TriggerGitHub

record trigger =
  tr_id :: id
  tr_owner :: "id option"
  tr_name :: string
  tr_slug :: string
  tr_kind :: trigger_kind
  tr_secret_hash :: string
  tr_secret_hint :: string
  tr_template :: id
  tr_pipeline :: "id option"
  tr_enabled :: bool
  tr_dedupe_template :: string
  tr_cooldown_s :: int
  tr_storm_cap :: int
  tr_run_on_resolved :: bool
  tr_created :: time
  tr_updated :: time
  tr_last_delivery :: "time option"

datatype delivery_status =
    DeliveryAccepted | DeliveryDeduped | DeliveryCooldown | DeliveryStorm
  | DeliveryRejected | DeliveryFailed | DeliverySkipped

text \<open>The reasons a delivery row records, one constructor per message of \<open>deliver.go\<close>.\<close>

datatype delivery_reason =
    NoReason
  | ReasonText string
  | ReplayOf id
  | InvalidPayload
  | DedupeKeyError
  | Resolved
  | WithinCooldown duration id
  | SamePayload id
  | StormCapReached int
  | StartRunFailed error
  | PipelinesUnavailable
  | StartPipelineFailed error

record delivery =
  dl_id :: id
  dl_trigger :: id
  dl_received :: time
  dl_status :: delivery_status
  dl_reason :: delivery_reason
  dl_dedupe_key :: string
  dl_payload :: string
  dl_run :: "id option"

record template_input =
  tin_name :: string
  tin_workspace :: id
  tin_profile :: id
  tin_title :: string
  tin_prompt :: string
  tin_system_prompt :: string
  tin_report_schema :: string
  tin_loop_until :: string
  tin_loop_max :: int
  tin_shared :: bool

record trigger_input =
  gin_name :: string
  gin_kind :: string
  gin_template :: id
  gin_pipeline :: id
  gin_dedupe_template :: string
  gin_cooldown_s :: int
  gin_storm_cap :: int
  gin_run_on_resolved :: bool
  gin_shared :: bool
  gin_enabled :: "bool option"

record inbound =
  ib_slug :: string
  ib_body :: string
  ib_headers :: "(string \<times> string) list"
  ib_query :: "(string \<times> string) list"
  ib_now :: "time option"

section \<open>Schedules (schedule.go)\<close>

record schedule =
  sc_id :: id
  sc_owner :: "id option"
  sc_name :: string
  sc_template :: id
  sc_pipeline :: "id option"
  sc_cron :: string
  sc_enabled :: bool
  sc_vars :: string
  sc_last_run :: "time option"
  sc_last_outcome :: string
  sc_next_run :: "time option"
  sc_created :: time
  sc_updated :: time

datatype firing_status = FiringStarted | FiringSkippedOverlap | FiringFailed

datatype firing_reason =
    NoFiringReason
  | PreviousStillRunning
  | PipelinesNotAvailable
  | FiringError error

record firing =
  fr_id :: id
  fr_schedule :: id
  fr_fired :: time
  fr_status :: firing_status
  fr_reason :: firing_reason
  fr_run :: "id option"

record schedule_input =
  sin_name :: string
  sin_template :: id
  sin_pipeline :: id
  sin_cron :: string
  sin_vars :: string
  sin_enabled :: "bool option"
  sin_shared :: bool

section \<open>Sessions and approvals (session.go, approval.go)\<close>

datatype session_state = SessionOpen | SessionRunning | SessionWaiting | SessionClosed | SessionFailed

record session =
  se_id :: id
  se_owner :: "id option"
  se_title :: string
  se_workspace :: id
  se_profile :: id
  se_harness :: string
  se_harness_ref :: string
  se_state :: session_state
  se_origin :: string
  se_origin_ref :: string
  se_worktree :: string
  se_model :: string
  se_effort :: string
  se_created :: time
  se_last_active :: time
  se_num_turns :: int
  se_cost :: usd
  se_tokens_in :: int
  se_tokens_out :: int
  se_now_line :: string
  se_branch :: string
  se_base_ref :: string
  se_shared :: bool
  se_slash_commands :: "string list"
  se_diff_add :: nat
  se_diff_del :: nat

datatype approval_state = ApprovalPending | ApprovalAllowed | ApprovalDenied | ApprovalExpired

datatype risk_tier = RiskRead | RiskWrite | RiskExec | RiskDestructive

record approval =
  ap_id :: id
  ap_session :: id
  ap_request :: id
  ap_tool :: string
  ap_input :: string
  ap_risk :: risk_tier
  ap_state :: approval_state
  ap_created :: time
  ap_decided_by :: "id option"
  ap_decided_at :: "time option"
  ap_snoozed_until :: "time option"
  ap_updated_input :: "string option"
  ap_message :: string
  ap_plan :: string

section \<open>Workspaces and profiles (workspace.go, profile.go)\<close>

datatype workspace_source = WorkspaceSourceGit | WorkspaceSourcePath | WorkspaceSourceEmpty
datatype workspace_state = WorkspaceCloning | WorkspaceReady | WorkspaceFailed
datatype workspace_access_mode = WorkspaceAccessEveryone | WorkspaceAccessListed

record workspace =
  ws_id :: id
  ws_owner :: "id option"
  ws_name :: string
  ws_path :: string
  ws_source :: workspace_source
  ws_repo_url :: string
  ws_branch :: string
  ws_managed :: bool
  ws_state :: workspace_state
  ws_error :: string
  ws_profile :: id
  ws_worktrees :: bool
  ws_base_branch :: string
  ws_auto_checkpoint :: bool
  ws_access :: workspace_access_mode
  ws_created :: time
  ws_updated :: time

record profile =
  pf_id :: id
  pf_name :: string
  pf_mode :: string
  pf_allowed_tools :: "string list"
  pf_disallowed_tools :: "string list"
  pf_max_turns :: int
  pf_unattended :: bool
  pf_approval_timeout :: duration
  pf_builtin :: bool
  pf_model :: string
  pf_effort :: string
  pf_harness :: string

section \<open>Review (review.go)\<close>

datatype review_side = ReviewSideOld | ReviewSideNew

record review_comment =
  rc_id :: id
  rc_session :: id
  rc_path :: string
  rc_line :: int
  rc_side :: review_side
  rc_body :: string
  rc_author :: id
  rc_created :: time
  rc_sent :: "time option"

record checkpoint =
  cp_id :: id
  cp_session :: id
  cp_sha :: string
  cp_turn :: int
  cp_summary :: string
  cp_created :: time

section \<open>Harness events (harness/types.go, event.go)\<close>

text \<open>
  An event carries the payload its type names; a nil payload pointer is the \<open>None\<close> of the
  constructor's argument.
\<close>

record init_info =
  ni_harness :: string
  ni_ref :: string
  ni_model :: string
  ni_slash_commands :: "string list"

record permission_request =
  pq_request :: id
  pq_tool :: string
  pq_input :: string
  pq_plan :: string

record turn_result =
  tu_is_error :: bool
  tu_turns :: int
  tu_cost :: usd
  tu_tokens_in :: int
  tu_tokens_out :: int
  tu_text :: string
  tu_structured :: string

datatype harness_event =
    EventInit "init_info option"
  | EventPartial string
  | EventText string
  | EventToolUse "(string \<times> string) option"
  | EventToolResult
  | EventPermission "permission_request option"
  | EventResult "turn_result option"
  | EventRaw string
  | EventExit int
  | EventUser string

text \<open>One row of the transcript (\<open>domain.Event\<close>); the payload is the event it encodes.\<close>

record event_row =
  ev_session :: id
  ev_seq :: nat
  ev_time :: time
  ev_payload :: harness_event

record audit_entry =
  au_actor :: id
  au_action :: string
  au_target :: id
  au_time :: time

text \<open>What the service writes to a process: a user turn, a decision, an interrupt, a close.\<close>

datatype process_call =
    ProcSend string
  | ProcDecide id bool "string option" string
  | ProcInterrupt
  | ProcClose

text \<open>The origins a session or run is started with (constants of session.go and loop.go).\<close>

definition OriginUI :: string where "OriginUI = ''ui''"
definition OriginWebhook :: string where "OriginWebhook = ''webhook''"
definition OriginSchedule :: string where "OriginSchedule = ''schedule''"
definition OriginPipeline :: string where "OriginPipeline = ''pipeline''"
definition OriginLoop :: string where "OriginLoop = ''loop''"

lemmas origin_defs = OriginUI_def OriginWebhook_def OriginSchedule_def OriginPipeline_def OriginLoop_def

end
