(* ===== verification/Pipeline_Def.thy ===== *)
theory Pipeline_Def
  imports Domain "HOL-Library.List_Lexorder" "HOL-Library.Char_ord"
begin

text \<open>
  \<open>internal/pipelines/def.go\<close>: the definition of a pipeline, its parsing, its validation and the
  topological levels of its \<open>needs\<close> graph. The yaml decoder (\<open>gopkg.in/yaml.v3\<close>), the duration
  parser (\<open>time.ParseDuration\<close>), the syntax check of \<open>text/template\<close> and the template lookup are
  arguments. A Go \<open>map[string]int\<close> is an association list; a missing key reads as 0.
\<close>

section \<open>Types\<close>

definition DefaultTimeout :: duration where "DefaultTimeout = 2 * hour"
definition MaxTimeout :: duration where "MaxTimeout = 24 * hour"
definition MaxSteps :: nat where "MaxSteps = 20"
definition MaxRetries :: nat where "MaxRetries = 3"

lemmas pipeline_limits = DefaultTimeout_def MaxTimeout_def MaxSteps_def MaxRetries_def

text \<open>\<open>Step\<close>; \<open>st_with\<close> lists the entries of the \<open>With\<close> map, keys distinct.\<close>

record step =
  st_id :: id
  st_template :: string
  st_needs :: "id list"
  st_with :: "(string \<times> string) list"
  st_worktree :: string
  st_retries :: int
  st_foreach :: string

record raw_step = step +
  rs_line :: nat

record pipeline_def =
  df_name :: string
  df_workspace :: string
  df_timeout :: duration
  df_steps :: "step list"
  df_step_lines :: "nat list"
  df_timeout_line :: nat
  df_steps_line :: nat

record raw_definition =
  rd_name :: string
  rd_workspace :: string
  rd_timeout :: string
  rd_steps :: "raw_step list"
  rd_timeout_line :: nat
  rd_steps_line :: nat

definition empty_def :: pipeline_def where
  "empty_def = \<lparr>df_name = [], df_workspace = [], df_timeout = 0, df_steps = [],
     df_step_lines = [], df_timeout_line = 0, df_steps_line = 0\<rparr>"

type_synonym template_lookup = "(string \<Rightarrow> id option) option"

section \<open>Parsing\<close>

definition is_digit :: "char \<Rightarrow> bool" where
  "is_digit c \<longleftrightarrow> CHR ''0'' \<le> c \<and> c \<le> CHR ''9''"

definition digit_val :: "char \<Rightarrow> nat" where
  "digit_val c = of_char c - 48"

definition digits_val :: "string \<Rightarrow> nat" where
  "digits_val ds = foldl (\<lambda>n c. 10 * n + digit_val c) 0 ds"

text \<open>The first submatch of the regular expression \<open>line (\d+)\<close>: leftmost, then longest.\<close>

fun find_line_ref :: "string \<Rightarrow> string option" where
  "find_line_ref [] = None"
| "find_line_ref (c # s) =
     (let rest = drop 5 (c # s) in
      if has_prefix (c # s) ''line '' \<and> rest \<noteq> [] \<and> is_digit (hd rest)
      then Some (takeWhile is_digit rest) else find_line_ref s)"

definition yaml_error_line :: "string \<Rightarrow> nat" where
  "yaml_error_line err =
     (case find_line_ref err of
        None \<Rightarrow> 0
      | Some ds \<Rightarrow> (if digits_val ds < 2 ^ 63 then digits_val ds else 0))"

definition parse ::
  "(string \<Rightarrow> string + raw_definition) \<Rightarrow> (string \<Rightarrow> duration option) \<Rightarrow> string \<Rightarrow>
   pipeline_def \<times> problem list" where
  "parse unmarshal parse_duration yaml_text =
     (case unmarshal yaml_text of
        Inl err \<Rightarrow> (empty_def, [\<lparr>pb_line = yaml_error_line err, pb_msg = InvalidYaml err\<rparr>])
      | Inr raw \<Rightarrow>
          (let (timeout, problems) =
             (if rd_timeout raw = [] then (DefaultTimeout, [])
              else case parse_duration (rd_timeout raw) of
                None \<Rightarrow> (DefaultTimeout,
                  [\<lparr>pb_line = rd_timeout_line raw, pb_msg = InvalidTimeout (rd_timeout raw)\<rparr>])
              | Some d \<Rightarrow> (d, []))
           in (\<lparr>df_name = rd_name raw, df_workspace = rd_workspace raw, df_timeout = timeout,
                df_steps = map step.truncate (rd_steps raw),
                df_step_lines = map rs_line (rd_steps raw),
                df_timeout_line = rd_timeout_line raw, df_steps_line = rd_steps_line raw\<rparr>,
               problems)))"

definition line_for_step :: "pipeline_def \<Rightarrow> nat \<Rightarrow> nat" where
  "line_for_step d i = (if i < length (df_step_lines d) then df_step_lines d ! i else 0)"

section \<open>The dependency graph\<close>

text \<open>\<open>idIndex\<close>: every non-empty id with the index of its first occurrence.\<close>

fun build_index :: "nat \<Rightarrow> step list \<Rightarrow> (id \<times> nat) list \<Rightarrow> (id \<times> nat) list" where
  "build_index i [] idx = idx"
| "build_index i (s # ss) idx =
     build_index (Suc i) ss
       (if st_id s = [] \<or> st_id s \<in> fst ` set idx then idx else idx @ [(st_id s, i)])"

definition id_index :: "pipeline_def \<Rightarrow> (id \<times> nat) list" where
  "id_index d = build_index 0 (df_steps d) []"

definition idx_of :: "(id \<times> nat) list \<Rightarrow> id \<Rightarrow> nat" where
  "idx_of idx k = (case map_of idx k of Some n \<Rightarrow> n | None \<Rightarrow> 0)"

definition known :: "(id \<times> nat) list \<Rightarrow> id \<Rightarrow> bool" where
  "known idx k = (map_of idx k \<noteq> None)"

text \<open>The edges (need, dependent) of the first occurrence of each id, unknown needs dropped.\<close>

definition step_edges :: "(id \<times> nat) list \<Rightarrow> nat \<times> step \<Rightarrow> (id \<times> id) list" where
  "step_edges idx = (\<lambda>(i, s).
     if st_id s = [] \<or> idx_of idx (st_id s) \<noteq> i then []
     else map (\<lambda>need. (need, st_id s)) (filter (known idx) (st_needs s)))"

definition graph_edges :: "pipeline_def \<Rightarrow> (id \<times> id) list" where
  "graph_edges d = concat (map (step_edges (id_index d)) (enumerate 0 (df_steps d)))"

type_synonym indegrees = "(id \<times> int) list"
type_synonym dependents = "id \<Rightarrow> id list"

definition indeg :: "indegrees \<Rightarrow> id \<Rightarrow> int" where
  "indeg g k = (case map_of g k of Some n \<Rightarrow> n | None \<Rightarrow> 0)"

definition add_edge :: "id \<times> id \<Rightarrow> indegrees \<times> dependents \<Rightarrow> indegrees \<times> dependents" where
  "add_edge = (\<lambda>(need, s) (g, deps).
     (AList.update s (indeg g s + 1) g, deps(need := deps need @ [s])))"

definition build_graph :: "pipeline_def \<Rightarrow> indegrees \<times> dependents" where
  "build_graph d =
     fold add_edge (graph_edges d) (map (\<lambda>(k, _). (k, 0)) (id_index d), \<lambda>_. [])"

text \<open>
  The inner loop over the dependents of the ids of one level (\<open>relax\<close>), and the level loop. A
  dependent joins the next level when its indegree reaches 0.
\<close>

fun relax :: "id list \<Rightarrow> indegrees \<Rightarrow> id list \<Rightarrow> indegrees \<times> id list" where
  "relax [] g nxt = (g, nxt)"
| "relax (dep # ds) g nxt =
     (let g' = AList.update dep (indeg g dep - 1) g
      in relax ds g' (if indeg g' dep = 0 then nxt @ [dep] else nxt))"

fun visit :: "dependents \<Rightarrow> id list \<Rightarrow> indegrees \<Rightarrow> id list \<Rightarrow> id list \<Rightarrow>
    indegrees \<times> id list \<times> id list" where
  "visit deps [] g processed nxt = (g, processed, nxt)"
| "visit deps (k # queue) g processed nxt =
     (let (g', next') = relax (deps k) g nxt in visit deps queue g' (processed @ [k]) next')"

text \<open>
  The loop ends: a next level is not empty only when an indegree dropped from 1 to 0, so the
  number of positive indegrees shrinks.
\<close>

definition positives :: "indegrees \<Rightarrow> nat" where
  "positives g = length (filter (\<lambda>(_, n). n > 0) g)"

lemma positives_update_le:
  "v \<le> indeg g k \<Longrightarrow> positives (AList.update k v g) \<le> positives g"
proof (induction g)
  case Nil
  then show ?case by (simp add: positives_def indeg_def)
next
  case (Cons e g)
  then show ?case by (cases e) (auto simp: positives_def indeg_def)
qed

lemma positives_update_zero:
  "indeg g k = 1 \<Longrightarrow> Suc (positives (AList.update k 0 g)) = positives g"
proof (induction g)
  case Nil
  then show ?case by (simp add: indeg_def)
next
  case (Cons e g)
  then show ?case by (cases e) (auto simp: positives_def indeg_def)
qed

lemma indeg_update [simp]: "indeg (AList.update k v g) k' = (if k' = k then v else indeg g k')"
  by (simp add: indeg_def update_conv)

lemma relax_positives:
  "relax ds g nxt = (g', next') \<Longrightarrow> positives g' + length next' \<le> positives g + length nxt"
proof (induction ds g nxt rule: relax.induct)
  case (1 g nxt)
  then show ?case by simp
next
  case (2 dep ds g nxt)
  let ?g = "AList.update dep (indeg g dep - 1) g"
  have "positives ?g + (if indeg ?g dep = 0 then 1 else 0) \<le> positives g"
  proof (cases "indeg g dep = 1")
    case True
    then show ?thesis using positives_update_zero[OF True] by simp
  next
    case False
    then show ?thesis using positives_update_le[of "indeg g dep - 1" g dep] by simp
  qed
  moreover have "positives g' + length next' \<le>
      positives ?g + length (if indeg ?g dep = 0 then nxt @ [dep] else nxt)"
    using "2.IH"[OF refl] "2.prems" by (simp only: relax.simps Let_def)
  ultimately show ?case by (simp split: if_splits)
qed

lemma visit_positives:
  "visit deps queue g processed nxt = (g', processed', next') \<Longrightarrow>
   positives g' + length next' \<le> positives g + length nxt"
proof (induction deps queue g processed nxt rule: visit.induct)
  case (1 deps g processed nxt)
  then show ?case by simp
next
  case (2 deps k queue g processed nxt)
  obtain g1 n1 where r: "relax (deps k) g nxt = (g1, n1)" by fastforce
  with "2.prems" have "visit deps queue g1 (processed @ [k]) n1 = (g', processed', next')" by simp
  with "2.IH"[OF r[symmetric] refl] relax_positives[OF r] show ?case by linarith
qed

function topo_loop :: "(id \<times> nat) list \<Rightarrow> dependents \<Rightarrow> id list \<Rightarrow> indegrees \<Rightarrow> id list \<Rightarrow> id list list \<Rightarrow>
    id list list \<times> id list" where
  "topo_loop idx deps queue g processed levels =
     (if queue = [] then (levels, processed)
      else let q = sort_key (idx_of idx) queue;
               r = visit deps q g processed []
           in topo_loop idx deps (snd (snd r)) (fst r) (fst (snd r)) (levels @ [q]))"
  by pat_completeness auto
termination
proof (relation "measures [\<lambda>(idx, deps, queue, g, processed, levels). positives g + length queue,
    \<lambda>(idx, deps, queue, g, processed, levels). length queue]", goal_cases)
  case 1
  show ?case by simp
next
  case (2 idx deps queue g processed levels q r)
  obtain g' p' n' where r: "r = (g', p', n')" by (cases r)
  with 2(3) have "positives g' + length n' \<le> positives g"
    using visit_positives[of deps q g processed "[]" g' p' n'] by simp
  with 2(1) r show ?case by (cases queue) auto
qed

declare topo_loop.simps [simp del]

text \<open>\<open>Definition.topo\<close>: the levels, the ids that never reached indegree 0, the index.\<close>

definition topo :: "pipeline_def \<Rightarrow> id list list \<times> id list \<times> (id \<times> nat) list" where
  "topo d =
     (let idx = id_index d;
          (g, deps) = build_graph d;
          queue = filter (\<lambda>k. indeg g k = 0) (map fst idx);
          (levels, processed) = topo_loop idx deps queue g [] [];
          cyclic = sort_key (idx_of idx) (filter (\<lambda>k. k \<notin> set processed) (map fst idx))
      in (levels, cyclic, idx))"

definition order :: "pipeline_def \<Rightarrow> id list list" where
  "order d = fst (topo d)"

definition cyclic_ids :: "pipeline_def \<Rightarrow> id list" where
  "cyclic_ids d = fst (snd (topo d))"


section \<open>Correctness of the levels\<close>

lemma build_index_spec:
  "distinct (map fst idx) \<Longrightarrow> (\<forall>k n. (k, n) \<in> set idx \<longrightarrow> n < i) \<Longrightarrow>
   distinct (map fst (build_index i ss idx)) \<and>
   fst ` set (build_index i ss idx) = fst ` set idx \<union> (st_id ` set ss - {[]}) \<and>
   (\<forall>k n. map_of (build_index i ss idx) k = Some n \<longleftrightarrow>
      map_of idx k = Some n \<or>
      (k \<notin> fst ` set idx \<and> k \<noteq> [] \<and> i \<le> n \<and> n < i + length ss \<and> st_id (ss ! (n - i)) = k \<and>
       (\<forall>j < n - i. st_id (ss ! j) \<noteq> k)))"
proof (induction i ss idx rule: build_index.induct)
  case (1 i idx)
  then show ?case by auto
next
  case (2 i s ss idx)
  let ?idx = "if st_id s = [] \<or> st_id s \<in> fst ` set idx then idx else idx @ [(st_id s, i)]"
  have d: "distinct (map fst ?idx)" using "2.prems" by auto
  have b: "\<forall>k n. (k, n) \<in> set ?idx \<longrightarrow> n < Suc i" using "2.prems" by (auto simp: less_Suc_eq)
  note IH = "2.IH"[OF d b]
  have keys: "fst ` set ?idx \<union> (st_id ` set ss - {[]}) = fst ` set idx \<union> (st_id ` set (s # ss) - {[]})"
    by auto
  have look: "map_of ?idx k = Some n \<or>
      (k \<notin> fst ` set ?idx \<and> k \<noteq> [] \<and> Suc i \<le> n \<and> n < Suc i + length ss \<and>
       st_id (ss ! (n - Suc i)) = k \<and> (\<forall>j < n - Suc i. st_id (ss ! j) \<noteq> k)) \<longleftrightarrow>
      map_of idx k = Some n \<or>
      (k \<notin> fst ` set idx \<and> k \<noteq> [] \<and> i \<le> n \<and> n < i + length (s # ss) \<and>
       st_id ((s # ss) ! (n - i)) = k \<and> (\<forall>j < n - i. st_id ((s # ss) ! j) \<noteq> k))" for k n
  proof (cases "k \<in> fst ` set idx \<or> k = []")
    case True
    then have "st_id s = [] \<or> st_id s \<in> fst ` set idx \<or> st_id s \<noteq> k" by auto
    then have keep: "map_of ?idx k = map_of idx k"
      by (auto simp: map_add_def split: option.splits)
    have "k \<in> fst ` set ?idx \<or> k = []" using True by auto
    with True keep show ?thesis by (simp only: keep) blast
  next
    case False
    then have none: "map_of idx k = None" by (simp add: map_of_eq_None_iff)
    show ?thesis
    proof (cases "st_id s = k")
      case True
      with False have "?idx = idx @ [(k, i)]" by auto
      with True False none show ?thesis
        by (cases "n = i") (auto simp: map_of_append map_add_def nth_Cons split: option.splits nat.splits)
    next
      case neq: False
      then have m: "map_of ?idx k = None" using none by (auto simp: map_of_eq_None_iff)
      then have nk: "k \<notin> fst ` set ?idx" by (simp only: map_of_eq_None_iff not_False_eq_True)
      have nth: "(\<forall>j < Suc m. st_id ((s # ss) ! j) \<noteq> k) \<longleftrightarrow> (\<forall>j < m. st_id (ss ! j) \<noteq> k)" for m
        using neq by (auto simp: nth_Cons less_Suc_eq_0_disj split: nat.splits)
      show ?thesis
      proof (cases "n \<le> i")
        case True
        then show ?thesis using m none neq by (cases "n = i") auto
      next
        case False
        then obtain m' where "n = Suc i + m'" by (metis add_Suc less_iff_Suc_add linorder_not_le)
        then show ?thesis using m nk none \<open>\<not> (k \<in> fst ` set idx \<or> k = [])\<close>
          by (simp add: nth Suc_diff_le)
      qed
    qed
  qed
  show ?case using IH by (simp only: build_index.simps keys look) simp
qed


text \<open>The index maps a non-empty id to the position of its first occurrence.\<close>

lemma distinct_id_index: "distinct (map fst (id_index d))"
  unfolding id_index_def by (rule build_index_spec[THEN conjunct1]) auto

lemma keys_id_index: "set (map fst (id_index d)) = st_id ` set (df_steps d) - {[]}"
  using build_index_spec[of "[]" 0 "df_steps d"] by (simp add: id_index_def)

lemma id_index_iff:
  "map_of (id_index d) k = Some n \<longleftrightarrow>
    k \<noteq> [] \<and> n < length (df_steps d) \<and> st_id (df_steps d ! n) = k \<and> (\<forall>j < n. st_id (df_steps d ! j) \<noteq> k)"
  using build_index_spec[of "[]" 0 "df_steps d"] by (simp add: id_index_def)

lemma known_iff: "known (id_index d) k \<longleftrightarrow> k \<in> set (map fst (id_index d))"
  by (simp add: known_def map_of_eq_None_iff)

lemma idx_of_first:
  "k \<in> set (map fst (id_index d)) \<Longrightarrow>
    idx_of (id_index d) k < length (df_steps d) \<and> st_id (df_steps d ! idx_of (id_index d) k) = k \<and>
    (\<forall>j < idx_of (id_index d) k. st_id (df_steps d ! j) \<noteq> k)"
proof -
  assume "k \<in> set (map fst (id_index d))"
  then obtain n where "map_of (id_index d) k = Some n"
    using known_iff[of d k] by (auto simp: known_def)
  with id_index_iff[of d k n] show ?thesis by (simp add: idx_of_def)
qed

lemma idx_of_inj: "inj_on (idx_of (id_index d)) (set (map fst (id_index d)))"
  using idx_of_first by (metis inj_onI)

lemma idx_of_eqI:
  assumes "i < length (df_steps d)" "st_id (df_steps d ! i) = k" "k \<noteq> []"
    "\<forall>j < i. st_id (df_steps d ! j) \<noteq> k"
  shows "idx_of (id_index d) k = i"
  using assms id_index_iff[of d k i] by (simp add: idx_of_def)

text \<open>The edges, declaratively: the known needs of the first occurrence of an id.\<close>

lemma set_graph_edges:
  "(n, k) \<in> set (graph_edges d) \<longleftrightarrow>
    k \<in> set (map fst (id_index d)) \<and> n \<in> set (map fst (id_index d)) \<and>
    n \<in> set (st_needs (df_steps d ! idx_of (id_index d) k))"
  (is "?l \<longleftrightarrow> ?r")
proof
  assume ?l
  then obtain i s where s: "(i, s) \<in> set (enumerate 0 (df_steps d))"
      "(n, k) \<in> set (step_edges (id_index d) (i, s))"
    by (auto simp: graph_edges_def)
  then have "i < length (df_steps d)" "s = df_steps d ! i"
    by (auto simp: in_set_enumerate_eq)
  moreover from s(2) have "k = st_id s" "k \<noteq> []" "idx_of (id_index d) k = i"
      "n \<in> set (st_needs s)" "known (id_index d) n"
    by (auto simp: step_edges_def split: if_splits)
  ultimately show ?r using keys_id_index[of d] known_iff[of d n] by force
next
  assume r: ?r
  let ?i = "idx_of (id_index d) k"
  from r idx_of_first[of k d] have "(?i, df_steps d ! ?i) \<in> set (enumerate 0 (df_steps d))"
      "st_id (df_steps d ! ?i) = k"
    by (auto simp: in_set_enumerate_eq)
  moreover have "k \<noteq> []" using r keys_id_index[of d] by auto
  ultimately show ?l using r known_iff[of d n]
    by (force simp: graph_edges_def step_edges_def)
qed

lemma fold_add_edge:
  "fold add_edge es (g, deps) = (g', deps') \<Longrightarrow>
    indeg g' k = indeg g k + int (length (filter (\<lambda>e. snd e = k) es)) \<and>
    deps' n = deps n @ map snd (filter (\<lambda>e. fst e = n) es)"
proof (induction es arbitrary: g deps)
  case Nil
  then show ?case by simp
next
  case (Cons e es)
  obtain a b where e: "e = (a, b)" by fastforce
  from Cons.prems e have
    "fold add_edge es (AList.update b (indeg g b + 1) g, deps(a := deps a @ [b])) = (g', deps')"
    by (simp add: add_edge_def)
  from Cons.IH[OF this] e show ?case by auto
qed

lemma indeg_zero_map [simp]: "indeg (map (\<lambda>(k, _). (k, 0)) xs) k = 0"
  by (induction xs) (auto simp: indeg_def)

lemma relax_append:
  "relax (ds @ es) g nxt = (let (g', n') = relax ds g nxt in relax es g' n')"
  by (induction ds g nxt rule: relax.induct) (auto simp: Let_def)

lemma visit_relax:
  "visit deps q g p nxt = (let (g', n') = relax (concat (map deps q)) g nxt in (g', p @ q, n'))"
proof (induction deps q g p nxt rule: visit.induct)
  case (1 deps g processed nxt)
  then show ?case by simp
next
  case (2 deps k queue g processed nxt)
  then show ?case by (auto simp: Let_def relax_append split: prod.splits)
qed

lemma relax_spec:
  assumes "relax ds g nxt = (g', nxt')" and "\<forall>x. int (count_list ds x) \<le> indeg g x"
    and "distinct nxt" and "\<forall>x\<in>set nxt. indeg g x = 0"
  shows "(\<forall>x. indeg g' x = indeg g x - int (count_list ds x)) \<and> distinct nxt' \<and>
    set nxt' = set nxt \<union> {x. indeg g x > 0 \<and> indeg g' x = 0}"
  using assms
proof (induction ds g nxt rule: relax.induct)
  case (1 g nxt)
  then show ?case by auto
next
  case (2 dep ds g nxt)
  let ?g = "AList.update dep (indeg g dep - 1) g"
  let ?n = "if indeg ?g dep = 0 then nxt @ [dep] else nxt"
  have pos: "indeg g dep \<ge> 1 + int (count_list ds dep)"
    using "2.prems"(2)[rule_format, of dep] by simp
  have le: "\<forall>x. int (count_list ds x) \<le> indeg ?g x"
  proof
    fix x
    show "int (count_list ds x) \<le> indeg ?g x"
      using "2.prems"(2)[rule_format, of x] pos by (auto split: if_splits)
  qed
  have notin: "dep \<notin> set nxt" using "2.prems"(4) pos by fastforce
  have "relax ds ?g ?n = (g', nxt')" using "2.prems"(1) by (simp only: relax.simps Let_def)
  moreover have "distinct ?n" using "2.prems"(3) notin by auto
  moreover have "\<forall>x\<in>set ?n. indeg ?g x = 0" using "2.prems"(4) notin by auto
  ultimately have IH: "\<forall>x. indeg g' x = indeg ?g x - int (count_list ds x)" "distinct nxt'"
    "set nxt' = set ?n \<union> {x. indeg ?g x > 0 \<and> indeg g' x = 0}"
    using "2.IH"[OF refl] le by simp_all
  have "{x. indeg g x > 0 \<and> indeg g' x = 0} =
      {x. indeg ?g x > 0 \<and> indeg g' x = 0} \<union> (if indeg ?g dep = 0 then {dep} else {})"
    using IH(1)[rule_format, of dep] le[rule_format, of dep] pos by (auto split: if_splits)
  with IH(3) have "set nxt' = set nxt \<union> {x. indeg g x > 0 \<and> indeg g' x = 0}"
    by (auto split: if_splits)
  with IH(1,2) show ?case by auto
qed

lemma count_dependents:
  "distinct q \<Longrightarrow>
    count_list (concat (map (\<lambda>n. map snd (filter (\<lambda>e. fst e = n) es)) q)) k =
    length (filter (\<lambda>e. snd e = k \<and> fst e \<in> set q) es)"
proof (induction q)
  case Nil
  then show ?case by simp
next
  case (Cons a q)
  have c: "count_list (map snd (filter (\<lambda>e. fst e = a) es)) k =
      length (filter (\<lambda>e. snd e = k \<and> fst e = a) es)"
    by (induction es) auto
  have "length (filter (\<lambda>e. snd e = k \<and> fst e \<in> set (a # q)) es) =
      length (filter (\<lambda>e. snd e = k \<and> fst e = a) es) +
      length (filter (\<lambda>e. snd e = k \<and> fst e \<in> set q) es)"
    using Cons.prems by (induction es) auto
  with Cons c show ?case by simp
qed

text \<open>
  The loop invariant: what is processed is the concatenation of the levels, each indegree counts
  the edges from unprocessed ids, and the queue holds exactly the unprocessed ids of indegree 0.
\<close>

definition levels_sound :: "(id \<times> id) list \<Rightarrow> id list list \<Rightarrow> bool" where
  "levels_sound es levels \<longleftrightarrow>
     (\<forall>i < length levels. \<forall>(n, k) \<in> set es. k \<in> set (levels ! i) \<longrightarrow> (\<exists>j < i. n \<in> set (levels ! j)))"

definition topo_inv :: "(id \<times> id) list \<Rightarrow> id list \<Rightarrow> id list \<Rightarrow> indegrees \<Rightarrow> id list \<Rightarrow> id list list \<Rightarrow> bool" where
  "topo_inv es ids queue g processed levels \<longleftrightarrow>
     distinct (processed @ queue) \<and> set (processed @ queue) \<subseteq> set ids \<and>
     processed = concat levels \<and> levels_sound es levels \<and>
     (\<forall>k. indeg g k = int (length (filter (\<lambda>e. snd e = k \<and> fst e \<notin> set processed) es))) \<and>
     (\<forall>k\<in>set ids. indeg g k = 0 \<longleftrightarrow> k \<in> set (processed @ queue))"

lemma levels_sound_snoc:
  assumes "levels_sound es levels"
    and "\<And>n k. (n, k) \<in> set es \<Longrightarrow> k \<in> set q \<Longrightarrow> n \<in> set (concat levels)"
  shows "levels_sound es (levels @ [q])"
proof -
  have "\<exists>j < length levels. n \<in> set (levels ! j)" if "(n, k) \<in> set es" "k \<in> set q" for n k
    using assms(2)[OF that] by (metis UN_E in_set_conv_nth set_concat)
  with assms(1) show ?thesis
    unfolding levels_sound_def by (fastforce simp: nth_append less_Suc_eq)
qed

lemma topo_step:
  assumes inv: "topo_inv es ids queue g processed levels"
    and deps: "deps = (\<lambda>n. map snd (filter (\<lambda>e. fst e = n) es))"
    and es: "\<And>n k. (n, k) \<in> set es \<Longrightarrow> k \<in> set ids"
    and q: "q = sort_key f queue" and r: "visit deps q g processed [] = (g', processed', queue')"
  shows "topo_inv es ids queue' g' processed' (levels @ [q])"
proof -
  from inv have i: "distinct (processed @ queue)" "set (processed @ queue) \<subseteq> set ids"
      "\<forall>k. indeg g k = int (length (filter (\<lambda>e. snd e = k \<and> fst e \<notin> set processed) es))"
      "\<forall>k\<in>set ids. indeg g k = 0 \<longleftrightarrow> k \<in> set (processed @ queue)"
    and pc: "processed = concat levels" and ls: "levels_sound es levels"
    unfolding topo_inv_def by blast+
  have q': "set q = set queue" "distinct q" using i by (auto simp: q)
  obtain n' where rx: "relax (concat (map deps q)) g [] = (g', n')" "processed' = processed @ q" "queue' = n'"
    using r by (auto simp: visit_relax Let_def split: prod.splits)
  have cnt: "count_list (concat (map deps q)) k = length (filter (\<lambda>e. snd e = k \<and> fst e \<in> set q) es)" for k
    using count_dependents[OF q'(2)] by (simp add: deps)
  have split: "length (filter (\<lambda>e. snd e = k \<and> fst e \<notin> set processed) es) =
      length (filter (\<lambda>e. snd e = k \<and> fst e \<notin> set processed') es) +
      length (filter (\<lambda>e. snd e = k \<and> fst e \<in> set q) es)" for k
  proof -
    have "set processed \<inter> set q = {}" using i q' by auto
    then show ?thesis unfolding rx(2) by (induction es) auto
  qed
  have "\<forall>x. int (count_list (concat (map deps q)) x) \<le> indeg g x"
    using i by (simp add: cnt split)
  from relax_spec[OF rx(1) this] have sp:
    "\<forall>x. indeg g' x = indeg g x - int (count_list (concat (map deps q)) x)" "distinct n'"
    "set n' = {x. indeg g x > 0 \<and> indeg g' x = 0}" by simp_all
  have ind: "\<forall>k. indeg g' k = int (length (filter (\<lambda>e. snd e = k \<and> fst e \<notin> set processed') es))"
    using sp(1) i by (simp add: cnt split)
  have nonneg: "indeg g k \<ge> 0" for k using i by simp
  have nn: "indeg g' k \<ge> 0" for k using ind by simp
  have mono: "indeg g' k \<le> indeg g k" for k using sp(1)[rule_format, of k] by linarith
  have in_ids: "k \<in> set ids" if "indeg g k > 0" for k
  proof -
    from that i have "filter (\<lambda>e. snd e = k \<and> fst e \<notin> set processed) es \<noteq> []" by auto
    then obtain e where "e \<in> set es" "snd e = k" by (auto simp: filter_empty_conv)
    then have "(fst e, k) \<in> set es" by auto
    then show ?thesis by (rule es)
  qed
  have p': "set processed' = set (processed @ queue)" using rx(2) q' by auto
  have zero: "\<forall>k\<in>set ids. indeg g k = 0 \<longleftrightarrow> k \<in> set processed'" using i p' by simp
  have zero': "\<forall>k\<in>set ids. indeg g' k = 0 \<longleftrightarrow> k \<in> set (processed' @ n')"
  proof
    fix k assume k: "k \<in> set ids"
    then show "indeg g' k = 0 \<longleftrightarrow> k \<in> set (processed' @ n')"
      using zero sp(3) nonneg[of k] mono[of k] nn[of k] by auto
  qed
  have dis: "distinct (processed' @ n')"
    using i q' sp(2,3) zero in_ids rx(2) p' by fastforce
  have sub: "set (processed' @ n') \<subseteq> set ids" using i p' sp(3) in_ids by auto
  have snd: "levels_sound es (levels @ [q])"
  proof (rule levels_sound_snoc)
    show "levels_sound es levels" by (rule ls)
    fix n k assume e: "(n, k) \<in> set es" "k \<in> set q"
    then have "indeg g k = 0" using i q' es by auto
    then have "filter (\<lambda>e. snd e = k \<and> fst e \<notin> set processed) es = []" using i by simp
    with e have "n \<in> set processed" by (auto simp: filter_empty_conv)
    then show "n \<in> set (concat levels)" by (simp only: pc)
  qed
  show ?thesis using dis sub snd ind zero' rx pc unfolding topo_inv_def by simp
qed

lemma topo_loop_inv:
  assumes "topo_inv es ids queue g processed levels"
    and "deps = (\<lambda>n. map snd (filter (\<lambda>e. fst e = n) es))"
    and "\<And>n k. (n, k) \<in> set es \<Longrightarrow> k \<in> set ids"
    and "topo_loop idx deps queue g processed levels = (levels', processed')"
  shows "\<exists>g'. topo_inv es ids [] g' processed' levels'"
  using assms
proof (induction idx deps queue g processed levels rule: topo_loop.induct)
  case (1 idx deps queue g processed levels)
  show ?case
  proof (cases "queue = []")
    case True
    with "1.prems" show ?thesis by (auto simp: topo_loop.simps)
  next
    case False
    obtain g' p' n' where r: "visit deps (sort_key (idx_of idx) queue) g processed [] = (g', p', n')"
      using prod_cases3 by blast
    have "topo_inv es ids n' g' p' (levels @ [sort_key (idx_of idx) queue])"
      using topo_step[OF "1.prems"(1,2,3) refl r] .
    moreover have "topo_loop idx deps n' g' p' (levels @ [sort_key (idx_of idx) queue]) =
        (levels', processed')"
      using "1.prems"(4) False r by (simp add: topo_loop.simps[of idx deps queue g processed levels])
    ultimately show ?thesis
      using "1.IH"[OF False refl refl] "1.prems"(2,3) unfolding r fst_conv snd_conv by blast
  qed
qed

lemma set_cyclic_ids:
  "\<exists>g' processed. topo_inv (graph_edges d) (map fst (id_index d)) [] g' processed (order d) \<and>
     set (cyclic_ids d) = set (map fst (id_index d)) - set processed \<and> distinct (cyclic_ids d)"
proof -
  let ?ids = "map fst (id_index d)" and ?es = "graph_edges d"
  obtain g deps where b: "build_graph d = (g, deps)" by fastforce
  have g: "indeg g k = int (length (filter (\<lambda>e. snd e = k) ?es))"
    and deps: "deps = (\<lambda>n. map snd (filter (\<lambda>e. fst e = n) ?es))" for k
    using fold_add_edge[of ?es "map (\<lambda>(k, _). (k, 0)) (id_index d)" "\<lambda>_. []" g deps k] b
      fold_add_edge[of ?es "map (\<lambda>(k, _). (k, 0)) (id_index d)" "\<lambda>_. []" g deps]
    by (auto simp: build_graph_def fun_eq_iff)
  let ?q = "filter (\<lambda>k. indeg g k = 0) ?ids"
  have "topo_inv ?es ?ids ?q g [] []"
    by (auto simp: topo_inv_def levels_sound_def g distinct_id_index)
  moreover have "k \<in> set ?ids" if "(n, k) \<in> set ?es" for n k
    using that by (simp add: set_graph_edges)
  moreover obtain levels processed where
    r: "topo_loop (id_index d) deps ?q g [] [] = (levels, processed)" by fastforce
  ultimately obtain g' where "topo_inv ?es ?ids [] g' processed levels"
    using topo_loop_inv[OF _ deps, of ?ids ?q g] by blast
  then show ?thesis
    using b r distinct_id_index[of d]
    by (auto simp: order_def cyclic_ids_def topo_def Let_def)
qed

lemma order_sound:
  assumes "(n, k) \<in> set (graph_edges d)" and "i < length (order d)" and "k \<in> set (order d ! i)"
  shows "\<exists>j < i. n \<in> set (order d ! j)"
proof -
  obtain g' processed where "topo_inv (graph_edges d) (map fst (id_index d)) [] g' processed (order d)"
    using set_cyclic_ids by blast
  then have "levels_sound (graph_edges d) (order d)" unfolding topo_inv_def by blast
  then show ?thesis using assms unfolding levels_sound_def by fast
qed

lemma order_partition:
  "distinct (concat (order d) @ cyclic_ids d)"
  "set (concat (order d) @ cyclic_ids d) = st_id ` set (df_steps d) - {[]}"
proof -
  obtain g' processed where t: "topo_inv (graph_edges d) (map fst (id_index d)) [] g' processed (order d)"
      "set (cyclic_ids d) = set (map fst (id_index d)) - set processed" "distinct (cyclic_ids d)"
    using set_cyclic_ids by blast
  have p: "processed = concat (order d)" "distinct processed" "set processed \<subseteq> set (map fst (id_index d))"
    using t(1) unfolding topo_inv_def append_Nil2 by blast+
  show "distinct (concat (order d) @ cyclic_ids d)" using t p by auto
  show "set (concat (order d) @ cyclic_ids d) = st_id ` set (df_steps d) - {[]}"
    using t(2) p keys_id_index[of d] by auto
qed

lemma cyclic_has_cyclic_need:
  assumes "k \<in> set (cyclic_ids d)"
  obtains n where "(n, k) \<in> set (graph_edges d)" "n \<in> set (cyclic_ids d)"
proof -
  obtain g' processed where t: "topo_inv (graph_edges d) (map fst (id_index d)) [] g' processed (order d)"
      "set (cyclic_ids d) = set (map fst (id_index d)) - set processed"
    using set_cyclic_ids by blast
  with assms have "indeg g' k \<noteq> 0" by (auto simp: topo_inv_def)
  then have "filter (\<lambda>e. snd e = k \<and> fst e \<notin> set processed) (graph_edges d) \<noteq> []"
    using t(1) by (auto simp: topo_inv_def)
  then obtain e where e: "e \<in> set (graph_edges d)" "snd e = k" "fst e \<notin> set processed"
    by (auto simp: filter_empty_conv)
  then have "(fst e, k) \<in> set (graph_edges d)" by auto
  moreover from this have "fst e \<in> set (cyclic_ids d)"
    using t(2) e(3) set_graph_edges[of "fst e" k d] by auto
  ultimately show thesis using that by blast
qed

lemma forward_edges_acyclic:
  assumes "\<And>n k. (n, k) \<in> set (graph_edges d) \<Longrightarrow> idx_of (id_index d) n < idx_of (id_index d) k"
  shows "cyclic_ids d = []"
proof -
  have "k \<notin> set (cyclic_ids d)" for k
  proof (induction "idx_of (id_index d) k" arbitrary: k rule: less_induct)
    case less
    show ?case
    proof
      assume "k \<in> set (cyclic_ids d)"
      then obtain n where "(n, k) \<in> set (graph_edges d)" "n \<in> set (cyclic_ids d)"
        using cyclic_has_cyclic_need by blast
      with assms less show False by blast
    qed
  qed
  then show ?thesis by (meson last_in_set)
qed

section \<open>Validation\<close>

text \<open>
  \<open>Validate\<close>, one definition per group of checks of a step, in the order the loop body has them.
  \<open>parse_ok\<close> is \<open>parseCheck\<close>; a \<open>None\<close> lookup is the nil \<open>TemplateLookup\<close>.
\<close>

definition count_problems :: "pipeline_def \<Rightarrow> problem list" where
  "count_problems d =
     (if length (df_steps d) > MaxSteps
      then [\<lparr>pb_line = df_steps_line d, pb_msg = TooManySteps (length (df_steps d)) MaxSteps\<rparr>] else [])"

definition effective_timeout :: "pipeline_def \<Rightarrow> duration" where
  "effective_timeout d = (if df_timeout d \<le> 0 then DefaultTimeout else df_timeout d)"

definition timeout_problems :: "pipeline_def \<Rightarrow> problem list" where
  "timeout_problems d =
     (if effective_timeout d > MaxTimeout
      then [\<lparr>pb_line = df_timeout_line d, pb_msg = TimeoutExceeds (effective_timeout d) MaxTimeout\<rparr>]
      else [])"

definition shape_problems :: "nat \<Rightarrow> (id \<times> nat) list \<Rightarrow> nat \<Rightarrow> step \<Rightarrow> problem list" where
  "shape_problems line idx i s =
     (if st_id s \<noteq> [] \<and> idx_of idx (st_id s) \<noteq> i
      then [\<lparr>pb_line = line, pb_msg = DuplicateStepId (st_id s)\<rparr>] else []) @
     (if st_worktree s \<in> {[], ''own'', ''shared''} then []
      else [\<lparr>pb_line = line, pb_msg = BadWorktree (st_id s) (st_worktree s)\<rparr>]) @
     (if st_worktree s = ''shared'' \<and> st_needs s = []
      then [\<lparr>pb_line = line, pb_msg = SharedRequiresNeed (st_id s)\<rparr>] else []) @
     (if st_retries s < 0 \<or> st_retries s > int MaxRetries
      then [\<lparr>pb_line = line, pb_msg = BadRetries (st_id s) (st_retries s) MaxRetries\<rparr>] else [])"

definition template_problems ::
  "(string \<Rightarrow> bool) \<Rightarrow> template_lookup \<Rightarrow> nat \<Rightarrow> step \<Rightarrow> problem list" where
  "template_problems parse_ok lookup line s =
     (case lookup of
        None \<Rightarrow> []
      | Some find_template \<Rightarrow>
          (if find_template (st_template s) = None
           then [\<lparr>pb_line = line, pb_msg = TemplateNotFound (st_id s) (st_template s)\<rparr>] else [])) @
     map (\<lambda>k. \<lparr>pb_line = line, pb_msg = WithInvalid (st_id s) k\<rparr>)
       (filter (\<lambda>k. \<not> parse_ok (case map_of (st_with s) k of Some v \<Rightarrow> v | None \<Rightarrow> []))
         (sort (map fst (st_with s)))) @
     (if st_foreach s \<noteq> [] \<and> \<not> parse_ok (st_foreach s)
      then [\<lparr>pb_line = line, pb_msg = ForeachInvalid (st_id s)\<rparr>] else [])"

definition need_problems :: "nat \<Rightarrow> (id \<times> nat) list \<Rightarrow> id list \<Rightarrow> nat \<Rightarrow> step \<Rightarrow> problem list" where
  "need_problems line idx cyclic i s =
     (if st_id s = [] \<or> idx_of idx (st_id s) \<noteq> i then []
      else concat (map (\<lambda>need.
        if \<not> known idx need then [\<lparr>pb_line = line, pb_msg = UnknownNeed (st_id s) need\<rparr>]
        else if st_id s \<in> set cyclic \<or> need \<in> set cyclic then []
        else if idx_of idx need \<ge> i then [\<lparr>pb_line = line, pb_msg = NeedNotBefore (st_id s) need\<rparr>]
        else []) (st_needs s)))"

definition validate :: "(string \<Rightarrow> bool) \<Rightarrow> template_lookup \<Rightarrow> pipeline_def \<Rightarrow> problem list" where
  "validate parse_ok lookup d =
     (let (_, cyclic, idx) = topo d in
      count_problems d @ timeout_problems d @
      concat (map (\<lambda>(i, s).
        shape_problems (line_for_step d i) idx i s @
        template_problems parse_ok lookup (line_for_step d i) s @
        need_problems (line_for_step d i) idx cyclic i s) (enumerate 0 (df_steps d))) @
      map (\<lambda>k. \<lparr>pb_line = line_for_step d (idx_of idx k), pb_msg = PartOfCycle k\<rparr>) cyclic)"

text \<open>What \<open>Validate\<close> promises, independent of the graph algorithm.\<close>

definition valid_step :: "(string \<Rightarrow> bool) \<Rightarrow> template_lookup \<Rightarrow> step list \<Rightarrow> nat \<Rightarrow> bool" where
  "valid_step parse_ok lookup ss i \<longleftrightarrow>
     (let s = ss ! i in
      (st_id s \<noteq> [] \<longrightarrow> (\<forall>j < i. st_id (ss ! j) \<noteq> st_id s)) \<and>
      st_worktree s \<in> {[], ''own'', ''shared''} \<and>
      (st_worktree s = ''shared'' \<longrightarrow> st_needs s \<noteq> []) \<and>
      0 \<le> st_retries s \<and> st_retries s \<le> int MaxRetries \<and>
      (\<forall>find_template. lookup = Some find_template \<longrightarrow> find_template (st_template s) \<noteq> None) \<and>
      (\<forall>k v. map_of (st_with s) k = Some v \<longrightarrow> parse_ok v) \<and>
      (st_foreach s \<noteq> [] \<longrightarrow> parse_ok (st_foreach s)) \<and>
      (st_id s \<noteq> [] \<longrightarrow>
        (\<forall>need \<in> set (st_needs s). need \<noteq> [] \<and> (\<exists>j < i. st_id (ss ! j) = need))))"

definition valid_spec :: "(string \<Rightarrow> bool) \<Rightarrow> template_lookup \<Rightarrow> pipeline_def \<Rightarrow> bool" where
  "valid_spec parse_ok lookup d \<longleftrightarrow>
     length (df_steps d) \<le> MaxSteps \<and> df_timeout d \<le> MaxTimeout \<and>
     (\<forall>i < length (df_steps d). valid_step parse_ok lookup (df_steps d) i)"

section \<open>Validation agrees with its specification\<close>

lemma line_problems_empty [simp]:
  "count_problems d = [] \<longleftrightarrow> length (df_steps d) \<le> MaxSteps"
  "timeout_problems d = [] \<longleftrightarrow> df_timeout d \<le> MaxTimeout"
  by (auto simp: count_problems_def timeout_problems_def effective_timeout_def pipeline_limits duration_defs)

lemma shape_problems_empty [simp]:
  "shape_problems line idx i s = [] \<longleftrightarrow>
     (st_id s = [] \<or> idx_of idx (st_id s) = i) \<and> st_worktree s \<in> {[], ''own'', ''shared''} \<and>
     (st_worktree s = ''shared'' \<longrightarrow> st_needs s \<noteq> []) \<and> 0 \<le> st_retries s \<and> st_retries s \<le> int MaxRetries"
  by (auto simp: shape_problems_def)

lemma template_problems_empty [simp]:
  "template_problems parse_ok lookup line s = [] \<longleftrightarrow>
     (\<forall>find_template. lookup = Some find_template \<longrightarrow> find_template (st_template s) \<noteq> None) \<and>
     (\<forall>k v. map_of (st_with s) k = Some v \<longrightarrow> parse_ok v) \<and>
     (st_foreach s \<noteq> [] \<longrightarrow> parse_ok (st_foreach s))"
proof -
  have "(\<forall>k \<in> set (map fst (st_with s)). parse_ok (case map_of (st_with s) k of Some v \<Rightarrow> v | None \<Rightarrow> [])) \<longleftrightarrow>
      (\<forall>k v. map_of (st_with s) k = Some v \<longrightarrow> parse_ok v)" (is "?l \<longleftrightarrow> ?r")
  proof
    assume l: ?l
    show ?r
    proof (intro allI impI)
      fix k v assume kv: "map_of (st_with s) k = Some v"
      then have "k \<in> set (map fst (st_with s))" by (force dest: map_of_SomeD)
      with l kv show "parse_ok v" by force
    qed
  next
    assume r: ?r
    show ?l
    proof
      fix k assume "k \<in> set (map fst (st_with s))"
      then have "map_of (st_with s) k \<noteq> None" by (simp add: map_of_eq_None_iff)
      then obtain v where "map_of (st_with s) k = Some v" by blast
      with r show "parse_ok (case map_of (st_with s) k of Some v \<Rightarrow> v | None \<Rightarrow> [])" by auto
    qed
  qed
  then show ?thesis
    by (auto simp: template_problems_def filter_empty_conv split: option.splits)
qed

lemma need_problems_empty [simp]:
  "need_problems line idx [] i s = [] \<longleftrightarrow>
     (st_id s \<noteq> [] \<and> idx_of idx (st_id s) = i \<longrightarrow>
       (\<forall>need \<in> set (st_needs s). known idx need \<and> idx_of idx need < i))"
proof (cases "st_id s = [] \<or> idx_of idx (st_id s) \<noteq> i")
  case True
  then show ?thesis by (auto simp: need_problems_def)
next
  case False
  then have "need_problems line idx [] i s = [] \<longleftrightarrow>
      (\<forall>need \<in> set (st_needs s). known idx need \<and> \<not> idx_of idx need \<ge> i)"
    unfolding need_problems_def if_not_P[OF False] concat_map_Nil
    by (intro ball_cong refl) (simp split: if_splits)
  with False show ?thesis by (simp add: not_le)
qed

lemma validate_empty:
  "validate parse_ok lookup d = [] \<longleftrightarrow>
     length (df_steps d) \<le> MaxSteps \<and> df_timeout d \<le> MaxTimeout \<and> cyclic_ids d = [] \<and>
     (\<forall>i < length (df_steps d).
        shape_problems 0 (id_index d) i (df_steps d ! i) = [] \<and>
        template_problems parse_ok lookup 0 (df_steps d ! i) = [] \<and>
        need_problems 0 (id_index d) [] i (df_steps d ! i) = [])"
proof -
  have t: "topo d = (order d, cyclic_ids d, id_index d)"
    by (simp add: order_def cyclic_ids_def topo_def Let_def split: prod.splits)
  have all: "concat (map f (enumerate 0 (df_steps d))) = [] \<longleftrightarrow>
      (\<forall>i < length (df_steps d). f (i, df_steps d ! i) = [])" for f :: "nat \<times> step \<Rightarrow> problem list"
    unfolding concat_map_Nil by (auto simp: in_set_enumerate_eq)
  show ?thesis
  proof (cases "cyclic_ids d = []")
    case True
    then show ?thesis unfolding validate_def t Let_def prod.case append_is_Nil_conv all by simp
  next
    case False
    then show ?thesis unfolding validate_def t Let_def prod.case by simp
  qed
qed

lemma first_occurrence:
  assumes "i < length (df_steps d)" "st_id (df_steps d ! i) \<noteq> []"
  shows "idx_of (id_index d) (st_id (df_steps d ! i)) = i \<longleftrightarrow>
    (\<forall>j < i. st_id (df_steps d ! j) \<noteq> st_id (df_steps d ! i))"
proof -
  have "st_id (df_steps d ! i) \<in> set (map fst (id_index d))"
    using assms unfolding keys_id_index by simp
  with idx_of_first[OF this] idx_of_eqI[OF assms(1) refl assms(2)] show ?thesis by metis
qed

lemma earlier_need:
  assumes "i < length (df_steps d)"
  shows "known (id_index d) n \<and> idx_of (id_index d) n < i \<longleftrightarrow>
    n \<noteq> [] \<and> (\<exists>j < i. st_id (df_steps d ! j) = n)"
proof
  assume "known (id_index d) n \<and> idx_of (id_index d) n < i"
  then show "n \<noteq> [] \<and> (\<exists>j < i. st_id (df_steps d ! j) = n)"
    using idx_of_first[of n d] keys_id_index[of d] known_iff[of d n] by auto
next
  assume r: "n \<noteq> [] \<and> (\<exists>j < i. st_id (df_steps d ! j) = n)"
  then obtain j where j: "j < i" "st_id (df_steps d ! j) = n" by blast
  with assms have "n \<in> set (map fst (id_index d))"
    using r keys_id_index[of d] by (auto intro!: image_eqI[of _ _ "df_steps d ! j"])
  with idx_of_first[OF this] j show "known (id_index d) n \<and> idx_of (id_index d) n < i"
    using known_iff[of d n] by (metis le_less_trans not_less)
qed

lemma validate_valid_spec: "validate parse_ok lookup d = [] \<longleftrightarrow> valid_spec parse_ok lookup d"
proof -
  have steps: "shape_problems 0 (id_index d) i (df_steps d ! i) = [] \<and>
      template_problems parse_ok lookup 0 (df_steps d ! i) = [] \<and>
      need_problems 0 (id_index d) [] i (df_steps d ! i) = [] \<longleftrightarrow>
      valid_step parse_ok lookup (df_steps d) i" if "i < length (df_steps d)" for i
    using first_occurrence[OF that] earlier_need[OF that] by (auto simp: valid_step_def Let_def)
  have "cyclic_ids d = []" if v: "\<forall>i < length (df_steps d). valid_step parse_ok lookup (df_steps d) i"
  proof (rule forward_edges_acyclic)
    fix n k assume "(n, k) \<in> set (graph_edges d)"
    then have e: "k \<in> set (map fst (id_index d))" "n \<in> set (st_needs (df_steps d ! idx_of (id_index d) k))"
      by (auto simp: set_graph_edges)
    let ?i = "idx_of (id_index d) k"
    have i: "?i < length (df_steps d)" "st_id (df_steps d ! ?i) = k" "k \<noteq> []"
      using idx_of_first[OF e(1)] e(1) keys_id_index[of d] by auto
    with v e(2) have "n \<noteq> [] \<and> (\<exists>j < ?i. st_id (df_steps d ! j) = n)"
      by (auto simp: valid_step_def Let_def)
    with earlier_need[OF i(1)] show "idx_of (id_index d) n < ?i" by blast
  qed
  with steps show ?thesis unfolding validate_empty valid_spec_def by blast
qed

section \<open>The rendering view\<close>

record graph_node =
  gn_id :: id
  gn_template :: string
  gn_worktree :: string
  gn_foreach :: bool

definition graph :: "pipeline_def \<Rightarrow> graph_node list \<times> (id \<times> id) list" where
  "graph d =
     (map (\<lambda>s. \<lparr>gn_id = st_id s, gn_template = st_template s, gn_worktree = st_worktree s,
              gn_foreach = (st_foreach s \<noteq> [])\<rparr>) (df_steps d),
      concat (map (\<lambda>s. map (\<lambda>need. (need, st_id s)) (st_needs s)) (df_steps d)))"

end
