(* ===== verification/Pipeline_Graph.thy ===== *)
theory Pipeline_Graph
  imports Pipeline_Def
begin

text \<open>
  The part of \<open>internal/pipelines/advance.go\<close> that reads step runs: the newest attempt of each
  slot, the state of a node, whether a step is ready, the worktree a shared step continues in.
\<close>

section \<open>Current attempts\<close>

type_synonym slot = "id \<times> nat"

definition slot_of :: "step_run \<Rightarrow> slot" where
  "slot_of sr = (sr_step sr, sr_index sr)"

text \<open>
  The Go maps \<open>best\<close> and \<open>byslot\<close> and the slice \<open>order\<close> are one association list from slots to
  the attempt kept so far, in the order the slots first appear.
\<close>

definition keep_newest :: "(slot \<times> step_run) list \<Rightarrow> step_run \<Rightarrow> (slot \<times> step_run) list" where
  "keep_newest best sr =
     (case map_of best (slot_of sr) of
        None \<Rightarrow> best @ [(slot_of sr, sr)]
      | Some prev \<Rightarrow> if sr_attempt sr \<ge> sr_attempt prev then AList.update (slot_of sr) sr best else best)"

definition current_attempts :: "step_run list \<Rightarrow> step_run list" where
  "current_attempts rows = map snd (foldl keep_newest [] rows)"

section \<open>Node states\<close>

datatype node_state = NodeAbsent | NodeBusy | NodeSucceeded | NodeFailed

fun sr_bad :: "step_run_state \<Rightarrow> bool" where
  "sr_bad StepRunFailed = True"
| "sr_bad StepRunSkipped = True"
| "sr_bad StepRunCancelled = True"
| "sr_bad _ = False"

fun sr_busy :: "step_run_state \<Rightarrow> bool" where
  "sr_busy StepRunPending = True"
| "sr_busy StepRunRunning = True"
| "sr_busy _ = False"

fun state_of_from :: "node_state \<Rightarrow> step_run list \<Rightarrow> id \<Rightarrow> node_state" where
  "state_of_from st [] k = st"
| "state_of_from st (sr # current) k =
     (if sr_step sr \<noteq> k then state_of_from st current k
      else if sr_bad (sr_state sr) then NodeFailed
      else if sr_busy (sr_state sr) then state_of_from NodeBusy current k
      else state_of_from (if st \<noteq> NodeBusy then NodeSucceeded else st) current k)"

definition state_of :: "step_run list \<Rightarrow> id \<Rightarrow> node_state" where
  "state_of current k = state_of_from NodeAbsent current k"

definition deps_succeeded :: "step_run list \<Rightarrow> step \<Rightarrow> bool" where
  "deps_succeeded current st = list_all (\<lambda>need. state_of current need = NodeSucceeded) (st_needs st)"

fun node_worktree :: "step_run list \<Rightarrow> id \<Rightarrow> string" where
  "node_worktree [] need = []"
| "node_worktree (sr # current) need =
     (if sr_step sr = need \<and> sr_worktree sr \<noteq> [] then sr_worktree sr else node_worktree current need)"

fun shared_worktree :: "step_run list \<Rightarrow> id list \<Rightarrow> string" where
  "shared_worktree current [] = []"
| "shared_worktree current (need # needs) =
     (if node_worktree current need \<noteq> [] then node_worktree current need
      else shared_worktree current needs)"

fun step_by_id :: "step list \<Rightarrow> id \<Rightarrow> step option" where
  "step_by_id [] k = None"
| "step_by_id (s # ss) k = (if st_id s = k then Some s else step_by_id ss k)"

section \<open>The newest attempt of every slot\<close>

definition newest_of :: "step_run list \<Rightarrow> step_run \<Rightarrow> bool" where
  "newest_of rows sr \<longleftrightarrow>
     sr \<in> set rows \<and> (\<forall>r \<in> set rows. slot_of r = slot_of sr \<longrightarrow> sr_attempt r \<le> sr_attempt sr)"

definition newest_inv :: "step_run list \<Rightarrow> (slot \<times> step_run) list \<Rightarrow> bool" where
  "newest_inv rows best \<longleftrightarrow>
     distinct (map fst best) \<and> fst ` set best = slot_of ` set rows \<and>
     (\<forall>k sr. (k, sr) \<in> set best \<longrightarrow> slot_of sr = k \<and> newest_of rows sr)"

lemma newest_of_snoc:
  "newest_of rows s \<Longrightarrow> slot_of sr = slot_of s \<longrightarrow> sr_attempt sr \<le> sr_attempt s \<Longrightarrow> newest_of (rows @ [sr]) s"
  by (auto simp: newest_of_def)

lemma newest_inv_keep:
  assumes "newest_inv rows best"
  shows "newest_inv (rows @ [sr]) (keep_newest best sr)"
proof -
  from assms have d: "distinct (map fst best)" and keys: "fst ` set best = slot_of ` set rows"
    and el: "\<And>k r. (k, r) \<in> set best \<Longrightarrow> slot_of r = k \<and> newest_of rows r"
    unfolding newest_inv_def by blast+
  show ?thesis
  proof (cases "map_of best (slot_of sr)")
    case None
    then have new: "slot_of sr \<notin> fst ` set best" by (simp add: map_of_eq_None_iff)
    have k: "keep_newest best sr = best @ [(slot_of sr, sr)]" using None by (simp add: keep_newest_def)
    have "slot_of s = k \<and> newest_of (rows @ [sr]) s" if "(k, s) \<in> set best" for k s
    proof -
      have "k \<noteq> slot_of sr" using that new by force
      then show ?thesis using el[OF that] by (auto intro: newest_of_snoc)
    qed
    moreover have "newest_of (rows @ [sr]) sr" using new keys by (auto simp: newest_of_def image_iff)
    ultimately show ?thesis unfolding newest_inv_def k using d new keys by auto
  next
    case (Some prev)
    then have prev: "(slot_of sr, prev) \<in> set best" by (rule map_of_SomeD)
    then have at: "slot_of sr \<in> slot_of ` set rows" using keys by force
    show ?thesis
    proof (cases "sr_attempt sr \<ge> sr_attempt prev")
      case True
      have k: "keep_newest best sr = AList.update (slot_of sr) sr best"
        using Some True by (simp add: keep_newest_def)
      have d': "distinct (map fst (AList.update (slot_of sr) sr best))" using d by (rule distinct_update)
      have keys': "fst ` set (AList.update (slot_of sr) sr best) = slot_of ` set (rows @ [sr])"
        using keys at dom_update[of "slot_of sr" sr best] by (simp add: dom_map_of_conv_image_fst insert_absorb)
      have "slot_of s = k \<and> newest_of (rows @ [sr]) s"
        if "(k, s) \<in> set (AList.update (slot_of sr) sr best)" for k s
      proof (cases "k = slot_of sr")
        case True
        have "map_of (AList.update (slot_of sr) sr best) k = Some s"
          using that map_of_eq_Some_iff[OF d'] by blast
        then have "s = sr" using True by (simp add: update_conv)
        moreover have "newest_of (rows @ [sr]) sr"
          using el[OF prev] \<open>sr_attempt prev \<le> sr_attempt sr\<close> by (fastforce simp: newest_of_def)
        ultimately show ?thesis using True by simp
      next
        case False
        have "map_of (AList.update (slot_of sr) sr best) k = Some s"
          using that map_of_eq_Some_iff[OF d'] by blast
        then have "(k, s) \<in> set best" using False by (simp add: update_conv map_of_SomeD)
        then have "slot_of s = k" "newest_of rows s" using el by blast+
        with False show ?thesis by (simp add: newest_of_snoc)
      qed
      with d' keys' show ?thesis unfolding newest_inv_def k by blast
    next
      case False
      have k: "keep_newest best sr = best" using Some False by (simp add: keep_newest_def)
      have "slot_of s = k \<and> newest_of (rows @ [sr]) s" if "(k, s) \<in> set best" for k s
      proof (cases "k = slot_of sr")
        case True
        with that prev d have "s = prev" by (meson eq_key_imp_eq_value)
        with False el[OF that] show ?thesis by (auto intro: newest_of_snoc)
      next
        case False
        with el[OF that] show ?thesis by (auto intro: newest_of_snoc)
      qed
      with d keys at show ?thesis unfolding newest_inv_def k by (auto simp: insert_absorb)
    qed
  qed
qed

lemma newest_inv_foldl: "newest_inv rows (foldl keep_newest [] rows)"
proof (induction rows rule: rev_induct)
  case Nil
  then show ?case by (simp add: newest_inv_def)
next
  case (snoc sr rows)
  then show ?case using newest_inv_keep by simp
qed

lemma current_attempts_slots:
  "distinct (map slot_of (current_attempts rows))"
  "slot_of ` set (current_attempts rows) = slot_of ` set rows"
proof -
  let ?b = "foldl keep_newest [] rows"
  have i: "newest_inv rows ?b" by (rule newest_inv_foldl)
  have "map slot_of (map snd ?b) = map fst ?b" unfolding map_map
  proof (rule map_cong[OF refl])
    fix p assume "p \<in> set ?b"
    then have "(fst p, snd p) \<in> set ?b" by simp
    with i have "slot_of (snd p) = fst p" unfolding newest_inv_def by blast
    then show "(slot_of \<circ> snd) p = fst p" by simp
  qed
  then have "map slot_of (current_attempts rows) = map fst ?b" by (simp only: current_attempts_def)
  moreover from this have "slot_of ` set (current_attempts rows) = fst ` set ?b" by (metis list.set_map)
  ultimately show "distinct (map slot_of (current_attempts rows))"
    "slot_of ` set (current_attempts rows) = slot_of ` set rows"
    using i by (auto simp: newest_inv_def)
qed

lemma current_attempts_newest:
  assumes "sr \<in> set (current_attempts rows)"
  shows "sr \<in> set rows" and "r \<in> set rows \<Longrightarrow> slot_of r = slot_of sr \<Longrightarrow> sr_attempt r \<le> sr_attempt sr"
proof -
  obtain k where "(k, sr) \<in> set (foldl keep_newest [] rows)"
    using assms by (auto simp: current_attempts_def)
  then have "newest_of rows sr" using newest_inv_foldl[of rows] unfolding newest_inv_def by blast
  then show "sr \<in> set rows" and "r \<in> set rows \<Longrightarrow> slot_of r = slot_of sr \<Longrightarrow> sr_attempt r \<le> sr_attempt sr"
    by (auto simp: newest_of_def)
qed

lemma in_current_attempts:
  assumes "r \<in> set rows"
    and "\<And>r'. r' \<in> set rows \<Longrightarrow> slot_of r' = slot_of r \<Longrightarrow> r' = r \<or> sr_attempt r' < sr_attempt r"
  shows "r \<in> set (current_attempts rows)"
proof -
  have "slot_of r \<in> slot_of ` set (current_attempts rows)"
    using assms(1) by (simp add: current_attempts_slots)
  then obtain c where c: "c \<in> set (current_attempts rows)" "slot_of c = slot_of r" by auto
  then have "sr_attempt r \<le> sr_attempt c" "c \<in> set rows"
    using current_attempts_newest[OF c(1)] assms(1) by auto
  with assms(2)[of c] c have "c = r" by auto
  with c show ?thesis by simp
qed

lemma current_attempts_Nil [simp]: "current_attempts [] = []"
  by (simp add: current_attempts_def)

section \<open>What a node state says\<close>

lemma sr_state_cases: "sr_bad s \<or> sr_busy s \<or> s = StepRunSuccess"
  by (cases s) auto

lemma sr_classes [simp]:
  "sr_bad s \<Longrightarrow> \<not> sr_busy s" "\<not> sr_bad StepRunSuccess" "\<not> sr_busy StepRunSuccess"
  "sr_terminal s \<longleftrightarrow> \<not> sr_busy s"
  by (cases s; simp)+

lemma state_of_from_char:
  "state_of_from st current k =
     (if list_ex (\<lambda>sr. sr_step sr = k \<and> sr_bad (sr_state sr)) current then NodeFailed
      else if list_ex (\<lambda>sr. sr_step sr = k \<and> sr_busy (sr_state sr)) current then NodeBusy
      else if list_ex (\<lambda>sr. sr_step sr = k) current then (if st = NodeBusy then NodeBusy else NodeSucceeded)
      else st)"
proof (induction st current k rule: state_of_from.induct)
  case (1 st k)
  then show ?case by simp
next
  case (2 st sr current k)
  then show ?case by (cases "sr_state sr"; cases "sr_step sr = k"; simp)
qed

lemma state_of_char:
  "state_of current k =
     (if \<exists>sr \<in> set current. sr_step sr = k \<and> sr_bad (sr_state sr) then NodeFailed
      else if \<exists>sr \<in> set current. sr_step sr = k \<and> sr_busy (sr_state sr) then NodeBusy
      else if \<exists>sr \<in> set current. sr_step sr = k then NodeSucceeded else NodeAbsent)"
  by (simp add: state_of_def state_of_from_char list_ex_iff)

lemma state_of_succeeded:
  "state_of current k = NodeSucceeded \<longleftrightarrow>
     (\<exists>sr \<in> set current. sr_step sr = k) \<and> (\<forall>sr \<in> set current. sr_step sr = k \<longrightarrow> sr_state sr = StepRunSuccess)"
  using sr_state_cases by (auto simp: state_of_char)

lemma state_of_absent: "state_of current k = NodeAbsent \<longleftrightarrow> (\<forall>sr \<in> set current. sr_step sr \<noteq> k)"
  by (auto simp: state_of_char)

lemma node_worktree_iff:
  "node_worktree current need \<noteq> [] \<longleftrightarrow> (\<exists>sr \<in> set current. sr_step sr = need \<and> sr_worktree sr \<noteq> [])"
  by (induction current need rule: node_worktree.induct) auto

lemma shared_worktree_from:
  "shared_worktree current needs \<noteq> [] \<Longrightarrow>
   \<exists>need \<in> set needs. \<exists>sr \<in> set current. sr_step sr = need \<and> sr_worktree sr = shared_worktree current needs"
proof (induction current needs rule: shared_worktree.induct)
  case (1 current)
  then show ?case by simp
next
  case (2 current need needs)
  have "node_worktree current need \<noteq> [] \<Longrightarrow>
      \<exists>sr \<in> set current. sr_step sr = need \<and> sr_worktree sr = node_worktree current need"
    by (induction current need rule: node_worktree.induct) auto
  with 2 show ?case by auto
qed

lemma step_by_id_Some: "step_by_id ss k = Some s \<Longrightarrow> s \<in> set ss \<and> st_id s = k"
  by (induction ss k rule: step_by_id.induct) (auto split: if_splits)

end
