(* ===== verification/Timestamps.thy ===== *)
theory Timestamps
  imports Prelude "HOL-Library.List_Lexorder" "HOL-Library.Char_ord" "HOL-Library.Product_Lexorder"
begin

text \<open>
  \<open>internal/db/scan.go\<close>: every timestamp column is TEXT in the format RFC3339Nano, UTC, and
  SQLite orders and compares these columns as text. The text of an instant is its date and time
  down to the second, of fixed width for the years 0 to 9999 and so ordered like the second,
  followed by the fraction without trailing zeros and a \<open>Z\<close>. A stored instant is therefore the
  pair of its second and that suffix, compared lexicographically.
\<close>

section \<open>The stored form\<close>

type_synonym stored = "int \<times> string"

fun digits :: "nat \<Rightarrow> nat \<Rightarrow> nat list" where
  "digits 0 n = []"
| "digits (Suc k) n = digits k (n div 10) @ [n mod 10]"

definition digit_char :: "nat \<Rightarrow> char" where
  "digit_char d = char_of (48 + d)"

definition char_digit :: "char \<Rightarrow> nat" where
  "char_digit c = of_char c - 48"

definition frac_text :: "nat \<Rightarrow> string" where
  "frac_text n =
     (if n = 0 then ''Z''
      else ''.'' @ trim_right (\<lambda>c. c = CHR ''0'') (map digit_char (digits 9 n)) @ ''Z'')"

definition now_string :: "time \<Rightarrow> stored" where
  "now_string t = (t div second, frac_text (nat (t mod second)))"

definition frac_value :: "string \<Rightarrow> nat" where
  "frac_value s =
     (case s of
        [] \<Rightarrow> 0
      | c # rest \<Rightarrow>
          (if c = CHR ''.'' then
             (let ds = map char_digit (butlast rest)
              in foldl (\<lambda>n d. 10 * n + d) 0 (ds @ replicate (9 - length ds) 0))
           else 0))"

definition parse_time :: "stored \<Rightarrow> time" where
  "parse_time p = fst p * second + int (frac_value (snd p))"

definition stored_less :: "time \<Rightarrow> time \<Rightarrow> bool" where
  "stored_less a b \<longleftrightarrow> now_string a < now_string b"

definition stored_le :: "time \<Rightarrow> time \<Rightarrow> bool" where
  "stored_le a b \<longleftrightarrow> now_string a \<le> now_string b"

text \<open>\<open>ORDER BY\<close> a timestamp column, ascending and descending, ties in rowid order.\<close>

definition order_asc :: "('r \<Rightarrow> time) \<Rightarrow> 'r list \<Rightarrow> 'r list" where
  "order_asc f rows = sort_key (\<lambda>r. now_string (f r)) rows"

definition order_desc :: "('r \<Rightarrow> time) \<Rightarrow> 'r list \<Rightarrow> 'r list" where
  "order_desc f rows = rev (sort_key (\<lambda>r. now_string (f r)) (rev rows))"

section \<open>Reading back what was written\<close>

lemma length_digits [simp]: "length (digits k n) = k"
  by (induction k n rule: digits.induct) auto

lemma digits_less: "d \<in> set (digits k n) \<Longrightarrow> d < 10"
  by (induction k n rule: digits.induct) auto

lemma digits_value: "n < 10 ^ k \<Longrightarrow> foldl (\<lambda>n d. 10 * n + d) 0 (digits k n) = n"
proof (induction k n rule: digits.induct)
  case (1 n)
  then show ?case by simp
next
  case (2 k n)
  then have "n div 10 < 10 ^ k" by (simp add: less_mult_imp_div_less mult.commute)
  with 2 show ?case by simp
qed

lemma char_digit_inverse: "d < 10 \<Longrightarrow> char_digit (digit_char d) = d"
  by (simp add: char_digit_def digit_char_def)

lemma trim_right_pad:
  "trim_right (\<lambda>c. c = x) s @ replicate (length s - length (trim_right (\<lambda>c. c = x) s)) x = s"
proof -
  let ?r = "rev s"
  have t: "takeWhile (\<lambda>c. c = x) ?r = replicate (length (takeWhile (\<lambda>c. c = x) ?r)) x"
    by (rule replicate_eqI) (auto dest: set_takeWhileD)
  have "length (takeWhile (\<lambda>c. c = x) ?r) = length s - length (dropWhile (\<lambda>c. c = x) ?r)"
    by (metis add_diff_cancel_right' length_append length_rev takeWhile_dropWhile_id)
  with t have "s = rev (dropWhile (\<lambda>c. c = x) ?r) @
      rev (replicate (length s - length (dropWhile (\<lambda>c. c = x) ?r)) x)"
    by (metis rev_append rev_rev_ident takeWhile_dropWhile_id)
  then show ?thesis by (simp add: trim_right_def)
qed

lemma length_trim_right: "length (trim_right p s) \<le> length s"
  using length_dropWhile_le[of p "rev s"] by (simp add: trim_right_def)

lemma frac_value_text: "n < 10 ^ 9 \<Longrightarrow> frac_value (frac_text n) = n"
proof -
  assume n: "n < 10 ^ 9"
  show "frac_value (frac_text n) = n"
  proof (cases "n = 0")
    case True
    then show ?thesis by (simp add: frac_value_def frac_text_def)
  next
    case False
    let ?s = "map digit_char (digits 9 n)" and ?p = "\<lambda>c. c = CHR ''0''"
    have z: "CHR ''0'' = digit_char 0" by code_simp
    have len: "length ?s = 9" by simp
    have "map char_digit (trim_right ?p ?s) @ replicate (9 - length (trim_right ?p ?s)) 0 =
        map char_digit (trim_right ?p ?s @ replicate (length ?s - length (trim_right ?p ?s)) (CHR ''0''))"
      unfolding len by (simp add: z char_digit_inverse)
    also have "\<dots> = map char_digit ?s" by (simp only: trim_right_pad)
    also have "\<dots> = digits 9 n" by (simp add: char_digit_inverse digits_less map_idI)
    finally have pad: "map char_digit (trim_right ?p ?s) @ replicate (9 - length (trim_right ?p ?s)) 0 = digits 9 n" .
    have "frac_value (frac_text n) = foldl (\<lambda>n d. 10 * n + d) 0
        (map char_digit (trim_right ?p ?s) @ replicate (9 - length (trim_right ?p ?s)) 0)"
      using False by (simp add: frac_value_def frac_text_def butlast_append Let_def del: foldl_append)
    then show ?thesis unfolding pad using digits_value[OF n] by simp
  qed
qed

lemma parse_time_now_string: "parse_time (now_string t) = t"
proof -
  have "t mod second < 10 ^ 9" "t mod second \<ge> 0"
    by (simp_all add: second_def)
  then have "frac_value (frac_text (nat (t mod second))) = nat (t mod second)"
    by (intro frac_value_text) (simp add: nat_less_iff)
  then show ?thesis using \<open>t mod second \<ge> 0\<close>
    by (simp add: parse_time_def now_string_def mult.commute)
qed

lemma now_string_inject [simp]: "now_string a = now_string b \<longleftrightarrow> a = b"
  by (metis parse_time_now_string)

section \<open>The order of stored timestamps\<close>

lemma stored_le_linear: "stored_le a b \<or> stored_le b a"
  by (auto simp: stored_le_def)

lemma stored_le_trans: "stored_le a b \<Longrightarrow> stored_le b c \<Longrightarrow> stored_le a c"
  by (auto simp: stored_le_def)

lemma stored_less_le: "stored_less a b \<longleftrightarrow> \<not> stored_le b a"
  by (auto simp: stored_less_def stored_le_def)

lemma stored_refl [simp]: "stored_le a a" "\<not> stored_less a a"
  by (auto simp: stored_less_def stored_le_def)

lemma stored_seconds:
  assumes "a div second \<noteq> b div second"
  shows "stored_le a b \<longleftrightarrow> a \<le> b" and "stored_less a b \<longleftrightarrow> a < b"
proof -
  have "a div second < b div second \<longleftrightarrow> a < b" using assms
    by (metis linorder_neqE_linordered_idom not_less_iff_gr_or_eq order_le_less second_def
        zdiv_mono1 zero_less_numeral not_le)
  then show "stored_le a b \<longleftrightarrow> a \<le> b" "stored_less a b \<longleftrightarrow> a < b"
    using assms by (auto simp: stored_le_def stored_less_def now_string_def less_prod_def' less_eq_prod_def)
qed

lemma set_order [simp]:
  "set (order_asc f rows) = set rows" "set (order_desc f rows) = set rows"
  by (simp_all add: order_asc_def order_desc_def)

lemma length_order [simp]:
  "length (order_asc f rows) = length rows" "length (order_desc f rows) = length rows"
  by (simp_all add: order_asc_def order_desc_def)

lemma order_empty [simp]: "order_desc f rows = [] \<longleftrightarrow> rows = []" "order_asc f rows = [] \<longleftrightarrow> rows = []"
  using length_order[of f rows] by (auto simp del: length_order)

lemma order_desc_hd:
  assumes "r \<in> set rows"
  shows "stored_le (f r) (f (hd (order_desc f rows)))"
proof -
  let ?s = "sort_key (\<lambda>r. now_string (f r)) (rev rows)"
  have ne: "?s \<noteq> []" using assms by (metis empty_iff empty_set set_rev set_sort)
  have "sorted (map (\<lambda>r. now_string (f r)) ?s)" by simp
  moreover have "butlast ?s @ [last ?s] = ?s" using ne by simp
  ultimately have "sorted (map (\<lambda>r. now_string (f r)) (butlast ?s) @ [now_string (f (last ?s))])"
    by (metis list.simps(8) list.simps(9) map_append)
  then have "\<forall>x \<in> set (butlast ?s). now_string (f x) \<le> now_string (f (last ?s))"
    by (simp add: sorted_append)
  moreover have "r \<in> set (butlast ?s @ [last ?s])" using assms \<open>butlast ?s @ [last ?s] = ?s\<close> by simp
  ultimately have "now_string (f r) \<le> now_string (f (last ?s))" by auto
  then show ?thesis by (simp add: stored_le_def order_desc_def hd_rev ne)
qed

end
