(* ===== verification/Store.thy ===== *)
theory Store
  imports Domain Timestamps
begin

text \<open>
  The state every service shares: the SQLite tables behind \<open>internal/db\<close>, the messages
  published on the event bus, the clock and the number of uuids issued. One definition per
  repository method, with the constraints of the migrations that can make it fail: primary keys
  and unique indexes (\<open>domain.ErrConflict\<close>), foreign keys (an error carrying SQLite's
  "FOREIGN KEY constraint" text) and \<open>domain.ErrNotFound\<close> when no row matches. Disk failures,
  the users table and its foreign keys are not modelled.
\<close>

section \<open>The world\<close>

text \<open>The bus messages the modelled services publish, with the fields of their JSON payloads.\<close>

datatype message =
    PipelineStateMsg id id string
  | RunEndedMsg id "id option" run_outcome id
  | SessionStateMsg id session_state
  | SessionEventMsg id nat harness_event
  | SessionStatsMsg id int usd int int nat nat
  | ApprovalCreatedMsg id approval
  | ApprovalDecidedMsg id approval

text \<open>A notification handed to \<open>Notifier.Publish\<close> (\<open>notify.Event\<close>).\<close>

record notice =
  nc_kind :: string
  nc_title :: string
  nc_body :: string
  nc_url :: string
  nc_priority :: nat
  nc_tags :: "string list"

text \<open>
  Besides the tables, the world holds what the services keep in memory: the sessions service's
  live processes (the owner of each, what was written to it), the closing and starting marks and the
  slots taken; the run engine's once-sets and loop variables; and the notifications sent.
\<close>

record world =
  wd_now :: time
  wd_uuids :: nat
  wd_workspaces :: "workspace list"
  wd_templates :: "tmpl list"
  wd_pipelines :: "pipeline list"
  wd_pipeline_runs :: "pipeline_run list"
  wd_step_runs :: "step_run list"
  wd_runs :: "run list"
  wd_loops :: "loop list"
  wd_triggers :: "trigger list"
  wd_deliveries :: "delivery list"
  wd_schedules :: "schedule list"
  wd_firings :: "firing list"
  wd_sessions :: "session list"
  wd_approvals :: "approval list"
  wd_profiles :: "profile list"
  wd_access :: "(id \<times> id) list"
  wd_events :: "event_row list"
  wd_comments :: "review_comment list"
  wd_checkpoints :: "checkpoint list"
  wd_audit :: "audit_entry list"
  wd_procs :: "(id \<times> id option) list"
  wd_closing :: "id list"
  wd_starting :: "id list"
  wd_slots :: nat
  wd_calls :: "(id \<times> process_call) list"
  wd_notified :: "id list"
  wd_completed :: "id list"
  wd_loop_vars :: "(id \<times> vars) list"
  wd_notices :: "notice list"
  wd_bus :: "message list"

type_synonym 'a result = "(error + 'a) \<times> world"

text \<open>\<open>uuid.NewString()\<close>: the n-th id of a sequence the environment fixes.\<close>

definition new_uuid :: "(nat \<Rightarrow> id) \<Rightarrow> world \<Rightarrow> id \<times> world" where
  "new_uuid uuid w = (uuid (wd_uuids w), w\<lparr>wd_uuids := Suc (wd_uuids w)\<rparr>)"

definition publish :: "message \<Rightarrow> world \<Rightarrow> world" where
  "publish m w = w\<lparr>wd_bus := wd_bus w @ [m]\<rparr>"

text \<open>A nullable foreign key holds when it is NULL or names an existing row.\<close>

definition fk :: "('r \<Rightarrow> id) \<Rightarrow> 'r list \<Rightarrow> id option \<Rightarrow> bool" where
  "fk key rows ref = (case ref of None \<Rightarrow> True | Some i \<Rightarrow> i \<in> key ` set rows)"

definition empty_to_null :: "string \<Rightarrow> string option" where
  "empty_to_null s = (if s = [] then None else Some s)"

definition null_to_empty :: "string option \<Rightarrow> string" where
  "null_to_empty s = (case s of None \<Rightarrow> [] | Some x \<Rightarrow> x)"

lemma fk_simps [simp]: "fk key rows None" "fk key rows (Some i) \<longleftrightarrow> i \<in> key ` set rows"
  by (simp_all add: fk_def)

text \<open>The rows a non-admin may see are their own and the shared ones.\<close>

definition list_visible :: "('r \<Rightarrow> id option) \<Rightarrow> ('r \<Rightarrow> string) \<Rightarrow> id \<Rightarrow> bool \<Rightarrow> 'r list \<Rightarrow> 'r list" where
  "list_visible owner name user admin rows =
     sort_key name (filter (\<lambda>r. admin \<or> owner r = None \<or> owner r = Some user) rows)"

definition found :: "'a option \<Rightarrow> error + 'a" where
  "found r = (case r of None \<Rightarrow> Inl ErrNotFound | Some x \<Rightarrow> Inr x)"

lemma found_simps [simp]: "found (Some x) = Inr x" "found None = Inl ErrNotFound"
  by (simp_all add: found_def)

lemma found_Inr: "found r = Inr x \<longleftrightarrow> r = Some x"
  by (cases r) simp_all

lemma found_Inl: "found r = Inl e \<longleftrightarrow> r = None \<and> e = ErrNotFound"
  by (cases r) auto

section \<open>Workspaces and sessions, as read by the other services\<close>

definition workspaces_get :: "id \<Rightarrow> world \<Rightarrow> error + workspace" where
  "workspaces_get i w = found (tbl_get ws_id i (wd_workspaces w))"

definition sessions_get :: "id \<Rightarrow> world \<Rightarrow> error + session" where
  "sessions_get i w = found (tbl_get se_id i (wd_sessions w))"

section \<open>Templates (db/templates.go)\<close>

text \<open>The unique index over \<open>COALESCE(owner_user_id, '')\<close> and the name.\<close>

definition owner_name_taken :: "('r \<Rightarrow> id) \<Rightarrow> ('r \<Rightarrow> id option) \<Rightarrow> ('r \<Rightarrow> string) \<Rightarrow> 'r \<Rightarrow> 'r list \<Rightarrow> bool" where
  "owner_name_taken key owner name r rows =
     (\<exists>r' \<in> set rows. key r' \<noteq> key r \<and> null_to_empty (owner r') = null_to_empty (owner r) \<and> name r' = name r)"

definition templates_create :: "tmpl \<Rightarrow> world \<Rightarrow> unit result" where
  "templates_create t w =
     (if tp_id t \<in> tp_id ` set (wd_templates w) \<or> owner_name_taken tp_id tp_owner tp_name t (wd_templates w)
      then (Inl (ErrConflict []), w)
      else if \<not> fk ws_id (wd_workspaces w) (Some (tp_workspace t)) then (Inl ErrForeignKey, w)
      else (Inr (), w\<lparr>wd_templates := wd_templates w @ [t]\<rparr>))"

definition templates_get :: "id \<Rightarrow> world \<Rightarrow> error + tmpl" where
  "templates_get i w = found (tbl_get tp_id i (wd_templates w))"

definition templates_list_visible :: "id \<Rightarrow> bool \<Rightarrow> world \<Rightarrow> tmpl list" where
  "templates_list_visible user admin w = list_visible tp_owner tp_name user admin (wd_templates w)"

definition templates_update :: "tmpl \<Rightarrow> world \<Rightarrow> unit result" where
  "templates_update t w =
     (if tp_id t \<notin> tp_id ` set (wd_templates w) then (Inl ErrNotFound, w)
      else if owner_name_taken tp_id tp_owner tp_name t (wd_templates w) then (Inl (ErrConflict []), w)
      else if \<not> fk ws_id (wd_workspaces w) (Some (tp_workspace t)) then (Inl ErrForeignKey, w)
      else (Inr (), w\<lparr>wd_templates :=
        tbl_update tp_id (tp_id t) (\<lambda>r. t\<lparr>tp_created := tp_created r\<rparr>) (wd_templates w)\<rparr>))"

text \<open>Triggers, schedules, loops and runs reference a template without a cascade.\<close>

definition templates_delete :: "id \<Rightarrow> world \<Rightarrow> unit result" where
  "templates_delete i w =
     (if i \<notin> tp_id ` set (wd_templates w) then (Inl ErrNotFound, w)
      else if i \<in> tr_template ` set (wd_triggers w) \<or> i \<in> sc_template ` set (wd_schedules w) \<or>
        i \<in> lp_template ` set (wd_loops w) \<or> Some i \<in> rn_template ` set (wd_runs w)
      then (Inl ErrForeignKey, w)
      else (Inr (), w\<lparr>wd_templates := tbl_delete tp_id i (wd_templates w)\<rparr>))"

section \<open>Pipelines (db/pipelines.go)\<close>

definition pipelines_create :: "pipeline \<Rightarrow> world \<Rightarrow> unit result" where
  "pipelines_create p w =
     (if pl_id p \<in> pl_id ` set (wd_pipelines w) \<or> owner_name_taken pl_id pl_owner pl_name p (wd_pipelines w)
      then (Inl (ErrConflict []), w)
      else if \<not> fk ws_id (wd_workspaces w) (Some (pl_workspace p)) then (Inl ErrForeignKey, w)
      else (Inr (), w\<lparr>wd_pipelines := wd_pipelines w @ [p]\<rparr>))"

definition pipelines_get :: "id \<Rightarrow> world \<Rightarrow> error + pipeline" where
  "pipelines_get i w = found (tbl_get pl_id i (wd_pipelines w))"

definition pipelines_get_by_name :: "id \<Rightarrow> string \<Rightarrow> world \<Rightarrow> error + pipeline" where
  "pipelines_get_by_name ws name w =
     found (find (\<lambda>p. pl_workspace p = ws \<and> pl_name p = name) (wd_pipelines w))"

definition pipelines_list_visible :: "id \<Rightarrow> bool \<Rightarrow> world \<Rightarrow> pipeline list" where
  "pipelines_list_visible user admin w = list_visible pl_owner pl_name user admin (wd_pipelines w)"

definition pipelines_update :: "pipeline \<Rightarrow> world \<Rightarrow> unit result" where
  "pipelines_update p w =
     (if pl_id p \<notin> pl_id ` set (wd_pipelines w) then (Inl ErrNotFound, w)
      else if owner_name_taken pl_id pl_owner pl_name p (wd_pipelines w) then (Inl (ErrConflict []), w)
      else if \<not> fk ws_id (wd_workspaces w) (Some (pl_workspace p)) then (Inl ErrForeignKey, w)
      else (Inr (), w\<lparr>wd_pipelines :=
        tbl_update pl_id (pl_id p) (\<lambda>r. p\<lparr>pl_created := pl_created r\<rparr>) (wd_pipelines w)\<rparr>))"

text \<open>
  \<open>DELETE FROM pipelines\<close>: pipeline runs and their step runs go by cascade; a run that references
  a deleted step run, or a trigger or schedule that references the pipeline, has no cascade and
  makes the statement fail.
\<close>

definition pipelines_delete :: "id \<Rightarrow> world \<Rightarrow> unit result" where
  "pipelines_delete i w =
     (let prs = pr_id ` set (filter (\<lambda>r. pr_pipeline r = i) (wd_pipeline_runs w));
          srs = sr_id ` set (filter (\<lambda>s. sr_pipeline_run s \<in> prs) (wd_step_runs w))
      in if i \<notin> pl_id ` set (wd_pipelines w) then (Inl ErrNotFound, w)
         else if (\<exists>r \<in> set (wd_runs w). case rn_step_run r of Some s \<Rightarrow> s \<in> srs | None \<Rightarrow> False) \<or>
           Some i \<in> tr_pipeline ` set (wd_triggers w) \<or> Some i \<in> sc_pipeline ` set (wd_schedules w)
         then (Inl ErrForeignKey, w)
         else (Inr (), w\<lparr>wd_pipelines := tbl_delete pl_id i (wd_pipelines w),
           wd_pipeline_runs := filter (\<lambda>r. pr_pipeline r \<noteq> i) (wd_pipeline_runs w),
           wd_step_runs := filter (\<lambda>s. sr_pipeline_run s \<notin> prs) (wd_step_runs w)\<rparr>))"

section \<open>Pipeline runs (db/pipeline\_runs.go)\<close>

definition raw_or_empty_object :: "string \<Rightarrow> string" where
  "raw_or_empty_object raw = (if raw = [] then ''{}'' else raw)"

definition pipeline_runs_create :: "pipeline_run \<Rightarrow> world \<Rightarrow> unit result" where
  "pipeline_runs_create r w =
     (if pr_id r \<in> pr_id ` set (wd_pipeline_runs w) then (Inl (ErrConflict []), w)
      else if \<not> fk pl_id (wd_pipelines w) (Some (pr_pipeline r)) then (Inl ErrForeignKey, w)
      else (Inr (), w\<lparr>wd_pipeline_runs :=
        wd_pipeline_runs w @ [r\<lparr>pr_input := raw_or_empty_object (pr_input r)\<rparr>]\<rparr>))"

definition pipeline_runs_get :: "id \<Rightarrow> world \<Rightarrow> error + pipeline_run" where
  "pipeline_runs_get i w = found (tbl_get pr_id i (wd_pipeline_runs w))"

record pipeline_run_filter =
  prf_pipeline :: id
  prf_state :: "pipeline_run_state option"
  prf_limit :: int

definition list_limit :: "int \<Rightarrow> nat" where
  "list_limit n = (if n \<le> 0 then 100 else nat n)"

definition pipeline_runs_list :: "pipeline_run_filter \<Rightarrow> world \<Rightarrow> pipeline_run list" where
  "pipeline_runs_list f w =
     take (list_limit (prf_limit f)) (order_desc pr_started
       (filter (\<lambda>r. (prf_pipeline f = [] \<or> pr_pipeline r = prf_pipeline f) \<and>
          (case prf_state f of None \<Rightarrow> True | Some s \<Rightarrow> pr_state r = s)) (wd_pipeline_runs w)))"

definition pipeline_runs_finish :: "id \<Rightarrow> pipeline_run_state \<Rightarrow> usd \<Rightarrow> world \<Rightarrow> unit result" where
  "pipeline_runs_finish i s cost w =
     (if i \<notin> pr_id ` set (wd_pipeline_runs w) then (Inl ErrNotFound, w)
      else (Inr (), w\<lparr>wd_pipeline_runs :=
        tbl_update pr_id i (\<lambda>r. r\<lparr>pr_finished := Some (wd_now w), pr_state := s, pr_cost := cost\<rparr>)
          (wd_pipeline_runs w)\<rparr>))"

definition pipeline_runs_running_older_than :: "time \<Rightarrow> world \<Rightarrow> pipeline_run list" where
  "pipeline_runs_running_older_than t w =
     order_asc pr_started
       (filter (\<lambda>r. pr_state r = PipelineRunRunning \<and> stored_less (pr_started r) t) (wd_pipeline_runs w))"

definition pipeline_runs_reopen :: "id \<Rightarrow> world \<Rightarrow> unit result" where
  "pipeline_runs_reopen i w =
     (if i \<notin> pr_id ` set (wd_pipeline_runs w) then (Inl ErrNotFound, w)
      else (Inr (), w\<lparr>wd_pipeline_runs :=
        tbl_update pr_id i (\<lambda>r. r\<lparr>pr_state := PipelineRunRunning, pr_finished := None\<rparr>)
          (wd_pipeline_runs w)\<rparr>))"

section \<open>Step runs (db/step\_runs.go)\<close>

definition step_runs_create :: "step_run \<Rightarrow> world \<Rightarrow> unit result" where
  "step_runs_create s w =
     (if sr_id s \<in> sr_id ` set (wd_step_runs w) then (Inl (ErrConflict []), w)
      else if \<not> fk pr_id (wd_pipeline_runs w) (Some (sr_pipeline_run s)) \<or> \<not> fk rn_id (wd_runs w) (sr_run s)
      then (Inl ErrForeignKey, w)
      else (Inr (), w\<lparr>wd_step_runs := wd_step_runs w @ [s]\<rparr>))"

definition step_runs_get :: "id \<Rightarrow> world \<Rightarrow> error + step_run" where
  "step_runs_get i w = found (tbl_get sr_id i (wd_step_runs w))"

definition step_runs_of :: "id \<Rightarrow> world \<Rightarrow> step_run list" where
  "step_runs_of prid w = filter (\<lambda>s. sr_pipeline_run s = prid) (wd_step_runs w)"

definition step_runs_update ::
  "id \<Rightarrow> step_run_state \<Rightarrow> id option \<Rightarrow> string \<Rightarrow> string \<Rightarrow> time option \<Rightarrow> time option \<Rightarrow> world \<Rightarrow> unit result" where
  "step_runs_update i s rid report worktree started finished w =
     (if i \<notin> sr_id ` set (wd_step_runs w) then (Inl ErrNotFound, w)
      else if \<not> fk rn_id (wd_runs w) rid then (Inl ErrForeignKey, w)
      else (Inr (), w\<lparr>wd_step_runs :=
        tbl_update sr_id i (\<lambda>r. r\<lparr>sr_state := s, sr_run := rid, sr_report := report, sr_worktree := worktree,
          sr_started := started, sr_finished := finished\<rparr>) (wd_step_runs w)\<rparr>))"

definition step_runs_get_by_run :: "id \<Rightarrow> world \<Rightarrow> error + step_run" where
  "step_runs_get_by_run rid w = found (find (\<lambda>s. sr_run s = Some rid) (wd_step_runs w))"

section \<open>Runs (db/runs.go)\<close>

definition runs_create :: "run \<Rightarrow> world \<Rightarrow> unit result" where
  "runs_create r w =
     (if rn_id r \<in> rn_id ` set (wd_runs w) then (Inl (ErrConflict []), w)
      else if \<not> fk se_id (wd_sessions w) (Some (rn_session r)) \<or> \<not> fk tp_id (wd_templates w) (rn_template r) \<or>
        \<not> fk tr_id (wd_triggers w) (rn_trigger r) \<or> \<not> fk dl_id (wd_deliveries w) (rn_delivery r) \<or>
        \<not> fk lp_id (wd_loops w) (empty_to_null (rn_loop r)) \<or> \<not> fk sr_id (wd_step_runs w) (rn_step_run r)
      then (Inl ErrForeignKey, w)
      else (Inr (), w\<lparr>wd_runs := wd_runs w @ [r]\<rparr>))"

definition runs_get :: "id \<Rightarrow> world \<Rightarrow> error + run" where
  "runs_get i w = found (tbl_get rn_id i (wd_runs w))"

text \<open>\<open>ORDER BY iteration DESC, started_at DESC LIMIT 1\<close>.\<close>

definition runs_get_by_session :: "id \<Rightarrow> world \<Rightarrow> error + run" where
  "runs_get_by_session sid w =
     (case rev (sort_key (\<lambda>r. (int (rn_iteration r), now_string (rn_started r)))
              (rev (filter (\<lambda>r. rn_session r = sid) (wd_runs w)))) of
        [] \<Rightarrow> Inl ErrNotFound | r # _ \<Rightarrow> Inr r)"

record run_filter =
  rf_outcome :: "run_outcome option"
  rf_trigger :: id
  rf_loop :: id
  rf_limit :: int

definition runs_list :: "run_filter \<Rightarrow> world \<Rightarrow> run list" where
  "runs_list f w =
     take (list_limit (rf_limit f)) (order_desc rn_started
       (filter (\<lambda>r. (case rf_outcome f of None \<Rightarrow> True | Some oc \<Rightarrow> rn_outcome r = oc) \<and>
          (rf_trigger f = [] \<or> rn_trigger r = Some (rf_trigger f)) \<and>
          (rf_loop f = [] \<or> rn_loop r = rf_loop f)) (wd_runs w)))"

definition runs_list_by_loop :: "id \<Rightarrow> world \<Rightarrow> run list" where
  "runs_list_by_loop l w =
     sort_key (\<lambda>r. (int (rn_iteration r), now_string (rn_started r)))
       (filter (\<lambda>r. empty_to_null (rn_loop r) = Some l) (wd_runs w))"

definition runs_finish :: "id \<Rightarrow> run_outcome \<Rightarrow> string \<Rightarrow> string \<Rightarrow> usd \<Rightarrow> world \<Rightarrow> unit result" where
  "runs_finish i oc report summary cost w =
     (if i \<notin> rn_id ` set (wd_runs w) then (Inl ErrNotFound, w)
      else (Inr (), w\<lparr>wd_runs :=
        tbl_update rn_id i (\<lambda>r. r\<lparr>rn_finished := Some (wd_now w), rn_outcome := oc, rn_report := report,
          rn_summary := summary, rn_cost := cost\<rparr>) (wd_runs w)\<rparr>))"

definition runs_running_older_than :: "time \<Rightarrow> world \<Rightarrow> run list" where
  "runs_running_older_than t w =
     order_asc rn_started (filter (\<lambda>r. rn_outcome r = RunRunning \<and> stored_less (rn_started r) t) (wd_runs w))"

section \<open>Loops (db/loops.go)\<close>

definition loops_create :: "loop \<Rightarrow> world \<Rightarrow> unit result" where
  "loops_create l w =
     (if lp_id l \<in> lp_id ` set (wd_loops w) then (Inl (ErrConflict []), w)
      else if \<not> fk tp_id (wd_templates w) (Some (lp_template l)) \<or> \<not> fk se_id (wd_sessions w) (lp_session l)
      then (Inl ErrForeignKey, w)
      else (Inr (), w\<lparr>wd_loops := wd_loops w @ [l]\<rparr>))"

definition loops_get :: "id \<Rightarrow> world \<Rightarrow> error + loop" where
  "loops_get i w = found (tbl_get lp_id i (wd_loops w))"

definition loops_list :: "loop_state option \<Rightarrow> int \<Rightarrow> world \<Rightarrow> loop list" where
  "loops_list s limit w =
     take (list_limit limit) (order_desc lp_created
       (filter (\<lambda>l. case s of None \<Rightarrow> True | Some st \<Rightarrow> lp_state l = st) (wd_loops w)))"

definition loops_update :: "id \<Rightarrow> loop_state \<Rightarrow> nat \<Rightarrow> id option \<Rightarrow> world \<Rightarrow> unit result" where
  "loops_update i s iteration sid w =
     (if i \<notin> lp_id ` set (wd_loops w) then (Inl ErrNotFound, w)
      else if \<not> fk se_id (wd_sessions w) sid then (Inl ErrForeignKey, w)
      else (Inr (), w\<lparr>wd_loops :=
        tbl_update lp_id i (\<lambda>l. l\<lparr>lp_state := s, lp_iteration := iteration, lp_updated := wd_now w,
          lp_session := (case sid of None \<Rightarrow> lp_session l | Some x \<Rightarrow> Some x)\<rparr>) (wd_loops w)\<rparr>))"

section \<open>Triggers (db/triggers.go)\<close>

definition triggers_create :: "trigger \<Rightarrow> world \<Rightarrow> unit result" where
  "triggers_create t w =
     (if tr_id t \<in> tr_id ` set (wd_triggers w) \<or> tr_slug t \<in> tr_slug ` set (wd_triggers w)
      then (Inl (ErrConflict []), w)
      else if \<not> fk tp_id (wd_templates w) (empty_to_null (tr_template t)) \<or>
        \<not> fk pl_id (wd_pipelines w) (tr_pipeline t)
      then (Inl ErrForeignKey, w)
      else (Inr (), w\<lparr>wd_triggers := wd_triggers w @ [t]\<rparr>))"

definition triggers_get :: "id \<Rightarrow> world \<Rightarrow> error + trigger" where
  "triggers_get i w = found (tbl_get tr_id i (wd_triggers w))"

definition triggers_get_by_slug :: "string \<Rightarrow> world \<Rightarrow> error + trigger" where
  "triggers_get_by_slug slug w = found (find (\<lambda>t. tr_slug t = slug) (wd_triggers w))"

definition triggers_list_visible :: "id \<Rightarrow> bool \<Rightarrow> world \<Rightarrow> trigger list" where
  "triggers_list_visible user admin w = list_visible tr_owner tr_name user admin (wd_triggers w)"

text \<open>
  \<open>Update\<close> writes \<open>template_id\<close> as it is: an empty id is not turned into NULL as \<open>Create\<close> does,
  so the foreign key is checked against the empty string.
\<close>

definition triggers_update :: "trigger \<Rightarrow> world \<Rightarrow> unit result" where
  "triggers_update t w =
     (if tr_id t \<notin> tr_id ` set (wd_triggers w) then (Inl ErrNotFound, w)
      else if \<not> fk tp_id (wd_templates w) (Some (tr_template t)) \<or> \<not> fk pl_id (wd_pipelines w) (tr_pipeline t)
      then (Inl ErrForeignKey, w)
      else (Inr (), w\<lparr>wd_triggers :=
        tbl_update tr_id (tr_id t) (\<lambda>r. r\<lparr>tr_owner := tr_owner t, tr_name := tr_name t, tr_kind := tr_kind t,
          tr_template := tr_template t, tr_pipeline := tr_pipeline t, tr_enabled := tr_enabled t,
          tr_dedupe_template := tr_dedupe_template t, tr_cooldown_s := tr_cooldown_s t,
          tr_storm_cap := tr_storm_cap t, tr_run_on_resolved := tr_run_on_resolved t,
          tr_updated := tr_updated t\<rparr>) (wd_triggers w)\<rparr>))"

text \<open>Deliveries go by cascade; a run that references the trigger or one of them does not.\<close>

definition triggers_delete :: "id \<Rightarrow> world \<Rightarrow> unit result" where
  "triggers_delete i w =
     (let dls = dl_id ` set (filter (\<lambda>d. dl_trigger d = i) (wd_deliveries w))
      in if i \<notin> tr_id ` set (wd_triggers w) then (Inl ErrNotFound, w)
         else if (\<exists>r \<in> set (wd_runs w). rn_trigger r = Some i \<or>
           (case rn_delivery r of Some d \<Rightarrow> d \<in> dls | None \<Rightarrow> False))
         then (Inl ErrForeignKey, w)
         else (Inr (), w\<lparr>wd_triggers := tbl_delete tr_id i (wd_triggers w),
           wd_deliveries := filter (\<lambda>d. dl_trigger d \<noteq> i) (wd_deliveries w)\<rparr>))"

definition triggers_set_secret :: "id \<Rightarrow> string \<Rightarrow> string \<Rightarrow> world \<Rightarrow> unit result" where
  "triggers_set_secret i hash hint w =
     (if i \<notin> tr_id ` set (wd_triggers w) then (Inl ErrNotFound, w)
      else (Inr (), w\<lparr>wd_triggers :=
        tbl_update tr_id i (\<lambda>r. r\<lparr>tr_secret_hash := hash, tr_secret_hint := hint\<rparr>) (wd_triggers w)\<rparr>))"

definition triggers_touch_delivery :: "id \<Rightarrow> time \<Rightarrow> world \<Rightarrow> unit result" where
  "triggers_touch_delivery i ts w =
     (if i \<notin> tr_id ` set (wd_triggers w) then (Inl ErrNotFound, w)
      else (Inr (), w\<lparr>wd_triggers :=
        tbl_update tr_id i (\<lambda>r. r\<lparr>tr_last_delivery := Some ts\<rparr>) (wd_triggers w)\<rparr>))"

section \<open>Deliveries (db/deliveries.go)\<close>

definition deliveries_create :: "delivery \<Rightarrow> world \<Rightarrow> unit result" where
  "deliveries_create d w =
     (if dl_id d \<in> dl_id ` set (wd_deliveries w) then (Inl (ErrConflict []), w)
      else if \<not> fk tr_id (wd_triggers w) (Some (dl_trigger d)) then (Inl ErrForeignKey, w)
      else (Inr (), w\<lparr>wd_deliveries := wd_deliveries w @ [d]\<rparr>))"

definition deliveries_get :: "id \<Rightarrow> world \<Rightarrow> error + delivery" where
  "deliveries_get i w = found (tbl_get dl_id i (wd_deliveries w))"

definition deliveries_list_by_trigger :: "id \<Rightarrow> nat \<Rightarrow> world \<Rightarrow> delivery list" where
  "deliveries_list_by_trigger tid limit w =
     take limit (order_desc dl_received (filter (\<lambda>d. dl_trigger d = tid) (wd_deliveries w)))"

definition deliveries_count_since :: "id \<Rightarrow> time \<Rightarrow> delivery_status \<Rightarrow> world \<Rightarrow> nat" where
  "deliveries_count_since tid since st w =
     length (filter (\<lambda>d. dl_trigger d = tid \<and> stored_le since (dl_received d) \<and> dl_status d = st)
       (wd_deliveries w))"

definition deliveries_last_accepted :: "id \<Rightarrow> string \<Rightarrow> world \<Rightarrow> error + delivery" where
  "deliveries_last_accepted tid key w =
     (case order_desc dl_received
         (filter (\<lambda>d. dl_trigger d = tid \<and> dl_dedupe_key d = key \<and> dl_status d = DeliveryAccepted)
           (wd_deliveries w)) of
        [] \<Rightarrow> Inl ErrNotFound | d # _ \<Rightarrow> Inr d)"

definition deliveries_set_run :: "id \<Rightarrow> id \<Rightarrow> world \<Rightarrow> unit result" where
  "deliveries_set_run i rid w =
     (if i \<notin> dl_id ` set (wd_deliveries w) then (Inl ErrNotFound, w)
      else (Inr (), w\<lparr>wd_deliveries :=
        tbl_update dl_id i (\<lambda>d. d\<lparr>dl_run := Some rid\<rparr>) (wd_deliveries w)\<rparr>))"

definition deliveries_set_status :: "id \<Rightarrow> delivery_status \<Rightarrow> delivery_reason \<Rightarrow> world \<Rightarrow> unit result" where
  "deliveries_set_status i st reason w =
     (if i \<notin> dl_id ` set (wd_deliveries w) then (Inl ErrNotFound, w)
      else (Inr (), w\<lparr>wd_deliveries :=
        tbl_update dl_id i (\<lambda>d. d\<lparr>dl_status := st, dl_reason := reason\<rparr>) (wd_deliveries w)\<rparr>))"

section \<open>Schedules and firings (db/schedules.go, db/schedule\_firings.go)\<close>

definition schedules_create :: "schedule \<Rightarrow> world \<Rightarrow> unit result" where
  "schedules_create s w =
     (if sc_id s \<in> sc_id ` set (wd_schedules w) then (Inl (ErrConflict []), w)
      else if \<not> fk tp_id (wd_templates w) (empty_to_null (sc_template s)) \<or>
        \<not> fk pl_id (wd_pipelines w) (sc_pipeline s)
      then (Inl ErrForeignKey, w)
      else (Inr (), w\<lparr>wd_schedules := wd_schedules w @ [s\<lparr>sc_vars := raw_or_empty_object (sc_vars s)\<rparr>]\<rparr>))"

definition schedules_get :: "id \<Rightarrow> world \<Rightarrow> error + schedule" where
  "schedules_get i w = found (tbl_get sc_id i (wd_schedules w))"

definition schedules_list_visible :: "id \<Rightarrow> bool \<Rightarrow> world \<Rightarrow> schedule list" where
  "schedules_list_visible user admin w = list_visible sc_owner sc_name user admin (wd_schedules w)"

definition schedules_list_due :: "time \<Rightarrow> world \<Rightarrow> schedule list" where
  "schedules_list_due now w =
     order_asc (\<lambda>s. case sc_next_run s of None \<Rightarrow> 0 | Some t \<Rightarrow> t)
       (filter (\<lambda>s. sc_enabled s \<and> (case sc_next_run s of None \<Rightarrow> False | Some t \<Rightarrow> stored_le t now))
         (wd_schedules w))"

definition schedules_update :: "schedule \<Rightarrow> world \<Rightarrow> unit result" where
  "schedules_update s w =
     (if sc_id s \<notin> sc_id ` set (wd_schedules w) then (Inl ErrNotFound, w)
      else if \<not> fk tp_id (wd_templates w) (empty_to_null (sc_template s)) \<or>
        \<not> fk pl_id (wd_pipelines w) (sc_pipeline s)
      then (Inl ErrForeignKey, w)
      else (Inr (), w\<lparr>wd_schedules :=
        tbl_update sc_id (sc_id s) (\<lambda>r. r\<lparr>sc_owner := sc_owner s, sc_name := sc_name s,
          sc_template := sc_template s, sc_pipeline := sc_pipeline s, sc_cron := sc_cron s,
          sc_enabled := sc_enabled s, sc_vars := raw_or_empty_object (sc_vars s),
          sc_updated := sc_updated s\<rparr>) (wd_schedules w)\<rparr>))"

definition schedules_delete :: "id \<Rightarrow> world \<Rightarrow> unit result" where
  "schedules_delete i w =
     (if i \<notin> sc_id ` set (wd_schedules w) then (Inl ErrNotFound, w)
      else (Inr (), w\<lparr>wd_schedules := tbl_delete sc_id i (wd_schedules w),
        wd_firings := filter (\<lambda>f. fr_schedule f \<noteq> i) (wd_firings w)\<rparr>))"

definition schedules_set_next_run :: "id \<Rightarrow> time option \<Rightarrow> world \<Rightarrow> unit result" where
  "schedules_set_next_run i nxt w =
     (if i \<notin> sc_id ` set (wd_schedules w) then (Inl ErrNotFound, w)
      else (Inr (), w\<lparr>wd_schedules :=
        tbl_update sc_id i (\<lambda>r. r\<lparr>sc_next_run := nxt\<rparr>) (wd_schedules w)\<rparr>))"

definition schedules_record_run :: "id \<Rightarrow> time \<Rightarrow> string \<Rightarrow> world \<Rightarrow> unit result" where
  "schedules_record_run i ts outcome w =
     (if i \<notin> sc_id ` set (wd_schedules w) then (Inl ErrNotFound, w)
      else (Inr (), w\<lparr>wd_schedules :=
        tbl_update sc_id i (\<lambda>r. r\<lparr>sc_last_run := Some ts, sc_last_outcome := outcome\<rparr>) (wd_schedules w)\<rparr>))"

definition firings_create :: "firing \<Rightarrow> world \<Rightarrow> unit result" where
  "firings_create f w =
     (if fr_id f \<in> fr_id ` set (wd_firings w) then (Inl (ErrOther ''UNIQUE constraint failed''), w)
      else if \<not> fk sc_id (wd_schedules w) (Some (fr_schedule f)) then (Inl ErrForeignKey, w)
      else (Inr (), w\<lparr>wd_firings := wd_firings w @ [f]\<rparr>))"

definition firings_list :: "id \<Rightarrow> nat \<Rightarrow> world \<Rightarrow> firing list" where
  "firings_list sid limit w =
     take limit (order_desc fr_fired (filter (\<lambda>f. fr_schedule f = sid) (wd_firings w)))"

definition firings_last_started :: "id \<Rightarrow> world \<Rightarrow> error + id" where
  "firings_last_started sid w =
     (case order_desc fr_fired
         (filter (\<lambda>f. fr_schedule f = sid \<and> fr_status f = FiringStarted) (wd_firings w)) of
        [] \<Rightarrow> Inl ErrNotFound
      | f # _ \<Rightarrow> (case fr_run f of None \<Rightarrow> Inl ErrNotFound
                 | Some r \<Rightarrow> if r = [] then Inl ErrNotFound else Inr r))"

end
