(* ===== verification/Access.thy ===== *)
theory Access
  imports Store
begin

text \<open>
  Who may see and change a row (\<open>visibleOwner\<close>, \<open>mutableBy\<close>, \<open>ownerFor\<close>, the same three functions
  in \<open>internal/pipelines\<close>, \<open>internal/triggers\<close> and \<open>internal/schedules\<close>), the laws of a repository
  keyed by id, and the services the others call through a Go interface: the run engine
  (\<open>RunStarter\<close>), the session service (\<open>SessionCloser\<close>), and the parts of the standard library and
  third-party packages a service is parameterised over.
\<close>

section \<open>Parameters\<close>

text \<open>
  \<open>uuid\<close> is the sequence of generated ids, \<open>render\<close> is \<open>templates.Render\<close> on top of
  \<open>text/template\<close> (an error text or the rendered text), \<open>unmarshal\<close> and \<open>marshal\<close> are
  \<open>encoding/json\<close> on an untyped value.
\<close>

record go_env =
  ge_uuid :: "nat \<Rightarrow> id"
  ge_render :: "string \<Rightarrow> vars \<Rightarrow> string + string"
  ge_unmarshal :: "string \<Rightarrow> json option"
  ge_marshal :: "json \<Rightarrow> string option"

text \<open>\<open>json.Unmarshal\<close> into a \<open>map[string]any\<close> and into a \<open>[]any\<close>: JSON null gives the nil value.\<close>

definition unmarshal_object :: "go_env \<Rightarrow> string \<Rightarrow> vars option" where
  "unmarshal_object env s =
     (case ge_unmarshal env s of Some (JObj kvs) \<Rightarrow> Some kvs | Some JNull \<Rightarrow> Some [] | _ \<Rightarrow> None)"

definition unmarshal_list :: "go_env \<Rightarrow> string \<Rightarrow> json list option" where
  "unmarshal_list env s =
     (case ge_unmarshal env s of Some (JArr xs) \<Rightarrow> Some xs | Some JNull \<Rightarrow> Some [] | _ \<Rightarrow> None)"

text \<open>The text of an error; the prefixes of wrapped errors are left out.\<close>

fun error_text :: "error \<Rightarrow> string" where
  "error_text ErrNotFound = ''not found''"
| "error_text (ErrConflict s) = (if s = [] then ''conflict'' else ''conflict: '' @ s)"
| "error_text ErrForbidden = ''forbidden''"
| "error_text (ErrInvalid s) = (if s = [] then ''invalid'' else ''invalid: '' @ s)"
| "error_text (ErrInvalidProblems ps) = ''invalid''"
| "error_text (ErrValidation ps) = ''invalid''"
| "error_text ErrUnknownTrigger = ''unknown trigger''"
| "error_text ErrBadSecret = ''bad secret''"
| "error_text ErrTooLarge = ''payload too large''"
| "error_text ErrForeignKey = ''FOREIGN KEY constraint failed''"
| "error_text (ErrOther s) = s"

section \<open>Actors\<close>

record actor =
  ac_user :: id
  ac_admin :: bool

definition service_actor :: actor where
  "service_actor = \<lparr>ac_user = [], ac_admin = True\<rparr>"

definition visible_owner :: "actor \<Rightarrow> id option \<Rightarrow> bool" where
  "visible_owner a owner \<longleftrightarrow> ac_admin a \<or> owner = None \<or> owner = Some (ac_user a)"

definition mutable_by :: "actor \<Rightarrow> id option \<Rightarrow> bool" where
  "mutable_by a owner \<longleftrightarrow> ac_admin a \<or> (owner \<noteq> None \<and> owner = Some (ac_user a))"

definition owner_for :: "actor \<Rightarrow> bool \<Rightarrow> id option" where
  "owner_for a shared = (if ac_admin a \<and> shared then None else Some (ac_user a))"

text \<open>
  \<open>GetX\<close> and \<open>mutableX\<close> of the three services: an invisible row reads as not found, a visible
  row of someone else as forbidden.
\<close>

definition get_visible ::
  "(id \<Rightarrow> world \<Rightarrow> error + 'r) \<Rightarrow> ('r \<Rightarrow> id option) \<Rightarrow> actor \<Rightarrow> id \<Rightarrow> world \<Rightarrow> error + 'r" where
  "get_visible get owner a i w =
     (case get i w of
        Inl e \<Rightarrow> Inl e
      | Inr r \<Rightarrow> if visible_owner a (owner r) then Inr r else Inl ErrNotFound)"

definition get_mutable ::
  "(id \<Rightarrow> world \<Rightarrow> error + 'r) \<Rightarrow> ('r \<Rightarrow> id option) \<Rightarrow> actor \<Rightarrow> id \<Rightarrow> world \<Rightarrow> error + 'r" where
  "get_mutable get owner a i w =
     (case get_visible get owner a i w of
        Inl e \<Rightarrow> Inl e
      | Inr r \<Rightarrow> if mutable_by a (owner r) then Inr r else Inl ErrForbidden)"

lemma mutable_imp_visible: "mutable_by a owner \<Longrightarrow> visible_owner a owner"
  by (auto simp: mutable_by_def visible_owner_def)

lemma owner_for_visible [simp]: "visible_owner a (owner_for a shared)"
  by (simp add: visible_owner_def owner_for_def)

lemma owner_for_mutable [simp]: "mutable_by a (owner_for a shared)"
  by (auto simp: mutable_by_def owner_for_def)

lemma service_actor_all [simp]: "visible_owner service_actor o'" "mutable_by service_actor o'"
  by (simp_all add: visible_owner_def mutable_by_def service_actor_def)

section \<open>Repositories keyed by id\<close>

text \<open>
  What the services rely on of a repository: \<open>Get\<close> reads the table by primary key, \<open>Create\<close>
  appends one row with the given key or changes nothing.
\<close>

locale keyed_repo =
  fixes key :: "'r \<Rightarrow> id"
    and rows :: "world \<Rightarrow> 'r list"
    and create :: "'r \<Rightarrow> world \<Rightarrow> unit result"
    and get :: "id \<Rightarrow> world \<Rightarrow> error + 'r"
  assumes get_rows: "get i w = found (tbl_get key i (rows w))"
    and create_ok: "create r w = (Inr u, w') \<Longrightarrow>
      \<exists>r'. key r' = key r \<and> key r \<notin> key ` set (rows w) \<and> rows w' = rows w @ [r']"
    and create_err: "create r w = (Inl e, w') \<Longrightarrow> w' = w"
begin

lemma get_row: "get i w = Inr r \<Longrightarrow> r \<in> set (rows w) \<and> key r = i"
  by (auto simp: get_rows found_Inr dest: tbl_get_Some)

lemma get_missing: "get i w = Inl e \<longleftrightarrow> e = ErrNotFound \<and> i \<notin> key ` set (rows w)"
  by (auto simp: get_rows found_Inl tbl_get_None)

lemma get_exists: "(\<exists>r. get i w = Inr r) \<longleftrightarrow> i \<in> key ` set (rows w)"
  by (metis get_missing old.sum.exhaust Inr_not_Inl)

lemma get_created:
  assumes "create r w = (Inr u, w')"
  shows "\<exists>r'. get (key r) w' = Inr r' \<and> key r' = key r"
proof -
  obtain r' where r': "key r' = key r" "key r \<notin> key ` set (rows w)" "rows w' = rows w @ [r']"
    using create_ok[OF assms] by blast
  then have "tbl_get key (key r) (rows w) = None" by (simp add: tbl_get_None)
  with r' show ?thesis by (simp add: get_rows tbl_get_append)
qed

lemma get_other:
  assumes "create r w = (Inr u, w')" "i \<noteq> key r"
  shows "get i w' = get i w"
  using create_ok[OF assms(1)] assms(2) by (auto simp: get_rows tbl_get_append split: option.splits)

lemma create_distinct:
  assumes "create r w = (res, w')" "distinct (map key (rows w))"
  shows "distinct (map key (rows w'))"
proof (cases res)
  case (Inl e)
  then show ?thesis using create_err[of r w e w'] assms by simp
next
  case (Inr u)
  with assms create_ok[of r w u w'] show ?thesis by auto
qed

lemma create_duplicate: "key r \<in> key ` set (rows w) \<Longrightarrow> \<exists>e. create r w = (Inl e, w)"
  by (metis create_err create_ok old.sum.exhaust surj_pair)

end

interpretation pipeline_repo: keyed_repo pl_id wd_pipelines pipelines_create pipelines_get
  by unfold_locales (auto simp: pipelines_get_def pipelines_create_def split: if_splits)

interpretation pipeline_run_repo: keyed_repo pr_id wd_pipeline_runs pipeline_runs_create pipeline_runs_get
  by unfold_locales (auto simp: pipeline_runs_get_def pipeline_runs_create_def split: if_splits)

interpretation step_run_repo: keyed_repo sr_id wd_step_runs step_runs_create step_runs_get
  by unfold_locales (auto simp: step_runs_get_def step_runs_create_def split: if_splits)

interpretation run_repo: keyed_repo rn_id wd_runs runs_create runs_get
  by unfold_locales (auto simp: runs_get_def runs_create_def split: if_splits)

interpretation loop_repo: keyed_repo lp_id wd_loops loops_create loops_get
  by unfold_locales (auto simp: loops_get_def loops_create_def split: if_splits)

interpretation template_repo: keyed_repo tp_id wd_templates templates_create templates_get
  by unfold_locales (auto simp: templates_get_def templates_create_def split: if_splits)

interpretation trigger_repo: keyed_repo tr_id wd_triggers triggers_create triggers_get
  by unfold_locales (auto simp: triggers_get_def triggers_create_def split: if_splits)

interpretation delivery_repo: keyed_repo dl_id wd_deliveries deliveries_create deliveries_get
  by unfold_locales (auto simp: deliveries_get_def deliveries_create_def split: if_splits)

interpretation schedule_repo: keyed_repo sc_id wd_schedules schedules_create schedules_get
  by unfold_locales (auto simp: schedules_get_def schedules_create_def split: if_splits)

section \<open>Owned rows\<close>

locale owned_repo = keyed_repo key rows create get
  for key :: "'r \<Rightarrow> id" and rows :: "world \<Rightarrow> 'r list" and create get +
  fixes owner :: "'r \<Rightarrow> id option"
begin

lemma get_visible_Inr:
  "get_visible get owner a i w = Inr r \<longleftrightarrow> get i w = Inr r \<and> visible_owner a (owner r)"
  by (auto simp: get_visible_def split: sum.splits)

lemma get_visible_Inl: "get_visible get owner a i w = Inl e \<Longrightarrow> e = ErrNotFound"
  by (auto simp: get_visible_def get_missing split: sum.splits if_splits)

lemma get_mutable_Inr:
  "get_mutable get owner a i w = Inr r \<longleftrightarrow> get i w = Inr r \<and> mutable_by a (owner r)"
  using mutable_imp_visible by (auto simp: get_mutable_def get_visible_def split: sum.splits)

lemma get_mutable_Inl:
  "get_mutable get owner a i w = Inl e \<longleftrightarrow>
     (case get i w of
        Inl e' \<Rightarrow> e = e'
      | Inr r \<Rightarrow> \<not> mutable_by a (owner r) \<and> e = (if visible_owner a (owner r) then ErrForbidden else ErrNotFound))"
  using mutable_imp_visible by (auto simp: get_mutable_def get_visible_def split: sum.splits)

end

interpretation pipeline_owned: owned_repo pl_id wd_pipelines pipelines_create pipelines_get pl_owner
  by unfold_locales

interpretation template_owned: owned_repo tp_id wd_templates templates_create templates_get tp_owner
  by unfold_locales

interpretation trigger_owned: owned_repo tr_id wd_triggers triggers_create triggers_get tr_owner
  by unfold_locales

interpretation schedule_owned: owned_repo sc_id wd_schedules schedules_create schedules_get sc_owner
  by unfold_locales

section \<open>The services behind an interface\<close>

record run_input =
  ri_template :: id
  ri_trigger :: id
  ri_delivery :: id
  ri_vars :: vars
  ri_origin :: string
  ri_step_run :: id
  ri_worktree :: string

text \<open>The tables of pipelines, which only the executor writes, and the other configuration.\<close>

definition keeps_pipelines :: "world \<Rightarrow> world \<Rightarrow> bool" where
  "keeps_pipelines w w' \<longleftrightarrow>
     wd_pipelines w' = wd_pipelines w \<and> wd_pipeline_runs w' = wd_pipeline_runs w \<and>
     wd_step_runs w' = wd_step_runs w"

definition keeps_config :: "world \<Rightarrow> world \<Rightarrow> bool" where
  "keeps_config w w' \<longleftrightarrow>
     wd_workspaces w' = wd_workspaces w \<and> wd_templates w' = wd_templates w \<and>
     wd_triggers w' = wd_triggers w \<and> wd_deliveries w' = wd_deliveries w \<and>
     wd_schedules w' = wd_schedules w \<and> wd_firings w' = wd_firings w"

lemma keeps_refl [simp]: "keeps_pipelines w w" "keeps_config w w"
  by (simp_all add: keeps_pipelines_def keeps_config_def)

lemma keeps_trans [trans]:
  "keeps_pipelines a b \<Longrightarrow> keeps_pipelines b c \<Longrightarrow> keeps_pipelines a c"
  "keeps_config a b \<Longrightarrow> keeps_config b c \<Longrightarrow> keeps_config a c"
  by (simp_all add: keeps_pipelines_def keeps_config_def)

text \<open>
  The contract of \<open>RunStarter\<close>: starting a run writes no pipeline table and no configuration,
  leaves the run rows there are and appends its own; when it succeeds, the returned run has a row.
\<close>

locale run_starter =
  fixes start :: "run_input \<Rightarrow> world \<Rightarrow> run result"
  assumes start_keeps_pipelines: "start inp w = (r, w') \<Longrightarrow> keeps_pipelines w w'"
    and start_keeps_config: "start inp w = (r, w') \<Longrightarrow> keeps_config w w'"
    and start_keeps_runs: "start inp w = (r, w') \<Longrightarrow> \<exists>new. wd_runs w' = wd_runs w @ new"
    and start_keeps_uuids: "start inp w = (r, w') \<Longrightarrow> wd_uuids w \<le> wd_uuids w'"
    and start_recorded: "start inp w = (Inr run, w') \<Longrightarrow> rn_id run \<in> rn_id ` set (wd_runs w')"

text \<open>
  The contract of \<open>SessionCloser\<close>: interrupting and closing a session touches neither the
  pipelines nor the configuration nor the run rows; the end of a run reaches the other
  services as a bus message, handled later.
\<close>

locale session_closer =
  fixes interrupt :: "id \<Rightarrow> world \<Rightarrow> unit result"
    and close :: "id \<Rightarrow> world \<Rightarrow> unit result"
  assumes interrupt_keeps: "interrupt s w = (r, w') \<Longrightarrow>
      keeps_pipelines w w' \<and> keeps_config w w' \<and> wd_runs w' = wd_runs w \<and> wd_uuids w \<le> wd_uuids w'"
    and close_keeps: "close s w = (r, w') \<Longrightarrow>
      keeps_pipelines w w' \<and> keeps_config w w' \<and> wd_runs w' = wd_runs w \<and> wd_uuids w \<le> wd_uuids w'"

end
