(* ===== verification/Pipeline_Exec.thy ===== *)
theory Pipeline_Exec
  imports Pipeline_Graph Access
begin

text \<open>
  The pipeline executor: \<open>internal/pipelines/executor.go\<close>, \<open>advance.go\<close> and \<open>view.go\<close>. Each
  method is a function on the world; the mutex \<open>mu\<close> makes every exported method that mutates
  a graph one atomic step. The fields of \<open>Executor\<close> are the record \<open>executor\<close>, whose \<open>ex_start\<close>,
  \<open>ex_sessions\<close> and \<open>ex_templates\<close> are the Go interfaces it is constructed with.
\<close>

section \<open>The executor\<close>

definition MaxFanout :: nat where "MaxFanout = 25"

record executor =
  ex_env :: go_env
  ex_yaml :: "string \<Rightarrow> string + raw_definition"
  ex_duration :: "string \<Rightarrow> duration option"
  ex_parse_ok :: "string \<Rightarrow> bool"
  ex_start :: "run_input \<Rightarrow> world \<Rightarrow> run result"
  ex_sessions :: "((id \<Rightarrow> world \<Rightarrow> unit result) \<times> (id \<Rightarrow> world \<Rightarrow> unit result)) option"
  ex_templates :: "(id \<Rightarrow> world \<Rightarrow> string \<Rightarrow> id option) option"
  ex_has_sessions_repo :: bool
  ex_has_bus :: bool
  ex_has_workspaces :: bool

fun pipeline_run_state_text :: "pipeline_run_state \<Rightarrow> string" where
  "pipeline_run_state_text PipelineRunRunning = ''running''"
| "pipeline_run_state_text PipelineRunSuccess = ''success''"
| "pipeline_run_state_text PipelineRunFailed = ''failed''"
| "pipeline_run_state_text PipelineRunCancelled = ''cancelled''"
| "pipeline_run_state_text PipelineRunTimeout = ''timeout''"

fun step_run_state_text :: "step_run_state \<Rightarrow> string" where
  "step_run_state_text StepRunPending = ''pending''"
| "step_run_state_text StepRunRunning = ''running''"
| "step_run_state_text StepRunSuccess = ''success''"
| "step_run_state_text StepRunFailed = ''failed''"
| "step_run_state_text StepRunSkipped = ''skipped''"
| "step_run_state_text StepRunCancelled = ''cancelled''"

definition publish_state :: "executor \<Rightarrow> id \<Rightarrow> id \<Rightarrow> string \<Rightarrow> world \<Rightarrow> world" where
  "publish_state ex prid srid state w =
     (if ex_has_bus ex then publish (PipelineStateMsg prid srid state) w else w)"

definition ex_parse :: "executor \<Rightarrow> string \<Rightarrow> pipeline_def \<times> problem list" where
  "ex_parse ex = parse (ex_yaml ex) (ex_duration ex)"

definition lookup_for :: "executor \<Rightarrow> id \<Rightarrow> world \<Rightarrow> template_lookup" where
  "lookup_for ex ws w = map_option (\<lambda>f. f ws w) (ex_templates ex)"

text \<open>\<open>repoTemplates.ForWorkspace\<close> and \<open>templateIndex.TemplateExists\<close>: by id first, then by name.\<close>

definition repo_templates :: "id \<Rightarrow> world \<Rightarrow> string \<Rightarrow> id option" where
  "repo_templates ws w name =
     (let rows = filter (\<lambda>t. tp_workspace t = ws) (templates_list_visible [] True w);
          by_id = foldl (\<lambda>m t. AList.update (tp_id t) (tp_id t) m) [] rows;
          by_name = foldl (\<lambda>m t. AList.update (tp_name t) (tp_id t) m) [] rows
      in case map_of by_id name of Some i \<Rightarrow> Some i | None \<Rightarrow> map_of by_name name)"

definition definition_of :: "executor \<Rightarrow> pipeline_run \<Rightarrow> world \<Rightarrow> (pipeline \<times> pipeline_def) option" where
  "definition_of ex pr w =
     (case pipelines_get (pr_pipeline pr) w of
        Inl e \<Rightarrow> None
      | Inr pl \<Rightarrow> (let (d, problems) = ex_parse ex (pl_yaml pl)
                  in if problems \<noteq> [] then None else Some (pl, d)))"

section \<open>Writing one step run\<close>

definition create_step_run :: "executor \<Rightarrow> id \<Rightarrow> id \<Rightarrow> nat \<Rightarrow> string \<Rightarrow> nat \<Rightarrow> world \<Rightarrow> unit result" where
  "create_step_run ex prid k i item attempt w =
     (let (u, w1) = new_uuid (ge_uuid (ex_env ex)) w
      in step_runs_create
           \<lparr>sr_id = u, sr_pipeline_run = prid, sr_step = k, sr_index = i, sr_item = item, sr_run = None,
            sr_attempt = attempt, sr_state = StepRunPending, sr_report = [], sr_started = None,
            sr_finished = None, sr_worktree = []\<rparr> w1)"

text \<open>\<open>setStepState\<close>; an empty report or worktree is the nil argument that keeps the old one.\<close>

definition set_step_state :: "executor \<Rightarrow> step_run \<Rightarrow> step_run_state \<Rightarrow> string \<Rightarrow> string \<Rightarrow> world \<Rightarrow> world" where
  "set_step_state ex sr st report worktree w =
     (let worktree' = (if worktree = [] then sr_worktree sr else worktree);
          report' = (if report = [] then sr_report sr else report);
          finished = (if sr_terminal st \<and> sr_finished sr = None then Some (wd_now w) else sr_finished sr);
          (started', finished') = (if st = StepRunPending then (None, None) else (sr_started sr, finished))
      in case step_runs_update (sr_id sr) st (sr_run sr) report' worktree' started' finished' w of
           (Inl e, w') \<Rightarrow> w'
         | (Inr _, w') \<Rightarrow> publish_state ex (sr_pipeline_run sr) (sr_id sr) (step_run_state_text st) w')"

definition error_report :: "executor \<Rightarrow> string \<Rightarrow> string \<Rightarrow> string" where
  "error_report ex reason fallback =
     (case ge_marshal (ex_env ex) (JObj [(''error'', JStr reason)]) of Some s \<Rightarrow> s | None \<Rightarrow> fallback)"

definition fail_step :: "executor \<Rightarrow> step_run \<Rightarrow> string \<Rightarrow> world \<Rightarrow> world" where
  "fail_step ex sr reason w =
     set_step_state ex sr StepRunFailed (error_report ex reason ''{\"error\":\"step failed\"}'') [] w"

definition close_step_session :: "executor \<Rightarrow> step_run \<Rightarrow> world \<Rightarrow> world" where
  "close_step_session ex sr w =
     (case (sr_run sr, ex_sessions ex) of
        (Some rid, Some (interrupt, close)) \<Rightarrow>
          (case runs_get rid w of
             Inl e \<Rightarrow> w
           | Inr r \<Rightarrow> snd (close (rn_session r) (snd (interrupt (rn_session r) w))))
      | _ \<Rightarrow> w)"

definition stop_step :: "executor \<Rightarrow> step_run_state \<Rightarrow> step_run_state \<Rightarrow> world \<Rightarrow> step_run \<Rightarrow> world" where
  "stop_step ex pending running w sr =
     (case sr_state sr of
        StepRunPending \<Rightarrow> set_step_state ex sr pending [] [] w
      | StepRunRunning \<Rightarrow> close_step_session ex sr (set_step_state ex sr running [] [] w)
      | _ \<Rightarrow> w)"

definition stop_steps :: "executor \<Rightarrow> step_run list \<Rightarrow> step_run_state \<Rightarrow> step_run_state \<Rightarrow> world \<Rightarrow> world" where
  "stop_steps ex current pending running w = foldl (stop_step ex pending running) w current"

section \<open>Closing a pipeline run\<close>

definition cost_of :: "id \<Rightarrow> world \<Rightarrow> usd" where
  "cost_of prid w =
     sum_list (map (\<lambda>sr. case sr_run sr of
         None \<Rightarrow> 0
       | Some rid \<Rightarrow> (case runs_get rid w of Inl e \<Rightarrow> 0 | Inr r \<Rightarrow> rn_cost r)) (step_runs_of prid w))"

definition finish_run :: "executor \<Rightarrow> pipeline_run \<Rightarrow> pipeline_run_state \<Rightarrow> world \<Rightarrow> world" where
  "finish_run ex pr st w =
     (case pipeline_runs_finish (pr_id pr) st (cost_of (pr_id pr) w) w of
        (Inl e, w') \<Rightarrow> w'
      | (Inr _, w') \<Rightarrow> publish_state ex (pr_id pr) [] (pipeline_run_state_text st) w')"

definition settle :: "executor \<Rightarrow> pipeline_run \<Rightarrow> step_run list \<Rightarrow> world \<Rightarrow> world" where
  "settle ex pr current w =
     (if list_ex (\<lambda>sr. sr_bad (sr_state sr)) current
      then finish_run ex pr PipelineRunFailed (stop_steps ex current StepRunSkipped StepRunCancelled w)
      else if list_ex (\<lambda>sr. sr_busy (sr_state sr)) current then w
      else finish_run ex pr PipelineRunSuccess w)"

section \<open>Variables\<close>

definition decode_report :: "executor \<Rightarrow> string \<Rightarrow> json" where
  "decode_report ex raw =
     (if raw = [] then JObj [] else case ge_unmarshal (ex_env ex) raw of None \<Rightarrow> JObj [] | Some v \<Rightarrow> v)"

definition decode_item :: "executor \<Rightarrow> string \<Rightarrow> json" where
  "decode_item ex item = (case ge_unmarshal (ex_env ex) item of None \<Rightarrow> JStr item | Some v \<Rightarrow> v)"

definition step_entry :: "executor \<Rightarrow> step_run list \<Rightarrow> vars \<Rightarrow> step \<Rightarrow> vars" where
  "step_entry ex current steps st =
     (if st_foreach st \<noteq> [] then
        AList.update (st_id st) (JObj [(''reports'', JArr
          (map (\<lambda>sr. decode_report ex (sr_report sr))
            (filter (\<lambda>sr. sr_step sr = st_id st \<and> sr_state sr = StepRunSuccess \<and> sr_run sr \<noteq> None) current)))]) steps
      else foldl (\<lambda>m sr.
          if sr_step sr = st_id st \<and> sr_state sr = StepRunSuccess
          then AList.update (st_id st) (JObj [(''report'', decode_report ex (sr_report sr))]) m else m) steps current)"

definition vars_for :: "executor \<Rightarrow> pipeline_run \<Rightarrow> pipeline_def \<Rightarrow> step_run list \<Rightarrow> vars" where
  "vars_for ex pr d current =
     (let base = (case unmarshal_object (ex_env ex) (pr_input pr) of
                    None \<Rightarrow> []
                  | Some kvs \<Rightarrow> foldl (\<lambda>m (k, v). var_set k v m) [] kvs)
      in var_set ''steps'' (JObj (foldl (step_entry ex current) [] (df_steps d))) base)"

section \<open>Starting one step\<close>

text \<open>
  The loop over the \<open>with\<close> map, in the order Go iterates it: each rendered value is visible to the
  templates after it.
\<close>

fun render_with :: "executor \<Rightarrow> (string \<times> string) list \<Rightarrow> vars \<Rightarrow> string + vars" where
  "render_with ex [] vs = Inr vs"
| "render_with ex ((k, tmpl) # rest) vs =
     (case ge_render (ex_env ex) tmpl vs of
        Inl err \<Rightarrow> Inl (''with['' @ go_quote k @ '']: '' @ err)
      | Inr out \<Rightarrow> render_with ex rest (var_set k (JStr out) vs))"

definition mark_running :: "executor \<Rightarrow> pipeline_run \<Rightarrow> step_run \<Rightarrow> string \<Rightarrow> run \<Rightarrow> world \<Rightarrow> world" where
  "mark_running ex pr sr worktree_path r w =
     (let worktree = (if ex_has_sessions_repo ex then
            (case sessions_get (rn_session r) w of
               Inl e \<Rightarrow> worktree_path
             | Inr s \<Rightarrow> if se_worktree s \<noteq> [] then se_worktree s else worktree_path)
          else worktree_path)
      in case step_runs_update (sr_id sr) StepRunRunning (Some (rn_id r)) (sr_report sr) worktree
                (Some (wd_now w)) None w of
           (Inl e, w') \<Rightarrow> w'
         | (Inr _, w') \<Rightarrow> publish_state ex (pr_id pr) (sr_id sr) (step_run_state_text StepRunRunning) w')"

definition start_step ::
  "executor \<Rightarrow> pipeline_run \<Rightarrow> pipeline_def \<Rightarrow> step \<Rightarrow> step_run list \<Rightarrow> template_lookup \<Rightarrow> step_run \<Rightarrow> world \<Rightarrow> world" where
  "start_step ex pr d st current lookup sr w =
     (case (case lookup of None \<Rightarrow> Some (st_template st) | Some f \<Rightarrow> f (st_template st)) of
        None \<Rightarrow> fail_step ex sr (''template '' @ go_quote (st_template st) @ '' not found'') w
      | Some template_id \<Rightarrow>
          (let vs = vars_for ex pr d current;
               vs' = (if sr_item sr \<noteq> [] then var_set ''item'' (decode_item ex (sr_item sr)) vs else vs)
           in case render_with ex (st_with st) vs' of
                Inl reason \<Rightarrow> fail_step ex sr reason w
              | Inr vs'' \<Rightarrow>
                  (let path = (if st_worktree st = ''shared'' then shared_worktree current (st_needs st) else [])
                   in case ex_start ex \<lparr>ri_template = template_id, ri_trigger = [], ri_delivery = [],
                            ri_vars = vs'', ri_origin = OriginPipeline, ri_step_run = sr_id sr,
                            ri_worktree = path\<rparr> w of
                        (Inl err, w') \<Rightarrow> fail_step ex sr (''start run: '' @ error_text err) w'
                      | (Inr r, w') \<Rightarrow> mark_running ex pr sr path r w')))"

section \<open>Fan-out\<close>

definition truncate_text :: "string \<Rightarrow> nat \<Rightarrow> string" where
  "truncate_text s n =
     (if rune_count s \<le> n then s else take_runes n s @ [CHR 0xE2, CHR 0x80, CHR 0xA6])"

definition decode_list :: "go_env \<Rightarrow> string \<Rightarrow> string + json list" where
  "decode_list env rendered =
     (let text = trim_space rendered in
      if text = [] then Inr []
      else case unmarshal_list env text of
        Some items \<Rightarrow> Inr items
      | None \<Rightarrow>
          (if has_prefix text ''['' \<and> has_suffix text '']''
           then Inr (map JStr (go_fields (trim_suffix (trim_prefix text ''['') '']'')))
           else Inl (''rendered '' @ go_quote (truncate_text text 80) @ '', which is not a list'')))"

definition create_failed_step_run :: "executor \<Rightarrow> id \<Rightarrow> id \<Rightarrow> string \<Rightarrow> world \<Rightarrow> world" where
  "create_failed_step_run ex prid k reason w =
     (let (u, w1) = new_uuid (ge_uuid (ex_env ex)) w
      in case step_runs_create
             \<lparr>sr_id = u, sr_pipeline_run = prid, sr_step = k, sr_index = 0, sr_item = [], sr_run = None,
              sr_attempt = 1, sr_state = StepRunFailed,
              sr_report = error_report ex reason ''{\"error\":\"fan-out failed\"}'', sr_started = None,
              sr_finished = Some (wd_now w), sr_worktree = []\<rparr> w1 of
           (Inl e, w') \<Rightarrow> w'
         | (Inr _, w') \<Rightarrow> publish_state ex prid [] (step_run_state_text StepRunFailed) w')"

definition create_empty_marker :: "executor \<Rightarrow> id \<Rightarrow> id \<Rightarrow> world \<Rightarrow> bool \<times> world" where
  "create_empty_marker ex prid k w =
     (let (u, w1) = new_uuid (ge_uuid (ex_env ex)) w
      in case step_runs_create
             \<lparr>sr_id = u, sr_pipeline_run = prid, sr_step = k, sr_index = 0, sr_item = [], sr_run = None,
              sr_attempt = 1, sr_state = StepRunSuccess, sr_report = ''{}'', sr_started = None,
              sr_finished = None, sr_worktree = []\<rparr> w1 of
           (Inl e, w') \<Rightarrow> (False, w')
         | (Inr _, w') \<Rightarrow> (True, publish_state ex prid [] (step_run_state_text StepRunSuccess) w'))"

text \<open>The fallback for an item that does not marshal, \<open>%q\<close> of its \<open>fmt.Sprint\<close> text, is not
  reached by items that were decoded from JSON; its text is left empty.\<close>

fun create_items :: "executor \<Rightarrow> id \<Rightarrow> id \<Rightarrow> nat \<Rightarrow> json list \<Rightarrow> world \<Rightarrow> bool \<times> world" where
  "create_items ex prid k i [] w = (True, w)"
| "create_items ex prid k i (item # items) w =
     (case create_step_run ex prid k i
         (case ge_marshal (ex_env ex) item of Some s \<Rightarrow> s | None \<Rightarrow> go_quote []) 1 w of
        (Inl e, w') \<Rightarrow> (False, w')
      | (Inr _, w') \<Rightarrow> create_items ex prid k (Suc i) items w')"

definition expand :: "executor \<Rightarrow> pipeline_run \<Rightarrow> pipeline_def \<Rightarrow> step \<Rightarrow> step_run list \<Rightarrow> world \<Rightarrow> bool \<times> world" where
  "expand ex pr d st current w =
     (if st_foreach st = [] then
        (case create_step_run ex (pr_id pr) (st_id st) 0 [] 1 w of
           (Inl e, w') \<Rightarrow> (False, w') | (Inr _, w') \<Rightarrow> (True, w'))
      else case ge_render (ex_env ex) (st_foreach st) (vars_for ex pr d current) of
        Inl err \<Rightarrow> (True, create_failed_step_run ex (pr_id pr) (st_id st) (''foreach: '' @ err) w)
      | Inr rendered \<Rightarrow>
          (case decode_list (ex_env ex) rendered of
             Inl err \<Rightarrow> (True, create_failed_step_run ex (pr_id pr) (st_id st) (''foreach: '' @ err) w)
           | Inr items \<Rightarrow>
               (if length items > MaxFanout then
                  (True, create_failed_step_run ex (pr_id pr) (st_id st)
                     (''foreach produced '' @ show_nat (length items) @ '' items, the maximum is '' @ show_nat MaxFanout) w)
                else if items = [] then create_empty_marker ex (pr_id pr) (st_id st) w
                else create_items ex (pr_id pr) (st_id st) 0 items w)))"

section \<open>Advancing the graph\<close>

definition start_pending ::
  "executor \<Rightarrow> pipeline_run \<Rightarrow> pipeline_def \<Rightarrow> template_lookup \<Rightarrow> step \<Rightarrow> step_run list \<Rightarrow> world \<Rightarrow> world" where
  "start_pending ex pr d lookup st current w =
     foldl (\<lambda>w sr. if sr_step sr = st_id st \<and> sr_state sr = StepRunPending
        then start_step ex pr d st current lookup sr w else w) w current"

fun advance_steps ::
  "executor \<Rightarrow> pipeline_run \<Rightarrow> pipeline_def \<Rightarrow> template_lookup \<Rightarrow> step list \<Rightarrow> step_run list \<Rightarrow> world \<Rightarrow>
   step_run list \<times> world" where
  "advance_steps ex pr d lookup [] current w = (current, w)"
| "advance_steps ex pr d lookup (st # steps) current w =
     (if \<not> deps_succeeded current st then advance_steps ex pr d lookup steps current w
      else let absent = (state_of current (st_id st) = NodeAbsent);
               (ok, w1) = (if absent then expand ex pr d st current w else (True, w))
           in if \<not> ok then advance_steps ex pr d lookup steps current w1
              else let current1 = (if absent then current_attempts (step_runs_of (pr_id pr) w1) else current);
                       w2 = start_pending ex pr d lookup st current1 w1
                   in advance_steps ex pr d lookup steps (current_attempts (step_runs_of (pr_id pr) w2)) w2)"

definition advance :: "executor \<Rightarrow> id \<Rightarrow> world \<Rightarrow> world" where
  "advance ex prid w =
     (case pipeline_runs_get prid w of
        Inl e \<Rightarrow> w
      | Inr pr \<Rightarrow>
          (if pr_terminal (pr_state pr) then w
           else case definition_of ex pr w of
             None \<Rightarrow> finish_run ex pr PipelineRunFailed w
           | Some (pl, d) \<Rightarrow>
               (let (current, w') = advance_steps ex pr d (lookup_for ex (pl_workspace pl) w) (df_steps d)
                       (current_attempts (step_runs_of prid w)) w
                in settle ex pr current w')))"

section \<open>Completing one step\<close>

definition retry_step :: "executor \<Rightarrow> pipeline_run \<Rightarrow> step_run \<Rightarrow> world \<Rightarrow> world" where
  "retry_step ex pr sr w =
     (if pr_terminal (pr_state pr) then w
      else case definition_of ex pr w of
        None \<Rightarrow> w
      | Some (pl, d) \<Rightarrow>
          (case step_by_id (df_steps d) (sr_step sr) of
             None \<Rightarrow> w
           | Some st \<Rightarrow>
               (if int (sr_attempt sr) \<le> st_retries st
                then snd (create_step_run ex (pr_id pr) (sr_step sr) (sr_index sr) (sr_item sr) (sr_attempt sr + 1) w)
                else w)))"

definition complete_step :: "executor \<Rightarrow> id \<Rightarrow> world \<Rightarrow> world" where
  "complete_step ex rid w =
     (case runs_get rid w of
        Inl e \<Rightarrow> w
      | Inr r \<Rightarrow>
          (case rn_step_run r of
             None \<Rightarrow> w
           | Some srid \<Rightarrow>
               (case step_runs_get srid w of
                  Inl e \<Rightarrow> w
                | Inr sr \<Rightarrow>
                    (if sr_terminal (sr_state sr) then w
                     else case pipeline_runs_get (sr_pipeline_run sr) w of
                       Inl e \<Rightarrow> w
                     | Inr pr \<Rightarrow>
                         (if rn_outcome r = RunSuccess
                          then advance ex (pr_id pr) (set_step_state ex sr StepRunSuccess (rn_report r) [] w)
                          else advance ex (pr_id pr)
                            (retry_step ex pr sr (set_step_state ex sr StepRunFailed (rn_report r) [] w)))))))"

text \<open>\<open>handle\<close>: of the bus messages, only the end of a step's run concerns the executor.\<close>

definition handle :: "executor \<Rightarrow> message \<Rightarrow> world \<Rightarrow> world" where
  "handle ex msg w =
     (case msg of
        RunEndedMsg rid (Some srid) _ _ \<Rightarrow> if rid = [] then w else complete_step ex rid w
      | _ \<Rightarrow> w)"

end
