(* ===== verification/Pipeline_Service.thy ===== *)
theory Pipeline_Service
  imports Pipeline_Exec
begin

text \<open>
  The exported methods of the pipeline executor (\<open>internal/pipelines/executor.go\<close>, \<open>view.go\<close>):
  validation against a workspace, the pipelines an operator edits, starting, cancelling and
  retrying a run, and the sweep for overdue and stranded runs.
\<close>

section \<open>Validation against a workspace\<close>

definition workspace_problems :: "actor \<Rightarrow> id \<Rightarrow> pipeline_def \<Rightarrow> error + workspace \<Rightarrow> problem list" where
  "workspace_problems a wsid d ws =
     (case ws of
        Inl e \<Rightarrow> [\<lparr>pb_line = 0, pb_msg = WorkspaceNotFound wsid\<rparr>]
      | Inr ws \<Rightarrow>
          (if \<not> visible_owner a (ws_owner ws) then [\<lparr>pb_line = 0, pb_msg = WorkspaceNotFound wsid\<rparr>]
           else if df_workspace d \<noteq> [] \<and> df_workspace d \<noteq> ws_name ws
           then [\<lparr>pb_line = 0, pb_msg = WorkspaceMismatch (df_workspace d) (ws_name ws)\<rparr>]
           else []))"

text \<open>\<open>Executor.Validate\<close>: every problem, and the graph; \<open>OK\<close> is an empty problem list.\<close>

definition ex_validate ::
  "executor \<Rightarrow> actor \<Rightarrow> id \<Rightarrow> string \<Rightarrow> world \<Rightarrow> problem list \<times> (graph_node list \<times> (id \<times> id) list)" where
  "ex_validate ex a wsid yaml w =
     (let (d, problems) = ex_parse ex yaml
      in (problems @
          (if ex_has_workspaces ex then workspace_problems a wsid d (workspaces_get wsid w) else []) @
          validate (ex_parse_ok ex) (lookup_for ex wsid w) d,
          graph d))"

fun wrap_constraint :: "error \<Rightarrow> error" where
  "wrap_constraint ErrForeignKey = ErrInvalid ''unknown workspace''"
| "wrap_constraint e = e"

section \<open>Pipelines\<close>

definition create_pipeline :: "executor \<Rightarrow> actor \<Rightarrow> pipeline_input \<Rightarrow> world \<Rightarrow> pipeline result" where
  "create_pipeline ex a inp w =
     (if trim_space (pin_name inp) = [] then (Inl (ErrInvalid ''name is required''), w)
      else if pin_workspace inp = [] then (Inl (ErrInvalid ''workspace_id is required''), w)
      else let problems = fst (ex_validate ex a (pin_workspace inp) (pin_yaml inp) w)
           in if problems \<noteq> [] then (Inl (ErrInvalidProblems problems), w)
              else let (u, w1) = new_uuid (ge_uuid (ex_env ex)) w;
                       pl = \<lparr>pl_id = u, pl_owner = owner_for a (pin_shared inp),
                             pl_name = trim_space (pin_name inp), pl_workspace = pin_workspace inp,
                             pl_yaml = pin_yaml inp, pl_created = wd_now w, pl_updated = wd_now w\<rparr>
                   in (case pipelines_create pl w1 of
                         (Inl e, w') \<Rightarrow> (Inl (wrap_constraint e), w')
                       | (Inr _, w') \<Rightarrow> (Inr pl, w')))"

definition list_pipelines :: "actor \<Rightarrow> world \<Rightarrow> pipeline list" where
  "list_pipelines a w = pipelines_list_visible (ac_user a) (ac_admin a) w"

definition get_pipeline :: "actor \<Rightarrow> id \<Rightarrow> world \<Rightarrow> error + pipeline" where
  "get_pipeline = get_visible pipelines_get pl_owner"

definition mutable_pipeline :: "actor \<Rightarrow> id \<Rightarrow> world \<Rightarrow> error + pipeline" where
  "mutable_pipeline = get_mutable pipelines_get pl_owner"

definition update_pipeline :: "executor \<Rightarrow> actor \<Rightarrow> id \<Rightarrow> pipeline_input \<Rightarrow> world \<Rightarrow> pipeline result" where
  "update_pipeline ex a i inp w =
     (case mutable_pipeline a i w of
        Inl e \<Rightarrow> (Inl e, w)
      | Inr existing \<Rightarrow>
          (if trim_space (pin_name inp) = [] then (Inl (ErrInvalid ''name is required''), w)
           else let wsid = (if pin_workspace inp = [] then pl_workspace existing else pin_workspace inp);
                    problems = fst (ex_validate ex a wsid (pin_yaml inp) w)
                in if problems \<noteq> [] then (Inl (ErrInvalidProblems problems), w)
                   else let updated = existing\<lparr>
                              pl_owner := (if ac_admin a \<and> pin_shared inp then None else pl_owner existing),
                              pl_name := trim_space (pin_name inp), pl_workspace := wsid,
                              pl_yaml := pin_yaml inp, pl_updated := wd_now w\<rparr>
                        in (case pipelines_update updated w of
                              (Inl e, w') \<Rightarrow> (Inl (wrap_constraint e), w')
                            | (Inr _, w') \<Rightarrow> (Inr updated, w'))))"

definition delete_pipeline :: "actor \<Rightarrow> id \<Rightarrow> world \<Rightarrow> unit result" where
  "delete_pipeline a i w =
     (case mutable_pipeline a i w of Inl e \<Rightarrow> (Inl e, w) | Inr _ \<Rightarrow> pipelines_delete i w)"

section \<open>Runs\<close>

fun create_pending :: "executor \<Rightarrow> id \<Rightarrow> step list \<Rightarrow> world \<Rightarrow> unit result" where
  "create_pending ex prid [] w = (Inr (), w)"
| "create_pending ex prid (st # steps) w =
     (if st_foreach st \<noteq> [] then create_pending ex prid steps w
      else case create_step_run ex prid (st_id st) 0 [] 1 w of
        (Inl e, w') \<Rightarrow> (Inl e, w')
      | (Inr _, w') \<Rightarrow> create_pending ex prid steps w')"

definition start_pipeline ::
  "executor \<Rightarrow> actor \<Rightarrow> id \<Rightarrow> vars \<Rightarrow> string \<Rightarrow> string \<Rightarrow> world \<Rightarrow> pipeline_run result" where
  "start_pipeline ex a plid input origin origin_ref w =
     (case get_pipeline a plid w of
        Inl e \<Rightarrow> (Inl e, w)
      | Inr pl \<Rightarrow>
          (let problems = fst (ex_validate ex a (pl_workspace pl) (pl_yaml pl) w)
           in if problems \<noteq> [] then (Inl (ErrInvalidProblems problems), w)
              else case ge_marshal (ex_env ex) (JObj input) of
                None \<Rightarrow> (Inl (ErrInvalid ''pipeline input''), w)
              | Some payload \<Rightarrow>
                  (let d = fst (ex_parse ex (pl_yaml pl));
                       (u, w1) = new_uuid (ge_uuid (ex_env ex)) w;
                       pr = \<lparr>pr_id = u, pr_pipeline = pl_id pl,
                             pr_origin = (if origin = [] then OriginUI else origin),
                             pr_origin_ref = origin_ref, pr_input = payload, pr_state = PipelineRunRunning,
                             pr_started = wd_now w, pr_finished = None, pr_cost = 0\<rparr>
                   in case pipeline_runs_create pr w1 of
                        (Inl e, w2) \<Rightarrow> (Inl e, w2)
                      | (Inr _, w2) \<Rightarrow>
                          (case create_pending ex u (df_steps d) w2 of
                             (Inl e, w3) \<Rightarrow> (Inl e, w3)
                           | (Inr _, w3) \<Rightarrow>
                               (Inr pr, advance ex u
                                  (publish_state ex u [] (pipeline_run_state_text PipelineRunRunning) w3))))))"

definition list_runs :: "actor \<Rightarrow> pipeline_run_filter \<Rightarrow> world \<Rightarrow> pipeline_run list" where
  "list_runs a f w =
     filter (\<lambda>r. case get_pipeline a (pr_pipeline r) w of Inl e \<Rightarrow> False | Inr _ \<Rightarrow> True)
       (pipeline_runs_list f w)"

definition run_for :: "actor \<Rightarrow> id \<Rightarrow> world \<Rightarrow> error + pipeline_run" where
  "run_for a i w =
     (case pipeline_runs_get i w of
        Inl e \<Rightarrow> Inl e
      | Inr pr \<Rightarrow> (case mutable_pipeline a (pr_pipeline pr) w of Inl e \<Rightarrow> Inl e | Inr _ \<Rightarrow> Inr pr))"

definition cancel :: "executor \<Rightarrow> actor \<Rightarrow> id \<Rightarrow> world \<Rightarrow> unit result" where
  "cancel ex a i w =
     (case run_for a i w of
        Inl e \<Rightarrow> (Inl e, w)
      | Inr pr \<Rightarrow>
          (if pr_terminal (pr_state pr) then (Inl (ErrConflict ''pipeline run is not running''), w)
           else (Inr (), finish_run ex pr PipelineRunCancelled
             (stop_steps ex (current_attempts (step_runs_of i w)) StepRunCancelled StepRunCancelled w))))"

fun retry_steps :: "executor \<Rightarrow> id \<Rightarrow> step_run list \<Rightarrow> nat \<Rightarrow> world \<Rightarrow> nat result" where
  "retry_steps ex i [] n w = (Inr n, w)"
| "retry_steps ex i (sr # rest) n w =
     (if sr_state sr = StepRunFailed then
        (case create_step_run ex i (sr_step sr) (sr_index sr) (sr_item sr) (sr_attempt sr + 1) w of
           (Inl e, w') \<Rightarrow> (Inl e, w')
         | (Inr _, w') \<Rightarrow> retry_steps ex i rest (Suc n) w')
      else if sr_state sr = StepRunSkipped \<or> sr_state sr = StepRunCancelled then
        (case step_runs_update (sr_id sr) StepRunPending None [] (sr_worktree sr) None None w of
           (Inl e, w') \<Rightarrow> (Inl e, w')
         | (Inr _, w') \<Rightarrow> retry_steps ex i rest (Suc n) w')
      else retry_steps ex i rest n w)"

definition retry_failed :: "executor \<Rightarrow> actor \<Rightarrow> id \<Rightarrow> world \<Rightarrow> unit result" where
  "retry_failed ex a i w =
     (case run_for a i w of
        Inl e \<Rightarrow> (Inl e, w)
      | Inr pr \<Rightarrow>
          (if \<not> pr_terminal (pr_state pr) then (Inl (ErrConflict ''pipeline run is still running''), w)
           else case retry_steps ex i (current_attempts (step_runs_of i w)) 0 w of
             (Inl e, w1) \<Rightarrow> (Inl e, w1)
           | (Inr n, w1) \<Rightarrow>
               (if n = 0 then (Inl (ErrConflict ''pipeline run has no failed steps to retry''), w1)
                else case pipeline_runs_reopen i w1 of
                  (Inl e, w2) \<Rightarrow> (Inl e, w2)
                | (Inr _, w2) \<Rightarrow>
                    (Inr (), advance ex i
                       (publish_state ex i [] (pipeline_run_state_text PipelineRunRunning) w2)))))"

section \<open>The sweep\<close>

definition reconcile_step :: "executor \<Rightarrow> world \<Rightarrow> step_run \<Rightarrow> world" where
  "reconcile_step ex w sr =
     (case sr_run sr of
        None \<Rightarrow> w
      | Some rid \<Rightarrow>
          (if sr_state sr \<noteq> StepRunRunning then w
           else case runs_get rid w of
             Inl e \<Rightarrow> w
           | Inr r \<Rightarrow> if rn_outcome r = RunRunning then w else complete_step ex (rn_id r) w))"

definition reconcile :: "executor \<Rightarrow> pipeline_run \<Rightarrow> world \<Rightarrow> world" where
  "reconcile ex pr w = foldl (reconcile_step ex) w (step_runs_of (pr_id pr) w)"

definition run_timeout :: "executor \<Rightarrow> pipeline_run \<Rightarrow> world \<Rightarrow> duration" where
  "run_timeout ex pr w =
     (case definition_of ex pr w of
        None \<Rightarrow> DefaultTimeout
      | Some (pl, d) \<Rightarrow> if df_timeout d > 0 then df_timeout d else DefaultTimeout)"

definition tick_run :: "executor \<Rightarrow> time \<Rightarrow> world \<Rightarrow> pipeline_run \<Rightarrow> world" where
  "tick_run ex now w pr =
     (if now - pr_started pr < run_timeout ex pr w then reconcile ex pr w
      else finish_run ex pr PipelineRunTimeout
        (stop_steps ex (current_attempts (step_runs_of (pr_id pr) w)) StepRunCancelled StepRunCancelled w))"

definition tick :: "executor \<Rightarrow> time \<Rightarrow> world \<Rightarrow> world" where
  "tick ex now w = foldl (tick_run ex now) w (pipeline_runs_running_older_than now w)"

section \<open>Views\<close>

record step_view =
  sv_step :: step_run
  sv_run :: "run option"

record run_view =
  rv_run :: pipeline_run
  rv_pipeline :: pipeline
  rv_steps :: "step_view list"
  rv_graph :: "graph_node list \<times> (id \<times> id) list"

definition get_run :: "executor \<Rightarrow> actor \<Rightarrow> id \<Rightarrow> world \<Rightarrow> error + run_view" where
  "get_run ex a i w =
     (case pipeline_runs_get i w of
        Inl e \<Rightarrow> Inl e
      | Inr pr \<Rightarrow>
          (case get_pipeline a (pr_pipeline pr) w of
             Inl e \<Rightarrow> Inl e
           | Inr pl \<Rightarrow>
               Inr \<lparr>rv_run = pr, rv_pipeline = pl,
                    rv_steps = map (\<lambda>sr. \<lparr>sv_step = sr, sv_run =
                      (case sr_run sr of None \<Rightarrow> None
                       | Some rid \<Rightarrow> (case runs_get rid w of Inl e \<Rightarrow> None | Inr r \<Rightarrow> Some r))\<rparr>) (step_runs_of i w),
                    rv_graph = (let (d, problems) = ex_parse ex (pl_yaml pl)
                                in if problems = [] then graph d else ([], []))\<rparr>))"

definition is_running :: "id \<Rightarrow> world \<Rightarrow> error + bool" where
  "is_running i w =
     (case pipeline_runs_get i w of Inl e \<Rightarrow> Inl e | Inr pr \<Rightarrow> Inr (\<not> pr_terminal (pr_state pr)))"

end
