(* ===== verification/Pipeline_Proofs.thy ===== *)
theory Pipeline_Proofs
  imports Pipeline_Service
begin

text \<open>
  What every operation of the pipeline executor does to the step runs: the effect of one update or
  insertion on the current attempts, then \<open>start_step\<close>, \<open>expand\<close> and \<open>advance_steps\<close> by those
  effects. The contract of the executor's Go interfaces is the locale \<open>pipeline_executor\<close>.
\<close>

section \<open>Frames\<close>

text \<open>An update that keeps what identifies a step run: its id, run, slot, item and attempt.\<close>

definition keeps_slot :: "(step_run \<Rightarrow> step_run) \<Rightarrow> bool" where
  "keeps_slot f \<longleftrightarrow> (\<forall>r. sr_id (f r) = sr_id r \<and> sr_pipeline_run (f r) = sr_pipeline_run r \<and>
     slot_of (f r) = slot_of r \<and> sr_step (f r) = sr_step r \<and> sr_attempt (f r) = sr_attempt r)"

text \<open>Everything but the step runs, sessions, approvals, loops and the bus; run rows and uuids only grow.\<close>

definition step_frame :: "world \<Rightarrow> world \<Rightarrow> bool" where
  "step_frame w w' \<longleftrightarrow> keeps_config w w' \<and> wd_pipelines w' = wd_pipelines w \<and>
     wd_pipeline_runs w' = wd_pipeline_runs w \<and> (\<exists>new. wd_runs w' = wd_runs w @ new) \<and>
     wd_uuids w \<le> wd_uuids w'"

lemma step_frame_refl [simp]: "step_frame w w"
  by (simp add: step_frame_def)

lemma step_frame_trans [trans]: "step_frame a b \<Longrightarrow> step_frame b c \<Longrightarrow> step_frame a c"
  unfolding step_frame_def keeps_config_def by auto

lemma publish_state_frame [simp]:
  "wd_step_runs (publish_state ex p s t w) = wd_step_runs w"
  "wd_pipeline_runs (publish_state ex p s t w) = wd_pipeline_runs w"
  "wd_pipelines (publish_state ex p s t w) = wd_pipelines w"
  "wd_runs (publish_state ex p s t w) = wd_runs w"
  "wd_sessions (publish_state ex p s t w) = wd_sessions w"
  "wd_now (publish_state ex p s t w) = wd_now w"
  "wd_uuids (publish_state ex p s t w) = wd_uuids w"
  "keeps_config w (publish_state ex p s t w)"
  "step_frame w (publish_state ex p s t w)"
  by (simp_all add: publish_state_def publish_def keeps_config_def step_frame_def)

text \<open>The row \<open>setStepState\<close> writes.\<close>

definition set_row :: "time \<Rightarrow> step_run \<Rightarrow> step_run_state \<Rightarrow> string \<Rightarrow> string \<Rightarrow> step_run \<Rightarrow> step_run" where
  "set_row now sr st report worktree r = r\<lparr>sr_state := st, sr_run := sr_run sr,
     sr_report := (if report = [] then sr_report sr else report),
     sr_worktree := (if worktree = [] then sr_worktree sr else worktree),
     sr_started := (if st = StepRunPending then None else sr_started sr),
     sr_finished := (if st = StepRunPending then None
       else if sr_terminal st \<and> sr_finished sr = None then Some now else sr_finished sr)\<rparr>"

lemma keeps_slot_set_row [simp]: "keeps_slot (set_row now sr st report worktree)"
  by (simp add: keeps_slot_def set_row_def slot_of_def)

lemma set_row_state [simp]: "sr_state (set_row now sr st report worktree r) = st"
  by (simp add: set_row_def)

lemma set_row_run [simp]: "sr_run (set_row now sr st report worktree r) = sr_run sr"
  by (simp add: set_row_def)

lemma tbl_update_absent: "i \<notin> key ` set t \<Longrightarrow> tbl_update key i f t = t"
  unfolding tbl_update_def by (rule map_idI) auto

lemma set_step_state_rows:
  assumes "fk rn_id (wd_runs w) (sr_run sr)"
  shows "wd_step_runs (set_step_state ex sr st report worktree w) =
    tbl_update sr_id (sr_id sr) (set_row (wd_now w) sr st report worktree) (wd_step_runs w)"
proof (cases "sr_id sr \<in> sr_id ` set (wd_step_runs w)")
  case True
  then show ?thesis using assms
    by (auto simp: set_step_state_def step_runs_update_def set_row_def Let_def tbl_update_def)
next
  case False
  then show ?thesis
    by (simp add: tbl_update_absent set_step_state_def step_runs_update_def Let_def)
qed

lemma set_step_state_frame [simp]:
  "wd_pipeline_runs (set_step_state ex sr st report worktree w) = wd_pipeline_runs w"
  "wd_pipelines (set_step_state ex sr st report worktree w) = wd_pipelines w"
  "wd_runs (set_step_state ex sr st report worktree w) = wd_runs w"
  "wd_now (set_step_state ex sr st report worktree w) = wd_now w"
  "step_frame w (set_step_state ex sr st report worktree w)"
  by (simp_all add: set_step_state_def step_runs_update_def Let_def step_frame_def keeps_config_def
      publish_state_def publish_def)

section \<open>Current attempts under updates and insertions\<close>

lemma current_attempts_map:
  assumes "keeps_slot f"
  shows "current_attempts (map f rows) = map f (current_attempts rows)"
proof -
  have upd: "AList.update k (f x) (map (map_prod id f) best) = map (map_prod id f) (AList.update k x best)"
    for k x and best :: "(slot \<times> step_run) list"
    by (induction best) auto
  have "foldl keep_newest (map (map_prod id f) best) (map f rows) =
      map (map_prod id f) (foldl keep_newest best rows)" for best
  proof (induction rows arbitrary: best)
    case Nil
    then show ?case by simp
  next
    case (Cons r rows)
    have m: "map_of (map (map_prod id f) best) k = map_option f (map_of best k)" for k
      by (induction best) auto
    have "keep_newest (map (map_prod id f) best) (f r) = map (map_prod id f) (keep_newest best r)"
      using assms by (auto simp: keep_newest_def m upd keeps_slot_def split: option.splits)
    then show ?case using Cons[of "keep_newest best r"] unfolding list.map foldl.simps by (rule ssubst)
  qed
  from this[of "[]"] show ?thesis by (simp add: current_attempts_def)
qed

lemma current_attempts_append_new:
  assumes "slot_of r \<notin> slot_of ` set rows"
  shows "current_attempts (rows @ [r]) = current_attempts rows @ [r]"
proof -
  have "fst ` set (foldl keep_newest [] rows) = slot_of ` set rows"
    using newest_inv_foldl[of rows] unfolding newest_inv_def by blast
  with assms have "map_of (foldl keep_newest [] rows) (slot_of r) = None"
    by (simp add: map_of_eq_None_iff)
  then show ?thesis by (simp add: current_attempts_def keep_newest_def)
qed

text \<open>A step run of another pipeline run does not matter.\<close>

lemma step_runs_of_update:
  assumes "keeps_slot f" "wd_step_runs w' = tbl_update sr_id i f (wd_step_runs w)"
  shows "step_runs_of p w' = tbl_update sr_id i f (step_runs_of p w)"
  using assms by (auto simp: step_runs_of_def tbl_update_def filter_map o_def keeps_slot_def
      intro!: filter_cong[THEN arg_cong[where f="map _"]])

lemma keeps_slot_if: "keeps_slot f \<Longrightarrow> keeps_slot (\<lambda>r. if sr_id r = i then f r else r)"
  by (simp add: keeps_slot_def)

lemma current_attempts_update:
  assumes "keeps_slot f" "wd_step_runs w' = tbl_update sr_id i f (wd_step_runs w)"
  shows "current_attempts (step_runs_of p w') = tbl_update sr_id i f (current_attempts (step_runs_of p w))"
  unfolding step_runs_of_update[OF assms] unfolding tbl_update_def
  by (rule current_attempts_map[OF keeps_slot_if[OF assms(1)]])

definition node_done :: "id \<Rightarrow> world \<Rightarrow> id \<Rightarrow> bool" where
  "node_done p w k \<longleftrightarrow> state_of (current_attempts (step_runs_of p w)) k = NodeSucceeded"

lemma state_of_update_other:
  assumes "keeps_slot f" "\<forall>r \<in> set cur. sr_id r = i \<longrightarrow> sr_step r \<noteq> k"
  shows "state_of (tbl_update sr_id i f cur) k = state_of cur k"
proof -
  have "(\<exists>sr \<in> set (tbl_update sr_id i f cur). sr_step sr = k \<and> P (sr_state sr)) \<longleftrightarrow>
      (\<exists>sr \<in> set cur. sr_step sr = k \<and> P (sr_state sr))" for P
    using assms by (force simp: set_tbl_update keeps_slot_def)
  from this[of sr_bad] this[of sr_busy] this[of "\<lambda>_. True"] show ?thesis
    unfolding state_of_char by simp
qed

lemma state_of_append_other:
  "sr_step r \<noteq> k \<Longrightarrow> state_of (cur @ [r]) k = state_of cur k"
  by (simp add: state_of_char)

section \<open>Updating a set of rows\<close>

definition updates :: "id set \<Rightarrow> (step_run \<Rightarrow> bool) \<Rightarrow> world \<Rightarrow> world \<Rightarrow> bool" where
  "updates ids Q w w' \<longleftrightarrow> (\<exists>g. keeps_slot g \<and> wd_step_runs w' = map g (wd_step_runs w) \<and>
     (\<forall>r. sr_id r \<notin> ids \<longrightarrow> g r = r) \<and> (\<forall>r. sr_id r \<in> ids \<longrightarrow> Q (g r)))"

lemma updates_refl [simp]: "wd_step_runs w' = wd_step_runs w \<Longrightarrow> updates {} Q w w'"
  unfolding updates_def by (rule exI[of _ id]) (simp add: keeps_slot_def)

lemma updates_one:
  assumes "keeps_slot f" "wd_step_runs w' = tbl_update sr_id i f (wd_step_runs w)" "\<And>r. Q (f r)"
  shows "updates {i} Q w w'"
  unfolding updates_def
  by (rule exI[of _ "\<lambda>r. if sr_id r = i then f r else r"])
    (use assms in \<open>simp add: keeps_slot_if tbl_update_def\<close>)

lemma updates_trans [trans]:
  assumes "updates A Q w w'" "updates B Q w' w''"
  shows "updates (A \<union> B) Q w w''"
proof -
  obtain g h where g: "keeps_slot g" "wd_step_runs w' = map g (wd_step_runs w)"
      "\<forall>r. sr_id r \<notin> A \<longrightarrow> g r = r" "\<forall>r. sr_id r \<in> A \<longrightarrow> Q (g r)"
    and h: "keeps_slot h" "wd_step_runs w'' = map h (wd_step_runs w')"
      "\<forall>r. sr_id r \<notin> B \<longrightarrow> h r = r" "\<forall>r. sr_id r \<in> B \<longrightarrow> Q (h r)"
    using assms unfolding updates_def by blast
  have idg: "sr_id (g r) = sr_id r" for r using g(1) by (simp add: keeps_slot_def)
  have "Q (h (g r))" if "sr_id r \<in> A \<union> B" for r
    using that g(4) h(3,4) idg[of r] by (cases "sr_id r \<in> B") auto
  moreover have "h (g r) = r" if "sr_id r \<notin> A \<union> B" for r using that g(3) h(3) by simp
  moreover have "keeps_slot (h \<circ> g)" using g(1) h(1) by (simp add: keeps_slot_def)
  ultimately show ?thesis unfolding updates_def using g(2) h(2)
    by (intro exI[of _ "h \<circ> g"]) simp
qed

lemma updates_rows:
  assumes "updates ids Q w w'"
  shows "map sr_id (wd_step_runs w') = map sr_id (wd_step_runs w)"
    and "\<exists>g. keeps_slot g \<and> step_runs_of p w' = map g (step_runs_of p w) \<and>
      current_attempts (step_runs_of p w') = map g (current_attempts (step_runs_of p w)) \<and>
      (\<forall>r. sr_id r \<notin> ids \<longrightarrow> g r = r) \<and> (\<forall>r. sr_id r \<in> ids \<longrightarrow> Q (g r))"
    and "r' \<in> set (wd_step_runs w') \<Longrightarrow> Q r' \<and> sr_id r' \<in> ids \<or> r' \<in> set (wd_step_runs w) \<and> sr_id r' \<notin> ids"
proof -
  obtain g where g: "keeps_slot g" "wd_step_runs w' = map g (wd_step_runs w)"
      "\<forall>r. sr_id r \<notin> ids \<longrightarrow> g r = r" "\<forall>r. sr_id r \<in> ids \<longrightarrow> Q (g r)"
    using assms unfolding updates_def by blast
  then have idk: "sr_id (g r) = sr_id r" "sr_pipeline_run (g r) = sr_pipeline_run r" for r
    by (simp_all add: keeps_slot_def)
  show "map sr_id (wd_step_runs w') = map sr_id (wd_step_runs w)" by (simp add: g(2) idk)
  have "step_runs_of p w' = map g (step_runs_of p w)"
    by (simp add: step_runs_of_def g(2) filter_map o_def idk)
  then show "\<exists>g. keeps_slot g \<and> step_runs_of p w' = map g (step_runs_of p w) \<and>
      current_attempts (step_runs_of p w') = map g (current_attempts (step_runs_of p w)) \<and>
      (\<forall>r. sr_id r \<notin> ids \<longrightarrow> g r = r) \<and> (\<forall>r. sr_id r \<in> ids \<longrightarrow> Q (g r))"
    using g current_attempts_map[OF g(1)] by auto
  show "Q r' \<and> sr_id r' \<in> ids \<or> r' \<in> set (wd_step_runs w) \<and> sr_id r' \<notin> ids"
    if r': "r' \<in> set (wd_step_runs w')"
  proof -
    from r' obtain r where r: "r \<in> set (wd_step_runs w)" "r' = g r" by (auto simp: g(2))
    show ?thesis
    proof (cases "sr_id r \<in> ids")
      case True
      with r g(4) idk show ?thesis by simp
    next
      case False
      with r g(3) idk show ?thesis by simp
    qed
  qed
qed

section \<open>A consistent store\<close>

text \<open>
  What every operation of the executor keeps: step-run ids are distinct uuids already issued, and
  a step run's \<open>run_id\<close> names an existing run.
\<close>

definition refs_ok :: "world \<Rightarrow> bool" where
  "refs_ok w \<longleftrightarrow> (\<forall>sr \<in> set (wd_step_runs w). fk rn_id (wd_runs w) (sr_run sr))"

definition store_ok :: "executor \<Rightarrow> world \<Rightarrow> bool" where
  "store_ok ex w \<longleftrightarrow> inj (ge_uuid (ex_env ex)) \<and> distinct (map sr_id (wd_step_runs w)) \<and>
     sr_id ` set (wd_step_runs w) \<subseteq> ge_uuid (ex_env ex) ` {..<wd_uuids w} \<and> refs_ok w"

lemma fk_mono: "fk key rows x \<Longrightarrow> key ` set rows \<subseteq> key ` set rows' \<Longrightarrow> fk key rows' x"
  by (auto simp: fk_def split: option.splits)

lemma store_ok_updates:
  assumes "store_ok ex w" "updates ids Q w w'" "step_frame w w'"
    and "\<And>r. Q r \<Longrightarrow> fk rn_id (wd_runs w') (sr_run r)"
  shows "store_ok ex w'"
proof -
  have "refs_ok w'" unfolding refs_ok_def
  proof
    fix r assume "r \<in> set (wd_step_runs w')"
    with updates_rows(3)[OF assms(2)] have "Q r \<or> r \<in> set (wd_step_runs w)" by blast
    then show "fk rn_id (wd_runs w') (sr_run r)"
      using assms(1,3,4) by (auto simp: store_ok_def refs_ok_def step_frame_def intro: fk_mono)
  qed
  moreover have "wd_uuids w \<le> wd_uuids w'" using assms(3) by (simp add: step_frame_def)
  then have "ge_uuid (ex_env ex) ` {..<wd_uuids w} \<subseteq> ge_uuid (ex_env ex) ` {..<wd_uuids w'}" by auto
  moreover have "sr_id ` set (wd_step_runs w') = sr_id ` set (wd_step_runs w)"
    using updates_rows(1)[OF assms(2)] by (metis list.set_map)
  moreover have "sr_id ` set (wd_step_runs w) \<subseteq> ge_uuid (ex_env ex) ` {..<wd_uuids w}"
    using assms(1) by (simp add: store_ok_def)
  ultimately have "sr_id ` set (wd_step_runs w') \<subseteq> ge_uuid (ex_env ex) ` {..<wd_uuids w'}" by (metis order_trans)
  then show ?thesis
    using assms(1) updates_rows(1)[OF assms(2)] \<open>refs_ok w'\<close> unfolding store_ok_def by simp
qed

text \<open>Inserting a step run with a fresh id succeeds.\<close>

definition inserted :: "step_run \<Rightarrow> world \<Rightarrow> world" where
  "inserted r w = w\<lparr>wd_uuids := Suc (wd_uuids w), wd_step_runs := wd_step_runs w @ [r]\<rparr>"

lemma inserted_simps [simp]:
  "wd_step_runs (inserted r w) = wd_step_runs w @ [r]" "wd_pipeline_runs (inserted r w) = wd_pipeline_runs w"
  "step_frame w (inserted r w)"
  by (simp_all add: inserted_def step_frame_def keeps_config_def)

lemma insert_fresh:
  assumes "store_ok ex w" "p \<in> pr_id ` set (wd_pipeline_runs w)"
    and r: "sr_id r = ge_uuid (ex_env ex) (wd_uuids w)" "sr_pipeline_run r = p" "sr_run r = None"
  shows "step_runs_create r (w\<lparr>wd_uuids := Suc (wd_uuids w)\<rparr>) = (Inr (), inserted r w)"
    and "store_ok ex (inserted r w)"
proof -
  have new: "sr_id r \<notin> sr_id ` set (wd_step_runs w)"
  proof
    assume "sr_id r \<in> sr_id ` set (wd_step_runs w)"
    then have "sr_id r \<in> ge_uuid (ex_env ex) ` {..<wd_uuids w}" using assms(1) unfolding store_ok_def by blast
    then show False using assms(1) r(1) unfolding store_ok_def by (auto dest: injD)
  qed
  then show "step_runs_create r (w\<lparr>wd_uuids := Suc (wd_uuids w)\<rparr>) = (Inr (), inserted r w)"
    using assms(2) r by (auto simp: step_runs_create_def inserted_def)
  show "store_ok ex (inserted r w)"
    using assms(1) new r by (auto simp: store_ok_def refs_ok_def less_Suc_eq inserted_def)
qed

definition pending_row :: "executor \<Rightarrow> id \<Rightarrow> id \<Rightarrow> nat \<Rightarrow> string \<Rightarrow> nat \<Rightarrow> world \<Rightarrow> step_run" where
  "pending_row ex p k i item n w =
     \<lparr>sr_id = ge_uuid (ex_env ex) (wd_uuids w), sr_pipeline_run = p, sr_step = k, sr_index = i, sr_item = item,
      sr_run = None, sr_attempt = n, sr_state = StepRunPending, sr_report = [], sr_started = None,
      sr_finished = None, sr_worktree = []\<rparr>"

lemma create_step_run_ok:
  assumes "store_ok ex w" "p \<in> pr_id ` set (wd_pipeline_runs w)"
  shows "create_step_run ex p k i item n w = (Inr (), inserted (pending_row ex p k i item n w) w)"
    and "store_ok ex (inserted (pending_row ex p k i item n w) w)"
  using insert_fresh[OF assms, of "pending_row ex p k i item n w"]
  by (simp_all add: pending_row_def create_step_run_def new_uuid_def)

text \<open>Rows appended for a node that has none yet.\<close>

definition appends :: "id \<Rightarrow> id \<Rightarrow> step_run list \<Rightarrow> world \<Rightarrow> world \<Rightarrow> bool" where
  "appends p k rs w w' \<longleftrightarrow> wd_step_runs w' = wd_step_runs w @ rs \<and> step_frame w w' \<and>
     map sr_index rs = [0..<length rs] \<and>
     (\<forall>r \<in> set rs. sr_pipeline_run r = p \<and> sr_step r = k \<and> sr_attempt r = 1 \<and> sr_run r = None \<and>
        sr_state r \<noteq> StepRunRunning)"

lemma create_items_spec:
  assumes "store_ok ex w" "p \<in> pr_id ` set (wd_pipeline_runs w)"
  shows "\<exists>rs w'. create_items ex p k i items w = (True, w') \<and> store_ok ex w' \<and> step_frame w w' \<and>
    wd_step_runs w' = wd_step_runs w @ rs \<and> map sr_index rs = [i..<i + length items] \<and>
    map sr_item rs = map (\<lambda>item. case ge_marshal (ex_env ex) item of Some s \<Rightarrow> s | None \<Rightarrow> go_quote []) items \<and>
    (\<forall>r \<in> set rs. sr_pipeline_run r = p \<and> sr_step r = k \<and> sr_attempt r = 1 \<and> sr_run r = None \<and>
        sr_state r = StepRunPending)"
  using assms
proof (induction items arbitrary: i w)
  case Nil
  then show ?case by (intro exI[of _ "[]"] exI[of _ w]) simp
next
  case (Cons item items)
  let ?s = "case ge_marshal (ex_env ex) item of Some s \<Rightarrow> s | None \<Rightarrow> go_quote []"
  let ?r = "pending_row ex p k i ?s 1 w"
  have c: "create_step_run ex p k i ?s 1 w = (Inr (), inserted ?r w)" "store_ok ex (inserted ?r w)"
    by (rule create_step_run_ok[OF Cons.prems])+
  have "p \<in> pr_id ` set (wd_pipeline_runs (inserted ?r w))" using Cons.prems(2) by simp
  from Cons.IH[OF c(2) this, of "Suc i"] obtain rs w' where IH:
    "create_items ex p k (Suc i) items (inserted ?r w) = (True, w')" "store_ok ex w'" "step_frame (inserted ?r w) w'"
    "wd_step_runs w' = wd_step_runs (inserted ?r w) @ rs" "map sr_index rs = [Suc i..<Suc i + length items]"
    "map sr_item rs = map (\<lambda>item. case ge_marshal (ex_env ex) item of Some s \<Rightarrow> s | None \<Rightarrow> go_quote []) items"
    "\<forall>r \<in> set rs. sr_pipeline_run r = p \<and> sr_step r = k \<and> sr_attempt r = 1 \<and> sr_run r = None \<and>
        sr_state r = StepRunPending" by blast
  have "step_frame w w'" by (rule step_frame_trans[OF inserted_simps(3) IH(3)])
  moreover have "create_items ex p k i (item # items) w = (True, w')" using c(1) IH(1) by simp
  moreover have "[i..<i + length (item # items)] = i # [Suc i..<Suc i + length items]"
    by (simp add: upt_conv_Cons del: upt_Suc)
  then have "map sr_index (?r # rs) = [i..<i + length (item # items)]"
    using IH(5) by (simp add: pending_row_def del: upt_Suc)
  ultimately show ?case using IH(2,4,6,7)
    by (intro exI[of _ "?r # rs"] exI[of _ w']) (auto simp: pending_row_def simp del: upt_Suc)
qed

lemma expand_effect:
  assumes "store_ok ex w" "pr_id pr \<in> pr_id ` set (wd_pipeline_runs w)"
  shows "\<exists>rs w'. expand ex pr d st cur w = (True, w') \<and> store_ok ex w' \<and>
    appends (pr_id pr) (st_id st) rs w w' \<and> rs \<noteq> [] \<and> length rs \<le> MaxFanout"
proof -
  have one: "\<exists>rs v. w' = v \<and> store_ok ex v \<and> appends (pr_id pr) (st_id st) rs w v \<and> rs \<noteq> [] \<and> length rs \<le> MaxFanout"
    if "w' = publish_state ex (pr_id pr) [] t (inserted r w) \<or> w' = inserted r w" "store_ok ex (inserted r w)"
      "sr_pipeline_run r = pr_id pr" "sr_step r = st_id st" "sr_attempt r = 1" "sr_run r = None"
      "sr_state r \<noteq> StepRunRunning" "sr_index r = 0" for r t w'
  proof -
    have "store_ok ex (publish_state ex (pr_id pr) [] t (inserted r w))"
      using that(2) by (simp add: store_ok_def refs_ok_def)
    moreover have "step_frame w (publish_state ex (pr_id pr) [] t (inserted r w))"
      by (rule step_frame_trans[OF inserted_simps(3) publish_state_frame(9)])
    ultimately show ?thesis using that
      by (intro exI[of _ "[r]"] exI[of _ w']) (auto simp: appends_def MaxFanout_def)
  qed
  have failed: "\<exists>rs. store_ok ex (create_failed_step_run ex (pr_id pr) (st_id st) reason w) \<and>
      appends (pr_id pr) (st_id st) rs w (create_failed_step_run ex (pr_id pr) (st_id st) reason w) \<and>
      rs \<noteq> [] \<and> length rs \<le> MaxFanout" for reason
  proof -
    let ?r = "\<lparr>sr_id = ge_uuid (ex_env ex) (wd_uuids w), sr_pipeline_run = pr_id pr, sr_step = st_id st, sr_index = 0,
        sr_item = [], sr_run = None, sr_attempt = 1, sr_state = StepRunFailed,
        sr_report = error_report ex reason ''{\"error\":\"fan-out failed\"}'', sr_started = None,
        sr_finished = Some (wd_now w), sr_worktree = []\<rparr>"
    note i = insert_fresh[OF assms, of ?r, simplified]
    then have "create_failed_step_run ex (pr_id pr) (st_id st) reason w =
        publish_state ex (pr_id pr) [] (step_run_state_text StepRunFailed) (inserted ?r w)"
      by (simp add: create_failed_step_run_def new_uuid_def)
    then show ?thesis using one[of _ "step_run_state_text StepRunFailed" ?r] i(2) by auto
  qed
  show ?thesis
  proof (cases "st_foreach st = []")
    case True
    let ?r = "pending_row ex (pr_id pr) (st_id st) 0 [] 1 w"
    have "expand ex pr d st cur w = (True, inserted ?r w)"
      using True create_step_run_ok(1)[OF assms] by (simp add: expand_def)
    then show ?thesis using one[of "inserted ?r w" _ ?r] create_step_run_ok(2)[OF assms, of "st_id st" 0 "[]" 1]
      by (auto simp: pending_row_def)
  next
    case each: False
    show ?thesis
    proof (cases "ge_render (ex_env ex) (st_foreach st) (vars_for ex pr d cur)")
      case (Inl err)
      then show ?thesis using each failed by (auto simp: expand_def)
    next
      case rendered: (Inr rendered)
      show ?thesis
      proof (cases "decode_list (ex_env ex) rendered")
        case (Inl err)
        then show ?thesis using each rendered failed by (auto simp: expand_def)
      next
        case items: (Inr items)
        consider "length items > MaxFanout" | "items = []" | "items \<noteq> []" "length items \<le> MaxFanout" by linarith
        then show ?thesis
        proof cases
          case 1
          then show ?thesis using each rendered items failed by (auto simp: expand_def)
        next
          case 2
          let ?r = "\<lparr>sr_id = ge_uuid (ex_env ex) (wd_uuids w), sr_pipeline_run = pr_id pr, sr_step = st_id st,
              sr_index = 0, sr_item = [], sr_run = None, sr_attempt = 1, sr_state = StepRunSuccess,
              sr_report = ''{}'', sr_started = None, sr_finished = None, sr_worktree = []\<rparr>"
          note i = insert_fresh[OF assms, of ?r, simplified]
          then have "expand ex pr d st cur w =
              (True, publish_state ex (pr_id pr) [] (step_run_state_text StepRunSuccess) (inserted ?r w))"
            using each rendered items 2 by (simp add: expand_def create_empty_marker_def new_uuid_def MaxFanout_def)
          then show ?thesis using one[of _ "step_run_state_text StepRunSuccess" ?r] i(2) by auto
        next
          case 3
          obtain rs w' where "create_items ex (pr_id pr) (st_id st) 0 items w = (True, w')" "store_ok ex w'"
            "step_frame w w'" "wd_step_runs w' = wd_step_runs w @ rs" "map sr_index rs = [0..<length items]"
            "map sr_item rs = map (\<lambda>item. case ge_marshal (ex_env ex) item of Some s \<Rightarrow> s | None \<Rightarrow> go_quote []) items"
            "\<forall>r \<in> set rs. sr_pipeline_run r = pr_id pr \<and> sr_step r = st_id st \<and> sr_attempt r = 1 \<and>
               sr_run r = None \<and> sr_state r = StepRunPending"
            using create_items_spec[OF assms, of "st_id st" 0 items] by auto
          moreover from this(6) have "length rs = length items" by (metis length_map)
          ultimately show ?thesis using 3 each rendered items
            by (intro exI[of _ rs] exI[of _ w']) (auto simp: expand_def appends_def)
        qed
      qed
    qed
  qed
qed

section \<open>The executor's contract\<close>

text \<open>
  The run engine and the session service the executor was constructed with keep their promises.
\<close>

locale pipeline_executor =
  fixes ex :: executor
  assumes starter: "run_starter (ex_start ex)"
    and closer: "ex_sessions ex = Some (interrupt, close) \<Longrightarrow> session_closer interrupt close"
begin

lemma start_frame:
  assumes "ex_start ex inp w = (r, w')"
  shows "step_frame w w'" and "wd_step_runs w' = wd_step_runs w"
  using run_starter.start_keeps_pipelines[OF starter assms] run_starter.start_keeps_config[OF starter assms]
    run_starter.start_keeps_runs[OF starter assms] run_starter.start_keeps_uuids[OF starter assms]
  by (simp_all add: step_frame_def keeps_pipelines_def)

lemma close_step_session_frame:
  "step_frame w (close_step_session ex sr w)" "wd_step_runs (close_step_session ex sr w) = wd_step_runs w"
  "wd_runs (close_step_session ex sr w) = wd_runs w"
proof -
  have "step_frame w (close_step_session ex sr w) \<and> wd_step_runs (close_step_session ex sr w) = wd_step_runs w \<and>
      wd_runs (close_step_session ex sr w) = wd_runs w"
  proof (cases "\<exists>rid i c r. sr_run sr = Some rid \<and> ex_sessions ex = Some (i, c) \<and> runs_get rid w = Inr r")
    case False
    then show ?thesis by (auto simp: close_step_session_def split: option.splits sum.splits)
  next
    case True
    then obtain rid i c r where c: "sr_run sr = Some rid" "ex_sessions ex = Some (i, c)" "runs_get rid w = Inr r"
      by blast
    obtain r1 w1 where w1: "i (rn_session r) w = (r1, w1)" by fastforce
    obtain r2 w2 where w2: "c (rn_session r) w1 = (r2, w2)" by fastforce
    have cl: "session_closer i c" by (rule closer[OF c(2)])
    show ?thesis
      using c w1 w2 session_closer.interrupt_keeps[OF cl w1] session_closer.close_keeps[OF cl w2]
      by (auto simp: close_step_session_def step_frame_def keeps_pipelines_def intro: keeps_trans)
  qed
  then show "step_frame w (close_step_session ex sr w)" "wd_step_runs (close_step_session ex sr w) = wd_step_runs w"
    "wd_runs (close_step_session ex sr w) = wd_runs w" by blast+
qed

subsection \<open>Stopping\<close>

lemma stop_step_effect:
  assumes "fk rn_id (wd_runs w) (sr_run sr)"
  shows "updates (if sr_busy (sr_state sr) then {sr_id sr} else {})
      (\<lambda>r. sr_state r \<in> {p, q} \<and> fk rn_id (wd_runs w) (sr_run r)) w (stop_step ex p q w sr)"
    and "step_frame w (stop_step ex p q w sr)" and "wd_runs (stop_step ex p q w sr) = wd_runs w"
proof -
  have u: "updates {sr_id sr} (\<lambda>r. sr_state r \<in> {p, q} \<and> fk rn_id (wd_runs w) (sr_run r)) w w'"
    if "wd_step_runs w' = wd_step_runs (set_step_state ex sr st [] [] w)" "st \<in> {p, q}" for w' st
    by (rule updates_one[where f="set_row (wd_now w) sr st [] []"])
      (use that assms in \<open>auto simp: set_step_state_rows\<close>)
  show "updates (if sr_busy (sr_state sr) then {sr_id sr} else {})
      (\<lambda>r. sr_state r \<in> {p, q} \<and> fk rn_id (wd_runs w) (sr_run r)) w (stop_step ex p q w sr)"
    using u by (cases "sr_state sr") (auto simp: stop_step_def close_step_session_frame)
  show "step_frame w (stop_step ex p q w sr)"
    using step_frame_trans[OF set_step_state_frame(5) close_step_session_frame(1)]
    by (cases "sr_state sr") (simp_all add: stop_step_def)
  show "wd_runs (stop_step ex p q w sr) = wd_runs w"
    by (cases "sr_state sr") (simp_all add: stop_step_def close_step_session_frame)
qed

lemma stop_steps_effect:
  assumes "\<forall>sr \<in> set cur. fk rn_id (wd_runs w) (sr_run sr)"
  shows "updates (sr_id ` {sr \<in> set cur. sr_busy (sr_state sr)})
      (\<lambda>r. sr_state r \<in> {p, q} \<and> fk rn_id (wd_runs w) (sr_run r)) w (stop_steps ex cur p q w)"
    and "step_frame w (stop_steps ex cur p q w)" and "wd_runs (stop_steps ex cur p q w) = wd_runs w"
proof -
  let ?Q = "\<lambda>r. sr_state r \<in> {p, q} \<and> fk rn_id (wd_runs w) (sr_run r)"
  have "updates (sr_id ` {sr \<in> set cur. sr_busy (sr_state sr)}) ?Q w (stop_steps ex cur p q w) \<and>
      step_frame w (stop_steps ex cur p q w) \<and> wd_runs (stop_steps ex cur p q w) = wd_runs w"
    using assms
  proof (induction cur rule: rev_induct)
    case Nil
    then show ?case by (simp add: stop_steps_def)
  next
    case (snoc sr cur)
    let ?w = "stop_steps ex cur p q w"
    have IH: "updates (sr_id ` {sr \<in> set cur. sr_busy (sr_state sr)}) ?Q w ?w" "step_frame w ?w" "wd_runs ?w = wd_runs w"
      using snoc by simp_all
    have step: "stop_steps ex (cur @ [sr]) p q w = stop_step ex p q ?w sr" by (simp add: stop_steps_def)
    have fk: "fk rn_id (wd_runs ?w) (sr_run sr)" using snoc.prems IH(3) by simp
    have "sr_id ` {r \<in> set (cur @ [sr]). sr_busy (sr_state r)} =
        sr_id ` {r \<in> set cur. sr_busy (sr_state r)} \<union> (if sr_busy (sr_state sr) then {sr_id sr} else {})"
      by auto
    then show ?case unfolding step
      using updates_trans[OF IH(1) stop_step_effect(1)[OF fk, of p q, unfolded IH(3)]]
        step_frame_trans[OF IH(2) stop_step_effect(2)[OF fk]] stop_step_effect(3)[OF fk] IH(3) by simp
  qed
  then show "updates (sr_id ` {sr \<in> set cur. sr_busy (sr_state sr)}) ?Q w (stop_steps ex cur p q w)"
    "step_frame w (stop_steps ex cur p q w)" "wd_runs (stop_steps ex cur p q w) = wd_runs w" by blast+
qed

subsection \<open>Starting\<close>

lemma fail_step_effect:
  assumes "fk rn_id (wd_runs w) (sr_run sr)"
  shows "updates {sr_id sr} (\<lambda>r. sr_state r = StepRunFailed \<and> fk rn_id (wd_runs w) (sr_run r)) w (fail_step ex sr reason w)"
    and "step_frame w (fail_step ex sr reason w)" and "wd_runs (fail_step ex sr reason w) = wd_runs w"
  using assms by (auto simp: fail_step_def set_step_state_rows intro!: updates_one[where f="set_row _ sr StepRunFailed _ _"])

lemma updates_weaken: "updates ids Q w w' \<Longrightarrow> (\<And>r. Q r \<Longrightarrow> R r) \<Longrightarrow> updates ids R w w'"
  unfolding updates_def by blast

lemma updates_rows_eq: "wd_step_runs w1 = wd_step_runs w \<Longrightarrow> updates ids Q w1 w' \<Longrightarrow> updates ids Q w w'"
  unfolding updates_def by simp

lemma mark_running_effect:
  assumes "rn_id r \<in> rn_id ` set (wd_runs w)"
  shows "updates {sr_id sr} (\<lambda>x. sr_state x = StepRunRunning \<and> fk rn_id (wd_runs w) (sr_run x)) w
      (mark_running ex pr sr path r w)"
    and "step_frame w (mark_running ex pr sr path r w)" and "wd_runs (mark_running ex pr sr path r w) = wd_runs w"
proof -
  define wt where "wt = (if ex_has_sessions_repo ex then
            (case sessions_get (rn_session r) w of
               Inl e \<Rightarrow> path
             | Inr s \<Rightarrow> if se_worktree s \<noteq> [] then se_worktree s else path)
          else path)"
  let ?f = "\<lambda>x. x\<lparr>sr_state := StepRunRunning, sr_run := Some (rn_id r), sr_report := sr_report sr,
      sr_worktree := wt, sr_started := Some (wd_now w), sr_finished := None\<rparr>"
  have rows: "wd_step_runs (mark_running ex pr sr path r w) = tbl_update sr_id (sr_id sr) ?f (wd_step_runs w)"
  proof (cases "sr_id sr \<in> sr_id ` set (wd_step_runs w)")
    case True
    then show ?thesis using assms
      by (simp add: mark_running_def step_runs_update_def wt_def[symmetric] Let_def)
  next
    case False
    then show ?thesis by (simp add: mark_running_def step_runs_update_def wt_def[symmetric] Let_def tbl_update_absent)
  qed
  show "updates {sr_id sr} (\<lambda>x. sr_state x = StepRunRunning \<and> fk rn_id (wd_runs w) (sr_run x)) w
      (mark_running ex pr sr path r w)"
    by (rule updates_one[OF _ rows]) (use assms in \<open>auto simp: keeps_slot_def slot_of_def\<close>)
  show "step_frame w (mark_running ex pr sr path r w)" "wd_runs (mark_running ex pr sr path r w) = wd_runs w"
    by (simp_all add: mark_running_def step_runs_update_def step_frame_def keeps_config_def publish_state_def
        publish_def Let_def)
qed

definition started_or_failed :: "world \<Rightarrow> step_run \<Rightarrow> bool" where
  "started_or_failed w r \<longleftrightarrow> sr_state r \<in> {StepRunRunning, StepRunFailed} \<and> fk rn_id (wd_runs w) (sr_run r)"

lemma started_or_failed_mono: "started_or_failed w r \<Longrightarrow> step_frame w w' \<Longrightarrow> started_or_failed w' r"
  by (auto simp: started_or_failed_def step_frame_def intro: fk_mono)

lemma start_step_effect:
  assumes fk: "fk rn_id (wd_runs w) (sr_run sr)"
    and w'_def: "w' = start_step ex pr d st cur lookup sr w"
  shows "updates {sr_id sr} (started_or_failed w') w w'" and "step_frame w w'"
proof -
  have fail: "updates {sr_id sr} (started_or_failed (fail_step ex sr reason v)) w (fail_step ex sr reason v) \<and>
      step_frame w (fail_step ex sr reason v)"
    if v: "wd_step_runs v = wd_step_runs w" "step_frame w v" for reason v
  proof -
    have "fk rn_id (wd_runs v) (sr_run sr)" using fk v(2) by (auto simp: step_frame_def intro: fk_mono)
    note e = fail_step_effect[OF this, of reason]
    have "updates {sr_id sr} (started_or_failed (fail_step ex sr reason v)) v (fail_step ex sr reason v)"
      using e(3) by (auto intro: updates_weaken[OF e(1)] simp: started_or_failed_def)
    then show ?thesis using updates_rows_eq[OF v(1)] step_frame_trans[OF v(2) e(2)] by blast
  qed
  have run: "updates {sr_id sr} (started_or_failed (mark_running ex pr sr path r v)) w (mark_running ex pr sr path r v) \<and>
      step_frame w (mark_running ex pr sr path r v)"
    if v: "ex_start ex inp w = (Inr r, v)" for inp r v path
  proof -
    have "rn_id r \<in> rn_id ` set (wd_runs v)" by (rule run_starter.start_recorded[OF starter v])
    note e = mark_running_effect[OF this, where sr=sr and pr=pr and path=path]
    have "updates {sr_id sr} (started_or_failed (mark_running ex pr sr path r v)) v (mark_running ex pr sr path r v)"
      using e(3) by (auto intro: updates_weaken[OF e(1)] simp: started_or_failed_def)
    then show ?thesis using updates_rows_eq[OF start_frame(2)[OF v]] step_frame_trans[OF start_frame(1)[OF v] e(2)] by blast
  qed
  have "updates {sr_id sr} (started_or_failed w') w w' \<and> step_frame w w'"
  proof (cases "case lookup of None \<Rightarrow> Some (st_template st) | Some f \<Rightarrow> f (st_template st)")
    case None
    then show ?thesis using fail[of w] by (simp add: w'_def start_step_def)
  next
    case tid: (Some tid)
    let ?vs = "if sr_item sr \<noteq> [] then var_set ''item'' (decode_item ex (sr_item sr)) (vars_for ex pr d cur)
        else vars_for ex pr d cur"
    show ?thesis
    proof (cases "render_with ex (st_with st) ?vs")
      case (Inl reason)
      then have "w' = fail_step ex sr reason w" by (simp only: w'_def start_step_def tid option.case Let_def sum.case)
      then show ?thesis using fail[of w] by simp
    next
      case (Inr vs)
      let ?path = "if st_worktree st = ''shared'' then shared_worktree cur (st_needs st) else []"
      let ?inp = "\<lparr>ri_template = tid, ri_trigger = [], ri_delivery = [], ri_vars = vs,
          ri_origin = OriginPipeline, ri_step_run = sr_id sr, ri_worktree = ?path\<rparr>"
      obtain res v where v: "ex_start ex ?inp w = (res, v)" by fastforce
      have w': "w' = (case res of Inl err \<Rightarrow> fail_step ex sr (''start run: '' @ error_text err) v
          | Inr r \<Rightarrow> mark_running ex pr sr ?path r v)"
        unfolding w'_def start_step_def tid option.case Let_def Inr sum.case v
        by (cases res) simp_all
      show ?thesis
      proof (cases res)
        case (Inl err)
        then show ?thesis using w' fail[OF start_frame(2)[OF v] start_frame(1)[OF v]] by simp
      next
        case (Inr r)
        then show ?thesis using w' run v by simp
      qed
    qed
  qed
  then show "updates {sr_id sr} (started_or_failed w') w w'" "step_frame w w'" by blast+
qed

lemma start_pending_effect:
  assumes "\<forall>sr \<in> set cur. fk rn_id (wd_runs w) (sr_run sr)"
    and ids_def: "ids = sr_id ` {sr \<in> set cur. sr_step sr = st_id st \<and> sr_state sr = StepRunPending}"
    and w'_def: "w' = start_pending ex pr d lookup st cur w"
  shows "updates ids (started_or_failed w') w w'" and "step_frame w w'"
proof -
  let ?step = "\<lambda>w sr. if sr_step sr = st_id st \<and> sr_state sr = StepRunPending
        then start_step ex pr d st cur lookup sr w else w"
  have "updates (sr_id ` {sr \<in> set xs. sr_step sr = st_id st \<and> sr_state sr = StepRunPending})
        (started_or_failed (foldl ?step w xs)) w (foldl ?step w xs) \<and> step_frame w (foldl ?step w xs)"
    if "set xs \<subseteq> set cur" for xs
    using that
  proof (induction xs rule: rev_induct)
    case Nil
    then show ?case by simp
  next
    case (snoc sr xs)
    let ?w = "foldl ?step w xs"
    have IH: "updates (sr_id ` {sr \<in> set xs. sr_step sr = st_id st \<and> sr_state sr = StepRunPending})
        (started_or_failed ?w) w ?w" "step_frame w ?w" using snoc by simp_all
    show ?case
    proof (cases "sr_step sr = st_id st \<and> sr_state sr = StepRunPending")
      case False
      then have "{r \<in> set (xs @ [sr]). sr_step r = st_id st \<and> sr_state r = StepRunPending} =
          {r \<in> set xs. sr_step r = st_id st \<and> sr_state r = StepRunPending}" by auto
      moreover have "foldl ?step w (xs @ [sr]) = ?w" unfolding foldl_append foldl.simps if_not_P[OF False] ..
      ultimately show ?thesis using IH by (simp only:)
    next
      case True
      let ?v = "start_step ex pr d st cur lookup sr ?w"
      have "fk rn_id (wd_runs ?w) (sr_run sr)"
        using assms(1) snoc.prems IH(2) by (auto simp: step_frame_def intro: fk_mono)
      note e = start_step_effect[OF this refl, of pr d st cur lookup]
      have "updates (sr_id ` {sr \<in> set xs. sr_step sr = st_id st \<and> sr_state sr = StepRunPending})
          (started_or_failed ?v) w ?w"
        by (rule updates_weaken[OF IH(1) started_or_failed_mono[OF _ e(2)]])
      note u = updates_trans[OF this e(1)]
      have "sr_id ` {r \<in> set (xs @ [sr]). sr_step r = st_id st \<and> sr_state r = StepRunPending} =
          sr_id ` {r \<in> set xs. sr_step r = st_id st \<and> sr_state r = StepRunPending} \<union> {sr_id sr}"
        using True by auto
      moreover have "foldl ?step w (xs @ [sr]) = ?v" unfolding foldl_append foldl.simps if_P[OF True] ..
      ultimately show ?thesis using u step_frame_trans[OF IH(2) e(2)] by (simp only:)
    qed
  qed
  from this[of cur] show "updates ids (started_or_failed w') w w'" "step_frame w w'"
    unfolding w'_def ids_def start_pending_def by auto
qed

subsection \<open>Advancing\<close>

lemma step_runs_of_appends:
  assumes "appends p k rs w w'"
  shows "step_runs_of p w' = step_runs_of p w @ rs"
  using assms by (auto simp: appends_def step_runs_of_def)

lemma current_appends:
  assumes "appends p k rs w w'" "state_of (current_attempts (step_runs_of p w)) k = NodeAbsent"
  shows "current_attempts (step_runs_of p w') = current_attempts (step_runs_of p w) @ rs"
proof -
  let ?rows = "step_runs_of p w"
  have rs: "\<forall>r \<in> set rs. sr_step r = k" "distinct (map sr_index rs)"
    using assms(1) by (auto simp: appends_def)
  have new: "(k, i) \<notin> slot_of ` set ?rows" for i
  proof
    assume "(k, i) \<in> slot_of ` set ?rows"
    then have "(k, i) \<in> slot_of ` set (current_attempts ?rows)" by (simp only: current_attempts_slots)
    then obtain r where "r \<in> set (current_attempts ?rows)" "slot_of r = (k, i)" by auto
    then show False using assms(2) by (auto simp: state_of_absent slot_of_def)
  qed
  have "current_attempts (?rows @ rs) = current_attempts ?rows @ rs" using rs
  proof (induction rs rule: rev_induct)
    case Nil
    then show ?case by simp
  next
    case (snoc r rs)
    have "slot_of r \<notin> slot_of ` set (?rows @ rs)"
      using snoc.prems new by (auto simp: slot_of_def)
    then have "current_attempts ((?rows @ rs) @ [r]) = current_attempts (?rows @ rs) @ [r]"
      by (rule current_attempts_append_new)
    with snoc show ?case by simp
  qed
  then show ?thesis by (simp only: step_runs_of_appends[OF assms(1)])
qed

text \<open>One iteration of the loop over the steps, as a function.\<close>

definition advance_one ::
  "pipeline_run \<Rightarrow> pipeline_def \<Rightarrow> template_lookup \<Rightarrow> step \<Rightarrow> step_run list \<Rightarrow> world \<Rightarrow> step_run list \<times> world" where
  "advance_one pr d lookup st cur w =
     (if \<not> deps_succeeded cur st then (cur, w)
      else let absent = (state_of cur (st_id st) = NodeAbsent);
               (ok, w1) = (if absent then expand ex pr d st cur w else (True, w))
           in if \<not> ok then (cur, w1)
              else let cur1 = (if absent then current_attempts (step_runs_of (pr_id pr) w1) else cur);
                       w2 = start_pending ex pr d lookup st cur1 w1
                   in (current_attempts (step_runs_of (pr_id pr) w2), w2))"

lemma advance_steps_Cons:
  "advance_steps ex pr d lookup (st # steps) cur w =
    (let (cur', w') = advance_one pr d lookup st cur w in advance_steps ex pr d lookup steps cur' w')"
  by (auto simp: advance_one_def Let_def split: prod.splits)

definition rows_of :: "id \<Rightarrow> step_run list \<Rightarrow> step_run list" where
  "rows_of k cur = filter (\<lambda>r. sr_step r = k) cur"

lemma state_of_rows_of: "rows_of k cur = rows_of k cur' \<Longrightarrow> state_of cur k = state_of cur' k"
proof -
  assume a: "rows_of k cur = rows_of k cur'"
  have "(\<exists>r \<in> set c. sr_step r = k \<and> P (sr_state r)) \<longleftrightarrow> (\<exists>r \<in> set (rows_of k c). P (sr_state r))" for c P
    by (auto simp: rows_of_def)
  from this[of _ sr_bad] this[of _ sr_busy] this[of _ "\<lambda>_. True"] show ?thesis
    unfolding state_of_char by (simp add: a)
qed

lemma step_runs_of_subset: "set (current_attempts (step_runs_of p w)) \<subseteq> set (wd_step_runs w)"
  using current_attempts_newest(1) by (fastforce simp: step_runs_of_def)

lemma current_fk:
  assumes "store_ok ex w"
  shows "\<forall>sr \<in> set (current_attempts (step_runs_of p w)). fk rn_id (wd_runs w) (sr_run sr)"
  using assms step_runs_of_subset[of p w] by (auto simp: store_ok_def refs_ok_def)

text \<open>What starting the pending rows of one node does to the current attempts.\<close>

lemma start_pending_current:
  assumes ok: "store_ok ex w" and cur: "cur = current_attempts (step_runs_of p w)"
    and w': "w' = start_pending ex pr d lookup st cur w"
  shows "store_ok ex w'" and "step_frame w w'"
    and "k \<noteq> st_id st \<Longrightarrow> rows_of k (current_attempts (step_runs_of p w')) = rows_of k cur"
    and "\<forall>r. r \<in> set cur \<longrightarrow> sr_state r = StepRunSuccess \<longrightarrow> r \<in> set (current_attempts (step_runs_of p w'))"
    and "sr_step ` set (current_attempts (step_runs_of p w')) = sr_step ` set cur"
    and "state_of cur (st_id st) = NodeSucceeded \<Longrightarrow> w' = w"
    and "r \<in> set (wd_step_runs w') \<Longrightarrow> sr_state r = StepRunRunning \<Longrightarrow>
      r \<in> set (wd_step_runs w) \<or> (sr_step r = st_id st \<and> sr_pipeline_run r = p)"
proof -
  let ?ids = "sr_id ` {sr \<in> set cur. sr_step sr = st_id st \<and> sr_state sr = StepRunPending}"
  have fk: "\<forall>sr \<in> set cur. fk rn_id (wd_runs w) (sr_run sr)" unfolding cur by (rule current_fk[OF ok])
  note e = start_pending_effect[OF fk refl w']
  show "step_frame w w'" by (rule e(2))
  show "store_ok ex w'"
    by (rule store_ok_updates[OF ok e(1) e(2)]) (simp add: started_or_failed_def)
  obtain g where g: "keeps_slot g" "current_attempts (step_runs_of p w') = map g cur"
      "\<forall>r. sr_id r \<notin> ?ids \<longrightarrow> g r = r" "\<forall>r. sr_id r \<in> ?ids \<longrightarrow> started_or_failed w' (g r)"
    using updates_rows(2)[OF e(1), of p] unfolding cur by blast
  have inj: "inj_on sr_id (set (wd_step_runs w))" using ok by (simp add: store_ok_def distinct_map)
  have sub: "set cur \<subseteq> set (wd_step_runs w)" unfolding cur by (rule step_runs_of_subset)
  have ids: "sr_id r \<in> ?ids \<Longrightarrow> r \<in> set (wd_step_runs w) \<Longrightarrow>
      r \<in> set cur \<and> sr_step r = st_id st \<and> sr_state r = StepRunPending" for r
    using inj sub by (auto dest!: inj_onD)
  have keep: "g r = r" if "r \<in> set cur" "sr_step r \<noteq> st_id st \<or> sr_state r \<noteq> StepRunPending" for r
    using g(3) ids[of r] that sub by blast
  show "rows_of k (current_attempts (step_runs_of p w')) = rows_of k cur" if "k \<noteq> st_id st"
  proof -
    have "filter (\<lambda>r. sr_step r = k) (map g xs) = filter (\<lambda>r. sr_step r = k) xs" if "set xs \<subseteq> set cur" for xs
      using that keep \<open>k \<noteq> st_id st\<close> g(1) by (induction xs) (auto simp: keeps_slot_def)
    then show ?thesis by (simp add: rows_of_def g(2))
  qed
  show "\<forall>r. r \<in> set cur \<longrightarrow> sr_state r = StepRunSuccess \<longrightarrow> r \<in> set (current_attempts (step_runs_of p w'))"
    using keep unfolding g(2) by force
  show "sr_step ` set (current_attempts (step_runs_of p w')) = sr_step ` set cur"
    using g(1) unfolding g(2) by (auto simp: keeps_slot_def image_iff)
  show "w' = w" if "state_of cur (st_id st) = NodeSucceeded"
  proof -
    have none: "\<forall>r \<in> set cur. \<not> (sr_step r = st_id st \<and> sr_state r = StepRunPending)"
      using that by (auto simp: state_of_succeeded)
    have "foldl (\<lambda>w sr. if sr_step sr = st_id st \<and> sr_state sr = StepRunPending
        then start_step ex pr d st cur lookup sr w else w) w xs = w" if "set xs \<subseteq> set cur" for xs
      using that none by (induction xs) auto
    then show ?thesis unfolding w' start_pending_def by simp
  qed
  show "r \<in> set (wd_step_runs w) \<or> (sr_step r = st_id st \<and> sr_pipeline_run r = p)"
    if r: "r \<in> set (wd_step_runs w')" "sr_state r = StepRunRunning" for r
  proof -
    from updates_rows(3)[OF e(1) r(1)] consider "sr_id r \<in> ?ids" | "r \<in> set (wd_step_runs w)" by blast
    then show ?thesis
    proof cases
      case 1
      obtain h where h: "keeps_slot h" "wd_step_runs w' = map h (wd_step_runs w)"
        using e(1) unfolding updates_def by blast
      with r obtain r0 where r0: "r0 \<in> set (wd_step_runs w)" "r = h r0" by auto
      with h 1 have "sr_id r0 \<in> ?ids" by (simp add: keeps_slot_def)
      from ids[OF this r0(1)] have "r0 \<in> set cur" "sr_step r0 = st_id st" by blast+
      moreover from this have "sr_pipeline_run r0 = p"
        using current_attempts_newest(1)[of r0 "step_runs_of p w"] by (simp add: cur step_runs_of_def)
      ultimately show ?thesis using h(1) r0(2) by (simp add: keeps_slot_def)
    qed simp
  qed
qed

end

end
