(* ===== verification/Pipeline_Advance.thy ===== *)
theory Pipeline_Advance
  imports Pipeline_Proofs
begin

text \<open>
  The loop of \<open>advanceLocked\<close> over the steps of a definition: each iteration changes the step runs of
  its own node only, never takes a success back, and starts a step only once its needs succeeded.
\<close>

text \<open>
  The loop's \<open>current\<close> is what a fresh read of the step runs gives; every need is an earlier step; a
  step whose needs succeeded has step runs.
\<close>

definition exact :: "id \<Rightarrow> step_run list \<Rightarrow> world \<Rightarrow> bool" where
  "exact p cur w \<longleftrightarrow> cur = current_attempts (step_runs_of p w)"

definition needs_earlier :: "step list \<Rightarrow> bool" where
  "needs_earlier steps \<longleftrightarrow> (\<forall>i < length steps. \<forall>need \<in> set (st_needs (steps ! i)).
     \<exists>j < i. st_id (steps ! j) = need)"

definition expanded :: "step_run list \<Rightarrow> step list \<Rightarrow> bool" where
  "expanded cur steps \<longleftrightarrow> (\<forall>st \<in> set steps. deps_succeeded cur st \<longrightarrow> st_id st \<in> sr_step ` set cur)"

context pipeline_executor
begin

lemma rows_of_append: "rows_of k (cur @ rs) = rows_of k cur @ rows_of k rs"
  by (simp add: rows_of_def)

lemma advance_one_spec:
  assumes ok: "store_ok ex w" and p: "pr_id pr \<in> pr_id ` set (wd_pipeline_runs w)"
    and cur: "exact (pr_id pr) cur w" and adv: "advance_one pr d lookup st cur w = (cur', w')"
  shows "store_ok ex w'" and "step_frame w w'" and "exact (pr_id pr) cur' w'"
    and "k \<noteq> st_id st \<Longrightarrow> rows_of k cur' = rows_of k cur"
    and "state_of cur (st_id st) = NodeSucceeded \<Longrightarrow> state_of cur' (st_id st) = NodeSucceeded"
    and "sr_step ` set cur \<subseteq> sr_step ` set cur'"
    and "deps_succeeded cur st \<Longrightarrow> st_id st \<in> sr_step ` set cur'"
    and "r \<in> set (wd_step_runs w') \<Longrightarrow> sr_state r = StepRunRunning \<Longrightarrow>
      r \<in> set (wd_step_runs w) \<or> (sr_step r = st_id st \<and> sr_pipeline_run r = pr_id pr \<and> deps_succeeded cur st)"
    and "\<not> deps_succeeded cur st \<Longrightarrow> cur' = cur"
proof -
  have c: "cur = current_attempts (step_runs_of (pr_id pr) w)" using cur by (simp add: exact_def)
  have "store_ok ex w' \<and> step_frame w w' \<and> exact (pr_id pr) cur' w' \<and>
      (\<forall>k. k \<noteq> st_id st \<longrightarrow> rows_of k cur' = rows_of k cur) \<and>
      (state_of cur (st_id st) = NodeSucceeded \<longrightarrow> state_of cur' (st_id st) = NodeSucceeded) \<and>
      sr_step ` set cur \<subseteq> sr_step ` set cur' \<and>
      (deps_succeeded cur st \<longrightarrow> st_id st \<in> sr_step ` set cur') \<and>
      (\<forall>r \<in> set (wd_step_runs w'). sr_state r = StepRunRunning \<longrightarrow>
        r \<in> set (wd_step_runs w) \<or> (sr_step r = st_id st \<and> sr_pipeline_run r = pr_id pr \<and> deps_succeeded cur st)) \<and>
      (\<not> deps_succeeded cur st \<longrightarrow> cur' = cur)"
  proof (cases "deps_succeeded cur st")
    case False
    with adv ok cur show ?thesis by (auto simp: advance_one_def Let_def)
  next
    case deps: True
    show ?thesis
    proof (cases "state_of cur (st_id st) = NodeAbsent")
      case present: False
      let ?w2 = "start_pending ex pr d lookup st cur w"
      have r: "cur' = current_attempts (step_runs_of (pr_id pr) ?w2)" "w' = ?w2"
        using adv deps present by (auto simp: advance_one_def Let_def)
      note s = start_pending_current[OF ok c refl, where pr=pr and d=d and lookup=lookup and st=st]
      have "state_of cur' (st_id st) = NodeSucceeded" if "state_of cur (st_id st) = NodeSucceeded"
        using s(6)[OF that] that c r by simp
      moreover have "st_id st \<in> sr_step ` set cur" using present unfolding state_of_absent by force
      ultimately show ?thesis using s(1-5,7) r deps by (auto simp: exact_def)
    next
      case absent: True
      obtain rs w1 where ex: "expand ex pr d st cur w = (True, w1)" "store_ok ex w1"
          "appends (pr_id pr) (st_id st) rs w w1" "rs \<noteq> []"
        using expand_effect[OF ok p, of d st cur] by blast
      let ?cur1 = "current_attempts (step_runs_of (pr_id pr) w1)"
      have cur1: "?cur1 = cur @ rs" using current_appends[OF ex(3)] absent c by simp
      let ?w2 = "start_pending ex pr d lookup st ?cur1 w1"
      have r: "cur' = current_attempts (step_runs_of (pr_id pr) ?w2)" "w' = ?w2"
        using adv deps absent ex(1) by (auto simp: advance_one_def Let_def)
      note s = start_pending_current[OF ex(2) refl refl, where p="pr_id pr" and pr=pr and d=d and lookup=lookup and st=st]
      have rs: "\<forall>r \<in> set rs. sr_step r = st_id st \<and> sr_state r \<noteq> StepRunRunning" "step_frame w w1"
          "wd_step_runs w1 = wd_step_runs w @ rs"
        using ex(3) by (auto simp: appends_def)
      have "rows_of k rs = []" if "k \<noteq> st_id st" for k using rs(1) that by (auto simp: rows_of_def filter_empty_conv)
      then have rows: "rows_of k cur' = rows_of k cur" if "k \<noteq> st_id st" for k
        using s(3)[OF that] that by (simp add: r cur1 rows_of_append)
      have steps: "sr_step ` set cur' = sr_step ` set (cur @ rs)"
        using s(5) by (simp only: r cur1)
      then have "st_id st \<in> sr_step ` set cur'" using rs(1) ex(4) by (cases rs) auto
      moreover have "r0 \<in> set (wd_step_runs w) \<or> (sr_step r0 = st_id st \<and> sr_pipeline_run r0 = pr_id pr)"
        if "r0 \<in> set (wd_step_runs w')" "sr_state r0 = StepRunRunning" for r0
        using s(7)[of r0] that rs by (auto simp: r)
      ultimately show ?thesis
        using s(1) step_frame_trans[OF rs(2) s(2)] rows steps absent deps by (auto simp: r exact_def)
    qed
  qed
  then show "store_ok ex w'" "step_frame w w'" "exact (pr_id pr) cur' w'"
    "k \<noteq> st_id st \<Longrightarrow> rows_of k cur' = rows_of k cur"
    "state_of cur (st_id st) = NodeSucceeded \<Longrightarrow> state_of cur' (st_id st) = NodeSucceeded"
    "sr_step ` set cur \<subseteq> sr_step ` set cur'"
    "deps_succeeded cur st \<Longrightarrow> st_id st \<in> sr_step ` set cur'"
    "r \<in> set (wd_step_runs w') \<Longrightarrow> sr_state r = StepRunRunning \<Longrightarrow>
      r \<in> set (wd_step_runs w) \<or> (sr_step r = st_id st \<and> sr_pipeline_run r = pr_id pr \<and> deps_succeeded cur st)"
    "\<not> deps_succeeded cur st \<Longrightarrow> cur' = cur"
    by blast+
qed

lemma advance_one_keeps_success:
  assumes "store_ok ex w" "pr_id pr \<in> pr_id ` set (wd_pipeline_runs w)" "exact (pr_id pr) cur w"
    and "advance_one pr d lookup st cur w = (cur', w')" and "state_of cur k = NodeSucceeded"
  shows "state_of cur' k = NodeSucceeded"
  using assms advance_one_spec(4,5)[OF assms(1-4)] by (metis state_of_rows_of)

text \<open>The whole loop: a started step's needs have succeeded, and still have at the end.\<close>

lemma advance_steps_spec:
  assumes "store_ok ex w" "pr_id pr \<in> pr_id ` set (wd_pipeline_runs w)" "exact (pr_id pr) cur w"
    and "advance_steps ex pr d lookup steps cur w = (cur', w')"
  shows "store_ok ex w' \<and> step_frame w w' \<and> exact (pr_id pr) cur' w' \<and>
    (\<forall>k. state_of cur k = NodeSucceeded \<longrightarrow> state_of cur' k = NodeSucceeded) \<and>
    sr_step ` set cur \<subseteq> sr_step ` set cur' \<and>
    (\<forall>r \<in> set (wd_step_runs w'). sr_state r = StepRunRunning \<longrightarrow> r \<in> set (wd_step_runs w) \<or>
      sr_pipeline_run r = pr_id pr \<and> (\<exists>st \<in> set steps. st_id st = sr_step r \<and> deps_succeeded cur' st))"
  using assms
proof (induction steps arbitrary: cur w)
  case Nil
  then show ?case by auto
next
  case (Cons st steps)
  obtain cur1 w1 where one: "advance_one pr d lookup st cur w = (cur1, w1)" by fastforce
  note s = advance_one_spec[OF Cons.prems(1-3) one]
  have rest: "advance_steps ex pr d lookup steps cur1 w1 = (cur', w')"
    using Cons.prems(4) one by (simp add: advance_steps_Cons del: advance_steps.simps(2))
  have p1: "pr_id pr \<in> pr_id ` set (wd_pipeline_runs w1)" using Cons.prems(2) s(2) by (simp add: step_frame_def)
  note IH = Cons.IH[OF s(1) p1 s(3) rest]
  have mono: "state_of cur k = NodeSucceeded \<Longrightarrow> state_of cur' k = NodeSucceeded" for k
    using advance_one_keeps_success[OF Cons.prems(1-3) one] IH by blast
  then have "deps_succeeded cur st \<Longrightarrow> deps_succeeded cur' st" for st
    by (auto simp: deps_succeeded_def list_all_iff)
  then have "\<forall>r \<in> set (wd_step_runs w'). sr_state r = StepRunRunning \<longrightarrow> r \<in> set (wd_step_runs w) \<or>
      sr_pipeline_run r = pr_id pr \<and> (\<exists>st' \<in> set (st # steps). st_id st' = sr_step r \<and> deps_succeeded cur' st')"
  proof (intro ballI impI)
    fix r assume r: "r \<in> set (wd_step_runs w')" "sr_state r = StepRunRunning"
    then consider "r \<in> set (wd_step_runs w1)"
      | "sr_pipeline_run r = pr_id pr" "\<exists>st' \<in> set steps. st_id st' = sr_step r \<and> deps_succeeded cur' st'"
      using IH by blast
    then show "r \<in> set (wd_step_runs w) \<or> sr_pipeline_run r = pr_id pr \<and>
        (\<exists>st' \<in> set (st # steps). st_id st' = sr_step r \<and> deps_succeeded cur' st')"
    proof cases
      case 1
      from s(8)[OF this r(2)] show ?thesis
        using \<open>\<And>st. deps_succeeded cur st \<Longrightarrow> deps_succeeded cur' st\<close> by auto
    next
      case 2
      then show ?thesis by auto
    qed
  qed
  moreover have "step_frame w w'" using IH step_frame_trans[OF s(2)] by blast
  moreover have "sr_step ` set cur \<subseteq> sr_step ` set cur'" using IH s(6) by blast
  ultimately show ?case using IH mono by (intro conjI) simp_all
qed

text \<open>With distinct ids and needs on earlier steps, a ready step is never left without step runs.\<close>

lemma needs_earlier_snoc:
  assumes "needs_earlier (done @ st # rest)"
  shows "set (st_needs st) \<subseteq> st_id ` set done"
proof
  fix n assume "n \<in> set (st_needs st)"
  with assms[unfolded needs_earlier_def, rule_format, of "length done" n]
  obtain j where "j < length done" "st_id ((done @ st # rest) ! j) = n" by auto
  then show "n \<in> st_id ` set done" by (auto simp: nth_append intro!: image_eqI[of _ _ "done ! j"])
qed

lemma advance_steps_expanded:
  assumes "store_ok ex w" "pr_id pr \<in> pr_id ` set (wd_pipeline_runs w)" "exact (pr_id pr) cur w"
    and "advance_steps ex pr d lookup steps cur w = (cur', w')"
    and "distinct (map st_id (done @ steps))" "needs_earlier (done @ steps)" "expanded cur done"
  shows "expanded cur' (done @ steps)"
  using assms
proof (induction steps arbitrary: cur w "done")
  case Nil
  then show ?case by simp
next
  case (Cons st steps)
  obtain cur1 w1 where one: "advance_one pr d lookup st cur w = (cur1, w1)" by fastforce
  note s = advance_one_spec[OF Cons.prems(1-3) one]
  have rest: "advance_steps ex pr d lookup steps cur1 w1 = (cur', w')"
    using Cons.prems(4) one by (simp add: advance_steps_Cons del: advance_steps.simps(2))
  have p1: "pr_id pr \<in> pr_id ` set (wd_pipeline_runs w1)" using Cons.prems(2) s(2) by (simp add: step_frame_def)
  have same: "deps_succeeded cur1 x \<longleftrightarrow> deps_succeeded cur x" if "set (st_needs x) \<subseteq> st_id ` set done" for x
  proof -
    have "state_of cur1 n = state_of cur n" if "n \<in> set (st_needs x)" for n
    proof -
      have "n \<noteq> st_id st" using \<open>set (st_needs x) \<subseteq> st_id ` set done\<close> that Cons.prems(5) by auto
      then show ?thesis using s(4) state_of_rows_of by metis
    qed
    then show ?thesis by (simp add: deps_succeeded_def list_all_iff)
  qed
  have early: "set (st_needs x) \<subseteq> st_id ` set done" if x: "x \<in> set done" for x
  proof -
    obtain a b where ab: "done = a @ x # b" using split_list[OF x] by blast
    then have "set (st_needs x) \<subseteq> st_id ` set a"
      using Cons.prems(6) needs_earlier_snoc[of a x "b @ st # steps"] by simp
    then show ?thesis by (auto simp: ab)
  qed
  have "expanded cur1 (done @ [st])" unfolding expanded_def
  proof (intro ballI impI)
    fix x assume x: "x \<in> set (done @ [st])" "deps_succeeded cur1 x"
    then consider "x \<in> set done" | "x = st" by auto
    then show "st_id x \<in> sr_step ` set cur1"
    proof cases
      case 1
      then have "deps_succeeded cur x" using x(2) same early by blast
      then show ?thesis using Cons.prems(7) 1 s(6) by (auto simp: expanded_def)
    next
      case 2
      have "deps_succeeded cur st" using x(2) same needs_earlier_snoc[OF Cons.prems(6)] 2 by blast
      then show ?thesis using s(7) 2 by blast
    qed
  qed
  from Cons.IH[OF s(1) p1 s(3) rest _ _ this] Cons.prems(5,6) show ?case by simp
qed

end

end
