(* ===== verification/Pipeline_Correct.thy ===== *)
theory Pipeline_Correct
  imports Pipeline_Advance
begin

text \<open>
  The properties of the pipeline executor: what one advance leaves behind, that a step starts only
  after its needs, that a finished message is applied once, and what cancelling, the timeout sweep
  and retrying do to a run.
\<close>

section \<open>Closing a run out\<close>

lemma finish_run_frame [simp]:
  "wd_step_runs (finish_run ex pr st w) = wd_step_runs w" "wd_runs (finish_run ex pr st w) = wd_runs w"
  "wd_pipelines (finish_run ex pr st w) = wd_pipelines w" "wd_uuids (finish_run ex pr st w) = wd_uuids w"
  "step_runs_of p (finish_run ex pr st w) = step_runs_of p w"
  by (simp_all add: finish_run_def pipeline_runs_finish_def step_runs_of_def)

lemma store_ok_cong:
  "store_ok ex w \<Longrightarrow> wd_step_runs w' = wd_step_runs w \<Longrightarrow> wd_runs w' = wd_runs w \<Longrightarrow> wd_uuids w' = wd_uuids w \<Longrightarrow>
   store_ok ex w'"
  by (simp add: store_ok_def refs_ok_def)

lemma finish_run_get:
  assumes "pipeline_runs_get (pr_id pr) w = Inr r"
  shows "\<exists>r'. pipeline_runs_get (pr_id pr) (finish_run ex pr st w) = Inr r' \<and> pr_state r' = st \<and> pr_finished r' = Some (wd_now w)"
proof -
  have g: "tbl_get pr_id (pr_id pr) (wd_pipeline_runs w) = Some r"
    using assms by (simp add: pipeline_runs_get_def found_Inr)
  have "pr_id pr \<in> pr_id ` set (wd_pipeline_runs w)" using tbl_get_Some[OF g] by (metis image_eqI)
  with g show ?thesis
    by (simp add: finish_run_def pipeline_runs_finish_def pipeline_runs_get_def tbl_get_update found_Inr)
qed

lemma finish_run_other:
  "q \<noteq> pr_id pr \<Longrightarrow> pipeline_runs_get q (finish_run ex pr st w) = pipeline_runs_get q w"
  by (simp add: finish_run_def pipeline_runs_finish_def pipeline_runs_get_def tbl_get_update)

context pipeline_executor
begin

lemma busy_current_ids:
  assumes "store_ok ex w" "exact p cur w"
  shows "sr_id r \<in> sr_id ` {x \<in> set cur. P x} \<Longrightarrow> r \<in> set (wd_step_runs w) \<Longrightarrow> r \<in> set cur \<and> P r"
proof -
  have "inj_on sr_id (set (wd_step_runs w))" using assms(1) by (simp add: store_ok_def distinct_map)
  moreover have "set cur \<subseteq> set (wd_step_runs w)" using assms(2) step_runs_of_subset by (simp add: exact_def)
  ultimately show "sr_id r \<in> sr_id ` {x \<in> set cur. P x} \<Longrightarrow> r \<in> set (wd_step_runs w) \<Longrightarrow> r \<in> set cur \<and> P r"
    by (auto dest: inj_onD)
qed

text \<open>Stopping the steps of a run: no current attempt is left busy, the others are untouched.\<close>

lemma stop_steps_current:
  assumes ok: "store_ok ex w" and cur: "exact p cur w" and pq: "\<not> sr_busy a" "\<not> sr_busy b" "sr_bad a" "sr_bad b"
    and w': "w' = stop_steps ex cur a b w"
  shows "store_ok ex w'" and "step_frame w w'" and "wd_runs w' = wd_runs w"
    and "\<forall>r \<in> set (current_attempts (step_runs_of p w')). \<not> sr_busy (sr_state r)"
    and "\<forall>r \<in> set cur. \<not> sr_busy (sr_state r) \<longrightarrow> r \<in> set (current_attempts (step_runs_of p w'))"
    and "state_of cur k = NodeSucceeded \<Longrightarrow> state_of (current_attempts (step_runs_of p w')) k = NodeSucceeded"
    and "r \<in> set (wd_step_runs w') \<Longrightarrow> sr_busy (sr_state r) \<Longrightarrow> r \<in> set (wd_step_runs w)"
    and "r \<in> set (wd_step_runs w) \<Longrightarrow> \<not> sr_busy (sr_state r) \<Longrightarrow> r \<in> set (wd_step_runs w')"
proof -
  let ?ids = "sr_id ` {sr \<in> set cur. sr_busy (sr_state sr)}"
  have c: "cur = current_attempts (step_runs_of p w)" using cur by (simp add: exact_def)
  have fk: "\<forall>sr \<in> set cur. fk rn_id (wd_runs w) (sr_run sr)" unfolding c by (rule current_fk[OF ok])
  note e = stop_steps_effect[OF fk, of a b, folded w']
  show "step_frame w w'" by (rule e(2))
  show "wd_runs w' = wd_runs w" by (rule e(3))
  show "store_ok ex w'" by (rule store_ok_updates[OF ok e(1) e(2)]) (simp add: e(3))
  obtain g where g: "keeps_slot g" "wd_step_runs w' = map g (wd_step_runs w)" "\<forall>r. sr_id r \<notin> ?ids \<longrightarrow> g r = r"
      "\<forall>r. sr_id r \<in> ?ids \<longrightarrow> sr_state (g r) \<in> {a, b}"
    using e(1) unfolding updates_def by blast
  have gc: "current_attempts (step_runs_of p w') = map g cur"
  proof -
    have "step_runs_of p w' = map g (step_runs_of p w)"
      using g(1) by (simp add: step_runs_of_def g(2) filter_map o_def keeps_slot_def)
    then show ?thesis by (simp add: current_attempts_map[OF g(1)] c)
  qed
  have sub: "set cur \<subseteq> set (wd_step_runs w)" unfolding c by (rule step_runs_of_subset)
  have keep: "g r = r" if "r \<in> set (wd_step_runs w)" "\<not> sr_busy (sr_state r)" for r
    using g(3) busy_current_ids[OF ok cur, of r "\<lambda>x. sr_busy (sr_state x)"] that by blast
  have stopped: "sr_state (g r) \<in> {a, b}" if "r \<in> set cur" "sr_busy (sr_state r)" for r
    using g(4) that by blast
  show "\<forall>r \<in> set (current_attempts (step_runs_of p w')). \<not> sr_busy (sr_state r)"
  proof
    fix r assume "r \<in> set (current_attempts (step_runs_of p w'))"
    then obtain r0 where "r0 \<in> set cur" "r = g r0" by (auto simp: gc)
    then show "\<not> sr_busy (sr_state r)" using keep[of r0] stopped[of r0] sub pq by (cases "sr_busy (sr_state r0)") auto
  qed
  show "\<forall>r \<in> set cur. \<not> sr_busy (sr_state r) \<longrightarrow> r \<in> set (current_attempts (step_runs_of p w'))"
    unfolding gc using keep sub by force
  show "state_of (current_attempts (step_runs_of p w')) k = NodeSucceeded" if s: "state_of cur k = NodeSucceeded"
  proof -
    have same: "g r = r" if "r \<in> set cur" "sr_step r = k" for r
      using s that keep[of r] sub by (auto simp: state_of_succeeded)
    have "sr_step (g r) = sr_step r" for r using g(1) by (simp add: keeps_slot_def)
    then show ?thesis using s same unfolding gc state_of_succeeded by (auto simp: image_iff)
  qed
  show "r \<in> set (wd_step_runs w)" if r: "r \<in> set (wd_step_runs w')" "sr_busy (sr_state r)"
    using updates_rows(3)[OF e(1) r(1)] r(2) pq by auto
  show "r \<in> set (wd_step_runs w')" if "r \<in> set (wd_step_runs w)" "\<not> sr_busy (sr_state r)"
    unfolding g(2) using keep[OF that] that(1) by force
qed

lemma settle_spec:
  assumes ok: "store_ok ex w" and cur: "exact (pr_id pr) cur w"
    and pr: "pipeline_runs_get (pr_id pr) w = Inr r0" "pr_state r0 = PipelineRunRunning"
    and w': "w' = settle ex pr cur w"
  shows "store_ok ex w'" and "\<exists>r'. pipeline_runs_get (pr_id pr) w' = Inr r' \<and>
     (if \<exists>s \<in> set cur. sr_bad (sr_state s)
      then pr_state r' = PipelineRunFailed \<and> pr_finished r' \<noteq> None \<and>
        (\<forall>s \<in> set (current_attempts (step_runs_of (pr_id pr) w')). \<not> sr_busy (sr_state s)) \<and>
        (\<exists>s \<in> set (current_attempts (step_runs_of (pr_id pr) w')). sr_bad (sr_state s))
      else if \<exists>s \<in> set cur. sr_busy (sr_state s) then w' = w
      else pr_state r' = PipelineRunSuccess \<and> pr_finished r' \<noteq> None \<and>
        current_attempts (step_runs_of (pr_id pr) w') = cur)"
    and "state_of cur k = NodeSucceeded \<Longrightarrow> state_of (current_attempts (step_runs_of (pr_id pr) w')) k = NodeSucceeded"
    and "r \<in> set (wd_step_runs w') \<Longrightarrow> sr_busy (sr_state r) \<Longrightarrow> r \<in> set (wd_step_runs w)"
    and "r \<in> set (wd_step_runs w) \<Longrightarrow> \<not> sr_busy (sr_state r) \<Longrightarrow> r \<in> set (wd_step_runs w')"
proof -
  let ?w = "stop_steps ex cur StepRunSkipped StepRunCancelled w"
  note st = stop_steps_current[OF ok cur _ _ _ _ refl, of StepRunSkipped StepRunCancelled, simplified]
  have get: "pipeline_runs_get (pr_id pr) ?w = Inr r0"
    using st(2) pr(1) by (simp add: step_frame_def pipeline_runs_get_def)
  consider (bad) "\<exists>s \<in> set cur. sr_bad (sr_state s)"
    | (busy) "\<not> (\<exists>s \<in> set cur. sr_bad (sr_state s))" "\<exists>s \<in> set cur. sr_busy (sr_state s)"
    | (fin) "\<not> (\<exists>s \<in> set cur. sr_bad (sr_state s))" "\<not> (\<exists>s \<in> set cur. sr_busy (sr_state s))" by blast
  then have "store_ok ex w' \<and> (\<exists>r'. pipeline_runs_get (pr_id pr) w' = Inr r' \<and>
     (if \<exists>s \<in> set cur. sr_bad (sr_state s)
      then pr_state r' = PipelineRunFailed \<and> pr_finished r' \<noteq> None \<and>
        (\<forall>s \<in> set (current_attempts (step_runs_of (pr_id pr) w')). \<not> sr_busy (sr_state s)) \<and>
        (\<exists>s \<in> set (current_attempts (step_runs_of (pr_id pr) w')). sr_bad (sr_state s))
      else if \<exists>s \<in> set cur. sr_busy (sr_state s) then w' = w
      else pr_state r' = PipelineRunSuccess \<and> pr_finished r' \<noteq> None \<and>
        current_attempts (step_runs_of (pr_id pr) w') = cur)) \<and>
     (\<forall>k. state_of cur k = NodeSucceeded \<longrightarrow> state_of (current_attempts (step_runs_of (pr_id pr) w')) k = NodeSucceeded) \<and>
     (\<forall>r \<in> set (wd_step_runs w'). sr_busy (sr_state r) \<longrightarrow> r \<in> set (wd_step_runs w)) \<and>
     (\<forall>r \<in> set (wd_step_runs w). \<not> sr_busy (sr_state r) \<longrightarrow> r \<in> set (wd_step_runs w'))"
  proof cases
    case bad
    then have w'': "w' = finish_run ex pr PipelineRunFailed ?w" by (simp add: w' settle_def list_ex_iff)
    obtain s where s: "s \<in> set cur" "sr_bad (sr_state s)" using bad by blast
    then have "s \<in> set (current_attempts (step_runs_of (pr_id pr) ?w))" using st(5) by simp
    then show ?thesis
      using bad s(2) st finish_run_get[OF get, of ex PipelineRunFailed] store_ok_cong[OF st(1)]
      by (auto simp: w'')
  next
    case busy
    then have "w' = w" by (auto simp: w' settle_def list_ex_iff)
    then show ?thesis using busy pr(1) ok cur by (auto simp: exact_def)
  next
    case fin
    then have w'': "w' = finish_run ex pr PipelineRunSuccess w" by (auto simp: w' settle_def list_ex_iff)
    then show ?thesis
      using fin finish_run_get[OF pr(1), of ex PipelineRunSuccess] store_ok_cong[OF ok] cur
      by (auto simp: exact_def)
  qed
  then show "store_ok ex w'" and "\<exists>r'. pipeline_runs_get (pr_id pr) w' = Inr r' \<and>
     (if \<exists>s \<in> set cur. sr_bad (sr_state s)
      then pr_state r' = PipelineRunFailed \<and> pr_finished r' \<noteq> None \<and>
        (\<forall>s \<in> set (current_attempts (step_runs_of (pr_id pr) w')). \<not> sr_busy (sr_state s)) \<and>
        (\<exists>s \<in> set (current_attempts (step_runs_of (pr_id pr) w')). sr_bad (sr_state s))
      else if \<exists>s \<in> set cur. sr_busy (sr_state s) then w' = w
      else pr_state r' = PipelineRunSuccess \<and> pr_finished r' \<noteq> None \<and>
        current_attempts (step_runs_of (pr_id pr) w') = cur)"
    and "state_of cur k = NodeSucceeded \<Longrightarrow> state_of (current_attempts (step_runs_of (pr_id pr) w')) k = NodeSucceeded"
    and "r \<in> set (wd_step_runs w') \<Longrightarrow> sr_busy (sr_state r) \<Longrightarrow> r \<in> set (wd_step_runs w)"
    and "r \<in> set (wd_step_runs w) \<Longrightarrow> \<not> sr_busy (sr_state r) \<Longrightarrow> r \<in> set (wd_step_runs w')"
    by blast+
qed

lemma pipeline_runs_get_id: "pipeline_runs_get p w = Inr pr \<Longrightarrow> pr_id pr = p \<and> p \<in> pr_id ` set (wd_pipeline_runs w)"
  using pipeline_run_repo.get_row[of p w pr] by (metis image_eqI)

text \<open>An advance of a running run with a readable definition is the loop followed by \<open>settle\<close>.\<close>

lemma advance_running:
  assumes ok: "store_ok ex w" and pr: "pipeline_runs_get p w = Inr pr" "pr_state pr = PipelineRunRunning"
    and d: "definition_of ex pr w = Some (pl, d)"
  obtains cur w1 where "advance_steps ex pr d (lookup_for ex (pl_workspace pl) w) (df_steps d)
      (current_attempts (step_runs_of p w)) w = (cur, w1)"
    "advance ex p w = settle ex pr cur w1" "store_ok ex w1" "step_frame w w1" "exact p cur w1"
    "pr_id pr = p" "pipeline_runs_get p w1 = Inr pr"
proof -
  obtain cur w1 where a: "advance_steps ex pr d (lookup_for ex (pl_workspace pl) w) (df_steps d)
      (current_attempts (step_runs_of p w)) w = (cur, w1)" by fastforce
  have i: "pr_id pr = p" "p \<in> pr_id ` set (wd_pipeline_runs w)" using pipeline_runs_get_id[OF pr(1)] by auto
  have "exact (pr_id pr) (current_attempts (step_runs_of p w)) w" by (simp add: exact_def i)
  with advance_steps_spec[OF ok _ this a] i have "store_ok ex w1" "step_frame w w1" "exact p cur w1" by simp_all
  moreover have "advance ex p w = settle ex pr cur w1"
    using pr d a by (simp add: advance_def pr_terminal_def)
  moreover have "pipeline_runs_get p w1 = Inr pr"
    using pr(1) \<open>step_frame w w1\<close> by (simp add: step_frame_def pipeline_runs_get_def)
  ultimately show thesis using that a i by blast
qed

text \<open>An advance keeps finished step runs as they are.\<close>

lemma advance_one_keeps_finished:
  assumes "store_ok ex w" "pr_id pr \<in> pr_id ` set (wd_pipeline_runs w)" "exact (pr_id pr) cur w"
    and "advance_one pr d lookup st cur w = (cur', w')"
    and r: "r \<in> set (wd_step_runs w)" "sr_state r \<noteq> StepRunPending"
  shows "r \<in> set (wd_step_runs w')"
proof -
  have keep: "r \<in> set (wd_step_runs (start_pending ex pr d lookup st c v))"
    if v: "store_ok ex v" "c = current_attempts (step_runs_of (pr_id pr) v)" "r \<in> set (wd_step_runs v)" for c v
  proof -
    have fk: "\<forall>sr \<in> set c. fk rn_id (wd_runs v) (sr_run sr)" unfolding v(2) by (rule current_fk[OF v(1)])
    obtain g where g: "wd_step_runs (start_pending ex pr d lookup st c v) = map g (wd_step_runs v)"
        "\<forall>r. sr_id r \<notin> sr_id ` {sr \<in> set c. sr_step sr = st_id st \<and> sr_state sr = StepRunPending} \<longrightarrow> g r = r"
      using start_pending_effect(1)[OF fk refl refl, where pr=pr and d=d and lookup=lookup and st=st] unfolding updates_def by blast
    have "sr_id r \<notin> sr_id ` {sr \<in> set c. sr_step sr = st_id st \<and> sr_state sr = StepRunPending}"
    proof
      assume "sr_id r \<in> sr_id ` {sr \<in> set c. sr_step sr = st_id st \<and> sr_state sr = StepRunPending}"
      from busy_current_ids[OF v(1) _ this v(3), of "pr_id pr"] v(2) r(2) show False by (simp add: exact_def)
    qed
    with g v(3) show ?thesis by force
  qed
  have c: "cur = current_attempts (step_runs_of (pr_id pr) w)" using assms(3) by (simp add: exact_def)
  show ?thesis
  proof (cases "deps_succeeded cur st")
    case False
    with assms(4) r show ?thesis by (simp add: advance_one_def)
  next
    case deps: True
    show ?thesis
    proof (cases "state_of cur (st_id st) = NodeAbsent")
      case True
      obtain rs w1 where e: "expand ex pr d st cur w = (True, w1)" "store_ok ex w1" "appends (pr_id pr) (st_id st) rs w w1"
        using expand_effect[OF assms(1,2), of d st cur] by blast
      then have "r \<in> set (wd_step_runs w1)" using r by (simp add: appends_def)
      from keep[OF e(2) refl this] assms(4) deps True e(1) show ?thesis
        by (auto simp: advance_one_def Let_def)
    next
      case False
      from keep[OF assms(1) c r(1)] assms(4) deps False show ?thesis
        by (auto simp: advance_one_def Let_def)
    qed
  qed
qed

lemma advance_steps_keeps_finished:
  assumes "store_ok ex w" "pr_id pr \<in> pr_id ` set (wd_pipeline_runs w)" "exact (pr_id pr) cur w"
    and "advance_steps ex pr d lookup steps cur w = (cur', w')"
    and "r \<in> set (wd_step_runs w)" "sr_state r \<noteq> StepRunPending"
  shows "r \<in> set (wd_step_runs w')"
  using assms
proof (induction steps arbitrary: cur w)
  case Nil
  then show ?case by simp
next
  case (Cons st steps)
  obtain cur1 w1 where one: "advance_one pr d lookup st cur w = (cur1, w1)" by fastforce
  note s = advance_one_spec[OF Cons.prems(1-3) one]
  have rest: "advance_steps ex pr d lookup steps cur1 w1 = (cur', w')"
    using Cons.prems(4) one by (simp add: advance_steps_Cons del: advance_steps.simps(2))
  have p1: "pr_id pr \<in> pr_id ` set (wd_pipeline_runs w1)" using Cons.prems(2) s(2) by (simp add: step_frame_def)
  show ?case
    by (rule Cons.IH[OF s(1) p1 s(3) rest advance_one_keeps_finished[OF Cons.prems(1-3) one Cons.prems(5,6)] Cons.prems(6)])
qed

lemma advance_effect:
  assumes ok: "store_ok ex w"
  shows "store_ok ex (advance ex p w)" and "wd_pipelines (advance ex p w) = wd_pipelines w"
    and "\<exists>new. wd_runs (advance ex p w) = wd_runs w @ new"
    and "r \<in> set (wd_step_runs w) \<Longrightarrow> sr_terminal (sr_state r) \<Longrightarrow> r \<in> set (wd_step_runs (advance ex p w))"
    and "q \<noteq> p \<Longrightarrow> pipeline_runs_get q (advance ex p w) = pipeline_runs_get q w"
proof -
  have "store_ok ex (advance ex p w) \<and> wd_pipelines (advance ex p w) = wd_pipelines w \<and>
      (\<exists>new. wd_runs (advance ex p w) = wd_runs w @ new) \<and>
      (\<forall>r \<in> set (wd_step_runs w). sr_terminal (sr_state r) \<longrightarrow> r \<in> set (wd_step_runs (advance ex p w))) \<and>
      (\<forall>q. q \<noteq> p \<longrightarrow> pipeline_runs_get q (advance ex p w) = pipeline_runs_get q w)"
  proof (cases "pipeline_runs_get p w")
    case (Inl e)
    then show ?thesis using ok by (simp add: advance_def)
  next
    case (Inr pr)
    then have i: "pr_id pr = p" "p \<in> pr_id ` set (wd_pipeline_runs w)" using pipeline_runs_get_id by auto
    show ?thesis
    proof (cases "pr_terminal (pr_state pr)")
      case True
      then show ?thesis using ok Inr by (simp add: advance_def)
    next
      case running: False
      then have rn: "pr_state pr = PipelineRunRunning" by (simp add: pr_terminal_def)
      show ?thesis
      proof (cases "definition_of ex pr w")
        case None
        then have a: "advance ex p w = finish_run ex pr PipelineRunFailed w" using Inr running by (simp add: advance_def)
        show ?thesis using ok i(1) finish_run_other[of _ pr ex PipelineRunFailed w]
          by (auto simp: a intro: store_ok_cong)
      next
        case (Some pld)
        obtain pl d where d: "definition_of ex pr w = Some (pl, d)" using Some by (cases pld) auto
        obtain cur w1 where a: "advance_steps ex pr d (lookup_for ex (pl_workspace pl) w) (df_steps d)
            (current_attempts (step_runs_of p w)) w = (cur, w1)" "advance ex p w = settle ex pr cur w1"
            "store_ok ex w1" "step_frame w w1" "exact p cur w1" "pipeline_runs_get p w1 = Inr pr"
          by (rule advance_running[OF ok Inr rn d]) blast
        have e1: "exact (pr_id pr) cur w1" "pipeline_runs_get (pr_id pr) w1 = Inr pr" using a i by simp_all
        note s = settle_spec[OF a(3) e1 rn refl]
        have fr: "wd_pipelines (settle ex pr cur w1) = wd_pipelines w1 \<and> (\<exists>new. wd_runs (settle ex pr cur w1) = wd_runs w1 @ new)
            \<and> (\<forall>q. q \<noteq> p \<longrightarrow> pipeline_runs_get q (settle ex pr cur w1) = pipeline_runs_get q w1)"
        proof -
          have "cur = current_attempts (step_runs_of p w1)" using a(5) by (simp add: exact_def)
          then have "\<forall>sr \<in> set cur. fk rn_id (wd_runs w1) (sr_run sr)" using current_fk[OF a(3)] by simp
          note st = stop_steps_effect(2,3)[OF this, of StepRunSkipped StepRunCancelled]
          have "pipeline_runs_get q (stop_steps ex cur StepRunSkipped StepRunCancelled w1) = pipeline_runs_get q w1" for q
            using st(1) by (simp add: step_frame_def pipeline_runs_get_def)
          then show ?thesis using st finish_run_other[of _ pr] i(1) by (auto simp: settle_def step_frame_def)
        qed
        have ex0: "exact (pr_id pr) (current_attempts (step_runs_of p w)) w" by (simp add: exact_def i)
        have "r \<in> set (wd_step_runs (advance ex p w))" if "r \<in> set (wd_step_runs w)" "sr_terminal (sr_state r)" for r
        proof -
          have "sr_state r \<noteq> StepRunPending" using that(2) by auto
          from advance_steps_keeps_finished[OF ok _ ex0 a(1) that(1) this] i
          have "r \<in> set (wd_step_runs w1)" by simp
          then show ?thesis using s(5)[of r] that(2) a(2) by simp
        qed
        then show ?thesis using s(1) fr a(2,4) by (auto simp: step_frame_def pipeline_runs_get_def)
      qed
    qed
  qed
  then show "store_ok ex (advance ex p w)" and "wd_pipelines (advance ex p w) = wd_pipelines w"
    and "\<exists>new. wd_runs (advance ex p w) = wd_runs w @ new"
    and "r \<in> set (wd_step_runs w) \<Longrightarrow> sr_terminal (sr_state r) \<Longrightarrow> r \<in> set (wd_step_runs (advance ex p w))"
    and "q \<noteq> p \<Longrightarrow> pipeline_runs_get q (advance ex p w) = pipeline_runs_get q w"
    by blast+
qed

end

end
