(* ===== verification/Pipeline_Properties.thy ===== *)
theory Pipeline_Properties
  imports Pipeline_Correct
begin

text \<open>
  The properties of pipelines: validation and order of a definition, the current attempts, and
  what advancing, completing, cancelling and sweeping do.
\<close>

section \<open>Lemmas on whole operations\<close>

lemma tbl_get_appended: "tbl_get key i t = Some r \<Longrightarrow> tbl_get key i (t @ u) = Some r"
  by (induction t) (auto simp: tbl_get_def)

lemma validate_ids:
  assumes "validate parse_ok lookup d = []" and "[] \<notin> st_id ` set (df_steps d)"
  shows "distinct (map st_id (df_steps d))" and "needs_earlier (df_steps d)"
proof -
  have v: "valid_step parse_ok lookup (df_steps d) i" if "i < length (df_steps d)" for i
    using assms(1) that unfolding validate_valid_spec valid_spec_def by blast
  have ne: "st_id (df_steps d ! i) \<noteq> []" if "i < length (df_steps d)" for i
    using assms(2) nth_mem[OF that] by (metis image_eqI)
  have "st_id (df_steps d ! i) \<noteq> st_id (df_steps d ! j)" if "i < length (df_steps d)" "j < i" for i j
    using v[OF that(1)] ne[OF that(1)] that(2) by (auto simp: valid_step_def Let_def)
  then show "distinct (map st_id (df_steps d))"
    unfolding distinct_conv_nth by (metis length_map linorder_neqE_nat nth_map)
  show "needs_earlier (df_steps d)"
    unfolding needs_earlier_def using v ne by (auto simp: valid_step_def Let_def)
qed

lemma run_for_Inr:
  "run_for a p w = Inr pr \<Longrightarrow> pipeline_runs_get p w = Inr pr \<and>
    (\<exists>pl. pipelines_get (pr_pipeline pr) w = Inr pl \<and> mutable_by a (pl_owner pl))"
  by (auto simp: run_for_def mutable_pipeline_def pipeline_owned.get_mutable_Inr split: sum.splits)

text \<open>No step run disappears, and none changes its identity.\<close>

definition same_row :: "step_run \<Rightarrow> step_run \<Rightarrow> bool" where
  "same_row r r' \<longleftrightarrow> sr_id r' = sr_id r \<and> sr_pipeline_run r' = sr_pipeline_run r \<and>
     slot_of r' = slot_of r \<and> sr_attempt r' = sr_attempt r"

definition kept :: "world \<Rightarrow> world \<Rightarrow> bool" where
  "kept w w' \<longleftrightarrow> (\<forall>r \<in> set (wd_step_runs w). \<exists>r' \<in> set (wd_step_runs w'). same_row r r')"

lemma kept_refl [simp]: "kept w w"
  by (auto simp: kept_def same_row_def)

lemma kept_trans: "kept a b \<Longrightarrow> kept b c \<Longrightarrow> kept a c"
  unfolding kept_def same_row_def by metis

context pipeline_executor
begin

lemma advance_started_ready:
  assumes ok: "store_ok ex w" and r: "r \<in> set (wd_step_runs (advance ex p w))" "sr_state r = StepRunRunning"
    and new: "r \<notin> set (wd_step_runs w)"
  shows "\<exists>pr pl d st. pipeline_runs_get p w = Inr pr \<and> definition_of ex pr w = Some (pl, d) \<and>
    st \<in> set (df_steps d) \<and> st_id st = sr_step r \<and> sr_pipeline_run r = p \<and>
    deps_succeeded (current_attempts (step_runs_of p (advance ex p w))) st"
proof -
  obtain pr where pr: "pipeline_runs_get p w = Inr pr"
    using r new by (cases "pipeline_runs_get p w") (auto simp: advance_def)
  have rn: "pr_state pr = PipelineRunRunning"
  proof (rule ccontr)
    assume "pr_state pr \<noteq> PipelineRunRunning"
    then have "advance ex p w = w" using pr by (simp add: advance_def pr_terminal_def)
    with r new show False by simp
  qed
  obtain pl d where d: "definition_of ex pr w = Some (pl, d)"
  proof (cases "definition_of ex pr w")
    case None
    then have "wd_step_runs (advance ex p w) = wd_step_runs w" using pr rn by (simp add: advance_def pr_terminal_def)
    with r new show ?thesis by simp
  next
    case (Some pld)
    then show ?thesis using that by (cases pld) auto
  qed
  obtain cur w1 where a: "advance_steps ex pr d (lookup_for ex (pl_workspace pl) w) (df_steps d)
      (current_attempts (step_runs_of p w)) w = (cur, w1)" "advance ex p w = settle ex pr cur w1"
      "store_ok ex w1" "exact p cur w1" "pr_id pr = p" "pipeline_runs_get p w1 = Inr pr"
    by (rule advance_running[OF ok pr rn d]) blast
  have e: "exact (pr_id pr) cur w1" "pipeline_runs_get (pr_id pr) w1 = Inr pr"
    and e0: "exact (pr_id pr) (current_attempts (step_runs_of p w)) w"
    using a by (simp_all add: exact_def)
  note s = settle_spec[OF a(3) e rn refl]
  have "r \<in> set (wd_step_runs w1)" using s(4)[of r] r a(2) by simp
  moreover have "pr_id pr \<in> pr_id ` set (wd_pipeline_runs w)" using pipeline_runs_get_id[OF pr] a(5) by simp
  ultimately have "sr_pipeline_run r = pr_id pr \<and> (\<exists>st \<in> set (df_steps d). st_id st = sr_step r \<and> deps_succeeded cur st)"
    using advance_steps_spec[OF ok _ e0 a(1)] r(2) new by blast
  then obtain st where st: "sr_pipeline_run r = p" "st \<in> set (df_steps d)" "st_id st = sr_step r" "deps_succeeded cur st"
    using a(5) by auto
  have "deps_succeeded (current_attempts (step_runs_of p (advance ex p w))) st"
    using st(4) s(3) a(2,5) by (auto simp: deps_succeeded_def list_all_iff)
  with st pr d show ?thesis by blast
qed

lemma advance_outcome_cases:
  assumes ok: "store_ok ex w" and pr: "pipeline_runs_get p w = Inr pr" "pr_state pr = PipelineRunRunning"
    and d: "definition_of ex pr w = Some (pl, d)"
  defines "cur' \<equiv> current_attempts (step_runs_of p (advance ex p w))"
  obtains r' where "pipeline_runs_get p (advance ex p w) = Inr r'"
    "(pr_state r' = PipelineRunRunning \<and> (\<forall>s \<in> set cur'. \<not> sr_bad (sr_state s)) \<and> (\<exists>s \<in> set cur'. sr_busy (sr_state s))) \<or>
     (pr_state r' = PipelineRunSuccess \<and> pr_finished r' \<noteq> None \<and> (\<forall>s \<in> set cur'. sr_state s = StepRunSuccess)) \<or>
     (pr_state r' = PipelineRunFailed \<and> pr_finished r' \<noteq> None \<and> (\<forall>s \<in> set cur'. \<not> sr_busy (sr_state s)) \<and>
      (\<exists>s \<in> set cur'. sr_bad (sr_state s)))"
proof -
  obtain cur w1 where a: "advance ex p w = settle ex pr cur w1" "store_ok ex w1" "exact p cur w1" "pr_id pr = p"
      "pipeline_runs_get p w1 = Inr pr"
    by (rule advance_running[OF ok pr d]) blast
  have e: "exact (pr_id pr) cur w1" "pipeline_runs_get (pr_id pr) w1 = Inr pr" using a by simp_all
  note s = settle_spec(2)[OF a(2) e pr(2) a(1)]
  then obtain r' where r': "pipeline_runs_get p (advance ex p w) = Inr r'"
     "if \<exists>s \<in> set cur. sr_bad (sr_state s)
      then pr_state r' = PipelineRunFailed \<and> pr_finished r' \<noteq> None \<and>
        (\<forall>s \<in> set cur'. \<not> sr_busy (sr_state s)) \<and> (\<exists>s \<in> set cur'. sr_bad (sr_state s))
      else if \<exists>s \<in> set cur. sr_busy (sr_state s) then advance ex p w = w1
      else pr_state r' = PipelineRunSuccess \<and> pr_finished r' \<noteq> None \<and> cur' = cur"
    unfolding cur'_def a(4) by blast
  show thesis
  proof (rule that[OF r'(1)])
    consider "\<exists>s \<in> set cur. sr_bad (sr_state s)"
      | "\<not> (\<exists>s \<in> set cur. sr_bad (sr_state s))" "\<exists>s \<in> set cur. sr_busy (sr_state s)"
      | "\<not> (\<exists>s \<in> set cur. sr_bad (sr_state s))" "\<not> (\<exists>s \<in> set cur. sr_busy (sr_state s))" by blast
    then show "(pr_state r' = PipelineRunRunning \<and> (\<forall>s \<in> set cur'. \<not> sr_bad (sr_state s)) \<and> (\<exists>s \<in> set cur'. sr_busy (sr_state s))) \<or>
     (pr_state r' = PipelineRunSuccess \<and> pr_finished r' \<noteq> None \<and> (\<forall>s \<in> set cur'. sr_state s = StepRunSuccess)) \<or>
     (pr_state r' = PipelineRunFailed \<and> pr_finished r' \<noteq> None \<and> (\<forall>s \<in> set cur'. \<not> sr_busy (sr_state s)) \<and>
      (\<exists>s \<in> set cur'. sr_bad (sr_state s)))"
    proof cases
      case 1
      then show ?thesis using r'(2) by simp
    next
      case 2
      then have "advance ex p w = w1" using r'(2) by simp
      then have "cur' = cur" "r' = pr" using a(3,5) r'(1) by (simp_all add: cur'_def exact_def)
      then show ?thesis using 2 pr(2) by blast
    next
      case 3
      then have "cur' = cur" "pr_state r' = PipelineRunSuccess" "pr_finished r' \<noteq> None" using r'(2) by simp_all
      then show ?thesis using 3 sr_state_cases by blast
    qed
  qed
qed

text \<open>By induction along the steps, all of them have succeeded once every current attempt has.\<close>

lemma all_expanded_succeeded:
  assumes "expanded cur steps" "needs_earlier steps" "\<forall>s \<in> set cur. sr_state s = StepRunSuccess"
    and "i < length steps"
  shows "state_of cur (st_id (steps ! i)) = NodeSucceeded"
  using assms(4)
proof (induction i rule: less_induct)
  case (less i)
  have "state_of cur n = NodeSucceeded" if "n \<in> set (st_needs (steps ! i))" for n
    using assms(2) less that unfolding needs_earlier_def by (metis less_trans)
  then have "deps_succeeded cur (steps ! i)" by (simp add: deps_succeeded_def list_all_iff)
  then have "st_id (steps ! i) \<in> sr_step ` set cur" using assms(1) less.prems by (simp add: expanded_def)
  then show ?case using assms(3) by (auto simp: state_of_succeeded)
qed

lemma advance_success_all:
  assumes ok: "store_ok ex w" and pr: "pipeline_runs_get p w = Inr pr" "pr_state pr = PipelineRunRunning"
    and d: "definition_of ex pr w = Some (pl, d)" "distinct (map st_id (df_steps d))" "needs_earlier (df_steps d)"
    and fin: "pipeline_runs_get p (advance ex p w) = Inr r'" "pr_state r' = PipelineRunSuccess"
    and st: "st \<in> set (df_steps d)"
  shows "state_of (current_attempts (step_runs_of p (advance ex p w))) (st_id st) = NodeSucceeded"
proof -
  obtain cur w1 where a: "advance_steps ex pr d (lookup_for ex (pl_workspace pl) w) (df_steps d)
      (current_attempts (step_runs_of p w)) w = (cur, w1)" "advance ex p w = settle ex pr cur w1"
      "store_ok ex w1" "exact p cur w1" "pr_id pr = p" "pipeline_runs_get p w1 = Inr pr"
    by (rule advance_running[OF ok pr d(1)]) blast
  have e: "exact (pr_id pr) cur w1" "pipeline_runs_get (pr_id pr) w1 = Inr pr"
    and e0: "exact (pr_id pr) (current_attempts (step_runs_of p w)) w" "pr_id pr \<in> pr_id ` set (wd_pipeline_runs w)"
    using a pipeline_runs_get_id[OF pr(1)] by (simp_all add: exact_def)
  obtain r1 where r1: "pipeline_runs_get p (advance ex p w) = Inr r1"
     "if \<exists>s \<in> set cur. sr_bad (sr_state s) then pr_state r1 = PipelineRunFailed
      else if \<exists>s \<in> set cur. sr_busy (sr_state s) then advance ex p w = w1
      else current_attempts (step_runs_of p (advance ex p w)) = cur"
    using settle_spec(2)[OF a(3) e pr(2) a(2)] unfolding a(5) by (metis (no_types, lifting))
  have "r1 = r'" using r1(1) fin(1) by simp
  have nobad: "\<not> (\<exists>s \<in> set cur. sr_bad (sr_state s))"
  proof
    assume "\<exists>s \<in> set cur. sr_bad (sr_state s)"
    then have "pr_state r1 = PipelineRunFailed" using r1(2) by simp
    then show False using fin(2) \<open>r1 = r'\<close> by simp
  qed
  have nobusy: "\<not> (\<exists>s \<in> set cur. sr_busy (sr_state s))"
  proof
    assume "\<exists>s \<in> set cur. sr_busy (sr_state s)"
    then have "advance ex p w = w1" using r1(2) nobad by simp
    then show False using fin pr(2) a(6) by simp
  qed
  then have succ: "\<forall>s \<in> set cur. sr_state s = StepRunSuccess" using nobad sr_state_cases by blast
  have "expanded cur ([] @ df_steps d)"
    by (rule advance_steps_expanded[OF ok e0(2,1) a(1)]) (use d in \<open>simp_all add: expanded_def\<close>)
  then have "\<forall>i < length (df_steps d). state_of cur (st_id (df_steps d ! i)) = NodeSucceeded"
    using all_expanded_succeeded[OF _ d(3) succ] by simp
  then have "state_of cur (st_id st) = NodeSucceeded" using st by (metis in_set_conv_nth)
  then show ?thesis using r1(2) nobad nobusy by simp
qed

text \<open>Applying the end of a run: its step run is finished afterwards.\<close>

lemma complete_step_once:
  assumes ok: "store_ok ex w"
  shows "complete_step ex rid (complete_step ex rid w) = complete_step ex rid w"
proof (cases "\<exists>r srid sr pr. runs_get rid w = Inr r \<and> rn_step_run r = Some srid \<and> step_runs_get srid w = Inr sr \<and>
    \<not> sr_terminal (sr_state sr) \<and> pipeline_runs_get (sr_pipeline_run sr) w = Inr pr")
  case False
  then have "complete_step ex rid w = w"
    by (auto simp: complete_step_def split: sum.splits option.splits)
  then show ?thesis by simp
next
  case True
  then obtain r srid sr pr where c: "runs_get rid w = Inr r" "rn_step_run r = Some srid" "step_runs_get srid w = Inr sr"
      "\<not> sr_terminal (sr_state sr)" "pipeline_runs_get (sr_pipeline_run sr) w = Inr pr" by blast
  have sr: "sr \<in> set (wd_step_runs w)" "sr_id sr = srid" using step_run_repo.get_row[OF c(3)] by auto
  have fk: "fk rn_id (wd_runs w) (sr_run sr)" using ok sr(1) by (auto simp: store_ok_def refs_ok_def)
  have pid: "pr_id pr = sr_pipeline_run sr" "pr_id pr \<in> pr_id ` set (wd_pipeline_runs w)"
    using pipeline_runs_get_id[OF c(5)] by auto
  define st where "st = (if rn_outcome r = RunSuccess then StepRunSuccess else StepRunFailed)"
  have stt: "sr_terminal st" by (simp add: st_def)
  define w1 where "w1 = set_step_state ex sr st (rn_report r) [] w"
  have rows1: "wd_step_runs w1 = tbl_update sr_id srid (set_row (wd_now w) sr st (rn_report r) []) (wd_step_runs w)"
    unfolding w1_def by (simp add: set_step_state_rows[OF fk] sr(2))
  have ok1: "store_ok ex w1"
    by (rule store_ok_updates[OF ok updates_one[OF _ rows1, where Q="\<lambda>x. sr_run x = sr_run sr"]])
      (use fk in \<open>simp_all add: w1_def\<close>)
  define w2 where "w2 = (if rn_outcome r = RunSuccess then w1 else retry_step ex pr sr w1)"
  have w2: "store_ok ex w2 \<and> set (wd_step_runs w1) \<subseteq> set (wd_step_runs w2) \<and> wd_runs w2 = wd_runs w"
  proof -
    have "pr_id pr \<in> pr_id ` set (wd_pipeline_runs w1)" using pid(2) by (simp add: w1_def)
    note ins = create_step_run_ok[OF ok1 this]
    have "store_ok ex (retry_step ex pr sr w1) \<and> set (wd_step_runs w1) \<subseteq> set (wd_step_runs (retry_step ex pr sr w1)) \<and>
        wd_runs (retry_step ex pr sr w1) = wd_runs w"
      using ok1 ins by (auto simp: retry_step_def w1_def inserted_def split: option.splits)
    then show ?thesis using ok1 by (simp add: w2_def w1_def)
  qed
  have cs: "complete_step ex rid w = advance ex (pr_id pr) w2"
    using c by (simp add: complete_step_def w2_def w1_def st_def)
  let ?w = "advance ex (pr_id pr) w2"
  note adv = advance_effect[OF conjunct1[OF w2], where p="pr_id pr"]
  let ?row = "set_row (wd_now w) sr st (rn_report r) [] sr"
  have "?row \<in> set (wd_step_runs w1)" unfolding rows1 set_tbl_update using sr by force
  then have row: "?row \<in> set (wd_step_runs ?w)" using adv(4)[of ?row] w2 stt by auto
  have idrow: "sr_id ?row = srid" using sr(2) by (simp add: set_row_def)
  have "distinct (map sr_id (wd_step_runs ?w))" using adv(1) by (simp add: store_ok_def)
  from tbl_get_in_set[OF this row] idrow have get: "step_runs_get srid ?w = Inr ?row"
    by (simp add: step_runs_get_def)
  obtain new where "wd_runs ?w = wd_runs w @ new" using adv(3) w2 by auto
  moreover have "tbl_get rn_id rid (wd_runs w) = Some r" using c(1) by (simp add: runs_get_def found_Inr)
  ultimately have "runs_get rid ?w = Inr r"
    by (simp add: runs_get_def tbl_get_appended)
  then have "complete_step ex rid ?w = ?w" using c(2) get stt by (simp add: complete_step_def)
  then show ?thesis by (simp only: cs)
qed

lemma stop_and_finish:
  assumes ok: "store_ok ex w" and pr: "pipeline_runs_get p w = Inr pr"
    and w': "w' = finish_run ex pr st (stop_steps ex (current_attempts (step_runs_of p w)) StepRunCancelled StepRunCancelled w)"
  shows "store_ok ex w'"
    and "\<exists>r'. pipeline_runs_get p w' = Inr r' \<and> pr_state r' = st \<and> pr_finished r' \<noteq> None"
    and "\<forall>s \<in> set (current_attempts (step_runs_of p w')). \<not> sr_busy (sr_state s)"
    and "\<forall>s \<in> set (wd_step_runs w). \<not> sr_busy (sr_state s) \<longrightarrow> s \<in> set (wd_step_runs w')"
proof -
  let ?w = "stop_steps ex (current_attempts (step_runs_of p w)) StepRunCancelled StepRunCancelled w"
  have "exact p (current_attempts (step_runs_of p w)) w" by (simp add: exact_def)
  note s = stop_steps_current[OF ok this _ _ _ _ refl, of StepRunCancelled StepRunCancelled, simplified]
  have i: "pr_id pr = p" using pipeline_runs_get_id[OF pr] by simp
  have "pipeline_runs_get (pr_id pr) ?w = Inr pr"
    using s(2) pr i by (simp add: step_frame_def pipeline_runs_get_def)
  from finish_run_get[OF this, of ex st] i
  show "\<exists>r'. pipeline_runs_get p w' = Inr r' \<and> pr_state r' = st \<and> pr_finished r' \<noteq> None"
    unfolding w' by auto
  show "store_ok ex w'" by (rule store_ok_cong[OF s(1)]) (simp_all add: w')
  show "\<forall>s \<in> set (current_attempts (step_runs_of p w')). \<not> sr_busy (sr_state s)" using s(4) by (simp add: w')
  show "\<forall>s \<in> set (wd_step_runs w). \<not> sr_busy (sr_state s) \<longrightarrow> s \<in> set (wd_step_runs w')"
    using s(8) by (simp add: w')
qed

subsection \<open>Retrying\<close>

lemma updates_kept: "updates ids Q w w' \<Longrightarrow> kept w w'"
  unfolding updates_def kept_def same_row_def keeps_slot_def by auto

lemma appends_kept: "appends p k rs w w' \<Longrightarrow> kept w w'"
  unfolding appends_def kept_def same_row_def by auto

lemma advance_one_kept:
  assumes "store_ok ex w" "pr_id pr \<in> pr_id ` set (wd_pipeline_runs w)" "exact (pr_id pr) cur w"
    and "advance_one pr d lookup st cur w = (cur', w')"
  shows "kept w w'"
proof -
  have start: "kept v (start_pending ex pr d lookup st (current_attempts (step_runs_of (pr_id pr) v)) v)"
    if "store_ok ex v" for v
    by (rule updates_kept[OF start_pending_effect(1)[OF current_fk[OF that] refl refl]])
  have c: "cur = current_attempts (step_runs_of (pr_id pr) w)" using assms(3) by (simp add: exact_def)
  show ?thesis
  proof (cases "deps_succeeded cur st")
    case False
    with assms(4) show ?thesis by (simp add: advance_one_def)
  next
    case deps: True
    show ?thesis
    proof (cases "state_of cur (st_id st) = NodeAbsent")
      case True
      obtain rs w1 where e: "expand ex pr d st cur w = (True, w1)" "store_ok ex w1" "appends (pr_id pr) (st_id st) rs w w1"
        using expand_effect[OF assms(1,2), of d st cur] by blast
      show ?thesis using kept_trans[OF appends_kept[OF e(3)] start[OF e(2)]] assms(4) deps True e(1)
        by (auto simp: advance_one_def Let_def)
    next
      case False
      then show ?thesis using start[OF assms(1)] assms(4) deps c by (auto simp: advance_one_def Let_def)
    qed
  qed
qed

lemma advance_steps_kept:
  assumes "store_ok ex w" "pr_id pr \<in> pr_id ` set (wd_pipeline_runs w)" "exact (pr_id pr) cur w"
    and "advance_steps ex pr d lookup steps cur w = (cur', w')"
  shows "kept w w'"
  using assms
proof (induction steps arbitrary: cur w)
  case Nil
  then show ?case by simp
next
  case (Cons st steps)
  obtain cur1 w1 where one: "advance_one pr d lookup st cur w = (cur1, w1)" by fastforce
  note s = advance_one_spec[OF Cons.prems(1-3) one]
  have rest: "advance_steps ex pr d lookup steps cur1 w1 = (cur', w')"
    using Cons.prems(4) one by (simp add: advance_steps_Cons del: advance_steps.simps(2))
  have p1: "pr_id pr \<in> pr_id ` set (wd_pipeline_runs w1)" using Cons.prems(2) s(2) by (simp add: step_frame_def)
  show ?case by (rule kept_trans[OF advance_one_kept[OF Cons.prems(1-3) one] Cons.IH[OF s(1) p1 s(3) rest]])
qed

lemma advance_kept:
  assumes ok: "store_ok ex w"
  shows "kept w (advance ex p w)"
proof (cases "pipeline_runs_get p w")
  case (Inl e)
  then show ?thesis by (simp add: advance_def)
next
  case (Inr pr)
  then have i: "pr_id pr = p" "p \<in> pr_id ` set (wd_pipeline_runs w)" using pipeline_runs_get_id by auto
  consider "pr_terminal (pr_state pr)" | "\<not> pr_terminal (pr_state pr)" "definition_of ex pr w = None"
    | pl d where "pr_state pr = PipelineRunRunning" "definition_of ex pr w = Some (pl, d)"
    by (cases "definition_of ex pr w") (auto simp: pr_terminal_def)
  then show ?thesis
  proof cases
    case 1
    then show ?thesis using Inr by (simp add: advance_def)
  next
    case 2
    then show ?thesis using Inr by (simp add: advance_def kept_def same_row_def) blast
  next
    case 3
    obtain cur w1 where a: "advance_steps ex pr d (lookup_for ex (pl_workspace pl) w) (df_steps d)
        (current_attempts (step_runs_of p w)) w = (cur, w1)" "advance ex p w = settle ex pr cur w1"
        "store_ok ex w1" "exact p cur w1"
      by (rule advance_running[OF ok Inr 3]) blast
    have ex0: "exact (pr_id pr) (current_attempts (step_runs_of p w)) w" by (simp add: exact_def i)
    have "kept w w1" using advance_steps_kept[OF ok _ ex0 a(1)] i by simp
    moreover have "kept w1 (settle ex pr cur w1)"
    proof -
      have fk: "\<forall>sr \<in> set cur. fk rn_id (wd_runs w1) (sr_run sr)"
        using current_fk[OF a(3)] a(4) by (simp add: exact_def)
      have "kept w1 (stop_steps ex cur StepRunSkipped StepRunCancelled w1)"
        by (rule updates_kept[OF stop_steps_effect(1)[OF fk]])
      then show ?thesis by (auto simp: settle_def kept_def same_row_def)
    qed
    ultimately show ?thesis using kept_trans a(2) by metis
  qed
qed

lemma retry_steps_effect:
  assumes "store_ok ex w" "p \<in> pr_id ` set (wd_pipeline_runs w)" "set cur \<subseteq> set (wd_step_runs w)" "distinct (map sr_id cur)"
  shows "\<exists>m w'. retry_steps ex p cur n w = (Inr m, w') \<and> store_ok ex w' \<and> step_frame w w' \<and> kept w w' \<and>
    (\<forall>r \<in> set (wd_step_runs w). sr_state r = StepRunSuccess \<or> sr_state r = StepRunFailed \<longrightarrow> r \<in> set (wd_step_runs w')) \<and>
    (\<forall>r \<in> set cur. sr_state r = StepRunFailed \<longrightarrow> (\<exists>r' \<in> set (wd_step_runs w').
       slot_of r' = slot_of r \<and> sr_pipeline_run r' = p \<and> sr_attempt r' = sr_attempt r + 1))"
  using assms
proof (induction cur arbitrary: n w)
  case Nil
  then show ?case by simp
next
  case (Cons sr cur)
  have sub: "set cur \<subseteq> set (wd_step_runs w)" "distinct (map sr_id cur)" "sr \<in> set (wd_step_runs w)"
    using Cons.prems by auto
  consider (failed) "sr_state sr = StepRunFailed"
    | (requeued) "sr_state sr = StepRunSkipped \<or> sr_state sr = StepRunCancelled"
    | (keep) "sr_state sr \<noteq> StepRunFailed" "\<not> (sr_state sr = StepRunSkipped \<or> sr_state sr = StepRunCancelled)" by blast
  then show ?case
  proof cases
    case failed
    let ?r = "pending_row ex p (sr_step sr) (sr_index sr) (sr_item sr) (sr_attempt sr + 1) w"
    let ?w = "inserted ?r w"
    note c = create_step_run_ok[OF Cons.prems(1,2), of "sr_step sr" "sr_index sr" "sr_item sr" "sr_attempt sr + 1"]
    have "p \<in> pr_id ` set (wd_pipeline_runs ?w)" "set cur \<subseteq> set (wd_step_runs ?w)" using Cons.prems(2) sub by auto
    from Cons.IH[OF c(2) this sub(2), of "Suc n"] obtain m w' where IH:
      "retry_steps ex p cur (Suc n) ?w = (Inr m, w')" "store_ok ex w'" "step_frame ?w w'" "kept ?w w'"
      "\<forall>r \<in> set (wd_step_runs ?w). sr_state r = StepRunSuccess \<or> sr_state r = StepRunFailed \<longrightarrow> r \<in> set (wd_step_runs w')"
      "\<forall>r \<in> set cur. sr_state r = StepRunFailed \<longrightarrow> (\<exists>r' \<in> set (wd_step_runs w').
         slot_of r' = slot_of r \<and> sr_pipeline_run r' = p \<and> sr_attempt r' = sr_attempt r + 1)" by blast
    have "\<exists>r' \<in> set (wd_step_runs w'). same_row ?r r'" using IH(4) unfolding kept_def by simp
    then have "\<exists>r' \<in> set (wd_step_runs w'). slot_of r' = slot_of sr \<and> sr_pipeline_run r' = p \<and> sr_attempt r' = sr_attempt sr + 1"
      by (auto simp: same_row_def pending_row_def slot_of_def)
    moreover have "kept w w'" using IH(4) by (auto simp: kept_def)
    ultimately show ?thesis using failed c(1) IH step_frame_trans[OF inserted_simps(3) IH(3)]
      by (intro exI[of _ m] exI[of _ w']) auto
  next
    case requeued
    have fk: "fk rn_id (wd_runs w) None" by simp
    define f where "f = (\<lambda>r :: step_run. r\<lparr>sr_state := StepRunPending, sr_run := None, sr_report := [],
        sr_worktree := sr_worktree sr, sr_started := None, sr_finished := None\<rparr>)"
    define w1 where "w1 = w\<lparr>wd_step_runs := tbl_update sr_id (sr_id sr) f (wd_step_runs w)\<rparr>"
    have upd: "step_runs_update (sr_id sr) StepRunPending None [] (sr_worktree sr) None None w = (Inr (), w1)"
      using sub(3) by (auto simp: step_runs_update_def w1_def f_def)
    have u: "updates {sr_id sr} (\<lambda>r. sr_run r = None) w w1"
      by (rule updates_one[where f=f]) (auto simp: w1_def f_def keeps_slot_def slot_of_def)
    have fr: "step_frame w w1" by (simp add: w1_def step_frame_def keeps_config_def)
    have ok1: "store_ok ex w1" by (rule store_ok_updates[OF Cons.prems(1) u fr]) simp
    have inj: "inj_on sr_id (set (wd_step_runs w))" using Cons.prems(1) by (simp add: store_ok_def distinct_map)
    have keep: "r \<in> set (wd_step_runs w1)" if "r \<in> set (wd_step_runs w)" "sr_id r \<noteq> sr_id sr" for r
      using that by (force simp: w1_def set_tbl_update)
    have "p \<in> pr_id ` set (wd_pipeline_runs w1)" using Cons.prems(2) by (simp add: w1_def)
    moreover have "set cur \<subseteq> set (wd_step_runs w1)"
    proof
      fix r assume "r \<in> set cur"
      then have "r \<in> set (wd_step_runs w)" "sr_id r \<noteq> sr_id sr" using sub(1) Cons.prems(4) by (auto simp: image_iff)
      then show "r \<in> set (wd_step_runs w1)" by (rule keep)
    qed
    ultimately obtain m w' where IH:
      "retry_steps ex p cur (Suc n) w1 = (Inr m, w')" "store_ok ex w'" "step_frame w1 w'" "kept w1 w'"
      "\<forall>r \<in> set (wd_step_runs w1). sr_state r = StepRunSuccess \<or> sr_state r = StepRunFailed \<longrightarrow> r \<in> set (wd_step_runs w')"
      "\<forall>r \<in> set cur. sr_state r = StepRunFailed \<longrightarrow> (\<exists>r' \<in> set (wd_step_runs w').
         slot_of r' = slot_of r \<and> sr_pipeline_run r' = p \<and> sr_attempt r' = sr_attempt r + 1)"
      using Cons.IH[OF ok1 _ _ sub(2), of "Suc n"] by blast
    have "r \<in> set (wd_step_runs w')" if r: "r \<in> set (wd_step_runs w)" "sr_state r = StepRunSuccess \<or> sr_state r = StepRunFailed" for r
    proof -
      have "r \<noteq> sr" using requeued r(2) by auto
      then have "sr_id r \<noteq> sr_id sr" using inj r(1) sub(3) by (auto dest: inj_onD)
      with keep[OF r(1)] IH(5) r(2) show ?thesis by blast
    qed
    then show ?thesis using requeued upd IH step_frame_trans[OF fr IH(3)] kept_trans[OF updates_kept[OF u] IH(4)]
      by (intro exI[of _ m] exI[of _ w']) auto
  next
    case keep
    from Cons.IH[OF Cons.prems(1,2) sub(1,2), of n] keep show ?thesis by auto
  qed
qed

end

end
