(* ===== verification/Pipeline_Examples.thy ===== *)
theory Pipeline_Examples
  imports Pipeline_Properties
begin

text \<open>
  A small concrete deployment the properties are instantiated on: one pipeline of two steps,
  \<open>b\<close> after \<open>a\<close>, one running pipeline run, and a run engine that only records the runs it is
  asked for (like the recorder the Go tests substitute for \<open>RunStarter\<close>).
\<close>

definition demo_env :: go_env where
  "demo_env = \<lparr>ge_uuid = (\<lambda>n. ''u'' @ replicate n (CHR ''x'')), ge_render = (\<lambda>tmpl vs. Inr tmpl),
     ge_unmarshal = (\<lambda>s. if s = ''[1,2]'' then Some (JArr [JNum 1, JNum 2]) else None),
     ge_marshal = (\<lambda>j. Some ''{}'')\<rparr>"

definition demo_step :: "id \<Rightarrow> id list \<Rightarrow> raw_step" where
  "demo_step k needs = \<lparr>st_id = k, st_template = ''t'', st_needs = needs, st_with = [], st_worktree = [],
     st_retries = 1, st_foreach = [], rs_line = 1\<rparr>"

definition demo_raw :: "raw_step list \<Rightarrow> raw_definition" where
  "demo_raw steps = \<lparr>rd_name = ''demo'', rd_workspace = [], rd_timeout = [], rd_steps = steps,
     rd_timeout_line = 0, rd_steps_line = 1\<rparr>"

definition demo_def :: pipeline_def where
  "demo_def = fst (parse (\<lambda>_. Inr (demo_raw [demo_step ''a'' [], demo_step ''b'' [''a'']])) (\<lambda>_. None) [])"

definition recorder :: "run_input \<Rightarrow> world \<Rightarrow> run result" where
  "recorder inp w =
     (let r = \<lparr>rn_id = ''r'' @ replicate (length (wd_runs w)) (CHR ''x''), rn_session = ''s'', rn_template = None,
            rn_trigger = None, rn_delivery = None, rn_origin = ri_origin inp, rn_step_run = Some (ri_step_run inp),
            rn_loop = [], rn_iteration = 0, rn_started = wd_now w, rn_finished = None, rn_outcome = RunRunning,
            rn_report = [], rn_summary = [], rn_cost = 0\<rparr>
      in (Inr r, w\<lparr>wd_runs := wd_runs w @ [r]\<rparr>))"

definition demo_ex :: executor where
  "demo_ex = \<lparr>ex_env = demo_env,
     ex_yaml = (\<lambda>_. Inr (demo_raw [demo_step ''a'' [], demo_step ''b'' [''a'']])),
     ex_duration = (\<lambda>_. None), ex_parse_ok = (\<lambda>_. True), ex_start = recorder, ex_sessions = None,
     ex_templates = None, ex_has_sessions_repo = False, ex_has_bus = True, ex_has_workspaces = False\<rparr>"

definition empty_world :: world where
  "empty_world = \<lparr>wd_now = 0, wd_uuids = 0, wd_workspaces = [], wd_templates = [], wd_pipelines = [],
     wd_pipeline_runs = [], wd_step_runs = [], wd_runs = [], wd_loops = [], wd_triggers = [],
     wd_deliveries = [], wd_schedules = [], wd_firings = [], wd_sessions = [], wd_approvals = [],
     wd_profiles = [], wd_access = [], wd_events = [], wd_comments = [], wd_checkpoints = [], wd_audit = [],
     wd_procs = [], wd_closing = [], wd_starting = [], wd_slots = 0, wd_calls = [], wd_notified = [],
     wd_completed = [], wd_loop_vars = [], wd_notices = [], wd_bus = []\<rparr>"

definition demo_pipeline :: pipeline where
  "demo_pipeline = \<lparr>pl_id = ''p'', pl_owner = None, pl_name = ''demo'', pl_workspace = ''w'', pl_yaml = [],
     pl_created = 0, pl_updated = 0\<rparr>"

definition demo_run :: pipeline_run where
  "demo_run = \<lparr>pr_id = ''q'', pr_pipeline = ''p'', pr_origin = ''ui'', pr_origin_ref = [], pr_input = ''{}'',
     pr_state = PipelineRunRunning, pr_started = 0, pr_finished = None, pr_cost = 0\<rparr>"

definition demo_row :: "nat \<Rightarrow> id \<Rightarrow> step_run_state \<Rightarrow> id option \<Rightarrow> step_run" where
  "demo_row n k st rid = \<lparr>sr_id = ''u'' @ replicate n (CHR ''x''), sr_pipeline_run = ''q'', sr_step = k, sr_index = 0,
     sr_item = [], sr_run = rid, sr_attempt = 1, sr_state = st, sr_report = [], sr_started = None,
     sr_finished = None, sr_worktree = []\<rparr>"

definition demo_world :: "step_run list \<Rightarrow> world" where
  "demo_world rows = empty_world\<lparr>wd_uuids := length rows, wd_pipelines := [demo_pipeline],
     wd_pipeline_runs := [demo_run], wd_step_runs := rows\<rparr>"

definition demo_pending :: world where
  "demo_pending = demo_world [demo_row 0 ''a'' StepRunPending None, demo_row 1 ''b'' StepRunPending None]"

lemma recorder_starter: "run_starter recorder"
proof
  fix inp w r w' assume "recorder inp w = (r, w')"
  then have w': "\<exists>r'. r = Inr r' \<and> w' = w\<lparr>wd_runs := wd_runs w @ [r']\<rparr>" by (auto simp: recorder_def Let_def)
  then show "keeps_pipelines w w'" "keeps_config w w'" "\<exists>new. wd_runs w' = wd_runs w @ new" "wd_uuids w \<le> wd_uuids w'"
    by (auto simp: keeps_pipelines_def keeps_config_def)
next
  fix inp w r w' assume "recorder inp w = (Inr r, w')"
  then have "w' = w\<lparr>wd_runs := wd_runs w @ [r]\<rparr>" by (auto simp: recorder_def Let_def)
  then show "rn_id r \<in> rn_id ` set (wd_runs w')" by simp
qed

lemma demo_executor: "pipeline_executor demo_ex"
  by (rule pipeline_executor.intro) (simp_all add: demo_ex_def recorder_starter)

lemma demo_uuid_inj: "inj (ge_uuid (ex_env demo_ex))"
  by (rule injI) (simp add: demo_ex_def demo_env_def replicate_eq_replicate)

lemma demo_store_ok:
  assumes "distinct (map sr_id rows)"
    and "sr_id ` set rows \<subseteq> (\<lambda>n. ''u'' @ replicate n (CHR ''x'')) ` {..<length rows}"
    and "\<forall>r \<in> set rows. sr_run r = None"
  shows "store_ok demo_ex (demo_world rows)"
  using assms demo_uuid_inj
  by (simp add: store_ok_def refs_ok_def demo_world_def empty_world_def demo_ex_def demo_env_def)

lemma demo_pending_ok: "store_ok demo_ex demo_pending"
  unfolding demo_pending_def by (rule demo_store_ok) (auto simp: demo_row_def lessThan_Suc)

lemma demo_definition: "definition_of demo_ex demo_run (demo_world rows) = Some (demo_pipeline, demo_def)"
  by (simp add: definition_of_def demo_world_def empty_world_def pipelines_get_def tbl_get_def demo_pipeline_def
      demo_run_def ex_parse_def demo_ex_def demo_def_def parse_def demo_raw_def)

lemma demo_get: "pipeline_runs_get ''q'' (demo_world rows) = Inr demo_run"
  by (simp add: demo_world_def pipeline_runs_get_def tbl_get_def demo_run_def)

lemma demo_advance:
  "map (\<lambda>r. (sr_step r, sr_state r)) (wd_step_runs (advance demo_ex ''q'' demo_pending)) =
    [(''a'', StepRunRunning), (''b'', StepRunPending)]"
  by code_simp

end
