(* ===== verification/Pipeline_Claims.thy ===== *)
theory Pipeline_Claims
  imports Pipeline_Examples
begin

text \<open>
  The properties of pipeline definitions and of the executor, each followed by its instance on the
  example deployment.
\<close>

section \<open>Definitions\<close>

text \<open>
  C1: \<open>Validate\<close> reports no problem exactly for the definitions the rules describe: at most 20 steps,
  at most 24 hours, ids unique, every need the id of an earlier step, worktree modes, shared only with a
  need, retries 0 to 3, templates found, templates of \<open>with\<close> and \<open>foreach\<close> that parse.
\<close>

theorem validate_correct: "validate parse_ok lookup d = [] \<longleftrightarrow> valid_spec parse_ok lookup d"
  by (rule validate_valid_spec)

text \<open>
  The levels of \<open>Order\<close> respect \<open>needs\<close>: a step in a level depends only on steps in earlier levels,
  for any definition, cyclic or with unknown needs or not.
\<close>

theorem order_respects_needs:
  assumes "(need, k) \<in> set (graph_edges d)" and "i < length (order d)" and "k \<in> set (order d ! i)"
  shows "\<exists>j < i. need \<in> set (order d ! j)"
  using assms by (rule order_sound)

theorem order_respects_needs_witness: "\<exists>j < 1. ''a'' \<in> set (order demo_def ! j)"
  by (rule order_respects_needs[of "''a''" "''b''" demo_def 1]; code_simp)

text \<open>
  \<open>topo\<close> places every step id exactly once, either in one level or among the ids reported as part of
  a cycle, and each id it reports as cyclic needs another such id.
\<close>

theorem order_partitions_steps:
  "distinct (concat (order d) @ cyclic_ids d) \<and>
   set (concat (order d) @ cyclic_ids d) = st_id ` set (df_steps d) - {[]} \<and>
   set (cyclic_ids d) \<subseteq> snd ` {(n, k) \<in> set (graph_edges d). n \<in> set (cyclic_ids d)}"
proof -
  have "k \<in> snd ` {(n, k) \<in> set (graph_edges d). n \<in> set (cyclic_ids d)}" if "k \<in> set (cyclic_ids d)" for k
    by (rule cyclic_has_cyclic_need[OF that]) force
  then show ?thesis using order_partition[of d] by auto
qed



section \<open>Attempts\<close>

text \<open>
  \<open>currentAttempts\<close> keeps exactly one attempt per slot, and it is a newest one.
\<close>

theorem current_attempts_correct:
  assumes "r \<in> set rows"
  shows "\<exists>!c. c \<in> set (current_attempts rows) \<and> slot_of c = slot_of r \<and> c \<in> set rows \<and>
    sr_attempt r \<le> sr_attempt c"
proof -
  have "slot_of r \<in> slot_of ` set (current_attempts rows)" using assms by (simp add: current_attempts_slots)
  then obtain c where c: "c \<in> set (current_attempts rows)" "slot_of c = slot_of r" by auto
  with current_attempts_newest[OF c(1)] assms have "c \<in> set rows" "sr_attempt r \<le> sr_attempt c" by auto
  moreover have "inj_on slot_of (set (current_attempts rows))"
    using current_attempts_slots(1)[of rows] by (simp add: distinct_map)
  ultimately show ?thesis using c by (intro ex1I[of _ c]) (simp, metis inj_onD)
qed

theorem current_attempts_correct_witness:
  "\<exists>!c. c \<in> set (current_attempts [demo_row 0 ''a'' StepRunFailed None]) \<and>
    slot_of c = slot_of (demo_row 0 ''a'' StepRunFailed None) \<and> c \<in> set [demo_row 0 ''a'' StepRunFailed None] \<and>
    sr_attempt (demo_row 0 ''a'' StepRunFailed None) \<le> sr_attempt c"
  by (rule current_attempts_correct) simp

section \<open>Advancing a run\<close>

text \<open>
  C3: the executor starts a step only when every step it needs has succeeded, and they still count as
  succeeded when the advance is over.
\<close>

theorem advance_starts_ready:
  assumes "pipeline_executor ex" and "store_ok ex w"
    and "r \<in> set (wd_step_runs (advance ex p w))" and "sr_state r = StepRunRunning" and "r \<notin> set (wd_step_runs w)"
  shows "\<exists>pr pl d st. pipeline_runs_get p w = Inr pr \<and> definition_of ex pr w = Some (pl, d) \<and>
    st \<in> set (df_steps d) \<and> st_id st = sr_step r \<and> sr_pipeline_run r = p \<and>
    (\<forall>need \<in> set (st_needs st). state_of (current_attempts (step_runs_of p (advance ex p w))) need = NodeSucceeded)"
  using pipeline_executor.advance_started_ready[OF assms] by (simp add: deps_succeeded_def list_all_iff)

definition demo_started :: step_run where
  "demo_started = hd (wd_step_runs (advance demo_ex ''q'' demo_pending))"

theorem advance_starts_ready_witness:
  "\<exists>pr pl d st. pipeline_runs_get ''q'' demo_pending = Inr pr \<and> definition_of demo_ex pr demo_pending = Some (pl, d) \<and>
    st \<in> set (df_steps d) \<and> st_id st = sr_step demo_started \<and> sr_pipeline_run demo_started = ''q'' \<and>
    (\<forall>need \<in> set (st_needs st).
       state_of (current_attempts (step_runs_of ''q'' (advance demo_ex ''q'' demo_pending))) need = NodeSucceeded)"
proof (rule advance_starts_ready[OF demo_executor demo_pending_ok])
  show "demo_started \<in> set (wd_step_runs (advance demo_ex ''q'' demo_pending))" by code_simp
  show "sr_state demo_started = StepRunRunning" by code_simp
  show "demo_started \<notin> set (wd_step_runs demo_pending)" by code_simp
qed



text \<open>
  C5: a run of a valid definition (with no empty step id) that an advance records as a success has run
  every step of the definition to success, fan-out steps included.
\<close>

theorem advance_success_complete:
  assumes "pipeline_executor ex" and "store_ok ex w" and "pipeline_runs_get p w = Inr pr"
    and "pr_state pr = PipelineRunRunning" and "definition_of ex pr w = Some (pl, d)"
    and "validate parse_ok lookup d = []" and "[] \<notin> st_id ` set (df_steps d)"
    and "pipeline_runs_get p (advance ex p w) = Inr r'" and "pr_state r' = PipelineRunSuccess"
    and "st \<in> set (df_steps d)"
  shows "state_of (current_attempts (step_runs_of p (advance ex p w))) (st_id st) = NodeSucceeded"
  using pipeline_executor.advance_success_all[OF assms(1-5) validate_ids[OF assms(6,7)] assms(8-10)] .

definition demo_done :: world where
  "demo_done = demo_world [demo_row 0 ''a'' StepRunSuccess None, demo_row 1 ''b'' StepRunSuccess None]"

theorem advance_success_complete_witness:
  "state_of (current_attempts (step_runs_of ''q'' (advance demo_ex ''q'' demo_done))) ''b'' = NodeSucceeded"
proof -
  let ?b = "df_steps demo_def ! 1"
  have ok: "store_ok demo_ex demo_done"
    unfolding demo_done_def by (rule demo_store_ok) (auto simp: demo_row_def lessThan_Suc)
  have b: "st_id ?b = ''b''" "?b \<in> set (df_steps demo_def)" by code_simp+
  obtain r' where r': "pipeline_runs_get ''q'' (advance demo_ex ''q'' demo_done) = Inr r'"
    "pr_state r' = PipelineRunSuccess"
  proof -
    have "case pipeline_runs_get ''q'' (advance demo_ex ''q'' demo_done) of
        Inl _ \<Rightarrow> False | Inr r \<Rightarrow> pr_state r = PipelineRunSuccess" by code_simp
    then show thesis using that by (auto split: sum.splits)
  qed
  have "state_of (current_attempts (step_runs_of ''q'' (advance demo_ex ''q'' demo_done))) (st_id ?b) = NodeSucceeded"
  proof (rule advance_success_complete[OF demo_executor ok, where parse_ok="\<lambda>_. True" and lookup=None])
    show "pipeline_runs_get ''q'' demo_done = Inr demo_run" by (simp add: demo_done_def demo_get)
    show "pr_state demo_run = PipelineRunRunning" by (simp add: demo_run_def)
    show "definition_of demo_ex demo_run demo_done = Some (demo_pipeline, demo_def)"
      by (simp add: demo_done_def demo_definition)
    show "validate (\<lambda>_. True) None demo_def = []" by code_simp
    show "[] \<notin> st_id ` set (df_steps demo_def)" by code_simp
  qed (rule r' b)+
  then show ?thesis by (simp only: b(1))
qed

text \<open>
  C12: the end of a step's run is applied once: handling the same run again, from a repeated bus message or
  from the reconciliation sweep, changes nothing.
\<close>

theorem complete_step_idempotent:
  assumes "pipeline_executor ex" and "store_ok ex w"
  shows "complete_step ex rid (complete_step ex rid w) = complete_step ex rid w"
  using assms by (rule pipeline_executor.complete_step_once)

theorem complete_step_idempotent_witness:
  "complete_step demo_ex ''r'' (complete_step demo_ex ''r'' demo_pending) = complete_step demo_ex ''r'' demo_pending"
  by (rule complete_step_idempotent[OF demo_executor demo_pending_ok])

section \<open>Stopping and retrying a run\<close>

text \<open>
  C13: a cancel that is accepted was asked by someone who may change the pipeline, found the run running,
  and leaves it cancelled with no current attempt pending or running and every finished step run as it was.
\<close>

theorem cancel_stops_run:
  assumes "pipeline_executor ex" and "store_ok ex w" and "cancel ex a p w = (Inr u, w')"
  shows "(\<exists>pr pl. pipeline_runs_get p w = Inr pr \<and> pr_state pr = PipelineRunRunning \<and>
      pipelines_get (pr_pipeline pr) w = Inr pl \<and> mutable_by a (pl_owner pl)) \<and>
    (\<exists>r'. pipeline_runs_get p w' = Inr r' \<and> pr_state r' = PipelineRunCancelled \<and> pr_finished r' \<noteq> None) \<and>
    (\<forall>s \<in> set (current_attempts (step_runs_of p w')). sr_terminal (sr_state s)) \<and>
    {s \<in> set (wd_step_runs w). sr_terminal (sr_state s)} \<subseteq> set (wd_step_runs w')"
proof -
  obtain pr where pr: "run_for a p w = Inr pr" "pr_state pr = PipelineRunRunning"
    and w': "w' = finish_run ex pr PipelineRunCancelled
      (stop_steps ex (current_attempts (step_runs_of p w)) StepRunCancelled StepRunCancelled w)"
    using assms(3) by (auto simp: cancel_def pr_terminal_def split: sum.splits if_splits)
  note r = run_for_Inr[OF pr(1)]
  note s = pipeline_executor.stop_and_finish[OF assms(1,2) conjunct1[OF r] w']
  show ?thesis using r pr(2) s(2-4) by auto
qed

theorem cancel_stops_run_witness:
  "\<exists>w'. cancel demo_ex service_actor ''q'' demo_pending = (Inr (), w') \<and>
    (\<forall>s \<in> set (current_attempts (step_runs_of ''q'' w')). sr_terminal (sr_state s))"
proof -
  let ?w = "snd (cancel demo_ex service_actor ''q'' demo_pending)"
  have c: "cancel demo_ex service_actor ''q'' demo_pending = (Inr (), ?w)"
    by (rule prod_eqI) (simp, code_simp, simp)
  from cancel_stops_run[OF demo_executor demo_pending_ok c] c show ?thesis by blast
qed

text \<open>
  The sweep closes an overdue run: once it has been running for its definition's timeout (two hours
  when it names none), it ends as timed out with no current attempt pending or running.
\<close>

theorem tick_times_out:
  assumes "pipeline_executor ex" and "store_ok ex w" and "pipeline_runs_get p w = Inr pr"
    and "now - pr_started pr \<ge> run_timeout ex pr w"
  shows "(\<exists>r'. pipeline_runs_get p (tick_run ex now w pr) = Inr r' \<and> pr_state r' = PipelineRunTimeout \<and>
      pr_finished r' \<noteq> None) \<and>
    (\<forall>s \<in> set (current_attempts (step_runs_of p (tick_run ex now w pr))). sr_terminal (sr_state s))"
proof -
  have "pr_id pr = p" using pipeline_executor.pipeline_runs_get_id[OF assms(1,3)] by simp
  then have "tick_run ex now w pr = finish_run ex pr PipelineRunTimeout
      (stop_steps ex (current_attempts (step_runs_of p w)) StepRunCancelled StepRunCancelled w)"
    using assms(4) by (simp add: tick_run_def)
  from pipeline_executor.stop_and_finish[OF assms(1-3) this] show ?thesis by simp
qed

theorem tick_times_out_witness:
  "\<exists>r'. pipeline_runs_get ''q'' (tick_run demo_ex DefaultTimeout demo_pending demo_run) = Inr r' \<and>
    pr_state r' = PipelineRunTimeout \<and> pr_finished r' \<noteq> None"
proof -
  have "pipeline_runs_get ''q'' demo_pending = Inr demo_run" by (simp add: demo_pending_def demo_get)
  moreover have "DefaultTimeout - pr_started demo_run \<ge> run_timeout demo_ex demo_run demo_pending" by code_simp
  ultimately show ?thesis using tick_times_out[OF demo_executor demo_pending_ok] by blast
qed

text \<open>
  Retrying opens one new attempt for every current attempt that failed, and loses no history: succeeded
  and failed step runs stay as they are, no step run disappears or changes its slot.
\<close>

theorem retry_failed_new_attempts:
  assumes "pipeline_executor ex" and "store_ok ex w" and "retry_failed ex a p w = (Inr u, w')"
  shows "(\<forall>r \<in> set (current_attempts (step_runs_of p w)). sr_state r = StepRunFailed \<longrightarrow>
      (\<exists>r' \<in> set (wd_step_runs w'). slot_of r' = slot_of r \<and> sr_pipeline_run r' = p \<and>
         sr_attempt r' = sr_attempt r + 1)) \<and>
    {r \<in> set (wd_step_runs w). sr_state r \<in> {StepRunSuccess, StepRunFailed}} \<subseteq> set (wd_step_runs w') \<and>
    kept w w'"
proof -
  obtain pr n w1 w2 where r: "run_for a p w = Inr pr" "pr_terminal (pr_state pr)"
      "retry_steps ex p (current_attempts (step_runs_of p w)) 0 w = (Inr n, w1)"
      "pipeline_runs_reopen p w1 = (Inr (), w2)"
      "w' = advance ex p (publish_state ex p [] (pipeline_run_state_text PipelineRunRunning) w2)"
    using assms(3) by (auto simp: retry_failed_def split: sum.splits if_splits prod.splits)
  have p: "p \<in> pr_id ` set (wd_pipeline_runs w)"
    using run_for_Inr[OF r(1)] pipeline_executor.pipeline_runs_get_id[OF assms(1)] by blast
  have sub: "set (current_attempts (step_runs_of p w)) \<subseteq> set (wd_step_runs w)"
    by (rule pipeline_executor.step_runs_of_subset[OF assms(1)])
  have "distinct (map slot_of (current_attempts (step_runs_of p w)))" by (rule current_attempts_slots)
  then have "distinct (current_attempts (step_runs_of p w))" by (simp add: distinct_map)
  moreover have "inj_on sr_id (set (current_attempts (step_runs_of p w)))"
    using assms(2) sub by (auto simp: store_ok_def distinct_map intro: inj_on_subset)
  ultimately have d: "distinct (map sr_id (current_attempts (step_runs_of p w)))" by (simp add: distinct_map)
  note e = pipeline_executor.retry_steps_effect[OF assms(1,2) p sub d, of 0]
  let ?v = "publish_state ex p [] (pipeline_run_state_text PipelineRunRunning) w2"
  have w2: "wd_step_runs ?v = wd_step_runs w1" "wd_runs ?v = wd_runs w1" "wd_uuids ?v = wd_uuids w1"
    using r(4) by (auto simp: pipeline_runs_reopen_def split: if_splits)
  have okv: "store_ok ex ?v" using e r(3) w2 by (auto intro: store_ok_cong)
  note k = pipeline_executor.advance_kept[OF assms(1) okv, of p]
  note fin = pipeline_executor.advance_effect(4)[OF assms(1) okv, of _ p]
  have "kept w w1" using e r(3) by auto
  then have "kept w ?v" unfolding kept_def w2(1) .
  then have "kept w w'" unfolding r(5) by (rule kept_trans[OF _ k])
  moreover have "{r \<in> set (wd_step_runs w). sr_state r \<in> {StepRunSuccess, StepRunFailed}} \<subseteq> set (wd_step_runs w')"
  proof
    fix x assume x: "x \<in> {r \<in> set (wd_step_runs w). sr_state r \<in> {StepRunSuccess, StepRunFailed}}"
    then have "x \<in> set (wd_step_runs ?v)" using e r(3) w2 by auto
    then show "x \<in> set (wd_step_runs w')" using fin[of x] x r(5) by auto
  qed
  moreover have "\<exists>r' \<in> set (wd_step_runs w'). slot_of r' = slot_of x \<and> sr_pipeline_run r' = p \<and>
      sr_attempt r' = sr_attempt x + 1"
    if x: "x \<in> set (current_attempts (step_runs_of p w))" "sr_state x = StepRunFailed" for x
  proof -
    obtain y where "y \<in> set (wd_step_runs ?v)" "slot_of y = slot_of x" "sr_pipeline_run y = p" "sr_attempt y = sr_attempt x + 1"
      using e r(3) w2(1) x by auto
    then show ?thesis using k r(5) by (fastforce simp: kept_def same_row_def)
  qed
  ultimately show ?thesis by blast
qed

definition demo_failed :: world where
  "demo_failed = (demo_world [demo_row 0 ''a'' StepRunFailed None, demo_row 1 ''b'' StepRunSkipped None])
     \<lparr>wd_pipeline_runs := [demo_run\<lparr>pr_state := PipelineRunFailed\<rparr>]\<rparr>"

theorem retry_failed_new_attempts_witness:
  "\<exists>r' \<in> set (wd_step_runs (snd (retry_failed demo_ex service_actor ''q'' demo_failed))).
     sr_step r' = ''a'' \<and> sr_attempt r' = 2"
proof -
  let ?w = "snd (retry_failed demo_ex service_actor ''q'' demo_failed)"
  have c: "retry_failed demo_ex service_actor ''q'' demo_failed = (Inr (), ?w)"
    by (rule prod_eqI) (simp, code_simp, simp)
  have ok: "store_ok demo_ex demo_failed"
    unfolding demo_failed_def
    by (rule store_ok_cong[OF demo_store_ok[of "[demo_row 0 ''a'' StepRunFailed None, demo_row 1 ''b'' StepRunSkipped None]"]])
      (auto simp: demo_row_def lessThan_Suc demo_world_def)
  let ?a = "demo_row 0 ''a'' StepRunFailed None"
  have a: "?a \<in> set (current_attempts (step_runs_of ''q'' demo_failed))" by code_simp
  have failed: "sr_state ?a = StepRunFailed" by (simp add: demo_row_def)
  have "\<exists>r' \<in> set (wd_step_runs ?w). slot_of r' = slot_of ?a \<and> sr_pipeline_run r' = ''q'' \<and>
      sr_attempt r' = sr_attempt ?a + 1"
    using retry_failed_new_attempts[OF demo_executor ok c] a failed by blast
  then show ?thesis by (auto simp: slot_of_def demo_row_def)
qed

section \<open>Fan-out\<close>

text \<open>
  Expanding a node always leaves it with step runs, at most 25, on consecutive slots from 0, all first
  attempts and none of them running; nothing else is written.
\<close>

theorem fan_out_bounded:
  assumes "store_ok ex w" and "pr_id pr \<in> pr_id ` set (wd_pipeline_runs w)"
  shows "\<exists>rs w'. expand ex pr d st cur w = (True, w') \<and> wd_step_runs w' = wd_step_runs w @ rs \<and> step_frame w w' \<and>
    0 < length rs \<and> length rs \<le> MaxFanout \<and> map sr_index rs = [0..<length rs] \<and>
    set rs \<subseteq> {r. sr_pipeline_run r = pr_id pr \<and> sr_step r = st_id st \<and> sr_attempt r = 1 \<and>
      sr_run r = None \<and> sr_state r \<noteq> StepRunRunning}"
  using expand_effect[OF assms, of d st cur] unfolding appends_def by auto

definition demo_foreach :: step where
  "demo_foreach = (step.truncate (demo_step ''f'' []))\<lparr>st_foreach := ''[1,2]''\<rparr>"

theorem fan_out_bounded_witness:
  "\<exists>rs w'. expand demo_ex demo_run demo_def demo_foreach [] demo_pending = (True, w') \<and>
    wd_step_runs w' = wd_step_runs demo_pending @ rs \<and> length rs \<le> MaxFanout"
proof -
  have "pr_id demo_run \<in> pr_id ` set (wd_pipeline_runs demo_pending)" by code_simp
  from fan_out_bounded[OF demo_pending_ok this] show ?thesis by blast
qed

text \<open>
  A \<open>foreach\<close> that renders to a list of 1 to 25 items gets one pending step run per item, in the order
  of the list, each carrying its item as JSON.
\<close>

theorem fan_out_items:
  assumes "store_ok ex w" and "pr_id pr \<in> pr_id ` set (wd_pipeline_runs w)" and "st_foreach st \<noteq> []"
    and "ge_render (ex_env ex) (st_foreach st) (vars_for ex pr d cur) = Inr rendered"
    and "decode_list (ex_env ex) rendered = Inr items" and "items \<noteq> []" and "length items \<le> MaxFanout"
    and "\<And>item. item \<in> set items \<Longrightarrow> ge_marshal (ex_env ex) item = Some (enc item)"
  shows "\<exists>rs w'. expand ex pr d st cur w = (True, w') \<and> wd_step_runs w' = wd_step_runs w @ rs \<and>
    map sr_item rs = map enc items \<and> map sr_index rs = [0..<length items] \<and>
    map sr_state rs = replicate (length items) StepRunPending"
proof -
  obtain rs w' where c: "create_items ex (pr_id pr) (st_id st) 0 items w = (True, w')"
      "wd_step_runs w' = wd_step_runs w @ rs" "map sr_index rs = [0..<length items]"
      "map sr_item rs = map (\<lambda>item. case ge_marshal (ex_env ex) item of Some s \<Rightarrow> s | None \<Rightarrow> go_quote []) items"
      "\<forall>r \<in> set rs. sr_state r = StepRunPending"
    using create_items_spec[OF assms(1,2), of "st_id st" 0 items] by auto
  have "length rs = length items" using c(3) by (metis length_map length_upt minus_nat.diff_0)
  then have "map sr_state rs = replicate (length items) StepRunPending"
    using c(5) by (metis length_map map_cong map_replicate_const)
  moreover have "expand ex pr d st cur w = (True, w')" using assms c(1) by (simp add: expand_def)
  moreover have "map sr_item rs = map enc items" using c(4) assms(8) by simp
  ultimately show ?thesis using c(2,3) by blast
qed

theorem fan_out_items_witness:
  "\<exists>rs w'. expand demo_ex demo_run demo_def demo_foreach [] demo_pending = (True, w') \<and>
    wd_step_runs w' = wd_step_runs demo_pending @ rs \<and> map sr_index rs = [0, 1]"
proof -
  have p: "pr_id demo_run \<in> pr_id ` set (wd_pipeline_runs demo_pending)" by code_simp
  have "\<exists>rs w'. expand demo_ex demo_run demo_def demo_foreach [] demo_pending = (True, w') \<and>
      wd_step_runs w' = wd_step_runs demo_pending @ rs \<and>
      map sr_item rs = map (\<lambda>_. ''{}'') [JNum 1, JNum 2] \<and> map sr_index rs = [0..<length [JNum 1, JNum 2]] \<and>
      map sr_state rs = replicate (length [JNum 1, JNum 2]) StepRunPending"
  proof (rule fan_out_items[OF demo_pending_ok p, where rendered="''[1,2]''"])
    show "st_foreach demo_foreach \<noteq> []" by code_simp
    show "ge_render (ex_env demo_ex) (st_foreach demo_foreach) (vars_for demo_ex demo_run demo_def []) = Inr ''[1,2]''"
      by code_simp
    show "decode_list (ex_env demo_ex) ''[1,2]'' = Inr [JNum 1, JNum 2]" by code_simp
  qed (simp_all add: MaxFanout_def demo_ex_def demo_env_def)
  then show ?thesis by auto
qed

section \<open>Who may change a pipeline\<close>

text \<open>
  An actor who is neither the owner nor an admin changes nothing: editing and deleting the pipeline and
  cancelling and retrying its runs are refused, with the same error, and leave the world as it was.
\<close>

theorem outsider_changes_nothing:
  assumes "pipelines_get plid w = Inr pl" and "\<not> mutable_by a (pl_owner pl)"
    and "pipeline_runs_get p w = Inr pr" and "pr_pipeline pr = plid"
  shows "\<exists>e \<in> {ErrNotFound, ErrForbidden}. cancel ex a p w = (Inl e, w) \<and> retry_failed ex a p w = (Inl e, w) \<and>
    update_pipeline ex a plid inp w = (Inl e, w) \<and> delete_pipeline a plid w = (Inl e, w)"
proof -
  let ?e = "if visible_owner a (pl_owner pl) then ErrForbidden else ErrNotFound"
  have "mutable_pipeline a plid w = Inl ?e"
    using assms(1,2) by (simp add: mutable_pipeline_def pipeline_owned.get_mutable_Inl)
  then show ?thesis using assms(3,4)
    by (intro bexI[of _ ?e]) (auto simp: cancel_def retry_failed_def run_for_def update_pipeline_def delete_pipeline_def)
qed

theorem outsider_changes_nothing_witness:
  "\<exists>e \<in> {ErrNotFound, ErrForbidden}. cancel demo_ex \<lparr>ac_user = ''m'', ac_admin = False\<rparr> ''q'' demo_pending = (Inl e, demo_pending)"
proof -
  have "pipelines_get ''p'' demo_pending = Inr demo_pipeline"
    by (simp add: demo_pending_def demo_world_def pipelines_get_def tbl_get_def demo_pipeline_def)
  moreover have "\<not> mutable_by \<lparr>ac_user = ''m'', ac_admin = False\<rparr> (pl_owner demo_pipeline)" by code_simp
  moreover have "pipeline_runs_get ''q'' demo_pending = Inr demo_run" by (simp add: demo_pending_def demo_get)
  moreover have "pr_pipeline demo_run = ''p''" by code_simp
  ultimately show ?thesis using outsider_changes_nothing by blast
qed

text \<open>
  A pipeline that ever started a step cannot be deleted: its run rows reference the step runs the
  cascade would remove, so the statement fails on the foreign key and nothing changes.
\<close>

theorem started_pipeline_not_deletable:
  assumes "mutable_pipeline a plid w = Inr pl" and "r \<in> set (wd_runs w)" and "rn_step_run r = Some srid"
    and "sr \<in> set (wd_step_runs w)" and "sr_id sr = srid" and "pr \<in> set (wd_pipeline_runs w)"
    and "pr_id pr = sr_pipeline_run sr" and "pr_pipeline pr = plid"
  shows "delete_pipeline a plid w = (Inl ErrForeignKey, w)"
proof -
  have "pipelines_get plid w = Inr pl"
    using assms(1) by (simp add: mutable_pipeline_def pipeline_owned.get_mutable_Inr)
  then have "plid \<in> pl_id ` set (wd_pipelines w)" using pipeline_repo.get_exists by blast
  moreover have "srid \<in> sr_id ` set (filter (\<lambda>s. sr_pipeline_run s \<in>
      pr_id ` set (filter (\<lambda>r. pr_pipeline r = plid) (wd_pipeline_runs w))) (wd_step_runs w))"
    using assms(4-8) by force
  ultimately show ?thesis
    using assms(1-3) by (auto simp: delete_pipeline_def pipelines_delete_def Let_def intro!: bexI[of _ r])
qed

theorem started_pipeline_not_deletable_witness:
  "delete_pipeline service_actor ''p'' (advance demo_ex ''q'' demo_pending) =
    (Inl ErrForeignKey, advance demo_ex ''q'' demo_pending)"
proof -
  let ?w = "advance demo_ex ''q'' demo_pending"
  have m: "mutable_pipeline service_actor ''p'' ?w = Inr demo_pipeline" by code_simp
  have "hd (wd_runs ?w) \<in> set (wd_runs ?w)" "rn_step_run (hd (wd_runs ?w)) = Some ''u''"
    "hd (wd_step_runs ?w) \<in> set (wd_step_runs ?w)" "sr_id (hd (wd_step_runs ?w)) = ''u''"
    "demo_run \<in> set (wd_pipeline_runs ?w)" "pr_id demo_run = sr_pipeline_run (hd (wd_step_runs ?w))"
    "pr_pipeline demo_run = ''p''" by code_simp+
  from started_pipeline_not_deletable[OF m this] show ?thesis .
qed

section \<open>Where the code falls short of its documentation\<close>

definition lookup_render :: "string \<Rightarrow> vars \<Rightarrow> string + string" where
  "lookup_render tmpl vs = Inr (if tmpl = ''{{.x}}'' then (case var_get vs ''x'' of Some (JStr s) \<Rightarrow> s | _ \<Rightarrow> []) else tmpl)"

text \<open>
  The entries of \<open>with\<close> are rendered in map order and each result is visible to the next: two orders of
  the same entries can give a step different variables.
\<close>

theorem with_order_matters:
  "\<exists>ex ws out out'. render_with ex ws [] = Inr out \<and> render_with ex (rev ws) [] = Inr out' \<and>
    distinct (map fst ws) \<and> var_get out ''y'' \<noteq> var_get out' ''y''"
proof -
  let ?ex = "demo_ex\<lparr>ex_env := demo_env\<lparr>ge_render := lookup_render\<rparr>\<rparr>"
  let ?ws = "[(''x'', ''1''), (''y'', ''{{.x}}'')]"
  have "render_with ?ex ?ws [] = Inr [(''x'', JStr ''1''), (''y'', JStr ''1'')]"
    "render_with ?ex (rev ?ws) [] = Inr [(''y'', JStr []), (''x'', JStr ''1'')]" by code_simp+
  then show ?thesis by (intro exI[of _ ?ex] exI[of _ ?ws]) simp
qed

definition idless_ex :: executor where
  "idless_ex = demo_ex\<lparr>ex_yaml := (\<lambda>_. Inr (demo_raw [demo_step [] [], demo_step [] []]))\<rparr>"

definition idless_run :: world where
  "idless_run =
     (let w1 = snd (start_pipeline idless_ex service_actor ''p'' [] [] [] (demo_world []));
          w2 = snd (runs_finish ''r'' RunSuccess ''{}'' [] 0 w1)
      in complete_step idless_ex ''r'' w2)"

text \<open>
  \<open>Validate\<close> accepts steps without an id, and two of them share one slot: a run of such a pipeline ends
  as a success while the first step is still pending and never started.
\<close>

theorem idless_steps_stranded:
  "fst (ex_validate idless_ex service_actor ''w'' [] (demo_world [])) = [] \<and>
   (case pipeline_runs_get ''u'' idless_run of Inl _ \<Rightarrow> False | Inr pr \<Rightarrow> pr_state pr = PipelineRunSuccess) \<and>
   map sr_state (step_runs_of ''u'' idless_run) = [StepRunPending, StepRunSuccess]"
  by code_simp

definition broken_foreach_ex :: executor where
  "broken_foreach_ex = demo_ex\<lparr>
     ex_yaml := (\<lambda>_. Inr (demo_raw [(demo_step ''f'' [])\<lparr>st_foreach := ''{{.files}}''\<rparr>])),
     ex_env := demo_env\<lparr>ge_render := (\<lambda>tmpl vs. Inl ''no such report'')\<rparr>\<rparr>"

definition broken_foreach_run :: world where
  "broken_foreach_run = advance broken_foreach_ex ''q'' (demo_world [])"

text \<open>
  A \<open>foreach\<close> node whose list could not be rendered is recorded as one failed step run; retrying it
  starts a single run without an item instead of rendering the list again.
\<close>

theorem retried_fan_out_not_expanded:
  "map (\<lambda>r. (sr_attempt r, sr_state r, sr_item r)) (wd_step_runs broken_foreach_run) = [(1, StepRunFailed, [])] \<and>
   map (\<lambda>r. (sr_attempt r, sr_state r, sr_item r))
     (wd_step_runs (snd (retry_failed broken_foreach_ex service_actor ''q'' broken_foreach_run))) =
     [(1, StepRunFailed, []), (2, StepRunRunning, [])]"
  by code_simp

end
