(* ===== verification/Session_Store.thy ===== *)
theory Session_Store
  imports Access
begin

text \<open>
  The repositories behind the sessions service: \<open>db/sessions.go\<close>, \<open>db/approvals.go\<close>,
  \<open>db/events.go\<close>, and what it uses of \<open>db/profiles.go\<close>, \<open>db/workspace_access.go\<close>,
  \<open>db/checkpoints.go\<close> and \<open>db/audit.go\<close>. The last two repositories' rows are only appended
  and read back.
\<close>

section \<open>Sessions\<close>

definition sessions_create :: "session \<Rightarrow> world \<Rightarrow> unit result" where
  "sessions_create s w =
     (if se_id s \<in> se_id ` set (wd_sessions w) then (Inl (ErrConflict []), w)
      else if \<not> fk ws_id (wd_workspaces w) (Some (se_workspace s)) \<or>
        \<not> fk pf_id (wd_profiles w) (Some (se_profile s))
      then (Inl ErrForeignKey, w)
      else (Inr (), w\<lparr>wd_sessions := wd_sessions w @ [s]\<rparr>))"

text \<open>The rank of a state in the list's \<open>CASE\<close> expression.\<close>

fun session_rank :: "session_state \<Rightarrow> nat" where
  "session_rank SessionWaiting = 0"
| "session_rank SessionRunning = 1"
| "session_rank SessionOpen = 2"
| "session_rank SessionClosed = 3"
| "session_rank SessionFailed = 4"

definition sessions_list_visible :: "id \<Rightarrow> bool \<Rightarrow> world \<Rightarrow> session list" where
  "sessions_list_visible user admin w =
     sort_key (\<lambda>s. session_rank (se_state s))
       (order_desc se_last_active
         (filter (\<lambda>s. admin \<or> se_owner s = Some user \<or> se_owner s = None) (wd_sessions w)))"

text \<open>\<open>exec1\<close>: an \<open>UPDATE sessions SET ... WHERE id = ?\<close>.\<close>

definition sessions_exec1 :: "id \<Rightarrow> (session \<Rightarrow> session) \<Rightarrow> world \<Rightarrow> unit result" where
  "sessions_exec1 i f w =
     (if i \<notin> se_id ` set (wd_sessions w) then (Inl ErrNotFound, w)
      else (Inr (), w\<lparr>wd_sessions := tbl_update se_id i f (wd_sessions w)\<rparr>))"

definition sessions_update_state :: "id \<Rightarrow> session_state \<Rightarrow> world \<Rightarrow> unit result" where
  "sessions_update_state i st = sessions_exec1 i (\<lambda>s. s\<lparr>se_state := st\<rparr>)"

definition sessions_update_stats :: "id \<Rightarrow> int \<Rightarrow> usd \<Rightarrow> int \<Rightarrow> int \<Rightarrow> world \<Rightarrow> unit result" where
  "sessions_update_stats i turns cost tin tout =
     sessions_exec1 i (\<lambda>s. s\<lparr>se_num_turns := turns, se_cost := cost, se_tokens_in := tin, se_tokens_out := tout\<rparr>)"

definition sessions_update_now :: "id \<Rightarrow> string \<Rightarrow> world \<Rightarrow> unit result" where
  "sessions_update_now i line = sessions_exec1 i (\<lambda>s. s\<lparr>se_now_line := line\<rparr>)"

definition sessions_update_harness :: "id \<Rightarrow> string \<Rightarrow> world \<Rightarrow> unit result" where
  "sessions_update_harness i kind = sessions_exec1 i (\<lambda>s. s\<lparr>se_harness := kind\<rparr>)"

definition sessions_update_harness_ref :: "id \<Rightarrow> string \<Rightarrow> world \<Rightarrow> unit result" where
  "sessions_update_harness_ref i ref = sessions_exec1 i (\<lambda>s. s\<lparr>se_harness_ref := ref\<rparr>)"

definition sessions_update_model :: "id \<Rightarrow> string \<Rightarrow> world \<Rightarrow> unit result" where
  "sessions_update_model i model = sessions_exec1 i (\<lambda>s. s\<lparr>se_model := model\<rparr>)"

definition sessions_update_effort :: "id \<Rightarrow> string \<Rightarrow> world \<Rightarrow> unit result" where
  "sessions_update_effort i effort = sessions_exec1 i (\<lambda>s. s\<lparr>se_effort := effort\<rparr>)"

definition sessions_set_worktree :: "id \<Rightarrow> string \<Rightarrow> string \<Rightarrow> string \<Rightarrow> world \<Rightarrow> unit result" where
  "sessions_set_worktree i path branch base =
     sessions_exec1 i (\<lambda>s. s\<lparr>se_worktree := path, se_branch := branch, se_base_ref := base\<rparr>)"

definition sessions_set_worktree_shared :: "id \<Rightarrow> bool \<Rightarrow> world \<Rightarrow> unit result" where
  "sessions_set_worktree_shared i shared = sessions_exec1 i (\<lambda>s. s\<lparr>se_shared := shared\<rparr>)"

definition sessions_get_by_worktree :: "string \<Rightarrow> world \<Rightarrow> error + session" where
  "sessions_get_by_worktree path w =
     (case order_asc se_created (filter (\<lambda>s. se_worktree s = path) (wd_sessions w)) of
        [] \<Rightarrow> Inl ErrNotFound | s # _ \<Rightarrow> Inr s)"

definition sessions_count_by_worktree :: "string \<Rightarrow> id \<Rightarrow> session_state list \<Rightarrow> world \<Rightarrow> nat" where
  "sessions_count_by_worktree path except states w =
     (if states = [] then 0
      else length (filter (\<lambda>s. se_worktree s = path \<and> se_id s \<noteq> except \<and> se_state s \<in> set states) (wd_sessions w)))"

definition sessions_update_diff_stats :: "id \<Rightarrow> nat \<Rightarrow> nat \<Rightarrow> world \<Rightarrow> unit result" where
  "sessions_update_diff_stats i add del = sessions_exec1 i (\<lambda>s. s\<lparr>se_diff_add := add, se_diff_del := del\<rparr>)"

definition sessions_update_slash_commands :: "id \<Rightarrow> string list \<Rightarrow> world \<Rightarrow> unit result" where
  "sessions_update_slash_commands i cs = sessions_exec1 i (\<lambda>s. s\<lparr>se_slash_commands := cs\<rparr>)"

definition sessions_touch :: "id \<Rightarrow> world \<Rightarrow> unit result" where
  "sessions_touch i w = sessions_exec1 i (\<lambda>s. s\<lparr>se_last_active := wd_now w\<rparr>) w"

section \<open>Approvals\<close>

definition approvals_create :: "approval \<Rightarrow> world \<Rightarrow> unit result" where
  "approvals_create a w =
     (if ap_id a \<in> ap_id ` set (wd_approvals w) then (Inl (ErrConflict []), w)
      else if \<not> fk se_id (wd_sessions w) (Some (ap_session a)) then (Inl ErrForeignKey, w)
      else (Inr (), w\<lparr>wd_approvals := wd_approvals w @ [a]\<rparr>))"

definition approvals_get :: "id \<Rightarrow> world \<Rightarrow> error + approval" where
  "approvals_get i w = found (tbl_get ap_id i (wd_approvals w))"

definition approvals_list_pending_visible :: "id \<Rightarrow> bool \<Rightarrow> world \<Rightarrow> approval list" where
  "approvals_list_pending_visible user admin w =
     order_asc ap_created
       (filter (\<lambda>a. ap_state a = ApprovalPending \<and>
          (case sessions_get (ap_session a) w of
             Inl e \<Rightarrow> False
           | Inr s \<Rightarrow> admin \<or> se_owner s = Some user \<or> se_owner s = None)) (wd_approvals w))"

definition approvals_pending_for_session :: "id \<Rightarrow> world \<Rightarrow> approval list" where
  "approvals_pending_for_session sid w =
     order_asc ap_created (filter (\<lambda>a. ap_session a = sid \<and> ap_state a = ApprovalPending) (wd_approvals w))"

text \<open>The \<open>UPDATE\<close> is guarded by \<open>state = 'pending'\<close>: only one decision is ever written.\<close>

definition approvals_decide ::
  "id \<Rightarrow> approval_state \<Rightarrow> id \<Rightarrow> string \<Rightarrow> string \<Rightarrow> world \<Rightarrow> unit result" where
  "approvals_decide i st by_user updated msg w =
     (case approvals_get i w of
        Inl e \<Rightarrow> (Inl e, w)
      | Inr a \<Rightarrow>
          (if ap_state a \<noteq> ApprovalPending then (Inl (ErrConflict []), w)
           else (Inr (), w\<lparr>wd_approvals :=
             tbl_update ap_id i (\<lambda>r. if ap_state r = ApprovalPending
               then r\<lparr>ap_state := st, ap_decided_by := Some by_user, ap_decided_at := Some (wd_now w),
                 ap_updated_input := empty_to_null updated, ap_message := msg\<rparr> else r) (wd_approvals w)\<rparr>)))"

definition approvals_snooze :: "id \<Rightarrow> time \<Rightarrow> world \<Rightarrow> unit result" where
  "approvals_snooze i until w =
     (if i \<notin> ap_id ` set (wd_approvals w) then (Inl ErrNotFound, w)
      else (Inr (), w\<lparr>wd_approvals := tbl_update ap_id i (\<lambda>a. a\<lparr>ap_snoozed_until := Some until\<rparr>) (wd_approvals w)\<rparr>))"

definition approvals_expire_before :: "time \<Rightarrow> world \<Rightarrow> nat \<times> world" where
  "approvals_expire_before t w =
     (let old = (\<lambda>a. ap_state a = ApprovalPending \<and> stored_less (ap_created a) t)
      in (length (filter old (wd_approvals w)),
          w\<lparr>wd_approvals := map (\<lambda>a. if old a then a\<lparr>ap_state := ApprovalExpired\<rparr> else a) (wd_approvals w)\<rparr>))"

section \<open>The transcript\<close>

definition last_seq :: "id \<Rightarrow> world \<Rightarrow> nat" where
  "last_seq sid w = foldl (\<lambda>m e. if ev_session e = sid then max m (ev_seq e) else m) 0 (wd_events w)"

definition events_append :: "id \<Rightarrow> harness_event \<Rightarrow> world \<Rightarrow> nat result" where
  "events_append sid ev w =
     (if \<not> fk se_id (wd_sessions w) (Some sid) then (Inl ErrForeignKey, w)
      else let n = Suc (last_seq sid w)
           in (Inr n, w\<lparr>wd_events := wd_events w @
                [\<lparr>ev_session = sid, ev_seq = n, ev_time = wd_now w, ev_payload = ev\<rparr>]\<rparr>))"

definition events_list_after :: "id \<Rightarrow> nat \<Rightarrow> nat \<Rightarrow> world \<Rightarrow> event_row list" where
  "events_list_after sid after limit w =
     take limit (sort_key ev_seq (filter (\<lambda>e. ev_session e = sid \<and> after < ev_seq e) (wd_events w)))"

section \<open>Profiles, access, checkpoints and audit\<close>

definition profiles_get :: "id \<Rightarrow> world \<Rightarrow> error + profile" where
  "profiles_get i w = found (tbl_get pf_id i (wd_profiles w))"

definition has_access :: "id \<Rightarrow> id \<Rightarrow> world \<Rightarrow> bool" where
  "has_access ws user w \<longleftrightarrow> (ws, user) \<in> set (wd_access w)"

definition checkpoints_create :: "checkpoint \<Rightarrow> world \<Rightarrow> unit result" where
  "checkpoints_create c w =
     (if cp_id c \<in> cp_id ` set (wd_checkpoints w) then (Inl (ErrConflict []), w)
      else if \<not> fk se_id (wd_sessions w) (Some (cp_session c)) then (Inl ErrForeignKey, w)
      else (Inr (), w\<lparr>wd_checkpoints := wd_checkpoints w @ [c]\<rparr>))"

definition checkpoints_get :: "id \<Rightarrow> world \<Rightarrow> error + checkpoint" where
  "checkpoints_get i w = found (tbl_get cp_id i (wd_checkpoints w))"

definition checkpoints_list :: "id \<Rightarrow> world \<Rightarrow> checkpoint list" where
  "checkpoints_list sid w =
     order_desc cp_created (sort_key (\<lambda>c. - cp_turn c) (filter (\<lambda>c. cp_session c = sid) (wd_checkpoints w)))"

definition audit_append :: "id \<Rightarrow> string \<Rightarrow> id \<Rightarrow> world \<Rightarrow> world" where
  "audit_append who action target w =
     w\<lparr>wd_audit := wd_audit w @ [\<lparr>au_actor = who, au_action = action, au_target = target, au_time = wd_now w\<rparr>]\<rparr>"

text \<open>An entry's number is its position; SQLite takes a negative limit for none.\<close>

definition audit_list :: "int \<Rightarrow> world \<Rightarrow> audit_entry list" where
  "audit_list limit w = (if limit < 0 then rev (wd_audit w) else take (nat limit) (rev (wd_audit w)))"

interpretation session_repo: keyed_repo se_id wd_sessions sessions_create sessions_get
  by unfold_locales (auto simp: sessions_get_def sessions_create_def split: if_splits)

interpretation approval_repo: keyed_repo ap_id wd_approvals approvals_create approvals_get
  by unfold_locales (auto simp: approvals_get_def approvals_create_def split: if_splits)

interpretation checkpoint_repo: keyed_repo cp_id wd_checkpoints checkpoints_create checkpoints_get
  by unfold_locales (auto simp: checkpoints_get_def checkpoints_create_def split: if_splits)

interpretation session_owned: owned_repo se_id wd_sessions sessions_create sessions_get se_owner
  by unfold_locales

section \<open>Laws of the repositories\<close>

lemma exec1_frame:
  assumes "sessions_exec1 i f w = (r, w')"
  shows "w' = w\<lparr>wd_sessions := wd_sessions w'\<rparr>"
    and "(\<And>s. se_id (f s) = se_id s) \<Longrightarrow> map se_id (wd_sessions w') = map se_id (wd_sessions w)"
  using assms by (auto simp: sessions_exec1_def map_tbl_update split: if_splits)

text \<open>A transcript's sequence numbers are 1, 2, 3, ... in the order of the appends.\<close>

definition transcript_ok :: "world \<Rightarrow> bool" where
  "transcript_ok w \<longleftrightarrow>
     (\<forall>sid. map ev_seq (filter (\<lambda>e. ev_session e = sid) (wd_events w)) =
        [1..<Suc (length (filter (\<lambda>e. ev_session e = sid) (wd_events w)))])"

lemma last_seq_filter:
  "foldl (\<lambda>m e. if ev_session e = sid then max m (ev_seq e) else m) n es =
   foldl max n (map ev_seq (filter (\<lambda>e. ev_session e = sid) es))"
  by (induction es arbitrary: n) auto

lemma foldl_max_upt: "foldl max 0 [Suc 0..<Suc n] = n"
  by (induction n) auto

lemma transcript_last_seq:
  "transcript_ok w \<Longrightarrow> last_seq sid w = length (filter (\<lambda>e. ev_session e = sid) (wd_events w))"
  by (simp add: last_seq_def last_seq_filter transcript_ok_def foldl_max_upt del: upt_Suc)

lemma events_append_transcript:
  assumes "transcript_ok w" and "events_append sid ev w = (r, w')"
  shows "transcript_ok w'"
proof (cases "fk se_id (wd_sessions w) (Some sid)")
  case False
  with assms show ?thesis by (simp add: events_append_def)
next
  case True
  let ?n = "Suc (last_seq sid w)"
  from True assms(2) have w': "wd_events w' = wd_events w @
      [\<lparr>ev_session = sid, ev_seq = ?n, ev_time = wd_now w, ev_payload = ev\<rparr>]"
    by (auto simp: events_append_def Let_def)
  show ?thesis
    unfolding transcript_ok_def
  proof
    fix k
    show "map ev_seq (filter (\<lambda>e. ev_session e = k) (wd_events w')) =
      [1..<Suc (length (filter (\<lambda>e. ev_session e = k) (wd_events w')))]"
      using assms(1) transcript_last_seq[OF assms(1), of sid] by (auto simp: w' transcript_ok_def)
  qed
qed

end
