(* ===== verification/Go_Path.thy ===== *)
theory Go_Path
  imports Prelude
begin

text \<open>What the program uses of \<open>path/filepath\<close>, on Unix: paths are texts, an absolute path is the list of its elements.\<close>

section \<open>Elements\<close>

fun split_path :: "string \<Rightarrow> string list" where
  "split_path [] = [[]]"
| "split_path (c # s) =
     (if c = CHR ''/'' then [] # split_path s
      else case split_path s of [] \<Rightarrow> [[c]] | e # es \<Rightarrow> (c # e) # es)"

text \<open>\<open>filepath.Clean\<close> on the elements of a path: a rooted path drops leading dot-dots, a relative one keeps them.\<close>

fun clean_path :: "bool \<Rightarrow> string list \<Rightarrow> string list \<Rightarrow> string list" where
  "clean_path rooted [] acc = rev acc"
| "clean_path rooted (e # es) acc =
     (if e = [] \<or> e = ''.'' then clean_path rooted es acc
      else if e = ''..'' then
        (if acc \<noteq> [] \<and> hd acc \<noteq> ''..'' then clean_path rooted es (tl acc)
         else if rooted then clean_path rooted es acc
         else clean_path rooted es (e # acc))
      else clean_path rooted es (e # acc))"

fun slash_join :: "string list \<Rightarrow> string" where
  "slash_join [] = []"
| "slash_join [e] = e"
| "slash_join (e # f # es) = e @ ''/'' @ slash_join (f # es)"

definition go_clean :: "string \<Rightarrow> string" where
  "go_clean p =
     (if has_prefix p ''/'' then ''/'' @ slash_join (clean_path True (split_path p) [])
      else case clean_path False (split_path p) [] of [] \<Rightarrow> ''.'' | es \<Rightarrow> slash_join es)"

definition go_join :: "string list \<Rightarrow> string" where
  "go_join es = (case filter (\<lambda>e. e \<noteq> []) es of [] \<Rightarrow> [] | fs \<Rightarrow> go_clean (slash_join fs))"

definition is_abs :: "string \<Rightarrow> bool" where
  "is_abs p = has_prefix p ''/''"

text \<open>The elements of \<open>filepath.Abs\<close> for a process in the directory given, and the directories above a path.\<close>

definition elements_from :: "string \<Rightarrow> string \<Rightarrow> string list" where
  "elements_from cwd p = clean_path True (split_path (if is_abs p then p else cwd @ ''/'' @ p)) []"

fun ancestors :: "string list \<Rightarrow> string list \<Rightarrow> string list list" where
  "ancestors up [] = []"
| "ancestors up (e # es) = (up @ [e]) # ancestors (up @ [e]) es"

end
