(* ===== verification/Sessions.thy ===== *)
theory Sessions
  imports Session_Store Go_Path
begin

text \<open>
  The sessions service: \<open>internal/sessions/service.go\<close>, \<open>runner.go\<close>, \<open>scheduler.go\<close>,
  \<open>approvals.go\<close>, \<open>model.go\<close> and \<open>worktree.go\<close>. A live process is an entry of \<open>wd_procs\<close>; what is written
  to it is logged in \<open>wd_calls\<close>. What a process, the file system or git answers is a parameter of
  the service record, one field per call the code makes. Methods are atomic here: the interleavings of concurrent
  calls within one method are not modelled.
\<close>

section \<open>The service\<close>

record session_service =
  ss_env :: go_env
  ss_max_open :: int
  ss_idle_timeout :: duration
  ss_registered :: "string \<Rightarrow> bool"
  ss_credential :: "string \<Rightarrow> id option \<Rightarrow> error option"
  ss_home :: "id option \<Rightarrow> error option"
  ss_launch :: "session \<Rightarrow> bool \<Rightarrow> string \<Rightarrow> string \<Rightarrow> world \<Rightarrow> error option"
  ss_answer :: "id \<Rightarrow> process_call \<Rightarrow> world \<Rightarrow> error option"
  ss_freed :: "world \<Rightarrow> (session \<times> int) option"
  ss_classify :: "string \<Rightarrow> string \<Rightarrow> risk_tier"
  ss_summary :: "string \<Rightarrow> string \<Rightarrow> string"
  ss_cwd :: string
  ss_is_dir :: "string \<Rightarrow> bool"
  ss_current_branch :: "workspace \<Rightarrow> error + string"
  ss_add_worktree :: "workspace \<Rightarrow> string \<Rightarrow> string \<Rightarrow> string \<Rightarrow> error + string"
  ss_worktree_info :: "workspace \<Rightarrow> string \<Rightarrow> error + string"
  ss_commit_turn :: "session \<Rightarrow> string \<Rightarrow> world \<Rightarrow> error + string \<times> bool"
  ss_diff :: "session \<Rightarrow> world \<Rightarrow> error + nat \<times> nat"

definition kind_claude :: string where "kind_claude = ''claude''"
definition kind_codex :: string where "kind_codex = ''codex''"

definition valid_kind :: "string \<Rightarrow> bool" where
  "valid_kind k \<longleftrightarrow> k = kind_claude \<or> k = kind_codex"

definition valid_efforts :: "string list" where
  "valid_efforts = [''low'', ''medium'', ''high'', ''xhigh'', ''max'']"

definition valid_effort :: "string \<Rightarrow> bool" where
  "valid_effort e \<longleftrightarrow> (if e = [] then True else list_ex (\<lambda>x. x = e) valid_efforts)"

record create_input =
  ci_workspace :: id
  ci_profile :: id
  ci_title :: string
  ci_prompt :: string
  ci_origin :: string
  ci_origin_ref :: string
  ci_owner :: "id option"
  ci_model :: string
  ci_effort :: string
  ci_harness :: string
  ci_json_schema :: string
  ci_system_prompt :: string
  ci_run :: id
  ci_worktree :: string

definition origin_ref :: "create_input \<Rightarrow> string" where
  "origin_ref ci =
     (if ci_origin ci \<in> {OriginWebhook, OriginSchedule, OriginPipeline} \<and> ci_run ci \<noteq> []
      then ci_run ci else ci_origin_ref ci)"

definition resolve_kind :: "session_service \<Rightarrow> string \<Rightarrow> string \<Rightarrow> error + string" where
  "resolve_kind ss requested profile_default =
     (let k1 = (if requested = [] then profile_default else requested);
          k = (if k1 = [] then kind_claude else k1)
      in if \<not> valid_kind k then Inl (ErrInvalid (''unknown harness '' @ go_quote k))
         else if \<not> ss_registered ss k
         then Inl (ErrInvalid (''the '' @ k @ '' harness is not available on this server''))
         else Inr k)"

definition harness_for :: "session_service \<Rightarrow> string \<Rightarrow> error option" where
  "harness_for ss kind =
     (if ss_registered ss kind then None
      else Some (ErrInvalid (''the '' @ kind @ '' harness is not available on this server'')))"

section \<open>Visibility\<close>

definition get_session :: "actor \<Rightarrow> id \<Rightarrow> world \<Rightarrow> error + session" where
  "get_session = get_visible sessions_get se_owner"

definition list_sessions :: "actor \<Rightarrow> world \<Rightarrow> session list" where
  "list_sessions a w = sessions_list_visible (ac_user a) (ac_admin a) w"

definition session_events :: "actor \<Rightarrow> id \<Rightarrow> nat \<Rightarrow> nat \<Rightarrow> world \<Rightarrow> error + event_row list" where
  "session_events a i after limit w =
     (case get_session a i w of Inl e \<Rightarrow> Inl e | Inr _ \<Rightarrow> Inr (events_list_after i after limit w))"

definition workspace_access_allowed :: "actor \<Rightarrow> workspace \<Rightarrow> world \<Rightarrow> bool" where
  "workspace_access_allowed a ws w \<longleftrightarrow>
     (if ws_owner ws \<noteq> None \<or> ws_access ws \<noteq> WorkspaceAccessListed \<or> ac_admin a then True
      else has_access (ws_id ws) (ac_user a) w)"

section \<open>State and processes\<close>

definition set_state :: "id \<Rightarrow> session_state \<Rightarrow> world \<Rightarrow> unit result" where
  "set_state i st w =
     (case sessions_update_state i st w of
        (Inl e, w') \<Rightarrow> (Inl e, w')
      | (Inr _, w') \<Rightarrow> (Inr (), publish (SessionStateMsg i st) w'))"

definition live :: "id \<Rightarrow> world \<Rightarrow> bool" where
  "live i w \<longleftrightarrow> i \<in> fst ` set (wd_procs w)"

text \<open>A call on the tracked process: it is written, then answered.\<close>

definition call_process :: "session_service \<Rightarrow> id \<Rightarrow> process_call \<Rightarrow> world \<Rightarrow> unit result" where
  "call_process ss i c w =
     (let w' = w\<lparr>wd_calls := wd_calls w @ [(i, c)]\<rparr>
      in case ss_answer ss i c w of Some e \<Rightarrow> (Inl e, w') | None \<Rightarrow> (Inr (), w'))"

definition register_process :: "id \<Rightarrow> id option \<Rightarrow> world \<Rightarrow> unit result" where
  "register_process i owner w =
     (if live i w then (Inl (ErrConflict ''session already has a live process''), w)
      else (Inr (), w\<lparr>wd_procs := wd_procs w @ [(i, owner)], wd_closing := removeAll i (wd_closing w)\<rparr>))"

definition unregister_process :: "id \<Rightarrow> world \<Rightarrow> world" where
  "unregister_process i w =
     w\<lparr>wd_procs := filter (\<lambda>(k, _). k \<noteq> i) (wd_procs w), wd_closing := removeAll i (wd_closing w)\<rparr>"

definition record_user_turn :: "id \<Rightarrow> string \<Rightarrow> world \<Rightarrow> world" where
  "record_user_turn i text w =
     (case events_append i (EventUser text) w of
        (Inl e, w') \<Rightarrow> w'
      | (Inr n, w') \<Rightarrow> publish (SessionEventMsg i n (EventUser text)) w')"

section \<open>Slots (scheduler.go, runner.go)\<close>

text \<open>\<open>newSlots\<close> raises a limit below one to one.\<close>

definition slot_count :: "session_service \<Rightarrow> nat" where
  "slot_count ss = nat (if ss_max_open ss < 1 then 1 else ss_max_open ss)"

definition release_slot :: "world \<Rightarrow> world" where
  "release_slot w = w\<lparr>wd_slots := wd_slots w - 1\<rparr>"

definition handle_exit :: "id \<Rightarrow> int \<Rightarrow> world \<Rightarrow> world" where
  "handle_exit i code w =
     (let st = (if i \<in> set (wd_closing w) \<or> code = 0 then SessionClosed else SessionFailed)
      in release_slot (unregister_process i (snd (set_state i st w))))"

definition close_tracked :: "session_service \<Rightarrow> id \<Rightarrow> world \<Rightarrow> world" where
  "close_tracked ss i w =
     (if live i w then snd (call_process ss i ProcClose (w\<lparr>wd_closing := i # removeAll i (wd_closing w)\<rparr>)) else w)"

text \<open>The idle, unattended, tracked session that was active longest ago; the first of equals.\<close>

definition evictable :: "world \<Rightarrow> id \<Rightarrow> session option" where
  "evictable w i =
     (case sessions_get i w of
        Inl e \<Rightarrow> None
      | Inr s \<Rightarrow>
          (if se_state s \<noteq> SessionOpen then None
           else case profiles_get (se_profile s) w of
             Inl e \<Rightarrow> None | Inr p \<Rightarrow> if pf_unattended p then Some s else None))"

definition older :: "session option \<Rightarrow> session \<Rightarrow> session option" where
  "older best s = (case best of None \<Rightarrow> Some s | Some b \<Rightarrow> if se_last_active s < se_last_active b then Some s else Some b)"

definition oldest_evictable :: "world \<Rightarrow> session option" where
  "oldest_evictable w =
     foldl (\<lambda>best i. case evictable w i of None \<Rightarrow> best | Some s \<Rightarrow> older best s) None (map fst (wd_procs w))"

definition evict_oldest_idle :: "session_service \<Rightarrow> world \<Rightarrow> bool \<times> world" where
  "evict_oldest_idle ss w =
     (case oldest_evictable w of None \<Rightarrow> (False, w) | Some s \<Rightarrow> (True, close_tracked ss (se_id s) w))"

text \<open>
  \<open>acquire\<close>: a free slot at once, or one process exiting during the wait (\<open>ss_freed\<close> names it and
  its exit code), or the timeout.
\<close>

definition acquire_slot :: "session_service \<Rightarrow> bool \<Rightarrow> world \<Rightarrow> unit result" where
  "acquire_slot ss interactive w =
     (if wd_slots w < slot_count ss then (Inr (), w\<lparr>wd_slots := Suc (wd_slots w)\<rparr>)
      else
        (let w1 = (if interactive then snd (evict_oldest_idle ss w) else w);
             busy = (Inl (ErrConflict ''all session slots busy''))
         in case ss_freed ss w1 of
              None \<Rightarrow> (busy, w1)
            | Some (s, code) \<Rightarrow>
                (if live (se_id s) w1
                 then let w2 = handle_exit (se_id s) code w1
                      in if wd_slots w2 < slot_count ss then (Inr (), w2\<lparr>wd_slots := Suc (wd_slots w2)\<rparr>)
                         else (busy, w2)
                 else (busy, w1))))"

section \<open>Starting a process (service.go)\<close>

definition start_process ::
  "session_service \<Rightarrow> session \<Rightarrow> profile \<Rightarrow> bool \<Rightarrow> string \<Rightarrow> string \<Rightarrow> string \<Rightarrow> world \<Rightarrow> unit result" where
  "start_process ss s pf resume first schema sysprompt w =
     (case harness_for ss (se_harness s) of Some e \<Rightarrow> (Inl e, w) | None \<Rightarrow>
     (case ss_credential ss (se_harness s) (se_owner s) of Some e \<Rightarrow> (Inl e, w) | None \<Rightarrow>
     (case ss_home ss (se_owner s) of Some e \<Rightarrow> (Inl e, w) | None \<Rightarrow>
     (case acquire_slot ss (\<not> pf_unattended pf) w of (Inl e, w1) \<Rightarrow> (Inl e, w1) | (Inr _, w1) \<Rightarrow>
     (case ss_launch ss s resume schema sysprompt w1 of Some e \<Rightarrow> (Inl e, release_slot w1) | None \<Rightarrow>
     (case register_process (se_id s) (se_owner s) w1 of (Inl e, w2) \<Rightarrow> (Inl e, release_slot w2) | (Inr _, w2) \<Rightarrow>
     (case (if resume then set_state (se_id s) SessionRunning w2 else (Inr (), w2)) of
        (Inl e, w3) \<Rightarrow> (Inl e, w3)
      | (Inr _, w3) \<Rightarrow>
          (if first = [] then (Inr (), w3)
           else call_process ss (se_id s) (ProcSend first) (record_user_turn (se_id s) first w3)))))))))"

section \<open>Worktrees (worktree.go)\<close>

definition worktrees_subdir :: string where "worktrees_subdir = ''.styr/worktrees''"
definition branch_slug_max :: nat where "branch_slug_max = 40"
definition short_id_len :: nat where "short_id_len = 8"

definition ascii_alnum :: "char \<Rightarrow> bool" where
  "ascii_alnum c \<longleftrightarrow> (let n = of_char c :: nat in 97 \<le> n \<and> n \<le> 122 \<or> 48 \<le> n \<and> n \<le> 57)"

text \<open>The loop of \<open>slugify\<close>: the text so far, and whether it ends in a dash just written.\<close>

fun slug_loop :: "string \<Rightarrow> string \<Rightarrow> bool \<Rightarrow> string" where
  "slug_loop [] out last_dash = out"
| "slug_loop (c # s) out last_dash =
     (if ascii_alnum c then slug_loop s (out @ [c]) False
      else if \<not> last_dash \<and> out \<noteq> [] then slug_loop s (out @ ''-'') True
      else slug_loop s out last_dash)"

definition session_slug :: "string \<Rightarrow> nat \<Rightarrow> string" where
  "session_slug s m =
     (let out = trim_func (\<lambda>c. c = CHR ''-'') (slug_loop (to_lower s) [] False)
      in trim_func (\<lambda>c. c = CHR ''-'') (if m < length out then take m out else out))"

definition branch_name :: "id \<Rightarrow> string \<Rightarrow> string" where
  "branch_name i title =
     (let short = (case session_slug i short_id_len of [] \<Rightarrow> ''session'' | s \<Rightarrow> s);
          name = (case session_slug title branch_slug_max of [] \<Rightarrow> short | slug \<Rightarrow> short @ ''-'' @ slug)
      in ''styr/'' @ name)"

text \<open>\<open>filepath.Abs\<close>, as elements and as text.\<close>

definition abs_elements :: "session_service \<Rightarrow> string \<Rightarrow> string list" where
  "abs_elements ss p = elements_from (ss_cwd ss) p"

definition join_elements :: "string list \<Rightarrow> string" where
  "join_elements es = concat (map (\<lambda>e. CHR ''/'' # e) es)"

definition worktree_dir :: "workspace \<Rightarrow> id \<Rightarrow> string" where
  "worktree_dir ws sid = go_join [ws_path ws, worktrees_subdir, sid]"

definition validate_worktree_path :: "session_service \<Rightarrow> workspace \<Rightarrow> string \<Rightarrow> error option" where
  "validate_worktree_path ss ws path =
     (let root = abs_elements ss (ws_path ws @ ''/'' @ worktrees_subdir);
          p = abs_elements ss path
      in if \<not> (length root < length p \<and> take (length root) p = root)
         then Some (ErrInvalid ''worktree path is not under the workspace's worktrees directory'')
         else if \<not> ss_is_dir ss (join_elements p) then Some (ErrInvalid ''worktree path does not exist'')
         else None)"

definition create_worktree :: "session_service \<Rightarrow> session \<Rightarrow> workspace \<Rightarrow> world \<Rightarrow> session result" where
  "create_worktree ss s ws w =
     (case (if ws_base_branch ws = [] then ss_current_branch ss ws else Inr (ws_base_branch ws)) of
        Inl e \<Rightarrow> (Inl e, w)
      | Inr base \<Rightarrow>
          (let dir = worktree_dir ws (se_id s); branch = branch_name (se_id s) (se_title s)
           in case ss_add_worktree ss ws dir branch base of
                Inl e \<Rightarrow> (Inl e, w)
              | Inr base_ref \<Rightarrow>
                  (case sessions_set_worktree (se_id s) dir branch base_ref w of
                     (Inl e, w') \<Rightarrow> (Inl e, w')
                   | (Inr _, w') \<Rightarrow>
                       (Inr (s\<lparr>se_worktree := dir, se_branch := branch, se_base_ref := base_ref\<rparr>), w'))))"

definition attach_worktree ::
  "session_service \<Rightarrow> session \<Rightarrow> workspace \<Rightarrow> string \<Rightarrow> world \<Rightarrow> session result" where
  "attach_worktree ss s ws path w =
     (case validate_worktree_path ss ws path of Some e \<Rightarrow> (Inl e, w) | None \<Rightarrow>
     (case ss_worktree_info ss ws path of Inl e \<Rightarrow> (Inl e, w) | Inr branch \<Rightarrow>
     (case sessions_get_by_worktree path w of
        Inl e \<Rightarrow> (Inl (if e = ErrNotFound then ErrInvalid ''no owning session to take a base commit from'' else e), w)
      | Inr owner \<Rightarrow>
     (case sessions_set_worktree (se_id s) path branch (se_base_ref owner) w of
        (Inl e, w1) \<Rightarrow> (Inl e, w1)
      | (Inr _, w1) \<Rightarrow>
          (case sessions_set_worktree_shared (se_id s) True w1 of
             (Inl e, w2) \<Rightarrow> (Inl e, w2)
           | (Inr _, w2) \<Rightarrow>
               (Inr (s\<lparr>se_worktree := path, se_branch := branch, se_base_ref := se_base_ref owner,
                  se_shared := True\<rparr>), w2))))))"

definition checkpoint_turn :: "session_service \<Rightarrow> session \<Rightarrow> int \<Rightarrow> world \<Rightarrow> world" where
  "checkpoint_turn ss s turn w =
     (let message = ''styr: checkpoint after turn '' @ show_int turn
      in case ss_commit_turn ss s message w of
           Inl e \<Rightarrow> w
         | Inr (sha, dirty) \<Rightarrow>
             (if \<not> dirty then w
              else let (u, w1) = new_uuid (ge_uuid (ss_env ss)) w
                   in snd (checkpoints_create \<lparr>cp_id = u, cp_session = se_id s, cp_sha = sha, cp_turn = turn,
                        cp_summary = message, cp_created = wd_now w\<rparr> w1)))"

definition after_result :: "session_service \<Rightarrow> session \<Rightarrow> int \<Rightarrow> world \<Rightarrow> (nat \<times> nat) \<times> world" where
  "after_result ss s turn w =
     (if se_worktree s = [] then ((0, 0), w)
      else case workspaces_get (se_workspace s) w of
        Inl e \<Rightarrow> ((0, 0), w)
      | Inr ws \<Rightarrow>
          (let w1 = (if ws_auto_checkpoint ws then checkpoint_turn ss s turn w else w)
           in case ss_diff ss s w1 of
                Inl e \<Rightarrow> ((0, 0), w1)
              | Inr (add, del) \<Rightarrow> ((add, del), snd (sessions_update_diff_stats (se_id s) add del w1))))"

section \<open>Create, send, interrupt, close (service.go)\<close>

definition create_checks ::
  "session_service \<Rightarrow> actor \<Rightarrow> create_input \<Rightarrow> world \<Rightarrow> error + workspace \<times> profile \<times> string" where
  "create_checks ss a ci w =
     (case workspaces_get (ci_workspace ci) w of Inl e \<Rightarrow> Inl e | Inr ws \<Rightarrow>
      if \<not> visible_owner a (ws_owner ws) then Inl ErrNotFound
      else if \<not> workspace_access_allowed a ws w then Inl ErrNotFound
      else if ws_state ws \<noteq> WorkspaceReady then Inl (ErrConflict ''workspace is not ready'')
      else (case profiles_get (ci_profile ci) w of Inl e \<Rightarrow> Inl e | Inr pf \<Rightarrow>
       (case resolve_kind ss (ci_harness ci) (pf_harness pf) of Inl e \<Rightarrow> Inl e | Inr kind \<Rightarrow>
        (case ss_credential ss kind (ci_owner ci) of
           Some e \<Rightarrow> Inl e
         | None \<Rightarrow>
             (if \<not> valid_effort (if ci_effort ci = [] then pf_effort pf else ci_effort ci)
              then Inl (ErrInvalid ''effort is not allowed'')
              else Inr (ws, pf, kind))))))"

definition place_session ::
  "session_service \<Rightarrow> create_input \<Rightarrow> workspace \<Rightarrow> session \<Rightarrow> world \<Rightarrow> session result" where
  "place_session ss ci ws s w =
     (if ci_worktree ci \<noteq> [] \<and> \<not> ws_worktrees ws
      then (Inl (ErrInvalid ''workspace does not have worktrees enabled''), w)
      else if ci_worktree ci \<noteq> [] then attach_worktree ss s ws (ci_worktree ci) w
      else if ws_worktrees ws then create_worktree ss s ws w
      else (Inr s, w))"

definition create_session :: "session_service \<Rightarrow> actor \<Rightarrow> create_input \<Rightarrow> world \<Rightarrow> session result" where
  "create_session ss a ci w =
     (case create_checks ss a ci w of
        Inl e \<Rightarrow> (Inl e, w)
      | Inr (ws, pf, kind) \<Rightarrow>
          (let (u, w1) = new_uuid (ge_uuid (ss_env ss)) w;
               s = \<lparr>se_id = u, se_owner = ci_owner ci, se_title = ci_title ci, se_workspace = ci_workspace ci,
                    se_profile = ci_profile ci, se_harness = kind, se_harness_ref = [],
                    se_state = SessionRunning, se_origin = ci_origin ci, se_origin_ref = origin_ref ci,
                    se_worktree = [], se_model = (if ci_model ci = [] then pf_model pf else ci_model ci),
                    se_effort = (if ci_effort ci = [] then pf_effort pf else ci_effort ci),
                    se_created = wd_now w, se_last_active = wd_now w, se_num_turns = 0, se_cost = 0,
                    se_tokens_in = 0, se_tokens_out = 0, se_now_line = [], se_branch = [],
                    se_base_ref = [], se_shared = False, se_slash_commands = [], se_diff_add = 0,
                    se_diff_del = 0\<rparr>
           in case sessions_create s w1 of
                (Inl e, w2) \<Rightarrow> (Inl e, w2)
              | (Inr _, w2) \<Rightarrow>
                  (case place_session ss ci ws s w2 of
                     (Inl e, w3) \<Rightarrow> (Inl e, snd (sessions_update_state u SessionFailed w3))
                   | (Inr s', w3) \<Rightarrow>
                       (case start_process ss s' pf False (ci_prompt ci) (ci_json_schema ci) (ci_system_prompt ci) w3 of
                          (Inl e, w4) \<Rightarrow> (Inl e, snd (sessions_update_state u SessionFailed w4))
                        | (Inr _, w4) \<Rightarrow> (Inr s', w4)))))"

definition send_session :: "session_service \<Rightarrow> actor \<Rightarrow> id \<Rightarrow> string \<Rightarrow> world \<Rightarrow> unit result" where
  "send_session ss a i text w =
     (case get_session a i w of Inl e \<Rightarrow> (Inl e, w) | Inr s \<Rightarrow>
      if se_state s = SessionWaiting then (Inl (ErrConflict ''answer the pending approval first''), w)
      else if live i w then call_process ss i (ProcSend text) (record_user_turn i text w)
      else if i \<in> set (wd_starting w) then (Inl (ErrConflict ''session failed to start''), w)
      else
        (let (r, w') =
           (case workspaces_get (se_workspace s) (w\<lparr>wd_starting := i # wd_starting w\<rparr>) of
              Inl e \<Rightarrow> (Inl e, w\<lparr>wd_starting := i # wd_starting w\<rparr>)
            | Inr ws \<Rightarrow>
                (case profiles_get (se_profile s) w of
                   Inl e \<Rightarrow> (Inl e, w\<lparr>wd_starting := i # wd_starting w\<rparr>)
                 | Inr pf \<Rightarrow> start_process ss s pf True text [] [] (w\<lparr>wd_starting := i # wd_starting w\<rparr>)))
         in (r, w'\<lparr>wd_starting := removeAll i (wd_starting w')\<rparr>)))"

definition interrupt_session :: "session_service \<Rightarrow> actor \<Rightarrow> id \<Rightarrow> world \<Rightarrow> unit result" where
  "interrupt_session ss a i w =
     (case get_session a i w of Inl e \<Rightarrow> (Inl e, w) | Inr s \<Rightarrow>
      if \<not> live i w then (Inl (ErrConflict ''session has no running process''), w)
      else call_process ss i ProcInterrupt w)"

definition close_session :: "session_service \<Rightarrow> actor \<Rightarrow> id \<Rightarrow> world \<Rightarrow> unit result" where
  "close_session ss a i w =
     (case get_session a i w of Inl e \<Rightarrow> (Inl e, w) | Inr s \<Rightarrow>
      if live i w then call_process ss i ProcClose (w\<lparr>wd_closing := i # removeAll i (wd_closing w)\<rparr>)
      else if se_state s = SessionClosed then (Inr (), w)
      else set_state i SessionClosed w)"

fun shutdown_all :: "session_service \<Rightarrow> id list \<Rightarrow> error option \<Rightarrow> world \<Rightarrow> error option \<times> world" where
  "shutdown_all ss [] err w = (err, w)"
| "shutdown_all ss (i # is) err w =
     (let (r1, w1) = call_process ss i ProcClose w;
          (r2, w2) = set_state i SessionClosed w1;
          keep = (\<lambda>err r. case err of Some e \<Rightarrow> Some e | None \<Rightarrow> (case r of Inl e \<Rightarrow> Some e | Inr _ \<Rightarrow> None))
      in shutdown_all ss is (keep (keep err r1) r2) w2)"

definition shutdown :: "session_service \<Rightarrow> world \<Rightarrow> error option \<times> world" where
  "shutdown ss w =
     (let ids = map fst (wd_procs w)
      in shutdown_all ss ids None (w\<lparr>wd_closing := ids @ wd_closing w\<rparr>))"

section \<open>The pump (runner.go)\<close>

text \<open>The local variables of \<open>pump\<close>: the session as it was when the process started, and the counters.\<close>

record pump =
  pu_session :: session
  pu_turns :: int
  pu_cost :: usd
  pu_tokens_in :: int
  pu_tokens_out :: int

definition new_pump :: "session \<Rightarrow> pump" where
  "new_pump s = \<lparr>pu_session = s, pu_turns = se_num_turns s, pu_cost = se_cost s,
     pu_tokens_in = se_tokens_in s, pu_tokens_out = se_tokens_out s\<rparr>"

definition approval_create_failed_message :: string where
  "approval_create_failed_message = ''styr could not record the approval''"

definition handle_permission :: "session_service \<Rightarrow> session \<Rightarrow> permission_request \<Rightarrow> world \<Rightarrow> world" where
  "handle_permission ss s q w =
     (let (u, w1) = new_uuid (ge_uuid (ss_env ss)) w;
          ap = \<lparr>ap_id = u, ap_session = se_id s, ap_request = pq_request q, ap_tool = pq_tool q,
                ap_input = pq_input q, ap_risk = ss_classify ss (pq_tool q) (pq_input q),
                ap_state = ApprovalPending, ap_created = wd_now w, ap_decided_by = None,
                ap_decided_at = None, ap_snoozed_until = None, ap_updated_input = None,
                ap_message = [], ap_plan = pq_plan q\<rparr>
      in case approvals_create ap w1 of
           (Inl e, w2) \<Rightarrow>
             snd (set_state (se_id s) SessionFailed
               (snd (call_process ss (se_id s) (ProcDecide (pq_request q) False None approval_create_failed_message) w2)))
         | (Inr _, w2) \<Rightarrow>
             publish (ApprovalCreatedMsg (se_id s) ap) (snd (set_state (se_id s) SessionWaiting w2)))"

definition store_init :: "id \<Rightarrow> init_info \<Rightarrow> world \<Rightarrow> world" where
  "store_init i ni w =
     (let w1 = (if ni_model ni = [] then w else snd (sessions_update_model i (ni_model ni) w));
          w2 = (if ni_harness ni = [] then w1 else snd (sessions_update_harness i (ni_harness ni) w1));
          w3 = (if ni_ref ni = [] then w2 else snd (sessions_update_harness_ref i (ni_ref ni) w2))
      in snd (sessions_update_slash_commands i (ni_slash_commands ni) w3))"

definition is_partial :: "harness_event \<Rightarrow> bool" where
  "is_partial ev = (case ev of EventPartial _ \<Rightarrow> True | _ \<Rightarrow> False)"

text \<open>What every event does first: touch the session, append it to the transcript, publish it.\<close>

definition record_event :: "session \<Rightarrow> harness_event \<Rightarrow> world \<Rightarrow> world" where
  "record_event s ev w =
     (let w1 = snd (sessions_touch (se_id s) w);
          (n, w2) = (if is_partial ev then (0, w1)
            else case events_append (se_id s) ev w1 of (Inl e, w') \<Rightarrow> (0, w') | (Inr n, w') \<Rightarrow> (n, w'))
      in publish (SessionEventMsg (se_id s) n ev) w2)"

definition count_result :: "turn_result option \<Rightarrow> pump \<Rightarrow> pump" where
  "count_result res p =
     (case res of None \<Rightarrow> p
      | Some r \<Rightarrow> p\<lparr>pu_turns := pu_turns p + tu_turns r, pu_cost := pu_cost p + tu_cost r,
           pu_tokens_in := pu_tokens_in p + tu_tokens_in r, pu_tokens_out := pu_tokens_out p + tu_tokens_out r\<rparr>)"

definition handle_result :: "session_service \<Rightarrow> pump \<Rightarrow> world \<Rightarrow> world" where
  "handle_result ss p w =
     (let s = pu_session p;
          w1 = snd (sessions_update_stats (se_id s) (pu_turns p) (pu_cost p) (pu_tokens_in p) (pu_tokens_out p) w);
          w2 = snd (sessions_update_now (se_id s) [] w1);
          ((add, del), w3) = after_result ss s (pu_turns p) w2;
          w4 = publish (SessionStatsMsg (se_id s) (pu_turns p) (pu_cost p) (pu_tokens_in p) (pu_tokens_out p) add del) w3
      in snd (set_state (se_id s) SessionOpen w4))"

definition pump_event :: "session_service \<Rightarrow> pump \<Rightarrow> harness_event \<Rightarrow> world \<Rightarrow> pump \<times> world" where
  "pump_event ss p ev w =
     (let s = pu_session p; i = se_id s; w1 = record_event s ev w
      in case ev of
           EventInit (Some ni) \<Rightarrow> (p, store_init i ni w1)
         | EventToolUse tu \<Rightarrow>
             (p, snd (set_state i SessionRunning
               (case tu of None \<Rightarrow> w1 | Some (tool, inp) \<Rightarrow> snd (sessions_update_now i (ss_summary ss tool inp) w1))))
         | EventPermission (Some q) \<Rightarrow> (p, handle_permission ss s q w1)
         | EventResult res \<Rightarrow> (let p' = count_result res p in (p', handle_result ss p' w1))
         | EventExit code \<Rightarrow> (p, handle_exit i code w1)
         | _ \<Rightarrow> (p, w1))"

fun pump_all :: "session_service \<Rightarrow> pump \<Rightarrow> harness_event list \<Rightarrow> world \<Rightarrow> pump \<times> world" where
  "pump_all ss p [] w = (p, w)"
| "pump_all ss p (ev # evs) w = (let (p', w') = pump_event ss p ev w in pump_all ss p' evs w')"

section \<open>Approvals (approvals.go, scheduler.go)\<close>

definition tell_decision ::
  "session_service \<Rightarrow> id \<Rightarrow> id \<Rightarrow> bool \<Rightarrow> string \<Rightarrow> string \<Rightarrow> world \<Rightarrow> unit result" where
  "tell_decision ss sid request allow updated msg w =
     (if live sid w then call_process ss sid (ProcDecide request allow (empty_to_null updated) msg) w
      else (Inr (), w))"

definition decide ::
  "session_service \<Rightarrow> actor \<Rightarrow> id \<Rightarrow> bool \<Rightarrow> string \<Rightarrow> string \<Rightarrow> world \<Rightarrow> unit result" where
  "decide ss a apid allow updated msg w =
     (case approvals_get apid w of Inl e \<Rightarrow> (Inl e, w) | Inr ap \<Rightarrow>
     (case get_session a (ap_session ap) w of Inl e \<Rightarrow> (Inl e, w) | Inr s \<Rightarrow>
      if se_harness s = kind_codex then (Inl (ErrConflict ''this harness has no approvals''), w)
      else
     (case approvals_decide apid (if allow then ApprovalAllowed else ApprovalDenied) (ac_user a) updated msg w of
        (Inl e, w1) \<Rightarrow> (Inl e, w1)
      | (Inr _, w1) \<Rightarrow>
     (case set_state (se_id s) SessionRunning w1 of (Inl e, w2) \<Rightarrow> (Inl e, w2) | (Inr _, w2) \<Rightarrow>
     (case tell_decision ss (se_id s) (ap_request ap) allow updated msg w2 of
        (Inl e, w3) \<Rightarrow> (Inl e, w3)
      | (Inr _, w3) \<Rightarrow>
          (let w4 = audit_append (ac_user a) (if allow then ''approval.allow'' else ''approval.deny'') apid w3
           in (Inr (), case approvals_get apid w4 of
                 Inl e \<Rightarrow> w4 | Inr ap' \<Rightarrow> publish (ApprovalDecidedMsg (se_id s) ap') w4)))))))"

definition pending_approvals :: "actor \<Rightarrow> world \<Rightarrow> approval list" where
  "pending_approvals a w = approvals_list_pending_visible (ac_user a) (ac_admin a) w"

definition snooze :: "actor \<Rightarrow> id \<Rightarrow> time \<Rightarrow> world \<Rightarrow> unit result" where
  "snooze a apid until w =
     (case approvals_get apid w of Inl e \<Rightarrow> (Inl e, w) | Inr ap \<Rightarrow>
     (case get_session a (ap_session ap) w of Inl e \<Rightarrow> (Inl e, w) | Inr s \<Rightarrow> approvals_snooze apid until w))"

definition timeout_message :: string where
  "timeout_message = ''timed out waiting for a human''"

definition expire_one :: "session_service \<Rightarrow> world \<Rightarrow> approval \<Rightarrow> world" where
  "expire_one ss w ap =
     (case sessions_get (ap_session ap) w of Inl e \<Rightarrow> w | Inr s \<Rightarrow>
     (case profiles_get (se_profile s) w of Inl e \<Rightarrow> w | Inr pf \<Rightarrow>
      if \<not> pf_unattended pf then w
      else if wd_now w - ap_created ap < pf_approval_timeout pf then w
      else
     (case approvals_decide (ap_id ap) ApprovalExpired ''system'' [] timeout_message w of
        (Inl e, w1) \<Rightarrow> w1
      | (Inr _, w1) \<Rightarrow>
          (let w2 = audit_append ''system'' ''approval.expire'' (ap_id ap) w1
           in if \<not> live (se_id s) w2 then snd (set_state (se_id s) SessionOpen w2)
              else (let w3 = snd (set_state (se_id s) SessionRunning w2)
                    in case call_process ss (se_id s) (ProcDecide (ap_request ap) False None timeout_message) w3 of
                         (Inl e, w4) \<Rightarrow> snd (set_state (se_id s) SessionFailed w4)
                       | (Inr _, w4) \<Rightarrow> w4)))))"

definition expire_approvals :: "session_service \<Rightarrow> world \<Rightarrow> world" where
  "expire_approvals ss w = foldl (expire_one ss) w (approvals_list_pending_visible [] True w)"

definition reap_idle :: "session_service \<Rightarrow> world \<Rightarrow> world" where
  "reap_idle ss w =
     (let cutoff = wd_now w - ss_idle_timeout ss
      in foldl (\<lambda>v s. if se_state s \<noteq> SessionOpen \<or> cutoff < se_last_active s then v else close_tracked ss (se_id s) v)
           w (sessions_list_visible [] True w))"

definition run_maintenance :: "session_service \<Rightarrow> world \<Rightarrow> world" where
  "run_maintenance ss w = expire_approvals ss (reap_idle ss w)"

section \<open>Switching the model (model.go)\<close>

text \<open>
  \<open>closeLiveProcess\<close> closes the process and waits for its pump to unregister it; \<open>ss_freed\<close> says
  whether it exits before the deadline.
\<close>

definition close_live_process :: "session_service \<Rightarrow> id \<Rightarrow> world \<Rightarrow> unit result" where
  "close_live_process ss i w =
     (if \<not> live i w then (Inr (), w)
      else case call_process ss i ProcClose (w\<lparr>wd_closing := i # removeAll i (wd_closing w)\<rparr>) of
        (Inl e, w1) \<Rightarrow> (Inl e, w1)
      | (Inr _, w1) \<Rightarrow>
          (case ss_freed ss w1 of
             Some (s, code) \<Rightarrow>
               (if se_id s = i then (Inr (), handle_exit i code w1)
                else (Inl (ErrConflict ''timed out closing the session's process''), w1))
           | None \<Rightarrow> (Inl (ErrConflict ''timed out closing the session's process''), w1)))"

definition switch_model :: "session_service \<Rightarrow> actor \<Rightarrow> id \<Rightarrow> string \<Rightarrow> string \<Rightarrow> world \<Rightarrow> unit result" where
  "switch_model ss a i model effort w =
     (case get_session a i w of Inl e \<Rightarrow> (Inl e, w) | Inr s \<Rightarrow>
      if \<not> valid_effort effort then (Inl (ErrInvalid ''effort is not allowed''), w)
      else if se_state s = SessionWaiting
      then (Inl (ErrConflict ''answer the pending approval before switching model''), w)
      else
     (case workspaces_get (se_workspace s) w of Inl e \<Rightarrow> (Inl e, w) | Inr ws \<Rightarrow>
     (case profiles_get (se_profile s) w of Inl e \<Rightarrow> (Inl e, w) | Inr pf \<Rightarrow>
     (case close_live_process ss i w of (Inl e, w1) \<Rightarrow> (Inl e, w1) | (Inr _, w1) \<Rightarrow>
     (case sessions_update_model i model w1 of (Inl e, w2) \<Rightarrow> (Inl e, w2) | (Inr _, w2) \<Rightarrow>
     (case sessions_update_effort i effort w2 of (Inl e, w3) \<Rightarrow> (Inl e, w3) | (Inr _, w3) \<Rightarrow>
     (case start_process ss (s\<lparr>se_model := model, se_effort := effort\<rparr>) pf True [] [] [] w3 of
        (Inl e, w4) \<Rightarrow> (Inl e, snd (set_state i SessionFailed w4))
      | (Inr _, w4) \<Rightarrow> (Inr (), w4))))))))"

end
