(* ===== verification/Runs.thy ===== *)
theory Runs
  imports Sessions
begin

text \<open>
  The unattended run engine: \<open>internal/runs/runs.go\<close>, \<open>loop.go\<close>, \<open>loops.go\<close> and \<open>view.go\<close>. It starts a
  session for a rendered template, closes the run out when the session reports a result, fails or
  times out, and drives until-done loops. The once-sets \<open>notified\<close> and \<open>completed\<close> and the loop
  variables are \<open>wd_notified\<close>, \<open>wd_completed\<close> and \<open>wd_loop_vars\<close>.
\<close>

section \<open>The engine\<close>

record engine =
  en_env :: go_env
  en_sessions :: session_service
  en_timeout :: duration
  en_has_loops :: bool
  en_has_events :: bool
  en_has_bus :: bool
  en_has_notifier :: bool
  en_base_url :: string
  en_show_duration :: "duration \<Rightarrow> string"
  en_compact :: "string \<Rightarrow> string option"

definition EventFinished :: string where "EventFinished = ''run.finished''"
definition EventNeedsHuman :: string where "EventNeedsHuman = ''run.needs_human''"
definition EventFailed :: string where "EventFailed = ''run.failed''"
definition summary_limit :: nat where "summary_limit = 200"
definition title_limit :: nat where "title_limit = 200"
definition default_timeout :: duration where "default_timeout = 30 * minute"
definition reconcile_events :: nat where "reconcile_events = 500"
definition default_loop_max :: int where "default_loop_max = 5"
definition report_preview_limit :: nat where "report_preview_limit = 4000"

text \<open>\<open>New\<close> replaces a non-positive timeout.\<close>

definition engine_timeout :: "engine \<Rightarrow> duration" where
  "engine_timeout en = (if en_timeout en \<le> 0 then default_timeout else en_timeout en)"

fun run_outcome_text :: "run_outcome \<Rightarrow> string" where
  "run_outcome_text RunRunning = ''running''"
| "run_outcome_text RunSuccess = ''success''"
| "run_outcome_text RunFailed = ''failed''"
| "run_outcome_text RunTimeout = ''timeout''"
| "run_outcome_text RunNeedsHuman = ''needs_human''"

definition truncate_runes :: "string \<Rightarrow> nat \<Rightarrow> string" where
  "truncate_runes s n = (if rune_count s \<le> n then s else take_runes n s)"

definition render_title :: "engine \<Rightarrow> tmpl \<Rightarrow> vars \<Rightarrow> string" where
  "render_title en tpl vars =
     (let title = (if tp_title tpl = [] then []
        else case ge_render (en_env en) (tp_title tpl) vars of Inl e \<Rightarrow> [] | Inr s \<Rightarrow> trim_space s)
      in truncate_runes (if title = [] then tp_name tpl else title) title_limit)"

section \<open>Notifications (loop.go)\<close>

definition priority_for :: "string \<Rightarrow> nat" where
  "priority_for kind = (if kind = EventNeedsHuman \<or> kind = EventFailed then 4 else 3)"

definition tags_for :: "string \<Rightarrow> string list" where
  "tags_for kind =
     (if kind = EventNeedsHuman then [''raised_hand'', ''styr'']
      else if kind = EventFailed then [''rotating_light'', ''styr'']
      else [''white_check_mark'', ''styr''])"

definition run_title :: "id \<Rightarrow> world \<Rightarrow> string" where
  "run_title rid w =
     (case runs_get rid w of Inl e \<Rightarrow> rid | Inr r \<Rightarrow>
     (case sessions_get (rn_session r) w of
        Inl e \<Rightarrow> rid | Inr s \<Rightarrow> if se_title s = [] then rid else se_title s))"

definition notify :: "engine \<Rightarrow> string \<Rightarrow> id \<Rightarrow> string \<Rightarrow> string \<Rightarrow> world \<Rightarrow> world" where
  "notify en kind rid outcome body w =
     (if \<not> en_has_notifier en then w
      else w\<lparr>wd_notices := wd_notices w @
        [\<lparr>nc_kind = kind, nc_title = outcome @ '': '' @ run_title rid w, nc_body = body,
          nc_url = en_base_url en @ ''/runs/'' @ rid, nc_priority = priority_for kind,
          nc_tags = tags_for kind\<rparr>]\<rparr>)"

section \<open>Reports and summaries (loop.go, loops.go)\<close>

definition is_json_null :: "string \<Rightarrow> bool" where
  "is_json_null raw \<longleftrightarrow> trim_space raw = ''null''"

definition report_of :: "engine \<Rightarrow> turn_result \<Rightarrow> string" where
  "report_of en res =
     (if tu_structured res \<noteq> [] \<and> \<not> is_json_null (tu_structured res) then tu_structured res
      else case ge_marshal (en_env en) (JObj [(''result'', JStr (tu_text res))]) of
        Some s \<Rightarrow> s | None \<Rightarrow> ''{}'')"

text \<open>
  Decoding into \<open>struct { Diagnosis string }\<close>: keys match without case, null leaves the field as it
  is, any other type than a string is an error.
\<close>

fun diagnosis_field :: "string \<Rightarrow> vars \<Rightarrow> string option" where
  "diagnosis_field d [] = Some d"
| "diagnosis_field d ((k, v) # kvs) =
     (if to_lower k = ''diagnosis''
      then (case v of JStr s \<Rightarrow> diagnosis_field s kvs | JNull \<Rightarrow> diagnosis_field d kvs | _ \<Rightarrow> None)
      else diagnosis_field d kvs)"

definition summary_of :: "engine \<Rightarrow> string \<Rightarrow> string \<Rightarrow> string" where
  "summary_of en report text =
     (case Option.bind (unmarshal_object (en_env en) report) (diagnosis_field []) of
        Some d \<Rightarrow> if trim_space d \<noteq> [] then truncate_runes (trim_space d) summary_limit
                  else truncate_runes (trim_space text) summary_limit
      | None \<Rightarrow> truncate_runes (trim_space text) summary_limit)"

definition session_cost :: "id \<Rightarrow> usd \<Rightarrow> world \<Rightarrow> usd" where
  "session_cost sid event_cost w =
     (case sessions_get sid w of
        Inl e \<Rightarrow> event_cost | Inr s \<Rightarrow> if event_cost < se_cost s then se_cost s else event_cost)"

text \<open>\<open>truthy\<close>: false are null, false, 0, the empty list and map, and the negative words.\<close>

fun truthy :: "json \<Rightarrow> bool" where
  "truthy JNull = False"
| "truthy (JBool b) = b"
| "truthy (JNum n) = (n \<noteq> 0)"
| "truthy (JStr s) = (to_lower (trim_space s) \<notin> {[], ''no'', ''n'', ''false'', ''0'', ''off''})"
| "truthy (JArr xs) = (xs \<noteq> [])"
| "truthy (JObj kvs) = (kvs \<noteq> [])"

definition loop_done :: "engine \<Rightarrow> string \<Rightarrow> string \<Rightarrow> bool" where
  "loop_done en report field =
     (let f = (if field = [] then default_loop_until_field else field)
      in case unmarshal_object (en_env en) report of
           None \<Rightarrow> False
         | Some kvs \<Rightarrow> (case var_get kvs f of None \<Rightarrow> False | Some v \<Rightarrow> truthy v))"

definition previous_report :: "engine \<Rightarrow> string \<Rightarrow> json" where
  "previous_report en report = (case ge_unmarshal (en_env en) report of Some v \<Rightarrow> v | None \<Rightarrow> JStr report)"

definition compact_json :: "engine \<Rightarrow> string \<Rightarrow> string" where
  "compact_json en report =
     (if report = [] then ''{}'' else case en_compact en report of Some s \<Rightarrow> s | None \<Rightarrow> report)"

section \<open>Loops (loops.go)\<close>

definition vars_of_loop :: "id \<Rightarrow> world \<Rightarrow> vars" where
  "vars_of_loop l w = (case map_of (wd_loop_vars w) l of Some vs \<Rightarrow> vs | None \<Rightarrow> [])"

definition remember_vars :: "id \<Rightarrow> vars \<Rightarrow> world \<Rightarrow> world" where
  "remember_vars l vs w = w\<lparr>wd_loop_vars := AList.update l vs (wd_loop_vars w)\<rparr>"

definition forget_vars :: "id \<Rightarrow> world \<Rightarrow> world" where
  "forget_vars l w = w\<lparr>wd_loop_vars := filter (\<lambda>(k, _). k \<noteq> l) (wd_loop_vars w)\<rparr>"

definition start_loop ::
  "engine \<Rightarrow> tmpl \<Rightarrow> run_input \<Rightarrow> id \<Rightarrow> string \<Rightarrow> world \<Rightarrow> (id \<times> nat) result" where
  "start_loop en tpl inp sid origin w =
     (if tp_loop_until tpl = [] \<or> \<not> en_has_loops en then (Inr ([], 0), w)
      else
        (let (u, w1) = new_uuid (ge_uuid (en_env en)) w
         in case loops_create
                \<lparr>lp_id = u, lp_template = tp_id tpl, lp_session = Some sid, lp_origin = origin,
                 lp_origin_ref = ri_trigger inp, lp_until = tp_loop_until tpl,
                 lp_max = (if tp_loop_max tpl < 1 then default_loop_max else tp_loop_max tpl),
                 lp_iteration = 1, lp_state = LoopRunning, lp_created = wd_now w, lp_updated = wd_now w\<rparr> w1 of
              (Inl e, w2) \<Rightarrow> (Inl e, w2)
            | (Inr _, w2) \<Rightarrow> (Inr (u, 1), remember_vars u (ri_vars inp) w2)))"

text \<open>\<open>endLoop\<close> works on the loop row the caller loaded, which may be older than the table's.\<close>

definition end_loop :: "loop \<Rightarrow> nat \<Rightarrow> loop_state \<Rightarrow> world \<Rightarrow> world" where
  "end_loop l iteration st w =
     (case loops_update (lp_id l) st (max iteration (lp_iteration l)) None w of
        (Inl e, w') \<Rightarrow> w'
      | (Inr _, w') \<Rightarrow> forget_vars (lp_id l) w')"

text \<open>
  \<open>advance\<close>, over the function that starts the next iteration: \<open>finish\<close>, \<open>advance\<close> and
  \<open>nextIteration\<close> call each other, but the \<open>finish\<close> inside \<open>nextIteration\<close> is always with a failed
  outcome, whose \<open>advance\<close> never starts an iteration.
\<close>

definition advance_with ::
  "engine \<Rightarrow> (loop \<Rightarrow> run \<Rightarrow> string \<Rightarrow> world \<Rightarrow> error option \<times> world) \<Rightarrow>
   run \<Rightarrow> run_outcome \<Rightarrow> string \<Rightarrow> world \<Rightarrow> world" where
  "advance_with en next run outcome report w =
     (if rn_loop run = [] \<or> \<not> en_has_loops en then w
      else case loops_get (rn_loop run) w of
        Inl e \<Rightarrow> w
      | Inr l \<Rightarrow>
          (if lp_state l \<noteq> LoopRunning then w
           else if outcome \<noteq> RunSuccess then end_loop l (rn_iteration run) LoopFailed w
           else if loop_done en report (lp_until l) then end_loop l (rn_iteration run) LoopDone w
           else if lp_max l \<le> int (rn_iteration run) then end_loop l (rn_iteration run) LoopExhausted w
           else case next l run report w of
             (None, w') \<Rightarrow> w'
           | (Some e, w') \<Rightarrow> end_loop l (rn_iteration run) LoopFailed w'))"

definition publish_finished :: "engine \<Rightarrow> run \<Rightarrow> run_outcome \<Rightarrow> world \<Rightarrow> world" where
  "publish_finished en run outcome w =
     (if en_has_bus en then publish (RunEndedMsg (rn_id run) (rn_step_run run) outcome (rn_session run)) w else w)"

definition finish_with ::
  "engine \<Rightarrow> (loop \<Rightarrow> run \<Rightarrow> string \<Rightarrow> world \<Rightarrow> error option \<times> world) \<Rightarrow>
   run \<Rightarrow> run_outcome \<Rightarrow> string \<Rightarrow> string \<Rightarrow> usd \<Rightarrow> world \<Rightarrow> bool \<times> world" where
  "finish_with en next run outcome report summary cost w =
     (if rn_id run \<in> set (wd_completed w) then (False, w)
      else
        (let w1 = w\<lparr>wd_completed := rn_id run # wd_completed w\<rparr>;
             report' = (if report = [] then ''{}'' else report)
         in case runs_finish (rn_id run) outcome report' summary cost w1 of
              (Inl e, w2) \<Rightarrow> (False, w2)
            | (Inr _, w2) \<Rightarrow>
                (let w3 = w2\<lparr>wd_notified := removeAll (rn_id run) (wd_notified w2)\<rparr>
                 in (True, advance_with en next run outcome report' (publish_finished en run outcome w3)))))"

definition no_iteration :: "loop \<Rightarrow> run \<Rightarrow> string \<Rightarrow> world \<Rightarrow> error option \<times> world" where
  "no_iteration l run report w = (None, w)"

definition iteration_text :: "engine \<Rightarrow> nat \<Rightarrow> int \<Rightarrow> string \<Rightarrow> string \<Rightarrow> string" where
  "iteration_text en n m report prompt =
     ''Iteration '' @ show_nat n @ '' of '' @ show_int m @ ''. Previous report: '' @
     truncate_runes (compact_json en report) report_preview_limit @ [CHR 0x0A, CHR 0x0A] @ trim_space prompt"

definition loop_vars :: "engine \<Rightarrow> loop \<Rightarrow> nat \<Rightarrow> string \<Rightarrow> world \<Rightarrow> vars" where
  "loop_vars en l n report w =
     var_set ''loop'' (JObj [(''iteration'', JNum (rat_of_nat n)), (''max'', JNum (rat_of_int (lp_max l))),
       (''previous_report'', previous_report en report)]) (vars_of_loop (lp_id l) w)"

definition iteration_run :: "id \<Rightarrow> id \<Rightarrow> tmpl \<Rightarrow> run \<Rightarrow> loop \<Rightarrow> time \<Rightarrow> run" where
  "iteration_run u sid tpl prev l now =
     \<lparr>rn_id = u, rn_session = sid, rn_template = Some (tp_id tpl), rn_trigger = rn_trigger prev,
      rn_delivery = rn_delivery prev, rn_origin = lp_origin l, rn_step_run = None, rn_loop = lp_id l,
      rn_iteration = Suc (rn_iteration prev), rn_started = now, rn_finished = None,
      rn_outcome = RunRunning, rn_report = ''{}'', rn_summary = [], rn_cost = 0\<rparr>"

definition next_iteration :: "engine \<Rightarrow> loop \<Rightarrow> run \<Rightarrow> string \<Rightarrow> world \<Rightarrow> error option \<times> world" where
  "next_iteration en l prev report w =
     (case lp_session l of None \<Rightarrow> (Some (ErrConflict ''loop has no session''), w) | Some sid \<Rightarrow>
     (case templates_get (lp_template l) w of Inl e \<Rightarrow> (Some e, w) | Inr tpl \<Rightarrow>
     (let n = Suc (rn_iteration prev) in
      case ge_render (en_env en) (tp_prompt tpl) (loop_vars en l n report w) of
        Inl e \<Rightarrow> (Some (ErrOther e), w)
      | Inr prompt \<Rightarrow>
          (let (u, w1) = new_uuid (ge_uuid (en_env en)) w;
               run = iteration_run u sid tpl prev l (wd_now w)
           in case runs_create run w1 of
                (Inl e, w2) \<Rightarrow> (Some e, w2)
              | (Inr _, w2) \<Rightarrow>
                  (case loops_update (lp_id l) LoopRunning n None w2 of
                     (Inl e, w3) \<Rightarrow> (Some e, w3)
                   | (Inr _, w3) \<Rightarrow>
                       (case send_session (en_sessions en) service_actor sid
                               (iteration_text en n (lp_max l) report prompt) w3 of
                          (Inl e, w4) \<Rightarrow>
                            (Some e, snd (finish_with en no_iteration run RunFailed []
                               ''the next loop iteration could not be sent'' 0 w4))
                        | (Inr _, w4) \<Rightarrow> (None, w4)))))))"

section \<open>Closing a run out (loop.go)\<close>

definition finish ::
  "engine \<Rightarrow> run \<Rightarrow> run_outcome \<Rightarrow> string \<Rightarrow> string \<Rightarrow> usd \<Rightarrow> world \<Rightarrow> bool \<times> world" where
  "finish en = finish_with en (next_iteration en)"

definition complete_from_result :: "engine \<Rightarrow> run \<Rightarrow> turn_result \<Rightarrow> world \<Rightarrow> world" where
  "complete_from_result en run res w =
     (let report = report_of en res;
          text = summary_of en report (tu_text res);
          cost = session_cost (rn_session run) (tu_cost res) w;
          outcome = (if tu_is_error res then RunFailed else RunSuccess);
          kind = (if tu_is_error res then EventFailed else EventFinished);
          summary = (if tu_is_error res \<and> text = [] then ''the session reported an error'' else text);
          (won, w') = finish en run outcome report summary cost w
      in if won then notify en kind (rn_id run) (run_outcome_text outcome) summary w' else w')"

definition fail_run :: "engine \<Rightarrow> run \<Rightarrow> world \<Rightarrow> world" where
  "fail_run en run w =
     (let (won, w') = finish en run RunFailed [] ''the session failed'' (session_cost (rn_session run) 0 w) w
      in if won then notify en EventFailed (rn_id run) (run_outcome_text RunFailed) ''the session failed'' w' else w')"

definition result_of :: "event_row \<Rightarrow> turn_result option" where
  "result_of row = (case ev_payload row of EventResult r \<Rightarrow> r | _ \<Rightarrow> None)"

definition reconcile_run :: "engine \<Rightarrow> run \<Rightarrow> world \<Rightarrow> world" where
  "reconcile_run en run w =
     (if \<not> en_has_events en then w
      else case List.map_filter result_of (events_list_after (rn_session run) 0 reconcile_events w) of
        res # _ \<Rightarrow> complete_from_result en run res w
      | [] \<Rightarrow>
          (case sessions_get (rn_session run) w of
             Inl e \<Rightarrow> w
           | Inr s \<Rightarrow> if se_state s = SessionFailed then fail_run en run w else w))"

section \<open>Start (runs.go)\<close>

definition close_orphan :: "engine \<Rightarrow> id \<Rightarrow> world \<Rightarrow> world" where
  "close_orphan en sid w = snd (close_session (en_sessions en) service_actor sid w)"

definition run_create_input :: "tmpl \<Rightarrow> string \<Rightarrow> string \<Rightarrow> string \<Rightarrow> id \<Rightarrow> string \<Rightarrow> create_input" where
  "run_create_input tpl title prompt origin rid worktree =
     \<lparr>ci_workspace = tp_workspace tpl, ci_profile = tp_profile tpl, ci_title = title, ci_prompt = prompt,
      ci_origin = origin, ci_origin_ref = [], ci_owner = None, ci_model = [], ci_effort = [], ci_harness = [],
      ci_json_schema = tp_report_schema tpl, ci_system_prompt = tp_system_prompt tpl, ci_run = rid,
      ci_worktree = worktree\<rparr>"

definition first_run :: "id \<Rightarrow> id \<Rightarrow> tmpl \<Rightarrow> run_input \<Rightarrow> string \<Rightarrow> id \<Rightarrow> nat \<Rightarrow> time \<Rightarrow> run" where
  "first_run rid sid tpl inp origin lid iteration now =
     \<lparr>rn_id = rid, rn_session = sid, rn_template = Some (tp_id tpl),
      rn_trigger = empty_to_null (ri_trigger inp), rn_delivery = empty_to_null (ri_delivery inp),
      rn_origin = origin, rn_step_run = empty_to_null (ri_step_run inp), rn_loop = lid,
      rn_iteration = iteration, rn_started = now, rn_finished = None, rn_outcome = RunRunning,
      rn_report = ''{}'', rn_summary = [], rn_cost = 0\<rparr>"

lemma new_run_ids [simp]:
  "rn_id (iteration_run u sid tpl prev l now) = u" "rn_id (first_run rid sid tpl inp origin lid it now) = rid"
  by (simp_all add: iteration_run_def first_run_def)

definition start_run :: "engine \<Rightarrow> run_input \<Rightarrow> world \<Rightarrow> run result" where
  "start_run en inp w =
     (case templates_get (ri_template inp) w of Inl e \<Rightarrow> (Inl e, w) | Inr tpl \<Rightarrow>
     (case ge_render (en_env en) (tp_prompt tpl) (ri_vars inp) of Inl e \<Rightarrow> (Inl (ErrOther e), w) | Inr prompt \<Rightarrow>
      if trim_space prompt = [] then (Inl (ErrInvalid ''template rendered an empty prompt''), w)
      else
     (let title = render_title en tpl (ri_vars inp);
          origin = (if ri_origin inp = [] then OriginWebhook else ri_origin inp);
          (rid, w1) = new_uuid (ge_uuid (en_env en)) w
      in case create_session (en_sessions en) service_actor
             (run_create_input tpl title prompt origin rid (ri_worktree inp)) w1 of
           (Inl e, w2) \<Rightarrow> (Inl e, w2)
         | (Inr s, w2) \<Rightarrow>
     (case start_loop en tpl inp (se_id s) origin w2 of
        (Inl e, w3) \<Rightarrow> (Inl e, close_orphan en (se_id s) w3)
      | (Inr (lid, iteration), w3) \<Rightarrow>
     (let run = first_run rid (se_id s) tpl inp origin lid iteration (wd_now w)
      in case runs_create run w3 of
           (Inl e, w4) \<Rightarrow>
             (let w5 = close_orphan en (se_id s) w4
              in (Inl e, if lid = [] then w5
                   else forget_vars lid (snd (loops_update lid LoopFailed iteration None w5))))
         | (Inr _, w4) \<Rightarrow> (Inr run, reconcile_run en run w4))))))"

definition start_manual :: "engine \<Rightarrow> id \<Rightarrow> vars \<Rightarrow> world \<Rightarrow> run result" where
  "start_manual en template vars w =
     start_run en \<lparr>ri_template = template, ri_trigger = [], ri_delivery = [], ri_vars = vars,
       ri_origin = OriginUI, ri_step_run = [], ri_worktree = []\<rparr> w"

section \<open>The bus handler and the sweep (loop.go)\<close>

definition running_run_of :: "id \<Rightarrow> world \<Rightarrow> run option" where
  "running_run_of sid w =
     (if sid = [] then None
      else case runs_get_by_session sid w of
        Inl e \<Rightarrow> None | Inr r \<Rightarrow> if rn_outcome r \<noteq> RunRunning then None else Some r)"

definition handle_approval_created :: "engine \<Rightarrow> id \<Rightarrow> world \<Rightarrow> world" where
  "handle_approval_created en sid w =
     (case running_run_of sid w of
        None \<Rightarrow> w
      | Some run \<Rightarrow>
          (if rn_id run \<in> set (wd_notified w) then w
           else notify en EventNeedsHuman (rn_id run) ''needs human''
                  ''an unattended run is waiting for an approval''
                  (w\<lparr>wd_notified := rn_id run # wd_notified w\<rparr>)))"

definition handle_message :: "engine \<Rightarrow> message \<Rightarrow> world \<Rightarrow> world" where
  "handle_message en msg w =
     (case msg of
        SessionEventMsg sid n (EventResult (Some res)) \<Rightarrow>
          (case running_run_of sid w of None \<Rightarrow> w | Some run \<Rightarrow> complete_from_result en run res w)
      | SessionStateMsg sid SessionFailed \<Rightarrow>
          (case running_run_of sid w of None \<Rightarrow> w | Some run \<Rightarrow> fail_run en run w)
      | ApprovalCreatedMsg sid ap \<Rightarrow> handle_approval_created en sid w
      | _ \<Rightarrow> w)"

definition time_out_run :: "engine \<Rightarrow> world \<Rightarrow> run \<Rightarrow> world" where
  "time_out_run en w run =
     (let summary = ''timed out after '' @ en_show_duration en (engine_timeout en);
          (won, w1) = finish en run RunTimeout [] summary (session_cost (rn_session run) 0 w) w
      in if \<not> won then w1
         else (let w2 = snd (interrupt_session (en_sessions en) service_actor (rn_session run) w1);
                   w3 = snd (close_session (en_sessions en) service_actor (rn_session run) w2)
               in notify en EventFailed (rn_id run) (run_outcome_text RunTimeout) summary w3))"

definition tick_runs :: "engine \<Rightarrow> time \<Rightarrow> world \<Rightarrow> world" where
  "tick_runs en now w = foldl (time_out_run en) w (runs_running_older_than (now - engine_timeout en) w)"

section \<open>Loops as seen by an operator (loops.go)\<close>

record loop_view =
  lv_loop :: loop
  lv_runs :: "run list"
  lv_template :: "tmpl option"

definition get_loop :: "engine \<Rightarrow> id \<Rightarrow> world \<Rightarrow> error + loop_view" where
  "get_loop en i w =
     (if \<not> en_has_loops en then Inl ErrNotFound
      else case loops_get i w of
        Inl e \<Rightarrow> Inl e
      | Inr l \<Rightarrow> Inr \<lparr>lv_loop = l, lv_runs = runs_list_by_loop i w,
          lv_template = (case templates_get (lp_template l) w of Inl e \<Rightarrow> None | Inr t \<Rightarrow> Some t)\<rparr>)"

definition list_loops :: "engine \<Rightarrow> loop_state option \<Rightarrow> int \<Rightarrow> world \<Rightarrow> loop list" where
  "list_loops en st limit w = (if en_has_loops en then loops_list st limit w else [])"

definition stop_loop :: "engine \<Rightarrow> id \<Rightarrow> world \<Rightarrow> unit result" where
  "stop_loop en i w =
     (if \<not> en_has_loops en then (Inl ErrNotFound, w)
      else case loops_get i w of
        Inl e \<Rightarrow> (Inl e, w)
      | Inr l \<Rightarrow>
          (if lp_state l \<noteq> LoopRunning then (Inl (ErrConflict ''loop is not running''), w)
           else case loops_update i LoopStopped (lp_iteration l) None w of
             (Inl e, w1) \<Rightarrow> (Inl e, w1)
           | (Inr _, w1) \<Rightarrow>
               (let w2 = forget_vars i w1
                in (Inr (), case lp_session l of None \<Rightarrow> w2 | Some sid \<Rightarrow> close_orphan en sid w2))))"

section \<open>Views (view.go)\<close>

record run_details =
  rv_run :: run
  rv_session :: "session option"
  rv_delivery :: "delivery option"
  rv_template :: "tmpl option"
  rv_loop :: "loop option"
  rv_step :: "step_run option"
  rv_pipeline :: "pipeline option"

definition row_of :: "error + 'a \<Rightarrow> 'a option" where
  "row_of r = (case r of Inl e \<Rightarrow> None | Inr x \<Rightarrow> Some x)"

definition run_details :: "engine \<Rightarrow> run \<Rightarrow> world \<Rightarrow> run_details" where
  "run_details en r w =
     (let step = Option.bind (rn_step_run r) (\<lambda>i. row_of (step_runs_get i w))
      in \<lparr>rv_run = r, rv_session = row_of (sessions_get (rn_session r) w),
          rv_delivery = Option.bind (rn_delivery r) (\<lambda>i. row_of (deliveries_get i w)),
          rv_template = Option.bind (rn_template r) (\<lambda>i. row_of (templates_get i w)),
          rv_loop = (if rn_loop r = [] \<or> \<not> en_has_loops en then None else row_of (loops_get (rn_loop r) w)),
          rv_step = step,
          rv_pipeline = Option.bind step (\<lambda>s. Option.bind (row_of (pipeline_runs_get (sr_pipeline_run s) w))
            (\<lambda>pr. row_of (pipelines_get (pr_pipeline pr) w)))\<rparr>)"

definition get_run_details :: "engine \<Rightarrow> id \<Rightarrow> world \<Rightarrow> error + run_details" where
  "get_run_details en i w = (case runs_get i w of Inl e \<Rightarrow> Inl e | Inr r \<Rightarrow> Inr (run_details en r w))"

definition list_run_details :: "engine \<Rightarrow> run_filter \<Rightarrow> world \<Rightarrow> run_details list" where
  "list_run_details en f w = map (\<lambda>r. run_details en r w) (runs_list f w)"

end
