(* ===== verification/Session_Frame.thy ===== *)
theory Session_Frame
  imports Runs
begin

text \<open>
  What the sessions service leaves alone: every operation writes only the session tables (sessions,
  approvals, transcript, checkpoints, audit), its own in-memory state and the bus. This is the
  contract the pipeline executor and the run engine rely on.
\<close>

definition session_frame :: "world \<Rightarrow> world \<Rightarrow> bool" where
  "session_frame w w' \<longleftrightarrow>
     keeps_pipelines w w' \<and> keeps_config w w' \<and> wd_now w' = wd_now w \<and> wd_runs w' = wd_runs w \<and>
     wd_loops w' = wd_loops w \<and> wd_profiles w' = wd_profiles w \<and> wd_completed w' = wd_completed w \<and>
     wd_notified w' = wd_notified w \<and> wd_loop_vars w' = wd_loop_vars w \<and> wd_notices w' = wd_notices w \<and>
     wd_uuids w \<le> wd_uuids w'"

lemmas session_frame_defs = session_frame_def keeps_pipelines_def keeps_config_def

lemma session_frame_refl [simp]: "session_frame w w"
  by (simp add: session_frame_def)

lemma session_frame_trans: "session_frame a b \<Longrightarrow> session_frame b c \<Longrightarrow> session_frame a c"
  by (simp add: session_frame_defs)

text \<open>The rule an operation's frame lemma is used with: the operation ran on some world framed so far.\<close>

lemma frame_step: "session_frame v (snd (f v)) \<Longrightarrow> f v = (r, v') \<Longrightarrow> session_frame w v \<Longrightarrow> session_frame w v'"
  using session_frame_trans by fastforce

named_theorems framed \<open>operations that write only session state\<close>

section \<open>Writes of one field\<close>

lemma frame_fields [framed]:
  "session_frame w (w\<lparr>wd_sessions := a\<rparr>)" "session_frame w (w\<lparr>wd_approvals := b\<rparr>)"
  "session_frame w (w\<lparr>wd_events := c\<rparr>)" "session_frame w (w\<lparr>wd_calls := d\<rparr>)"
  "session_frame w (w\<lparr>wd_closing := e\<rparr>)" "session_frame w (w\<lparr>wd_starting := e\<rparr>)"
  "session_frame w (w\<lparr>wd_slots := n\<rparr>)" "session_frame w (w\<lparr>wd_checkpoints := g\<rparr>)"
  "session_frame w (w\<lparr>wd_audit := h\<rparr>)" "session_frame w (w\<lparr>wd_bus := i\<rparr>)"
  "session_frame w (w\<lparr>wd_procs := p, wd_closing := e\<rparr>)" "session_frame w (publish m w)"
  "wd_uuids w \<le> k \<Longrightarrow> session_frame w (w\<lparr>wd_uuids := k\<rparr>)"
  by (simp_all add: session_frame_defs publish_def)

lemma frame_exec1 [framed]: "session_frame w (snd (sessions_exec1 i f w))"
  by (simp add: sessions_exec1_def frame_fields)

lemmas session_updates =
  sessions_update_state_def sessions_update_stats_def sessions_update_now_def sessions_update_harness_def
  sessions_update_harness_ref_def sessions_update_model_def sessions_update_effort_def
  sessions_set_worktree_def sessions_set_worktree_shared_def sessions_update_diff_stats_def
  sessions_update_slash_commands_def sessions_touch_def

lemma frame_updates [framed]:
  "session_frame w (snd (sessions_update_state i st w))"
  "session_frame w (snd (sessions_update_stats i a b c d w))"
  "session_frame w (snd (sessions_update_now i s w))"
  "session_frame w (snd (sessions_update_harness i s w))"
  "session_frame w (snd (sessions_update_harness_ref i s w))"
  "session_frame w (snd (sessions_update_model i s w))"
  "session_frame w (snd (sessions_update_effort i s w))"
  "session_frame w (snd (sessions_set_worktree i s t u w))"
  "session_frame w (snd (sessions_set_worktree_shared i x w))"
  "session_frame w (snd (sessions_update_diff_stats i n m w))"
  "session_frame w (snd (sessions_update_slash_commands i cs w))"
  "session_frame w (snd (sessions_touch i w))"
  by (simp_all add: session_updates frame_exec1)

lemma frame_repos [framed]:
  "session_frame w (snd (sessions_create s w))"
  "session_frame w (snd (approvals_create a w))"
  "session_frame w (snd (approvals_decide i st u x m w))"
  "session_frame w (snd (events_append i ev w))"
  "session_frame w (snd (checkpoints_create c w))"
  "session_frame w (audit_append who act tgt w)"
  "session_frame w (snd (new_uuid f w))"
  by (simp_all add: sessions_create_def approvals_create_def approvals_decide_def events_append_def
      checkpoints_create_def audit_append_def new_uuid_def Let_def frame_fields split: sum.split)

section \<open>Operations\<close>

lemma frame_small [framed]:
  "session_frame w (snd (set_state i st w))"
  "session_frame w (snd (call_process ss i c w))"
  "session_frame w (snd (register_process i owner w))"
  "session_frame w (unregister_process i w)"
  "session_frame w (release_slot w)"
  "session_frame w (record_user_turn i text w)"
proof -
  have pub: "session_frame w (publish m v)" if "session_frame w v" for m v
    using session_frame_trans[OF that frame_fields(12)] .
  show "session_frame w (snd (set_state i st w))"
    using frame_updates(1)[of w i st] by (auto simp: set_state_def intro: pub split: prod.split sum.split)
  show "session_frame w (record_user_turn i text w)"
    using frame_repos(4)[of w i "EventUser text"] by (auto simp: record_user_turn_def intro: pub split: prod.split sum.split)
  show "session_frame w (snd (call_process ss i c w))" "session_frame w (snd (register_process i owner w))"
    "session_frame w (unregister_process i w)" "session_frame w (release_slot w)"
    by (simp_all add: call_process_def register_process_def unregister_process_def release_slot_def Let_def
        frame_fields split: option.split)
qed

lemma frame_exit [framed]: "session_frame w (handle_exit i code w)"
  unfolding handle_exit_def Let_def
  by (rule session_frame_trans[OF session_frame_trans[OF frame_small(1) frame_small(4)] frame_small(5)])

lemma frame_close_tracked [framed]: "session_frame w (close_tracked ss i w)"
  using session_frame_trans[OF frame_fields(5) frame_small(2)] by (auto simp: close_tracked_def)

lemma frame_evict [framed]: "session_frame w (snd (evict_oldest_idle ss w))"
  by (simp add: evict_oldest_idle_def frame_close_tracked split: option.split)

lemma frame_acquire [framed]: "session_frame w (snd (acquire_slot ss ia w))"
proof -
  define w1 where "w1 = (if ia then snd (evict_oldest_idle ss w) else w)"
  have w1: "session_frame w w1" by (simp add: w1_def frame_evict)
  have e: "session_frame w (handle_exit i code w1)" for i code
    by (rule session_frame_trans[OF w1 frame_exit])
  have s: "session_frame w (v\<lparr>wd_slots := n\<rparr>)" if "session_frame w v" for v n
    by (rule session_frame_trans[OF that frame_fields(7)])
  show ?thesis
    unfolding acquire_slot_def w1_def[symmetric] Let_def
    using w1 e s by (auto split: option.split prod.split)
qed

lemma frame_start_process [framed]:
  "session_frame w (snd (start_process ss s pf resume first schema sysprompt w))"
proof -
  note steps = frame_step[of _ "acquire_slot ss ia" for ia, OF frame_acquire]
    frame_step[of _ "register_process i owner" for i owner, OF frame_small(3)]
    frame_step[of _ "set_state i st" for i st, OF frame_small(1)]
  have rel: "session_frame w v \<Longrightarrow> session_frame w (release_slot v)" for v
    using session_frame_trans frame_small(5) by blast
  have call: "session_frame w v \<Longrightarrow> session_frame w (snd (call_process ss i c (record_user_turn i t v)))" for v i c t
    using session_frame_trans frame_small(2,6) by blast
  show ?thesis
    unfolding start_process_def
    by (auto split: option.split sum.split prod.split intro!: rel call dest!: steps)
qed

lemma frame_worktrees [framed]:
  "session_frame w (snd (create_worktree ss s ws w))"
  "session_frame w (snd (attach_worktree ss s ws path w))"
proof -
  note steps = frame_step[of _ "sessions_set_worktree i a b c" for i a b c, OF frame_updates(8)]
    frame_step[of _ "sessions_set_worktree_shared i x" for i x, OF frame_updates(9)]
  show "session_frame w (snd (create_worktree ss s ws w))"
    unfolding create_worktree_def Let_def by (auto split: sum.split prod.split dest!: steps)
  show "session_frame w (snd (attach_worktree ss s ws path w))"
    unfolding attach_worktree_def by (auto split: option.split sum.split prod.split dest!: steps)
qed

lemma frame_placed:
  "session_frame v (snd (case sessions_create s v of
      (Inl e, w2) \<Rightarrow> (Inl e, w2)
    | (Inr _, w2) \<Rightarrow>
        (case place_session ss ci ws s w2 of
           (Inl e, w3) \<Rightarrow> (Inl e, snd (sessions_update_state u SessionFailed w3))
         | (Inr s', w3) \<Rightarrow>
             (case start_process ss s' pf False t1 t2 t3 w3 of
                (Inl e, w4) \<Rightarrow> (Inl e, snd (sessions_update_state u SessionFailed w4))
              | (Inr _, w4) \<Rightarrow> (Inr s', w4)))))"
proof -
  have place: "session_frame x (snd (place_session ss ci ws s x))" for s x
    by (simp add: place_session_def frame_worktrees)
  note steps = frame_step[where w=v, OF frame_repos(1)] frame_step[where w=v, OF place]
    frame_step[where w=v, OF frame_start_process]
  have fail: "session_frame v x \<Longrightarrow> session_frame v (snd (sessions_update_state u SessionFailed x))" for x
    using session_frame_trans frame_updates(1) by blast
  show ?thesis
    by (auto split: sum.split prod.split intro!: fail dest!: steps)
qed

lemma frame_create_session [framed]: "session_frame w (snd (create_session ss a ci w))"
proof (cases "create_checks ss a ci w")
  case Inl
  then show ?thesis by (simp add: create_session_def)
next
  case (Inr c)
  obtain ws pf kind where c: "c = (ws, pf, kind)" by (cases c)
  obtain u w1 where u: "new_uuid (ge_uuid (ss_env ss)) w = (u, w1)" by fastforce
  have "session_frame w w1" using frame_repos(7)[of w "ge_uuid (ss_env ss)"] u by simp
  then show ?thesis
    unfolding create_session_def Inr c Let_def sum.case prod.case u
    by (rule session_frame_trans[OF _ frame_placed])
qed

lemma frame_send [framed]: "session_frame w (snd (send_session ss a i text w))"
proof -
  have call: "session_frame w (snd (call_process ss i c (record_user_turn i t w)))" for i c t
    using session_frame_trans frame_small(2,6) by blast
  have st: "session_frame w (snd (start_process ss s pf b x y z (w\<lparr>wd_starting := k\<rparr>)))" for s pf b x y z k
    using session_frame_trans frame_fields(6) frame_start_process by blast
  have un: "session_frame w v \<Longrightarrow> session_frame w (v\<lparr>wd_starting := k\<rparr>)" for v k
    using session_frame_trans frame_fields(6) by blast
  have st': "start_process ss s pf b x y z (w\<lparr>wd_starting := k\<rparr>) = (r, v) \<Longrightarrow> session_frame w v" for s pf b x y z k r v
    using st[of s pf b x y z k] by simp
  show ?thesis
    unfolding send_session_def Let_def
    by (auto split: sum.split prod.split intro!: call un intro: frame_fields dest: st')
qed

lemma frame_stop [framed]:
  "session_frame w (snd (interrupt_session ss a i w))"
  "session_frame w (snd (close_session ss a i w))"
  using session_frame_trans[OF frame_fields(5) frame_small(2)]
  by (auto simp: interrupt_session_def close_session_def frame_small split: sum.split)

end
