(* ===== verification/Run_Frame.thy ===== *)
theory Run_Frame
  imports Session_Frame
begin

text \<open>
  What the run engine leaves alone: closing a run out writes that run's row, appends rows for further
  iterations and never touches another run; starting one only appends. With this the engine and the
  sessions service meet the contracts \<open>run_starter\<close> and \<open>session_closer\<close>.
\<close>

definition engine_frame :: "world \<Rightarrow> world \<Rightarrow> bool" where
  "engine_frame w w' \<longleftrightarrow>
     keeps_pipelines w w' \<and> keeps_config w w' \<and> wd_now w' = wd_now w \<and> wd_uuids w \<le> wd_uuids w'"

lemma engine_frame_refl [simp]: "engine_frame w w"
  by (simp add: engine_frame_def)

lemma engine_frame_trans: "engine_frame a b \<Longrightarrow> engine_frame b c \<Longrightarrow> engine_frame a c"
  by (simp add: engine_frame_def keeps_pipelines_def keeps_config_def)

lemma session_engine_frame: "session_frame w w' \<Longrightarrow> engine_frame w w'"
  by (simp add: session_frame_def engine_frame_def)

text \<open>Only the row of run \<open>r\<close> changes, keeping its id and trigger; rows of other runs may follow.\<close>

definition touches_run :: "id \<Rightarrow> world \<Rightarrow> world \<Rightarrow> bool" where
  "touches_run r w w' \<longleftrightarrow>
     (\<exists>f new. (\<forall>x. rn_id (f x) = rn_id x \<and> rn_trigger (f x) = rn_trigger x) \<and> wd_runs w' = tbl_update rn_id r f (wd_runs w) @ new)"

lemma touches_run_same: "wd_runs w' = wd_runs w @ new \<Longrightarrow> touches_run r w w'"
  unfolding touches_run_def
  by (intro exI[of _ "\<lambda>x. x"] exI[of _ new]) (simp add: tbl_update_def)

lemma touches_run_step:
  assumes "(\<And>x. rn_id (f x) = rn_id x \<and> rn_trigger (f x) = rn_trigger x)" and "wd_runs w' = tbl_update rn_id r f (wd_runs w)"
    and "wd_runs w'' = wd_runs w' @ new"
  shows "touches_run r w w''"
  using assms unfolding touches_run_def by (intro exI[of _ f] exI[of _ new]) simp

lemma tbl_update_append_other:
  "i \<notin> key ` set t \<Longrightarrow> tbl_update key i f (t @ u) = t @ tbl_update key i f u"
  by (auto simp: tbl_update_def intro!: map_idI)

section \<open>Closing a run out\<close>

lemma end_loop_frame: "engine_frame w (end_loop l n st w)" "wd_runs (end_loop l n st w) = wd_runs w"
  by (simp_all add: end_loop_def loops_update_def forget_vars_def engine_frame_def keeps_pipelines_def
      keeps_config_def)

lemma notify_frame: "engine_frame w (notify en kind rid oc body w)" "wd_runs (notify en kind rid oc body w) = wd_runs w"
  by (simp_all add: notify_def engine_frame_def keeps_pipelines_def keeps_config_def)

lemma advance_with_frame:
  assumes "\<And>l e v. next l run report w = (e, v) \<Longrightarrow> engine_frame w v \<and> (\<exists>new. wd_runs v = wd_runs w @ new)"
  shows "engine_frame w (advance_with en next run oc report w) \<and>
    (\<exists>new. wd_runs (advance_with en next run oc report w) = wd_runs w @ new)"
proof (cases "\<exists>l. loops_get (rn_loop run) w = Inr l \<and> rn_loop run \<noteq> [] \<and> en_has_loops en \<and>
    lp_state l = LoopRunning \<and> oc = RunSuccess \<and> \<not> loop_done en report (lp_until l) \<and>
    \<not> lp_max l \<le> int (rn_iteration run)")
  case False
  show ?thesis
  proof (cases "loops_get (rn_loop run) w")
    case (Inr l)
    then have "rn_loop run \<noteq> [] \<Longrightarrow> en_has_loops en \<Longrightarrow> lp_state l = LoopRunning \<Longrightarrow> oc = RunSuccess \<Longrightarrow>
        \<not> loop_done en report (lp_until l) \<Longrightarrow> lp_max l \<le> int (rn_iteration run)"
      using False by blast
    then show ?thesis
      unfolding advance_with_def Inr sum.case by (simp add: end_loop_frame split: if_split)
  qed (simp add: advance_with_def)
next
  case True
  then obtain l where l: "loops_get (rn_loop run) w = Inr l" "rn_loop run \<noteq> []" "en_has_loops en"
    "lp_state l = LoopRunning" "oc = RunSuccess" "\<not> loop_done en report (lp_until l)"
    "\<not> lp_max l \<le> int (rn_iteration run)" by blast
  obtain e v where e: "next l run report w = (e, v)" by fastforce
  have "advance_with en next run oc report w =
      (case e of None \<Rightarrow> v | Some _ \<Rightarrow> end_loop l (rn_iteration run) LoopFailed v)"
    using l by (simp add: advance_with_def e)
  then show ?thesis
    using assms[OF e] end_loop_frame[where w=v] engine_frame_trans[of w v] by (cases e) auto
qed

lemma finish_with_frame:
  assumes nx: "\<And>l rep w e v. next l run rep w = (e, v) \<Longrightarrow> engine_frame w v \<and> (\<exists>new. wd_runs v = wd_runs w @ new)"
    and f: "finish_with en next run oc report summary cost w = (won, w')"
  shows "engine_frame w w' \<and> touches_run (rn_id run) w w'"
proof (cases "rn_id run \<in> set (wd_completed w) \<or> rn_id run \<notin> rn_id ` set (wd_runs w)")
  case True
  have "w' = w \<or> w' = w\<lparr>wd_completed := rn_id run # wd_completed w\<rparr>"
  proof (cases "rn_id run \<in> set (wd_completed w)")
    case True
    with f show ?thesis by (simp add: finish_with_def)
  next
    case out: False
    with True have "rn_id run \<notin> rn_id ` set (wd_runs w)" by blast
    then have "runs_finish (rn_id run) oc (if report = [] then ''{}'' else report) summary cost
        (w\<lparr>wd_completed := rn_id run # wd_completed w\<rparr>) =
      (Inl ErrNotFound, w\<lparr>wd_completed := rn_id run # wd_completed w\<rparr>)"
      by (simp add: runs_finish_def)
    with f out show ?thesis by (simp add: finish_with_def)
  qed
  then have "engine_frame w w'" "wd_runs w' = wd_runs w"
    by (auto simp: engine_frame_def keeps_pipelines_def keeps_config_def)
  then show ?thesis using touches_run_same[where new="[]"] by simp
next
  case False
  define rep where "rep = (if report = [] then ''{}'' else report)"
  define g where "g = (\<lambda>r::run. r\<lparr>rn_finished := Some (wd_now w), rn_outcome := oc, rn_report := rep,
    rn_summary := summary, rn_cost := cost\<rparr>)"
  define v where "v = publish_finished en run oc (w\<lparr>wd_completed := rn_id run # wd_completed w,
    wd_runs := tbl_update rn_id (rn_id run) g (wd_runs w),
    wd_notified := removeAll (rn_id run) (wd_notified w)\<rparr>)"
  have w': "w' = advance_with en next run oc rep v"
    using f False by (simp add: finish_with_def runs_finish_def Let_def v_def g_def rep_def)
  have v: "engine_frame w v" "wd_runs v = tbl_update rn_id (rn_id run) g (wd_runs w)"
    by (simp_all add: v_def publish_finished_def publish_def engine_frame_def keeps_pipelines_def keeps_config_def)
  from advance_with_frame[of "next" run rep v en oc] nx
  obtain new where "engine_frame v w'" "wd_runs w' = wd_runs v @ new" by (auto simp: w')
  then show ?thesis
    using engine_frame_trans[OF v(1)] touches_run_step[OF _ v(2), of w' new] by (simp add: g_def)
qed

lemma no_iteration_frame: "no_iteration l run rep w = (e, v) \<Longrightarrow> engine_frame w v \<and> (\<exists>new. wd_runs v = wd_runs w @ new)"
  by (simp add: no_iteration_def)

lemma next_iteration_frame:
  assumes "next_iteration en l prev report w = (e, v)"
  shows "engine_frame w v \<and> (\<exists>new. wd_runs v = wd_runs w @ new)"
proof -
  consider "v = w" | sid tpl prompt u w1 where "lp_session l = Some sid" "templates_get (lp_template l) w = Inr tpl"
      "ge_render (en_env en) (tp_prompt tpl) (loop_vars en l (Suc (rn_iteration prev)) report w) = Inr prompt"
      "new_uuid (ge_uuid (en_env en)) w = (u, w1)"
    using assms by (auto simp: next_iteration_def Let_def split: option.splits sum.splits prod.splits)
  then show ?thesis
  proof cases
    case 1
    then show ?thesis by simp
  next
    case 2
    let ?n = "Suc (rn_iteration prev)"
    let ?text = "iteration_text en ?n (lp_max l) report prompt"
    define run where "run = iteration_run u sid tpl prev l (wd_now w)"
    have run: "rn_id run = u" by (simp add: run_def)
    have body: "(e, v) =
        (case runs_create run w1 of
           (Inl e, w2) \<Rightarrow> (Some e, w2)
         | (Inr _, w2) \<Rightarrow>
             (case loops_update (lp_id l) LoopRunning ?n None w2 of
                (Inl e, w3) \<Rightarrow> (Some e, w3)
              | (Inr _, w3) \<Rightarrow>
                  (case send_session (en_sessions en) service_actor sid ?text w3 of
                     (Inl e, w4) \<Rightarrow> (Some e, snd (finish_with en no_iteration run RunFailed []
                          ''the next loop iteration could not be sent'' 0 w4))
                   | (Inr _, w4) \<Rightarrow> (None, w4))))"
      unfolding run_def assms[symmetric] next_iteration_def by (simp only: 2 option.case sum.case prod.case Let_def)
    have w1: "engine_frame w w1" "wd_runs w1 = wd_runs w"
      using 2(4) by (auto simp: new_uuid_def engine_frame_def keeps_pipelines_def keeps_config_def)
    show ?thesis
    proof (cases "runs_create run w1")
      case (Pair r w2)
      show ?thesis
      proof (cases r)
        case (Inl e')
        with Pair body have "v = w1" by (auto simp: runs_create_def split: if_splits)
        with w1 show ?thesis by simp
      next
        case (Inr x)
        with Pair have w2: "w2 = w1\<lparr>wd_runs := wd_runs w1 @ [run]\<rparr>" "u \<notin> rn_id ` set (wd_runs w1)"
          by (auto simp: runs_create_def run split: if_splits)
        obtain r3 w3 where w3: "loops_update (lp_id l) LoopRunning ?n None w2 = (r3, w3)" by fastforce
        have f3: "engine_frame w1 w3" "wd_runs w3 = wd_runs w @ [run]"
          using w3 w1(2) by (auto simp: loops_update_def w2 engine_frame_def keeps_pipelines_def keeps_config_def
              split: if_splits)
        obtain r4 w4 where w4: "send_session (en_sessions en) service_actor sid ?text w3 = (r4, w4)" by fastforce
        have s4: "session_frame w3 w4"
          using frame_send[of w3 "en_sessions en" service_actor sid ?text] w4 by simp
        have f4: "engine_frame w1 w4" "wd_runs w4 = wd_runs w @ [run]"
          using engine_frame_trans[OF f3(1) session_engine_frame[OF s4]] s4 f3(2) by (simp_all add: session_frame_def)
        obtain won w5 where w5: "finish_with en no_iteration run RunFailed []
            ''the next loop iteration could not be sent'' 0 w4 = (won, w5)" by fastforce
        have "engine_frame w4 w5 \<and> touches_run (rn_id run) w4 w5"
          by (rule finish_with_frame[OF _ w5]) (rule no_iteration_frame)
        then obtain f new where f5: "engine_frame w4 w5" "wd_runs w5 = tbl_update rn_id u f (wd_runs w4) @ new"
          by (auto simp: touches_run_def run)
        have "\<exists>new. wd_runs w5 = wd_runs w @ new"
          using f5(2) w2(2) w1(2) by (simp add: f4(2) tbl_update_append_other)
        moreover have "v = w3 \<or> v = w4 \<or> v = w5"
          using body by (simp add: Pair Inr w3 w4 w5 split: sum.splits)
        ultimately show ?thesis
          using engine_frame_trans[OF w1(1)] f3 f4 engine_frame_trans[OF f4(1) f5(1)] by auto
      qed
    qed
  qed
qed

lemma finish_frame:
  "finish en run oc report summary cost w = (won, w') \<Longrightarrow> engine_frame w w' \<and> touches_run (rn_id run) w w'"
  unfolding finish_def by (rule finish_with_frame[OF next_iteration_frame])

lemma touches_run_notify:
  "engine_frame w v \<and> touches_run r w v \<Longrightarrow>
   engine_frame w (notify en kind rid oc body v) \<and> touches_run r w (notify en kind rid oc body v)"
  using engine_frame_trans notify_frame by (auto simp: touches_run_def)

lemma complete_frame:
  "engine_frame w (complete_from_result en run res w) \<and> touches_run (rn_id run) w (complete_from_result en run res w)"
  unfolding complete_from_result_def Let_def
  by (auto split: prod.split intro!: touches_run_notify dest: finish_frame)

lemma fail_run_frame: "engine_frame w (fail_run en run w) \<and> touches_run (rn_id run) w (fail_run en run w)"
  unfolding fail_run_def Let_def
  by (auto split: prod.split intro!: touches_run_notify dest: finish_frame)

lemma reconcile_frame:
  "engine_frame w (reconcile_run en run w) \<and> touches_run (rn_id run) w (reconcile_run en run w)"
proof -
  have "touches_run (rn_id run) w w" by (rule touches_run_same[where new="[]"]) simp
  then show ?thesis
    unfolding reconcile_run_def
    by (auto simp: complete_frame fail_run_frame split: list.split sum.split)
qed

section \<open>Starting a run\<close>

lemma start_loop_frame:
  assumes "start_loop en tpl inp sid origin w = (r, w')"
  shows "engine_frame w w'" and "wd_runs w' = wd_runs w"
  using assms by (auto simp: start_loop_def loops_create_def remember_vars_def new_uuid_def Let_def engine_frame_def
      keeps_pipelines_def keeps_config_def split: if_splits)

lemma start_run_frame:
  assumes "start_run en inp w = (r, w')"
  shows "engine_frame w w' \<and> (\<exists>new. wd_runs w' = wd_runs w @ new) \<and>
    (\<forall>run. r = Inr run \<longrightarrow> (\<exists>row \<in> set (wd_runs w'). rn_id row = rn_id run \<and> rn_trigger row = empty_to_null (ri_trigger inp)))"
proof (cases "\<exists>tpl prompt. templates_get (ri_template inp) w = Inr tpl \<and>
    ge_render (en_env en) (tp_prompt tpl) (ri_vars inp) = Inr prompt \<and> trim_space prompt \<noteq> []")
  case False
  then have "w' = w \<and> (\<exists>e. r = Inl e)"
    using assms by (fastforce simp: start_run_def split: sum.splits if_splits)
  then show ?thesis by auto
next
  case True
  then obtain tpl prompt where t: "templates_get (ri_template inp) w = Inr tpl"
    "ge_render (en_env en) (tp_prompt tpl) (ri_vars inp) = Inr prompt" "trim_space prompt \<noteq> []" by blast
  define origin where "origin = (if ri_origin inp = [] then OriginWebhook else ri_origin inp)"
  obtain rid w1 where w1: "new_uuid (ge_uuid (en_env en)) w = (rid, w1)" by fastforce
  let ?ci = "run_create_input tpl (render_title en tpl (ri_vars inp)) prompt origin rid (ri_worktree inp)"
  obtain r2 w2 where w2: "create_session (en_sessions en) service_actor ?ci w1 = (r2, w2)" by fastforce
  have "session_frame w w2"
    using session_frame_trans[OF frame_repos(7)[where w=w and f="ge_uuid (en_env en)"]
      frame_create_session[where ss="en_sessions en" and a=service_actor and ci="?ci"]]
    by (simp only: w1 w2 snd_conv)
  then have f2: "engine_frame w w2" "wd_runs w2 = wd_runs w"
    by (simp_all add: session_engine_frame) (simp add: session_frame_def)
  note eq = assms[unfolded start_run_def t sum.case, simplified t(3) if_False Let_def origin_def[symmetric] w1 prod.case w2]
  have close: "engine_frame w (close_orphan en k v)" "wd_runs (close_orphan en k v) = wd_runs v"
    if "engine_frame w v" for k v
    using frame_stop(2)[of v "en_sessions en" service_actor k] engine_frame_trans[OF that] session_engine_frame
    by (auto simp: close_orphan_def session_frame_def)
  show ?thesis
  proof (cases r2)
    case (Inl e)
    with eq f2 show ?thesis by auto
  next
    case (Inr s)
    obtain r3 w3 where w3: "start_loop en tpl inp (se_id s) origin w2 = (r3, w3)" by fastforce
    have f3: "engine_frame w w3" "wd_runs w3 = wd_runs w"
      using start_loop_frame[OF w3] f2 engine_frame_trans by auto
    show ?thesis
    proof (cases r3)
      case Inl3: (Inl e)
      with eq Inr w3 show ?thesis using close[OF f3(1)] f3(2) by auto
    next
      case Inr3: (Inr p)
      obtain lid it where p: "p = (lid, it)" by (cases p)
      define run where "run = first_run rid (se_id s) tpl inp origin lid it (wd_now w)"
      have run: "rn_id run = rid" by (simp add: run_def)
      have body: "(r, w') =
          (case runs_create run w3 of
             (Inl e, w4) \<Rightarrow>
               (Inl e, if lid = [] then close_orphan en (se_id s) w4
                 else forget_vars lid (snd (loops_update lid LoopFailed it None (close_orphan en (se_id s) w4))))
           | (Inr _, w4) \<Rightarrow> (Inr run, reconcile_run en run w4))"
        using eq by (simp only: Inr w3 Inr3 p run_def[symmetric] sum.case prod.case)
      show ?thesis
      proof (cases "\<exists>e. runs_create run w3 = (Inl e, w3)")
        case True
        then obtain e where "runs_create run w3 = (Inl e, w3)" by blast
        with body have "r = Inl e" "w' = close_orphan en (se_id s) w3 \<or>
            w' = forget_vars lid (snd (loops_update lid LoopFailed it None (close_orphan en (se_id s) w3)))"
          by (auto split: if_splits)
        then show ?thesis
          using close[OF f3(1), of "se_id s"] f3(2)
          by (auto simp: forget_vars_def loops_update_def engine_frame_def keeps_pipelines_def keeps_config_def)
      next
        case False
        then obtain w4 where c: "runs_create run w3 = (Inr (), w4)" "w4 = w3\<lparr>wd_runs := wd_runs w3 @ [run]\<rparr>"
          "rid \<notin> rn_id ` set (wd_runs w3)"
          by (auto simp: runs_create_def run split: if_splits)
        with body have r: "r = Inr run" "w' = reconcile_run en run w4" by auto
        have f4: "engine_frame w w4"
          using f3(1) by (simp add: c(2) engine_frame_def keeps_pipelines_def keeps_config_def)
        from reconcile_frame[of w4 en run] obtain f new where rec: "engine_frame w4 w'" "\<forall>x. rn_id (f x) = rn_id x \<and> rn_trigger (f x) = rn_trigger x"
          "wd_runs w' = tbl_update rn_id rid f (wd_runs w4) @ new"
          by (auto simp: touches_run_def r(2) run)
        then have "wd_runs w' = wd_runs w @ f run # new"
          using c(3) f3(2) run by (simp add: c(2) tbl_update_append_other) (simp add: tbl_update_def)
        then show ?thesis
          using rec(1,2) engine_frame_trans[OF f4] r(1) run by (auto simp: run_def first_run_def)
      qed
    qed
  qed
qed

section \<open>The contracts\<close>

interpretation engine_starter: run_starter "start_run en" for en
proof
  fix inp w r w' assume "start_run en inp w = (r, w')"
  from start_run_frame[OF this] show "keeps_pipelines w w'" "keeps_config w w'"
    "\<exists>new. wd_runs w' = wd_runs w @ new" "wd_uuids w \<le> wd_uuids w'"
    by (auto simp: engine_frame_def)
next
  fix inp w run w' assume "start_run en inp w = (Inr run, w')"
  from start_run_frame[OF this] show "rn_id run \<in> rn_id ` set (wd_runs w')" by (metis image_eqI)
qed

interpretation sessions_closer: session_closer "interrupt_session ss a" "close_session ss a" for ss a
proof
  fix s w r w' assume "interrupt_session ss a s w = (r, w')"
  then show "keeps_pipelines w w' \<and> keeps_config w w' \<and> wd_runs w' = wd_runs w \<and> wd_uuids w \<le> wd_uuids w'"
    using frame_stop(1)[of w ss a s] by (simp add: session_frame_def)
next
  fix s w r w' assume "close_session ss a s w = (r, w')"
  then show "keeps_pipelines w w' \<and> keeps_config w w' \<and> wd_runs w' = wd_runs w \<and> wd_uuids w \<le> wd_uuids w'"
    using frame_stop(2)[of w ss a s] by (simp add: session_frame_def)
qed

end
