(* ===== verification/Templates.thy ===== *)
theory Templates
  imports Access
begin

text \<open>
  The template package: \<open>internal/templates/normalize.go\<close>, \<open>dedupe.go\<close>, \<open>sample.go\<close>, \<open>seed.go\<close> and
  the function table of \<open>render.go\<close>. Decoding JSON and executing a template are the parameters
  \<open>ge_unmarshal\<close> and \<open>ge_render\<close> of \<open>go_env\<close>; what is modelled is how a payload becomes variables.
\<close>

fun trigger_kind_text :: "trigger_kind \<Rightarrow> string" where
  "trigger_kind_text TriggerGeneric = ''generic''"
| "trigger_kind_text TriggerGrafana = ''grafana''"
| "trigger_kind_text TriggerGitHub = ''github''"

text \<open>The errors of \<open>Normalize\<close> and \<open>Render\<close> a dry run reports, without the decoder's own wording.\<close>

datatype template_error =
    UnknownKind string
  | NotAnObject string
  | RenderFailed string

section \<open>Normalisation (normalize.go)\<close>

definition grafana_fields :: "string list" where
  "grafana_fields = [''status'', ''alerts'', ''commonLabels'', ''commonAnnotations'', ''groupLabels'',
     ''title'', ''message'', ''externalURL'']"

definition zero_for :: "string \<Rightarrow> json" where
  "zero_for key =
     (if key = ''alerts'' then JArr []
      else if key \<in> {''commonLabels'', ''commonAnnotations'', ''groupLabels''} then JObj []
      else JStr [])"

definition normalize_generic :: "go_env \<Rightarrow> string \<Rightarrow> vars" where
  "normalize_generic env raw =
     (case ge_unmarshal env raw of
        Some decoded \<Rightarrow> [(''payload'', decoded)]
      | None \<Rightarrow> [(''payload'', JObj [(''raw'', JStr raw)])])"

definition lift_field :: "vars \<Rightarrow> vars \<Rightarrow> string \<Rightarrow> vars" where
  "lift_field m vars key = var_set key (case var_get m key of Some v \<Rightarrow> v | None \<Rightarrow> zero_for key) vars"

definition normalize_grafana :: "go_env \<Rightarrow> string \<Rightarrow> template_error + vars" where
  "normalize_grafana env raw =
     (case unmarshal_object env raw of
        None \<Rightarrow> Inl (NotAnObject ''grafana'')
      | Some m \<Rightarrow> Inr (foldl (lift_field m) [(''payload'', JObj m)] grafana_fields))"

text \<open>A nested lookup \<open>m[outer].(map[string]any)\<close> followed by one of \<open>inner\<close>.\<close>

definition object_at :: "vars \<Rightarrow> string \<Rightarrow> vars option" where
  "object_at m key = (case var_get m key of Some (JObj o') \<Rightarrow> Some o' | _ \<Rightarrow> None)"

definition copy_nested :: "vars \<Rightarrow> string \<Rightarrow> string \<Rightarrow> string \<Rightarrow> vars \<Rightarrow> vars" where
  "copy_nested m outer inner target vars =
     (case object_at m outer of
        None \<Rightarrow> vars
      | Some o' \<Rightarrow> (case var_get o' inner of None \<Rightarrow> vars | Some v \<Rightarrow> var_set target v vars))"

definition normalize_github :: "go_env \<Rightarrow> string \<Rightarrow> template_error + vars" where
  "normalize_github env raw =
     (case unmarshal_object env raw of
        None \<Rightarrow> Inl (NotAnObject ''github'')
      | Some m \<Rightarrow>
          (let v0 = [(''payload'', JObj m)];
               v1 = (case var_get m ''action'' of None \<Rightarrow> v0 | Some x \<Rightarrow> var_set ''action'' x v0);
               v2 = copy_nested m ''repository'' ''full_name'' ''repo'' v1;
               v3 = copy_nested m ''sender'' ''login'' ''sender'' v2
           in Inr (if object_at m ''pull_request'' \<noteq> None
                   then copy_nested m ''pull_request'' ''number'' ''number'' v3
                   else copy_nested m ''issue'' ''number'' ''number'' v3)))"

definition normalize :: "go_env \<Rightarrow> string \<Rightarrow> string \<Rightarrow> template_error + vars" where
  "normalize env kind raw =
     (if kind = ''generic'' then Inr (normalize_generic env raw)
      else if kind = ''grafana'' then normalize_grafana env raw
      else if kind = ''github'' then normalize_github env raw
      else Inl (UnknownKind kind))"

section \<open>The dedupe key (dedupe.go)\<close>

definition default_dedupe_key :: "string \<Rightarrow> string" where
  "default_dedupe_key kind =
     (if kind = ''grafana'' then ''{{ .status }}:{{ range .alerts }}{{ .fingerprint }},{{ end }}''
      else ''{{ json .payload | sha256 }}'')"

definition render_dedupe :: "go_env \<Rightarrow> string \<Rightarrow> string \<Rightarrow> vars \<Rightarrow> string + string" where
  "render_dedupe env tmpl kind vars =
     ge_render env (if tmpl = [] then default_dedupe_key kind else tmpl) vars"

section \<open>Samples and seeds (sample.go, seed.go)\<close>

text \<open>The embedded sample files, by kind.\<close>

record samples =
  sm_grafana :: string
  sm_github :: string
  sm_generic :: string

definition sample_payload :: "samples \<Rightarrow> string \<Rightarrow> string" where
  "sample_payload sm kind =
     (if kind = ''grafana'' then sm_grafana sm else if kind = ''github'' then sm_github sm else sm_generic sm)"

record seed =
  sd_name :: string
  sd_kind :: string
  sd_profile :: id
  sd_title :: string
  sd_prompt :: string
  sd_system_prompt :: string
  sd_report_schema :: string

section \<open>The function table (render.go)\<close>

text \<open>\<open>defaultFunc\<close>: the kinds \<open>reflect\<close> finds empty.\<close>

fun is_empty_value :: "json \<Rightarrow> bool" where
  "is_empty_value JNull = True"
| "is_empty_value (JStr s) = (s = [])"
| "is_empty_value (JArr xs) = (xs = [])"
| "is_empty_value (JObj kvs) = (kvs = [])"
| "is_empty_value _ = False"

definition default_func :: "json \<Rightarrow> json \<Rightarrow> json" where
  "default_func fallback v = (if is_empty_value v then fallback else v)"

definition truncate_func :: "int \<Rightarrow> string \<Rightarrow> string" where
  "truncate_func n s = (let k = nat n in if rune_count s \<le> k then s else take_runes k s)"

definition alertname_of :: "json \<Rightarrow> string option" where
  "alertname_of item =
     (case item of
        JObj m \<Rightarrow> (case object_at m ''labels'' of
            None \<Rightarrow> None
          | Some labels \<Rightarrow> (case var_get labels ''alertname'' of Some (JStr s) \<Rightarrow> Some s | _ \<Rightarrow> None))
      | _ \<Rightarrow> None)"

definition alertnames :: "json \<Rightarrow> string list" where
  "alertnames v = (case v of JArr items \<Rightarrow> List.map_filter alertname_of items | _ \<Rightarrow> [])"

section \<open>What a template may rely on\<close>

lemma var_get_lift_fields:
  "var_get (foldl (lift_field m) vars keys) k =
     (if k \<in> set keys then Some (case var_get m k of Some v \<Rightarrow> v | None \<Rightarrow> zero_for k) else var_get vars k)"
  by (induction keys arbitrary: vars) (auto simp: lift_field_def)

lemma normalize_grafana_fields:
  assumes "normalize env ''grafana'' raw = Inr vars" and "k \<in> set grafana_fields"
  shows "\<exists>m. unmarshal_object env raw = Some m \<and>
    var_get vars k = Some (case var_get m k of Some v \<Rightarrow> v | None \<Rightarrow> zero_for k)"
  using assms by (auto simp: normalize_def normalize_grafana_def var_get_lift_fields split: option.splits)

lemma copy_nested_other: "k \<noteq> target \<Longrightarrow> var_get (copy_nested m outer inner target vars) k = var_get vars k"
  by (simp add: copy_nested_def split: option.splits)

lemma payload_not_grafana_field [simp]: "''payload'' \<notin> set grafana_fields"
  by (simp add: grafana_fields_def)

text \<open>Every kind keeps the decoded payload under \<open>payload\<close>.\<close>

lemma normalize_payload:
  assumes "normalize env kind raw = Inr vars"
  shows "var_get vars ''payload'' \<noteq> None"
  using assms
  by (auto simp: normalize_def normalize_generic_def normalize_grafana_def normalize_github_def
      var_get_lift_fields copy_nested_other Let_def split: if_splits option.splits)

lemma normalize_generic_total: "\<exists>vars. normalize env ''generic'' raw = Inr vars"
  by (simp add: normalize_def)

lemma normalize_fails:
  "normalize env kind raw = Inl e \<longleftrightarrow>
     kind \<notin> {''generic'', ''grafana'', ''github''} \<and> e = UnknownKind kind \<or>
     kind \<in> {''grafana'', ''github''} \<and> unmarshal_object env raw = None \<and> e = NotAnObject kind"
  by (auto simp: normalize_def normalize_grafana_def normalize_github_def Let_def split: option.splits)

lemma take_runes_prefix: "\<exists>rest. s = take_runes n s @ rest"
  by (induction n s rule: take_runes.induct) auto

lemma truncate_func_prefix: "\<exists>rest. s = truncate_func n s @ rest"
  using take_runes_prefix[of s "nat n"] by (auto simp: truncate_func_def Let_def)

lemma rune_count_take_runes: "rune_count (take_runes n s) \<le> n"
  by (induction n s rule: take_runes.induct) (auto simp: rune_count_def)

lemma truncate_func_bound: "rune_count (truncate_func n s) \<le> nat n"
  using rune_count_take_runes[of "nat n" s] by (simp add: truncate_func_def Let_def)

end
