(* ===== verification/Triggers.thy ===== *)
theory Triggers
  imports Templates
begin

text \<open>
  The inbound side: \<open>internal/triggers\<close>. Templates and triggers with their ownership rules
  (\<open>templates.go\<close>, \<open>trigger.go\<close>) and the webhook pipeline of \<open>deliver.go\<close>: authenticate, normalise,
  gate (resolved alerts, cooldown, dedupe, storm cap), record one delivery row, start the run or the
  pipeline run. The service record holds what \<open>Service\<close> is constructed with; SHA-256, the random
  source and the two starters are its parameters.
\<close>

section \<open>The service (triggers.go)\<close>

type_synonym pipeline_start =
  "actor \<Rightarrow> id \<Rightarrow> vars \<Rightarrow> string \<Rightarrow> string \<Rightarrow> world \<Rightarrow> pipeline_run result"

record trigger_service =
  ts_env :: go_env
  ts_start :: "run_input \<Rightarrow> world \<Rightarrow> run result"
  ts_pipelines :: "pipeline_start option"
  ts_sha256 :: "string \<Rightarrow> string"
  ts_random :: "nat \<Rightarrow> string"
  ts_samples :: samples
  ts_seeds :: "seed list"

definition PipelineRunRefPrefix :: string where "PipelineRunRefPrefix = ''pr:''"

text \<open>\<open>int64\<close> arithmetic of \<open>time.Duration\<close>: products wrap, \<open>Time.Sub\<close> saturates.\<close>

definition int64 :: "int \<Rightarrow> int" where
  "int64 x = (x + 2 ^ 63) mod 2 ^ 64 - 2 ^ 63"

definition duration_since :: "time \<Rightarrow> time \<Rightarrow> duration" where
  "duration_since a b = max (- (2 ^ 63)) (min (2 ^ 63 - 1) (a - b))"

definition validate_target :: "id \<Rightarrow> id \<Rightarrow> error option" where
  "validate_target template pipeline =
     (if template = [] \<and> pipeline = [] then Some (ErrInvalid ''one of template_id and pipeline_id is required'')
      else if template \<noteq> [] \<and> pipeline \<noteq> []
      then Some (ErrInvalid ''exactly one of template_id and pipeline_id may be set'')
      else None)"

definition wrap_fk :: "string \<Rightarrow> error \<Rightarrow> error" where
  "wrap_fk what e = (if e = ErrForeignKey then ErrInvalid what else e)"

definition trigger_constraint :: "error \<Rightarrow> error" where
  "trigger_constraint = wrap_fk ''unknown workspace, profile or template''"

section \<open>Templates (templates.go)\<close>

definition validate_template :: "template_input \<Rightarrow> error option" where
  "validate_template inp =
     (if trim_space (tin_name inp) = [] then Some (ErrInvalid ''name is required'')
      else if tin_workspace inp = [] then Some (ErrInvalid ''workspace_id is required'')
      else if tin_profile inp = [] then Some (ErrInvalid ''profile_id is required'')
      else if trim_space (tin_prompt inp) = [] then Some (ErrInvalid ''prompt_template is required'')
      else if trim_space (tin_loop_until inp) \<noteq> [] \<and> tin_loop_max inp < 1
      then Some (ErrInvalid ''loop_max must be at least 1 when loop_until is set'')
      else None)"

definition create_template :: "trigger_service \<Rightarrow> actor \<Rightarrow> template_input \<Rightarrow> world \<Rightarrow> tmpl result" where
  "create_template ts a inp w =
     (case validate_template inp of
        Some e \<Rightarrow> (Inl e, w)
      | None \<Rightarrow>
          (let (u, w1) = new_uuid (ge_uuid (ts_env ts)) w;
               tpl = \<lparr>tp_id = u, tp_owner = owner_for a (tin_shared inp), tp_name = trim_space (tin_name inp),
                      tp_workspace = tin_workspace inp, tp_profile = tin_profile inp,
                      tp_title = tin_title inp, tp_prompt = tin_prompt inp,
                      tp_system_prompt = tin_system_prompt inp, tp_report_schema = tin_report_schema inp,
                      tp_loop_until = trim_space (tin_loop_until inp), tp_loop_max = tin_loop_max inp,
                      tp_created = wd_now w, tp_updated = wd_now w\<rparr>
           in case templates_create tpl w1 of
                (Inl e, w2) \<Rightarrow> (Inl (trigger_constraint e), w2)
              | (Inr _, w2) \<Rightarrow> (Inr tpl, w2)))"

definition list_templates :: "actor \<Rightarrow> world \<Rightarrow> tmpl list" where
  "list_templates a w = templates_list_visible (ac_user a) (ac_admin a) w"

definition get_template :: "actor \<Rightarrow> id \<Rightarrow> world \<Rightarrow> error + tmpl" where
  "get_template = get_visible templates_get tp_owner"

definition update_template :: "actor \<Rightarrow> id \<Rightarrow> template_input \<Rightarrow> world \<Rightarrow> tmpl result" where
  "update_template a i inp w =
     (case get_mutable templates_get tp_owner a i w of
        Inl e \<Rightarrow> (Inl e, w)
      | Inr existing \<Rightarrow>
          (case validate_template inp of
             Some e \<Rightarrow> (Inl e, w)
           | None \<Rightarrow>
               (let updated = existing\<lparr>
                      tp_owner := (if ac_admin a \<and> tin_shared inp then None else tp_owner existing),
                      tp_name := trim_space (tin_name inp), tp_workspace := tin_workspace inp,
                      tp_profile := tin_profile inp, tp_title := tin_title inp, tp_prompt := tin_prompt inp,
                      tp_system_prompt := tin_system_prompt inp, tp_report_schema := tin_report_schema inp,
                      tp_loop_until := trim_space (tin_loop_until inp), tp_loop_max := tin_loop_max inp,
                      tp_updated := wd_now w\<rparr>
                in case templates_update updated w of
                     (Inl e, w') \<Rightarrow> (Inl (trigger_constraint e), w')
                   | (Inr _, w') \<Rightarrow> (Inr updated, w'))))"

definition delete_template :: "actor \<Rightarrow> id \<Rightarrow> world \<Rightarrow> unit result" where
  "delete_template a i w =
     (case get_mutable templates_get tp_owner a i w of Inl e \<Rightarrow> (Inl e, w) | Inr _ \<Rightarrow> templates_delete i w)"

record render_result =
  rr_title :: string
  rr_prompt :: string
  rr_errors :: "template_error list"

definition render_template ::
  "trigger_service \<Rightarrow> actor \<Rightarrow> id \<Rightarrow> string \<Rightarrow> string \<Rightarrow> world \<Rightarrow> error + render_result" where
  "render_template ts a i kind payload w =
     (case get_template a i w of
        Inl e \<Rightarrow> Inl e
      | Inr tpl \<Rightarrow>
          (let kind' = (if kind = [] then trigger_kind_text TriggerGeneric else kind);
               payload' = (if payload = [] then sample_payload (ts_samples ts) kind' else payload);
               (vars, e1) = (case normalize (ts_env ts) kind' payload' of
                   Inl e \<Rightarrow> ([(''payload'', JObj [])], [e]) | Inr vs \<Rightarrow> (vs, []));
               (title, e2) = (if tp_title tpl = [] then ([], [])
                   else case ge_render (ts_env ts) (tp_title tpl) vars of
                          Inl e \<Rightarrow> ([], [RenderFailed e]) | Inr s \<Rightarrow> (s, []));
               (prompt, e3) = (case ge_render (ts_env ts) (tp_prompt tpl) vars of
                   Inl e \<Rightarrow> ([], [RenderFailed e]) | Inr s \<Rightarrow> (s, []))
           in Inr \<lparr>rr_title = title, rr_prompt = prompt, rr_errors = e1 @ e2 @ e3\<rparr>))"

definition seeded_template :: "id \<Rightarrow> id \<Rightarrow> time \<Rightarrow> seed \<Rightarrow> tmpl" where
  "seeded_template u ws now sd =
     \<lparr>tp_id = u, tp_owner = None, tp_name = sd_name sd, tp_workspace = ws, tp_profile = sd_profile sd,
      tp_title = sd_title sd, tp_prompt = sd_prompt sd, tp_system_prompt = sd_system_prompt sd,
      tp_report_schema = sd_report_schema sd, tp_loop_until = [], tp_loop_max = 0,
      tp_created = now, tp_updated = now\<rparr>"

fun seed_all :: "trigger_service \<Rightarrow> string list \<Rightarrow> id \<Rightarrow> seed list \<Rightarrow> world \<Rightarrow> unit result" where
  "seed_all ts have ws [] w = (Inr (), w)"
| "seed_all ts have ws (sd # sds) w =
     (if sd_name sd \<in> set have then seed_all ts have ws sds w
      else let (u, w1) = new_uuid (ge_uuid (ts_env ts)) w
           in case templates_create (seeded_template u ws (wd_now w) sd) w1 of
                (Inl e, w2) \<Rightarrow> (Inl (trigger_constraint e), w2)
              | (Inr _, w2) \<Rightarrow> seed_all ts have ws sds w2)"

definition ensure_seeded :: "trigger_service \<Rightarrow> id \<Rightarrow> world \<Rightarrow> unit result" where
  "ensure_seeded ts ws w =
     (if ws = [] then (Inl (ErrInvalid ''a workspace is required to seed templates''), w)
      else seed_all ts (map tp_name (templates_list_visible [] False w)) ws (ts_seeds ts) w)"

section \<open>Secrets (trigger.go)\<close>

definition hex_encode :: "string \<Rightarrow> string" where
  "hex_encode bs = concat (map (\<lambda>c. let n = of_char c :: nat in [hex_digit (n div 16), hex_digit (n mod 16)]) bs)"

definition base64_digit :: "nat \<Rightarrow> char" where
  "base64_digit d =
     (if d < 26 then char_of (65 + d) else if d < 52 then char_of (71 + d)
      else if d < 62 then char_of (d - 4) else if d = 62 then CHR ''-'' else CHR ''_'')"

fun base64_raw_url :: "nat list \<Rightarrow> string" where
  "base64_raw_url [] = []"
| "base64_raw_url [a] = map base64_digit [a div 4, (a mod 4) * 16]"
| "base64_raw_url [a, b] = map base64_digit [a div 4, (a mod 4) * 16 + b div 16, (b mod 16) * 4]"
| "base64_raw_url (a # b # c # r) =
     map base64_digit [a div 4, (a mod 4) * 16 + b div 16, (b mod 16) * 4 + c div 64, c mod 64] @ base64_raw_url r"

definition secret_prefix :: string where "secret_prefix = ''styr_whs_''"
definition secret_bytes :: nat where "secret_bytes = 32"

definition new_secret :: "trigger_service \<Rightarrow> world \<Rightarrow> string \<times> world" where
  "new_secret ts w =
     (secret_prefix @ base64_raw_url (map of_char (take secret_bytes (ts_random ts (wd_uuids w)))),
      w\<lparr>wd_uuids := Suc (wd_uuids w)\<rparr>)"

definition hash_secret :: "trigger_service \<Rightarrow> string \<Rightarrow> string" where
  "hash_secret ts secret = hex_encode (ts_sha256 ts secret)"

definition secret_hint :: "string \<Rightarrow> string" where
  "secret_hint secret = (if length secret \<le> 6 then secret else drop (length secret - 6) secret)"

definition secret_matches :: "trigger_service \<Rightarrow> string \<Rightarrow> string \<Rightarrow> bool" where
  "secret_matches ts presented stored \<longleftrightarrow>
     (if presented = [] \<or> stored = [] then False else hash_secret ts presented = stored)"

section \<open>Slugs (trigger.go)\<close>

definition max_slug_len :: nat where "max_slug_len = 48"

definition slug_char :: "char \<Rightarrow> bool" where
  "slug_char c \<longleftrightarrow> (let n = of_char c :: nat in 97 \<le> n \<and> n \<le> 122 \<or> 48 \<le> n \<and> n \<le> 57)"

text \<open>\<open>slugStrip.ReplaceAllString(s, "-")\<close>: one dash for each maximal run of other bytes.\<close>

fun slug_strip :: "string \<Rightarrow> string" where
  "slug_strip [] = []"
| "slug_strip (c # s) =
     (if slug_char c then c # slug_strip s
      else case s of
             [] \<Rightarrow> ''-''
           | d # _ \<Rightarrow> if slug_char d then CHR ''-'' # slug_strip s else slug_strip s)"

definition trim_dashes :: "string \<Rightarrow> string" where
  "trim_dashes = trim_func (\<lambda>c. c = CHR ''-'')"

definition slugify :: "string \<Rightarrow> string" where
  "slugify name =
     (let s = trim_dashes (slug_strip (to_lower (trim_space name)));
          s' = (if max_slug_len < length s then trim_dashes (take max_slug_len s) else s)
      in if s' = [] then ''trigger'' else s')"

fun unique_slug_from :: "nat \<Rightarrow> nat \<Rightarrow> string \<Rightarrow> string \<Rightarrow> world \<Rightarrow> error + string" where
  "unique_slug_from 0 n base candidate w = Inl (ErrConflict ''too many triggers named like this'')"
| "unique_slug_from (Suc k) n base candidate w =
     (case triggers_get_by_slug candidate w of
        Inl e \<Rightarrow> if e = ErrNotFound then Inr candidate else Inl e
      | Inr _ \<Rightarrow> unique_slug_from k (Suc n) base (base @ ''-'' @ show_nat n) w)"

text \<open>The loop runs for n from 2 to 999.\<close>

definition unique_slug :: "string \<Rightarrow> world \<Rightarrow> error + string" where
  "unique_slug base w = unique_slug_from 998 2 base base w"

section \<open>Trigger endpoints (trigger.go)\<close>

definition default_cooldown_s :: int where "default_cooldown_s = 600"
definition default_storm_cap :: int where "default_storm_cap = 10"

definition or_default :: "int \<Rightarrow> int \<Rightarrow> int" where
  "or_default v fallback = (if v \<le> 0 then fallback else v)"

definition validate_trigger_kind :: "string \<Rightarrow> error + trigger_kind" where
  "validate_trigger_kind kind =
     (if kind = ''generic'' then Inr TriggerGeneric
      else if kind = ''grafana'' then Inr TriggerGrafana
      else if kind = ''github'' then Inr TriggerGitHub
      else if kind = [] then Inr TriggerGeneric
      else Inl (ErrInvalid (''unknown trigger kind '' @ go_quote kind)))"

definition create_trigger ::
  "trigger_service \<Rightarrow> actor \<Rightarrow> trigger_input \<Rightarrow> world \<Rightarrow> (trigger \<times> string) result" where
  "create_trigger ts a inp w =
     (case validate_trigger_kind (gin_kind inp) of
        Inl e \<Rightarrow> (Inl e, w)
      | Inr kind \<Rightarrow>
     (if trim_space (gin_name inp) = [] then (Inl (ErrInvalid ''name is required''), w)
      else case validate_target (gin_template inp) (gin_pipeline inp) of
        Some e \<Rightarrow> (Inl e, w)
      | None \<Rightarrow>
     (case (if gin_template inp = [] then Inr ()
            else map_sum id (\<lambda>_. ()) (get_template a (gin_template inp) w)) of
        Inl e \<Rightarrow> (Inl e, w)
      | Inr _ \<Rightarrow>
     (case unique_slug (slugify (gin_name inp)) w of
        Inl e \<Rightarrow> (Inl e, w)
      | Inr slug \<Rightarrow>
          (let (secret, w1) = new_secret ts w;
               (u, w2) = new_uuid (ge_uuid (ts_env ts)) w1;
               tr = \<lparr>tr_id = u, tr_owner = owner_for a (gin_shared inp), tr_name = trim_space (gin_name inp),
                     tr_slug = slug, tr_kind = kind, tr_secret_hash = hash_secret ts secret,
                     tr_secret_hint = secret_hint secret, tr_template = gin_template inp,
                     tr_pipeline = empty_to_null (gin_pipeline inp),
                     tr_enabled = (gin_enabled inp = None \<or> gin_enabled inp = Some True),
                     tr_dedupe_template = gin_dedupe_template inp,
                     tr_cooldown_s = or_default (gin_cooldown_s inp) default_cooldown_s,
                     tr_storm_cap = or_default (gin_storm_cap inp) default_storm_cap,
                     tr_run_on_resolved = gin_run_on_resolved inp, tr_created = wd_now w,
                     tr_updated = wd_now w, tr_last_delivery = None\<rparr>
           in case triggers_create tr w2 of
                (Inl e, w3) \<Rightarrow> (Inl (trigger_constraint e), w3)
              | (Inr _, w3) \<Rightarrow> (Inr (tr, secret), w3))))))"

definition list_triggers :: "actor \<Rightarrow> world \<Rightarrow> trigger list" where
  "list_triggers a w = triggers_list_visible (ac_user a) (ac_admin a) w"

definition get_trigger :: "actor \<Rightarrow> id \<Rightarrow> world \<Rightarrow> error + trigger" where
  "get_trigger = get_visible triggers_get tr_owner"

definition mutable_trigger :: "actor \<Rightarrow> id \<Rightarrow> world \<Rightarrow> error + trigger" where
  "mutable_trigger = get_mutable triggers_get tr_owner"

definition update_trigger :: "actor \<Rightarrow> id \<Rightarrow> trigger_input \<Rightarrow> world \<Rightarrow> trigger result" where
  "update_trigger a i inp w =
     (case mutable_trigger a i w of
        Inl e \<Rightarrow> (Inl e, w)
      | Inr existing \<Rightarrow>
     (case validate_trigger_kind (gin_kind inp) of
        Inl e \<Rightarrow> (Inl e, w)
      | Inr kind \<Rightarrow>
     (if trim_space (gin_name inp) = [] then (Inl (ErrInvalid ''name is required''), w)
      else case validate_target (gin_template inp) (gin_pipeline inp) of
        Some e \<Rightarrow> (Inl e, w)
      | None \<Rightarrow>
     (case (if gin_template inp = [] \<or> gin_template inp = tr_template existing then Inr ()
            else map_sum id (\<lambda>_. ()) (get_template a (gin_template inp) w)) of
        Inl e \<Rightarrow> (Inl e, w)
      | Inr _ \<Rightarrow>
          (let updated = existing\<lparr>
                 tr_owner := (if ac_admin a \<and> gin_shared inp then None else tr_owner existing),
                 tr_name := trim_space (gin_name inp), tr_kind := kind, tr_template := gin_template inp,
                 tr_pipeline := empty_to_null (gin_pipeline inp),
                 tr_dedupe_template := gin_dedupe_template inp,
                 tr_cooldown_s := or_default (gin_cooldown_s inp) default_cooldown_s,
                 tr_storm_cap := or_default (gin_storm_cap inp) default_storm_cap,
                 tr_run_on_resolved := gin_run_on_resolved inp,
                 tr_enabled := (case gin_enabled inp of None \<Rightarrow> tr_enabled existing | Some b \<Rightarrow> b),
                 tr_updated := wd_now w\<rparr>
           in case triggers_update updated w of
                (Inl e, w') \<Rightarrow> (Inl (trigger_constraint e), w')
              | (Inr _, w') \<Rightarrow> (Inr updated, w'))))))"

definition delete_trigger :: "actor \<Rightarrow> id \<Rightarrow> world \<Rightarrow> unit result" where
  "delete_trigger a i w =
     (case mutable_trigger a i w of Inl e \<Rightarrow> (Inl e, w) | Inr _ \<Rightarrow> triggers_delete i w)"

definition rotate_secret :: "trigger_service \<Rightarrow> actor \<Rightarrow> id \<Rightarrow> world \<Rightarrow> string result" where
  "rotate_secret ts a i w =
     (case mutable_trigger a i w of
        Inl e \<Rightarrow> (Inl e, w)
      | Inr _ \<Rightarrow>
          (let (secret, w1) = new_secret ts w
           in case triggers_set_secret i (hash_secret ts secret) (secret_hint secret) w1 of
                (Inl e, w2) \<Rightarrow> (Inl e, w2)
              | (Inr _, w2) \<Rightarrow> (Inr secret, w2)))"

section \<open>Deliveries (deliver.go)\<close>

definition max_payload_bytes :: nat where "max_payload_bytes = 256 * 1024"
definition generic_dedupe_window :: duration where "generic_dedupe_window = 24 * hour"

definition header_get :: "(string \<times> string) list \<Rightarrow> string \<Rightarrow> string" where
  "header_get hs name =
     (case find (\<lambda>(k, v). to_lower k = to_lower name) hs of None \<Rightarrow> [] | Some (k, v) \<Rightarrow> v)"

definition query_get :: "(string \<times> string) list \<Rightarrow> string \<Rightarrow> string" where
  "query_get q name = (case map_of q name of None \<Rightarrow> [] | Some v \<Rightarrow> v)"

definition bearer_token :: "(string \<times> string) list \<Rightarrow> string" where
  "bearer_token hs =
     (let v = header_get hs ''Authorization''
      in if 7 < length v \<and> to_lower (take 7 v) = ''bearer '' then trim_space (drop 7 v) else [])"

definition presented_secrets :: "inbound \<Rightarrow> string list" where
  "presented_secrets inb =
     filter (\<lambda>s. s \<noteq> []) [trim_space (header_get (ib_headers inb) ''X-Styr-Secret''),
       bearer_token (ib_headers inb), trim_space (query_get (ib_query inb) ''secret'')]"

definition authenticate :: "trigger_service \<Rightarrow> trigger \<Rightarrow> inbound \<Rightarrow> bool" where
  "authenticate ts tr inb \<longleftrightarrow>
     list_ex (\<lambda>s. secret_matches ts s (tr_secret_hash tr)) (presented_secrets inb)"

definition grafana_status :: "vars \<Rightarrow> string" where
  "grafana_status vars = (case var_get vars ''status'' of Some (JStr s) \<Rightarrow> s | _ \<Rightarrow> [])"

definition truncate_payload :: "string \<Rightarrow> string" where
  "truncate_payload p = take max_payload_bytes p"

definition cooldown_of :: "trigger \<Rightarrow> duration" where
  "cooldown_of tr = int64 (tr_cooldown_s tr * second)"

text \<open>\<open>gate\<close>: the status and reason, and whether the delivery goes on.\<close>

definition gate ::
  "trigger \<Rightarrow> vars \<Rightarrow> string \<Rightarrow> time \<Rightarrow> bool \<Rightarrow> world \<Rightarrow> delivery_status \<times> delivery_reason \<times> bool" where
  "gate tr vars key now force w =
     (if tr_kind tr = TriggerGrafana \<and> \<not> tr_run_on_resolved tr \<and> grafana_status vars = ''resolved''
      then (DeliverySkipped, Resolved, False)
      else if force then (DeliveryAccepted, NoReason, True)
      else
        (let storm =
           (if 0 < tr_storm_cap tr \<and>
               tr_storm_cap tr \<le> int (deliveries_count_since (tr_id tr) (now - hour) DeliveryAccepted w)
            then (DeliveryStorm, StormCapReached (tr_storm_cap tr), False)
            else (DeliveryAccepted, NoReason, True))
         in case deliveries_last_accepted (tr_id tr) key w of
              Inl e \<Rightarrow> storm
            | Inr prev \<Rightarrow>
                (if duration_since now (dl_received prev) < cooldown_of tr
                 then (DeliveryCooldown, WithinCooldown (cooldown_of tr) (dl_id prev), False)
                 else if tr_kind tr = TriggerGrafana \<or>
                   duration_since now (dl_received prev) < generic_dedupe_window
                 then (DeliveryDeduped, SamePayload (dl_id prev), False)
                 else storm)))"

definition record_delivery :: "delivery \<Rightarrow> delivery_status \<Rightarrow> delivery_reason \<Rightarrow> world \<Rightarrow> delivery result" where
  "record_delivery dl st reason w =
     (let dl' = dl\<lparr>dl_status := st, dl_reason := reason\<rparr>
      in case deliveries_create dl' w of (Inl e, w') \<Rightarrow> (Inl e, w') | (Inr _, w') \<Rightarrow> (Inr dl', w'))"

definition fail_delivery :: "delivery \<Rightarrow> delivery_reason \<Rightarrow> world \<Rightarrow> delivery \<times> world" where
  "fail_delivery dl reason w =
     (dl\<lparr>dl_status := DeliveryFailed, dl_reason := reason\<rparr>,
      snd (deliveries_set_status (dl_id dl) DeliveryFailed reason w))"

definition start_trigger_pipeline ::
  "trigger_service \<Rightarrow> trigger \<Rightarrow> id \<Rightarrow> delivery \<Rightarrow> vars \<Rightarrow> world \<Rightarrow> delivery \<times> world" where
  "start_trigger_pipeline ts tr plid dl vars w =
     (case ts_pipelines ts of
        None \<Rightarrow> fail_delivery dl PipelinesUnavailable w
      | Some start \<Rightarrow>
          (case start service_actor plid vars OriginWebhook (tr_id tr) w of
             (Inl e, w') \<Rightarrow> fail_delivery dl (StartPipelineFailed e) w'
           | (Inr pr, w') \<Rightarrow>
               (let ref = PipelineRunRefPrefix @ pr_id pr
                in (dl\<lparr>dl_run := Some ref\<rparr>, snd (deliveries_set_run (dl_id dl) ref w')))))"

definition start_trigger_run ::
  "trigger_service \<Rightarrow> trigger \<Rightarrow> delivery \<Rightarrow> vars \<Rightarrow> world \<Rightarrow> delivery \<times> world" where
  "start_trigger_run ts tr dl vars w =
     (case ts_start ts \<lparr>ri_template = tr_template tr, ri_trigger = tr_id tr, ri_delivery = dl_id dl,
             ri_vars = vars, ri_origin = OriginWebhook, ri_step_run = [], ri_worktree = []\<rparr> w of
        (Inl e, w') \<Rightarrow> fail_delivery dl (StartRunFailed e) w'
      | (Inr run, w') \<Rightarrow>
          (dl\<lparr>dl_run := Some (rn_id run)\<rparr>, snd (deliveries_set_run (dl_id dl) (rn_id run) w')))"

definition process_body ::
  "trigger_service \<Rightarrow> trigger \<Rightarrow> string \<Rightarrow> time \<Rightarrow> bool \<Rightarrow> delivery_reason \<Rightarrow> world \<Rightarrow> delivery result" where
  "process_body ts tr payload now force accepted_reason w =
     (let (u, w1) = new_uuid (ge_uuid (ts_env ts)) w;
          dl = \<lparr>dl_id = u, dl_trigger = tr_id tr, dl_received = now, dl_status = DeliveryAccepted,
                dl_reason = NoReason, dl_dedupe_key = [], dl_payload = truncate_payload payload, dl_run = None\<rparr>
      in case normalize (ts_env ts) (trigger_kind_text (tr_kind tr)) (dl_payload dl) of
           Inl e \<Rightarrow> record_delivery dl DeliveryRejected InvalidPayload w1
         | Inr vars \<Rightarrow>
             (case render_dedupe (ts_env ts) (tr_dedupe_template tr) (trigger_kind_text (tr_kind tr)) vars of
                Inl e \<Rightarrow> record_delivery dl DeliveryFailed DedupeKeyError w1
              | Inr key \<Rightarrow>
                  (let dl2 = dl\<lparr>dl_dedupe_key := key\<rparr>;
                       (st, reason, ok) = gate tr vars key now force w1
                   in if \<not> ok then record_delivery dl2 st reason w1
                      else (case record_delivery dl2 DeliveryAccepted accepted_reason w1 of
                              (Inl e, w2) \<Rightarrow> (Inl e, w2)
                            | (Inr dl3, w2) \<Rightarrow>
                                apfst Inr (case tr_pipeline tr of
                                   Some plid \<Rightarrow> start_trigger_pipeline ts tr plid dl3 vars w2
                                 | None \<Rightarrow> start_trigger_run ts tr dl3 vars w2)))))"

text \<open>\<open>process\<close>: the deferred \<open>TouchDelivery\<close> runs whatever the body returned.\<close>

definition process ::
  "trigger_service \<Rightarrow> trigger \<Rightarrow> string \<Rightarrow> time \<Rightarrow> bool \<Rightarrow> delivery_reason \<Rightarrow> world \<Rightarrow> delivery result" where
  "process ts tr payload now force accepted_reason w =
     (let (r, w') = process_body ts tr payload now force accepted_reason w
      in (r, snd (triggers_touch_delivery (tr_id tr) now w')))"

definition deliver :: "trigger_service \<Rightarrow> inbound \<Rightarrow> world \<Rightarrow> delivery result" where
  "deliver ts inb w =
     (if max_payload_bytes < length (ib_body inb) then (Inl ErrTooLarge, w)
      else case triggers_get_by_slug (ib_slug inb) w of
        Inl e \<Rightarrow> (Inl (if e = ErrNotFound then ErrUnknownTrigger else e), w)
      | Inr tr \<Rightarrow>
          (if \<not> tr_enabled tr then (Inl ErrUnknownTrigger, w)
           else if \<not> authenticate ts tr inb then (Inl ErrBadSecret, w)
           else process ts tr (ib_body inb) (case ib_now inb of None \<Rightarrow> wd_now w | Some t \<Rightarrow> t)
                  False NoReason w))"

definition default_delivery_limit :: int where "default_delivery_limit = 50"
definition max_delivery_limit :: int where "max_delivery_limit = 500"

definition clamp_limit :: "int \<Rightarrow> int \<Rightarrow> int \<Rightarrow> nat" where
  "clamp_limit def_limit max_limit n =
     nat (let m = (if n \<le> 0 then def_limit else n) in if max_limit < m then max_limit else m)"

definition list_deliveries :: "actor \<Rightarrow> id \<Rightarrow> int \<Rightarrow> world \<Rightarrow> error + delivery list" where
  "list_deliveries a tid limit w =
     (case get_trigger a tid w of
        Inl e \<Rightarrow> Inl e
      | Inr _ \<Rightarrow> Inr (deliveries_list_by_trigger tid
           (clamp_limit default_delivery_limit max_delivery_limit limit) w))"

definition replay :: "trigger_service \<Rightarrow> actor \<Rightarrow> id \<Rightarrow> world \<Rightarrow> delivery result" where
  "replay ts a did w =
     (case deliveries_get did w of
        Inl e \<Rightarrow> (Inl e, w)
      | Inr dl \<Rightarrow>
          (case mutable_trigger a (dl_trigger dl) w of
             Inl e \<Rightarrow> (Inl e, w)
           | Inr tr \<Rightarrow> process ts tr (dl_payload dl) (wd_now w) True (ReplayOf (dl_id dl)) w))"

definition test_trigger ::
  "trigger_service \<Rightarrow> actor \<Rightarrow> id \<Rightarrow> string \<Rightarrow> bool \<Rightarrow> world \<Rightarrow> delivery result" where
  "test_trigger ts a tid payload force w =
     (case mutable_trigger a tid w of
        Inl e \<Rightarrow> (Inl e, w)
      | Inr tr \<Rightarrow>
          (let payload' = (if payload = [] then sample_payload (ts_samples ts) (trigger_kind_text (tr_kind tr))
                           else payload)
           in process ts tr payload' (wd_now w) force (ReasonText ''test'') w))"

end
