(* ===== verification/Schedules.thy ===== *)
theory Schedules
  imports Triggers
begin

text \<open>
  The cron side: \<open>internal/schedules\<close>. The description of cron expressions (\<open>cron.go\<close>), the
  schedules and their ownership rules (\<open>crud.go\<close>) and the tick with its overlap check
  (\<open>tick.go\<close>). Parsing a trimmed expression into its \<open>Next\<close> function is \<open>robfig/cron\<close>'s and a
  parameter, as are the starter, the two lookups and \<open>time.Format\<close>.
\<close>

record schedule_service =
  sv_env :: go_env
  sv_cron :: "string \<Rightarrow> (time \<Rightarrow> time) option"
  sv_format :: "time \<Rightarrow> string"
  sv_start :: "run_input \<Rightarrow> world \<Rightarrow> run result"
  sv_lookup :: "id \<Rightarrow> world \<Rightarrow> error + run"
  sv_pipelines :: "pipeline_start option"
  sv_pipeline_runs :: "(id \<Rightarrow> world \<Rightarrow> error + bool) option"

section \<open>Cron expressions (cron.go)\<close>

definition parse_cron :: "schedule_service \<Rightarrow> string \<Rightarrow> error + (time \<Rightarrow> time)" where
  "parse_cron sv expr =
     (let trimmed = trim_space expr
      in if trimmed = [] then Inl (ErrInvalid ''cron expression is required'')
         else case sv_cron sv trimmed of
           None \<Rightarrow> Inl (ErrInvalid (''invalid cron expression '' @ go_quote expr))
         | Some nxt \<Rightarrow> Inr nxt)"

text \<open>\<open>strconv.Atoi\<close>: an optional sign and decimal digits, within \<open>int64\<close>.\<close>

definition is_digit :: "char \<Rightarrow> bool" where
  "is_digit c \<longleftrightarrow> (let n = of_char c :: nat in 48 \<le> n \<and> n \<le> 57)"

definition digits_value :: "string \<Rightarrow> int" where
  "digits_value s = foldl (\<lambda>v c. v * 10 + (of_char c - 48)) 0 s"

definition atoi :: "string \<Rightarrow> int option" where
  "atoi s =
     (let (neg, ds) = (case s of [] \<Rightarrow> (False, [])
            | c # r \<Rightarrow> if c = CHR ''-'' then (True, r) else if c = CHR ''+'' then (False, r) else (False, s));
          v = (if neg then - digits_value ds else digits_value ds)
      in if ds = [] \<or> \<not> list_all is_digit ds \<or> v < - (2 ^ 63) \<or> 2 ^ 63 \<le> v then None else Some v)"

definition every_n :: "string \<Rightarrow> int option" where
  "every_n field =
     (case cut_prefix field ''*/'' of
        None \<Rightarrow> None
      | Some rest \<Rightarrow> (case atoi rest of Some n \<Rightarrow> if n \<le> 0 then None else Some n | None \<Rightarrow> None))"

definition is_plain_number :: "string \<Rightarrow> bool" where
  "is_plain_number field \<longleftrightarrow> field \<noteq> [] \<and> atoi field \<noteq> None"

definition atoi_or_zero :: "string \<Rightarrow> int" where
  "atoi_or_zero field = (case atoi field of Some n \<Rightarrow> n | None \<Rightarrow> 0)"

definition pad2 :: "string \<Rightarrow> string" where
  "pad2 field = (let s = show_int (atoi_or_zero field) in if length s < 2 then CHR ''0'' # s else s)"

definition weekday_names :: "string list" where
  "weekday_names = [''Sunday'', ''Monday'', ''Tuesday'', ''Wednesday'', ''Thursday'', ''Friday'', ''Saturday'']"

text \<open>Go's remainder takes the sign of the dividend; adding 7 to a negative one is \<open>mod\<close>.\<close>

definition weekday_name :: "string \<Rightarrow> string" where
  "weekday_name field = weekday_names ! nat (atoi_or_zero field mod 7)"

definition describe_fields :: "string \<Rightarrow> string \<Rightarrow> string \<Rightarrow> string \<Rightarrow> string \<Rightarrow> string \<Rightarrow> string" where
  "describe_fields trimmed mi ho dm mo dw =
     (let rest = (dm = ''*'' \<and> mo = ''*'' \<and> dw = ''*'')
      in if mi = ''*'' \<and> ho = ''*'' \<and> rest then ''every minute''
         else if rest \<and> ho = ''*'' then
           (case every_n mi of
              Some n \<Rightarrow> ''every '' @ show_int n @ '' minutes''
            | None \<Rightarrow> if is_plain_number mi then ''every hour at :'' @ pad2 mi else trimmed)
         else if rest \<and> is_plain_number mi \<and> is_plain_number ho then
           ''every day at '' @ pad2 ho @ '':'' @ pad2 mi
         else if dm = ''*'' \<and> mo = ''*'' \<and> is_plain_number mi \<and> is_plain_number ho \<and> is_plain_number dw then
           ''every '' @ weekday_name dw @ '' at '' @ pad2 ho @ '':'' @ pad2 mi
         else trimmed)"

definition describe_cron :: "string \<Rightarrow> string" where
  "describe_cron expr =
     (let trimmed = trim_space expr
      in if trimmed = ''@hourly'' then ''every hour''
         else if trimmed = ''@daily'' \<or> trimmed = ''@midnight'' then ''every day at 00:00''
         else if trimmed = ''@weekly'' then ''every Sunday at 00:00''
         else if trimmed = ''@monthly'' then ''on the 1st of the mo at 00:00''
         else if trimmed = ''@yearly'' \<or> trimmed = ''@annually'' then ''once a year on Jan 1 at 00:00''
         else case cut_prefix trimmed ''@every '' of
           Some rest \<Rightarrow> ''every '' @ trim_space rest
         | None \<Rightarrow>
             (case go_fields trimmed of
                [mi, ho, dm, mo, dw] \<Rightarrow> describe_fields trimmed mi ho dm mo dw
              | _ \<Rightarrow> trimmed))"

definition preview_count :: nat where "preview_count = 5"

fun next_times :: "(time \<Rightarrow> time) \<Rightarrow> nat \<Rightarrow> time \<Rightarrow> time list" where
  "next_times nxt 0 t = []"
| "next_times nxt (Suc n) t = nxt t # next_times nxt n (nxt t)"

definition preview :: "schedule_service \<Rightarrow> string \<Rightarrow> world \<Rightarrow> error + (time list \<times> string)" where
  "preview sv expr w =
     (case parse_cron sv expr of
        Inl e \<Rightarrow> Inl e
      | Inr nxt \<Rightarrow> Inr (next_times nxt preview_count (wd_now w), describe_cron expr))"

section \<open>Schedules (crud.go, schedules.go)\<close>

definition schedule_constraint :: "error \<Rightarrow> error" where
  "schedule_constraint = wrap_fk ''unknown template''"

definition validate_vars :: "schedule_service \<Rightarrow> string \<Rightarrow> error + string" where
  "validate_vars sv raw =
     (if trim_space raw = [] then Inr ''{}''
      else case unmarshal_object (sv_env sv) raw of
        None \<Rightarrow> Inl (ErrInvalid ''vars must be a JSON object'')
      | Some _ \<Rightarrow> Inr raw)"

text \<open>The checks \<open>Create\<close> and \<open>Update\<close> share, in their order: name, target, cron, vars.\<close>

definition validate_schedule ::
  "schedule_service \<Rightarrow> schedule_input \<Rightarrow> error + (time \<Rightarrow> time) \<times> string" where
  "validate_schedule sv inp =
     (if trim_space (sin_name inp) = [] then Inl (ErrInvalid ''name is required'')
      else case validate_target (sin_template inp) (sin_pipeline inp) of
        Some e \<Rightarrow> Inl e
      | None \<Rightarrow>
          (case parse_cron sv (sin_cron inp) of
             Inl e \<Rightarrow> Inl e
           | Inr nxt \<Rightarrow>
               (case validate_vars sv (sin_vars inp) of Inl e \<Rightarrow> Inl e | Inr vars \<Rightarrow> Inr (nxt, vars))))"

definition create_schedule :: "schedule_service \<Rightarrow> actor \<Rightarrow> schedule_input \<Rightarrow> world \<Rightarrow> schedule result" where
  "create_schedule sv a inp w =
     (case validate_schedule sv inp of
        Inl e \<Rightarrow> (Inl e, w)
      | Inr (nxt, vars) \<Rightarrow>
          (let (u, w1) = new_uuid (ge_uuid (sv_env sv)) w;
               sc = \<lparr>sc_id = u, sc_owner = owner_for a (sin_shared inp), sc_name = trim_space (sin_name inp),
                     sc_template = sin_template inp, sc_pipeline = empty_to_null (sin_pipeline inp),
                     sc_cron = sin_cron inp,
                     sc_enabled = (sin_enabled inp = None \<or> sin_enabled inp = Some True),
                     sc_vars = vars, sc_last_run = None, sc_last_outcome = [],
                     sc_next_run = Some (nxt (wd_now w)), sc_created = wd_now w, sc_updated = wd_now w\<rparr>
           in case schedules_create sc w1 of
                (Inl e, w2) \<Rightarrow> (Inl (schedule_constraint e), w2)
              | (Inr _, w2) \<Rightarrow> (Inr sc, w2)))"

definition list_schedules :: "actor \<Rightarrow> world \<Rightarrow> schedule list" where
  "list_schedules a w = schedules_list_visible (ac_user a) (ac_admin a) w"

definition get_schedule :: "actor \<Rightarrow> id \<Rightarrow> world \<Rightarrow> error + schedule" where
  "get_schedule = get_visible schedules_get sc_owner"

definition mutable_schedule :: "actor \<Rightarrow> id \<Rightarrow> world \<Rightarrow> error + schedule" where
  "mutable_schedule = get_mutable schedules_get sc_owner"

definition update_schedule ::
  "schedule_service \<Rightarrow> actor \<Rightarrow> id \<Rightarrow> schedule_input \<Rightarrow> world \<Rightarrow> schedule result" where
  "update_schedule sv a i inp w =
     (case mutable_schedule a i w of
        Inl e \<Rightarrow> (Inl e, w)
      | Inr existing \<Rightarrow>
     (case validate_schedule sv inp of
        Inl e \<Rightarrow> (Inl e, w)
      | Inr (nxt, vars) \<Rightarrow>
          (let cron_changed = (sc_cron existing \<noteq> sin_cron inp);
               updated = existing\<lparr>
                 sc_owner := (if ac_admin a \<and> sin_shared inp then None else sc_owner existing),
                 sc_name := trim_space (sin_name inp), sc_template := sin_template inp,
                 sc_pipeline := empty_to_null (sin_pipeline inp), sc_cron := sin_cron inp,
                 sc_vars := vars,
                 sc_enabled := (case sin_enabled inp of None \<Rightarrow> sc_enabled existing | Some b \<Rightarrow> b),
                 sc_updated := wd_now w,
                 sc_next_run := (if cron_changed then Some (nxt (wd_now w)) else sc_next_run existing)\<rparr>
           in case schedules_update updated w of
                (Inl e, w1) \<Rightarrow> (Inl (schedule_constraint e), w1)
              | (Inr _, w1) \<Rightarrow>
                  (if cron_changed then
                     (case schedules_set_next_run (sc_id updated) (sc_next_run updated) w1 of
                        (Inl e, w2) \<Rightarrow> (Inl e, w2) | (Inr _, w2) \<Rightarrow> (Inr updated, w2))
                   else (Inr updated, w1)))))"

definition delete_schedule :: "actor \<Rightarrow> id \<Rightarrow> world \<Rightarrow> unit result" where
  "delete_schedule a i w =
     (case mutable_schedule a i w of Inl e \<Rightarrow> (Inl e, w) | Inr _ \<Rightarrow> schedules_delete i w)"

definition default_firing_limit :: int where "default_firing_limit = 50"
definition max_firing_limit :: int where "max_firing_limit = 500"

definition schedule_firings :: "actor \<Rightarrow> id \<Rightarrow> int \<Rightarrow> world \<Rightarrow> error + firing list" where
  "schedule_firings a i limit w =
     (case get_schedule a i w of
        Inl e \<Rightarrow> Inl e
      | Inr _ \<Rightarrow> Inr (firings_list i (clamp_limit default_firing_limit max_firing_limit limit) w))"

section \<open>The tick (tick.go)\<close>

definition tick_interval :: duration where "tick_interval = 30 * second"

text \<open>
  \<open>mergeVars\<close>. Decoding JSON null into the map leaves it nil, and assigning \<open>vars["schedule"]\<close>
  panics; the outer \<open>None\<close> of this and the following definitions is that panic.
\<close>

definition merge_vars :: "schedule_service \<Rightarrow> string \<Rightarrow> string \<Rightarrow> time \<Rightarrow> (error + vars) option" where
  "merge_vars sv raw name fired =
     (let entry = JObj [(''name'', JStr name), (''fired_at'', JStr (sv_format sv fired))]
      in if raw = [] then Some (Inr [(''schedule'', entry)])
         else case ge_unmarshal (sv_env sv) raw of
           Some (JObj kvs) \<Rightarrow> Some (Inr (var_set ''schedule'' entry kvs))
         | Some JNull \<Rightarrow> None
         | _ \<Rightarrow> Some (Inl (ErrInvalid ''schedule vars'')))"

definition record_firing ::
  "schedule_service \<Rightarrow> id \<Rightarrow> time \<Rightarrow> firing_status \<Rightarrow> firing_reason \<Rightarrow> id option \<Rightarrow> world \<Rightarrow> world" where
  "record_firing sv sid fired st reason rid w =
     (let (u, w1) = new_uuid (ge_uuid (sv_env sv)) w
      in snd (firings_create \<lparr>fr_id = u, fr_schedule = sid, fr_fired = fired, fr_status = st,
           fr_reason = reason, fr_run = rid\<rparr> w1))"

definition finish_firing ::
  "schedule_service \<Rightarrow> id \<Rightarrow> time \<Rightarrow> firing_status \<Rightarrow> firing_reason \<Rightarrow> id option \<Rightarrow> string \<Rightarrow> world \<Rightarrow> world" where
  "finish_firing sv sid fired st reason rid outcome w =
     snd (schedules_record_run sid fired outcome (record_firing sv sid fired st reason rid w))"

definition pipeline_stand_in :: "id \<Rightarrow> time \<Rightarrow> run" where
  "pipeline_stand_in ref started =
     \<lparr>rn_id = ref, rn_session = [], rn_template = None, rn_trigger = None, rn_delivery = None,
      rn_origin = OriginSchedule, rn_step_run = None, rn_loop = [], rn_iteration = 0,
      rn_started = started, rn_finished = None, rn_outcome = RunRunning, rn_report = [],
      rn_summary = [], rn_cost = 0\<rparr>"

definition start_schedule_pipeline ::
  "schedule_service \<Rightarrow> schedule \<Rightarrow> id \<Rightarrow> vars \<Rightarrow> time \<Rightarrow> world \<Rightarrow> run result" where
  "start_schedule_pipeline sv sc plid vars fired w =
     (case sv_pipelines sv of
        None \<Rightarrow> (Inl (ErrConflict ''pipelines are not available''),
                 finish_firing sv (sc_id sc) fired FiringFailed PipelinesNotAvailable None ''failed'' w)
      | Some start \<Rightarrow>
          (case start service_actor plid vars OriginSchedule (sc_id sc) w of
             (Inl e, w') \<Rightarrow> (Inl e, finish_firing sv (sc_id sc) fired FiringFailed (FiringError e) None ''failed'' w')
           | (Inr pr, w') \<Rightarrow>
               (let ref = PipelineRunRefPrefix @ pr_id pr
                in (Inr (pipeline_stand_in ref (pr_started pr)),
                    finish_firing sv (sc_id sc) fired FiringStarted NoFiringReason (Some ref) ''started'' w'))))"

definition start_and_record ::
  "schedule_service \<Rightarrow> schedule \<Rightarrow> time \<Rightarrow> world \<Rightarrow> (error + run) option \<times> world" where
  "start_and_record sv sc fired w =
     (case merge_vars sv (sc_vars sc) (sc_name sc) fired of
        None \<Rightarrow> (None, w)
      | Some (Inl e) \<Rightarrow>
          (Some (Inl e), finish_firing sv (sc_id sc) fired FiringFailed (FiringError e) None ''failed'' w)
      | Some (Inr vars) \<Rightarrow>
          apfst Some (case sc_pipeline sc of
             Some plid \<Rightarrow> start_schedule_pipeline sv sc plid vars fired w
           | None \<Rightarrow>
               (case sv_start sv \<lparr>ri_template = sc_template sc, ri_trigger = [], ri_delivery = [],
                       ri_vars = vars, ri_origin = OriginSchedule, ri_step_run = [], ri_worktree = []\<rparr> w of
                  (Inl e, w') \<Rightarrow>
                    (Inl e, finish_firing sv (sc_id sc) fired FiringFailed (FiringError e) None ''failed'' w')
                | (Inr run, w') \<Rightarrow>
                    (Inr run, finish_firing sv (sc_id sc) fired FiringStarted NoFiringReason
                       (Some (rn_id run)) ''started'' w'))))"

definition overlapping :: "schedule_service \<Rightarrow> id \<Rightarrow> world \<Rightarrow> bool" where
  "overlapping sv sid w =
     (case firings_last_started sid w of
        Inl e \<Rightarrow> False
      | Inr rid \<Rightarrow>
          (case cut_prefix rid PipelineRunRefPrefix of
             Some ref \<Rightarrow>
               (case sv_pipeline_runs sv of
                  None \<Rightarrow> False
                | Some is_running \<Rightarrow> (case is_running ref w of Inl e \<Rightarrow> False | Inr b \<Rightarrow> b))
           | None \<Rightarrow>
               (case sv_lookup sv rid w of Inl e \<Rightarrow> False | Inr r \<Rightarrow> rn_outcome r = RunRunning)))"

definition run_now :: "schedule_service \<Rightarrow> actor \<Rightarrow> id \<Rightarrow> world \<Rightarrow> (error + run) option \<times> world" where
  "run_now sv a i w =
     (case mutable_schedule a i w of
        Inl e \<Rightarrow> (Some (Inl e), w)
      | Inr sc \<Rightarrow> start_and_record sv sc (wd_now w) w)"

definition set_next :: "schedule_service \<Rightarrow> schedule \<Rightarrow> time \<Rightarrow> world \<Rightarrow> world" where
  "set_next sv sc now w =
     (case parse_cron sv (sc_cron sc) of
        Inl e \<Rightarrow> snd (schedules_set_next_run (sc_id sc) None w)
      | Inr nxt \<Rightarrow> snd (schedules_set_next_run (sc_id sc) (Some (nxt now)) w))"

text \<open>\<open>tickOne\<close>: whether it returned (rather than panicked), and the world.\<close>

definition tick_one :: "schedule_service \<Rightarrow> time \<Rightarrow> schedule \<Rightarrow> world \<Rightarrow> bool \<times> world" where
  "tick_one sv now sc w =
     (if overlapping sv (sc_id sc) w
      then (True, set_next sv sc now
              (record_firing sv (sc_id sc) now FiringSkippedOverlap PreviousStillRunning None w))
      else case start_and_record sv sc now w of
        (None, w') \<Rightarrow> (False, w')
      | (Some r, w') \<Rightarrow> (True, set_next sv sc now w'))"

fun tick_all :: "schedule_service \<Rightarrow> time \<Rightarrow> schedule list \<Rightarrow> world \<Rightarrow> bool \<times> world" where
  "tick_all sv now [] w = (True, w)"
| "tick_all sv now (sc # scs) w =
     (case tick_one sv now sc w of (False, w') \<Rightarrow> (False, w') | (True, w') \<Rightarrow> tick_all sv now scs w')"

definition schedules_tick :: "schedule_service \<Rightarrow> time \<Rightarrow> world \<Rightarrow> bool \<times> world" where
  "schedules_tick sv now w = tick_all sv now (schedules_list_due now w) w"

end
