(* ===== verification/Wiring.thy ===== *)
theory Wiring
  imports Pipeline_Properties Run_Frame Schedules
begin

text \<open>
  The composition of the services (\<open>cmd/styr/wire.go\<close>): the pipeline executor starts steps through the
  run engine and closes sessions through the sessions service; triggers and schedules start runs
  through the engine and pipelines through the executor. The contracts of the interfaces are
  discharged here on the composed services.
\<close>

section \<open>Starting a pipeline, as its callers see it\<close>

text \<open>
  The contract of \<open>PipelineStarter\<close>: a start writes no configuration, and a started pipeline run has
  a row.
\<close>

locale pipeline_starter =
  fixes start :: pipeline_start
  assumes pipeline_keeps_config: "start a i input origin oref w = (r, w') \<Longrightarrow> keeps_config w w'"
    and pipeline_keeps_uuids: "start a i input origin oref w = (r, w') \<Longrightarrow> wd_uuids w \<le> wd_uuids w'"
    and pipeline_recorded: "start a i input origin oref w = (Inr pr, w') \<Longrightarrow>
      pr_id pr \<in> pr_id ` set (wd_pipeline_runs w')"

definition config_frame :: "world \<Rightarrow> world \<Rightarrow> bool" where
  "config_frame w w' \<longleftrightarrow> keeps_config w w' \<and> wd_uuids w \<le> wd_uuids w' \<and>
     pr_id ` set (wd_pipeline_runs w) \<subseteq> pr_id ` set (wd_pipeline_runs w')"

lemma config_frame_refl [simp]: "config_frame w w"
  by (simp add: config_frame_def)

lemma config_frame_trans: "config_frame a b \<Longrightarrow> config_frame b c \<Longrightarrow> config_frame a c"
  by (auto simp: config_frame_def keeps_config_def)

lemma config_frame_step: "config_frame v (snd (f v)) \<Longrightarrow> f v = (r, v') \<Longrightarrow> config_frame w v \<Longrightarrow> config_frame w v'"
  using config_frame_trans by fastforce

lemma step_config_frame: "step_frame w w' \<Longrightarrow> config_frame w w'"
  by (auto simp: step_frame_def config_frame_def)

lemma config_frame_publish [simp]: "config_frame w (publish_state ex p s t v) = config_frame w v"
  by (auto simp: publish_state_def publish_def config_frame_def keeps_config_def)

lemma config_frame_create_step_run: "config_frame w (snd (create_step_run ex p k i item n w))"
  by (simp add: create_step_run_def new_uuid_def step_runs_create_def Let_def config_frame_def keeps_config_def)

lemma config_frame_set_step_state: "config_frame w (set_step_state ex sr st rep wt w)"
  by (rule step_config_frame) simp

lemma config_frame_mark_running: "config_frame w (mark_running ex pr sr path r w)"
  by (auto simp: mark_running_def step_runs_update_def Let_def config_frame_def keeps_config_def
      publish_state_def publish_def split: sum.split)

lemma config_frame_failed_row: "config_frame w (create_failed_step_run ex p k reason w)"
  by (simp add: create_failed_step_run_def new_uuid_def step_runs_create_def Let_def config_frame_def
      keeps_config_def publish_state_def publish_def)

lemma config_frame_marker: "config_frame w (snd (create_empty_marker ex p k w))"
  by (simp add: create_empty_marker_def new_uuid_def step_runs_create_def Let_def config_frame_def
      keeps_config_def publish_state_def publish_def)

lemma config_frame_create_step_run': "create_step_run ex p k i item n w = (r, w') \<Longrightarrow> config_frame w w'"
  using config_frame_create_step_run[of w ex p k i item n] by simp

lemma config_frame_items: "config_frame w (snd (create_items ex p k i items w))"
proof (induction items arbitrary: i w)
  case (Cons item items)
  obtain r w1 where w1: "create_step_run ex p k i
      (case ge_marshal (ex_env ex) item of Some s \<Rightarrow> s | None \<Rightarrow> go_quote []) 1 w = (r, w1)" by fastforce
  note f = config_frame_create_step_run'[OF w1]
  show ?case using f config_frame_trans[OF f Cons.IH] by (cases r) (simp_all add: w1 del: One_nat_def)
qed simp

lemma config_frame_expand: "config_frame w (snd (expand ex pr d st cur w))"
  by (auto simp: expand_def config_frame_failed_row config_frame_marker config_frame_items
      dest: config_frame_create_step_run' split: sum.split prod.split)

lemma image_tbl_update: "(\<And>r. g (f r) = g r) \<Longrightarrow> g ` set (tbl_update key i f t) = g ` set t"
  using map_tbl_update[of g f key i t] by (metis list.set_map)

lemma config_frame_finish_run: "config_frame w (finish_run ex pr st w)"
  by (simp add: finish_run_def pipeline_runs_finish_def config_frame_def keeps_config_def image_tbl_update
      publish_state_def publish_def)

context pipeline_executor
begin

lemma config_frame_start: "ex_start ex inp w = (r, w') \<Longrightarrow> config_frame w w'"
  using start_frame(1) step_config_frame by blast

lemma config_frame_start_step: "config_frame w (start_step ex pr d st cur lookup sr w)"
proof -
  have f: "config_frame w (fail_step ex sr reason w)" for reason
    by (simp add: fail_step_def config_frame_set_step_state)
  show ?thesis
  proof (cases "case lookup of None \<Rightarrow> Some (st_template st) | Some g \<Rightarrow> g (st_template st)")
    case None
    then show ?thesis by (simp add: start_step_def f)
  next
    case (Some tid)
    let ?vs = "if sr_item sr \<noteq> [] then var_set ''item'' (decode_item ex (sr_item sr)) (vars_for ex pr d cur)
      else vars_for ex pr d cur"
    show ?thesis
    proof (cases "render_with ex (st_with st) ?vs")
      case (Inl reason)
      then show ?thesis by (simp add: start_step_def Some f Let_def)
    next
      case (Inr vs)
      let ?path = "if st_worktree st = ''shared'' then shared_worktree cur (st_needs st) else []"
      let ?inp = "\<lparr>ri_template = tid, ri_trigger = [], ri_delivery = [], ri_vars = vs, ri_origin = OriginPipeline,
        ri_step_run = sr_id sr, ri_worktree = ?path\<rparr>"
      obtain r v where e: "ex_start ex ?inp w = (r, v)" by fastforce
      have "start_step ex pr d st cur lookup sr w = (case r of
          Inl err \<Rightarrow> fail_step ex sr (''start run: '' @ error_text err) v
        | Inr run \<Rightarrow> mark_running ex pr sr ?path run v)"
        by (simp only: start_step_def Some Inr e Let_def option.case sum.case prod.case)
      moreover have "config_frame v (fail_step ex sr reason v)" for reason
        by (simp add: fail_step_def config_frame_set_step_state)
      ultimately show ?thesis
        using config_frame_trans[OF config_frame_start[OF e]] config_frame_mark_running by (cases r) simp_all
    qed
  qed
qed

lemma config_frame_start_pending: "config_frame w (start_pending ex pr d lookup st cur w)"
proof -
  have "config_frame w (foldl (\<lambda>w sr. if sr_step sr = st_id st \<and> sr_state sr = StepRunPending
      then start_step ex pr d st cur lookup sr w else w) v rows)" if "config_frame w v" for v rows
    using that
  proof (induction rows arbitrary: v)
    case (Cons sr rows)
    then show ?case using config_frame_trans[OF Cons.prems config_frame_start_step] by simp
  qed simp
  then show ?thesis by (simp add: start_pending_def)
qed

lemma config_frame_advance_steps: "config_frame w (snd (advance_steps ex pr d lookup steps cur w))"
proof (induction steps arbitrary: cur w)
  case (Cons st steps)
  obtain ok w1 where e: "(if state_of cur (st_id st) = NodeAbsent then expand ex pr d st cur w else (True, w)) = (ok, w1)"
    by fastforce
  then have w1: "config_frame w w1" using config_frame_expand[of w ex pr d st cur] by (auto split: if_splits)
  show ?case
    using Cons.IH config_frame_trans[OF w1 Cons.IH] config_frame_trans[OF w1]
      config_frame_trans[OF config_frame_start_pending Cons.IH]
    by (simp add: e Let_def)
qed simp

lemma config_frame_stop_steps: "config_frame w (stop_steps ex cur p q w)"
proof -
  have one: "config_frame v (stop_step ex p q v sr)" for v sr
    using config_frame_trans[OF config_frame_set_step_state step_config_frame[OF close_step_session_frame(1)]]
    by (auto simp: stop_step_def config_frame_set_step_state split: step_run_state.split)
  have "config_frame w (foldl (stop_step ex p q) v rows)" if "config_frame w v" for v rows
    using that
  proof (induction rows arbitrary: v)
    case (Cons sr rows)
    then show ?case using config_frame_trans[OF Cons.prems one] by simp
  qed simp
  then show ?thesis by (simp add: stop_steps_def)
qed

lemma config_frame_settle: "config_frame w (settle ex pr cur w)"
  using config_frame_trans[OF config_frame_stop_steps config_frame_finish_run]
  by (simp add: settle_def config_frame_finish_run)

lemma config_frame_advance: "config_frame w (advance ex p w)"
proof -
  have "config_frame w (settle ex pr cur w')" if "advance_steps ex pr d lookup steps cur0 w = (cur, w')"
    for pr d lookup steps cur0 cur w'
    using config_frame_trans[OF _ config_frame_settle] config_frame_advance_steps[of w pr d lookup steps cur0] that
    by fastforce
  then show ?thesis
    by (auto simp: advance_def config_frame_finish_run split: sum.split option.split prod.split)
qed

lemma config_frame_create_pending: "config_frame w (snd (create_pending ex p steps w))"
proof (induction steps arbitrary: w)
  case (Cons st steps)
  obtain r w1 where w1: "create_step_run ex p (st_id st) 0 [] 1 w = (r, w1)" by fastforce
  note f = config_frame_create_step_run'[OF w1]
  show ?case using f config_frame_trans[OF f Cons.IH] Cons.IH by (cases r) (simp_all add: w1 del: One_nat_def)
qed simp

lemma start_pipeline_frame:
  assumes "start_pipeline ex a i input origin oref w = (r, w')"
  shows "config_frame w w' \<and> (\<forall>pr. r = Inr pr \<longrightarrow> pr_id pr \<in> pr_id ` set (wd_pipeline_runs w'))"
proof -
  consider (same) e where "w' = w" "r = Inl e"
    | (more) pl payload where "get_pipeline a i w = Inr pl" "fst (ex_validate ex a (pl_workspace pl) (pl_yaml pl) w) = []"
        "ge_marshal (ex_env ex) (JObj input) = Some payload"
    using assms by (auto simp: start_pipeline_def Let_def split: sum.splits option.splits if_splits)
  then show ?thesis
  proof cases
    case same
    then show ?thesis by simp
  next
    case more
    obtain u w1 where u: "new_uuid (ge_uuid (ex_env ex)) w = (u, w1)" by fastforce
    define pr where "pr = \<lparr>pr_id = u, pr_pipeline = pl_id pl, pr_origin = (if origin = [] then OriginUI else origin),
      pr_origin_ref = oref, pr_input = payload, pr_state = PipelineRunRunning, pr_started = wd_now w,
      pr_finished = None, pr_cost = 0\<rparr>"
    define steps where "steps = df_steps (fst (ex_parse ex (pl_yaml pl)))"
    have body: "(r, w') = (case pipeline_runs_create pr w1 of
        (Inl e, w2) \<Rightarrow> (Inl e, w2)
      | (Inr _, w2) \<Rightarrow>
          (case create_pending ex u steps w2 of
             (Inl e, w3) \<Rightarrow> (Inl e, w3)
           | (Inr _, w3) \<Rightarrow>
               (Inr pr, advance ex u (publish_state ex u [] (pipeline_run_state_text PipelineRunRunning) w3))))"
      unfolding assms[symmetric] start_pipeline_def pr_def steps_def
      by (simp only: more sum.case option.case Let_def u prod.case simp_thms if_False HOL.refl)
    have w1: "config_frame w w1"
      using u by (auto simp: new_uuid_def config_frame_def keeps_config_def)
    show ?thesis
    proof (cases "\<exists>e. pipeline_runs_create pr w1 = (Inl e, w1)")
      case True
      with body w1 show ?thesis by auto
    next
      case False
      then obtain w2 where c: "pipeline_runs_create pr w1 = (Inr (), w2)" "config_frame w1 w2"
        "u \<in> pr_id ` set (wd_pipeline_runs w2)"
        by (auto simp: pipeline_runs_create_def config_frame_def keeps_config_def pr_def split: if_splits)
      obtain r3 w3 where w3: "create_pending ex u steps w2 = (r3, w3)" by fastforce
      have f3: "config_frame w2 w3" using config_frame_create_pending[of w2 u steps] w3 by simp
      let ?v = "publish_state ex u [] (pipeline_run_state_text PipelineRunRunning) w3"
      have f4: "config_frame w2 (advance ex u ?v)"
        using config_frame_trans[OF _ config_frame_advance, of w2 ?v] f3 by simp
      show ?thesis
      proof (cases r3)
        case (Inl e)
        with body c w3 show ?thesis
          using config_frame_trans[OF config_frame_trans[OF w1 c(2)] f3] by auto
      next
        case (Inr x)
        with body c w3 have "r = Inr pr" "w' = advance ex u ?v" by auto
        then show ?thesis
          using config_frame_trans[OF config_frame_trans[OF w1 c(2)] f4] f4 c(3)
          by (auto simp: config_frame_def pr_def)
      qed
    qed
  qed
qed

lemma starts_pipelines: "pipeline_starter (start_pipeline ex)"
proof
  fix a i input origin oref w r w' assume "start_pipeline ex a i input origin oref w = (r, w')"
  from start_pipeline_frame[OF this] show "keeps_config w w'" "wd_uuids w \<le> wd_uuids w'"
    by (simp_all add: config_frame_def)
next
  fix a i input origin oref w pr w' assume "start_pipeline ex a i input origin oref w = (Inr pr, w')"
  from start_pipeline_frame[OF this] show "pr_id pr \<in> pr_id ` set (wd_pipeline_runs w')" by simp
qed

end

section \<open>The composed services\<close>

text \<open>
  What the deployment fixes: the engine with its sessions service, the parser of pipeline YAML, the
  cron parser, the hash and random source, the sample payloads and the seeds.
\<close>

record deployment =
  dp_engine :: engine
  dp_yaml :: "string \<Rightarrow> string + raw_definition"
  dp_duration :: "string \<Rightarrow> duration option"
  dp_parse_ok :: "string \<Rightarrow> bool"
  dp_sha256 :: "string \<Rightarrow> string"
  dp_random :: "nat \<Rightarrow> string"
  dp_samples :: samples
  dp_seeds :: "seed list"
  dp_cron :: "string \<Rightarrow> (time \<Rightarrow> time) option"
  dp_format :: "time \<Rightarrow> string"

definition wired_executor :: "deployment \<Rightarrow> executor" where
  "wired_executor dp =
     \<lparr>ex_env = en_env (dp_engine dp), ex_yaml = dp_yaml dp, ex_duration = dp_duration dp,
      ex_parse_ok = dp_parse_ok dp, ex_start = start_run (dp_engine dp),
      ex_sessions = Some (interrupt_session (en_sessions (dp_engine dp)) service_actor,
        close_session (en_sessions (dp_engine dp)) service_actor),
      ex_templates = Some repo_templates, ex_has_sessions_repo = True, ex_has_bus = True,
      ex_has_workspaces = True\<rparr>"

definition wired_triggers :: "deployment \<Rightarrow> trigger_service" where
  "wired_triggers dp =
     \<lparr>ts_env = en_env (dp_engine dp), ts_start = start_run (dp_engine dp),
      ts_pipelines = Some (start_pipeline (wired_executor dp)), ts_sha256 = dp_sha256 dp,
      ts_random = dp_random dp, ts_samples = dp_samples dp, ts_seeds = dp_seeds dp\<rparr>"

definition wired_schedules :: "deployment \<Rightarrow> schedule_service" where
  "wired_schedules dp =
     \<lparr>sv_env = en_env (dp_engine dp), sv_cron = dp_cron dp, sv_format = dp_format dp,
      sv_start = start_run (dp_engine dp),
      sv_lookup = (\<lambda>i w. map_sum (\<lambda>e. e) rv_run (get_run_details (dp_engine dp) i w)),
      sv_pipelines = Some (start_pipeline (wired_executor dp)),
      sv_pipeline_runs = Some is_running\<rparr>"

interpretation wired: pipeline_executor "wired_executor dp" for dp
  by (rule pipeline_executor.intro)
    (auto simp: wired_executor_def intro: engine_starter.run_starter_axioms sessions_closer.session_closer_axioms)

interpretation wired_pipelines: pipeline_starter "start_pipeline (wired_executor dp)" for dp
  by (rule wired.starts_pipelines)

end
