(* ===== verification/Trigger_Proofs.thy ===== *)
theory Trigger_Proofs
  imports Wiring
begin

text \<open>
  Lemmas about the webhook pipeline: slugs and secrets, the gate, and what processing one delivery does
  to the tables, the last under the contract of the starters the service was built with.
\<close>

section \<open>Slugs\<close>

lemma slug_strip_chars: "set (slug_strip s) \<subseteq> {c. slug_char c} \<union> {CHR ''-''}"
proof (induction s rule: slug_strip.induct)
  case (2 c s)
  then show ?case by (cases "slug_char c"; cases s) (auto simp del: slug_strip.simps(2) simp: slug_strip.simps(2)[of c])
qed simp

lemma slug_char_dash [simp]: "\<not> slug_char (CHR ''-'')"
  by (simp add: slug_char_def)

text \<open>No two dashes in a row.\<close>

fun no_double_dash :: "string \<Rightarrow> bool" where
  "no_double_dash (c # d # s) = (\<not> (c = CHR ''-'' \<and> d = CHR ''-'') \<and> no_double_dash (d # s))"
| "no_double_dash _ = True"

lemma no_double_dash_Cons: "no_double_dash (c # s) \<longleftrightarrow> no_double_dash s \<and> \<not> (c = CHR ''-'' \<and> s \<noteq> [] \<and> hd s = CHR ''-'')"
  by (cases s) auto

lemma no_double_dash_strip: "no_double_dash (slug_strip s)"
proof (induction s rule: slug_strip.induct)
  case (2 c s)
  show ?case
  proof (cases "slug_char c")
    case True
    then have "c \<noteq> CHR ''-''" by auto
    with True 2(1) show ?thesis by (simp add: no_double_dash_Cons)
  next
    case False
    show ?thesis
    proof (cases s)
      case (Cons d t)
      with False 2 show ?thesis by (auto simp: no_double_dash_Cons)
    qed (simp add: False)
  qed
qed simp

lemma no_double_dash_append: "no_double_dash (a @ b) \<Longrightarrow> no_double_dash a \<and> no_double_dash b"
proof (induction a)
  case (Cons c a)
  then show ?case by (cases a) (auto simp: no_double_dash_Cons)
qed simp

lemma trim_func_infix: "\<exists>a b. s = a @ trim_func p s @ b"
proof -
  let ?l = "dropWhile p s"
  have "?l = rev (dropWhile p (rev ?l)) @ rev (takeWhile p (rev ?l))"
    by (metis rev_append rev_rev_ident takeWhile_dropWhile_id)
  then have "s = takeWhile p s @ trim_func p s @ rev (takeWhile p (rev ?l))"
    by (metis takeWhile_dropWhile_id trim_func_def trim_left_def trim_right_def)
  then show ?thesis by blast
qed

definition slug_ok :: "string \<Rightarrow> bool" where
  "slug_ok s \<longleftrightarrow> s \<noteq> [] \<and> length s \<le> max_slug_len \<and> set s \<subseteq> {c. slug_char c} \<union> {CHR ''-''} \<and>
     hd s \<noteq> CHR ''-'' \<and> last s \<noteq> CHR ''-'' \<and> no_double_dash s"

lemma slug_ok_trigger: "slug_ok ''trigger''"
  by code_simp

lemma trimmed_slug:
  assumes "set t \<subseteq> {c. slug_char c} \<union> {CHR ''-''}" and "no_double_dash t"
    and "trim_dashes t \<noteq> []" and "length (trim_dashes t) \<le> max_slug_len"
  shows "slug_ok (trim_dashes t)"
proof -
  obtain a b where "t = a @ trim_dashes t @ b"
    unfolding trim_dashes_def using trim_func_infix[of t "\<lambda>c. c = CHR ''-''"] by blast
  then have "no_double_dash (trim_dashes t)" "set (trim_dashes t) \<subseteq> set t"
    using assms(2) no_double_dash_append by (metis, metis Un_iff set_append subsetI)
  then show ?thesis
    using assms trim_func_ends[of "\<lambda>c. c = CHR ''-''" t]
    by (auto simp: slug_ok_def trim_dashes_def)
qed

lemma slugify_slug: "slug_ok (slugify name)"
proof -
  define t where "t = slug_strip (to_lower (trim_space name))"
  define s where "s = trim_dashes t"
  have t: "set t \<subseteq> {c. slug_char c} \<union> {CHR ''-''}" "no_double_dash t"
    using slug_strip_chars no_double_dash_strip by (auto simp: t_def)
  obtain a b where ab: "t = a @ s @ b"
    unfolding s_def trim_dashes_def using trim_func_infix[of t "\<lambda>c. c = CHR ''-''"] by blast
  have u: "set (take n s) \<subseteq> {c. slug_char c} \<union> {CHR ''-''}" "no_double_dash (take n s)" for n
    using t ab no_double_dash_append[of a "s @ b"] no_double_dash_append[of "take n s" "drop n s"]
      no_double_dash_append[of s b] by (auto dest: in_set_takeD)
  show ?thesis
  proof (cases "max_slug_len < length s")
    case True
    have "length (trim_dashes (take max_slug_len s)) \<le> max_slug_len"
      unfolding trim_dashes_def by (rule order_trans[OF length_trim_func]) simp
    then show ?thesis
      using trimmed_slug[OF u] slug_ok_trigger True by (simp add: slugify_def t_def s_def Let_def)
  next
    case False
    then show ?thesis
      using trimmed_slug[OF t] slug_ok_trigger by (simp add: slugify_def t_def s_def Let_def)
  qed
qed

lemma get_by_slug_Inl: "triggers_get_by_slug s w = Inl e \<longleftrightarrow> e = ErrNotFound \<and> s \<notin> tr_slug ` set (wd_triggers w)"
  by (auto simp: triggers_get_by_slug_def found_Inl find_None_iff)

lemma get_by_slug_Inr: "triggers_get_by_slug s w = Inr t \<Longrightarrow> t \<in> set (wd_triggers w) \<and> tr_slug t = s"
  by (auto simp: triggers_get_by_slug_def found_Inr find_Some_iff)

text \<open>The candidates the loop tries, in order.\<close>

fun slug_candidates :: "nat \<Rightarrow> nat \<Rightarrow> string \<Rightarrow> string \<Rightarrow> string list" where
  "slug_candidates 0 n base candidate = []"
| "slug_candidates (Suc k) n base candidate =
     candidate # slug_candidates k (Suc n) base (base @ ''-'' @ show_nat n)"

lemma unique_slug_from_find:
  "unique_slug_from k n base candidate w =
     (case find (\<lambda>s. s \<notin> tr_slug ` set (wd_triggers w)) (slug_candidates k n base candidate) of
        Some s \<Rightarrow> Inr s | None \<Rightarrow> Inl (ErrConflict ''too many triggers named like this''))"
proof (induction k n base candidate w rule: unique_slug_from.induct)
  case (2 k n base candidate w)
  show ?case
  proof (cases "triggers_get_by_slug candidate w")
    case (Inl e)
    then show ?thesis using get_by_slug_Inl[of candidate w e] by simp
  next
    case (Inr t)
    then have "candidate \<in> tr_slug ` set (wd_triggers w)" using get_by_slug_Inr by fastforce
    with Inr 2[OF Inr] show ?thesis by simp
  qed
qed simp

lemma set_slug_candidates:
  "set (slug_candidates k n base candidate) =
     (if k = 0 then {} else insert candidate ((\<lambda>m. base @ ''-'' @ show_nat m) ` {n..<n + k - 1}))"
proof (induction k n base candidate rule: slug_candidates.induct)
  case (2 k n base candidate)
  show ?case
  proof (cases k)
    case (Suc j)
    then have "{n..<n + k} = insert n {Suc n..<n + k}" by auto
    with 2 Suc show ?thesis by simp
  qed simp
qed simp

section \<open>Secrets\<close>

lemma hex_digit_inj: "a < 16 \<Longrightarrow> b < 16 \<Longrightarrow> hex_digit a = hex_digit b \<Longrightarrow> a = b"
  by (auto simp: hex_digit_def char_of_eq_iff take_bit_nat_def split: if_splits)

lemma hex_encode_inj: "hex_encode a = hex_encode b \<Longrightarrow> a = b"
proof (induction a arbitrary: b)
  case Nil
  then show ?case by (cases b) (simp_all add: hex_encode_def Let_def)
next
  case (Cons c a)
  then obtain d b' where b: "b = d # b'" by (cases b) (simp_all add: hex_encode_def Let_def)
  let ?c = "of_char c :: nat" and ?d = "of_char d :: nat"
  have "?c mod 256 < 256" "?d mod 256 < 256" by simp_all
  then have lt: "?c < 256" "?d < 256" by simp_all
  have q: "?c div 16 < 16" "?d div 16 < 16"
    by (rule less_mult_imp_div_less, use lt in simp)+
  from Cons.prems b have "hex_digit (?c div 16) = hex_digit (?d div 16)" "hex_digit (?c mod 16) = hex_digit (?d mod 16)"
    "hex_encode a = hex_encode b'" by (simp_all add: hex_encode_def Let_def)
  then have "?c div 16 = ?d div 16" "?c mod 16 = ?d mod 16"
    using hex_digit_inj[of "?c div 16" "?d div 16"] hex_digit_inj[of "?c mod 16" "?d mod 16"] q by simp_all
  then have "?c = ?d" by (metis div_mult_mod_eq)
  with Cons.IH[OF \<open>hex_encode a = hex_encode b'\<close>] b show ?case by simp
qed

lemma hex_encode_empty [simp]: "hex_encode s = [] \<longleftrightarrow> s = []"
  by (cases s) (simp_all add: hex_encode_def Let_def)

lemma secret_matches_iff:
  "secret_matches ts p (hash_secret ts s) \<longleftrightarrow> p \<noteq> [] \<and> ts_sha256 ts s \<noteq> [] \<and> ts_sha256 ts p = ts_sha256 ts s"
  by (auto simp: secret_matches_def hash_secret_def dest: hex_encode_inj)

lemma base64_digit_no_space: "\<not> is_space (base64_digit d)"
proof -
  have "\<not> is_space (char_of n)" if "33 \<le> n" "n < 256" for n :: nat
    using that by (auto simp: is_space_def char_of_eq_iff take_bit_nat_def)
  then show ?thesis by (auto simp: base64_digit_def is_space_def[of "CHR ''-''"] is_space_def[of "CHR ''_''"])
qed

lemma base64_no_space: "c \<in> set (base64_raw_url bs) \<Longrightarrow> \<not> is_space c"
  by (induction bs rule: base64_raw_url.induct) (auto simp: base64_digit_no_space)

lemma trim_space_none: "(\<And>c. c \<in> set s \<Longrightarrow> \<not> is_space c) \<Longrightarrow> trim_space s = s"
proof -
  assume a: "\<And>c. c \<in> set s \<Longrightarrow> \<not> is_space c"
  have "dropWhile is_space s = s" by (cases s) (use a in auto)
  moreover have "dropWhile is_space (rev s) = rev s" by (cases "rev s") (use a in \<open>auto simp: rev_eq_Cons_iff\<close>)
  ultimately show ?thesis by (simp add: trim_space_def trim_func_def trim_left_def trim_right_def)
qed

lemma new_secret_trim: "trim_space (fst (new_secret ts w)) = fst (new_secret ts w)"
proof (rule trim_space_none)
  fix c assume "c \<in> set (fst (new_secret ts w))"
  then have "c \<in> set secret_prefix \<or> c \<in> set (base64_raw_url (map of_char (take secret_bytes (ts_random ts (wd_uuids w)))))"
    by (auto simp: new_secret_def)
  then show "\<not> is_space c"
    using base64_no_space by (auto simp: secret_prefix_def is_space_def)
qed

lemma new_secret_nonempty [simp]: "fst (new_secret ts w) \<noteq> []"
  by (simp add: new_secret_def secret_prefix_def)

section \<open>The gate\<close>

lemma gate_cong: "wd_deliveries w' = wd_deliveries w \<Longrightarrow> gate tr vars key now force w' = gate tr vars key now force w"
  by (simp add: gate_def deliveries_count_since_def deliveries_last_accepted_def)

lemma gate_storm:
  assumes "gate tr vars key now False w = (st, reason, True)" and "0 < tr_storm_cap tr"
  shows "int (deliveries_count_since (tr_id tr) (now - hour) DeliveryAccepted w) < tr_storm_cap tr"
  using assms by (auto simp: gate_def Let_def split: if_splits sum.splits)

lemma stored_le_seconds: "stored_le a b \<Longrightarrow> a < b + second"
proof (cases "a div second = b div second")
  case True
  then have "a - a mod second = b - b mod second" by (metis minus_mod_eq_div_mult)
  moreover have "a mod second < second" "0 \<le> b mod second" by (simp_all add: second_def)
  ultimately show ?thesis by linarith
next
  case False
  moreover assume "stored_le a b"
  ultimately show ?thesis using stored_seconds(1)[of a b] by (simp add: second_def)
qed

lemma last_accepted_newest:
  assumes "d \<in> set (wd_deliveries w)" "dl_trigger d = t" "dl_dedupe_key d = key" "dl_status d = DeliveryAccepted"
  shows "\<exists>p. deliveries_last_accepted t key w = Inr p \<and> dl_received d < dl_received p + second"
proof -
  let ?rows = "filter (\<lambda>d. dl_trigger d = t \<and> dl_dedupe_key d = key \<and> dl_status d = DeliveryAccepted) (wd_deliveries w)"
  have d: "d \<in> set ?rows" using assms by simp
  then have "?rows \<noteq> []" by (metis empty_iff empty_set)
  then obtain p rest where p: "order_desc dl_received ?rows = p # rest"
    by (cases "order_desc dl_received ?rows") (simp_all only: order_empty)
  have "stored_le (dl_received d) (dl_received p)" using order_desc_hd[OF d, of dl_received] p by simp
  then show ?thesis using stored_le_seconds p by (simp add: deliveries_last_accepted_def)
qed

lemma duration_since_ge: "- (2 ^ 63) < k \<Longrightarrow> k \<le> duration_since a b \<Longrightarrow> k \<le> a - b"
  by (simp add: duration_since_def max_def min_def split: if_splits)

lemma int64_id: "- (2 ^ 63) \<le> x \<Longrightarrow> x < 2 ^ 63 \<Longrightarrow> int64 x = x"
  by (simp add: int64_def)

lemma gate_spacing:
  assumes ok: "gate tr vars key now False w = (st, reason, True)"
    and d: "d \<in> set (wd_deliveries w)" "dl_trigger d = tr_id tr" "dl_dedupe_key d = key" "dl_status d = DeliveryAccepted"
    and cd: "0 \<le> tr_cooldown_s tr" "tr_cooldown_s tr \<le> 9223372036"
  shows "tr_kind tr \<noteq> TriggerGrafana \<and> dl_received d < now - generic_dedupe_window + second \<and>
    dl_received d < now - tr_cooldown_s tr * second + second"
proof -
  obtain p where p: "deliveries_last_accepted (tr_id tr) key w = Inr p" "dl_received d < dl_received p + second"
    using last_accepted_newest[OF d] by blast
  from ok p(1) have g: "\<not> duration_since now (dl_received p) < cooldown_of tr" "tr_kind tr \<noteq> TriggerGrafana"
    "\<not> duration_since now (dl_received p) < generic_dedupe_window"
    by (auto simp: gate_def Let_def split: if_splits)
  have "cooldown_of tr = tr_cooldown_s tr * second"
    unfolding cooldown_of_def by (rule int64_id) (use cd in \<open>simp_all add: second_def\<close>)
  then have "tr_cooldown_s tr * second \<le> now - dl_received p"
    using g(1) cd by (intro duration_since_ge) (simp_all add: second_def)
  moreover have "generic_dedupe_window \<le> now - dl_received p"
    using g(3) by (intro duration_since_ge) (simp_all add: generic_dedupe_window_def hour_def minute_def second_def)
  ultimately show ?thesis using p(2) g(2) by simp
qed

section \<open>Processing a delivery\<close>

lemma update_last_row:
  "key d \<notin> key ` set old \<Longrightarrow> tbl_update key (key d) f (old @ [d]) = old @ [f d]"
proof -
  assume "key d \<notin> key ` set old"
  then have "map (\<lambda>r. if key r = key d then f r else r) old = old"
    by (intro map_idI) (auto simp: image_iff)
  then show ?thesis by (simp add: tbl_update_def)
qed

lemma update_last_delivery:
  assumes "dl_id dl \<notin> dl_id ` set old" and "wd_deliveries w = old @ [dl]"
  shows "wd_deliveries (snd (deliveries_set_run (dl_id dl) ref w)) = old @ [dl\<lparr>dl_run := Some ref\<rparr>]"
    and "wd_deliveries (snd (deliveries_set_status (dl_id dl) st reason w)) =
      old @ [dl\<lparr>dl_status := st, dl_reason := reason\<rparr>]"
  using assms by (simp_all add: deliveries_set_run_def deliveries_set_status_def update_last_row)

lemma update_last_frame:
  "wd_triggers (snd (deliveries_set_run i ref w)) = wd_triggers w"
  "wd_triggers (snd (deliveries_set_status i st reason w)) = wd_triggers w"
  "wd_runs (snd (deliveries_set_run i ref w)) = wd_runs w"
  "wd_runs (snd (deliveries_set_status i st reason w)) = wd_runs w"
  by (simp_all add: deliveries_set_run_def deliveries_set_status_def)

lemma record_delivery_Inr:
  assumes "record_delivery dl st reason w = (Inr dl', w')"
  shows "dl' = dl\<lparr>dl_status := st, dl_reason := reason\<rparr>" "w' = w\<lparr>wd_deliveries := wd_deliveries w @ [dl']\<rparr>"
    "dl_id dl \<notin> dl_id ` set (wd_deliveries w)"
  using assms by (auto simp: record_delivery_def deliveries_create_def Let_def split: if_splits)

lemma record_delivery_Inl: "record_delivery dl st reason w = (Inl e, w') \<Longrightarrow> w' = w"
  by (auto simp: record_delivery_def deliveries_create_def Let_def split: if_splits)

lemma touch_frame:
  "wd_deliveries (snd (triggers_touch_delivery i t w)) = wd_deliveries w"
  "wd_runs (snd (triggers_touch_delivery i t w)) = wd_runs w"
  by (simp_all add: triggers_touch_delivery_def)

locale trigger_router =
  fixes ts :: trigger_service
  assumes router_start: "run_starter (ts_start ts)"
    and router_pipelines: "ts_pipelines ts = Some start \<Longrightarrow> pipeline_starter start"
begin

lemma start_target:
  assumes "(case tr_pipeline tr of
      Some plid \<Rightarrow> start_trigger_pipeline ts tr plid dl vars w | None \<Rightarrow> start_trigger_run ts tr dl vars w) = (dl', w')"
    and "wd_deliveries w = old @ [dl]" and "dl_id dl \<notin> dl_id ` set old"
  shows "wd_deliveries w' = old @ [dl'] \<and> wd_triggers w' = wd_triggers w \<and>
    dl_id dl' = dl_id dl \<and> dl_trigger dl' = dl_trigger dl \<and> dl_received dl' = dl_received dl \<and>
    dl_dedupe_key dl' = dl_dedupe_key dl \<and> dl_payload dl' = dl_payload dl \<and>
    (dl_status dl' = dl_status dl \<and> dl_run dl' \<noteq> None \<or> dl_status dl' = DeliveryFailed)"
proof -
  have close: ?thesis if "keeps_config w v" "(\<exists>reason. fail_delivery dl reason v = (dl', w')) \<or>
      (\<exists>ref. (dl', w') = (dl\<lparr>dl_run := Some ref\<rparr>, snd (deliveries_set_run (dl_id dl) ref v)))" for v
    using that assms(2) update_last_delivery[OF assms(3), of v] update_last_frame
    by (auto simp: keeps_config_def fail_delivery_def)
  show ?thesis
  proof (cases "tr_pipeline tr")
    case None
    let ?inp = "\<lparr>ri_template = tr_template tr, ri_trigger = tr_id tr, ri_delivery = dl_id dl, ri_vars = vars,
      ri_origin = OriginWebhook, ri_step_run = [], ri_worktree = []\<rparr>"
    obtain r v where e: "ts_start ts ?inp w = (r, v)" by fastforce
    have "keeps_config w v" by (rule run_starter.start_keeps_config[OF router_start e])
    then show ?thesis
      by (rule close) (use assms(1) None e in \<open>auto simp: start_trigger_run_def split: sum.splits\<close>)
  next
    case (Some plid)
    show ?thesis
    proof (cases "ts_pipelines ts")
      case None
      show ?thesis
        by (rule close[of w]) (use assms(1) Some None in \<open>auto simp: start_trigger_pipeline_def\<close>)
    next
      case start: (Some start)
      obtain r v where e: "start service_actor plid vars OriginWebhook (tr_id tr) w = (r, v)" by fastforce
      have "keeps_config w v" by (rule pipeline_starter.pipeline_keeps_config[OF router_pipelines[OF start] e])
      then show ?thesis
        by (rule close) (use assms(1) Some start e in \<open>auto simp: start_trigger_pipeline_def Let_def split: sum.splits\<close>)
    qed
  qed
qed

text \<open>A processed delivery is one new row, the one returned; accepting it means the gate was open.\<close>

lemma process_body_row:
  assumes "process_body ts tr payload now force reason w = (Inr dl, w')"
  shows "wd_deliveries w' = wd_deliveries w @ [dl] \<and> wd_triggers w' = wd_triggers w \<and>
    dl_trigger dl = tr_id tr \<and> dl_received dl = now \<and> dl_payload dl = truncate_payload payload \<and>
    dl_id dl \<notin> dl_id ` set (wd_deliveries w) \<and>
    (dl_status dl = DeliveryAccepted \<longrightarrow>
      (\<exists>vars st why. gate tr vars (dl_dedupe_key dl) now force w = (st, why, True)))"
proof -
  obtain u w1 where u: "new_uuid (ge_uuid (ts_env ts)) w = (u, w1)" by fastforce
  then have w1: "wd_deliveries w1 = wd_deliveries w" "wd_triggers w1 = wd_triggers w" by (auto simp: new_uuid_def)
  define dl0 where "dl0 = \<lparr>dl_id = u, dl_trigger = tr_id tr, dl_received = now, dl_status = DeliveryAccepted,
    dl_reason = NoReason, dl_dedupe_key = [], dl_payload = truncate_payload payload, dl_run = None\<rparr>"
  note eq = assms[unfolded process_body_def u Let_def prod.case, folded dl0_def]
  have refused: ?thesis if "record_delivery dl1 st why w1 = (Inr dl, w')" "st \<noteq> DeliveryAccepted"
      "dl1 = dl0 \<or> (\<exists>key. dl1 = dl0\<lparr>dl_dedupe_key := key\<rparr>)" for dl1 st why
    using record_delivery_Inr[OF that(1)] that(2,3) w1 by (auto simp: dl0_def)
  show ?thesis
  proof (cases "normalize (ts_env ts) (trigger_kind_text (tr_kind tr)) (dl_payload dl0)")
    case (Inl e)
    with eq show ?thesis by (intro refused[of dl0]) auto
  next
    case n: (Inr vars)
    show ?thesis
    proof (cases "render_dedupe (ts_env ts) (tr_dedupe_template tr) (trigger_kind_text (tr_kind tr)) vars")
      case (Inl e)
      with eq n show ?thesis by (intro refused[of dl0]) auto
    next
      case k: (Inr key)
      obtain st why ok where g: "gate tr vars key now force w1 = (st, why, ok)" by (metis prod_cases3)
      let ?dl2 = "dl0\<lparr>dl_dedupe_key := key\<rparr>"
      show ?thesis
      proof (cases ok)
        case False
        then have "st \<noteq> DeliveryAccepted" using g by (auto simp: gate_def Let_def split: if_splits sum.splits)
        with eq n k g False show ?thesis by (intro refused[of ?dl2]) auto
      next
        case True
        obtain r w2 where r: "record_delivery ?dl2 DeliveryAccepted reason w1 = (r, w2)" by fastforce
        show ?thesis
        proof (cases r)
          case (Inl e)
          with eq n k g True r show ?thesis by simp
        next
          case (Inr dl3)
          note rec = record_delivery_Inr[OF r[unfolded Inr]]
          have "(case tr_pipeline tr of
              Some plid \<Rightarrow> start_trigger_pipeline ts tr plid dl3 vars w2
            | None \<Rightarrow> start_trigger_run ts tr dl3 vars w2) = (dl, w')"
            using eq n k g True r Inr by (auto simp: apfst_def map_prod_def split: prod.splits option.splits)
          moreover have "wd_deliveries w2 = wd_deliveries w @ [dl3]" by (simp add: rec(2) w1)
          moreover have "dl_id dl3 \<notin> dl_id ` set (wd_deliveries w)" using rec(1,3) w1 by simp
          ultimately have "wd_deliveries w' = wd_deliveries w @ [dl] \<and> wd_triggers w' = wd_triggers w2 \<and>
              dl_id dl = dl_id dl3 \<and> dl_trigger dl = dl_trigger dl3 \<and> dl_received dl = dl_received dl3 \<and>
              dl_dedupe_key dl = dl_dedupe_key dl3 \<and> dl_payload dl = dl_payload dl3"
            using start_target by blast
          moreover have "gate tr vars key now force w = (st, why, True)"
            using g True gate_cong[OF w1(1)] by simp
          ultimately show ?thesis using rec w1 by (auto simp: dl0_def)
        qed
      qed
    qed
  qed
qed

lemma process_row:
  assumes "process ts tr payload now force reason w = (Inr dl, w')"
  shows "wd_deliveries w' = wd_deliveries w @ [dl] \<and>
    dl_trigger dl = tr_id tr \<and> dl_received dl = now \<and> dl_payload dl = truncate_payload payload \<and>
    dl_id dl \<notin> dl_id ` set (wd_deliveries w) \<and>
    (dl_status dl = DeliveryAccepted \<longrightarrow>
      (\<exists>vars st why. gate tr vars (dl_dedupe_key dl) now force w = (st, why, True)))"
proof -
  obtain w1 where b: "process_body ts tr payload now force reason w = (Inr dl, w1)"
    "w' = snd (triggers_touch_delivery (tr_id tr) now w1)"
    using assms by (auto simp: process_def split: prod.splits)
  show ?thesis using process_body_row[OF b(1)] by (simp add: b(2) touch_frame)
qed

end

interpretation wired_router: trigger_router "wired_triggers dp" for dp
  by (rule trigger_router.intro)
    (auto simp: wired_triggers_def intro: engine_starter.run_starter_axioms wired_pipelines.pipeline_starter_axioms)

end
