(* ===== verification/Service_Examples.thy ===== *)
theory Service_Examples
  imports Pipeline_Examples Trigger_Proofs "HOL-Library.Code_Target_Nat"
begin

text \<open>
  A small concrete deployment of all the services, on which the properties of triggers, schedules, runs and
  sessions are instantiated: one workspace without worktrees, one unattended profile, two templates (one
  looping), one trigger, one schedule. Every process answers, no slot frees itself, and SHA-256 is stood in for
  by the identity.
\<close>

definition demo_sessions :: session_service where
  "demo_sessions = \<lparr>ss_env = demo_env, ss_max_open = 2, ss_idle_timeout = 10 * minute,
     ss_registered = (\<lambda>k. k = kind_claude), ss_credential = (\<lambda>k ow. None), ss_home = (\<lambda>ow. None),
     ss_launch = (\<lambda>s resume schema sysprompt w. None), ss_answer = (\<lambda>i c w. None),
     ss_freed = (\<lambda>w. None), ss_classify = (\<lambda>tool inp. RiskExec), ss_summary = (\<lambda>tool inp. tool),
     ss_cwd = ''/srv'', ss_is_dir = (\<lambda>p. True), ss_current_branch = (\<lambda>ws. Inr ''main''),
     ss_add_worktree = (\<lambda>ws dir branch base. Inr ''c0''), ss_worktree_info = (\<lambda>ws path. Inr ''styr/u''),
     ss_commit_turn = (\<lambda>s msg w. Inr (''c1'', True)), ss_diff = (\<lambda>s w. Inr (1, 0))\<rparr>"

definition demo_engine :: engine where
  "demo_engine = \<lparr>en_env = demo_env, en_sessions = demo_sessions, en_timeout = 0, en_has_loops = True,
     en_has_events = True, en_has_bus = True, en_has_notifier = True, en_base_url = ''https://styr'',
     en_show_duration = (\<lambda>d. ''30m0s''), en_compact = (\<lambda>s. Some s)\<rparr>"

definition demo_deployment :: deployment where
  "demo_deployment = \<lparr>dp_engine = demo_engine,
     dp_yaml = (\<lambda>_. Inr (demo_raw [demo_step ''a'' [], demo_step ''b'' [''a'']])), dp_duration = (\<lambda>_. None),
     dp_parse_ok = (\<lambda>_. True), dp_sha256 = (\<lambda>s. s), dp_random = (\<lambda>n. replicate 32 (CHR ''r'')),
     dp_samples = \<lparr>sm_grafana = ''{}'', sm_github = ''{}'', sm_generic = ''{}''\<rparr>, dp_seeds = [],
     dp_cron = (\<lambda>e. Some (\<lambda>t. t + hour)), dp_format = (\<lambda>t. ''now'')\<rparr>"

definition demo_workspace :: workspace where
  "demo_workspace = \<lparr>ws_id = ''w'', ws_owner = None, ws_name = ''repo'', ws_path = ''/srv/repo'',
     ws_source = WorkspaceSourcePath, ws_repo_url = [], ws_branch = [], ws_managed = False,
     ws_state = WorkspaceReady, ws_error = [], ws_profile = [], ws_worktrees = False, ws_base_branch = [],
     ws_auto_checkpoint = False, ws_access = WorkspaceAccessEveryone, ws_created = 0, ws_updated = 0\<rparr>"

definition demo_profile :: profile where
  "demo_profile = \<lparr>pf_id = ''auto'', pf_name = ''auto'', pf_mode = ''default'', pf_allowed_tools = [],
     pf_disallowed_tools = [], pf_max_turns = 0, pf_unattended = True, pf_approval_timeout = minute,
     pf_builtin = True, pf_model = [], pf_effort = [], pf_harness = []\<rparr>"

definition demo_template :: "id \<Rightarrow> string \<Rightarrow> tmpl" where
  "demo_template i until = \<lparr>tp_id = i, tp_owner = None, tp_name = ''fix'', tp_workspace = ''w'', tp_profile = ''auto'',
     tp_title = [], tp_prompt = ''fix it'', tp_system_prompt = [], tp_report_schema = [],
     tp_loop_until = until, tp_loop_max = 2, tp_created = 0, tp_updated = 0\<rparr>"

definition demo_trigger :: trigger where
  "demo_trigger = \<lparr>tr_id = ''g'', tr_owner = None, tr_name = ''alert'', tr_slug = ''alert'', tr_kind = TriggerGeneric,
     tr_secret_hash = hex_encode ''s3cret'', tr_secret_hint = ''s3cret'', tr_template = ''t'', tr_pipeline = None,
     tr_enabled = True, tr_dedupe_template = ''key'', tr_cooldown_s = 600, tr_storm_cap = 1,
     tr_run_on_resolved = False, tr_created = 0, tr_updated = 0, tr_last_delivery = None\<rparr>"

definition demo_schedule :: schedule where
  "demo_schedule = \<lparr>sc_id = ''c'', sc_owner = None, sc_name = ''nightly'', sc_template = ''t'', sc_pipeline = None,
     sc_cron = ''@hourly'', sc_enabled = True, sc_vars = [], sc_last_run = None, sc_last_outcome = [],
     sc_next_run = Some 0, sc_created = 0, sc_updated = 0\<rparr>"

definition service_world :: world where
  "service_world = empty_world\<lparr>wd_workspaces := [demo_workspace], wd_profiles := [demo_profile],
     wd_templates := [demo_template ''t'' [], demo_template ''l'' ''done''], wd_pipelines := [demo_pipeline],
     wd_triggers := [demo_trigger], wd_schedules := [demo_schedule]\<rparr>"

definition demo_inbound :: inbound where
  "demo_inbound = \<lparr>ib_slug = ''alert'', ib_body = ''[1,2]'', ib_headers = [(''X-Styr-Secret'', ''s3cret'')],
     ib_query = [], ib_now = None\<rparr>"

definition demo_delivered :: world where
  "demo_delivered = snd (deliver (wired_triggers demo_deployment) demo_inbound service_world)"

text \<open>Reading the answer of an operation off an evaluation.\<close>

lemma result_cases:
  assumes "case fst p of Inl e \<Rightarrow> False | Inr x \<Rightarrow> P x"
  obtains x where "p = (Inr x, snd p)" and "P x"
  using assms by (cases p) (auto split: sum.splits)

lemma demo_deliveryE:
  obtains dl where "deliver (wired_triggers demo_deployment) demo_inbound service_world = (Inr dl, demo_delivered)"
    and "dl_received dl = 0" and "dl_status dl = DeliveryAccepted"
proof -
  have "case fst (deliver (wired_triggers demo_deployment) demo_inbound service_world) of
      Inl _ \<Rightarrow> False | Inr dl \<Rightarrow> dl_received dl = 0 \<and> dl_status dl = DeliveryAccepted" by code_simp
  then show ?thesis by (rule result_cases) (use that in \<open>simp add: demo_delivered_def\<close>)
qed

lemma demo_delivery:
  "map (\<lambda>d. (dl_id d, dl_status d, dl_run d)) (wd_deliveries demo_delivered) = [(''u'', DeliveryAccepted, Some ''ux'')]"
  by code_simp

end
