(* ===== verification/Trigger_Claims.thy ===== *)
theory Trigger_Claims
  imports Service_Examples
begin

text \<open>
  The properties of webhook triggers and deliveries, on the services as \<open>cmd/styr/wire.go\<close> composes them.
\<close>

section \<open>Facts the properties share\<close>

lemma deliver_process:
  assumes "deliver ts inb w = (Inr dl, w')"
  shows "\<exists>tr now. triggers_get_by_slug (ib_slug inb) w = Inr tr \<and> tr_enabled tr \<and> authenticate ts tr inb \<and>
    length (ib_body inb) \<le> max_payload_bytes \<and> process ts tr (ib_body inb) now False NoReason w = (Inr dl, w')"
  using assms by (auto simp: deliver_def split: if_splits sum.splits)

lemma deliver_refused:
  assumes "deliver ts inb w = (r, w')" and "w' \<noteq> w \<or> (\<exists>dl. r = Inr dl)"
  shows "\<exists>tr now. triggers_get_by_slug (ib_slug inb) w = Inr tr \<and> tr_enabled tr \<and> authenticate ts tr inb \<and>
    length (ib_body inb) \<le> max_payload_bytes \<and> process ts tr (ib_body inb) now False NoReason w = (r, w')"
  using assms by (auto simp: deliver_def split: if_splits sum.splits)

lemma apfst_Inr_not_Inl: "apfst Inr p \<noteq> (Inl e, v)"
  by (cases p) simp

lemma process_error_rows:
  assumes "process ts tr payload now force reason w = (Inl e, w')"
  shows "wd_deliveries w' = wd_deliveries w"
proof -
  obtain v where b: "process_body ts tr payload now force reason w = (Inl e, v)"
    "w' = snd (triggers_touch_delivery (tr_id tr) now v)"
    using assms by (auto simp: process_def split: prod.splits)
  obtain u w1 where u: "new_uuid (ge_uuid (ts_env ts)) w = (u, w1)" by fastforce
  then have w1: "wd_deliveries w1 = wd_deliveries w" by (auto simp: new_uuid_def)
  have "v = w1"
    using b(1) unfolding process_body_def u Let_def prod.case
    by (auto split: sum.splits prod.splits if_splits option.splits dest: record_delivery_Inl
        simp: apfst_Inr_not_Inl)
  with w1 b(2) show ?thesis by (simp add: touch_frame)
qed

lemma count_accepted_append:
  "deliveries_count_since t since st (w\<lparr>wd_deliveries := wd_deliveries w @ [d]\<rparr>) \<le> Suc (deliveries_count_since t since st w)"
  by (simp add: deliveries_count_since_def)

lemma count_cong: "wd_deliveries v = wd_deliveries w \<Longrightarrow> deliveries_count_since t since st v = deliveries_count_since t since st w"
  by (simp add: deliveries_count_since_def)

section \<open>The gate\<close>

text \<open>
  A delivery never pushes the deliveries accepted within the hour before it past the trigger's storm cap
  (above the cap they can only have got by forced replays and tests).
\<close>

theorem storm_cap_respected:
  assumes "deliver (wired_triggers dp) inb w = (Inr dl, w')"
    and "triggers_get_by_slug (ib_slug inb) w = Inr tr" and "0 < tr_storm_cap tr"
  shows "int (deliveries_count_since (tr_id tr) (dl_received dl - hour) DeliveryAccepted w') \<le>
    max (tr_storm_cap tr) (int (deliveries_count_since (tr_id tr) (dl_received dl - hour) DeliveryAccepted w))"
proof -
  obtain now where p: "process (wired_triggers dp) tr (ib_body inb) now False NoReason w = (Inr dl, w')"
    using deliver_process[OF assms(1)] assms(2) by auto
  note row = wired_router.process_row[OF p]
  let ?count = "deliveries_count_since (tr_id tr) (now - hour) DeliveryAccepted"
  have w': "?count w' = ?count (w\<lparr>wd_deliveries := wd_deliveries w @ [dl]\<rparr>)"
    using row by (intro count_cong) simp
  show ?thesis
  proof (cases "dl_status dl = DeliveryAccepted")
    case True
    with row gate_storm[OF _ assms(3)] have "int (?count w) < tr_storm_cap tr" by blast
    then show ?thesis using count_accepted_append[of "tr_id tr" "now - hour" DeliveryAccepted w dl] row w' by simp
  next
    case False
    then have "?count w' = ?count w" unfolding w' by (simp add: deliveries_count_since_def)
    then show ?thesis using row by simp
  qed
qed

theorem storm_cap_respected_witness:
  "int (deliveries_count_since ''g'' (0 - hour) DeliveryAccepted demo_delivered) \<le> 1"
proof -
  let ?d = "deliver (wired_triggers demo_deployment) demo_inbound service_world"
  obtain dl where dl: "?d = (Inr dl, demo_delivered)" "dl_received dl = 0" by (rule demo_deliveryE)
  have "triggers_get_by_slug (ib_slug demo_inbound) service_world = Inr demo_trigger" "0 < tr_storm_cap demo_trigger"
    "deliveries_count_since (tr_id demo_trigger) (0 - hour) DeliveryAccepted service_world = 0" by code_simp+
  then show ?thesis
    using storm_cap_respected[OF dl(1), of demo_trigger] dl(2) by (simp add: demo_trigger_def)
qed





section \<open>The delivery log\<close>

text \<open>
  A delivery that reaches the log is exactly one new row, the one returned, for that trigger and with the
  payload received; a refused one adds none.
\<close>

theorem delivery_recorded_once:
  assumes "deliver (wired_triggers dp) inb w = (r, w')"
  shows "(case r of
      Inl e \<Rightarrow> wd_deliveries w' = wd_deliveries w
    | Inr dl \<Rightarrow> wd_deliveries w' = wd_deliveries w @ [dl] \<and> dl_payload dl = ib_body inb \<and>
        (\<exists>tr \<in> set (wd_triggers w). tr_id tr = dl_trigger dl \<and> tr_enabled tr \<and> tr_slug tr = ib_slug inb))"
proof (cases r)
  case (Inl e)
  show ?thesis
  proof (cases "w' = w")
    case False
    then obtain tr now where "process (wired_triggers dp) tr (ib_body inb) now False NoReason w = (Inl e, w')"
      using deliver_refused[OF assms] Inl by blast
    then show ?thesis using process_error_rows Inl by simp
  qed (simp add: Inl)
next
  case (Inr dl)
  obtain tr now where t: "triggers_get_by_slug (ib_slug inb) w = Inr tr" "tr_enabled tr"
    "length (ib_body inb) \<le> max_payload_bytes"
    "process (wired_triggers dp) tr (ib_body inb) now False NoReason w = (Inr dl, w')"
    using deliver_process[OF assms[unfolded Inr]] by blast
  show ?thesis
    using wired_router.process_row[OF t(4)] get_by_slug_Inr[OF t(1)] t(2,3) Inr
    by (auto simp: truncate_payload_def)
qed

theorem delivery_recorded_once_witness:
  "\<exists>dl. wd_deliveries demo_delivered = wd_deliveries service_world @ [dl] \<and> dl_payload dl = ''[1,2]''"
proof -
  let ?d = "deliver (wired_triggers demo_deployment) demo_inbound service_world"
  obtain dl where dl: "?d = (Inr dl, demo_delivered)" by (rule demo_deliveryE)
  show ?thesis using delivery_recorded_once[OF dl] by (auto simp: demo_inbound_def)
qed

text \<open>
  C38: a payload leaves a mark (a row, a changed trigger, a run) only if it is within the size limit and presents
  a secret whose digest is the one stored for an enabled trigger with that slug.
\<close>

theorem deliver_needs_secret:
  assumes "deliver ts inb w = (r, w')" and "w' \<noteq> w \<or> (\<exists>dl. r = Inr dl)"
  shows "length (ib_body inb) \<le> 256 * 1024 \<and> (\<exists>tr \<in> set (wd_triggers w). \<exists>s \<in> set (presented_secrets inb).
    tr_slug tr = ib_slug inb \<and> tr_enabled tr \<and> s \<noteq> [] \<and> hex_encode (ts_sha256 ts s) = tr_secret_hash tr)"
proof -
  obtain tr where t: "triggers_get_by_slug (ib_slug inb) w = Inr tr" "tr_enabled tr" "authenticate ts tr inb"
    "length (ib_body inb) \<le> max_payload_bytes"
    using deliver_refused[OF assms] by blast
  then show ?thesis
    using get_by_slug_Inr[OF t(1)]
    by (fastforce simp: max_payload_bytes_def authenticate_def list_ex_iff secret_matches_def hash_secret_def
        split: if_splits)
qed

theorem deliver_needs_secret_witness:
  "\<exists>tr \<in> set (wd_triggers service_world). \<exists>s \<in> set (presented_secrets demo_inbound).
    tr_slug tr = ''alert'' \<and> hex_encode s = tr_secret_hash tr"
proof -
  let ?d = "deliver (wired_triggers demo_deployment) demo_inbound service_world"
  obtain dl where dl: "?d = (Inr dl, demo_delivered)" by (rule demo_deliveryE)
  have sha: "ts_sha256 (wired_triggers demo_deployment) s = s" for s by (simp add: wired_triggers_def demo_deployment_def)
  have "ib_slug demo_inbound = ''alert''" by (simp add: demo_inbound_def)
  then show ?thesis using deliver_needs_secret[OF dl] by (auto simp: sha)
qed

section \<open>Secrets\<close>

lemma find_snoc: "(\<And>x. x \<in> set xs \<Longrightarrow> \<not> P x) \<Longrightarrow> P y \<Longrightarrow> find P (xs @ [y]) = Some y"
  by (induction xs) auto

lemma created_trigger:
  assumes "create_trigger ts a inp w = (Inr (tr, secret), w')"
  shows "secret = fst (new_secret ts w) \<and> tr_secret_hash tr = hash_secret ts secret \<and>
    tr_slug tr \<notin> tr_slug ` set (wd_triggers w) \<and> wd_triggers w' = wd_triggers w @ [tr] \<and>
    unique_slug (slugify (gin_name inp)) w = Inr (tr_slug tr) \<and>
    tr_enabled tr = (gin_enabled inp = None \<or> gin_enabled inp = Some True)"
  using assms
  by (auto simp: create_trigger_def triggers_create_def new_secret_def new_uuid_def Let_def
      split: sum.splits if_splits option.splits)

lemma authenticate_digest:
  assumes "tr_secret_hash tr = hash_secret ts secret" and "ts_sha256 ts secret \<noteq> []"
  shows "authenticate ts tr inb \<longleftrightarrow> ts_sha256 ts secret \<in> ts_sha256 ts ` set (presented_secrets inb)"
  using assms by (auto simp: authenticate_def list_ex_iff secret_matches_iff presented_secrets_def split: if_splits)

text \<open>
  The secret \<open>CreateTrigger\<close> returns opens the new trigger and only it does: the router lets exactly those
  payloads through that present a secret with the same digest, as header, bearer token or query parameter.
\<close>

theorem created_secret_authenticates:
  assumes "create_trigger ts a inp w = (Inr (tr, secret), w')" and "ts_sha256 ts secret \<noteq> []"
    and "ib_slug inb = tr_slug tr" and "tr_enabled tr" and "length (ib_body inb) \<le> 256 * 1024"
  shows "(if ts_sha256 ts secret \<in> ts_sha256 ts ` set (presented_secrets inb)
      then deliver ts inb w' = process ts tr (ib_body inb) (case ib_now inb of None \<Rightarrow> wd_now w' | Some t \<Rightarrow> t) False NoReason w'
      else deliver ts inb w' = (Inl ErrBadSecret, w')) \<and>
    secret \<in> set (presented_secrets (inb\<lparr>ib_headers := [(''X-Styr-Secret'', secret)]\<rparr>)) \<and>
    secret \<in> set (presented_secrets (inb\<lparr>ib_headers := [(''Authorization'', ''Bearer '' @ secret)]\<rparr>)) \<and>
    secret \<in> set (presented_secrets (inb\<lparr>ib_query := [(''secret'', secret)]\<rparr>))"
proof -
  note c = created_trigger[OF assms(1)]
  have "find (\<lambda>t. tr_slug t = tr_slug tr) (wd_triggers w @ [tr]) = Some tr"
    using c by (intro find_snoc) (metis imageI, simp)
  then have "find (\<lambda>t. tr_slug t = tr_slug tr) (wd_triggers w') = Some tr" using c by simp
  then have "triggers_get_by_slug (ib_slug inb) w' = Inr tr" by (simp add: triggers_get_by_slug_def assms(3))
  then have "deliver ts inb w' = (if authenticate ts tr inb
      then process ts tr (ib_body inb) (case ib_now inb of None \<Rightarrow> wd_now w' | Some t \<Rightarrow> t) False NoReason w'
      else (Inl ErrBadSecret, w'))"
    using assms(4,5) by (simp add: deliver_def max_payload_bytes_def)
  moreover have "trim_space secret = secret" "secret \<noteq> []"
    using c new_secret_trim new_secret_nonempty by metis+
  moreover have "to_lower ''Bearer '' = ''bearer ''" by code_simp
  ultimately show ?thesis
    using authenticate_digest[of tr ts secret inb] c assms(2)
    by (simp add: presented_secrets_def header_get_def query_get_def bearer_token_def Let_def)
qed

definition demo_trigger_input :: "string \<Rightarrow> id \<Rightarrow> id \<Rightarrow> trigger_input" where
  "demo_trigger_input name template pipeline = \<lparr>gin_name = name, gin_kind = [], gin_template = template,
     gin_pipeline = pipeline, gin_dedupe_template = ''key'', gin_cooldown_s = 0, gin_storm_cap = 0,
     gin_run_on_resolved = False, gin_shared = True, gin_enabled = None\<rparr>"

theorem created_secret_authenticates_witness:
  "\<exists>tr secret w'. create_trigger (wired_triggers demo_deployment) service_actor
      (demo_trigger_input ''alert'' ''t'' []) service_world = (Inr (tr, secret), w') \<and> tr_slug tr = ''alert-2'' \<and>
    deliver (wired_triggers demo_deployment) (demo_inbound\<lparr>ib_slug := ''alert-2''\<rparr>) w' = (Inl ErrBadSecret, w')"
proof -
  let ?ts = "wired_triggers demo_deployment" and ?inb = "demo_inbound\<lparr>ib_slug := ''alert-2''\<rparr>"
  let ?c = "create_trigger ?ts service_actor (demo_trigger_input ''alert'' ''t'' []) service_world"
  have "case fst ?c of Inl _ \<Rightarrow> False | Inr (tr, secret) \<Rightarrow> tr_slug tr = ''alert-2'' \<and> tr_enabled tr \<and>
      ts_sha256 ?ts secret \<noteq> [] \<and> ts_sha256 ?ts secret \<notin> ts_sha256 ?ts ` set (presented_secrets ?inb)" by code_simp
  then obtain p where "?c = (Inr p, snd ?c)" "case p of (tr, secret) \<Rightarrow> tr_slug tr = ''alert-2'' \<and> tr_enabled tr \<and>
      ts_sha256 ?ts secret \<noteq> [] \<and> ts_sha256 ?ts secret \<notin> ts_sha256 ?ts ` set (presented_secrets ?inb)"
    by (rule result_cases)
  then obtain tr secret where c: "?c = (Inr (tr, secret), snd ?c)" and tr: "tr_slug tr = ''alert-2''" "tr_enabled tr"
    "ts_sha256 ?ts secret \<noteq> []" "ts_sha256 ?ts secret \<notin> ts_sha256 ?ts ` set (presented_secrets ?inb)"
    by (cases p) auto
  have "length (ib_body ?inb) \<le> 256 * 1024" by code_simp
  then show ?thesis using created_secret_authenticates[OF c tr(3), of ?inb] c tr by auto
qed

text \<open>
  After \<open>RotateSecret\<close> the trigger accepts exactly the payloads that present the new secret's digest, and no
  other trigger changes.
\<close>

theorem rotated_secret_replaces:
  assumes "rotate_secret ts a i w = (Inr secret, w')" and "ts_sha256 ts secret \<noteq> []"
    and "tr \<in> set (wd_triggers w')" and "tr_id tr = i"
  shows "(authenticate ts tr inb \<longleftrightarrow> ts_sha256 ts secret \<in> ts_sha256 ts ` set (presented_secrets inb)) \<and>
    filter (\<lambda>t. tr_id t \<noteq> i) (wd_triggers w') = filter (\<lambda>t. tr_id t \<noteq> i) (wd_triggers w)"
proof -
  define f where "f = (\<lambda>r::trigger. r\<lparr>tr_secret_hash := hash_secret ts secret, tr_secret_hint := secret_hint secret\<rparr>)"
  have w': "wd_triggers w' = tbl_update tr_id i f (wd_triggers w)"
    using assms(1)
    by (auto simp: rotate_secret_def triggers_set_secret_def new_secret_def Let_def f_def split: sum.splits if_splits)
  from assms(3) have "tr \<in> (\<lambda>r. if tr_id r = i then f r else r) ` set (wd_triggers w)"
    unfolding w' tbl_update_def by simp
  then obtain r where "tr = (if tr_id r = i then f r else r)" by (rule imageE)
  moreover have "tr_id (f r) = tr_id r" "tr_secret_hash (f r) = hash_secret ts secret" for r by (simp_all add: f_def)
  ultimately have "tr_secret_hash tr = hash_secret ts secret" using assms(4) by (auto split: if_splits)
  moreover have "filter (\<lambda>t. tr_id t \<noteq> i) (map (\<lambda>r. if tr_id r = i then f r else r) rows) = filter (\<lambda>t. tr_id t \<noteq> i) rows"
    for rows by (induction rows) (auto simp: f_def)
  ultimately show ?thesis
    using authenticate_digest[of tr ts secret inb] assms(2) by (simp add: w' tbl_update_def)
qed

theorem rotated_secret_replaces_witness:
  "\<exists>secret w' tr. rotate_secret (wired_triggers demo_deployment) service_actor ''g'' service_world = (Inr secret, w') \<and>
    wd_triggers w' = [tr] \<and> \<not> authenticate (wired_triggers demo_deployment) tr demo_inbound"
proof -
  let ?ts = "wired_triggers demo_deployment"
  let ?r = "rotate_secret ?ts service_actor ''g'' service_world"
  let ?tr = "hd (wd_triggers (snd ?r))"
  have "case fst ?r of Inl _ \<Rightarrow> False | Inr secret \<Rightarrow>
      ts_sha256 ?ts secret \<noteq> [] \<and> ts_sha256 ?ts secret \<notin> ts_sha256 ?ts ` set (presented_secrets demo_inbound)"
    by code_simp
  then obtain secret where r: "?r = (Inr secret, snd ?r)" "ts_sha256 ?ts secret \<noteq> []"
    "ts_sha256 ?ts secret \<notin> ts_sha256 ?ts ` set (presented_secrets demo_inbound)" by (rule result_cases) blast
  have "map tr_id (wd_triggers (snd ?r)) = [''g'']" by code_simp
  then have tr: "?tr \<in> set (wd_triggers (snd ?r))" "tr_id ?tr = ''g''" "wd_triggers (snd ?r) = [?tr]" by auto
  then show ?thesis using rotated_secret_replaces[OF r(1,2) tr(1,2), of demo_inbound] r by blast
qed

section \<open>Slugs\<close>

text \<open>
  A slug is one to 48 lower-case letters, digits and single inner dashes, whatever the name.
\<close>

theorem slugify_well_formed:
  "slugify name \<noteq> [] \<and> length (slugify name) \<le> 48 \<and>
   set (slugify name) \<subseteq> {c. slug_char c} \<union> {CHR ''-''} \<and>
   hd (slugify name) \<noteq> CHR ''-'' \<and> last (slugify name) \<noteq> CHR ''-'' \<and> no_double_dash (slugify name)"
  using slugify_slug[of name] by (simp add: slug_ok_def max_slug_len_def)

text \<open>
  \<open>uniqueSlug\<close> returns a slug no trigger has, the base or the base with a number from 2 to 998, and gives up only
  when every one of these is taken.
\<close>

theorem unique_slug_fresh:
  "(case unique_slug base w of
      Inr s \<Rightarrow> s \<notin> tr_slug ` set (wd_triggers w) \<and> s \<in> insert base ((\<lambda>n. base @ ''-'' @ show_nat n) ` {2..998})
    | Inl e \<Rightarrow> e = ErrConflict ''too many triggers named like this'' \<and>
        insert base ((\<lambda>n. base @ ''-'' @ show_nat n) ` {2..998}) \<subseteq> tr_slug ` set (wd_triggers w))"
proof -
  have "{2..<2 + 998 - 1} = {2..998 :: nat}" by auto
  then have c: "set (slug_candidates 998 2 base base) = insert base ((\<lambda>n. base @ ''-'' @ show_nat n) ` {2..998})"
    unfolding set_slug_candidates by simp
  show ?thesis
    unfolding unique_slug_def unique_slug_from_find c[symmetric]
    by (auto simp: find_None_iff find_Some_iff split: option.split)
qed

lemma mutable_trigger_row:
  assumes "mutable_trigger a i w = Inr t"
  shows "tr_id t = i" and "i \<in> tr_id ` set (wd_triggers w)"
proof -
  have "triggers_get i w = Inr t" using assms by (simp add: mutable_trigger_def trigger_owned.get_mutable_Inr)
  then have "tbl_get tr_id i (wd_triggers w) = Some t" by (simp add: triggers_get_def found_Inr)
  from tbl_get_Some[OF this] show "tr_id t = i" "i \<in> tr_id ` set (wd_triggers w)" by auto
qed

section \<open>Where the code falls short of its documentation\<close>

text \<open>
  A trigger that starts a pipeline cannot be edited: \<open>Update\<close> writes the empty template id as it is, which
  fails the foreign key, so every well-formed edit is refused as naming an unknown template.
\<close>

theorem pipeline_trigger_not_editable:
  assumes "mutable_trigger a i w = Inr existing" and "validate_trigger_kind (gin_kind inp) = Inr kind"
    and "trim_space (gin_name inp) \<noteq> []" and "gin_template inp = []" and "gin_pipeline inp \<noteq> []"
    and "[] \<notin> tp_id ` set (wd_templates w)"
  shows "update_trigger a i inp w = (Inl (ErrInvalid ''unknown workspace, profile or template''), w)"
proof -
  show ?thesis
    using assms mutable_trigger_row[OF assms(1)]
    by (simp add: update_trigger_def validate_target_def triggers_update_def fk_def trigger_constraint_def
        wrap_fk_def)
qed

theorem pipeline_trigger_not_editable_witness:
  "update_trigger service_actor ''g'' (demo_trigger_input ''alert'' [] ''p'') service_world =
    (Inl (ErrInvalid ''unknown workspace, profile or template''), service_world)"
proof -
  have "mutable_trigger service_actor ''g'' service_world = Inr demo_trigger"
    "validate_trigger_kind (gin_kind (demo_trigger_input ''alert'' [] ''p'')) = Inr TriggerGeneric"
    "trim_space (gin_name (demo_trigger_input ''alert'' [] ''p'')) \<noteq> []"
    "gin_template (demo_trigger_input ''alert'' [] ''p'') = []" "gin_pipeline (demo_trigger_input ''alert'' [] ''p'') \<noteq> []"
    "[] \<notin> tp_id ` set (wd_templates service_world)" by code_simp+
  then show ?thesis by (rule pipeline_trigger_not_editable)
qed

lemma started_run_row:
  assumes "start_trigger_run (wired_triggers dp) tr dl vars w = (dl', w')" and "dl_status dl' = DeliveryAccepted"
  shows "\<exists>r \<in> set (wd_runs w'). rn_trigger r = empty_to_null (tr_id tr)"
proof -
  let ?inp = "\<lparr>ri_template = tr_template tr, ri_trigger = tr_id tr, ri_delivery = dl_id dl, ri_vars = vars,
    ri_origin = OriginWebhook, ri_step_run = [], ri_worktree = []\<rparr>"
  obtain r v where e: "start_run (dp_engine dp) ?inp w = (r, v)" by fastforce
  note s = assms(1)[unfolded start_trigger_run_def, simplified wired_triggers_def trigger_service.simps e prod.case]
  show ?thesis
  proof (cases r)
    case (Inl x)
    with s assms(2) show ?thesis by (auto simp: fail_delivery_def)
  next
    case (Inr run)
    have "\<exists>row \<in> set (wd_runs v). rn_trigger row = empty_to_null (tr_id tr)"
      using start_run_frame[OF e] Inr by auto
    moreover have "w' = snd (deliveries_set_run (dl_id dl) (rn_id run) v)" using s Inr by simp
    ultimately show ?thesis using update_last_frame(3) by simp
  qed
qed

lemma accepted_run_row:
  assumes "process_body (wired_triggers dp) tr payload now force reason w = (Inr dl, w')"
    and "dl_status dl = DeliveryAccepted" and "tr_pipeline tr = None"
  shows "\<exists>r \<in> set (wd_runs w'). rn_trigger r = empty_to_null (tr_id tr)"
proof -
  obtain u w1 where u: "new_uuid (ge_uuid (ts_env (wired_triggers dp))) w = (u, w1)" by fastforce
  have rec: "dl_status d' = st" if "record_delivery d st why v = (Inr d', v')" for d st why v d' v'
    using record_delivery_Inr(1)[OF that] by simp
  have refused: "st \<noteq> DeliveryAccepted" if "gate tr vars key now force v = (st, why, False)" for vars key v st why
    using that by (auto simp: gate_def Let_def split: if_splits sum.splits)
  have "\<exists>dl0 vars v. start_trigger_run (wired_triggers dp) tr dl0 vars v = (dl, w')"
    using assms unfolding process_body_def u Let_def prod.case
    by (auto split: sum.splits prod.splits if_splits dest: rec refused simp: apfst_def map_prod_def)
  then show ?thesis using started_run_row assms(2) by blast
qed

text \<open>
  A trigger that ever started a run cannot be deleted: the run row references it, the statement fails on the
  foreign key and nothing changes.
\<close>

theorem delivered_trigger_not_deletable:
  assumes "deliver (wired_triggers dp) inb w = (Inr dl, w')" and "dl_status dl = DeliveryAccepted"
    and "triggers_get_by_slug (ib_slug inb) w = Inr tr" and "tr_pipeline tr = None" and "tr_id tr \<noteq> []"
    and "mutable_trigger a (tr_id tr) w' = Inr t"
  shows "delete_trigger a (tr_id tr) w' = (Inl ErrForeignKey, w')"
proof -
  obtain now where "process (wired_triggers dp) tr (ib_body inb) now False NoReason w = (Inr dl, w')"
    using deliver_process[OF assms(1)] assms(3) by auto
  then obtain v where v: "process_body (wired_triggers dp) tr (ib_body inb) now False NoReason w = (Inr dl, v)"
    "w' = snd (triggers_touch_delivery (tr_id tr) now v)"
    by (auto simp: process_def split: prod.splits)
  obtain r where r: "r \<in> set (wd_runs w')" "rn_trigger r = Some (tr_id tr)"
    using accepted_run_row[OF v(1) assms(2,4)] assms(5) by (auto simp: v(2) touch_frame empty_to_null_def)
  from mutable_trigger_row[OF assms(6)] show ?thesis using r assms(6) by (auto simp: delete_trigger_def triggers_delete_def Let_def)
qed

theorem delivered_trigger_not_deletable_witness:
  "delete_trigger service_actor ''g'' demo_delivered = (Inl ErrForeignKey, demo_delivered)"
proof -
  let ?d = "deliver (wired_triggers demo_deployment) demo_inbound service_world"
  obtain dl where dl: "?d = (Inr dl, demo_delivered)" "dl_status dl = DeliveryAccepted" by (rule demo_deliveryE)
  have tr: "triggers_get_by_slug (ib_slug demo_inbound) service_world = Inr demo_trigger" "tr_pipeline demo_trigger = None"
    "tr_id demo_trigger \<noteq> []" "tr_id demo_trigger = ''g''"
    "mutable_trigger service_actor ''g'' demo_delivered = Inr (demo_trigger\<lparr>tr_last_delivery := Some 0\<rparr>)" by code_simp+
  show ?thesis using delivered_trigger_not_deletable[OF dl tr(1-3)] tr(4,5) by simp
qed

end
