(* ===== verification/Schedule_Claims.thy ===== *)
theory Schedule_Claims
  imports Service_Examples
begin

text \<open>
  The scheduler: what one tick does to the schedules and to the firing log, first under the contract of the
  starters the service was built with, then on the composed services.
\<close>

section \<open>One firing\<close>

definition firings_ok :: "schedule_service \<Rightarrow> world \<Rightarrow> bool" where
  "firings_ok sv w \<longleftrightarrow> inj (ge_uuid (sv_env sv)) \<and>
     fr_id ` set (wd_firings w) \<subseteq> ge_uuid (sv_env sv) ` {..<wd_uuids w}"

text \<open>What a tick writes for one schedule, beside the run it may start.\<close>

definition fired_one :: "schedule_service \<Rightarrow> time \<Rightarrow> schedule \<Rightarrow> (firing_status \<Rightarrow> bool) \<Rightarrow> world \<Rightarrow> world \<Rightarrow> bool" where
  "fired_one sv now sc P w w' \<longleftrightarrow> firings_ok sv w' \<and> wd_uuids w \<le> wd_uuids w' \<and>
     (\<exists>f. wd_firings w' = wd_firings w @ [f] \<and> fr_schedule f = sc_id sc \<and> fr_fired f = now \<and> P (fr_status f)) \<and>
     (\<exists>g. (\<forall>r. sc_id (g r) = sc_id r \<and> sc_enabled (g r) = sc_enabled r \<and> sc_next_run (g r) = sc_next_run r) \<and>
        wd_schedules w' = tbl_update sc_id (sc_id sc) g (wd_schedules w))"

text \<open>The next run a tick at \<open>now\<close> stores for a schedule.\<close>

definition next_fire :: "schedule_service \<Rightarrow> schedule \<Rightarrow> time \<Rightarrow> time option" where
  "next_fire sv sc now = (case parse_cron sv (sc_cron sc) of Inl e \<Rightarrow> None | Inr nxt \<Rightarrow> Some (nxt now))"

lemma record_firing_effect:
  assumes "firings_ok sv w" and "sc_id sc \<in> sc_id ` set (wd_schedules w)" and "P st"
  shows "fired_one sv now sc P w (record_firing sv (sc_id sc) now st reason rid w)"
proof -
  let ?u = "ge_uuid (sv_env sv) (wd_uuids w)"
  have "?u \<notin> fr_id ` set (wd_firings w)"
    using assms(1) by (auto simp: firings_ok_def inj_eq dest: injD)
  then have e: "record_firing sv (sc_id sc) now st reason rid w =
      w\<lparr>wd_uuids := Suc (wd_uuids w), wd_firings := wd_firings w @ [\<lparr>fr_id = ?u, fr_schedule = sc_id sc, fr_fired = now,
        fr_status = st, fr_reason = reason, fr_run = rid\<rparr>]\<rparr>"
    using assms(2) by (simp add: record_firing_def new_uuid_def firings_create_def fk_def)
  have "fr_id ` set (wd_firings w) \<subseteq> ge_uuid (sv_env sv) ` {..<Suc (wd_uuids w)}"
    using assms(1) by (auto simp: firings_ok_def lessThan_Suc)
  then have ok: "firings_ok sv (record_firing sv (sc_id sc) now st reason rid w)"
    using assms(1) unfolding e by (simp add: firings_ok_def lessThan_Suc)
  have "wd_schedules w = tbl_update sc_id (sc_id sc) (\<lambda>r. r) (wd_schedules w)" by (simp add: tbl_update_def)
  then have "\<exists>g. (\<forall>r. sc_id (g r) = sc_id r \<and> sc_enabled (g r) = sc_enabled r \<and> sc_next_run (g r) = sc_next_run r) \<and>
      wd_schedules w = tbl_update sc_id (sc_id sc) g (wd_schedules w)"
    by (intro exI[of _ "\<lambda>r. r"]) simp
  then show ?thesis
    using ok assms(3) unfolding fired_one_def e by simp
qed

lemma finish_firing_effect:
  assumes "firings_ok sv w" and "sc_id sc \<in> sc_id ` set (wd_schedules w)" and "P st"
  shows "fired_one sv now sc P w (finish_firing sv (sc_id sc) now st reason rid outcome w)"
proof -
  let ?v = "record_firing sv (sc_id sc) now st reason rid w"
  let ?h = "\<lambda>r::schedule. r\<lparr>sc_last_run := Some now, sc_last_outcome := outcome\<rparr>"
  have v: "fired_one sv now sc P w ?v" using record_firing_effect[where P=P] assms by blast
  then obtain g where g: "\<And>r. sc_id (g r) = sc_id r \<and> sc_enabled (g r) = sc_enabled r \<and> sc_next_run (g r) = sc_next_run r"
    "wd_schedules ?v = tbl_update sc_id (sc_id sc) g (wd_schedules w)" by (auto simp: fired_one_def)
  then have "sc_id sc \<in> sc_id ` set (wd_schedules ?v)" using assms(2) by (simp add: image_tbl_update)
  then have e: "finish_firing sv (sc_id sc) now st reason rid outcome w =
      ?v\<lparr>wd_schedules := tbl_update sc_id (sc_id sc) ?h (wd_schedules ?v)\<rparr>"
    by (simp add: finish_firing_def schedules_record_run_def)
  have "tbl_update sc_id (sc_id sc) ?h (wd_schedules ?v) = tbl_update sc_id (sc_id sc) (\<lambda>r. ?h (g r)) (wd_schedules w)"
    unfolding g(2) using g(1) by (simp add: tbl_update_def)
  then have "\<exists>g. (\<forall>r. sc_id (g r) = sc_id r \<and> sc_enabled (g r) = sc_enabled r \<and> sc_next_run (g r) = sc_next_run r) \<and>
      tbl_update sc_id (sc_id sc) ?h (wd_schedules ?v) = tbl_update sc_id (sc_id sc) g (wd_schedules w)"
    using g(1) by (intro exI[of _ "\<lambda>r. ?h (g r)"]) simp
  then show ?thesis
    using v unfolding fired_one_def e firings_ok_def by simp
qed

lemma fired_one_after:
  assumes "keeps_config w v" and "wd_uuids w \<le> wd_uuids v" and "fired_one sv now sc P v w'"
  shows "fired_one sv now sc P w w'"
  using assms by (auto simp: fired_one_def keeps_config_def)

lemma firings_ok_after:
  assumes "firings_ok sv w" and "keeps_config w v" and "wd_uuids w \<le> wd_uuids v"
  shows "firings_ok sv v"
proof -
  have "ge_uuid (sv_env sv) ` {..<wd_uuids w} \<subseteq> ge_uuid (sv_env sv) ` {..<wd_uuids v}"
    using assms(3) by (intro image_mono) simp
  then have "fr_id ` set (wd_firings w) \<subseteq> ge_uuid (sv_env sv) ` {..<wd_uuids v}"
    using assms(1) order_trans unfolding firings_ok_def by blast
  then show ?thesis using assms(1,2) by (simp add: firings_ok_def keeps_config_def)
qed

section \<open>One schedule of a tick\<close>

locale firing_scheduler =
  fixes sv :: schedule_service
  assumes scheduler_start: "run_starter (sv_start sv)"
    and scheduler_pipelines: "sv_pipelines sv = Some start \<Longrightarrow> pipeline_starter start"
begin

lemma start_and_record_effect:
  assumes ok: "firings_ok sv w" "sc_id sc \<in> sc_id ` set (wd_schedules w)"
    and s: "start_and_record sv sc now w = (Some r, w')"
  shows "fired_one sv now sc (\<lambda>st. st = (case r of Inl _ \<Rightarrow> FiringFailed | Inr _ \<Rightarrow> FiringStarted)) w w'"
proof -
  have close: ?thesis
    if "keeps_config w v" "wd_uuids w \<le> wd_uuids v" "\<exists>reason rid oc. w' = finish_firing sv (sc_id sc) now
        (case r of Inl _ \<Rightarrow> FiringFailed | Inr _ \<Rightarrow> FiringStarted) reason rid oc v" for v
  proof -
    note h = that
    obtain reason rid oc where w': "w' = finish_firing sv (sc_id sc) now
        (case r of Inl _ \<Rightarrow> FiringFailed | Inr _ \<Rightarrow> FiringStarted) reason rid oc v" using h(3) by blast
    have row: "sc_id sc \<in> sc_id ` set (wd_schedules v)" using ok(2) that(1) by (simp add: keeps_config_def)
    show ?thesis
      unfolding w'
      by (rule fired_one_after[OF that(1,2) finish_firing_effect[OF firings_ok_after[OF ok(1) that(1,2)] row]]) simp
  qed
  have self: "keeps_config w w" "wd_uuids w \<le> wd_uuids w" by simp_all
  obtain m where m: "merge_vars sv (sc_vars sc) (sc_name sc) now = Some m"
    using s by (auto simp: start_and_record_def split: option.splits)
  show ?thesis
  proof (cases m)
    case (Inl e)
    with s m have "w' = finish_firing sv (sc_id sc) now FiringFailed (FiringError e) None ''failed'' w" "r = Inl e"
      by (auto simp: start_and_record_def)
    then show ?thesis by (intro close[OF self]) auto
  next
    case (Inr vars)
    show ?thesis
    proof (cases "sc_pipeline sc")
      case None
      let ?inp = "\<lparr>ri_template = sc_template sc, ri_trigger = [], ri_delivery = [],
                       ri_vars = vars, ri_origin = OriginSchedule, ri_step_run = [], ri_worktree = []\<rparr>"
      obtain q v where q: "sv_start sv ?inp w = (q, v)" by fastforce
      have "keeps_config w v" "wd_uuids w \<le> wd_uuids v"
        using run_starter.start_keeps_config[OF scheduler_start q] run_starter.start_keeps_uuids[OF scheduler_start q] by simp_all
      then show ?thesis
        by (rule close) (use s m Inr None q in \<open>auto simp: start_and_record_def split: sum.splits\<close>)
    next
      case (Some plid)
      show ?thesis
      proof (cases "sv_pipelines sv")
        case None
        with s m Inr Some have "w' = finish_firing sv (sc_id sc) now FiringFailed PipelinesNotAvailable None ''failed'' w"
          "r = Inl (ErrConflict ''pipelines are not available'')"
          by (auto simp: start_and_record_def start_schedule_pipeline_def)
        then show ?thesis by (intro close[OF self]) auto
      next
        case start: (Some start)
        obtain q v where q: "start service_actor plid vars OriginSchedule (sc_id sc) w = (q, v)" by fastforce
        have "keeps_config w v" "wd_uuids w \<le> wd_uuids v"
          using pipeline_starter.pipeline_keeps_config[OF scheduler_pipelines[OF start] q]
            pipeline_starter.pipeline_keeps_uuids[OF scheduler_pipelines[OF start] q] by simp_all
        then show ?thesis
          by (rule close)
            (use s m Inr Some start q in \<open>auto simp: start_and_record_def start_schedule_pipeline_def Let_def split: sum.splits\<close>)
      qed
    qed
  qed
qed

lemma tick_one_effect:
  assumes ok: "firings_ok sv w" "sc_id sc \<in> sc_id ` set (wd_schedules w)"
    and t: "tick_one sv now sc w = (True, w')"
  shows "firings_ok sv w' \<and> wd_uuids w \<le> wd_uuids w' \<and>
    (\<exists>f. wd_firings w' = wd_firings w @ [f] \<and> fr_schedule f = sc_id sc \<and> fr_fired f = now \<and>
      (fr_status f = FiringSkippedOverlap \<longleftrightarrow> overlapping sv (sc_id sc) w)) \<and>
    (\<exists>g. (\<forall>r. sc_id (g r) = sc_id r \<and> sc_enabled (g r) = sc_enabled r \<and>
        sc_next_run (g r) = next_fire sv sc now) \<and>
      wd_schedules w' = tbl_update sc_id (sc_id sc) g (wd_schedules w))"
proof -
  let ?P = "\<lambda>st. st = FiringSkippedOverlap \<longleftrightarrow> overlapping sv (sc_id sc) w"
  obtain v where v: "fired_one sv now sc ?P w v" "w' = set_next sv sc now v"
  proof (cases "overlapping sv (sc_id sc) w")
    case True
    have "fired_one sv now sc ?P w (record_firing sv (sc_id sc) now FiringSkippedOverlap PreviousStillRunning None w)"
      by (rule record_firing_effect[OF ok]) (simp add: True)
    then show thesis by (rule that) (use t True in \<open>simp add: tick_one_def\<close>)
  next
    case False
    then obtain r v where s: "start_and_record sv sc now w = (Some r, v)" "w' = set_next sv sc now v"
      using t by (auto simp: tick_one_def split: prod.splits option.splits)
    have "fired_one sv now sc ?P w v"
      using start_and_record_effect[OF ok s(1)] False by (cases r) (auto simp: fired_one_def)
    from this s(2) show thesis by (rule that)
  qed
  from v(1) obtain g where g: "\<And>r. sc_id (g r) = sc_id r \<and> sc_enabled (g r) = sc_enabled r \<and> sc_next_run (g r) = sc_next_run r"
    "wd_schedules v = tbl_update sc_id (sc_id sc) g (wd_schedules w)" by (auto simp: fired_one_def)
  define n where "n = next_fire sv sc now"
  have "sc_id sc \<in> sc_id ` set (wd_schedules v)" using ok(2) g by (simp add: image_tbl_update)
  then have w': "w' = v\<lparr>wd_schedules := tbl_update sc_id (sc_id sc) (\<lambda>r. r\<lparr>sc_next_run := n\<rparr>) (wd_schedules v)\<rparr>"
    unfolding v(2) by (simp add: set_next_def schedules_set_next_run_def n_def next_fire_def split: sum.split)
  have "tbl_update sc_id (sc_id sc) (\<lambda>r. r\<lparr>sc_next_run := n\<rparr>) (wd_schedules v) =
      tbl_update sc_id (sc_id sc) (\<lambda>r. (g r)\<lparr>sc_next_run := n\<rparr>) (wd_schedules w)"
    unfolding g(2) using g(1) by (simp add: tbl_update_def)
  then show ?thesis
    using v(1) g(1) unfolding w' n_def[symmetric] fired_one_def firings_ok_def
    by (auto intro!: exI[of _ "\<lambda>r. (g r)\<lparr>sc_next_run := n\<rparr>"])
qed

lemma tick_all_effect:
  assumes "firings_ok sv w" and "sc_id ` set scs \<subseteq> sc_id ` set (wd_schedules w)" and "distinct (map sc_id scs)"
    and "tick_all sv now scs w = (True, w')"
  shows "(\<exists>fs. wd_firings w' = wd_firings w @ fs \<and> map fr_schedule fs = map sc_id scs \<and> (\<forall>f \<in> set fs. fr_fired f = now)) \<and>
    list_all2 (\<lambda>r r'. sc_id r' = sc_id r \<and> sc_enabled r' = sc_enabled r \<and>
      sc_next_run r' = (case map_of (map (\<lambda>sc. (sc_id sc, next_fire sv sc now)) scs) (sc_id r) of
        None \<Rightarrow> sc_next_run r | Some n \<Rightarrow> n)) (wd_schedules w) (wd_schedules w')"
  using assms
proof (induction scs arbitrary: w)
  case Nil
  then show ?case by (simp add: list_all2_same)
next
  case (Cons sc scs)
  obtain v where v: "tick_one sv now sc w = (True, v)" "tick_all sv now scs v = (True, w')"
    using Cons.prems(4) by (auto split: prod.splits bool.splits)
  have row: "sc_id sc \<in> sc_id ` set (wd_schedules w)" using Cons.prems(2) by simp
  note one = tick_one_effect[OF Cons.prems(1) row v(1)]
  then obtain f g where f: "wd_firings v = wd_firings w @ [f]" "fr_schedule f = sc_id sc" "fr_fired f = now"
    and g: "\<And>r. sc_id (g r) = sc_id r \<and> sc_enabled (g r) = sc_enabled r \<and> sc_next_run (g r) = next_fire sv sc now"
    "wd_schedules v = tbl_update sc_id (sc_id sc) g (wd_schedules w)" by blast
  have ids: "sc_id ` set (wd_schedules v) = sc_id ` set (wd_schedules w)" using g by (simp add: image_tbl_update)
  note IH = Cons.IH[of v]
  have ih: "(\<exists>fs. wd_firings w' = wd_firings v @ fs \<and> map fr_schedule fs = map sc_id scs \<and> (\<forall>f \<in> set fs. fr_fired f = now)) \<and>
      list_all2 (\<lambda>r r'. sc_id r' = sc_id r \<and> sc_enabled r' = sc_enabled r \<and>
        sc_next_run r' = (case map_of (map (\<lambda>sc. (sc_id sc, next_fire sv sc now)) scs) (sc_id r) of
          None \<Rightarrow> sc_next_run r | Some n \<Rightarrow> n)) (wd_schedules v) (wd_schedules w')"
    using IH one Cons.prems(2,3) v(2) ids by auto
  have none: "map_of (map (\<lambda>sc. (sc_id sc, next_fire sv sc now)) scs) (sc_id sc) = None"
    using Cons.prems(3) by (auto simp: map_of_eq_None_iff)
  obtain fs where "wd_firings w' = wd_firings w @ f # fs" "map fr_schedule (f # fs) = map sc_id (sc # scs)"
    "\<forall>f \<in> set (f # fs). fr_fired f = now" using ih f by auto
  moreover have "list_all2 (\<lambda>r r'. sc_id r' = sc_id r \<and> sc_enabled r' = sc_enabled r \<and>
      sc_next_run r' = (case map_of (map (\<lambda>sc. (sc_id sc, next_fire sv sc now)) (sc # scs)) (sc_id r) of
        None \<Rightarrow> sc_next_run r | Some n \<Rightarrow> n)) (wd_schedules w) (wd_schedules w')"
    using conjunct2[OF ih] g(1) none unfolding g(2) tbl_update_def list_all2_map1
    by (elim list_all2_mono) (auto split: if_splits)
  ultimately show ?case by blast
qed

end

interpretation wired_scheduler: firing_scheduler "wired_schedules dp" for dp
  by (rule firing_scheduler.intro)
    (auto simp: wired_schedules_def intro: engine_starter.run_starter_axioms wired_pipelines.pipeline_starter_axioms)

section \<open>Properties of a tick\<close>

lemma list_all2_right: "list_all2 P xs ys \<Longrightarrow> y \<in> set ys \<Longrightarrow> \<exists>x \<in> set xs. P x y"
  by (induction xs ys rule: list_all2_induct) auto

lemma schedules_due:
  "s \<in> set (schedules_list_due now w) \<longleftrightarrow> s \<in> set (wd_schedules w) \<and> sc_enabled s \<and>
     (\<exists>t. sc_next_run s = Some t \<and> stored_le t now)"
  by (auto simp: schedules_list_due_def split: option.splits)

lemma distinct_due: "distinct (map sc_id (wd_schedules w)) \<Longrightarrow> distinct (map sc_id (schedules_list_due now w))"
  unfolding schedules_list_due_def order_asc_def
  by (metis (no_types, lifting) distinct_map distinct_filter distinct_sort filter_is_subset inj_on_subset set_sort)

lemma tick_effect:
  assumes "firings_ok (wired_schedules dp) w" and "distinct (map sc_id (wd_schedules w))"
    and "schedules_tick (wired_schedules dp) now w = (True, w')"
  shows "(\<exists>fs. wd_firings w' = wd_firings w @ fs \<and> map fr_schedule fs = map sc_id (schedules_list_due now w) \<and>
      (\<forall>f \<in> set fs. fr_fired f = now)) \<and>
    list_all2 (\<lambda>r r'. sc_id r' = sc_id r \<and> sc_enabled r' = sc_enabled r \<and>
      sc_next_run r' = (case map_of (map (\<lambda>sc. (sc_id sc, next_fire (wired_schedules dp) sc now)) (schedules_list_due now w)) (sc_id r) of
        None \<Rightarrow> sc_next_run r | Some n \<Rightarrow> n)) (wd_schedules w) (wd_schedules w')"
proof (rule wired_scheduler.tick_all_effect[OF assms(1) _ distinct_due[OF assms(2)]])
  show "sc_id ` set (schedules_list_due now w) \<subseteq> sc_id ` set (wd_schedules w)" by (auto simp: schedules_due)
  show "tick_all (wired_schedules dp) now (schedules_list_due now w) w = (True, w')"
    using assms(3) by (simp add: schedules_tick_def)
qed

text \<open>
  C39: a tick that completes logs exactly one firing for every due schedule, in the order they are due and at the
  time of the tick, and none for any other.
\<close>

theorem tick_fires_due_once:
  assumes "firings_ok (wired_schedules dp) w" and "distinct (map sc_id (wd_schedules w))"
    and "schedules_tick (wired_schedules dp) now w = (True, w')"
  shows "\<exists>fs. wd_firings w' = wd_firings w @ fs \<and> map fr_schedule fs = map sc_id (schedules_list_due now w) \<and>
    (\<forall>f \<in> set fs. fr_fired f = now)"
  using tick_effect[OF assms] by (rule conjunct1)

lemma demo_env_inj: "inj (ge_uuid demo_env)"
  by (rule injI) (simp add: demo_env_def replicate_eq_replicate)

lemma demo_tick:
  "firings_ok (wired_schedules demo_deployment) service_world" "distinct (map sc_id (wd_schedules service_world))"
  "schedules_tick (wired_schedules demo_deployment) 0 service_world =
    (True, snd (schedules_tick (wired_schedules demo_deployment) 0 service_world))"
proof -
  have "fst (schedules_tick (wired_schedules demo_deployment) 0 service_world) = True" by code_simp
  then show "schedules_tick (wired_schedules demo_deployment) 0 service_world =
    (True, snd (schedules_tick (wired_schedules demo_deployment) 0 service_world))" by (metis prod.collapse)
  show "firings_ok (wired_schedules demo_deployment) service_world"
    using demo_env_inj
    by (simp add: firings_ok_def wired_schedules_def demo_deployment_def demo_engine_def service_world_def empty_world_def)
  show "distinct (map sc_id (wd_schedules service_world))" by code_simp
qed

theorem tick_fires_due_once_witness:
  "\<exists>fs. wd_firings (snd (schedules_tick (wired_schedules demo_deployment) 0 service_world)) = fs \<and>
    map fr_schedule fs = [''c'']"
proof -
  have "map sc_id (schedules_list_due 0 service_world) = [''c'']" "wd_firings service_world = []" by code_simp+
  then show ?thesis using tick_fires_due_once[OF demo_tick] by auto
qed

text \<open>
  After a tick nothing is due any more: every due schedule got a next run (or none), whatever its firing came
  to. The cron library's answer is taken to lie in a later second than the time it is given.
\<close>

theorem tick_leaves_nothing_due:
  assumes "firings_ok (wired_schedules dp) w" and "distinct (map sc_id (wd_schedules w))"
    and "schedules_tick (wired_schedules dp) now w = (True, w')"
    and later: "\<And>e nxt t. dp_cron dp e = Some nxt \<Longrightarrow> t div second < nxt t div second"
  shows "schedules_list_due now w' = []"
proof -
  let ?sv = "wired_schedules dp" and ?due = "schedules_list_due now w"
  have "sc' \<notin> set (schedules_list_due now w')" for sc'
  proof
    assume "sc' \<in> set (schedules_list_due now w')"
    then obtain t where sc': "sc' \<in> set (wd_schedules w')" "sc_enabled sc'" "sc_next_run sc' = Some t" "stored_le t now"
      by (auto simp: schedules_due)
    obtain sc where sc: "sc \<in> set (wd_schedules w)" "sc_id sc' = sc_id sc" "sc_enabled sc' = sc_enabled sc"
      "sc_next_run sc' = (case map_of (map (\<lambda>sc. (sc_id sc, next_fire ?sv sc now)) ?due) (sc_id sc) of
        None \<Rightarrow> sc_next_run sc | Some n \<Rightarrow> n)"
      using list_all2_right[OF conjunct2[OF tick_effect[OF assms(1-3)]] sc'(1)] by blast
    show False
    proof (cases "map_of (map (\<lambda>sc. (sc_id sc, next_fire ?sv sc now)) ?due) (sc_id sc)")
      case None
      then have "sc \<notin> set ?due" by (force simp: map_of_eq_None_iff)
      then show False using None sc sc'(2-4) by (auto simp: schedules_due)
    next
      case (Some n)
      then obtain s where "n = next_fire ?sv s now" by (auto dest!: map_of_SomeD)
      then have "next_fire ?sv s now = Some t" using Some sc(4) sc'(3) by simp
      then obtain nxt e where "dp_cron dp e = Some nxt" "t = nxt now"
        by (auto simp: next_fire_def parse_cron_def wired_schedules_def Let_def split: sum.splits if_splits option.splits)
      then have "now div second < t div second" using later by blast
      then show False using sc'(4) stored_seconds(1)[of t now] zdiv_mono1[of t now second] by (simp add: second_def)
    qed
  qed
  then show ?thesis by (metis list.set_intros(1) neq_Nil_conv)
qed

theorem tick_leaves_nothing_due_witness:
  "schedules_list_due 0 (snd (schedules_tick (wired_schedules demo_deployment) 0 service_world)) = []"
  by (rule tick_leaves_nothing_due[OF demo_tick]) (auto simp: demo_deployment_def hour_def minute_def second_def)

text \<open>
  While the run or pipeline run a schedule last started is still running, a tick starts nothing for it: no run,
  no pipeline run, no session; it logs one skipped firing and moves on to the next run.
\<close>

theorem tick_skips_overlap:
  assumes "firings_ok (wired_schedules dp) w" and "sc \<in> set (wd_schedules w)"
    and "firings_last_started (sc_id sc) w = Inr rid"
    and "case cut_prefix rid PipelineRunRefPrefix of
        Some p \<Rightarrow> (\<exists>pr. pipeline_runs_get p w = Inr pr \<and> pr_state pr = PipelineRunRunning)
      | None \<Rightarrow> (\<exists>r. runs_get rid w = Inr r \<and> rn_outcome r = RunRunning)"
  shows "\<exists>f w'. tick_one (wired_schedules dp) now sc w = (True, w') \<and> wd_firings w' = wd_firings w @ [f] \<and>
    fr_schedule f = sc_id sc \<and> fr_status f = FiringSkippedOverlap \<and> wd_runs w' = wd_runs w \<and>
    wd_pipeline_runs w' = wd_pipeline_runs w \<and> wd_sessions w' = wd_sessions w \<and> wd_procs w' = wd_procs w"
proof -
  let ?sv = "wired_schedules dp"
  have o: "overlapping ?sv (sc_id sc) w"
    using assms(3,4)
    by (auto simp: overlapping_def wired_schedules_def get_run_details_def run_details_def is_running_def
        pr_terminal_def Let_def split: option.splits)
  then have t: "tick_one ?sv now sc w = (True, set_next ?sv sc now
      (record_firing ?sv (sc_id sc) now FiringSkippedOverlap PreviousStillRunning None w))" by (simp add: tick_one_def)
  have "sc_id sc \<in> sc_id ` set (wd_schedules w)" using assms(2) by simp
  from wired_scheduler.tick_one_effect[OF assms(1) this t] o t show ?thesis
    by (auto simp: set_next_def schedules_set_next_run_def record_firing_def firings_create_def new_uuid_def Let_def
        split: sum.splits if_splits)
qed

definition demo_firing :: firing where
  "demo_firing = \<lparr>fr_id = ''u'', fr_schedule = ''c'', fr_fired = 0, fr_status = FiringStarted, fr_reason = NoFiringReason,
     fr_run = Some ''r''\<rparr>"

definition demo_overlap :: world where
  "demo_overlap = service_world\<lparr>wd_uuids := 1, wd_firings := [demo_firing],
     wd_runs := [first_run ''r'' ''s'' (demo_template ''t'' []) \<lparr>ri_template = ''t'', ri_trigger = [], ri_delivery = [],
       ri_vars = [], ri_origin = OriginSchedule, ri_step_run = [], ri_worktree = []\<rparr> OriginSchedule [] 0 0]\<rparr>"

theorem tick_skips_overlap_witness:
  "\<exists>w'. tick_one (wired_schedules demo_deployment) hour demo_schedule demo_overlap = (True, w') \<and>
    length (wd_runs w') = 1"
proof -
  have ok: "firings_ok (wired_schedules demo_deployment) demo_overlap"
    using demo_env_inj
    by (simp add: firings_ok_def wired_schedules_def demo_deployment_def demo_engine_def demo_overlap_def demo_firing_def
        demo_env_def)
  have sc: "demo_schedule \<in> set (wd_schedules demo_overlap)"
    "firings_last_started (sc_id demo_schedule) demo_overlap = Inr ''r''"
    "case cut_prefix ''r'' PipelineRunRefPrefix of
        Some p \<Rightarrow> (\<exists>pr. pipeline_runs_get p demo_overlap = Inr pr \<and> pr_state pr = PipelineRunRunning)
      | None \<Rightarrow> (\<exists>r. runs_get ''r'' demo_overlap = Inr r \<and> rn_outcome r = RunRunning)"
    "length (wd_runs demo_overlap) = 1"
  proof -
    have "cut_prefix ''r'' PipelineRunRefPrefix = None" by code_simp
    then show "case cut_prefix ''r'' PipelineRunRefPrefix of
        Some p \<Rightarrow> (\<exists>pr. pipeline_runs_get p demo_overlap = Inr pr \<and> pr_state pr = PipelineRunRunning)
      | None \<Rightarrow> (\<exists>r. runs_get ''r'' demo_overlap = Inr r \<and> rn_outcome r = RunRunning)"
      by (simp add: runs_get_def tbl_get_def demo_overlap_def first_run_def)
  qed code_simp+
  show ?thesis using tick_skips_overlap[OF ok sc(1-3), of hour] sc(4) by auto
qed

section \<open>Where the code falls short of its documentation\<close>

definition null_schedules :: schedule_service where
  "null_schedules = wired_schedules (demo_deployment\<lparr>dp_engine := demo_engine\<lparr>en_env :=
     demo_env\<lparr>ge_unmarshal := (\<lambda>s. if s = ''null'' then Some JNull else None)\<rparr>\<rparr>\<rparr>)"

definition null_input :: schedule_input where
  "null_input = \<lparr>sin_name = ''nightly'', sin_template = ''t'', sin_pipeline = [], sin_cron = ''@hourly'',
     sin_vars = ''null'', sin_enabled = None, sin_shared = True\<rparr>"

definition null_created :: "schedule result" where
  "null_created = create_schedule null_schedules service_actor null_input (service_world\<lparr>wd_schedules := []\<rparr>)"

text \<open>
  \<open>Create\<close> accepts the JSON text null as a schedule's variables; decoding it on the next tick leaves a nil map
  whose assignment panics, so the tick does not return.
\<close>

theorem null_vars_crash_the_tick:
  "(case fst null_created of Inl e \<Rightarrow> False | Inr sc \<Rightarrow> sc_vars sc = ''null'' \<and>
     \<not> fst (schedules_tick null_schedules (2 * hour) (snd null_created)))"
  by code_simp

end
