(* ===== verification/Run_Proofs.thy ===== *)
theory Run_Proofs
  imports Run_Frame
begin

text \<open>
  An abstract machine for runs and loops, and the proof that the engine refines it: each operation of
  \<open>internal/runs\<close> is a sequence of the few moves below, whatever the sessions service answers in between.
  What holds of the moves, by rule induction, then holds of the engine.
\<close>

section \<open>The moves\<close>

definition closed_row :: "time \<Rightarrow> run_outcome \<Rightarrow> string \<Rightarrow> string \<Rightarrow> usd \<Rightarrow> run \<Rightarrow> run" where
  "closed_row now oc report summary cost r =
     r\<lparr>rn_finished := Some now, rn_outcome := oc, rn_report := report, rn_summary := summary, rn_cost := cost\<rparr>"

definition moved_row :: "time \<Rightarrow> loop_state \<Rightarrow> nat \<Rightarrow> loop \<Rightarrow> loop" where
  "moved_row now st n l = l\<lparr>lp_state := st, lp_iteration := n, lp_updated := now\<rparr>"

text \<open>A run of a loop has an iteration of that loop, within its budget.\<close>

definition in_budget :: "loop list \<Rightarrow> run \<Rightarrow> bool" where
  "in_budget ls r \<longleftrightarrow> rn_loop r \<noteq> [] \<longrightarrow>
     (\<exists>l \<in> set ls. lp_id l = rn_loop r \<and> 1 \<le> rn_iteration r \<and> int (rn_iteration r) \<le> lp_max l)"

text \<open>The runs of a loop follow one another: a new one comes when the ones before are closed, with a higher iteration.\<close>

definition next_in_line :: "run list \<Rightarrow> id \<Rightarrow> nat \<Rightarrow> bool" where
  "next_in_line rs l n \<longleftrightarrow>
     (\<forall>r \<in> set rs. l \<noteq> [] \<longrightarrow> rn_loop r = l \<longrightarrow> rn_outcome r \<noteq> RunRunning \<and> rn_iteration r < n)"

definition loop_line :: "run list \<Rightarrow> bool" where
  "loop_line rs \<longleftrightarrow>
     (\<forall>r \<in> set rs. \<forall>r' \<in> set rs. rn_loop r \<noteq> [] \<longrightarrow> rn_loop r' = rn_loop r \<longrightarrow> rn_id r' \<noteq> rn_id r \<longrightarrow>
        rn_iteration r' \<noteq> rn_iteration r \<and>
        (rn_outcome r = RunRunning \<longrightarrow> rn_outcome r' \<noteq> RunRunning \<and> rn_iteration r' < rn_iteration r))"

inductive run_step :: "world \<Rightarrow> world \<Rightarrow> bool" where
  quiet: "wd_runs w' = wd_runs w \<Longrightarrow> wd_loops w' = wd_loops w \<Longrightarrow> wd_completed w' = wd_completed w \<Longrightarrow> run_step w w'"
| open_run: "rn_id r \<notin> rn_id ` set (wd_runs w) \<Longrightarrow> rn_outcome r = RunRunning \<Longrightarrow>
    in_budget (wd_loops w) r \<Longrightarrow> next_in_line (wd_runs w) (rn_loop r) (rn_iteration r) \<Longrightarrow> wd_runs w' = wd_runs w @ [r] \<Longrightarrow> wd_loops w' = wd_loops w \<Longrightarrow> wd_completed w' = wd_completed w \<Longrightarrow> run_step w w'"
| close_run: "r \<in> set (wd_runs w) \<Longrightarrow> rn_outcome r = RunRunning \<Longrightarrow> oc \<noteq> RunRunning \<Longrightarrow>
    wd_runs w' = tbl_update rn_id (rn_id r) (closed_row now oc report summary cost) (wd_runs w) \<Longrightarrow>
    wd_loops w' = wd_loops w \<Longrightarrow> wd_completed w' = rn_id r # wd_completed w \<Longrightarrow> run_step w w'"
| open_loop: "lp_id l \<notin> lp_id ` set (wd_loops w) \<Longrightarrow> lp_state l = LoopRunning \<Longrightarrow> lp_iteration l = 1 \<Longrightarrow> 1 \<le> lp_max l \<Longrightarrow>
    wd_runs w' = wd_runs w \<Longrightarrow> wd_loops w' = wd_loops w @ [l] \<Longrightarrow> wd_completed w' = wd_completed w \<Longrightarrow> run_step w w'"
| move_loop: "l \<in> set (wd_loops w) \<Longrightarrow> lp_state l = LoopRunning \<or> st = lp_state l \<Longrightarrow> 1 \<le> n \<Longrightarrow> int n \<le> lp_max l \<Longrightarrow>
    wd_runs w' = wd_runs w \<Longrightarrow> wd_loops w' = tbl_update lp_id (lp_id l) (moved_row now st n) (wd_loops w) \<Longrightarrow>
    wd_completed w' = wd_completed w \<Longrightarrow> run_step w w'"

abbreviation run_steps :: "world \<Rightarrow> world \<Rightarrow> bool" where
  "run_steps \<equiv> run_step\<^sup>*\<^sup>*"

text \<open>
  The invariant of the tables: ids are unique, a run of a loop has an iteration within the loop's budget, a loop's
  counter is within it too, its runs follow one another, and a run closed by this process is not running.
\<close>

definition runs_ok :: "world \<Rightarrow> bool" where
  "runs_ok w \<longleftrightarrow> distinct (map rn_id (wd_runs w)) \<and> distinct (map lp_id (wd_loops w)) \<and>
     (\<forall>r \<in> set (wd_runs w). in_budget (wd_loops w) r) \<and>
     (\<forall>l \<in> set (wd_loops w). 1 \<le> lp_iteration l \<and> int (lp_iteration l) \<le> lp_max l) \<and>
     (\<forall>r \<in> set (wd_runs w). rn_id r \<in> set (wd_completed w) \<longrightarrow> rn_outcome r \<noteq> RunRunning) \<and>
     set (wd_completed w) \<subseteq> rn_id ` set (wd_runs w) \<and> loop_line (wd_runs w)"

lemma closed_row_simps [simp]:
  "rn_id (closed_row now oc rep s c r) = rn_id r" "rn_loop (closed_row now oc rep s c r) = rn_loop r"
  "rn_iteration (closed_row now oc rep s c r) = rn_iteration r" "rn_outcome (closed_row now oc rep s c r) = oc"
  "rn_started (closed_row now oc rep s c r) = rn_started r"
  by (simp_all add: closed_row_def)

lemma moved_row_simps [simp]:
  "lp_id (moved_row now st n l) = lp_id l" "lp_max (moved_row now st n l) = lp_max l"
  "lp_state (moved_row now st n l) = st" "lp_iteration (moved_row now st n l) = n"
  "lp_session (moved_row now st n l) = lp_session l" "lp_template (moved_row now st n l) = lp_template l"
  by (simp_all add: moved_row_def)

lemma tbl_update_mem:
  "x \<in> set (tbl_update key i f t) \<longleftrightarrow> (\<exists>r \<in> set t. x = (if key r = i then f r else r))"
  by (simp only: tbl_update_def set_map image_iff)

lemma row_unique: "distinct (map key t) \<Longrightarrow> x \<in> set t \<Longrightarrow> y \<in> set t \<Longrightarrow> key x = key y \<Longrightarrow> x = y"
  by (auto simp: distinct_map dest: inj_onD)

text \<open>Updating a row without changing its key and its columns \<open>c\<close> keeps what is said of those.\<close>

lemma in_budget_update [simp]:
  "in_budget (tbl_update lp_id i (moved_row now st n) ls) r = in_budget ls r"
  unfolding in_budget_def tbl_update_def set_map bex_simps if_distrib[where f=lp_id] if_distrib[where f=lp_max]
    moved_row_simps if_cancel ..

lemma in_budget_append: "in_budget ls r \<Longrightarrow> in_budget (ls @ ls') r"
  by (auto simp: in_budget_def)

lemma in_budget_closed [simp]: "in_budget ls (closed_row now oc rep s c r) = in_budget ls r"
  by (simp add: in_budget_def)

lemma loop_line_append:
  assumes "loop_line rs" and "next_in_line rs (rn_loop r) (rn_iteration r)"
  shows "loop_line (rs @ [r])"
  unfolding loop_line_def
proof (intro ballI impI)
  fix x y assume h: "x \<in> set (rs @ [r])" "y \<in> set (rs @ [r])" "rn_loop x \<noteq> []" "rn_loop y = rn_loop x" "rn_id y \<noteq> rn_id x"
  then consider "x \<in> set rs" "y \<in> set rs" | "x = r" "y \<in> set rs" | "x \<in> set rs" "y = r" by auto
  then show "rn_iteration y \<noteq> rn_iteration x \<and>
      (rn_outcome x = RunRunning \<longrightarrow> rn_outcome y \<noteq> RunRunning \<and> rn_iteration y < rn_iteration x)"
    using assms h(3-5) unfolding loop_line_def next_in_line_def by cases fastforce+
qed

lemma loop_line_closed:
  assumes "loop_line rs" and "oc \<noteq> RunRunning"
  shows "loop_line (tbl_update rn_id i (closed_row now oc rep s c) rs)"
  unfolding loop_line_def
proof (intro ballI impI)
  let ?row = "\<lambda>x. if rn_id x = i then closed_row now oc rep s c x else x"
  fix x' y' assume h: "x' \<in> set (tbl_update rn_id i (closed_row now oc rep s c) rs)"
    "y' \<in> set (tbl_update rn_id i (closed_row now oc rep s c) rs)" "rn_loop x' \<noteq> []" "rn_loop y' = rn_loop x'" "rn_id y' \<noteq> rn_id x'"
  then obtain x y where xy: "x \<in> set rs" "x' = ?row x" "y \<in> set rs" "y' = ?row y" unfolding tbl_update_mem by blast
  have row: "rn_loop (?row z) = rn_loop z" "rn_id (?row z) = rn_id z" "rn_iteration (?row z) = rn_iteration z"
    "rn_outcome (?row z) = (if rn_id z = i then oc else rn_outcome z)" for z by simp_all
  have "rn_iteration y \<noteq> rn_iteration x \<and>
      (rn_outcome x = RunRunning \<longrightarrow> rn_outcome y \<noteq> RunRunning \<and> rn_iteration y < rn_iteration x)"
    using assms(1) xy(1,3) h(3-5) unfolding loop_line_def xy row by metis
  then show "rn_iteration y' \<noteq> rn_iteration x' \<and>
      (rn_outcome x' = RunRunning \<longrightarrow> rn_outcome y' \<noteq> RunRunning \<and> rn_iteration y' < rn_iteration x')"
    using assms(2) unfolding xy row by auto
qed

lemma run_step_ok: "run_step w w' \<Longrightarrow> runs_ok w \<Longrightarrow> runs_ok w'"
proof (induction rule: run_step.induct)
  case (close_run r w oc w' now report summary cost)
  have "rn_id ` set (wd_runs w') = rn_id ` set (wd_runs w)"
    using close_run(4) by (simp flip: set_map add: map_tbl_update)
  moreover have "distinct (map rn_id (wd_runs w'))"
    using close_run by (simp add: map_tbl_update runs_ok_def)
  moreover have "\<forall>x \<in> set (wd_runs w'). in_budget (wd_loops w') x \<and>
      (rn_id x \<in> set (wd_completed w') \<longrightarrow> rn_outcome x \<noteq> RunRunning)"
    using close_run by (auto simp: runs_ok_def set_tbl_update)
  ultimately show ?case
    using close_run(1,3-7) by (simp add: runs_ok_def subset_iff loop_line_closed)
next
  case (move_loop l w st n w' now)
  have same: "int n \<le> lp_max x" if "x \<in> set (wd_loops w)" "lp_id x = lp_id l" for x
    using move_loop that row_unique[of lp_id "wd_loops w" x l] by (auto simp: runs_ok_def)
  have "\<forall>x \<in> set (wd_loops w'). 1 \<le> lp_iteration x \<and> int (lp_iteration x) \<le> lp_max x"
    using move_loop by (auto simp: runs_ok_def tbl_update_mem same)
  with move_loop show ?case
    by (simp add: runs_ok_def map_tbl_update)
qed (auto simp: runs_ok_def in_budget_append loop_line_append) 

lemma run_steps_ok: "run_steps w w' \<Longrightarrow> runs_ok w \<Longrightarrow> runs_ok w'"
  by (induction rule: rtranclp_induct) (auto intro: run_step_ok)

section \<open>What the moves preserve\<close>

text \<open>
  A run row the engine holds: its id, loop and iteration are those of the table, and the table's row is running
  unless this process closed it.
\<close>

definition tracked :: "run \<Rightarrow> world \<Rightarrow> bool" where
  "tracked r w \<longleftrightarrow> (\<exists>row \<in> set (wd_runs w). rn_id row = rn_id r \<and> rn_loop row = rn_loop r \<and>
     rn_iteration row = rn_iteration r \<and> (rn_outcome row = RunRunning \<or> rn_id r \<in> set (wd_completed w)))"

text \<open>A loop row the engine holds: a loop of that id with that budget is in one of the states given.\<close>

definition loop_in :: "loop_state set \<Rightarrow> loop \<Rightarrow> world \<Rightarrow> bool" where
  "loop_in sts l w \<longleftrightarrow> (\<exists>row \<in> set (wd_loops w). lp_id row = lp_id l \<and> lp_max row = lp_max l \<and> lp_state row \<in> sts)"

lemma tracked_step: "run_step w w' \<Longrightarrow> tracked r w \<Longrightarrow> tracked r w'"
proof (induction rule: run_step.induct)
  case (close_run x w oc w' now report summary cost)
  then obtain row where "row \<in> set (wd_runs w)" "rn_id row = rn_id r" "rn_loop row = rn_loop r"
    "rn_iteration row = rn_iteration r" "rn_outcome row = RunRunning \<or> rn_id r \<in> set (wd_completed w)"
    by (auto simp: tracked_def)
  with close_run show ?case
    unfolding tracked_def close_run(4) set_tbl_update
    by (intro bexI[OF _ imageI[of row]]) auto
qed (auto simp: tracked_def)

lemma tracked_steps: "run_steps w w' \<Longrightarrow> tracked r w \<Longrightarrow> tracked r w'"
  by (induction rule: rtranclp_induct) (auto intro: tracked_step)

text \<open>A closed run is final: the moves never touch it again.\<close>

lemma closed_step: "run_step w w' \<Longrightarrow> runs_ok w \<Longrightarrow> r \<in> set (wd_runs w) \<Longrightarrow> rn_outcome r \<noteq> RunRunning \<Longrightarrow> r \<in> set (wd_runs w')"
proof (induction rule: run_step.induct)
  case (close_run x w oc w' now report summary cost)
  then have "rn_id r \<noteq> rn_id x"
    using row_unique[of rn_id "wd_runs w" r x] by (auto simp: runs_ok_def)
  with close_run show ?case by (auto simp: tbl_update_mem)
qed auto

lemma closed_steps:
  assumes "run_steps w w'" and "runs_ok w" and "r \<in> set (wd_runs w)" and "rn_outcome r \<noteq> RunRunning"
  shows "r \<in> set (wd_runs w')"
  using assms by (induction rule: rtranclp_induct) (auto intro: closed_step dest: run_steps_ok)

section \<open>The engine's helpers are moves\<close>

lemma quiet_steps:
  "wd_runs w' = wd_runs w \<Longrightarrow> wd_loops w' = wd_loops w \<Longrightarrow> wd_completed w' = wd_completed w \<Longrightarrow> run_steps w w'"
  by (rule r_into_rtranclp) (rule run_step.quiet)

lemma session_steps: "session_frame w w' \<Longrightarrow> run_steps w w'"
  by (rule quiet_steps) (simp_all add: session_frame_def)

lemma notify_steps: "run_steps w (notify en kind rid oc body w)"
  by (rule quiet_steps) (simp_all add: notify_def)

lemma loops_update_steps:
  assumes "loop_in {LoopRunning, st} l w" and "1 \<le> n" and "int n \<le> lp_max l"
  shows "run_steps w (snd (loops_update (lp_id l) st n None w))"
proof -
  from assms(1) obtain row where row: "row \<in> set (wd_loops w)" "lp_id row = lp_id l" "lp_max row = lp_max l"
    "lp_state row = LoopRunning \<or> st = lp_state row" by (auto simp: loop_in_def)
  then have "loops_update (lp_id l) st n None w =
      (Inr (), w\<lparr>wd_loops := tbl_update lp_id (lp_id l) (moved_row (wd_now w) st n) (wd_loops w)\<rparr>)"
    by (auto simp: loops_update_def moved_row_def[abs_def] fk_def rev_image_eqI)
  then show ?thesis
    using run_step.move_loop[OF row(1,4) assms(2), of _ "wd_now w"] assms(3) row by (simp add: r_into_rtranclp)
qed

lemma end_loop_steps:
  assumes "loop_in {LoopRunning, st} l w" and "1 \<le> lp_iteration l" and "int (lp_iteration l) \<le> lp_max l"
    and "int n \<le> lp_max l"
  shows "run_steps w (end_loop l n st w)"
proof -
  obtain r v where v: "loops_update (lp_id l) st (max n (lp_iteration l)) None w = (r, v)" by fastforce
  with loops_update_steps[OF assms(1), of "max n (lp_iteration l)"] assms have "run_steps w v" by simp
  moreover have "run_steps v (end_loop l n st w)"
    unfolding end_loop_def v by (rule quiet_steps) (simp_all add: forget_vars_def split: sum.split)
  ultimately show ?thesis by simp
qed

text \<open>The world right after a run's row is closed, before its loop is advanced.\<close>

definition report_text :: "string \<Rightarrow> string" where
  "report_text report = (if report = [] then ''{}'' else report)"

definition closed_world :: "engine \<Rightarrow> run \<Rightarrow> run_outcome \<Rightarrow> string \<Rightarrow> string \<Rightarrow> usd \<Rightarrow> world \<Rightarrow> world" where
  "closed_world en run oc report summary cost w =
     publish_finished en run oc (w\<lparr>wd_completed := rn_id run # wd_completed w,
       wd_runs := tbl_update rn_id (rn_id run) (closed_row (wd_now w) oc (report_text report) summary cost) (wd_runs w),
       wd_notified := removeAll (rn_id run) (wd_notified w)\<rparr>)"

lemma closed_world_simps [simp]:
  "wd_runs (closed_world en run oc report summary cost w) =
     tbl_update rn_id (rn_id run) (closed_row (wd_now w) oc (report_text report) summary cost) (wd_runs w)"
  "wd_loops (closed_world en run oc report summary cost w) = wd_loops w"
  "wd_completed (closed_world en run oc report summary cost w) = rn_id run # wd_completed w"
  "wd_now (closed_world en run oc report summary cost w) = wd_now w"
  by (simp_all add: closed_world_def publish_finished_def publish_def)

text \<open>Closing the only running run of a loop, the newest, puts the next iteration in line.\<close>

lemma closed_in_line:
  assumes "runs_ok w" and row: "row \<in> set (wd_runs w)" "rn_outcome row = RunRunning" and oc: "oc \<noteq> RunRunning"
  shows "next_in_line (tbl_update rn_id (rn_id row) (closed_row now oc rep s c) (wd_runs w)) (rn_loop row) (Suc (rn_iteration row))"
  unfolding next_in_line_def
proof (intro ballI impI)
  fix x assume x: "x \<in> set (tbl_update rn_id (rn_id row) (closed_row now oc rep s c) (wd_runs w))"
    "rn_loop row \<noteq> []" "rn_loop x = rn_loop row"
  obtain z where z: "z \<in> set (wd_runs w)" "x = (if rn_id z = rn_id row then closed_row now oc rep s c z else z)"
    using x(1) unfolding tbl_update_mem by blast
  from assms(1) have "loop_line (wd_runs w)" "distinct (map rn_id (wd_runs w))" by (simp_all add: runs_ok_def)
  then have "rn_iteration z \<le> rn_iteration row \<and> (z = row \<or> rn_id z \<noteq> rn_id row \<and> rn_outcome z \<noteq> RunRunning)"
    using row x(2,3) z row_unique[of rn_id "wd_runs w" z row] unfolding loop_line_def
    by (metis closed_row_simps(2) less_imp_le order_refl)
  then show "rn_outcome x \<noteq> RunRunning \<and> rn_iteration x < Suc (rn_iteration row)"
    using oc z(2) by (cases "rn_id z = rn_id row") auto
qed

lemma finish_closes:
  assumes ok: "runs_ok w" and tr: "tracked run w" and oc: "oc \<noteq> RunRunning" and new: "rn_id run \<notin> set (wd_completed w)"
  shows "finish_with en next run oc report summary cost w =
      (True, advance_with en next run oc (report_text report) (closed_world en run oc report summary cost w))"
    and "run_steps w (closed_world en run oc report summary cost w)"
    and "next_in_line (wd_runs (closed_world en run oc report summary cost w)) (rn_loop run) (Suc (rn_iteration run))"
proof -
  obtain row where row: "row \<in> set (wd_runs w)" "rn_id row = rn_id run" "rn_outcome row = RunRunning"
    "rn_loop row = rn_loop run" "rn_iteration row = rn_iteration run"
    using tr new by (auto simp: tracked_def)
  then have "rn_id run \<in> rn_id ` set (wd_runs w)" by (metis image_eqI)
  with new show "finish_with en next run oc report summary cost w =
      (True, advance_with en next run oc (report_text report) (closed_world en run oc report summary cost w))"
    by (simp add: finish_with_def runs_finish_def Let_def report_text_def closed_world_def closed_row_def[abs_def])
  show "run_steps w (closed_world en run oc report summary cost w)"
    by (intro r_into_rtranclp run_step.close_run[OF row(1,3) oc]) (simp_all add: row(2))
  show "next_in_line (wd_runs (closed_world en run oc report summary cost w)) (rn_loop run) (Suc (rn_iteration run))"
    using closed_in_line[OF ok row(1,3) oc] row(2,4,5) by simp
qed

text \<open>
  \<open>advance\<close> and \<open>finish\<close> over the function that starts the next iteration. What it promises: on a running loop
  with budget left its effects are moves, and when it fails the loop is still running or marked failed.
\<close>

locale iteration_starter =
  fixes "next" :: "loop \<Rightarrow> run \<Rightarrow> string \<Rightarrow> world \<Rightarrow> error option \<times> world"
  assumes next_steps: "next l run rep w = (e, v) \<Longrightarrow> runs_ok w \<Longrightarrow> l \<in> set (wd_loops w) \<Longrightarrow> lp_state l = LoopRunning \<Longrightarrow>
      lp_id l = rn_loop run \<Longrightarrow> int (Suc (rn_iteration run)) \<le> lp_max l \<Longrightarrow>
      next_in_line (wd_runs w) (rn_loop run) (Suc (rn_iteration run)) \<Longrightarrow>
      run_steps w v \<and> (e \<noteq> None \<longrightarrow> loop_in {LoopRunning, LoopFailed} l v)"
begin

lemma advance_steps:
  assumes ok: "runs_ok w" and tr: "tracked run w"
    and line: "next_in_line (wd_runs w) (rn_loop run) (Suc (rn_iteration run))"
  shows "run_steps w (advance_with en next run oc report w)"
proof (cases "\<exists>l. loops_get (rn_loop run) w = Inr l \<and> rn_loop run \<noteq> [] \<and> en_has_loops en \<and> lp_state l = LoopRunning")
  case False
  then have "advance_with en next run oc report w = w"
    by (auto simp: advance_with_def split: sum.split)
  then show ?thesis by simp
next
  case True
  then obtain l where g: "loops_get (rn_loop run) w = Inr l" "rn_loop run \<noteq> []" "en_has_loops en" "lp_state l = LoopRunning"
    by blast
  then have l: "l \<in> set (wd_loops w)" "lp_id l = rn_loop run"
    by (auto simp: loops_get_def found_Inr dest: tbl_get_Some)
  obtain row where row: "row \<in> set (wd_runs w)" "rn_loop row = rn_loop run" "rn_iteration row = rn_iteration run"
    using tr by (auto simp: tracked_def)
  from ok row(1) have "in_budget (wd_loops w) row" "distinct (map lp_id (wd_loops w))"
    by (simp_all add: runs_ok_def)
  with row g(2) l have n: "int (rn_iteration run) \<le> lp_max l"
    by (auto simp: in_budget_def dest: row_unique[OF _ l(1)])
  have bounds: "1 \<le> lp_iteration l" "int (lp_iteration l) \<le> lp_max l"
    using ok l(1) by (auto simp: runs_ok_def)
  have here: "loop_in {LoopRunning, st} l w" for st
    using l(1) g(4) by (auto simp: loop_in_def)
  note finish = end_loop_steps[OF here bounds n]
  obtain e v where e: "next l run report w = (e, v)" by fastforce
  have "run_steps w v \<and> (e \<noteq> None \<longrightarrow> loop_in {LoopRunning, LoopFailed} l v)" if "\<not> lp_max l \<le> int (rn_iteration run)"
    using next_steps[OF e ok l(1) g(4) l(2) _ line] that by simp
  then have "\<not> lp_max l \<le> int (rn_iteration run) \<Longrightarrow> run_steps w (case e of None \<Rightarrow> v | Some _ \<Rightarrow> end_loop l (rn_iteration run) LoopFailed v)"
    using rtranclp_trans[OF _ end_loop_steps[of LoopFailed l v, OF _ bounds n]] by (auto split: option.split)
  then show ?thesis
    unfolding advance_with_def using g finish by (simp add: e)
qed

lemma finish_steps:
  assumes ok: "runs_ok w" and tr: "tracked run w" and oc: "oc \<noteq> RunRunning"
    and f: "finish_with en next run oc report summary cost w = (won, w')"
  shows "run_steps w w'"
proof (cases "rn_id run \<in> set (wd_completed w)")
  case True
  with f show ?thesis by (simp add: finish_with_def)
next
  case False
  from finish_closes[OF ok tr oc this] f
  have v: "run_steps w (closed_world en run oc report summary cost w)"
    and line: "next_in_line (wd_runs (closed_world en run oc report summary cost w)) (rn_loop run) (Suc (rn_iteration run))"
    and w': "w' = advance_with en next run oc (report_text report) (closed_world en run oc report summary cost w)"
    by auto
  show ?thesis
    using rtranclp_trans[OF v advance_steps[OF run_steps_ok[OF v ok] tracked_steps[OF v tr] line]] by (simp add: w')
qed

end

interpretation last_iteration: iteration_starter no_iteration
  by unfold_locales (auto simp: no_iteration_def)

lemma runs_create_Inr:
  "runs_create r w = (Inr x, w') \<Longrightarrow> w' = w\<lparr>wd_runs := wd_runs w @ [r]\<rparr> \<and> rn_id r \<notin> rn_id ` set (wd_runs w)"
  by (auto simp: runs_create_def split: if_splits)

lemma runs_create_Inl: "runs_create r w = (Inl e, w') \<Longrightarrow> w' = w"
  by (auto simp: runs_create_def split: if_splits)

lemma opened_run:
  assumes "runs_create r w = (Inr x, w')" and "rn_outcome r = RunRunning" and "in_budget (wd_loops w) r"
    and "next_in_line (wd_runs w) (rn_loop r) (rn_iteration r)"
  shows "run_steps w w'" and "tracked r w'" and "wd_loops w' = wd_loops w"
  using runs_create_Inr[OF assms(1)] assms(2-4)
  using run_step.open_run[OF _ assms(2-4), of w'] by (auto simp: tracked_def intro: r_into_rtranclp)

lemma uuid_quiet: "new_uuid f w = (u, w') \<Longrightarrow> run_steps w w' \<and> wd_loops w' = wd_loops w \<and> wd_runs w' = wd_runs w"
  by (auto simp: new_uuid_def intro: quiet_steps)

lemma loops_update_state:
  assumes "l \<in> set (wd_loops w)"
  shows "loop_in {st} l (snd (loops_update (lp_id l) st n None w))"
    and "fst (loops_update (lp_id l) st n None w) = Inr ()"
    and "wd_runs (snd (loops_update (lp_id l) st n None w)) = wd_runs w"
proof -
  have "lp_id l \<in> lp_id ` set (wd_loops w)" using assms by simp
  then have u: "loops_update (lp_id l) st n None w =
      (Inr (), w\<lparr>wd_loops := tbl_update lp_id (lp_id l) (moved_row (wd_now w) st n) (wd_loops w)\<rparr>)"
    by (simp add: loops_update_def moved_row_def[abs_def] fk_def)
  show "loop_in {st} l (snd (loops_update (lp_id l) st n None w))"
    unfolding loop_in_def by (rule bexI[of _ "moved_row (wd_now w) st n l"]) (use assms in \<open>auto simp: u tbl_update_mem\<close>)
qed (use assms in \<open>simp_all add: loops_update_def fk_def\<close>)

lemma loop_in_moved:
  assumes "loop_in sts l w" and "wd_loops w' = tbl_update lp_id i (moved_row now st n) (wd_loops w)" and "st \<in> sts"
  shows "loop_in sts l w'"
proof -
  obtain row where row: "row \<in> set (wd_loops w)" "lp_id row = lp_id l" "lp_max row = lp_max l" "lp_state row \<in> sts"
    using assms(1) by (auto simp: loop_in_def)
  then show ?thesis
    unfolding loop_in_def assms(2)
    by (intro bexI[of _ "if lp_id row = i then moved_row now st n row else row"]) (auto simp: tbl_update_mem assms(3) intro!: bexI[of _ row])
qed

text \<open>Closing a run as failed leaves its loop running or failed: \<open>advance\<close> only ever stops it then.\<close>

lemma failed_finish_loop:
  assumes "loop_in {LoopRunning, LoopFailed} l w"
  shows "loop_in {LoopRunning, LoopFailed} l (snd (finish_with en next run RunFailed rep summary cost w))"
proof -
  have adv: "loop_in {LoopRunning, LoopFailed} l (advance_with en next run RunFailed rep' v)"
    if "wd_loops v = wd_loops w" for rep' v
  proof -
    have "wd_loops (advance_with en next run RunFailed rep' v) = wd_loops v \<or>
      (\<exists>i n. wd_loops (advance_with en next run RunFailed rep' v) =
         tbl_update lp_id i (moved_row (wd_now v) LoopFailed n) (wd_loops v))"
      by (auto simp: advance_with_def end_loop_def loops_update_def forget_vars_def fk_def moved_row_def[abs_def]
          split: sum.split)
    moreover have "loop_in {LoopRunning, LoopFailed} l v"
      using assms that by (simp add: loop_in_def)
    ultimately show ?thesis
    proof (elim disjE exE)
      assume "loop_in {LoopRunning, LoopFailed} l v" "wd_loops (advance_with en next run RunFailed rep' v) = wd_loops v"
      then show ?thesis by (simp add: loop_in_def)
    qed (rule loop_in_moved, auto)
  qed
  show ?thesis
    using assms adv by (auto simp: finish_with_def runs_finish_def Let_def publish_finished_def publish_def loop_in_def)
qed

interpretation engine_iterations: iteration_starter "next_iteration en" for en
proof
  fix l run rep w e v
  assume nx: "next_iteration en l run rep w = (e, v)" and ok: "runs_ok w" and l: "l \<in> set (wd_loops w)" "lp_state l = LoopRunning"
    and id: "lp_id l = rn_loop run" and max: "int (Suc (rn_iteration run)) \<le> lp_max l"
    and line: "next_in_line (wd_runs w) (rn_loop run) (Suc (rn_iteration run))"
  let ?n = "Suc (rn_iteration run)"
  have here: "loop_in {LoopRunning, LoopFailed} l w"
    using l by (auto simp: loop_in_def)
  consider "v = w" | sid tpl prompt u w1 where "lp_session l = Some sid" "templates_get (lp_template l) w = Inr tpl"
      "ge_render (en_env en) (tp_prompt tpl) (loop_vars en l ?n rep w) = Inr prompt" "new_uuid (ge_uuid (en_env en)) w = (u, w1)"
    using nx by (auto simp: next_iteration_def Let_def split: option.splits sum.splits prod.splits)
  then show "run_steps w v \<and> (e \<noteq> None \<longrightarrow> loop_in {LoopRunning, LoopFailed} l v)"
  proof cases
    case 1
    with here show ?thesis by simp
  next
    case 2
    define new where "new = iteration_run u sid tpl run l (wd_now w)"
    note body = nx[unfolded next_iteration_def 2(1-4) option.case sum.case Let_def prod.case, folded new_def]
    have w1: "run_steps w w1" "wd_loops w1 = wd_loops w" "wd_runs w1 = wd_runs w" using uuid_quiet[OF 2(4)] by simp_all
    have new: "rn_outcome new = RunRunning" "in_budget (wd_loops w1) new"
      "next_in_line (wd_runs w1) (rn_loop new) (rn_iteration new)"
      using l(1) max line id by (auto simp: new_def iteration_run_def in_budget_def w1(2,3))
    show ?thesis
    proof (cases "runs_create new w1")
      case (Pair r w2)
      show ?thesis
      proof (cases r)
        case (Inl x)
        with body Pair runs_create_Inl[of new w1 x w2] w1 here show ?thesis by (auto simp: loop_in_def)
      next
        case (Inr x)
        note opened = opened_run[OF Pair[unfolded Inr] new]
        have l2: "l \<in> set (wd_loops w2)" using l(1) w1(2) opened(3) by simp
        obtain r3 w3 where w3: "loops_update (lp_id l) LoopRunning ?n None w2 = (r3, w3)" by fastforce
        have s23: "run_steps w2 w3"
          using loops_update_steps[of LoopRunning l w2 ?n] l l2 max w3 by (auto simp: loop_in_def)
        with w1(1) opened(1) s23 have s3: "run_steps w w3" by (meson rtranclp_trans)
        obtain r4 w4 where w4: "send_session (en_sessions en) service_actor sid (iteration_text en ?n (lp_max l) rep prompt) w3 = (r4, w4)"
          by fastforce
        have f4: "session_frame w3 w4"
          using frame_send[of w3 "en_sessions en" service_actor sid "iteration_text en ?n (lp_max l) rep prompt"] w4 by simp
        with s3 have s4: "run_steps w w4" by (meson rtranclp_trans session_steps)
        have "loop_in {LoopRunning} l w3" and r3: "r3 = Inr ()"
          using loops_update_state[OF l2, of LoopRunning ?n] w3 by simp_all
        then have in4: "loop_in {LoopRunning, LoopFailed} l w4"
          using f4 by (auto simp: loop_in_def session_frame_def)
        have tr: "tracked new w4"
          using tracked_steps[OF rtranclp_trans[OF s23 session_steps[OF f4]] opened(2)] .
        obtain won w5 where w5: "finish_with en no_iteration new RunFailed []
            ''the next loop iteration could not be sent'' 0 w4 = (won, w5)" by fastforce
        have "run_steps w4 w5"
          by (rule last_iteration.finish_steps[OF run_steps_ok[OF s4 ok] tr _ w5]) simp
        moreover have "loop_in {LoopRunning, LoopFailed} l w5"
          using failed_finish_loop[OF in4, of en no_iteration new "[]" "''the next loop iteration could not be sent''" 0] w5
          by simp
        moreover have "v = w4 \<and> e = None \<or> v = w5"
          using body by (simp add: Pair Inr w3 w4 w5 r3 split: sum.splits)
        ultimately show ?thesis
          using s4 by (auto intro: rtranclp_trans)
      qed
    qed
  qed
qed

section \<open>The engine's operations are moves\<close>

lemma finish_moves:
  "finish en run oc report summary cost w = (won, w') \<Longrightarrow> runs_ok w \<Longrightarrow> tracked run w \<Longrightarrow> oc \<noteq> RunRunning \<Longrightarrow> run_steps w w'"
  unfolding finish_def by (rule engine_iterations.finish_steps)

lemma steps_notify: "run_steps w v \<Longrightarrow> run_steps w (notify en kind rid oc body v)"
  by (rule rtranclp_trans[OF _ notify_steps])

lemma steps_session: "run_steps w v \<Longrightarrow> session_frame v v' \<Longrightarrow> run_steps w v'"
  by (rule rtranclp_trans[OF _ session_steps])

lemma complete_moves: "runs_ok w \<Longrightarrow> tracked run w \<Longrightarrow> run_steps w (complete_from_result en run res w)"
  unfolding complete_from_result_def Let_def
  by (auto split: prod.split intro!: steps_notify dest!: finish_moves)

lemma fail_moves: "runs_ok w \<Longrightarrow> tracked run w \<Longrightarrow> run_steps w (fail_run en run w)"
  unfolding fail_run_def Let_def
  by (auto split: prod.split intro!: steps_notify dest!: finish_moves)

lemma reconcile_moves: "runs_ok w \<Longrightarrow> tracked run w \<Longrightarrow> run_steps w (reconcile_run en run w)"
  by (auto simp: reconcile_run_def complete_moves fail_moves split: list.split sum.split)

lemma running_run_tracked: "running_run_of sid w = Some run \<Longrightarrow> tracked run w"
proof -
  assume "running_run_of sid w = Some run"
  then have "run \<in> set (rev (sort_key (\<lambda>r. (int (rn_iteration r), now_string (rn_started r)))
      (rev (filter (\<lambda>r. rn_session r = sid) (wd_runs w)))))" "rn_outcome run = RunRunning"
    unfolding running_run_of_def runs_get_by_session_def
    by (auto split: if_splits sum.splits list.splits simp del: set_rev)
  then show ?thesis by (auto simp: tracked_def)
qed

lemma approval_moves: "run_steps w (handle_approval_created en sid w)"
  unfolding handle_approval_created_def
  by (auto intro!: steps_notify quiet_steps split: option.split)

lemma message_moves: "runs_ok w \<Longrightarrow> run_steps w (handle_message en msg w)"
  unfolding handle_message_def
  by (auto simp: complete_moves fail_moves approval_moves dest!: running_run_tracked
      split: message.split harness_event.split option.split session_state.split)

lemma time_out_moves: "runs_ok w \<Longrightarrow> tracked run w \<Longrightarrow> run_steps w (time_out_run en w run)"
proof -
  assume h: "runs_ok w" "tracked run w"
  obtain won v where v: "finish en run RunTimeout [] (''timed out after '' @ en_show_duration en (engine_timeout en))
      (session_cost (rn_session run) 0 w) w = (won, v)" by fastforce
  have "run_steps w v" by (rule finish_moves[OF v h]) simp
  then show ?thesis
    unfolding time_out_run_def Let_def v prod.case
    by (auto intro!: steps_notify steps_session[OF _ frame_stop(2)] steps_session[OF _ frame_stop(1)])
qed

lemma time_out_all:
  "runs_ok w \<Longrightarrow> \<forall>run \<in> set rs. tracked run w \<Longrightarrow> run_steps w (foldl (time_out_run en) w rs)"
proof (induction rs arbitrary: w)
  case (Cons run rs)
  then have s: "run_steps w (time_out_run en w run)" by (simp add: time_out_moves)
  with Cons have "run_steps (time_out_run en w run) (foldl (time_out_run en) (time_out_run en w run) rs)"
    using run_steps_ok tracked_steps by auto
  with s show ?case by simp
qed simp

lemma overdue_tracked: "run \<in> set (runs_running_older_than t w) \<Longrightarrow> tracked run w"
  by (auto simp: runs_running_older_than_def tracked_def)

lemma sweep_moves: "runs_ok w \<Longrightarrow> run_steps w (tick_runs en now w)"
  unfolding tick_runs_def by (rule time_out_all) (auto intro: overdue_tracked)

lemma stop_loop_moves:
  assumes "stop_loop en i w = (r, w')" and ok: "runs_ok w"
  shows "run_steps w w'"
proof (cases "\<exists>l. loops_get i w = Inr l \<and> lp_state l = LoopRunning \<and> en_has_loops en")
  case False
  with assms(1) show ?thesis by (auto simp: stop_loop_def split: sum.splits if_splits)
next
  case True
  then obtain l where g: "loops_get i w = Inr l" "lp_state l = LoopRunning" "en_has_loops en" by blast
  then have l: "l \<in> set (wd_loops w)" "lp_id l = i" by (auto simp: loops_get_def found_Inr dest: tbl_get_Some)
  then have "loop_in {LoopRunning, LoopStopped} l w" "1 \<le> lp_iteration l" "int (lp_iteration l) \<le> lp_max l"
    using ok g(2) by (auto simp: loop_in_def runs_ok_def)
  from loops_update_steps[OF this] obtain v where v: "loops_update i LoopStopped (lp_iteration l) None w = (Inr (), v)" "run_steps w v"
    using loops_update_state(2)[OF l(1), of LoopStopped "lp_iteration l"] l(2) by (cases "loops_update i LoopStopped (lp_iteration l) None w") auto
  have f: "run_steps w (forget_vars i v)"
    by (rule rtranclp_trans[OF v(2) quiet_steps]) (simp_all add: forget_vars_def)
  from assms(1) g l v(1) have "w' = (case lp_session l of None \<Rightarrow> forget_vars i v | Some sid \<Rightarrow> close_orphan en sid (forget_vars i v))"
    by (simp add: stop_loop_def Let_def)
  with f show ?thesis
    by (auto simp: close_orphan_def intro: steps_session frame_stop(2) split: option.split)
qed

text \<open>What a new loop is to the run that starts it.\<close>

definition new_loop :: "id \<Rightarrow> nat \<Rightarrow> world \<Rightarrow> bool" where
  "new_loop lid it w \<longleftrightarrow> (\<exists>l \<in> set (wd_loops w). lp_id l = lid \<and> lp_state l = LoopRunning \<and> it = 1 \<and> 1 \<le> lp_max l) \<and>
     (\<forall>r \<in> set (wd_runs w). rn_loop r \<noteq> lid)"

lemma start_loop_moves:
  assumes "start_loop en tpl inp sid origin w = (r, w')" and ok: "runs_ok w"
  shows "run_steps w w'"
    and "r = Inr (lid, it) \<Longrightarrow> lid \<noteq> [] \<Longrightarrow> new_loop lid it w'"
proof -
  have "run_steps w w' \<and> (r = Inr (lid, it) \<longrightarrow> lid \<noteq> [] \<longrightarrow>
      new_loop lid it w')"
  proof (cases "tp_loop_until tpl = [] \<or> \<not> en_has_loops en")
    case True
    with assms show ?thesis by (auto simp: start_loop_def)
  next
    case False
    obtain u w1 where w1: "new_uuid (ge_uuid (en_env en)) w = (u, w1)" by fastforce
    define l where "l = \<lparr>lp_id = u, lp_template = tp_id tpl, lp_session = Some sid, lp_origin = origin,
      lp_origin_ref = ri_trigger inp, lp_until = tp_loop_until tpl,
      lp_max = (if tp_loop_max tpl < 1 then default_loop_max else tp_loop_max tpl),
      lp_iteration = 1, lp_state = LoopRunning, lp_created = wd_now w, lp_updated = wd_now w\<rparr>"
    have eq: "(case loops_create l w1 of (Inl e, w2) \<Rightarrow> (Inl e, w2)
        | (Inr _, w2) \<Rightarrow> (Inr (u, 1), remember_vars u (ri_vars inp) w2)) = (r, w')"
      using assms False by (simp add: start_loop_def w1 l_def)
    have l: "lp_id l = u" "lp_state l = LoopRunning" "lp_iteration l = 1" "1 \<le> lp_max l"
      by (simp_all add: l_def default_loop_max_def)
    show ?thesis
    proof (cases "loops_create l w1 = (Inr (), w1\<lparr>wd_loops := wd_loops w1 @ [l]\<rparr>)")
      case True
      with eq have r: "r = Inr (u, 1)" "w' = remember_vars u (ri_vars inp) (w1\<lparr>wd_loops := wd_loops w1 @ [l]\<rparr>)" by simp_all
      have "run_step w1 w'"
        using True l by (intro run_step.open_loop[of l]) (auto simp: r remember_vars_def loops_create_def split: if_splits)
      moreover have "rn_loop x \<noteq> u" if "x \<in> set (wd_runs w)" "u \<noteq> []" for x
      proof -
        have "lp_id l \<notin> lp_id ` set (wd_loops w)" "in_budget (wd_loops w) x"
          using True uuid_quiet[OF w1] ok that(1) by (auto simp: loops_create_def runs_ok_def split: if_splits)
        with that l(1) show ?thesis by (force simp: in_budget_def image_iff)
      qed
      ultimately show ?thesis
        using uuid_quiet[OF w1] l r by (auto simp: remember_vars_def new_loop_def intro: rtranclp.rtrancl_into_rtrancl)
    next
      case False
      then have "\<exists>e. loops_create l w1 = (Inl e, w1)" by (auto simp: loops_create_def split: if_splits)
      with eq uuid_quiet[OF w1] show ?thesis by auto
    qed
  qed
  then show "run_steps w w'" and "r = Inr (lid, it) \<Longrightarrow> lid \<noteq> [] \<Longrightarrow>
    new_loop lid it w'" by blast+
qed

lemma register_run_moves:
  assumes loop: "lid \<noteq> [] \<Longrightarrow> new_loop lid it w"
    and ok: "runs_ok w" and run: "rn_loop run = lid" "rn_iteration run = it" "rn_outcome run = RunRunning"
    and body: "(case runs_create run w of
        (Inl e, w4) \<Rightarrow>
          (Inl e, if lid = [] then close_orphan en sid w4
            else forget_vars lid (snd (loops_update lid LoopFailed it None (close_orphan en sid w4))))
      | (Inr _, w4) \<Rightarrow> (Inr run, reconcile_run en run w4)) = (r, w')"
  shows "run_steps w w'"
proof (cases "runs_create run w")
  case (Pair r4 w4)
  show ?thesis
  proof (cases r4)
    case (Inl e)
    with Pair have w4: "w4 = w" using runs_create_Inl by blast
    have frame: "session_frame w (close_orphan en sid w)"
      by (simp add: close_orphan_def frame_stop(2))
    show ?thesis
    proof (cases "lid = []")
      case True
      with body Pair Inl w4 session_steps[OF frame] show ?thesis by simp
    next
      case False
      then obtain l where l: "l \<in> set (wd_loops w)" "lp_id l = lid" "lp_state l = LoopRunning" "it = 1" "1 \<le> lp_max l"
        using loop by (auto simp: new_loop_def)
      then have "loop_in {LoopRunning, LoopFailed} l (close_orphan en sid w)"
        using frame by (auto simp: loop_in_def session_frame_def)
      from loops_update_steps[OF this, of 1] l
      have u: "run_steps (close_orphan en sid w) (snd (loops_update lid LoopFailed it None (close_orphan en sid w)))"
        by simp
      have "run_steps v (forget_vars lid v)" for v
        by (rule quiet_steps) (simp_all add: forget_vars_def)
      with body Pair Inl w4 False rtranclp_trans[OF rtranclp_trans[OF session_steps[OF frame] u]] show ?thesis by auto
    qed
  next
    case (Inr x)
    have "in_budget (wd_loops w) run" "next_in_line (wd_runs w) (rn_loop run) (rn_iteration run)"
      using loop run by (force simp: in_budget_def new_loop_def next_in_line_def)+
    note opened = opened_run[OF Pair[unfolded Inr] run(3) this]
    from body Pair Inr have "w' = reconcile_run en run w4" by simp
    then show ?thesis
      using rtranclp_trans[OF opened(1) reconcile_moves[OF run_steps_ok[OF opened(1) ok] opened(2)]] by simp
  qed
qed

lemma start_run_moves:
  assumes start: "start_run en inp w = (r, w')" and ok: "runs_ok w"
  shows "run_steps w w'"
proof (cases "\<exists>tpl prompt. templates_get (ri_template inp) w = Inr tpl \<and>
    ge_render (en_env en) (tp_prompt tpl) (ri_vars inp) = Inr prompt \<and> trim_space prompt \<noteq> []")
  case False
  then have "w' = w" using start by (fastforce simp: start_run_def split: sum.splits if_splits)
  then show ?thesis by simp
next
  case True
  then obtain tpl prompt where t: "templates_get (ri_template inp) w = Inr tpl"
    "ge_render (en_env en) (tp_prompt tpl) (ri_vars inp) = Inr prompt" "trim_space prompt \<noteq> []" by blast
  define origin where "origin = (if ri_origin inp = [] then OriginWebhook else ri_origin inp)"
  obtain rid w1 where w1: "new_uuid (ge_uuid (en_env en)) w = (rid, w1)" by fastforce
  let ?ci = "run_create_input tpl (render_title en tpl (ri_vars inp)) prompt origin rid (ri_worktree inp)"
  obtain r2 w2 where w2: "create_session (en_sessions en) service_actor ?ci w1 = (r2, w2)" by fastforce
  have s2: "run_steps w w2"
    using uuid_quiet[OF w1] frame_create_session[of w1 "en_sessions en" service_actor "?ci"] w2 by (auto intro: steps_session)
  note eq = start[unfolded start_run_def t sum.case, simplified t(3) if_False Let_def origin_def[symmetric] w1 prod.case w2]
  have close: "run_steps w (close_orphan en k v)" if "run_steps w v" for k v
    using steps_session[OF that] frame_stop(2) by (auto simp: close_orphan_def)
  show ?thesis
  proof (cases r2)
    case (Inl e)
    with eq s2 show ?thesis by simp
  next
    case (Inr s)
    obtain r3 w3 where w3: "start_loop en tpl inp (se_id s) origin w2 = (r3, w3)" by fastforce
    have s3: "run_steps w w3" using start_loop_moves(1)[OF w3 run_steps_ok[OF s2 ok]] s2 by (meson rtranclp_trans)
    show ?thesis
    proof (cases r3)
      case Inl3: (Inl e)
      with eq Inr w3 close[OF s3] show ?thesis by auto
    next
      case Inr3: (Inr p)
      obtain lid it where p: "p = (lid, it)" by (cases p)
      note loop = start_loop_moves(2)[OF w3 run_steps_ok[OF s2 ok], of lid it, unfolded Inr3 p]
      have "run_steps w3 w'"
        by (rule register_run_moves[OF _ run_steps_ok[OF s3 ok] _ _ _ eq[unfolded Inr sum.case w3 prod.case Inr3 p]])
          (use loop in \<open>auto simp: first_run_def\<close>)
      with s3 show ?thesis by simp
    qed
  qed
qed

section \<open>The life of the engine\<close>

text \<open>
  One operation of the engine, or a step of anything else in the process (a session, the clock) that leaves the
  engine's tables alone.
\<close>

inductive engine_op :: "engine \<Rightarrow> world \<Rightarrow> world \<Rightarrow> bool" for en where
  started: "start_run en inp w = (r, w') \<Longrightarrow> engine_op en w w'"
| handled: "engine_op en w (handle_message en msg w)"
| swept: "engine_op en w (tick_runs en now w)"
| stopped: "stop_loop en i w = (r, w') \<Longrightarrow> engine_op en w w'"
| elsewhere: "wd_runs w' = wd_runs w \<Longrightarrow> wd_loops w' = wd_loops w \<Longrightarrow> wd_completed w' = wd_completed w \<Longrightarrow> engine_op en w w'"

text \<open>The process may also restart: the rows stay, the sets and caches in memory are empty again.\<close>

inductive engine_life :: "engine \<Rightarrow> world \<Rightarrow> world \<Rightarrow> bool" for en where
  running: "engine_op en w w' \<Longrightarrow> engine_life en w w'"
| restarted: "engine_life en w (w\<lparr>wd_completed := [], wd_notified := [], wd_loop_vars := []\<rparr>)"

lemma engine_op_moves: "engine_op en w w' \<Longrightarrow> runs_ok w \<Longrightarrow> run_steps w w'"
  by (induction rule: engine_op.induct) (auto intro: start_run_moves message_moves sweep_moves stop_loop_moves quiet_steps)

lemma engine_life_ok: "engine_life en w w' \<Longrightarrow> runs_ok w \<Longrightarrow> runs_ok w'"
proof (induction rule: engine_life.induct)
  case (running w w')
  then show ?case using engine_op_moves run_steps_ok by blast
qed (simp add: runs_ok_def)

lemma engine_life_closed:
  "engine_life en w w' \<Longrightarrow> runs_ok w \<Longrightarrow> r \<in> set (wd_runs w) \<Longrightarrow> rn_outcome r \<noteq> RunRunning \<Longrightarrow> r \<in> set (wd_runs w')"
proof (induction rule: engine_life.induct)
  case (running w w')
  then show ?case using engine_op_moves closed_steps by blast
qed simp

lemma lives_ok: "(engine_life en)\<^sup>*\<^sup>* w w' \<Longrightarrow> runs_ok w \<Longrightarrow> runs_ok w'"
  by (induction rule: rtranclp_induct) (auto intro: engine_life_ok)

text \<open>A loop that ended stays ended, in the state it ended in.\<close>

lemma ended_step:
  "run_step w w' \<Longrightarrow> runs_ok w \<Longrightarrow> l \<in> set (wd_loops w) \<Longrightarrow> lp_state l \<noteq> LoopRunning \<Longrightarrow>
   \<exists>l' \<in> set (wd_loops w'). lp_id l' = lp_id l \<and> lp_state l' = lp_state l"
proof (induction rule: run_step.induct)
  case (move_loop x w st n w' now)
  let ?l = "if lp_id l = lp_id x then moved_row now st n l else l"
  have "lp_id l = lp_id x \<Longrightarrow> l = x"
    using move_loop row_unique[of lp_id "wd_loops w" l x] by (simp add: runs_ok_def)
  then have "lp_state ?l = lp_state l" using move_loop by auto
  moreover have "?l \<in> set (wd_loops w')"
    using move_loop(6,9) by (auto simp: tbl_update_mem simp del: split_paired_Ex)
  ultimately show ?case by (intro bexI[of _ ?l]) auto
qed auto

lemma ended_steps:
  assumes "run_steps w w'" and "runs_ok w" and "l \<in> set (wd_loops w)" and "lp_state l \<noteq> LoopRunning"
  shows "\<exists>l' \<in> set (wd_loops w'). lp_id l' = lp_id l \<and> lp_state l' = lp_state l"
  using assms
proof (induction rule: rtranclp_induct)
  case (step v w')
  then obtain k where "k \<in> set (wd_loops v)" "lp_id k = lp_id l" "lp_state k = lp_state l" by blast
  with ended_step[OF step(2) run_steps_ok[OF step(1,4)], of k] step(6) show ?case by auto
qed auto

section \<open>How many runs a loop has\<close>

lemma at_most_one:
  assumes "distinct xs" and "\<And>x y. x \<in> set xs \<Longrightarrow> y \<in> set xs \<Longrightarrow> x = y"
  shows "length xs \<le> 1"
proof (cases xs)
  case xs: (Cons x ys)
  show ?thesis
  proof (cases ys)
    case (Cons y zs)
    with xs have "x = y" using assms(2)[of x y] by simp
    with xs Cons assms(1) show ?thesis by simp
  qed (simp add: xs)
qed simp

lemma loop_runs_bound:
  assumes ok: "runs_ok w" and l: "l \<in> set (wd_loops w)" "lp_id l \<noteq> []"
  shows "int (length (filter (\<lambda>r. rn_loop r = lp_id l) (wd_runs w))) \<le> lp_max l"
    and "length (filter (\<lambda>r. rn_loop r = lp_id l \<and> rn_outcome r = RunRunning) (wd_runs w)) \<le> 1"
proof -
  let ?rs = "filter (\<lambda>r. rn_loop r = lp_id l) (wd_runs w)"
  from ok have d: "distinct (map rn_id ?rs)" and line: "loop_line (wd_runs w)"
    by (auto simp: runs_ok_def distinct_map inj_on_def)
  have "rn_iteration r \<in> {1..nat (lp_max l)}" if "r \<in> set ?rs" for r
  proof -
    from that ok l(2) have "in_budget (wd_loops w) r" "rn_loop r = lp_id l" "rn_loop r \<noteq> []" by (auto simp: runs_ok_def)
    then obtain k where "k \<in> set (wd_loops w)" "lp_id k = lp_id l" "1 \<le> rn_iteration r" "int (rn_iteration r) \<le> lp_max k"
      by (auto simp: in_budget_def)
    then show ?thesis using ok l(1) row_unique[of lp_id "wd_loops w" k l] by (auto simp: runs_ok_def)
  qed
  then have "rn_iteration ` set ?rs \<subseteq> {1..nat (lp_max l)}" by blast
  moreover have "inj_on rn_iteration (set ?rs)"
  proof (rule inj_onI)
    fix x y assume h: "x \<in> set ?rs" "y \<in> set ?rs" "rn_iteration x = rn_iteration y"
    with line l(2) have "rn_id x = rn_id y" by (force simp: loop_line_def)
    with h show "x = y" using row_unique[OF d] by blast
  qed
  ultimately have "card (set ?rs) \<le> nat (lp_max l)"
    using card_inj_on_le[of rn_iteration "set ?rs" "{1..nat (lp_max l)}"] by simp
  then show "int (length ?rs) \<le> lp_max l"
    using distinct_card[of ?rs] d ok l(1) by (force simp: runs_ok_def distinct_map)
  let ?run = "filter (\<lambda>r. rn_loop r = lp_id l \<and> rn_outcome r = RunRunning) (wd_runs w)"
  have "x = y" if "x \<in> set ?run" "y \<in> set ?run" for x y
  proof -
    have "rn_id x = rn_id y" using that line l(2) by (fastforce simp: loop_line_def)
    then show ?thesis using that ok row_unique[of rn_id "wd_runs w" x y] by (auto simp: runs_ok_def)
  qed
  moreover have "distinct ?run" using ok by (auto simp: runs_ok_def distinct_map)
  ultimately show "length ?run \<le> 1"
    by (intro at_most_one) blast+
qed

end
