(* ===== verification/Run_Claims.thy ===== *)
theory Run_Claims
  imports Run_Proofs Service_Examples
begin

text \<open>
  The properties of the run engine: it refines the abstract machine of \<open>Run_Proofs\<close>, so closed runs are final and
  a loop's runs stay within its budget; what the end of an iteration does to its loop; the timeout sweep; and a
  loop whose counter falls behind its runs.
\<close>

section \<open>A loop on the demo deployment\<close>

definition demo_loop_input :: run_input where
  "demo_loop_input = \<lparr>ri_template = ''l'', ri_trigger = [], ri_delivery = [], ri_vars = [], ri_origin = OriginUI,
     ri_step_run = [], ri_worktree = []\<rparr>"

definition demo_started :: world where
  "demo_started = snd (start_run demo_engine demo_loop_input service_world)"

definition demo_result :: turn_result where
  "demo_result = \<lparr>tu_is_error = False, tu_turns = 1, tu_cost = 2, tu_tokens_in = 3, tu_tokens_out = 4,
     tu_text = ''fixed'', tu_structured = []\<rparr>"

definition demo_reported :: world where
  "demo_reported = handle_message demo_engine
     (SessionEventMsg ''ux'' 1 (EventResult (Some demo_result))) demo_started"

lemma service_world_ok: "runs_ok service_world"
  by (simp add: runs_ok_def loop_line_def service_world_def empty_world_def)

lemma demo_started_op: "engine_op demo_engine service_world demo_started"
  unfolding demo_started_def by (rule engine_op.started[OF surjective_pairing])

lemma demo_reported_op: "engine_op demo_engine demo_started demo_reported"
  unfolding demo_reported_def by (rule engine_op.handled)

lemma demo_reported_life: "(engine_life demo_engine)\<^sup>*\<^sup>* service_world demo_reported"
  using engine_life.running[OF demo_started_op] engine_life.running[OF demo_reported_op]
  by (meson converse_rtranclp_into_rtranclp r_into_rtranclp)

lemma demo_reported_rows:
  "map (\<lambda>r. (rn_id r, rn_loop r, rn_iteration r, rn_outcome r)) (wd_runs demo_reported) =
     [(''u'', ''uxx'', 1, RunSuccess), (''uxxx'', ''uxx'', 2, RunRunning)]"
  "map (\<lambda>l. (lp_id l, lp_state l, lp_iteration l, lp_max l)) (wd_loops demo_reported) = [(''uxx'', LoopRunning, 2, 2)]"
proof -
  have "(map (\<lambda>r. (rn_id r, rn_loop r, rn_iteration r, rn_outcome r)) (wd_runs demo_reported),
      map (\<lambda>l. (lp_id l, lp_state l, lp_iteration l, lp_max l)) (wd_loops demo_reported)) =
    ([(''u'', ''uxx'', 1, RunSuccess), (''uxxx'', ''uxx'', 2, RunRunning)], [(''uxx'', LoopRunning, 2, 2)])" by code_simp
  then show "map (\<lambda>r. (rn_id r, rn_loop r, rn_iteration r, rn_outcome r)) (wd_runs demo_reported) =
      [(''u'', ''uxx'', 1, RunSuccess), (''uxxx'', ''uxx'', 2, RunRunning)]"
    "map (\<lambda>l. (lp_id l, lp_state l, lp_iteration l, lp_max l)) (wd_loops demo_reported) = [(''uxx'', LoopRunning, 2, 2)]"
    by simp_all
qed

section \<open>The properties\<close>

text \<open>
  C7: every operation of the engine is a sequence of the five moves of the abstract machine (open or close a run,
  open or move a loop, or leave both alone) and keeps the invariant of its tables.
\<close>

theorem engine_refines_moves:
  assumes "engine_op en w w'" and "runs_ok w"
  shows "run_steps w w' \<and> runs_ok w'"
  using engine_op_moves[OF assms] run_steps_ok assms(2) by blast

theorem engine_refines_moves_witness: "run_steps service_world demo_started \<and> runs_ok demo_started"
  by (rule engine_refines_moves[OF demo_started_op service_world_ok])

text \<open>
  C9: a run that has an outcome is never written again, whatever runs start, messages arrive, sweeps happen or
  loops are stopped, and also over a restart of the process.
\<close>

theorem finished_runs_final:
  assumes "(engine_life en)\<^sup>*\<^sup>* w w'" and "runs_ok w" and "r \<in> set (wd_runs w)" and "rn_outcome r \<noteq> RunRunning"
  shows "r \<in> set (wd_runs w')"
  using assms(1)
proof (induction rule: rtranclp_induct)
  case (step v w')
  then show ?case using engine_life_closed[OF step(2) lives_ok[OF step(1) assms(2)]] assms(4) by blast
qed (rule assms(3))

theorem finished_runs_final_witness:
  "hd (wd_runs demo_reported) \<in> set (wd_runs (tick_runs demo_engine (24 * hour) demo_reported))"
proof -
  have "wd_runs demo_reported \<noteq> []" "rn_outcome (hd (wd_runs demo_reported)) \<noteq> RunRunning"
    using demo_reported_rows(1) by auto
  then show ?thesis
    using finished_runs_final[OF r_into_rtranclp[where r="engine_life demo_engine", OF engine_life.running[OF engine_op.swept]]
        lives_ok[OF demo_reported_life service_world_ok], of "hd (wd_runs demo_reported)"] by simp
qed

text \<open>
  C8: from an engine without runs and loops, whatever happens to it, a loop never has more runs than its maximum
  number of iterations, and never two running at once.
\<close>

theorem loop_runs_within_budget:
  assumes "(engine_life en)\<^sup>*\<^sup>* w w'" and "wd_runs w = [] \<and> wd_loops w = [] \<and> wd_completed w = []"
    and "l \<in> set (wd_loops w')" and "lp_id l \<noteq> []"
  shows "int (length (filter (\<lambda>r. rn_loop r = lp_id l) (wd_runs w'))) \<le> lp_max l \<and>
    length (filter (\<lambda>r. rn_loop r = lp_id l \<and> rn_outcome r = RunRunning) (wd_runs w')) \<le> 1"
proof -
  have "runs_ok w" using assms(2) by (simp add: runs_ok_def loop_line_def)
  from loop_runs_bound[OF lives_ok[OF assms(1) this] assms(3,4)] show ?thesis by blast
qed

theorem loop_runs_within_budget_witness:
  "\<exists>l \<in> set (wd_loops demo_reported). lp_max l = 2 \<and>
     int (length (filter (\<lambda>r. rn_loop r = lp_id l) (wd_runs demo_reported))) \<le> lp_max l"
proof -
  have l: "hd (wd_loops demo_reported) \<in> set (wd_loops demo_reported)" "lp_id (hd (wd_loops demo_reported)) \<noteq> []"
    "lp_max (hd (wd_loops demo_reported)) = 2"
    using demo_reported_rows(2) by (auto simp: map_eq_Cons_conv)
  have "wd_runs service_world = [] \<and> wd_loops service_world = [] \<and> wd_completed service_world = []"
    by (simp add: service_world_def empty_world_def)
  from loop_runs_within_budget[OF demo_reported_life this l(1,2)] l(1,3) show ?thesis by auto
qed

lemma end_loop_row:
  assumes "l' \<in> set (wd_loops w)" and "lp_id l' = lp_id l"
  shows "\<exists>k \<in> set (wd_loops (end_loop l n st w)). lp_id k = lp_id l \<and> lp_state k = st \<and> lp_iteration k = max n (lp_iteration l)"
proof -
  have "lp_id l \<in> lp_id ` set (wd_loops w)" using assms by (metis image_eqI)
  then have "wd_loops (end_loop l n st w) = tbl_update lp_id (lp_id l) (moved_row (wd_now w) st (max n (lp_iteration l))) (wd_loops w)"
    by (simp add: end_loop_def loops_update_def fk_def forget_vars_def moved_row_def[abs_def])
  moreover have "moved_row (wd_now w) st (max n (lp_iteration l)) l' \<in> set (tbl_update lp_id (lp_id l)
      (moved_row (wd_now w) st (max n (lp_iteration l))) (wd_loops w))"
    using assms by (auto simp: tbl_update_mem intro!: bexI[of _ l'])
  ultimately show ?thesis
    using assms(2) by (intro bexI[of _ "moved_row (wd_now w) st (max n (lp_iteration l)) l'"]) simp_all
qed

lemma next_iteration_None:
  assumes nx: "next_iteration en l run rep w = (None, v)" and l: "l \<in> set (wd_loops w)"
  shows "\<exists>new \<in> set (wd_runs v). rn_loop new = lp_id l \<and> rn_iteration new = Suc (rn_iteration run) \<and> rn_outcome new = RunRunning"
    and "\<exists>k \<in> set (wd_loops v). lp_id k = lp_id l \<and> lp_state k = LoopRunning \<and> lp_iteration k = Suc (rn_iteration run)"
proof -
  let ?n = "Suc (rn_iteration run)"
  obtain sid tpl prompt u w1 where h: "lp_session l = Some sid" "templates_get (lp_template l) w = Inr tpl"
      "ge_render (en_env en) (tp_prompt tpl) (loop_vars en l ?n rep w) = Inr prompt" "new_uuid (ge_uuid (en_env en)) w = (u, w1)"
    using nx by (auto simp: next_iteration_def Let_def split: option.splits sum.splits prod.splits)
  define new where "new = iteration_run u sid tpl run l (wd_now w)"
  note body = nx[unfolded next_iteration_def h option.case sum.case Let_def prod.case, folded new_def]
  obtain r w2 where c: "runs_create new w1 = (r, w2)" by fastforce
  with body have "r = Inr ()" by (auto split: sum.splits)
  with c have w2: "w2 = w1\<lparr>wd_runs := wd_runs w1 @ [new]\<rparr>" using runs_create_Inr by blast
  obtain r3 w3 where w3: "loops_update (lp_id l) LoopRunning ?n None w2 = (r3, w3)" by fastforce
  have l2: "l \<in> set (wd_loops w2)" using l uuid_quiet[OF h(4)] by (simp add: w2)
  have upd: "wd_loops w3 = tbl_update lp_id (lp_id l) (moved_row (wd_now w2) LoopRunning ?n) (wd_loops w2)" "wd_runs w3 = wd_runs w2"
    "r3 = Inr ()"
    using w3 l2 by (auto simp: loops_update_def fk_def moved_row_def[abs_def])
  obtain r4 w4 where w4: "send_session (en_sessions en) service_actor sid (iteration_text en ?n (lp_max l) rep prompt) w3 = (r4, w4)"
    by fastforce
  then have "session_frame w3 w4"
    using frame_send[of w3 "en_sessions en" service_actor sid "iteration_text en ?n (lp_max l) rep prompt"] by simp
  moreover have "v = w4" using body by (simp add: c \<open>r = Inr ()\<close> w3 upd(3) w4 split: sum.splits)
  ultimately have v: "wd_runs v = wd_runs w1 @ [new]" "wd_loops v = wd_loops w3" by (simp_all add: session_frame_def upd(2) w2)
  show "\<exists>new \<in> set (wd_runs v). rn_loop new = lp_id l \<and> rn_iteration new = ?n \<and> rn_outcome new = RunRunning"
    by (rule bexI[of _ new]) (simp_all add: v new_def iteration_run_def)
  show "\<exists>k \<in> set (wd_loops v). lp_id k = lp_id l \<and> lp_state k = LoopRunning \<and> lp_iteration k = ?n"
    unfolding v upd(1) by (rule bexI[of _ "moved_row (wd_now w2) LoopRunning ?n l"])
      (use l2 in \<open>auto simp: tbl_update_mem intro!: bexI[of _ l]\<close>)
qed

text \<open>What the end of an iteration makes of its loop.\<close>

definition loop_after :: "engine \<Rightarrow> loop \<Rightarrow> nat \<Rightarrow> run_outcome \<Rightarrow> string \<Rightarrow> loop_state set" where
  "loop_after en l n oc report =
     (if oc \<noteq> RunSuccess then {LoopFailed}
      else if loop_done en report (lp_until l) then {LoopDone}
      else if lp_max l \<le> int n then {LoopExhausted}
      else {LoopRunning, LoopFailed})"

text \<open>
  When a running iteration is closed, its loop fails with it, is done when the report says so, is exhausted at
  the last iteration, and otherwise gets the next iteration as a new running run, or fails when that cannot start.
\<close>

theorem closed_iteration_moves_loop:
  assumes fin: "finish en run oc report summary cost w = (True, w')" and ok: "runs_ok w" and "en_has_loops en"
    and run: "run \<in> set (wd_runs w)" "rn_outcome run = RunRunning" "oc \<noteq> RunRunning"
    and l: "l \<in> set (wd_loops w)" "lp_id l = rn_loop run" "lp_id l \<noteq> []" "lp_state l = LoopRunning"
  shows "\<exists>k \<in> set (wd_loops w'). lp_id k = lp_id l \<and>
    lp_state k \<in> loop_after en l (rn_iteration run) oc (if report = [] then ''{}'' else report) \<and>
    (lp_state k = LoopRunning \<longrightarrow> lp_iteration k = Suc (rn_iteration run) \<and>
      (\<exists>new \<in> set (wd_runs w'). rn_loop new = lp_id l \<and> rn_iteration new = Suc (rn_iteration run) \<and> rn_outcome new = RunRunning))"
proof -
  define v where "v = closed_world en run oc report summary cost w"
  have tr: "tracked run w" using run by (auto simp: tracked_def)
  have "rn_id run \<notin> set (wd_completed w)" using fin by (auto simp: finish_def finish_with_def)
  note closes = finish_closes[OF ok tr run(3) this, where en=en and report=report and summary=summary and cost=cost, folded v_def]
  from fin closes(1) have w': "w' = advance_with en (next_iteration en) run oc (report_text report) v" by (simp add: finish_def)
  have lv: "l \<in> set (wd_loops v)" "wd_loops v = wd_loops w" using l(1) by (simp_all add: v_def)
  have "tbl_get lp_id (rn_loop run) (wd_loops v) = Some l"
    using tbl_get_in_set[of lp_id "wd_loops v" l] ok lv l(2) by (simp add: runs_ok_def)
  then have g: "loops_get (rn_loop run) v = Inr l" by (simp add: loops_get_def)
  have "rn_loop run \<noteq> []" using l(2,3) by simp
  note adv = w'[unfolded advance_with_def g sum.case, simplified this \<open>en_has_loops en\<close> l(4) simp_thms if_False]
  obtain e u where e: "next_iteration en l run (report_text report) v = (e, u)" by fastforce
  show ?thesis
  proof (cases "oc \<noteq> RunSuccess \<or> loop_done en (report_text report) (lp_until l) \<or> lp_max l \<le> int (rn_iteration run)")
    case True
    then show ?thesis
      using adv end_loop_row[OF lv(1) refl, of "rn_iteration run"]
      by (fastforce simp: loop_after_def report_text_def split: if_splits)
  next
    case False
    then have st: "w' = (case e of None \<Rightarrow> u | Some _ \<Rightarrow> end_loop l (rn_iteration run) LoopFailed u)"
      and after: "loop_after en l (rn_iteration run) oc (report_text report) = {LoopRunning, LoopFailed}"
      using adv e by (auto simp: loop_after_def split: option.split)
    show ?thesis
    proof (cases e)
      case None
      with st after next_iteration_None[of en l run "report_text report" v u] e lv(1) show ?thesis
        by (fastforce simp: report_text_def)
    next
      case (Some x)
      have "loop_in {LoopRunning, LoopFailed} l u"
        using engine_iterations.next_steps[OF e run_steps_ok[OF closes(2) ok] lv(1) l(4,2) _ closes(3)] False Some by simp
      then obtain l' where "l' \<in> set (wd_loops u)" "lp_id l' = lp_id l" by (auto simp: loop_in_def)
      from end_loop_row[OF this, of "rn_iteration run" LoopFailed] st Some after show ?thesis
        by (auto simp: report_text_def)
    qed
  qed
qed

definition demo_closed :: "bool \<times> world" where
  "demo_closed = finish demo_engine (hd (wd_runs demo_started)) RunSuccess [] ''done'' 0 demo_started"

lemma demo_started_ok: "runs_ok demo_started"
  using engine_op_moves[OF demo_started_op service_world_ok] run_steps_ok service_world_ok by blast

theorem closed_iteration_moves_loop_witness:
  "\<exists>k \<in> set (wd_loops (snd demo_closed)). lp_id k = ''uxx'' \<and> lp_state k \<in> {LoopRunning, LoopFailed}"
proof -
  let ?r = "hd (wd_runs demo_started)" and ?l = "hd (wd_loops demo_started)"
  have f: "finish demo_engine ?r RunSuccess [] ''done'' 0 demo_started = (True, snd demo_closed)"
    unfolding demo_closed_def by (rule prod_eqI) (code_simp, simp)
  have r: "?r \<in> set (wd_runs demo_started)" "?l \<in> set (wd_loops demo_started)"
    by (rule list.set_sel(1), code_simp)+
  have eqs: "rn_outcome ?r = RunRunning" "lp_id ?l = rn_loop ?r" "lp_id ?l \<noteq> []" "lp_state ?l = LoopRunning"
    "lp_id ?l = ''uxx''" "loop_after demo_engine ?l (rn_iteration ?r) RunSuccess ''{}'' = {LoopRunning, LoopFailed}"
    by code_simp+
  have "en_has_loops demo_engine" by (simp add: demo_engine_def)
  from closed_iteration_moves_loop[OF f demo_started_ok this r(1) eqs(1) _ r(2) eqs(2-4)] show ?thesis
    by (auto simp: eqs(5,6))
qed

section \<open>The sweep\<close>

lemma stop_runs:
  "wd_runs (snd (interrupt_session ss a i w)) = wd_runs w" "wd_runs (snd (close_session ss a i w)) = wd_runs w"
  using frame_stop[of w ss a i] by (simp_all add: session_frame_def)

lemma time_out_run_finish:
  obtains summary where "wd_runs (time_out_run en w run) =
    wd_runs (snd (finish en run RunTimeout [] summary (session_cost (rn_session run) 0 w) w))"
  by (rule that[of "''timed out after '' @ en_show_duration en (engine_timeout en)"])
    (simp only: time_out_run_def Let_def notify_def stop_runs split: prod.split, simp add: stop_runs)

lemma time_out_run_touches: "touches_run (rn_id run) w (time_out_run en w run)"
proof -
  obtain summary where e: "wd_runs (time_out_run en w run) =
      wd_runs (snd (finish en run RunTimeout [] summary (session_cost (rn_session run) 0 w) w))"
    by (rule time_out_run_finish)
  show ?thesis
    using finish_frame[OF surjective_pairing, where en=en and run=run and oc=RunTimeout] unfolding touches_run_def e by blast
qed

lemma touches_other:
  assumes "touches_run i w w'" and "r \<in> set (wd_runs w)" and "rn_id r \<noteq> i"
  shows "r \<in> set (wd_runs w')"
  using assms by (auto simp: touches_run_def tbl_update_mem)

lemma time_out_closes:
  assumes "runs_ok w" and "run \<in> set (wd_runs w)" and "rn_outcome run = RunRunning"
  shows "\<exists>r \<in> set (wd_runs (time_out_run en w run)). rn_id r = rn_id run \<and> rn_outcome r = RunTimeout \<and> rn_finished r = Some (wd_now w)"
proof -
  obtain s where runs: "wd_runs (time_out_run en w run) =
      wd_runs (snd (finish en run RunTimeout [] s (session_cost (rn_session run) 0 w) w))"
    by (rule time_out_run_finish)
  let ?c = "session_cost (rn_session run) 0 w"
  have tr: "tracked run w" and new: "rn_id run \<notin> set (wd_completed w)"
    using assms by (auto simp: tracked_def runs_ok_def)
  have "RunTimeout \<noteq> RunRunning" by simp
  note closes = finish_closes[OF assms(1) tr this new, where en=en and report="[]" and summary="s" and cost="?c"]
  define v where "v = closed_world en run RunTimeout [] s ?c w"
  define x where "x = closed_row (wd_now w) RunTimeout (report_text []) s ?c run"
  have x: "x \<in> set (wd_runs v)" "rn_outcome x \<noteq> RunRunning"
    using assms(2) by (auto simp: v_def x_def tbl_update_mem intro!: bexI[of _ run])
  define u where "u = advance_with en (next_iteration en) run RunTimeout (report_text []) v"
  have f: "finish en run RunTimeout [] s ?c w = (True, u)"
    using closes(1) by (simp add: finish_def u_def v_def)
  have "runs_ok v" using run_steps_ok[OF closes(2) assms(1)] by (simp add: v_def)
  have "run_steps v u"
    unfolding u_def using closes(3) tracked_steps[OF closes(2) tr]
    by (intro engine_iterations.advance_steps[OF \<open>runs_ok v\<close>]) (simp_all only: v_def)
  from closed_steps[OF this \<open>runs_ok v\<close> x] have "x \<in> set (wd_runs u)" .
  then show ?thesis
    unfolding runs f snd_conv by (intro bexI[of _ x]) (simp_all add: x_def closed_row_def)
qed

lemma sweep_closes:
  assumes "runs_ok w" and "\<forall>r \<in> set rs. r \<in> set (wd_runs w) \<and> rn_outcome r = RunRunning" and "distinct (map rn_id rs)"
    and "run \<in> set rs"
  shows "\<exists>r \<in> set (wd_runs (foldl (time_out_run en) w rs)). rn_id r = rn_id run \<and> rn_outcome r = RunTimeout"
  using assms
proof (induction rs arbitrary: w)
  case (Cons x rs)
  let ?w = "time_out_run en w x"
  have tr: "tracked x w" using Cons.prems(2) by (auto simp: tracked_def)
  have ok: "runs_ok ?w" using time_out_moves[OF Cons.prems(1) tr] Cons.prems(1) run_steps_ok by blast
  have rest: "\<forall>r \<in> set rs. r \<in> set (wd_runs ?w) \<and> rn_outcome r = RunRunning"
  proof
    fix r assume r: "r \<in> set rs"
    with Cons.prems(3) have "rn_id r \<noteq> rn_id x" by (metis distinct.simps(2) image_eqI list.set_map list.simps(9))
    with r Cons.prems(2) show "r \<in> set (wd_runs ?w) \<and> rn_outcome r = RunRunning"
      using touches_other[OF time_out_run_touches] by simp
  qed
  show ?case
  proof (cases "run = x")
    case True
    obtain r where r: "r \<in> set (wd_runs ?w)" "rn_id r = rn_id x" "rn_outcome r = RunTimeout"
      using time_out_closes[of w x en] Cons.prems(1,2) by auto
    have "run_steps ?w (foldl (time_out_run en) ?w rs)"
      using rest by (intro time_out_all[OF ok]) (auto simp: tracked_def)
    from closed_steps[OF this ok r(1)] r True show ?thesis by auto
  next
    case False
    with Cons.prems(3,4) Cons.IH[OF ok rest] show ?thesis by auto
  qed
qed simp

text \<open>
  C40: the sweep closes every run that overran the timeout, as timed out, whatever the sessions answer and whatever
  becomes of the loops of the others.
\<close>

theorem sweep_times_out:
  assumes "runs_ok w" and "run \<in> set (wd_runs w)" and "rn_outcome run = RunRunning"
    and "stored_less (rn_started run) (now - engine_timeout en)"
  shows "\<exists>r \<in> set (wd_runs (tick_runs en now w)). rn_id r = rn_id run \<and> rn_outcome r = RunTimeout"
proof -
  let ?rs = "runs_running_older_than (now - engine_timeout en) w"
  have "distinct (map rn_id ?rs)"
  proof -
    have "distinct (map rn_id (filter (\<lambda>r. rn_outcome r = RunRunning \<and> stored_less (rn_started r) (now - engine_timeout en)) (wd_runs w)))"
      using assms(1) by (auto simp: runs_ok_def distinct_map inj_on_def)
    then show ?thesis by (simp add: runs_running_older_than_def order_asc_def distinct_map)
  qed
  then show ?thesis
    unfolding tick_runs_def using assms by (intro sweep_closes) (auto simp: runs_running_older_than_def)
qed

theorem sweep_times_out_witness:
  "\<exists>r \<in> set (wd_runs (tick_runs demo_engine (24 * hour) demo_started)). rn_id r = ''u'' \<and> rn_outcome r = RunTimeout"
proof -
  let ?r = "hd (wd_runs demo_started)"
  have "wd_runs demo_started \<noteq> [] \<and> rn_outcome ?r = RunRunning \<and>
      stored_less (rn_started ?r) (24 * hour - engine_timeout demo_engine) \<and> rn_id ?r = ''u''" by code_simp
  moreover from this have "?r \<in> set (wd_runs demo_started)" by (intro list.set_sel(1)) simp
  ultimately show ?thesis using sweep_times_out[OF demo_started_ok, of ?r "24 * hour" demo_engine] by simp
qed

section \<open>A loop that falls behind its runs\<close>

text \<open>
  The demo deployment with a session that cannot be sent to any more: its process refuses every message after the
  first.
\<close>

definition deaf_engine :: engine where
  "deaf_engine = demo_engine\<lparr>en_sessions := demo_sessions\<lparr>ss_answer :=
     (\<lambda>i c w. if wd_runs w = [] then None else Some (ErrOther ''no process''))\<rparr>\<rparr>"

definition deaf_reported :: world where
  "deaf_reported = handle_message deaf_engine (SessionEventMsg ''ux'' 1 (EventResult (Some demo_result)))
     (snd (start_run deaf_engine demo_loop_input service_world))"

text \<open>
  When the next iteration cannot be sent, its run is closed as failed and its \<open>advance\<close> ends the loop at that
  iteration; the error then makes the outer \<open>advance\<close> end the loop again from the row it loaded before, so the
  loop is left failed at iteration 1 while its last run is iteration 2.
\<close>

theorem unsent_iteration_rewinds_loop:
  "map (\<lambda>r. (rn_loop r, rn_iteration r, rn_outcome r)) (wd_runs deaf_reported) =
     [(''uxx'', 1, RunSuccess), (''uxx'', 2, RunFailed)] \<and>
   map (\<lambda>l. (lp_id l, lp_state l, lp_iteration l)) (wd_loops deaf_reported) = [(''uxx'', LoopFailed, 1)]"
  by code_simp

end
