(* ===== verification/Session_Proofs.thy ===== *)
theory Session_Proofs
  imports Session_Frame
begin

text \<open>
  The sessions service keeps its books: every process holds one slot and every slot a process, so there are never
  more processes than slots; and the transcript is numbered without gaps.
\<close>

section \<open>Slots\<close>

text \<open>\<open>n\<close> slots are taken that have no process yet; every transcript is numbered 1, 2, 3, ...\<close>

definition slots_at :: "session_service \<Rightarrow> nat \<Rightarrow> world \<Rightarrow> bool" where
  "slots_at ss n w \<longleftrightarrow> distinct (map fst (wd_procs w)) \<and> wd_slots w = length (wd_procs w) + n \<and> wd_slots w \<le> slot_count ss \<and> transcript_ok w"

abbreviation slots_ok :: "session_service \<Rightarrow> world \<Rightarrow> bool" where
  "slots_ok ss \<equiv> slots_at ss 0"

definition slots_kept :: "world \<Rightarrow> world \<Rightarrow> bool" where
  "slots_kept w w' \<longleftrightarrow> wd_procs w' = wd_procs w \<and> wd_slots w' = wd_slots w \<and> transcript_ok w' = transcript_ok w"

lemma transcript_cong: "wd_events w' = wd_events w \<Longrightarrow> transcript_ok w' = transcript_ok w"
  by (simp add: transcript_ok_def)

lemma transcript_fields [simp]:
  "transcript_ok (w\<lparr>wd_sessions := a\<rparr>) = transcript_ok w" "transcript_ok (w\<lparr>wd_approvals := b\<rparr>) = transcript_ok w"
  "transcript_ok (w\<lparr>wd_calls := d\<rparr>) = transcript_ok w" "transcript_ok (w\<lparr>wd_closing := e\<rparr>) = transcript_ok w"
  "transcript_ok (w\<lparr>wd_starting := e\<rparr>) = transcript_ok w" "transcript_ok (w\<lparr>wd_uuids := k\<rparr>) = transcript_ok w"
  "transcript_ok (w\<lparr>wd_slots := n\<rparr>) = transcript_ok w" "transcript_ok (w\<lparr>wd_bus := m\<rparr>) = transcript_ok w"
  "transcript_ok (w\<lparr>wd_audit := au\<rparr>) = transcript_ok w" "transcript_ok (w\<lparr>wd_checkpoints := cs\<rparr>) = transcript_ok w"
  "transcript_ok (w\<lparr>wd_procs := ps\<rparr>) = transcript_ok w"
  by (simp_all add: transcript_ok_def)

text \<open>An append keeps the numbering right, and cannot repair a wrong one.\<close>

lemma append_numbering:
  assumes "events_append i ev w = (r, w')"
  shows "transcript_ok w' = transcript_ok w"
proof (cases "fk se_id (wd_sessions w) (Some i)")
  case False
  with assms show ?thesis by (simp add: events_append_def)
next
  case True
  then obtain e where e: "wd_events w' = wd_events w @ [e]" using assms by (auto simp: events_append_def Let_def)
  have "transcript_ok w" if "transcript_ok w'"
    unfolding transcript_ok_def
  proof
    fix k
    have "map ev_seq (filter (\<lambda>e. ev_session e = k) (wd_events w')) =
        [1..<Suc (length (filter (\<lambda>e. ev_session e = k) (wd_events w')))]"
      using that by (simp only: transcript_ok_def)
    then show "map ev_seq (filter (\<lambda>e. ev_session e = k) (wd_events w)) =
        [1..<Suc (length (filter (\<lambda>e. ev_session e = k) (wd_events w)))]"
      by (simp add: e split: if_splits)
  qed
  with events_append_transcript[OF _ assms] show ?thesis by blast
qed

lemma slots_kept_refl [simp]: "slots_kept w w"
  by (simp add: slots_kept_def)

lemma slots_kept_trans: "slots_kept a b \<Longrightarrow> slots_kept b c \<Longrightarrow> slots_kept a c"
  by (simp add: slots_kept_def)

lemma slots_at_kept: "slots_kept w w' \<Longrightarrow> slots_at ss n w' = slots_at ss n w"
  by (simp add: slots_kept_def slots_at_def)

lemma live_kept: "slots_kept w w' \<Longrightarrow> live i w' = live i w"
  by (simp add: slots_kept_def live_def)

named_theorems slotted \<open>operations that neither start nor end a process\<close>

lemma slotted_fields [slotted]:
  "slots_kept w (w\<lparr>wd_sessions := a\<rparr>)" "slots_kept w (w\<lparr>wd_approvals := b\<rparr>)"
  "slots_kept w (w\<lparr>wd_calls := d\<rparr>)" "slots_kept w (w\<lparr>wd_closing := e\<rparr>)" "slots_kept w (w\<lparr>wd_starting := e\<rparr>)"
  "slots_kept w (w\<lparr>wd_uuids := k\<rparr>)" "slots_kept w (publish m w)" "slots_kept w (audit_append u ac t w)"
  by (simp_all add: slots_kept_def publish_def audit_append_def)

lemma slotted_exec1 [slotted]: "slots_kept w (snd (sessions_exec1 i f w))"
  by (simp add: sessions_exec1_def slotted)

lemma slotted_repos [slotted]:
  "slots_kept w (snd (sessions_create s w))" "slots_kept w (snd (approvals_create a w))"
  "slots_kept w (snd (approvals_decide i st u x m w))" "slots_kept w (snd (events_append i ev w))"
  "slots_kept w (snd (approvals_snooze i t w))" "slots_kept w (snd (checkpoints_create c w))"
  "slots_kept w (snd (new_uuid f w))"
  using append_numbering[OF surjective_pairing, of i ev w]
  by (simp_all add: sessions_create_def approvals_create_def approvals_decide_def events_append_def approvals_snooze_def
      checkpoints_create_def new_uuid_def slots_kept_def Let_def split: sum.split)

lemma slotted_updates [slotted]:
  "slots_kept w (snd (sessions_update_state i st w))" "slots_kept w (snd (sessions_update_stats i a b c d w))"
  "slots_kept w (snd (sessions_update_now i s w))" "slots_kept w (snd (sessions_update_harness i s w))"
  "slots_kept w (snd (sessions_update_harness_ref i s w))" "slots_kept w (snd (sessions_update_model i s w))"
  "slots_kept w (snd (sessions_update_effort i s w))" "slots_kept w (snd (sessions_set_worktree i s s' s'' w))"
  "slots_kept w (snd (sessions_set_worktree_shared i x w))" "slots_kept w (snd (sessions_update_diff_stats i n m w))"
  "slots_kept w (snd (sessions_update_slash_commands i ss w))" "slots_kept w (snd (sessions_touch i w))"
  by (simp_all add: session_updates slotted)

lemma slotted_small [slotted]:
  "slots_kept w (snd (set_state i st w))" "slots_kept w (snd (call_process ss i c w))"
  "slots_kept w (record_user_turn i t w)" "slots_kept w (close_tracked ss i w)"
proof -
  show "slots_kept w (snd (set_state i st w))"
    using slotted_updates(1)[of w i st] by (auto simp: set_state_def slots_kept_def publish_def split: prod.split sum.split)
  show call: "slots_kept w (snd (call_process ss i c w))" for w c
    by (simp add: call_process_def Let_def slots_kept_def split: option.split)
  show "slots_kept w (record_user_turn i t w)"
    using slotted_repos(4)[of w i "EventUser t"] by (auto simp: record_user_turn_def slots_kept_def publish_def split: prod.split sum.split)
  show "slots_kept w (close_tracked ss i w)"
    using call[of "w\<lparr>wd_closing := i # removeAll i (wd_closing w)\<rparr>" ProcClose] by (simp add: close_tracked_def slots_kept_def)
qed

lemma slotted_evict [slotted]: "slots_kept w (snd (evict_oldest_idle ss w))"
  by (simp add: evict_oldest_idle_def slotted split: option.split)

lemma exit_frees_slot:
  assumes "slots_at ss n w" and "live i w"
  shows "slots_at ss n (handle_exit i code w)"
proof -
  define v where "v = snd (set_state i (if i \<in> set (wd_closing w) \<or> code = 0 then SessionClosed else SessionFailed) w)"
  have v: "wd_procs v = wd_procs w" "wd_slots v = wd_slots w" "transcript_ok v = transcript_ok w"
    using slotted_small(1) unfolding v_def slots_kept_def by simp_all
  let ?rest = "filter (\<lambda>(k, _). k \<noteq> i) (wd_procs w)"
  have rest: "map fst ?rest = remove1 i (map fst (wd_procs w))"
    using assms(1) by (simp add: slots_at_def distinct_remove1_removeAll case_prod_unfold removeAll_filter_not_eq filter_map comp_def
        eq_commute[of i])
  then have "length ?rest = length (wd_procs w) - 1"
    using assms(2) length_map[of fst ?rest] by (simp add: live_def length_remove1)
  moreover obtain m where "length (wd_procs w) = Suc m"
    using assms(2) by (cases "wd_procs w") (auto simp: live_def)
  ultimately show ?thesis
    using assms(1) rest by (simp add: slots_at_def handle_exit_def Let_def release_slot_def unregister_process_def v v_def[symmetric])
qed

lemma acquire_takes_slot:
  assumes "slots_ok ss w" and "acquire_slot ss interactive w = (r, w')"
  shows "case r of Inl e \<Rightarrow> slots_ok ss w' | Inr _ \<Rightarrow> slots_at ss 1 w'"
proof (cases "wd_slots w < slot_count ss")
  case True
  with assms show ?thesis by (auto simp: acquire_slot_def slots_at_def)
next
  case False
  define w1 where "w1 = (if interactive then snd (evict_oldest_idle ss w) else w)"
  have w1: "slots_ok ss w1" using assms(1) slotted_evict[of w ss] by (auto simp: w1_def slots_at_kept)
  note exit = exit_frees_slot[OF w1]
  have eq: "(r, w') = (case ss_freed ss w1 of None \<Rightarrow> (Inl (ErrConflict ''all session slots busy''), w1)
      | Some (s, code) \<Rightarrow>
          (if live (se_id s) w1
           then let w2 = handle_exit (se_id s) code w1
                in if wd_slots w2 < slot_count ss then (Inr (), w2\<lparr>wd_slots := Suc (wd_slots w2)\<rparr>)
                   else (Inl (ErrConflict ''all session slots busy''), w2)
           else (Inl (ErrConflict ''all session slots busy''), w1)))"
    using assms(2) False by (simp only: acquire_slot_def if_False w1_def[symmetric] Let_def)
  have taken: "slots_ok ss v \<Longrightarrow> wd_slots v < slot_count ss \<Longrightarrow> slots_at ss 1 (v\<lparr>wd_slots := Suc (wd_slots v)\<rparr>)" for v
    by (simp add: slots_at_def)
  show ?thesis
    using eq w1 exit taken by (auto simp: Let_def split: option.splits if_splits)
qed

lemma release_gives_back: "slots_at ss 1 w \<Longrightarrow> slots_ok ss (release_slot w)"
  by (simp add: slots_at_def release_slot_def)

lemma register_uses_slot:
  assumes "slots_at ss 1 w" and "register_process i ow w = (r, w')"
  shows "case r of Inl e \<Rightarrow> w' = w | Inr _ \<Rightarrow> slots_ok ss w'"
  using assms by (auto simp: register_process_def slots_at_def live_def split: if_splits)

lemma slotted_step: "slots_kept v (snd (f v)) \<Longrightarrow> f v = (r, v') \<Longrightarrow> slots_at ss n v' = slots_at ss n v"
  by (metis slots_at_kept snd_conv)

lemma start_process_slots:
  assumes "slots_ok ss w"
  shows "slots_ok ss (snd (start_process ss s pf resume first schema sysprompt w))"
proof (cases "harness_for ss (se_harness s) = None \<and> ss_credential ss (se_harness s) (se_owner s) = None \<and> ss_home ss (se_owner s) = None")
  case False
  with assms show ?thesis by (auto simp: start_process_def split: option.split)
next
  case True
  obtain r1 w1 where a: "acquire_slot ss (\<not> pf_unattended pf) w = (r1, w1)" by fastforce
  note taken = acquire_takes_slot[OF assms a]
  show ?thesis
  proof (cases "\<exists>x. r1 = Inr x \<and> ss_launch ss s resume schema sysprompt w1 = None")
    case False
    with taken release_gives_back True a show ?thesis
      by (auto simp: start_process_def split: sum.splits option.splits)
  next
    case launched: True
    then have w1: "slots_at ss 1 w1" using taken by auto
    obtain r2 w2 where r: "register_process (se_id s) (se_owner s) w1 = (r2, w2)" by fastforce
    show ?thesis
    proof (cases r2)
      case (Inl e)
      with register_uses_slot[OF w1 r] release_gives_back[OF w1] True launched a r show ?thesis
        by (auto simp: start_process_def)
    next
      case (Inr x)
      with register_uses_slot[OF w1 r] have w2: "slots_ok ss w2" by simp
      obtain r3 w3 where c: "(if resume then set_state (se_id s) SessionRunning w2 else (Inr (), w2)) = (r3, w3)" by fastforce
      then have w3: "slots_ok ss w3" using w2 slots_at_kept[OF slotted_small(1)[of w2 "se_id s" SessionRunning], of ss 0] by (auto split: if_splits)
      then have sent: "slots_ok ss (snd (call_process ss (se_id s) (ProcSend first) (record_user_turn (se_id s) first w3)))"
        by (simp add: slots_at_kept[OF slotted_small(2)] slots_at_kept[OF slotted_small(3)])
      with w3 True launched a r Inr c show ?thesis
        by (auto simp: start_process_def split: sum.split)
    qed
  qed
qed

section \<open>The operations of the service\<close>

lemma place_session_slots: "slots_kept w (snd (place_session ss ci ws s w))"
proof -
  have "slots_kept w (snd (create_worktree ss s ws w))"
    using slotted_updates(8) by (auto simp: create_worktree_def Let_def slots_kept_def split: sum.split prod.split)
      (metis snd_conv slots_kept_def slotted_updates(8))+
  moreover have "slots_kept w (snd (attach_worktree ss s ws p w))" for p
    using slotted_updates(8,9) by (auto simp: attach_worktree_def slots_kept_def split: sum.split prod.split option.split)
      (metis snd_conv slots_kept_def slotted_updates(8,9))+
  ultimately show ?thesis by (simp add: place_session_def)
qed

lemma create_session_slots:
  assumes "slots_ok ss w"
  shows "slots_ok ss (snd (create_session ss a ci w))"
proof (cases "create_checks ss a ci w")
  case Inl
  with assms show ?thesis by (simp add: create_session_def)
next
  case (Inr t)
  obtain ws pf kind where t: "t = (ws, pf, kind)" by (cases t) auto
  have start: "slots_ok ss w3 \<Longrightarrow> slots_ok ss (snd (case start_process ss s' pf False x y z w3 of
      (Inl e, w4) \<Rightarrow> (Inl e, snd (sessions_update_state u SessionFailed w4)) | (Inr _, w4) \<Rightarrow> (Inr s', w4)))" for w3 s' x y z u
    using start_process_slots[of ss w3 s' pf False x y z] slots_at_kept[OF slotted_updates(1)]
    by (auto split: prod.split sum.split)
  have place: "slots_ok ss w2 \<Longrightarrow> slots_ok ss (snd (case place_session ss ci ws s w2 of
      (Inl e, w3) \<Rightarrow> (Inl e, snd (sessions_update_state u SessionFailed w3))
    | (Inr s', w3) \<Rightarrow> (case start_process ss s' pf False (ci_prompt ci) (ci_json_schema ci) (ci_system_prompt ci) w3 of
        (Inl e, w4) \<Rightarrow> (Inl e, snd (sessions_update_state u SessionFailed w4)) | (Inr _, w4) \<Rightarrow> (Inr s', w4))))" for w2 s u
    using place_session_slots[of w2 ss ci ws s] slots_at_kept[of w2 "snd (place_session ss ci ws s w2)"] start
      slots_at_kept[OF slotted_updates(1)]
    by (cases "place_session ss ci ws s w2"; cases "fst (place_session ss ci ws s w2)") auto
  have create: "slots_ok ss w1 \<Longrightarrow> slots_ok ss (snd (case sessions_create s w1 of (Inl e, w2) \<Rightarrow> (Inl e, w2)
      | (Inr _, w2) \<Rightarrow> (case place_session ss ci ws s w2 of
          (Inl e, w3) \<Rightarrow> (Inl e, snd (sessions_update_state u SessionFailed w3))
        | (Inr s', w3) \<Rightarrow> (case start_process ss s' pf False (ci_prompt ci) (ci_json_schema ci) (ci_system_prompt ci) w3 of
            (Inl e, w4) \<Rightarrow> (Inl e, snd (sessions_update_state u SessionFailed w4)) | (Inr _, w4) \<Rightarrow> (Inr s', w4)))))" for w1 s u
    using slots_at_kept[OF slotted_repos(1)[of w1 s], of ss 0] place
    by (cases "sessions_create s w1"; cases "fst (sessions_create s w1)") auto
  obtain u w1 where w1: "new_uuid (ge_uuid (ss_env ss)) w = (u, w1)" by fastforce
  then have "slots_ok ss w1" using slots_at_kept[OF slotted_repos(7)] assms by (metis snd_conv)
  from create[OF this] show ?thesis
    unfolding create_session_def Inr t sum.case prod.case w1 Let_def .
qed

lemma send_session_slots:
  assumes "slots_ok ss w"
  shows "slots_ok ss (snd (send_session ss a i text w))"
proof -
  define v where "v = w\<lparr>wd_starting := i # wd_starting w\<rparr>"
  have v: "slots_ok ss v" using assms by (simp add: v_def slots_at_def)
  have call: "slots_ok ss (snd (call_process ss i c (record_user_turn i text w)))" for c
    using assms by (simp add: slots_at_kept[OF slotted_small(2)] slots_at_kept[OF slotted_small(3)])
  have drop: "slots_ok ss u \<Longrightarrow> slots_ok ss (u\<lparr>wd_starting := s\<rparr>)" for u s by (simp add: slots_at_def)
  show ?thesis
    using assms v call drop start_process_slots[OF v]
    by (auto simp: send_session_def v_def[symmetric] Let_def split: sum.split if_split prod.split)
      (metis snd_conv)+
qed

lemma kept_closing_call: "slots_kept w (snd (call_process ss i c (w\<lparr>wd_closing := k\<rparr>)))"
  by (rule slots_kept_trans[OF slotted_fields(4) slotted_small(2)])

lemma stop_session_slots:
  "slots_kept w (snd (interrupt_session ss a i w))" "slots_kept w (snd (close_session ss a i w))"
  by (simp_all add: interrupt_session_def close_session_def slotted kept_closing_call split: sum.split)

text \<open>The next call of a chain that stops at the first error.\<close>

lemma kept_bind:
  "slots_kept w (snd p) \<Longrightarrow> (\<And>x v. slots_kept w v \<Longrightarrow> slots_kept w (snd (f x v))) \<Longrightarrow>
   slots_kept w (snd (case p of (Inl e, v) \<Rightarrow> (Inl e, v) | (Inr x, v) \<Rightarrow> f x v))"
  by (auto split: prod.split sum.split)

lemma kept_result: "slots_kept w v \<Longrightarrow> slots_kept w (snd (r, v))"
  by simp

lemma decide_slots: "slots_kept w (snd (decide ss a apid allow updated msg w))"
proof (cases "approvals_get apid w")
  case (Inr ap)
  show ?thesis
  proof (cases "get_session a (ap_session ap) w")
    case s: (Inr s)
    have tell: "slots_kept w (snd (tell_decision ss sid req al up m v))" if "slots_kept w v" for sid req al up m v
      using slots_kept_trans[OF that slotted_small(2)] that by (simp add: tell_decision_def)
    have audit: "slots_kept w (case approvals_get apid (audit_append u x t v) of
        Inl e \<Rightarrow> audit_append u x t v | Inr ap \<Rightarrow> publish (ApprovalDecidedMsg sid ap) (audit_append u x t v))"
      if "slots_kept w v" for u x t sid v
      using that by (simp add: slots_kept_def audit_append_def publish_def split: sum.split)
    have state: "slots_kept w (snd (set_state k st v))" if "slots_kept w v" for k st v
      by (rule slots_kept_trans[OF that slotted_small(1)])
    have "slots_kept w (snd (case approvals_decide apid (if allow then ApprovalAllowed else ApprovalDenied) (ac_user a) updated msg w of
        (Inl e, w1) \<Rightarrow> (Inl e, w1)
      | (Inr _, w1) \<Rightarrow>
     (case set_state (se_id s) SessionRunning w1 of (Inl e, w2) \<Rightarrow> (Inl e, w2) | (Inr _, w2) \<Rightarrow>
     (case tell_decision ss (se_id s) (ap_request ap) allow updated msg w2 of
        (Inl e, w3) \<Rightarrow> (Inl e, w3)
      | (Inr _, w3) \<Rightarrow>
          (let w4 = audit_append (ac_user a) (if allow then ''approval.allow'' else ''approval.deny'') apid w3
           in (Inr (), case approvals_get apid w4 of
                 Inl e \<Rightarrow> w4 | Inr ap' \<Rightarrow> publish (ApprovalDecidedMsg (se_id s) ap') w4))))))"
      unfolding Let_def by (intro kept_bind kept_result slotted_repos state tell audit)
    then show ?thesis unfolding decide_def Inr s sum.case by simp
  qed (simp add: decide_def Inr)
qed (simp add: decide_def)

lemma expire_one_slots: "slots_kept w (expire_one ss w ap)"
proof -
  obtain r w1 where d: "approvals_decide (ap_id ap) ApprovalExpired ''system'' [] timeout_message w = (r, w1)" by fastforce
  have w1: "slots_kept w w1" using slotted_repos(3)[of w "ap_id ap" ApprovalExpired "''system''" "[]" timeout_message] d by simp
  define w2 where "w2 = audit_append ''system'' ''approval.expire'' (ap_id ap) w1"
  have w2: "slots_kept w w2" using slots_kept_trans[OF w1 slotted_fields(8)] by (simp add: w2_def)
  have st: "slots_kept w (snd (set_state k st v))" if "slots_kept w v" for k st v
    by (rule slots_kept_trans[OF that slotted_small(1)])
  have call: "slots_kept w (snd (call_process ss k c v))" if "slots_kept w v" for k c v
    by (rule slots_kept_trans[OF that slotted_small(2)])
  have told: "slots_kept w (case call_process ss k c v of (Inl e, w4) \<Rightarrow> snd (set_state k st w4) | (Inr _, w4) \<Rightarrow> w4)"
    if "slots_kept w v" for k c v st
    using call[OF that, of k c] st by (cases "call_process ss k c v"; cases "fst (call_process ss k c v)") auto
  show ?thesis
    unfolding expire_one_def d w2_def[symmetric] Let_def prod.case
    by (simp add: w1 w2 st told split: sum.split)
qed

lemma foldl_kept: "(\<And>w x. slots_kept w (f w x)) \<Longrightarrow> slots_kept w (foldl f w xs)"
  by (induction xs arbitrary: w) (auto intro: slots_kept_trans)

lemma maintenance_slots: "slots_kept w (run_maintenance ss w)"
proof -
  have "slots_kept w (reap_idle ss w)"
    unfolding reap_idle_def Let_def by (rule foldl_kept) (simp add: slotted)
  moreover have "slots_kept v (expire_approvals ss v)" for v
    unfolding expire_approvals_def by (rule foldl_kept) (rule expire_one_slots)
  ultimately show ?thesis unfolding run_maintenance_def by (rule slots_kept_trans)
qed

lemma switch_model_slots:
  assumes "slots_ok ss w"
  shows "slots_ok ss (snd (switch_model ss a i model effort w))"
proof -
  have close: "slots_ok ss (snd (close_live_process ss i w))"
  proof (cases "live i w")
    case True
    obtain r v where v: "call_process ss i ProcClose (w\<lparr>wd_closing := i # removeAll i (wd_closing w)\<rparr>) = (r, v)" by fastforce
    then have k: "slots_kept w v" using kept_closing_call[of w ss i ProcClose "i # removeAll i (wd_closing w)"] by simp
    then have "slots_ok ss v" "live i v" using assms True by (simp_all add: slots_at_kept live_kept)
    then show ?thesis
      using True exit_frees_slot by (auto simp: close_live_process_def v split: sum.split option.split)
  qed (simp add: close_live_process_def assms)
  have upd: "slots_ok ss v \<Longrightarrow> slots_ok ss (snd (sessions_update_model i model v))"
    "slots_ok ss v \<Longrightarrow> slots_ok ss (snd (sessions_update_effort i effort v))"
    "slots_ok ss v \<Longrightarrow> slots_ok ss (snd (set_state i SessionFailed v))" for v
    by (simp_all add: slots_at_kept[OF slotted_updates(6)] slots_at_kept[OF slotted_updates(7)] slots_at_kept[OF slotted_small(1)])
  show ?thesis
    using assms close unfolding switch_model_def
    by (auto split: sum.split prod.split)
      (metis (no_types, lifting) snd_conv upd start_process_slots)+
qed

section \<open>The pump\<close>

lemma checkpoint_slots: "slots_kept w (checkpoint_turn ss s turn w)"
proof -
  have "slots_kept w (snd (checkpoints_create c (snd (new_uuid f w))))" for c f
    by (rule slots_kept_trans[OF slotted_repos(7) slotted_repos(6)])
  then show ?thesis
    by (auto simp: checkpoint_turn_def Let_def split: sum.split prod.split) (metis snd_conv)
qed

lemma after_result_slots: "slots_kept w (snd (after_result ss s turn w))"
  using slots_kept_trans[OF checkpoint_slots slotted_updates(10)]
  by (auto simp: after_result_def Let_def checkpoint_slots slotted split: sum.split)

lemma handle_permission_slots: "slots_kept w (handle_permission ss s q w)"
proof -
  have "slots_kept w (snd (set_state i st (snd (call_process ss i c v))))" if "slots_kept w v" for i st c v
    by (rule slots_kept_trans[OF slots_kept_trans[OF that slotted_small(2)] slotted_small(1)])
  moreover have "slots_kept w (publish m (snd (set_state i st v)))" if "slots_kept w v" for m i st v
    by (rule slots_kept_trans[OF slots_kept_trans[OF that slotted_small(1)] slotted_fields(7)])
  moreover have "slots_kept w (snd (approvals_create ap (snd (new_uuid f w))))" for ap f
    by (rule slots_kept_trans[OF slotted_repos(7) slotted_repos(2)])
  ultimately show ?thesis
    by (auto simp: handle_permission_def Let_def split: sum.split prod.split) (metis snd_conv)+
qed

lemma store_init_slots: "slots_kept w (store_init i ni w)"
proof -
  define w1 where "w1 = (if ni_model ni = [] then w else snd (sessions_update_model i (ni_model ni) w))"
  define w2 where "w2 = (if ni_harness ni = [] then w1 else snd (sessions_update_harness i (ni_harness ni) w1))"
  define w3 where "w3 = (if ni_ref ni = [] then w2 else snd (sessions_update_harness_ref i (ni_ref ni) w2))"
  have "slots_kept w w1" "slots_kept w1 w2" "slots_kept w2 w3"
    by (simp_all add: w1_def w2_def w3_def slotted)
  then have "slots_kept w w3" by (blast intro: slots_kept_trans)
  then show ?thesis
    unfolding store_init_def Let_def w1_def[symmetric] w2_def[symmetric] w3_def[symmetric]
    by (rule slots_kept_trans[OF _ slotted_updates(11)])
qed

lemma record_event_slots: "slots_kept w (record_event s ev w)"
proof -
  have "slots_kept w (publish m v)" if "slots_kept w v" for m v
    by (rule slots_kept_trans[OF that slotted_fields(7)])
  moreover have "slots_kept w (snd (events_append i ev (snd (sessions_touch j w))))" for i j
    by (rule slots_kept_trans[OF slotted_updates(12) slotted_repos(4)])
  ultimately show ?thesis
    using slotted_updates(12) by (auto simp: record_event_def Let_def split: sum.split prod.split) (metis snd_conv)+
qed

lemma handle_result_slots: "slots_kept w (handle_result ss p w)"
proof -
  define s where "s = pu_session p"
  define w1 where "w1 = snd (sessions_update_stats (se_id s) (pu_turns p) (pu_cost p) (pu_tokens_in p) (pu_tokens_out p) w)"
  define w2 where "w2 = snd (sessions_update_now (se_id s) [] w1)"
  obtain ad w3 where w3: "after_result ss s (pu_turns p) w2 = (ad, w3)" by fastforce
  have "slots_kept w w1" "slots_kept w1 w2"
    by (simp_all add: w1_def w2_def slotted)
  moreover have "slots_kept w2 w3"
    using after_result_slots[of w2 ss s "pu_turns p"] by (simp add: w3)
  ultimately have k: "slots_kept w w3" by (blast intro: slots_kept_trans)
  have "slots_kept w (snd (set_state i st (publish m w3)))" for i st m
    by (rule slots_kept_trans[OF slots_kept_trans[OF k slotted_fields(7)] slotted_small(1)])
  then show ?thesis
    using w3 by (simp add: handle_result_def Let_def s_def w1_def w2_def split: prod.split)
qed

lemma pump_event_slots:
  assumes "slots_ok ss w" and "live (se_id (pu_session p)) w"
  shows "slots_ok ss (snd (pump_event ss p ev w))"
proof -
  let ?s = "pu_session p"
  define w1 where "w1 = record_event ?s ev w"
  have k: "slots_kept w w1" by (simp add: w1_def record_event_slots)
  then have "slots_ok ss w1" "live (se_id ?s) w1" using assms by (simp_all add: slots_at_kept live_kept)
  note exit = exit_frees_slot[OF this]
  have kept: "slots_ok ss v" if "slots_kept w1 v" for v
    using slots_at_kept[OF slots_kept_trans[OF k that]] assms(1) by simp
  have tool: "slots_kept w1 (snd (set_state i st (snd (sessions_update_now j n w1))))" for i st j n
    by (rule slots_kept_trans[OF slotted_updates(3) slotted_small(1)])
  show ?thesis
    unfolding pump_event_def Let_def w1_def[symmetric]
    by (cases ev)
      (auto intro!: kept exit simp: store_init_slots tool handle_permission_slots handle_result_slots slotted split: option.split)
qed

lemma shutdown_slots: "slots_kept w (snd (shutdown ss w))"
proof -
  have "slots_kept w (snd (shutdown_all ss is err w))" for "is" err w
  proof (induction "is" arbitrary: err w)
    case (Cons i "is")
    obtain r1 w1 where w1: "call_process ss i ProcClose w = (r1, w1)" by fastforce
    obtain r2 w2 where w2: "set_state i SessionClosed w1 = (r2, w2)" by fastforce
    have "slots_kept w w2"
      using slots_kept_trans[OF slotted_small(2)[of w ss i ProcClose] slotted_small(1)[of "snd (call_process ss i ProcClose w)" i SessionClosed]]
      by (simp add: w1 w2)
    from slots_kept_trans[OF this Cons.IH] show ?case by (simp add: w1 w2 Let_def)
  qed simp
  from slots_kept_trans[OF slotted_fields(4) this] show ?thesis by (simp add: shutdown_def Let_def)
qed

section \<open>The life of the service\<close>

text \<open>
  One operation of the service; a pump only sees events of a process that is still tracked, and everything else in
  the server leaves processes, slots and transcripts alone.
\<close>

inductive session_op :: "session_service \<Rightarrow> world \<Rightarrow> world \<Rightarrow> bool" for ss where
  created: "session_op ss w (snd (create_session ss a ci w))"
| sent: "session_op ss w (snd (send_session ss a i text w))"
| interrupted: "session_op ss w (snd (interrupt_session ss a i w))"
| closed: "session_op ss w (snd (close_session ss a i w))"
| decided: "session_op ss w (snd (decide ss a i allow updated msg w))"
| snoozed: "session_op ss w (snd (snooze a i until w))"
| maintained: "session_op ss w (run_maintenance ss w)"
| switched: "session_op ss w (snd (switch_model ss a i model effort w))"
| pumped: "live (se_id (pu_session p)) w \<Longrightarrow> session_op ss w (snd (pump_event ss p ev w))"
| shut: "session_op ss w (snd (shutdown ss w))"
| elsewhere: "wd_procs w' = wd_procs w \<Longrightarrow> wd_slots w' = wd_slots w \<Longrightarrow> wd_events w' = wd_events w \<Longrightarrow> session_op ss w w'"

lemma snooze_slots: "slots_kept w (snd (snooze a i until w))"
  by (simp add: snooze_def slotted split: sum.split)

lemma session_op_slots: "session_op ss w w' \<Longrightarrow> slots_ok ss w \<Longrightarrow> slots_ok ss w'"
proof (induction rule: session_op.induct)
  case (elsewhere w' w)
  then have "slots_kept w w'" using transcript_cong[of w' w] by (simp add: slots_kept_def)
  from slots_at_kept[OF this, of ss 0] elsewhere(4) show ?case by blast
qed (auto intro: create_session_slots send_session_slots switch_model_slots pump_event_slots
    stop_session_slots[THEN slots_at_kept, THEN iffD2] decide_slots[THEN slots_at_kept, THEN iffD2]
    snooze_slots[THEN slots_at_kept, THEN iffD2] maintenance_slots[THEN slots_at_kept, THEN iffD2]
    shutdown_slots[THEN slots_at_kept, THEN iffD2])

lemma session_ops_slots: "(session_op ss)\<^sup>*\<^sup>* w w' \<Longrightarrow> slots_ok ss w \<Longrightarrow> slots_ok ss w'"
  by (induction rule: rtranclp_induct) (auto intro: session_op_slots)

end
