(* ===== verification/Path_Facts.thy ===== *)
theory Path_Facts
  imports Go_Path
begin

text \<open>What \<open>filepath.Clean\<close>, \<open>Join\<close> and \<open>Abs\<close> do to the elements of a path.\<close>

section \<open>Splitting\<close>

lemma split_path_nonempty [simp]: "split_path x \<noteq> []"
  by (cases x) (auto split: list.split)

lemma split_path_append: "split_path (a @ ''/'' @ b) = split_path a @ split_path b"
proof (induction a)
  case (Cons c a)
  then show ?case by (cases "split_path a") (auto split: list.split)
qed simp

lemma split_path_plain: "CHR ''/'' \<notin> set e \<Longrightarrow> split_path e = [e]"
  by (induction e) auto

lemma split_path_no_slash: "e \<in> set (split_path s) \<Longrightarrow> CHR ''/'' \<notin> set e"
  by (induction s arbitrary: e) (auto split: list.splits if_splits)

lemma split_slash_join: "\<forall>e \<in> set es. CHR ''/'' \<notin> set e \<Longrightarrow> es \<noteq> [] \<Longrightarrow> split_path (slash_join es) = es"
proof (induction es rule: slash_join.induct)
  case (3 e f es)
  then show ?case using split_path_append[of e "slash_join (f # es)"] by (simp add: split_path_plain)
qed (simp_all add: split_path_plain)

lemma slash_join_snoc: "slash_join (es @ [e @ s]) = slash_join (es @ [e]) @ s"
  by (induction es rule: slash_join.induct) auto

section \<open>Elements\<close>

definition path_element :: "string \<Rightarrow> bool" where
  "path_element e \<longleftrightarrow> e \<noteq> [] \<and> e \<noteq> ''.'' \<and> e \<noteq> ''..'' \<and> CHR ''/'' \<notin> set e"

lemma clean_path_append: "clean_path True (es @ fs) acc = clean_path True fs (rev (clean_path True es acc))"
  by (induction True es acc rule: clean_path.induct) auto

lemma clean_path_plain: "\<forall>e \<in> set es. path_element e \<Longrightarrow> clean_path r es acc = rev acc @ es"
  by (induction es arbitrary: acc) (auto simp: path_element_def)

lemma clean_path_snoc: "path_element e \<Longrightarrow> clean_path r (es @ [e]) acc = clean_path r es acc @ [e]"
  by (induction r es acc rule: clean_path.induct) (auto simp: path_element_def)

lemma clean_path_elements:
  "\<forall>e \<in> set es. CHR ''/'' \<notin> set e \<Longrightarrow> \<forall>e \<in> set acc. path_element e \<Longrightarrow> e \<in> set (clean_path True es acc) \<Longrightarrow> path_element e"
proof (induction True es acc rule: clean_path.induct)
  case (2 x es acc)
  have "set (tl acc) \<subseteq> set acc" by (cases acc) auto
  with 2 show ?case by (auto simp: path_element_def split: if_splits)
qed simp

lemma clean_path_set:
  "x \<in> set (clean_path r es acc) \<Longrightarrow> (x \<in> set es \<and> x \<noteq> []) \<or> x \<in> set acc \<or> x = ''..''"
proof (induction r es acc rule: clean_path.induct)
  case (2 r e es acc)
  have "x \<in> set acc" if "x \<in> set (tl acc)" using that by (cases acc) auto
  with 2 show ?case by (simp split: if_splits) blast+
qed simp

text \<open>A relative path may be cleaned before it is appended to a rooted one.\<close>

lemma clean_path_relative:
  assumes "\<forall>x \<in> set a. x \<noteq> [] \<and> x \<noteq> ''.''"
  shows "clean_path True (clean_path False es a) b = clean_path True es (rev (clean_path True (rev a) b))"
  using assms
proof (induction es arbitrary: a)
  case (Cons e es)
  have tl_a: "\<forall>x \<in> set (tl a). x \<noteq> [] \<and> x \<noteq> ''.''" using Cons.prems by (cases a) auto
  consider "e = [] \<or> e = ''.''" | "e = ''..''" "a \<noteq> []" "hd a \<noteq> ''..''" | "e = ''..''" "a = [] \<or> hd a = ''..''"
    | "e \<noteq> []" "e \<noteq> ''.''" "e \<noteq> ''..''" by blast
  then show ?case
  proof cases
    case 2
    then obtain x a' where a: "a = x # a'" by (cases a) auto
    with 2 Cons.prems have "clean_path True (rev a) b = clean_path True (rev a') b @ [x]"
      by (simp add: clean_path_append)
    with 2 a Cons.IH[OF tl_a] show ?thesis by simp
  next
    case 3
    then have "clean_path False (e # es) a = clean_path False es (e # a)" by auto
    with 3 Cons.IH[of "e # a"] Cons.prems show ?thesis by (simp add: clean_path_append)
  qed (use Cons.IH[of a] Cons.IH[of "e # a"] Cons.prems in \<open>simp_all add: clean_path_append\<close>)
qed simp

lemma elements_from_clean: "elements_from cwd (go_clean p) = elements_from cwd p"
proof (cases "is_abs p")
  case True
  let ?es = "clean_path True (split_path p) []"
  have es: "\<forall>e \<in> set ?es. path_element e"
  proof
    fix e assume "e \<in> set ?es"
    then show "path_element e" by (rule clean_path_elements[rotated 2]) (auto dest: split_path_no_slash)
  qed
  have "clean_path True (split_path (''/'' @ slash_join ?es)) [] = ?es"
  proof (cases "?es = []")
    case False
    then have "split_path (''/'' @ slash_join ?es) = [] # ?es"
      using split_slash_join[of ?es] es by (simp add: path_element_def)
    then show ?thesis using clean_path_plain[OF es] by simp
  qed simp
  then show ?thesis using True by (simp add: elements_from_def go_clean_def is_abs_def)
next
  case False
  let ?es = "clean_path False (split_path p) []"
  define q where "q = (case ?es of [] \<Rightarrow> ''.'' | es \<Rightarrow> slash_join es)"
  have plain: "CHR ''/'' \<notin> set e \<and> e \<noteq> []" if "e \<in> set ?es" for e
    using clean_path_set[OF that] by (auto dest: split_path_no_slash)
  have q: "clean_path True (split_path q) b = clean_path True ?es b" for b
    using split_slash_join[of ?es] plain by (auto simp: q_def split: list.split)
  have rel: "\<not> is_abs q"
  proof (cases ?es)
    case (Cons e es)
    with plain have "e \<noteq> []" "CHR ''/'' \<notin> set e" by auto
    then show ?thesis by (cases es; cases e) (auto simp: q_def Cons is_abs_def has_prefix_iff)
  qed (simp add: q_def is_abs_def has_prefix_iff)
  have "clean_path True (split_path q) b = clean_path True (split_path p) b" for b
    using q[of b] clean_path_relative[of "[]" "split_path p" b] by simp
  then have "clean_path True (split_path (cwd @ ''/'' @ q)) [] = clean_path True (split_path (cwd @ ''/'' @ p)) []"
    by (simp only: split_path_append clean_path_append)
  moreover have "go_clean p = q" using False by (simp add: go_clean_def is_abs_def q_def)
  ultimately show ?thesis using False rel by (simp add: elements_from_def)
qed

lemma elements_from_elements: "e \<in> set (elements_from cwd p) \<Longrightarrow> path_element e"
  unfolding elements_from_def by (rule clean_path_elements[rotated 2]) (auto dest: split_path_no_slash)

lemma elements_from_join:
  assumes "u \<noteq> []" and "path_element e"
  shows "elements_from cwd (go_join [u, e]) = elements_from cwd u @ [e]"
proof -
  have e: "e \<noteq> []" "CHR ''/'' \<notin> set e" using assms(2) by (auto simp: path_element_def)
  have abs: "is_abs (u @ ''/'' @ e) = is_abs u" using assms(1) by (cases u) (auto simp: is_abs_def has_prefix_iff)
  have "go_join [u, e] = go_clean (u @ ''/'' @ e)" using assms(1) e by (simp add: go_join_def)
  moreover have "elements_from cwd (u @ ''/'' @ e) = elements_from cwd u @ [e]"
    using split_path_append[of u e] split_path_append[of "cwd @ ''/'' @ u" e] e abs assms(2)
    by (simp add: elements_from_def split_path_plain clean_path_snoc)
  ultimately show ?thesis by (simp only: elements_from_clean)
qed

lemma go_join_suffix:
  assumes "u \<noteq> []" and "path_element e" and "path_element (e @ s)"
  shows "go_join [u, e] @ s = go_join [u, e @ s]"
proof -
  have clean: "go_clean (u @ ''/'' @ f) =
      (if is_abs u then ''/'' @ slash_join (clean_path True (split_path u) [] @ [f])
       else slash_join (clean_path False (split_path u) [] @ [f]))" if "path_element f" for f
  proof -
    have abs: "is_abs (u @ ''/'' @ f) = is_abs u" using assms(1) by (cases u) (auto simp: is_abs_def has_prefix_iff)
    have "split_path (u @ ''/'' @ f) = split_path u @ [f]"
      using that split_path_append[of u f] split_path_plain[of f] by (simp add: path_element_def)
    then show ?thesis
      using that abs by (auto simp: go_clean_def is_abs_def clean_path_snoc split: list.split)
  qed
  show ?thesis
    using clean[OF assms(2)] clean[OF assms(3)] assms by (simp add: go_join_def slash_join_snoc path_element_def)
qed

end
