(* ===== verification/Session_Claims.thy ===== *)
theory Session_Claims
  imports Session_Proofs Service_Examples Path_Facts
begin

text \<open>
  The properties of the sessions service: processes and slots, transcripts, decisions on approvals, attached
  worktrees and branch names, and the timestamps the tables are ordered by.
\<close>

section \<open>Processes and transcripts\<close>

lemma service_slots_ok: "slots_ok demo_sessions service_world"
  by (simp add: slots_at_def service_world_def empty_world_def transcript_ok_def)

definition demo_create :: "string \<Rightarrow> create_input" where
  "demo_create prompt = \<lparr>ci_workspace = ''w'', ci_profile = ''auto'', ci_title = ''t'', ci_prompt = prompt, ci_origin = OriginUI,
     ci_origin_ref = [], ci_owner = None, ci_model = [], ci_effort = [], ci_harness = [], ci_json_schema = [],
     ci_system_prompt = [], ci_run = [], ci_worktree = []\<rparr>"

definition demo_session_world :: world where
  "demo_session_world = snd (create_session demo_sessions service_actor (demo_create ''hello'') service_world)"

definition demo_sent_world :: world where
  "demo_sent_world = snd (send_session demo_sessions service_actor ''u'' ''more'' demo_session_world)"

lemma demo_session_life: "(session_op demo_sessions)\<^sup>*\<^sup>* service_world demo_sent_world"
proof (rule rtranclp.rtrancl_into_rtrancl[OF r_into_rtranclp])
  show "session_op demo_sessions service_world demo_session_world"
    unfolding demo_session_world_def by (rule session_op.created)
  show "session_op demo_sessions demo_session_world demo_sent_world"
    unfolding demo_sent_world_def by (rule session_op.sent)
qed

lemma demo_session_rows:
  "map fst (wd_procs demo_sent_world) = [''u'']" "map ev_seq (wd_events demo_sent_world) = [1, 2]"
  by code_simp+

text \<open>
  C10: whatever is created, sent, switched, decided, closed or exits, there are never more processes than slots, and
  never two for a session.
\<close>

theorem processes_within_slots:
  assumes "(session_op ss)\<^sup>*\<^sup>* w w'" and "wd_procs w = []" and "wd_slots w = 0" and "transcript_ok w"
  shows "int (length (wd_procs w')) \<le> max 1 (ss_max_open ss) \<and> distinct (map fst (wd_procs w')) \<and>
    wd_slots w' = length (wd_procs w')"
proof -
  have "slots_ok ss w" using assms by (simp add: slots_at_def)
  from session_ops_slots[OF assms(1) this] show ?thesis
    by (auto simp: slots_at_def slot_count_def split: if_splits)
qed

theorem processes_within_slots_witness:
  "int (length (wd_procs demo_sent_world)) \<le> 2 \<and> wd_slots demo_sent_world = 1"
  using processes_within_slots[OF demo_session_life] demo_session_rows(1) service_slots_ok
  by (auto simp: slots_at_def service_world_def empty_world_def demo_sessions_def dest: arg_cong[where f=length])

lemma filter_upt: "filter (\<lambda>k. n < k) [Suc 0..<Suc m] = [Suc n..<Suc m]"
  by (induction m) auto

lemma sort_map_seq: "sorted (map f xs) \<Longrightarrow> sort_key f xs = xs"
  by (induction xs) (auto simp: insort_is_Cons)

text \<open>
  A reader that asks for a session's events after the last number it saw gets the following numbers without a
  gap or a repeat, up to its limit, however the transcript grew.
\<close>

theorem events_resume_without_gap:
  assumes "(session_op ss)\<^sup>*\<^sup>* w w'" and "wd_procs w = []" and "wd_slots w = 0" and "transcript_ok w"
  shows "map ev_seq (events_list_after i n limit w') = take limit [Suc n..<Suc (last_seq i w')]"
proof -
  have "slots_ok ss w" using assms by (simp add: slots_at_def)
  from session_ops_slots[OF assms(1) this] have ok: "transcript_ok w'" by (simp add: slots_at_def)
  let ?es = "filter (\<lambda>e. ev_session e = i) (wd_events w')"
  have nums: "map ev_seq ?es = [Suc 0..<Suc (last_seq i w')]"
    using ok transcript_last_seq[OF ok, of i] by (simp add: transcript_ok_def del: upt_Suc)
  have "filter (\<lambda>e. ev_session e = i \<and> n < ev_seq e) (wd_events w') = filter (\<lambda>e. n < ev_seq e) ?es"
    by (simp add: filter_filter conj_commute)
  moreover have m: "map ev_seq (filter (\<lambda>e. n < ev_seq e) ?es) = [Suc n..<Suc (last_seq i w')]"
    using filter_map[of "\<lambda>k. n < k" ev_seq ?es] nums filter_upt by (simp add: comp_def del: upt_Suc)
  then have "sorted (map ev_seq (filter (\<lambda>e. n < ev_seq e) ?es))" by (simp del: upt_Suc)
  ultimately show ?thesis
    using m by (simp add: events_list_after_def sort_map_seq take_map[symmetric] del: upt_Suc)
qed

theorem events_resume_without_gap_witness:
  "map ev_seq (events_list_after ''u'' 1 5 demo_sent_world) = [2]"
proof -
  have "wd_procs service_world = []" "wd_slots service_world = 0" "transcript_ok service_world"
    using service_slots_ok by (simp_all add: slots_at_def service_world_def empty_world_def)
  note events_resume_without_gap[OF demo_session_life this, of "''u''" 1 5]
  moreover have "last_seq ''u'' demo_sent_world = 2" by code_simp
  ultimately show ?thesis by (simp add: upt_rec)
qed

section \<open>Decisions\<close>

lemma set_state_Inr:
  assumes "set_state i st w = (Inr x, w')"
  shows "wd_approvals w' = wd_approvals w" and "wd_calls w' = wd_calls w" and "live k w' = live k w"
    and "wd_sessions w' = tbl_update se_id i (\<lambda>s. s\<lparr>se_state := st\<rparr>) (wd_sessions w)"
  using assms by (auto simp: set_state_def sessions_update_state_def sessions_exec1_def publish_def live_def split: if_splits)

definition decided_row :: "approval_state \<Rightarrow> id \<Rightarrow> time \<Rightarrow> string \<Rightarrow> string \<Rightarrow> approval \<Rightarrow> approval" where
  "decided_row st who now updated msg r =
     r\<lparr>ap_state := st, ap_decided_by := Some who,
       ap_decided_at := Some now, ap_updated_input := empty_to_null updated, ap_message := msg\<rparr>"

lemma approvals_decide_Inr:
  assumes "approvals_decide i st who updated msg w = (Inr x, w')"
  shows "\<exists>a \<in> set (wd_approvals w). ap_id a = i \<and> ap_state a = ApprovalPending \<and> approvals_get i w = Inr a \<and>
    w' = w\<lparr>wd_approvals := tbl_update ap_id i (\<lambda>r. if ap_state r = ApprovalPending
               then decided_row st who (wd_now w) updated msg r else r) (wd_approvals w)\<rparr>"
  unfolding decided_row_def
  using assms by (auto simp: approvals_decide_def approvals_get_def found_Inr split: sum.splits if_splits dest: tbl_get_Some)

lemma tell_decision_calls:
  assumes "tell_decision ss sid request allow updated msg w = (r, w')"
  shows "wd_approvals w' = wd_approvals w" and "wd_calls w' = wd_calls w @
    (if live sid w then [(sid, ProcDecide request allow (empty_to_null updated) msg)] else [])"
  using assms by (auto simp: tell_decision_def call_process_def Let_def split: if_splits option.splits)

text \<open>A decision on an approval that is not pending is refused before anything is written or told.\<close>

lemma decide_closed:
  assumes "approvals_get i w = Inr ap" and "ap_state ap \<noteq> ApprovalPending"
  shows "\<exists>e. decide ss a i allow updated msg w = (Inl e, w)"
  using assms by (auto simp: decide_def approvals_decide_def split: sum.split)

text \<open>
  An accepted decision takes a pending approval, records who decided what and when, sets the session running and
  tells a live process exactly that decision; any further decision on it is refused and changes nothing.
\<close>

theorem decision_taken_once:
  assumes d: "decide ss a i allow updated msg w = (Inr (), w')" and u: "distinct (map ap_id (wd_approvals w))"
  shows "\<exists>ap \<in> set (wd_approvals w). ap_id ap = i \<and> ap_state ap = ApprovalPending \<and>
    wd_approvals w' = tbl_update ap_id i (decided_row (if allow then ApprovalAllowed else ApprovalDenied) (ac_user a) (wd_now w) updated msg) (wd_approvals w) \<and>
    wd_calls w' = wd_calls w @ (if live (ap_session ap) w
      then [(ap_session ap, ProcDecide (ap_request ap) allow (empty_to_null updated) msg)] else []) \<and>
    (\<forall>b allow' updated' msg'. \<exists>e. decide ss b i allow' updated' msg' w' = (Inl e, w'))"
proof -
  obtain ap s where g: "approvals_get i w = Inr ap" "get_session a (ap_session ap) w = Inr s" "se_harness s \<noteq> kind_codex"
    using d by (auto simp: decide_def split: sum.splits if_splits)
  have sid: "se_id s = ap_session ap"
    using g(2) by (auto simp: get_session_def get_visible_def sessions_get_def found_Inr split: sum.splits if_splits dest: tbl_get_Some)
  obtain r1 w1 where w1: "approvals_decide i (if allow then ApprovalAllowed else ApprovalDenied) (ac_user a) updated msg w = (r1, w1)"
    by fastforce
  obtain r2 w2 where w2: "set_state (se_id s) SessionRunning w1 = (r2, w2)" by fastforce
  obtain r3 w3 where w3: "tell_decision ss (se_id s) (ap_request ap) allow updated msg w2 = (r3, w3)" by fastforce
  note body = d[unfolded decide_def g sum.case w1 prod.case, simplified g(3) if_False]
  from body have r: "r1 = Inr ()" "r2 = Inr ()" "r3 = Inr ()" and w': "wd_approvals w' = wd_approvals w3" "wd_calls w' = wd_calls w3"
    by (auto simp: w2 w3 audit_append_def publish_def Let_def split: sum.splits)
  from approvals_decide_Inr[OF w1[unfolded r]] g(1)
  have ap: "ap \<in> set (wd_approvals w)" "ap_id ap = i" "ap_state ap = ApprovalPending"
    and w1': "w1 = w\<lparr>wd_approvals := tbl_update ap_id i (\<lambda>r. if ap_state r = ApprovalPending
      then decided_row (if allow then ApprovalAllowed else ApprovalDenied) (ac_user a) (wd_now w) updated msg r else r) (wd_approvals w)\<rparr>"
    by auto
  have only: "x = ap" if "x \<in> set (wd_approvals w)" "ap_id x = i" for x
    using that ap u by (auto simp: distinct_map dest: inj_onD)
  have rows: "wd_approvals w1 = tbl_update ap_id i (decided_row (if allow then ApprovalAllowed else ApprovalDenied) (ac_user a) (wd_now w) updated msg) (wd_approvals w)"
    using only ap(3) by (auto simp: w1' tbl_update_def)
  note st = set_state_Inr[OF w2[unfolded r]]
  note calls = tell_decision_calls[OF w3]
  have "tbl_get ap_id i (wd_approvals w') = Some (decided_row (if allow then ApprovalAllowed else ApprovalDenied) (ac_user a) (wd_now w) updated msg ap)"
    using g(1) by (simp add: w' calls(1) st(1) rows tbl_get_update decided_row_def approvals_get_def found_Inr)
  then have "approvals_get i w' = Inr (decided_row (if allow then ApprovalAllowed else ApprovalDenied) (ac_user a) (wd_now w) updated msg ap)"
    by (simp add: approvals_get_def)
  from decide_closed[OF this] have closed: "\<exists>e. decide ss b i allow' updated' msg' w' = (Inl e, w')" for b allow' updated' msg'
    by (simp add: decided_row_def)
  have "live (ap_session ap) w1 = live (ap_session ap) w" "wd_calls w1 = wd_calls w" by (simp_all add: w1' live_def)
  then show ?thesis
    using ap closed rows by (intro bexI[of _ ap]) (auto simp: w' calls st sid)
qed

definition demo_waiting_world :: world where
  "demo_waiting_world = snd (pump_event demo_sessions (new_pump (hd (wd_sessions demo_session_world)))
     (EventPermission (Some \<lparr>pq_request = ''q1'', pq_tool = ''Bash'', pq_input = ''{}'', pq_plan = []\<rparr>)) demo_session_world)"

theorem decision_taken_once_witness:
  "\<exists>ap \<in> set (wd_approvals demo_waiting_world). ap_id ap = ''ux'' \<and> ap_state ap = ApprovalPending"
proof -
  let ?d = "decide demo_sessions service_actor ''ux'' True [] ''ok'' demo_waiting_world"
  have "fst ?d = Inr ()" "distinct (map ap_id (wd_approvals demo_waiting_world))" by code_simp+
  then show ?thesis
    using decision_taken_once[of demo_sessions service_actor "''ux''" True "[]" "''ok''" demo_waiting_world "snd ?d"]
    by (metis prod.collapse)
qed

section \<open>Worktrees\<close>

lemma validate_worktree_inside:
  assumes "validate_worktree_path ss ws path = None"
  shows "\<exists>rest. rest \<noteq> [] \<and> (\<forall>e \<in> set rest. path_element e) \<and>
    abs_elements ss path = abs_elements ss (ws_path ws @ ''/'' @ worktrees_subdir) @ rest"
proof -
  let ?root = "abs_elements ss (ws_path ws @ ''/'' @ worktrees_subdir)"
  have "length ?root < length (abs_elements ss path)" "take (length ?root) (abs_elements ss path) = ?root"
    using assms by (auto simp: validate_worktree_path_def Let_def split: if_splits)
  then show ?thesis
    using elements_from_elements[of _ "ss_cwd ss" path, folded abs_elements_def]
    by (intro exI[of _ "drop (length ?root) (abs_elements ss path)"])
      (auto simp: append_take_drop_id dest: in_set_dropD, metis append_take_drop_id)
qed

lemma attach_worktree_Inr:
  assumes "attach_worktree ss s ws path w = (Inr s', w')"
  shows "validate_worktree_path ss ws path = None \<and> se_worktree s' = path \<and> se_shared s' \<and>
    (\<exists>owner. sessions_get_by_worktree path w = Inr owner \<and> se_base_ref s' = se_base_ref owner)"
  using assms by (auto simp: attach_worktree_def split: option.splits sum.splits prod.splits)

text \<open>
  A session that is given an existing worktree works strictly below the workspace's worktrees directory,
  whatever dots and slashes the path contains, and takes its base commit from the session that owns the worktree.
\<close>

theorem attached_worktree_confined:
  assumes c: "create_session ss a ci w = (Inr s, w')" and "ci_worktree ci \<noteq> []"
  shows "se_worktree s = ci_worktree ci \<and> se_shared s \<and>
    (\<exists>ws \<in> set (wd_workspaces w). ws_id ws = ci_workspace ci \<and> ws_worktrees ws \<and>
      (\<exists>rest. rest \<noteq> [] \<and> (\<forall>e \<in> set rest. path_element e) \<and>
        abs_elements ss (se_worktree s) = abs_elements ss (ws_path ws @ ''/'' @ worktrees_subdir) @ rest)) \<and>
    (\<exists>owner \<in> set (wd_sessions w). se_worktree owner = se_worktree s \<and> se_base_ref s = se_base_ref owner)"
proof -
  obtain ws pf kind where k: "create_checks ss a ci w = Inr (ws, pf, kind)"
    using c by (cases "create_checks ss a ci w") (auto simp: create_session_def)
  then have ws: "ws \<in> set (wd_workspaces w)" "ws_id ws = ci_workspace ci"
    by (auto simp: create_checks_def workspaces_get_def found_Inr split: sum.splits if_splits option.splits dest: tbl_get_Some)
  obtain u w1 where w1: "new_uuid (ge_uuid (ss_env ss)) w = (u, w1)" by fastforce
  note body = c[unfolded create_session_def k sum.case prod.case w1 Let_def]
  then obtain new w2 where w2: "sessions_create new w1 = (Inr (), w2)" "se_worktree new = []"
    and placed: "\<exists>w3. place_session ss ci ws new w2 = (Inr s, w3)"
    by (fastforce split: sum.splits prod.splits)
  then have attached: "ws_worktrees ws" "\<exists>w3. attach_worktree ss new ws (ci_worktree ci) w2 = (Inr s, w3)"
    using assms(2) by (auto simp: place_session_def split: if_splits)
  then obtain owner where at: "validate_worktree_path ss ws (ci_worktree ci) = None" "se_worktree s = ci_worktree ci" "se_shared s"
    "sessions_get_by_worktree (ci_worktree ci) w2 = Inr owner" "se_base_ref s = se_base_ref owner"
    using attach_worktree_Inr by blast
  have "wd_sessions w2 = wd_sessions w @ [new]"
    using w2(1) w1 by (auto simp: sessions_create_def new_uuid_def split: if_splits)
  moreover have "owner \<in> set (wd_sessions w2) \<and> se_worktree owner = ci_worktree ci"
  proof -
    have "owner \<in> set (order_asc se_created (filter (\<lambda>s. se_worktree s = ci_worktree ci) (wd_sessions w2)))"
      using at(4) by (auto simp: sessions_get_by_worktree_def split: list.splits simp del: set_order)
    then show ?thesis by simp
  qed
  ultimately have "owner \<in> set (wd_sessions w)" "se_worktree owner = ci_worktree ci"
    using assms(2) w2(2) by auto
  then show ?thesis
    using at attached(1) ws validate_worktree_inside[OF at(1)] by auto
qed

definition worktree_world :: world where
  "worktree_world = (snd (create_session demo_sessions service_actor (demo_create [])
     (service_world\<lparr>wd_workspaces := [demo_workspace\<lparr>ws_worktrees := True\<rparr>]\<rparr>)))"

definition attach_input :: create_input where
  "attach_input = (demo_create [])\<lparr>ci_worktree := ''/srv/repo/.styr/worktrees/u''\<rparr>"

theorem attached_worktree_confined_witness:
  "\<exists>s w'. create_session demo_sessions service_actor attach_input worktree_world = (Inr s, w') \<and>
     (\<exists>owner \<in> set (wd_sessions worktree_world). se_worktree owner = se_worktree s)"
proof -
  let ?p = "create_session demo_sessions service_actor attach_input worktree_world"
  have "case fst ?p of Inl e \<Rightarrow> False | Inr s \<Rightarrow> True" by code_simp
  then obtain s where p: "?p = (Inr s, snd ?p)" by (rule result_cases)
  have "ci_worktree attach_input \<noteq> []" by (simp add: attach_input_def)
  from attached_worktree_confined[OF p this] p show ?thesis by blast
qed

section \<open>Branch names\<close>

definition branch_char :: "char \<Rightarrow> bool" where
  "branch_char c \<longleftrightarrow> ascii_alnum c \<or> c = CHR ''-''"

lemma slug_loop_chars: "set (slug_loop s out d) \<subseteq> set out \<union> {c. branch_char c}"
  by (induction s out d rule: slug_loop.induct) (auto simp: branch_char_def)

lemma session_slug_spec:
  "set (session_slug s m) \<subseteq> {c. branch_char c} \<and> length (session_slug s m) \<le> m \<and>
   (session_slug s m \<noteq> [] \<longrightarrow> hd (session_slug s m) \<noteq> CHR ''-'' \<and> last (session_slug s m) \<noteq> CHR ''-'')"
proof -
  let ?dash = "\<lambda>c. c = CHR ''-''"
  define out where "out = trim_func ?dash (slug_loop (to_lower s) [] False)"
  define cut where "cut = (if m < length out then take m out else out)"
  have slug: "session_slug s m = trim_func ?dash cut" by (simp add: session_slug_def Let_def out_def cut_def)
  have "set out \<subseteq> {c. branch_char c}"
    using set_trim_func[of ?dash] slug_loop_chars[of "to_lower s" "[]" False] unfolding out_def by force
  then have "set cut \<subseteq> {c. branch_char c}" by (auto simp: cut_def dest: in_set_takeD)
  moreover have "length cut \<le> m" by (simp add: cut_def)
  ultimately show ?thesis
    using set_trim_func[of ?dash cut] length_trim_func[of ?dash cut] trim_func_ends[of ?dash cut] unfolding slug by auto
qed

text \<open>
  Whatever a session's id and title are, its branch is \<open>styr/\<close> followed by 1 to 49 lower-case letters, digits and
  dashes that neither start nor end with a dash.
\<close>

theorem branch_name_well_formed:
  "\<exists>name. branch_name i title = ''styr/'' @ name \<and> 1 \<le> length name \<and> length name \<le> 49 \<and>
     set name \<subseteq> {c. ascii_alnum c \<or> c = CHR ''-''} \<and> hd name \<noteq> CHR ''-'' \<and> last name \<noteq> CHR ''-''"
proof -
  define short where "short = (case session_slug i short_id_len of [] \<Rightarrow> ''session'' | s \<Rightarrow> s)"
  define name where "name = (case session_slug title branch_slug_max of [] \<Rightarrow> short | slug \<Rightarrow> short @ ''-'' @ slug)"
  have b: "branch_name i title = ''styr/'' @ name"
    by (simp only: branch_name_def Let_def short_def name_def)
  have "\<forall>c \<in> set ''session''. branch_char c" by code_simp
  then have short: "short \<noteq> []" "length short \<le> 8" "\<forall>c \<in> set short. branch_char c" "hd short \<noteq> CHR ''-''" "last short \<noteq> CHR ''-''"
    using session_slug_spec[of i short_id_len] by (auto simp: short_def short_id_len_def split: list.split)
  have "length name \<le> 49 \<and> name \<noteq> [] \<and> (\<forall>c \<in> set name. branch_char c) \<and> hd name \<noteq> CHR ''-'' \<and> last name \<noteq> CHR ''-''"
  proof (cases "session_slug title branch_slug_max")
    case Nil
    with short show ?thesis by (simp add: name_def)
  next
    case (Cons c cs)
    then have "name = short @ ''-'' @ session_slug title branch_slug_max" by (simp add: name_def)
    with short Cons session_slug_spec[of title branch_slug_max] show ?thesis
      by (auto simp: branch_slug_max_def branch_char_def)
  qed
  then show ?thesis using b by (intro exI[of _ name]) (auto simp: branch_char_def Suc_le_eq)
qed

section \<open>Timestamps\<close>

text \<open>
  A stored timestamp reads back as the instant that was written, to the nanosecond, and timestamps of different
  seconds are ordered by the tables as the instants are.
\<close>

theorem timestamps_round_trip:
  assumes "t div second \<noteq> u div second"
  shows "parse_time (now_string t) = t \<and> parse_time (now_string u) = u \<and> (stored_less t u \<longleftrightarrow> t < u)"
  using parse_time_now_string stored_seconds(2)[OF assms] by blast

theorem timestamps_round_trip_witness:
  "parse_time (now_string 1500000000) = 1500000000 \<and> stored_less 1500000000 2000000001"
  using timestamps_round_trip[of 1500000000 2000000001] by (simp add: second_def)

text \<open>
  Within one second the tables' order is wrong: the text of a whole second ends in Z right after the digits, and
  a dot sorts before Z, so every later instant of that second is stored as less than its start.
\<close>

theorem whole_second_sorts_last:
  assumes "t mod second = 0" and "t < u" and "u < t + second"
  shows "stored_less u t \<and> \<not> stored_less t u"
proof -
  have n: "0 \<le> u - t" "u - t < second" using assms by simp_all
  have "u = t + (u - t)" by simp
  then have d: "u div second = t div second" "u mod second = u - t"
    using assms(1) n by (metis add.commute div_add_self2 mod_add_left_eq add_0 mod_pos_pos_trivial
        div_plus_div_distrib_dvd_left mod_0_imp_dvd div_pos_pos_trivial add.right_neutral)+
  have "now_string t = (t div second, ''Z'')" using assms(1) by (simp add: now_string_def frac_text_def)
  moreover have "now_string u = (t div second, ''.'' @ trim_right (\<lambda>c. c = CHR ''0'') (map digit_char (digits 9 (nat (u - t)))) @ ''Z'')"
    using d assms(2) by (simp add: now_string_def frac_text_def)
  ultimately show ?thesis by (auto simp: stored_less_def less_prod_def)
qed

theorem whole_second_sorts_last_witness: "stored_less 500000000 0 \<and> \<not> stored_less 0 500000000"
  using whole_second_sorts_last[of 0 500000000] by (simp add: second_def)

end
