(* ===== verification/Go_Text.thy ===== *)
theory Go_Text
  imports Sessions
begin

text \<open>
  What the workspaces service, the git commands and the command line use of \<open>strings\<close> and \<open>strconv\<close>, on the bytes
  of a string.
\<close>

section \<open>Splitting and replacing\<close>

text \<open>\<open>strings.ReplaceAll\<close> of a non-empty text, the only use here.\<close>

function replace_all :: "string \<Rightarrow> string \<Rightarrow> string \<Rightarrow> string" where
  "replace_all old new s =
     (case s of
        [] \<Rightarrow> []
      | c # t \<Rightarrow> if old \<noteq> [] \<and> has_prefix s old then new @ replace_all old new (drop (length old) s) else c # replace_all old new t)"
  by pat_completeness auto
termination by (relation "measure (\<lambda>(old, new, s). length s)") auto

declare replace_all.simps [simp del]

fun split_char :: "char \<Rightarrow> string \<Rightarrow> string list" where
  "split_char d [] = [[]]"
| "split_char d (c # s) =
     (if c = d then [] # split_char d s
      else case split_char d s of [] \<Rightarrow> [[c]] | e # es \<Rightarrow> (c # e) # es)"

text \<open>\<open>strings.Index\<close> of a non-empty text, and \<open>strings.SplitN\<close> with a limit of two and of three parts.\<close>

fun index_of :: "string \<Rightarrow> string \<Rightarrow> nat option" where
  "index_of [] sub = (if sub = [] then Some 0 else None)"
| "index_of (c # s) sub = (if has_prefix (c # s) sub then Some 0 else map_option Suc (index_of s sub))"

definition split_two :: "string \<Rightarrow> string \<Rightarrow> string list" where
  "split_two s sep =
     (case index_of s sep of None \<Rightarrow> [s] | Some i \<Rightarrow> [take i s, drop (i + length sep) s])"

definition split_three :: "string \<Rightarrow> string \<Rightarrow> string list" where
  "split_three s sep =
     (case split_two s sep of [a, r] \<Rightarrow> a # split_two r sep | parts \<Rightarrow> parts)"

fun join_char :: "char \<Rightarrow> string list \<Rightarrow> string" where
  "join_char d [] = []"
| "join_char d [e] = e"
| "join_char d (e # f # es) = e @ d # join_char d (f # es)"

section \<open>Numbers\<close>

text \<open>\<open>strconv.Atoi\<close>: an optional sign and decimal digits, within \<open>int64\<close>.\<close>

definition decimal_digit :: "char \<Rightarrow> bool" where
  "decimal_digit c \<longleftrightarrow> (let n = of_char c :: nat in 48 \<le> n \<and> n \<le> 57)"

definition decimal_value :: "string \<Rightarrow> int" where
  "decimal_value s = foldl (\<lambda>v c. v * 10 + (of_char c - 48)) 0 s"

definition parse_int :: "string \<Rightarrow> int option" where
  "parse_int s =
     (let (neg, ds) = (case s of [] \<Rightarrow> (False, [])
            | c # r \<Rightarrow> if c = CHR ''-'' then (True, r) else if c = CHR ''+'' then (False, r) else (False, s));
          v = (if neg then - decimal_value ds else decimal_value ds)
      in if ds = [] \<or> \<not> list_all decimal_digit ds \<or> v < - (2 ^ 63) \<or> 2 ^ 63 \<le> v then None else Some v)"

section \<open>Lemmas\<close>

lemma split_char_nonempty [simp]: "split_char d s \<noteq> []"
  by (induction d s rule: split_char.induct) (auto split: list.split)

lemma split_char_plain: "d \<notin> set e \<Longrightarrow> split_char d e = [e]"
  by (induction e) auto

lemma split_char_append: "split_char d (a @ d # b) = split_char d a @ split_char d b"
proof (induction a)
  case (Cons c a)
  then show ?case by (cases "split_char d a") (auto split: list.split)
qed simp

lemma split_char_cons: "d \<notin> set e \<Longrightarrow> split_char d (e @ d # s) = e # split_char d s"
  by (simp add: split_char_append split_char_plain)

lemma split_join_char: "\<forall>e \<in> set es. d \<notin> set e \<Longrightarrow> es \<noteq> [] \<Longrightarrow> split_char d (join_char d es) = es"
  by (induction d es rule: join_char.induct) (simp_all add: split_char_plain split_char_cons)

lemma split_char_length: "length (split_char d s) = Suc (length (filter (\<lambda>c. c = d) s))"
  by (induction s) (auto split: list.split)

lemma show_nat_digits: "list_all decimal_digit (show_nat n)"
proof (induction n rule: show_nat.induct)
  case (1 n)
  have d: "decimal_digit (char_of (48 + n mod 10))" 
    by (simp add: decimal_digit_def of_char_of mod_less)
  show ?case
  proof (cases "n < 10")
    case True
    with d show ?thesis by (simp add: show_nat.simps[of n])
  next
    case False
    with d 1 show ?thesis by (simp add: show_nat.simps[of n])
  qed
qed

lemma show_nat_nonempty [simp]: "show_nat n \<noteq> []"
  by (simp add: show_nat.simps[of n])

lemma decimal_value_snoc: "decimal_value (s @ [c]) = decimal_value s * 10 + (of_char c - 48)"
  by (simp add: decimal_value_def)

lemma decimal_value_show: "decimal_value (show_nat n) = int n"
proof (induction n rule: show_nat.induct)
  case (1 n)
  have d: "(of_char (char_of (48 + n mod 10) :: char) :: int) = 48 + int (n mod 10)"
  proof -
    have "(of_char (char_of (48 + n mod 10) :: char) :: nat) = 48 + n mod 10" by (simp add: of_char_of mod_less)
    moreover have "(of_char (char_of (48 + n mod 10) :: char) :: int) = int (of_char (char_of (48 + n mod 10) :: char) :: nat)"
      by (simp only: of_nat_of_char)
    ultimately show ?thesis by (simp only: of_nat_add of_nat_numeral)
  qed
  show ?case
  proof (cases "n < 10")
    case True
    then show ?thesis using d by (simp add: show_nat.simps[of n] decimal_value_def)
  next
    case False
    have "int (n div 10) * 10 + int (n mod 10) = int n" by presburger
    with False 1 d show ?thesis by (simp add: show_nat.simps[of n] decimal_value_snoc)
  qed
qed

end
