(* ===== verification/Workspaces.thy ===== *)
theory Workspaces
  imports Go_Text
begin

text \<open>
  The workspaces service, \<open>internal/workspaces/service.go\<close>, and its repositories \<open>db/workspaces.go\<close> and
  \<open>db/workspace_access.go\<close>. The directories on disk, the clones running in the background and the service's bus
  messages are a second state, the \<open>backstage\<close>, beside the world. What git, \<open>net/url\<close> and failing disk calls answer
  is a parameter of the service record; a clone is a pending entry that any later step may finish.
\<close>

section \<open>The service and its state\<close>

record parsed_url =
  ur_host :: string
  ur_path :: string
  ur_user :: "string option"
  ur_redacted :: string

datatype workspace_message = WorkspaceStateMsg id id workspace_state string

record backstage =
  bs_disk :: "(string list \<times> bool) list"
  bs_clones :: "workspace list"
  bs_bus :: "workspace_message list"

datatype disk_op = OpStat | OpLstat | OpMkdirAll | OpRemoveAll

record workspace_service =
  wv_env :: go_env
  wv_users_dir :: string
  wv_cwd :: string
  wv_has_access :: bool
  wv_url :: "string \<Rightarrow> parsed_url option"
  wv_git :: "string \<Rightarrow> string \<Rightarrow> string list \<Rightarrow> (string list \<times> bool) list \<Rightarrow>
    (string \<times> error option) \<times> (string list \<times> bool) list"
  wv_disk_error :: "disk_op \<Rightarrow> string \<Rightarrow> backstage \<Rightarrow> error option"
  wv_is_dir :: "string \<Rightarrow> backstage \<Rightarrow> bool"

type_synonym 'a wresult = "(error + 'a) \<times> backstage \<times> world"

definition clone_error_limit :: nat where "clone_error_limit = 300"
definition default_profile_id :: id where "default_profile_id = ''interactive''"
definition workspace_slug_max :: nat where "workspace_slug_max = 40"

definition invalid_url :: error where "invalid_url = ErrInvalid ''invalid repository url''"
definition invalid_path :: error where "invalid_path = ErrInvalid ''invalid workspace path''"
definition name_taken :: error where "name_taken = ErrInvalid ''workspace name already in use''"

section \<open>The disk\<close>

definition path_elements :: "workspace_service \<Rightarrow> string \<Rightarrow> string list" where
  "path_elements wv p = clean_path True (split_path (if is_abs p then p else wv_cwd wv @ ''/'' @ p)) []"

definition on_disk :: "workspace_service \<Rightarrow> string \<Rightarrow> backstage \<Rightarrow> bool" where
  "on_disk wv p b \<longleftrightarrow> path_elements wv p \<in> fst ` set (bs_disk b)"

text \<open>\<open>os.Stat\<close> as its callers read it: it exists, it does not, or another error.\<close>

definition disk_stat :: "workspace_service \<Rightarrow> string \<Rightarrow> backstage \<Rightarrow> error + bool" where
  "disk_stat wv p b = (case wv_disk_error wv OpStat p b of Some e \<Rightarrow> Inl e | None \<Rightarrow> Inr (on_disk wv p b))"

definition mkdir_all :: "workspace_service \<Rightarrow> string \<Rightarrow> backstage \<Rightarrow> error option \<times> backstage" where
  "mkdir_all wv p b =
     (case wv_disk_error wv OpMkdirAll p b of
        Some e \<Rightarrow> (Some e, b)
      | None \<Rightarrow> (None, b\<lparr>bs_disk := bs_disk b @
          map (\<lambda>es. (es, False)) (filter (\<lambda>es. es \<notin> fst ` set (bs_disk b)) (ancestors [] (path_elements wv p)))\<rparr>))"

definition below :: "string list \<Rightarrow> string list \<Rightarrow> bool" where
  "below base es \<longleftrightarrow> take (length base) es = base"

definition remove_all :: "workspace_service \<Rightarrow> string \<Rightarrow> backstage \<Rightarrow> error option \<times> backstage" where
  "remove_all wv p b =
     (case wv_disk_error wv OpRemoveAll p b of
        Some e \<Rightarrow> (Some e, b)
      | None \<Rightarrow> (None, b\<lparr>bs_disk := filter (\<lambda>(es, _). \<not> below (path_elements wv p) es) (bs_disk b)\<rparr>))"

definition run_git ::
  "workspace_service \<Rightarrow> string \<Rightarrow> string \<Rightarrow> string list \<Rightarrow> backstage \<Rightarrow> (string \<times> error option) \<times> backstage" where
  "run_git wv dir home args b = (let (r, d) = wv_git wv dir home args (bs_disk b) in (r, b\<lparr>bs_disk := d\<rparr>))"

section \<open>Repositories\<close>

definition same_name :: "workspace \<Rightarrow> workspace \<Rightarrow> bool" where
  "same_name x y \<longleftrightarrow> (case ws_owner x of None \<Rightarrow> [] | Some o1 \<Rightarrow> o1) = (case ws_owner y of None \<Rightarrow> [] | Some o2 \<Rightarrow> o2) \<and>
     ws_name x = ws_name y"

definition workspaces_create :: "workspace \<Rightarrow> world \<Rightarrow> unit result" where
  "workspaces_create ws w =
     (if ws_id ws \<in> ws_id ` set (wd_workspaces w) \<or> list_ex (same_name ws) (wd_workspaces w)
      then (Inl (ErrConflict []), w)
      else if \<not> fk pf_id (wd_profiles w) (Some (ws_profile ws)) then (Inl ErrForeignKey, w)
      else (Inr (), w\<lparr>wd_workspaces := wd_workspaces w @ [ws]\<rparr>))"

definition workspaces_list_visible :: "id \<Rightarrow> bool \<Rightarrow> world \<Rightarrow> workspace list" where
  "workspaces_list_visible user admin w =
     sort_key ws_name (filter (\<lambda>ws. admin \<or> ws_owner ws = Some user \<or> ws_owner ws = None) (wd_workspaces w))"

definition workspaces_update :: "workspace \<Rightarrow> world \<Rightarrow> unit result" where
  "workspaces_update ws w =
     (if ws_id ws \<notin> ws_id ` set (wd_workspaces w) then (Inl ErrNotFound, w)
      else if list_ex (\<lambda>x. ws_id x \<noteq> ws_id ws \<and> same_name ws x) (wd_workspaces w) then (Inl (ErrConflict []), w)
      else if \<not> fk pf_id (wd_profiles w) (Some (ws_profile ws)) then (Inl ErrForeignKey, w)
      else (Inr (), w\<lparr>wd_workspaces :=
        tbl_update ws_id (ws_id ws) (\<lambda>r. ws\<lparr>ws_created := ws_created r\<rparr>) (wd_workspaces w)\<rparr>))"

definition workspaces_set_state :: "id \<Rightarrow> workspace_state \<Rightarrow> string \<Rightarrow> time \<Rightarrow> world \<Rightarrow> unit result" where
  "workspaces_set_state i st msg now w =
     (if i \<notin> ws_id ` set (wd_workspaces w) then (Inl ErrNotFound, w)
      else (Inr (), w\<lparr>wd_workspaces :=
        tbl_update ws_id i (\<lambda>r. r\<lparr>ws_state := st, ws_error := msg, ws_updated := now\<rparr>) (wd_workspaces w)\<rparr>))"

text \<open>Sessions, templates and pipelines reference their workspace without a cascade; its access list goes with it.\<close>

definition workspaces_delete :: "id \<Rightarrow> world \<Rightarrow> unit result" where
  "workspaces_delete i w =
     (if i \<notin> ws_id ` set (wd_workspaces w) then (Inl ErrNotFound, w)
      else if i \<in> se_workspace ` set (wd_sessions w) \<or> i \<in> tp_workspace ` set (wd_templates w) \<or>
        i \<in> pl_workspace ` set (wd_pipelines w)
      then (Inl ErrForeignKey, w)
      else (Inr (), w\<lparr>wd_workspaces := tbl_delete ws_id i (wd_workspaces w),
        wd_access := filter (\<lambda>(k, _). k \<noteq> i) (wd_access w)\<rparr>))"

text \<open>
  \<open>Set\<close> is one transaction: a repeated user fails the primary key and nothing changes. The table of users is not part
  of the world: the users named are taken to exist.
\<close>

definition access_set :: "id \<Rightarrow> id list \<Rightarrow> world \<Rightarrow> unit result" where
  "access_set i users w =
     (if \<not> distinct users then (Inl (ErrOther ''set workspace access''), w)
      else (Inr (), w\<lparr>wd_access := filter (\<lambda>(k, _). k \<noteq> i) (wd_access w) @ map (\<lambda>u. (i, u)) users\<rparr>))"

definition access_list :: "id \<Rightarrow> world \<Rightarrow> id list" where
  "access_list i w = sort (map snd (filter (\<lambda>(k, _). k = i) (wd_access w)))"

section \<open>Names, addresses and messages\<close>

text \<open>\<open>slugInvalid.ReplaceAllString(s, "-")\<close>: each run of other bytes becomes one dash.\<close>

definition slug_byte :: "char \<Rightarrow> bool" where
  "slug_byte c \<longleftrightarrow> ascii_alnum c \<or> c = CHR ''-''"

fun slug_collapse :: "string \<Rightarrow> bool \<Rightarrow> string" where
  "slug_collapse [] in_run = []"
| "slug_collapse (c # s) in_run =
     (if slug_byte c then c # slug_collapse s False
      else if in_run then slug_collapse s True
      else CHR ''-'' # slug_collapse s True)"

definition workspace_slug :: "string \<Rightarrow> string" where
  "workspace_slug name =
     (let s = trim_func (\<lambda>c. c = CHR ''-'') (slug_collapse (to_lower name) False);
          t = (if workspace_slug_max < length s then trim_right (\<lambda>c. c = CHR ''-'') (take workspace_slug_max s) else s)
      in if t = [] then ''workspace'' else t)"

definition managed_dir_path :: "workspace_service \<Rightarrow> id \<Rightarrow> string \<Rightarrow> string" where
  "managed_dir_path wv owner name = go_join [wv_users_dir wv, owner, ''workspaces'', workspace_slug name]"

definition home_dir :: "workspace_service \<Rightarrow> id \<Rightarrow> string" where
  "home_dir wv owner = go_join [wv_users_dir wv, owner]"

text \<open>\<open>scpLikeRepo\<close>: the classes before the at sign and the colon contain neither, so the first ones delimit.\<close>

definition remote_char :: "char \<Rightarrow> bool" where
  "remote_char c \<longleftrightarrow> (let n = of_char c :: nat in 97 \<le> n \<and> n \<le> 122 \<or> 65 \<le> n \<and> n \<le> 90 \<or> 48 \<le> n \<and> n \<le> 57) \<or>
     c \<in> {CHR ''_'', CHR ''.'', CHR ''-''}"

definition scp_like_repo :: "string \<Rightarrow> bool" where
  "scp_like_repo s =
     (case dropWhile remote_char s of
        [] \<Rightarrow> False
      | c # host \<Rightarrow>
          takeWhile remote_char s \<noteq> [] \<and> c = CHR ''@'' \<and> takeWhile remote_char host \<noteq> [] \<and>
          (case dropWhile remote_char host of
             [] \<Rightarrow> False
           | d # path \<Rightarrow> d = CHR '':'' \<and> path \<noteq> [] \<and> CHR 0x0A \<notin> set path))"

definition valid_repo_url :: "workspace_service \<Rightarrow> string \<Rightarrow> bool" where
  "valid_repo_url wv raw =
     (if has_prefix raw ''https://'' \<or> has_prefix raw ''ssh://''
      then (case wv_url wv raw of None \<Rightarrow> False | Some u \<Rightarrow> ur_host u \<noteq> [])
      else if has_prefix raw ''file://''
      then (case wv_url wv raw of None \<Rightarrow> False | Some u \<Rightarrow> ur_path u \<noteq> [])
      else scp_like_repo raw)"

definition valid_repo_dir :: "workspace_service \<Rightarrow> string \<Rightarrow> backstage \<Rightarrow> bool" where
  "valid_repo_dir wv path b =
     (if \<not> wv_is_dir wv path b then False else disk_stat wv (go_join [path, ''.git'']) b = Inr True)"

definition last_non_blank_line :: "string \<Rightarrow> string" where
  "last_non_blank_line s =
     (case filter (\<lambda>l. l \<noteq> []) (map trim_space (rev (split_char (CHR 0x0A) (trim_right (\<lambda>c. c = CHR 0x0A) s)))) of
        [] \<Rightarrow> [] | l # _ \<Rightarrow> l)"

definition redact_credentials :: "workspace_service \<Rightarrow> string \<Rightarrow> string \<Rightarrow> string" where
  "redact_credentials wv msg repo_url =
     (case wv_url wv repo_url of
        None \<Rightarrow> msg
      | Some u \<Rightarrow>
          (case ur_user u of
             None \<Rightarrow> msg
           | Some raw \<Rightarrow>
               (let m = replace_all repo_url (ur_redacted u) msg
                in if raw = [] then m else replace_all (raw @ ''@'') ''***:***@'' m)))"

definition clone_failure_message :: "workspace_service \<Rightarrow> string \<Rightarrow> string \<Rightarrow> string" where
  "clone_failure_message wv out repo_url =
     (let line = last_non_blank_line out;
          msg = redact_credentials wv (if line = [] then ''git clone failed'' else line) repo_url
      in if clone_error_limit < length msg then take clone_error_limit msg else msg)"

section \<open>Visibility and access lists\<close>

definition owns_or_admin :: "actor \<Rightarrow> workspace \<Rightarrow> bool" where
  "owns_or_admin a ws \<longleftrightarrow> ac_admin a \<or> (ws_owner ws \<noteq> None \<and> ws_owner ws = Some (ac_user a))"

definition access_allowed :: "workspace_service \<Rightarrow> actor \<Rightarrow> workspace \<Rightarrow> world \<Rightarrow> bool" where
  "access_allowed wv a ws w \<longleftrightarrow>
     (if ws_owner ws \<noteq> None \<or> ws_access ws \<noteq> WorkspaceAccessListed \<or> ac_admin a then True
      else if \<not> wv_has_access wv then True
      else has_access (ws_id ws) (ac_user a) w)"

definition get_workspace :: "workspace_service \<Rightarrow> actor \<Rightarrow> id \<Rightarrow> world \<Rightarrow> error + workspace" where
  "get_workspace wv a i w =
     (case workspaces_get i w of
        Inl e \<Rightarrow> Inl e
      | Inr ws \<Rightarrow>
          (if \<not> visible_owner a (ws_owner ws) then Inl ErrNotFound
           else if \<not> access_allowed wv a ws w then Inl ErrNotFound
           else Inr ws))"

definition list_workspaces :: "workspace_service \<Rightarrow> actor \<Rightarrow> world \<Rightarrow> workspace list" where
  "list_workspaces wv a w =
     (let all = workspaces_list_visible (ac_user a) (ac_admin a) w
      in if ac_admin a then all else filter (\<lambda>ws. access_allowed wv a ws w) all)"

text \<open>The access mode of a request is text; what is neither mode is refused.\<close>

definition access_mode_of :: "string \<Rightarrow> workspace_access_mode option" where
  "access_mode_of s =
     (if s = ''everyone'' then Some WorkspaceAccessEveryone
      else if s = ''listed'' then Some WorkspaceAccessListed else None)"

definition set_access :: "workspace_service \<Rightarrow> actor \<Rightarrow> id \<Rightarrow> string \<Rightarrow> id list \<Rightarrow> world \<Rightarrow> unit result" where
  "set_access wv a i mode users w =
     (if \<not> ac_admin a then (Inl ErrForbidden, w)
      else case access_mode_of mode of
        None \<Rightarrow> (Inl (ErrInvalid ''access must be one of everyone, listed''), w)
      | Some m \<Rightarrow>
          (case workspaces_get i w of
             Inl e \<Rightarrow> (Inl e, w)
           | Inr ws \<Rightarrow>
               (if ws_owner ws \<noteq> None then (Inl (ErrInvalid ''access lists only apply to shared workspaces''), w)
                else case workspaces_update (ws\<lparr>ws_access := m, ws_updated := wd_now w\<rparr>) w of
                  (Inl e, w1) \<Rightarrow> (Inl e, w1)
                | (Inr _, w1) \<Rightarrow>
                    (if \<not> wv_has_access wv then (Inr (), w1)
                     else if m = WorkspaceAccessListed then access_set i users w1
                     else access_set i [] w1))))"

definition get_access ::
  "workspace_service \<Rightarrow> actor \<Rightarrow> id \<Rightarrow> world \<Rightarrow> error + workspace_access_mode \<times> id list" where
  "get_access wv a i w =
     (if \<not> ac_admin a then Inl ErrForbidden
      else case workspaces_get i w of
        Inl e \<Rightarrow> Inl e
      | Inr ws \<Rightarrow>
          (if ws_owner ws \<noteq> None then Inl (ErrInvalid ''access lists only apply to shared workspaces'')
           else if \<not> wv_has_access wv then Inr (ws_access ws, [])
           else Inr (ws_access ws, access_list i w)))"

section \<open>Creating\<close>

record workspace_input =
  wi_name :: string
  wi_source :: string
  wi_repo_url :: string
  wi_branch :: string
  wi_path :: string
  wi_profile :: id
  wi_worktrees :: bool
  wi_base_branch :: string
  wi_auto_checkpoint :: "bool option"

definition wi_checkpoints :: "workspace_input \<Rightarrow> bool" where
  "wi_checkpoints inp = (wi_auto_checkpoint inp = None \<or> wi_auto_checkpoint inp = Some True)"

text \<open>\<open>publishState\<close>.\<close>

definition publish_workspace :: "id \<Rightarrow> id \<Rightarrow> workspace_state \<Rightarrow> string \<Rightarrow> backstage \<Rightarrow> backstage" where
  "publish_workspace i owner st msg b = b\<lparr>bs_bus := bs_bus b @ [WorkspaceStateMsg i owner st msg]\<rparr>"

text \<open>The row the three sources share; the conflict of a taken name gets its own error.\<close>

definition new_workspace ::
  "workspace_input \<Rightarrow> id \<Rightarrow> id option \<Rightarrow> string \<Rightarrow> workspace_source \<Rightarrow> workspace_state \<Rightarrow> time \<Rightarrow> workspace" where
  "new_workspace inp u owner path src st now =
     \<lparr>ws_id = u, ws_owner = owner, ws_name = wi_name inp, ws_path = path, ws_source = src,
      ws_repo_url = (if src = WorkspaceSourceGit then wi_repo_url inp else []),
      ws_branch = (if src = WorkspaceSourceGit then wi_branch inp else []),
      ws_managed = (src \<noteq> WorkspaceSourcePath), ws_state = st, ws_error = [], ws_profile = wi_profile inp,
      ws_worktrees = wi_worktrees inp, ws_base_branch = wi_base_branch inp,
      ws_auto_checkpoint = wi_checkpoints inp, ws_access = WorkspaceAccessEveryone,
      ws_created = now, ws_updated = now\<rparr>"

definition insert_workspace :: "workspace \<Rightarrow> world \<Rightarrow> unit result" where
  "insert_workspace ws w =
     (case workspaces_create ws w of
        (Inl e, w') \<Rightarrow> (Inl (case e of ErrConflict _ \<Rightarrow> name_taken | _ \<Rightarrow> e), w')
      | (Inr _, w') \<Rightarrow> (Inr (), w'))"

definition create_path_workspace :: "workspace_service \<Rightarrow> actor \<Rightarrow> workspace_input \<Rightarrow> backstage \<Rightarrow> world \<Rightarrow> workspace wresult" where
  "create_path_workspace wv a inp b w =
     (if \<not> ac_admin a then (Inl ErrForbidden, b, w)
      else if wi_path inp = [] \<or> \<not> is_abs (wi_path inp) then (Inl invalid_path, b, w)
      else if \<not> valid_repo_dir wv (wi_path inp) b then (Inl invalid_path, b, w)
      else
        (let (u, w1) = new_uuid (ge_uuid (wv_env wv)) w;
             ws = new_workspace inp u None (wi_path inp) WorkspaceSourcePath WorkspaceReady (wd_now w)
         in case insert_workspace ws w1 of
              (Inl e, w2) \<Rightarrow> (Inl e, b, w2)
            | (Inr _, w2) \<Rightarrow> (Inr ws, b, w2)))"

definition prepare_empty_dir :: "workspace_service \<Rightarrow> string \<Rightarrow> backstage \<Rightarrow> error option \<times> backstage" where
  "prepare_empty_dir wv dir b =
     (case disk_stat wv dir b of
        Inl e \<Rightarrow> (Some e, b)
      | Inr True \<Rightarrow> (Some (ErrConflict ''a workspace directory already exists''), b)
      | Inr False \<Rightarrow> mkdir_all wv dir b)"

definition create_empty_workspace :: "workspace_service \<Rightarrow> actor \<Rightarrow> workspace_input \<Rightarrow> backstage \<Rightarrow> world \<Rightarrow> workspace wresult" where
  "create_empty_workspace wv a inp b w =
     (if ac_user a = [] then (Inl (ErrInvalid ''an owner is required''), b, w)
      else
        (let dir = managed_dir_path wv (ac_user a) (wi_name inp);
             (u, w1) = new_uuid (ge_uuid (wv_env wv)) w;
             ws = new_workspace inp u (Some (ac_user a)) dir WorkspaceSourceEmpty WorkspaceReady (wd_now w)
         in case insert_workspace ws w1 of
              (Inl e, w2) \<Rightarrow> (Inl e, b, w2)
            | (Inr _, w2) \<Rightarrow>
                (case prepare_empty_dir wv dir b of
                   (Some e, b1) \<Rightarrow> (Inl e, b1, snd (workspaces_delete u w2))
                 | (None, b1) \<Rightarrow>
                     (case run_git wv dir (home_dir wv (ac_user a)) [''init'', ''-b'', ''main''] b1 of
                        ((out, Some e), b2) \<Rightarrow> (Inl e, snd (remove_all wv dir b2), snd (workspaces_delete u w2))
                      | ((out, None), b2) \<Rightarrow> (Inr ws, b2, w2)))))"

definition create_git_workspace :: "workspace_service \<Rightarrow> actor \<Rightarrow> workspace_input \<Rightarrow> backstage \<Rightarrow> world \<Rightarrow> workspace wresult" where
  "create_git_workspace wv a inp b w =
     (if ac_user a = [] then (Inl (ErrInvalid ''an owner is required''), b, w)
      else if \<not> valid_repo_url wv (wi_repo_url inp) then (Inl invalid_url, b, w)
      else
        (let dir = managed_dir_path wv (ac_user a) (wi_name inp);
             (u, w1) = new_uuid (ge_uuid (wv_env wv)) w;
             ws = new_workspace inp u (Some (ac_user a)) dir WorkspaceSourceGit WorkspaceCloning (wd_now w)
         in case insert_workspace ws w1 of
              (Inl e, w2) \<Rightarrow> (Inl e, b, w2)
            | (Inr _, w2) \<Rightarrow>
                (case disk_stat wv dir b of
                   Inl e \<Rightarrow> (Inl e, b, snd (workspaces_delete u w2))
                 | Inr True \<Rightarrow> (Inl (ErrConflict ''a workspace directory already exists''), b, snd (workspaces_delete u w2))
                 | Inr False \<Rightarrow>
                     (case mkdir_all wv (go_join [dir, ''..'']) b of
                        (Some e, b1) \<Rightarrow> (Inl e, b1, snd (workspaces_delete u w2))
                      | (None, b1) \<Rightarrow>
                          (let b2 = publish_workspace u (ac_user a) WorkspaceCloning [] b1
                           in (Inr ws, b2\<lparr>bs_clones := bs_clones b2 @ [ws]\<rparr>, w2))))))"

definition create_workspace :: "workspace_service \<Rightarrow> actor \<Rightarrow> workspace_input \<Rightarrow> backstage \<Rightarrow> world \<Rightarrow> workspace wresult" where
  "create_workspace wv a inp b w =
     (if wi_name inp = [] then (Inl (ErrInvalid ''name is required''), b, w)
      else
        (let inp' = (if wi_profile inp = [] then inp\<lparr>wi_profile := default_profile_id\<rparr> else inp)
         in if wi_source inp = ''git'' then create_git_workspace wv a inp' b w
            else if wi_source inp = ''empty'' then create_empty_workspace wv a inp' b w
            else if wi_source inp = ''path'' then create_path_workspace wv a inp' b w
            else (Inl (ErrInvalid ''source must be one of git, path, empty''), b, w)))"

section \<open>Changing, deleting, retrying\<close>

record workspace_update =
  wu_profile :: "id option"
  wu_worktrees :: "bool option"
  wu_base_branch :: "string option"
  wu_auto_checkpoint :: "bool option"

definition patched :: "'a option \<Rightarrow> 'a \<Rightarrow> 'a" where
  "patched new old = (case new of None \<Rightarrow> old | Some x \<Rightarrow> x)"

definition update_workspace :: "workspace_service \<Rightarrow> actor \<Rightarrow> id \<Rightarrow> workspace_update \<Rightarrow> world \<Rightarrow> workspace result" where
  "update_workspace wv a i inp w =
     (case get_workspace wv a i w of
        Inl e \<Rightarrow> (Inl e, w)
      | Inr ws \<Rightarrow>
          (if \<not> owns_or_admin a ws then (Inl ErrForbidden, w)
           else
             (let ws' = ws\<lparr>ws_profile := patched (wu_profile inp) (ws_profile ws),
                    ws_worktrees := patched (wu_worktrees inp) (ws_worktrees ws),
                    ws_base_branch := patched (wu_base_branch inp) (ws_base_branch ws),
                    ws_auto_checkpoint := patched (wu_auto_checkpoint inp) (ws_auto_checkpoint ws),
                    ws_updated := wd_now w\<rparr>
              in case workspaces_update ws' w of
                   (Inl e, w') \<Rightarrow> (Inl e, w')
                 | (Inr _, w') \<Rightarrow> (Inr ws', w'))))"

definition has_active_sessions :: "id \<Rightarrow> world \<Rightarrow> bool" where
  "has_active_sessions i w =
     list_ex (\<lambda>s. se_workspace s = i \<and> se_state s \<in> {SessionOpen, SessionRunning, SessionWaiting})
       (sessions_list_visible [] True w)"

text \<open>
  \<open>removeManagedDir\<close>: \<open>filepath.Rel\<close> of two cleaned absolute paths starts with a dot-dot unless the first is
  above the second.
\<close>

definition remove_managed_dir :: "workspace_service \<Rightarrow> string \<Rightarrow> backstage \<Rightarrow> error option \<times> backstage" where
  "remove_managed_dir wv path b =
     (if \<not> below (path_elements wv (wv_users_dir wv)) (path_elements wv path)
      then (Some (ErrOther ''refuse to remove workspace dir outside users dir''), b)
      else case wv_disk_error wv OpLstat path b of
        Some e \<Rightarrow> (Some e, b)
      | None \<Rightarrow>
          (case map_of (bs_disk b) (path_elements wv path) of
             None \<Rightarrow> (None, b)
           | Some symlink \<Rightarrow>
               (if symlink then (Some (ErrOther ''refuse to remove workspace dir: it is a symlink''), b)
                else remove_all wv path b)))"

definition delete_workspace :: "workspace_service \<Rightarrow> actor \<Rightarrow> id \<Rightarrow> backstage \<Rightarrow> world \<Rightarrow> unit wresult" where
  "delete_workspace wv a i b w =
     (case get_workspace wv a i w of
        Inl e \<Rightarrow> (Inl e, b, w)
      | Inr ws \<Rightarrow>
          (if \<not> owns_or_admin a ws then (Inl ErrForbidden, b, w)
           else if has_active_sessions i w then (Inl (ErrConflict ''workspace has open sessions''), b, w)
           else case (if ws_managed ws then remove_managed_dir wv (ws_path ws) b else (None, b)) of
             (Some e, b') \<Rightarrow> (Inl e, b', w)
           | (None, b') \<Rightarrow> (let (r, w') = workspaces_delete i w in (r, b', w'))))"

definition retry_workspace :: "workspace_service \<Rightarrow> actor \<Rightarrow> id \<Rightarrow> backstage \<Rightarrow> world \<Rightarrow> workspace wresult" where
  "retry_workspace wv a i b w =
     (case get_workspace wv a i w of
        Inl e \<Rightarrow> (Inl e, b, w)
      | Inr ws \<Rightarrow>
          (if \<not> owns_or_admin a ws then (Inl ErrForbidden, b, w)
           else if ws_source ws \<noteq> WorkspaceSourceGit then (Inl (ErrConflict ''only a git workspace can be retried''), b, w)
           else if ws_state ws \<noteq> WorkspaceFailed then (Inl (ErrConflict ''workspace is not in a failed state''), b, w)
           else
             (let b1 = snd (remove_all wv (ws_path ws) b);
                  ws' = ws\<lparr>ws_state := WorkspaceCloning, ws_error := [], ws_updated := wd_now w\<rparr>
              in case workspaces_update ws' w of
                   (Inl e, w1) \<Rightarrow> (Inl e, b1, w1)
                 | (Inr _, w1) \<Rightarrow>
                     (let b2 = publish_workspace i (case ws_owner ws of None \<Rightarrow> [] | Some u \<Rightarrow> u) WorkspaceCloning [] b1
                      in (Inr ws', b2\<lparr>bs_clones := bs_clones b2 @ [ws']\<rparr>, w1)))))"

section \<open>The clone in the background\<close>

definition set_workspace_state ::
  "id \<Rightarrow> id \<Rightarrow> workspace_state \<Rightarrow> string \<Rightarrow> backstage \<Rightarrow> world \<Rightarrow> backstage \<times> world" where
  "set_workspace_state i owner st msg b w =
     (case workspaces_set_state i st msg (wd_now w) w of
        (Inl e, w') \<Rightarrow> (b, w')
      | (Inr _, w') \<Rightarrow> (publish_workspace i owner st msg b, w'))"

definition clone_args :: "workspace \<Rightarrow> string list" where
  "clone_args ws =
     [''clone''] @ (if ws_branch ws = [] then [] else [''--branch'', ws_branch ws]) @
     [''--single-branch'', ''--no-tags'', ws_repo_url ws, ws_path ws]"

text \<open>\<open>runClone\<close> on the row its goroutine was started with; a git workspace always has an owner.\<close>

definition run_clone :: "workspace_service \<Rightarrow> workspace \<Rightarrow> backstage \<Rightarrow> world \<Rightarrow> backstage \<times> world" where
  "run_clone wv ws b w =
     (let owner = (case ws_owner ws of None \<Rightarrow> [] | Some u \<Rightarrow> u);
          b0 = b\<lparr>bs_clones := remove1 ws (bs_clones b)\<rparr>
      in case run_git wv [] (home_dir wv owner) (clone_args ws) b0 of
           ((out, Some e), b1) \<Rightarrow>
             set_workspace_state (ws_id ws) owner WorkspaceFailed (clone_failure_message wv out (ws_repo_url ws))
               (snd (remove_all wv (ws_path ws) b1)) w
         | ((out, None), b1) \<Rightarrow> set_workspace_state (ws_id ws) owner WorkspaceReady [] b1 w)"

end
