(* ===== verification/Workspace_Proofs.thy ===== *)
theory Workspace_Proofs
  imports Workspaces Path_Facts "HOL-Library.Multiset"
begin

text \<open>
  Where managed workspaces live, and what the operations of the workspaces service do to the disk and to the states
  of the rows.
\<close>

section \<open>Managed paths\<close>

lemma path_elements_from: "path_elements wv p = elements_from (wv_cwd wv) p"
  by (simp add: path_elements_def elements_from_def)

lemma path_elements_clean: "path_elements wv (go_clean p) = path_elements wv p"
  by (simp only: path_elements_from elements_from_clean)

lemma path_elements_join:
  assumes "is_abs u" and es: "\<forall>e \<in> set es. path_element e"
  shows "path_elements wv (go_join (u # es)) = path_elements wv u @ es"
proof -
  have u: "u \<noteq> []" using assms(1) by (auto simp: is_abs_def)
  have fs: "filter (\<lambda>e. e \<noteq> []) (u # es) = u # es"
    using es u by (auto simp: path_element_def filter_id_conv)
  have j: "slash_join (u # es) = (if es = [] then u else u @ ''/'' @ slash_join es)" by (cases es) auto
  have a: "is_abs (slash_join (u # es))" using assms(1) by (auto simp: j is_abs_def has_prefix_iff)
  have "split_path (slash_join (u # es)) = split_path u @ es"
    using split_slash_join[of es] es split_path_append[of u "slash_join es"] by (auto simp: j path_element_def)
  then have "path_elements wv (slash_join (u # es)) = path_elements wv u @ es"
    using a assms(1) clean_path_plain[OF es] by (simp add: path_elements_def clean_path_append)
  then show ?thesis
    using path_elements_clean[of wv] by (simp only: go_join_def fs list.case)
qed

lemma go_join_nonempty: "is_abs u \<Longrightarrow> go_join (u # es) \<noteq> []"
proof -
  assume u: "is_abs u"
  then have "u \<noteq> []" by (auto simp: is_abs_def)
  moreover have "has_prefix (slash_join (u # fs)) ''/''" for fs
    using u by (cases fs) (auto simp: is_abs_def has_prefix_iff)
  ultimately show ?thesis by (simp add: go_join_def go_clean_def)
qed

lemma slug_collapse_bytes: "set (slug_collapse s r) \<subseteq> {c. slug_byte c}"
  by (induction s r rule: slug_collapse.induct) (auto simp: slug_byte_def)

lemma workspace_slug_element: "path_element (workspace_slug name)"
proof -
  let ?dash = "\<lambda>c. c = CHR ''-''"
  define s where "s = trim_func ?dash (slug_collapse (to_lower name) False)"
  define t where "t = (if workspace_slug_max < length s then trim_right ?dash (take workspace_slug_max s) else s)"
  have slug: "workspace_slug name = (if t = [] then ''workspace'' else t)"
    by (simp only: workspace_slug_def Let_def s_def t_def)
  have "set s \<subseteq> {c. slug_byte c}"
    using set_trim_func[of ?dash] slug_collapse_bytes[of "to_lower name" False] unfolding s_def by force
  then have "set t \<subseteq> {c. slug_byte c}"
    by (auto simp: t_def trim_right_def dest!: set_dropWhileD in_set_takeD)
  moreover have "\<not> slug_byte (CHR ''.'')" "\<not> slug_byte (CHR ''/'')" by code_simp+
  moreover have "path_element ''workspace''" by code_simp
  ultimately show ?thesis by (auto simp: slug path_element_def)
qed

lemma managed_path_elements:
  assumes "is_abs (wv_users_dir wv)" and "path_element owner"
  shows "path_elements wv (managed_dir_path wv owner name) =
    path_elements wv (wv_users_dir wv) @ [owner, ''workspaces'', workspace_slug name]"
proof -
  have "path_element ''workspaces''" by code_simp
  then show ?thesis
    using path_elements_join[OF assms(1), of "[owner, ''workspaces'', workspace_slug name]"] assms(2) workspace_slug_element
    by (simp add: managed_dir_path_def)
qed

section \<open>What stays on the disk\<close>

definition users_root :: "workspace_service \<Rightarrow> string list" where
  "users_root wv = path_elements wv (wv_users_dir wv)"

definition keeps_outside :: "workspace_service \<Rightarrow> backstage \<Rightarrow> backstage \<Rightarrow> bool" where
  "keeps_outside wv b b' \<longleftrightarrow> (\<forall>e \<in> set (bs_disk b). below (users_root wv) (fst e) \<or> e \<in> set (bs_disk b'))"

text \<open>What the code relies on: \<open>git init\<close> and \<open>git clone\<close> leave alone what is not below their directory.\<close>

definition git_stays_in_target :: "workspace_service \<Rightarrow> bool" where
  "git_stays_in_target wv \<longleftrightarrow>
     (\<forall>dir home args d e. e \<in> set d \<longrightarrow> below (path_elements wv (if dir = [] then last args else dir)) (fst e) \<or>
        e \<in> set (snd (wv_git wv dir home args d)))"

lemma outside_refl [simp]: "keeps_outside wv b b"
  by (simp add: keeps_outside_def)

lemma outside_disk [simp]: "bs_disk b' = bs_disk b \<Longrightarrow> keeps_outside wv b b'"
  by (simp add: keeps_outside_def)

lemma keeps_outside_trans: "keeps_outside wv a b \<Longrightarrow> keeps_outside wv b c \<Longrightarrow> keeps_outside wv a c"
  by (auto simp: keeps_outside_def)

lemma below_trans: "below U P \<Longrightarrow> below P es \<Longrightarrow> below U es"
  by (metis below_def min.absorb1 nle_le take_all take_take)

lemma keeps_mkdir: "keeps_outside wv b (snd (mkdir_all wv p b))"
  by (auto simp: mkdir_all_def keeps_outside_def split: option.split)

lemma keeps_remove: "below (users_root wv) (path_elements wv p) \<Longrightarrow> keeps_outside wv b (snd (remove_all wv p b))"
  using below_trans by (fastforce simp: remove_all_def keeps_outside_def split: option.split)

lemma keeps_git:
  assumes "git_stays_in_target wv" and "below (users_root wv) (path_elements wv (if dir = [] then last args else dir))"
  shows "keeps_outside wv b (snd (run_git wv dir home args b))"
proof -
  have "below (users_root wv) (fst e) \<or> e \<in> set (snd (wv_git wv dir home args (bs_disk b)))" if "e \<in> set (bs_disk b)" for e
    using assms that below_trans unfolding git_stays_in_target_def by blast
  then show ?thesis
    by (cases "wv_git wv dir home args (bs_disk b)") (simp add: run_git_def keeps_outside_def)
qed

lemma git_other [simp]: "bs_clones (snd (run_git wv dir home args b)) = bs_clones b"
  by (simp add: run_git_def Let_def split: prod.split)

lemma remove_other [simp]: "bs_clones (snd (remove_all wv p b)) = bs_clones b"
  by (simp add: remove_all_def split: option.split)

lemma mkdir_other [simp]: "bs_clones (snd (mkdir_all wv p b)) = bs_clones b"
  by (simp add: mkdir_all_def split: option.split)

section \<open>The life of the service\<close>

inductive workspace_op :: "workspace_service \<Rightarrow> backstage \<times> world \<Rightarrow> backstage \<times> world \<Rightarrow> bool" for wv where
  created: "ac_user a = [] \<or> path_element (ac_user a) \<Longrightarrow> workspace_op wv (b, w) (snd (create_workspace wv a inp b w))"
| updated: "workspace_op wv (b, w) (b, snd (update_workspace wv a i upd w))"
| listed: "workspace_op wv (b, w) (b, snd (set_access wv a i mode users w))"
| deleted: "workspace_op wv (b, w) (snd (delete_workspace wv a i b w))"
| retried: "workspace_op wv (b, w) (snd (retry_workspace wv a i b w))"
| cloned: "ws \<in> set (bs_clones b) \<Longrightarrow> workspace_op wv (b, w) (run_clone wv ws b w)"
| elsewhere: "wd_workspaces w' = wd_workspaces w \<Longrightarrow> workspace_op wv (b, w) (b, w')"

text \<open>A managed workspace lives at the path its owner and its name gave it; only such are cloned.\<close>

definition managed_at :: "workspace_service \<Rightarrow> workspace \<Rightarrow> bool" where
  "managed_at wv ws \<longleftrightarrow> (\<exists>owner name. path_element owner \<and> ws_path ws = managed_dir_path wv owner name)"

definition home_ok :: "workspace_service \<Rightarrow> workspace \<Rightarrow> bool" where
  "home_ok wv ws \<longleftrightarrow> (ws_managed ws \<longrightarrow> managed_at wv ws) \<and> (ws_source ws = WorkspaceSourceGit \<longrightarrow> ws_managed ws)"

definition homes_ok :: "workspace_service \<Rightarrow> backstage \<Rightarrow> world \<Rightarrow> bool" where
  "homes_ok wv b w \<longleftrightarrow> (\<forall>ws \<in> set (wd_workspaces w). home_ok wv ws) \<and> (\<forall>ws \<in> set (bs_clones b). managed_at wv ws)"

lemma managed_below:
  assumes "is_abs (wv_users_dir wv)" and "managed_at wv ws"
  shows "below (users_root wv) (path_elements wv (ws_path ws))"
  using assms managed_path_elements[OF assms(1)] by (auto simp: managed_at_def users_root_def below_def)

text \<open>A step that keeps the disk outside the users directory and the homes of the workspaces.\<close>

definition tidy :: "workspace_service \<Rightarrow> backstage \<Rightarrow> world \<Rightarrow> backstage \<times> world \<Rightarrow> bool" where
  "tidy wv b w s \<longleftrightarrow> keeps_outside wv b (fst s) \<and> homes_ok wv (fst s) (snd s)"

lemma home_same: "ws_managed x = ws_managed y \<Longrightarrow> ws_source x = ws_source y \<Longrightarrow> ws_path x = ws_path y \<Longrightarrow> home_ok wv x = home_ok wv y"
  by (simp add: home_ok_def managed_at_def)

lemma insert_workspace_rows:
  "insert_workspace ws w = (r, w') \<Longrightarrow> set (wd_workspaces w') \<subseteq> insert ws (set (wd_workspaces w))"
  by (auto simp: insert_workspace_def workspaces_create_def split: if_splits)

lemma workspaces_delete_rows: "set (wd_workspaces (snd (workspaces_delete i w))) \<subseteq> set (wd_workspaces w)"
  by (auto simp: workspaces_delete_def tbl_delete_def)

lemma workspaces_update_home:
  assumes "workspaces_update ws w = (r, w')" and "\<forall>x \<in> set (wd_workspaces w). home_ok wv x" and "home_ok wv ws"
  shows "\<forall>x \<in> set (wd_workspaces w'). home_ok wv x"
proof -
  have "home_ok wv (ws\<lparr>ws_created := t\<rparr>)" for t using assms(3) home_same[of "ws\<lparr>ws_created := t\<rparr>" ws] by simp
  with assms(1,2) show ?thesis by (auto simp: workspaces_update_def set_tbl_update split: if_splits)
qed

lemma set_state_home:
  assumes "\<forall>x \<in> set (wd_workspaces w). home_ok wv x"
  shows "\<forall>x \<in> set (wd_workspaces (snd (workspaces_set_state i st m t w))). home_ok wv x"
proof -
  have "home_ok wv (x\<lparr>ws_state := st, ws_error := m, ws_updated := t\<rparr>) = home_ok wv x" for x
    by (rule home_same) simp_all
  with assms show ?thesis by (auto simp: workspaces_set_state_def set_tbl_update)
qed

lemma uuid_workspaces [simp]: "new_uuid f w = (u, w') \<Longrightarrow> wd_workspaces w' = wd_workspaces w"
  by (auto simp: new_uuid_def)

lemma get_workspace_row: "get_workspace wv a i w = Inr ws \<Longrightarrow> ws \<in> set (wd_workspaces w) \<and> ws_id ws = i"
  by (auto simp: get_workspace_def workspaces_get_def found_Inr split: sum.splits if_splits dest: tbl_get_Some)

text \<open>The rows after a creation: the ones before and possibly the new one.\<close>

lemma homes_after_insert:
  assumes "homes_ok wv b w" and "set (wd_workspaces w') \<subseteq> insert ws (set (wd_workspaces w))" and "home_ok wv ws"
    and "set (bs_clones b') \<subseteq> insert ws (set (bs_clones b))" and "ws \<in> set (bs_clones b') \<Longrightarrow> managed_at wv ws"
  shows "homes_ok wv b' w'"
  using assms by (auto simp: homes_ok_def)

lemma tidy_insert:
  assumes "homes_ok wv b w" and "home_ok wv ws" and "keeps_outside wv b b'" and "bs_clones b' = bs_clones b"
    and "set (wd_workspaces w') \<subseteq> insert ws (set (wd_workspaces w))" and "ws \<in> set (bs_clones b) \<Longrightarrow> managed_at wv ws"
  shows "tidy wv b w (b', w')"
  using assms homes_after_insert[of wv b w w' ws b'] by (auto simp: tidy_def)

lemma new_workspace_home:
  "src = WorkspaceSourcePath \<Longrightarrow> home_ok wv (new_workspace inp u ow p src st t)"
  "src \<noteq> WorkspaceSourcePath \<Longrightarrow> path_element owner \<Longrightarrow>
     home_ok wv (new_workspace inp u (Some owner) (managed_dir_path wv owner name) src st t) \<and>
     managed_at wv (new_workspace inp u (Some owner) (managed_dir_path wv owner name) src st t)"
  by (auto simp: home_ok_def managed_at_def new_workspace_def)

lemma create_path_tidy:
  assumes "homes_ok wv b w"
  shows "tidy wv b w (snd (create_path_workspace wv a inp b w))"
proof (cases "ac_admin a \<and> wi_path inp \<noteq> [] \<and> is_abs (wi_path inp) \<and> valid_repo_dir wv (wi_path inp) b")
  case False
  with assms show ?thesis by (auto simp: create_path_workspace_def tidy_def)
next
  case True
  obtain u w1 where w1: "new_uuid (ge_uuid (wv_env wv)) w = (u, w1)" by fastforce
  define ws where "ws = new_workspace inp u None (wi_path inp) WorkspaceSourcePath WorkspaceReady (wd_now w)"
  obtain r w2 where w2: "insert_workspace ws w1 = (r, w2)" by fastforce
  have "snd (create_path_workspace wv a inp b w) = (b, w2)"
    using True by (simp add: create_path_workspace_def w1 ws_def[symmetric] w2 split: sum.split)
  then show ?thesis
    using tidy_insert[OF assms, of ws b w2] insert_workspace_rows[OF w2] uuid_workspaces[OF w1] assms
    by (auto simp: homes_ok_def ws_def new_workspace_home)
qed

lemma keeps_prepare:
  "keeps_outside wv b (snd (prepare_empty_dir wv dir b)) \<and> bs_clones (snd (prepare_empty_dir wv dir b)) = bs_clones b"
  by (simp add: prepare_empty_dir_def keeps_mkdir split: sum.split bool.split)

lemma create_empty_tidy:
  assumes ok: "homes_ok wv b w" and git: "git_stays_in_target wv" and abs: "is_abs (wv_users_dir wv)"
    and actor: "ac_user a = [] \<or> path_element (ac_user a)"
  shows "tidy wv b w (snd (create_empty_workspace wv a inp b w))"
proof (cases "ac_user a = []")
  case True
  with ok show ?thesis by (simp add: create_empty_workspace_def tidy_def)
next
  case False
  define dir where "dir = managed_dir_path wv (ac_user a) (wi_name inp)"
  obtain u w1 where w1: "new_uuid (ge_uuid (wv_env wv)) w = (u, w1)" by fastforce
  define ws where "ws = new_workspace inp u (Some (ac_user a)) dir WorkspaceSourceEmpty WorkspaceReady (wd_now w)"
  obtain r w2 where w2: "insert_workspace ws w1 = (r, w2)" by fastforce
  have home: "home_ok wv ws" "managed_at wv ws"
    using actor False new_workspace_home(2)[of WorkspaceSourceEmpty "ac_user a"] by (auto simp: ws_def dir_def)
  have under: "below (users_root wv) (path_elements wv dir)"
    using managed_below[OF abs home(2)] by (simp add: ws_def new_workspace_def)
  then have "dir \<noteq> [] \<Longrightarrow> below (users_root wv) (path_elements wv (if dir = [] then last args else dir))" for args by simp
  have rows: "set (wd_workspaces w2) \<subseteq> insert ws (set (wd_workspaces w))"
    using insert_workspace_rows[OF w2] uuid_workspaces[OF w1] by simp
  then have rows': "set (wd_workspaces (snd (workspaces_delete u w2))) \<subseteq> insert ws (set (wd_workspaces w))"
    using workspaces_delete_rows by blast
  obtain e1 b1 where b1: "prepare_empty_dir wv dir b = (e1, b1)" by fastforce
  have k1: "keeps_outside wv b b1" "bs_clones b1 = bs_clones b"
    using keeps_prepare[of wv b dir] by (simp_all add: b1)
  obtain out e2 b2 where b2: "run_git wv dir (home_dir wv (ac_user a)) [''init'', ''-b'', ''main''] b1 = ((out, e2), b2)"
    by (metis surj_pair)
  have dir: "dir \<noteq> []"
    using go_join_nonempty[OF abs] by (simp add: dir_def managed_dir_path_def)
  have "keeps_outside wv b1 b2"
    using keeps_git[OF git, of dir "[''init'', ''-b'', ''main'']" b1 "home_dir wv (ac_user a)"] under dir by (simp add: b2)
  then have k2: "keeps_outside wv b b2" "bs_clones b2 = bs_clones b"
    using keeps_outside_trans k1 b2 git_other[of wv dir "home_dir wv (ac_user a)" "[''init'', ''-b'', ''main'']" b1] by auto
  have k3: "keeps_outside wv b (snd (remove_all wv dir b2))"
    using keeps_outside_trans[OF k2(1) keeps_remove[OF under]] .
  have clone: "ws \<in> set (bs_clones b) \<Longrightarrow> managed_at wv ws" using home(2) by simp
  have "snd (create_empty_workspace wv a inp b w) \<in> {(b, w2), (b1, snd (workspaces_delete u w2)),
      (snd (remove_all wv dir b2), snd (workspaces_delete u w2)), (b2, w2)}"
    using False by (auto simp: create_empty_workspace_def dir_def[symmetric] w1 ws_def[symmetric] w2 b1 b2 split: sum.split option.split)
  then show ?thesis
    using tidy_insert[OF ok home(1) _ _ rows clone] tidy_insert[OF ok home(1) _ _ rows' clone] k1 k2 k3 by auto
qed

lemma create_git_tidy:
  assumes ok: "homes_ok wv b w" and actor: "ac_user a = [] \<or> path_element (ac_user a)"
  shows "tidy wv b w (snd (create_git_workspace wv a inp b w))"
proof (cases "ac_user a = [] \<or> \<not> valid_repo_url wv (wi_repo_url inp)")
  case True
  with ok show ?thesis by (auto simp: create_git_workspace_def tidy_def)
next
  case False
  define dir where "dir = managed_dir_path wv (ac_user a) (wi_name inp)"
  obtain u w1 where w1: "new_uuid (ge_uuid (wv_env wv)) w = (u, w1)" by fastforce
  define ws where "ws = new_workspace inp u (Some (ac_user a)) dir WorkspaceSourceGit WorkspaceCloning (wd_now w)"
  obtain r w2 where w2: "insert_workspace ws w1 = (r, w2)" by fastforce
  have home: "home_ok wv ws" "managed_at wv ws"
    using actor False new_workspace_home(2)[of WorkspaceSourceGit "ac_user a"] by (auto simp: ws_def dir_def)
  have rows: "set (wd_workspaces w2) \<subseteq> insert ws (set (wd_workspaces w))"
    using insert_workspace_rows[OF w2] uuid_workspaces[OF w1] by simp
  then have rows': "set (wd_workspaces (snd (workspaces_delete u w2))) \<subseteq> insert ws (set (wd_workspaces w))"
    using workspaces_delete_rows by blast
  obtain e1 b1 where b1: "mkdir_all wv (go_join [dir, ''..'']) b = (e1, b1)" by fastforce
  have k1: "keeps_outside wv b b1" "bs_clones b1 = bs_clones b"
    using keeps_mkdir[of wv b "go_join [dir, ''..'']"] mkdir_other[of wv "go_join [dir, ''..'']" b] by (simp_all add: b1)
  define b2 where "b2 = publish_workspace u (ac_user a) WorkspaceCloning [] b1"
  define b3 where "b3 = b2\<lparr>bs_clones := bs_clones b2 @ [ws]\<rparr>"
  have k3: "keeps_outside wv b b3" "set (bs_clones b3) \<subseteq> insert ws (set (bs_clones b))"
    using k1 by (auto simp: b3_def b2_def publish_workspace_def keeps_outside_def)
  have clone: "ws \<in> set (bs_clones x) \<Longrightarrow> managed_at wv ws" for x using home(2) by simp
  have "snd (create_git_workspace wv a inp b w) \<in>
      {(b, w2), (b, snd (workspaces_delete u w2)), (b1, snd (workspaces_delete u w2)), (b3, w2)}"
    using False by (auto simp: create_git_workspace_def dir_def[symmetric] w1 ws_def[symmetric] w2 b1
        b2_def[symmetric] b3_def[symmetric] Let_def split: sum.split option.split bool.split)
  moreover have "tidy wv b w (b3, w2)"
    using homes_after_insert[OF ok rows home(1) k3(2) clone] k3(1) by (simp add: tidy_def)
  ultimately show ?thesis
    using tidy_insert[OF ok home(1) _ _ rows clone[of b]] tidy_insert[OF ok home(1) _ _ rows' clone[of b]] k1 by auto
qed

lemma create_tidy:
  assumes "homes_ok wv b w" and "git_stays_in_target wv" and "is_abs (wv_users_dir wv)"
    and "ac_user a = [] \<or> path_element (ac_user a)"
  shows "tidy wv b w (snd (create_workspace wv a inp b w))"
  using assms create_path_tidy create_empty_tidy create_git_tidy
  by (simp add: create_workspace_def Let_def) (simp add: tidy_def)

lemma update_tidy:
  assumes ok: "homes_ok wv b w"
  shows "tidy wv b w (b, snd (update_workspace wv a i upd w))"
proof (cases "get_workspace wv a i w")
  case (Inl e)
  with ok show ?thesis by (simp add: update_workspace_def tidy_def)
next
  case (Inr ws)
  define ws' where "ws' = ws\<lparr>ws_profile := patched (wu_profile upd) (ws_profile ws),
      ws_worktrees := patched (wu_worktrees upd) (ws_worktrees ws),
      ws_base_branch := patched (wu_base_branch upd) (ws_base_branch ws),
      ws_auto_checkpoint := patched (wu_auto_checkpoint upd) (ws_auto_checkpoint ws),
      ws_updated := wd_now w\<rparr>"
  obtain r w' where w': "workspaces_update ws' w = (r, w')" by fastforce
  have rows: "\<forall>x \<in> set (wd_workspaces w). home_ok wv x" using ok by (simp add: homes_ok_def)
  then have "home_ok wv ws'"
    using get_workspace_row[OF Inr] home_same[of ws' ws wv] by (simp add: ws'_def)
  then have "\<forall>x \<in> set (wd_workspaces w'). home_ok wv x" using workspaces_update_home[OF w' rows] by simp
  then have "homes_ok wv b w'" using ok by (simp add: homes_ok_def)
  moreover have "snd (update_workspace wv a i upd w) \<in> {w, w'}"
    by (simp add: update_workspace_def Inr ws'_def[symmetric] w' Let_def split: sum.split)
  ultimately show ?thesis using ok by (auto simp: tidy_def)
qed

lemma access_set_rows [simp]: "wd_workspaces (snd (access_set i us w)) = wd_workspaces w"
  by (simp add: access_set_def)

lemma set_access_tidy:
  assumes ok: "homes_ok wv b w"
  shows "tidy wv b w (b, snd (set_access wv a i mode users w))"
proof (cases "ac_admin a \<and> access_mode_of mode \<noteq> None \<and> (\<exists>ws. workspaces_get i w = Inr ws \<and> ws_owner ws = None)")
  case False
  then have "snd (set_access wv a i mode users w) = w"
    by (auto simp: set_access_def split: option.split sum.split)
  with ok show ?thesis by (simp add: tidy_def)
next
  case True
  then obtain m ws where m: "access_mode_of mode = Some m" and ws: "workspaces_get i w = Inr ws" "ws_owner ws = None" by auto
  define ws' where "ws' = ws\<lparr>ws_access := m, ws_updated := wd_now w\<rparr>"
  obtain r w' where w': "workspaces_update ws' w = (r, w')" by fastforce
  have rows: "\<forall>x \<in> set (wd_workspaces w). home_ok wv x" using ok by (simp add: homes_ok_def)
  have "ws \<in> set (wd_workspaces w)"
    using ws(1) by (auto simp: workspaces_get_def found_Inr dest: tbl_get_Some)
  with rows have "home_ok wv ws'" using home_same[of ws' ws wv] by (simp add: ws'_def)
  then have "\<forall>x \<in> set (wd_workspaces w'). home_ok wv x" using workspaces_update_home[OF w' rows] by simp
  moreover have "wd_workspaces (snd (set_access wv a i mode users w)) = wd_workspaces w'"
    using True by (simp add: set_access_def m ws ws'_def[symmetric] w' split: sum.split)
  ultimately have "homes_ok wv b (snd (set_access wv a i mode users w))"
    using ok by (simp add: homes_ok_def)
  then show ?thesis by (simp add: tidy_def)
qed

lemma remove_managed_keeps:
  "keeps_outside wv b (snd (remove_managed_dir wv p b)) \<and> bs_clones (snd (remove_managed_dir wv p b)) = bs_clones b"
  using keeps_remove[of wv p b]
  by (auto simp: remove_managed_dir_def users_root_def split: option.splits)

lemma delete_tidy:
  assumes ok: "homes_ok wv b w"
  shows "tidy wv b w (snd (delete_workspace wv a i b w))"
proof -
  have fewer: "homes_ok wv b' w'"
    if "set (wd_workspaces w') \<subseteq> set (wd_workspaces w)" "bs_clones b' = bs_clones b" for b' w'
    using ok that by (auto simp: homes_ok_def)
  have "keeps_outside wv b (fst s) \<and> bs_clones (fst s) = bs_clones b \<and> set (wd_workspaces (snd s)) \<subseteq> set (wd_workspaces w)"
    if s: "s = snd (delete_workspace wv a i b w)" for s
    using remove_managed_keeps[of wv b] workspaces_delete_rows[of i w] unfolding s
    by (auto simp: delete_workspace_def Let_def split: sum.split prod.split option.split)
      (metis snd_conv)+
  then show ?thesis using fewer by (simp add: tidy_def)
qed

lemma retry_tidy:
  assumes ok: "homes_ok wv b w" and abs: "is_abs (wv_users_dir wv)"
  shows "tidy wv b w (snd (retry_workspace wv a i b w))"
proof (cases "\<exists>ws. get_workspace wv a i w = Inr ws \<and> owns_or_admin a ws \<and> ws_source ws = WorkspaceSourceGit \<and>
    ws_state ws = WorkspaceFailed")
  case False
  then have "snd (retry_workspace wv a i b w) = (b, w)"
    by (auto simp: retry_workspace_def split: sum.split)
  with ok show ?thesis by (simp add: tidy_def)
next
  case True
  then obtain ws where ws: "get_workspace wv a i w = Inr ws" "owns_or_admin a ws" "ws_source ws = WorkspaceSourceGit"
      "ws_state ws = WorkspaceFailed" by auto
  have home: "home_ok wv ws" "managed_at wv ws"
    using ok get_workspace_row[OF ws(1)] ws(3) by (auto simp: homes_ok_def home_ok_def)
  define b1 where "b1 = snd (remove_all wv (ws_path ws) b)"
  have k1: "keeps_outside wv b b1" "bs_clones b1 = bs_clones b"
    using keeps_remove[OF managed_below[OF abs home(2)]] by (simp_all add: b1_def)
  define ws' where "ws' = ws\<lparr>ws_state := WorkspaceCloning, ws_error := [], ws_updated := wd_now w\<rparr>"
  have home': "home_ok wv ws'" "managed_at wv ws'"
    using home home_same[of ws' ws wv] by (simp_all add: ws'_def managed_at_def)
  obtain r w1 where w1: "workspaces_update ws' w = (r, w1)" by fastforce
  define b2 where "b2 = publish_workspace i (case ws_owner ws of None \<Rightarrow> [] | Some u \<Rightarrow> u) WorkspaceCloning [] b1"
  define b3 where "b3 = b2\<lparr>bs_clones := bs_clones b2 @ [ws']\<rparr>"
  have k3: "keeps_outside wv b b3" "bs_clones b3 = bs_clones b @ [ws']"
    using k1 by (auto simp: b3_def b2_def publish_workspace_def keeps_outside_def)
  have "\<forall>x \<in> set (wd_workspaces w1). home_ok wv x"
    using workspaces_update_home[OF w1 _ home'(1)] ok by (simp add: homes_ok_def)
  then have "homes_ok wv b1 w1" "homes_ok wv b3 w1"
    using ok k1 k3 home'(2) by (auto simp: homes_ok_def)
  moreover have "snd (retry_workspace wv a i b w) \<in> {(b1, w1), (b3, w1)}"
    using ws by (simp add: retry_workspace_def b1_def[symmetric] ws'_def[symmetric] w1 b2_def[symmetric] b3_def[symmetric]
        Let_def split: sum.split)
  ultimately show ?thesis using k1 k3 by (auto simp: tidy_def)
qed

lemma set_workspace_state_parts:
  "bs_disk (fst (set_workspace_state i ow st m b w)) = bs_disk b"
  "bs_clones (fst (set_workspace_state i ow st m b w)) = bs_clones b"
  "snd (set_workspace_state i ow st m b w) = snd (workspaces_set_state i st m (wd_now w) w)"
  by (auto simp: set_workspace_state_def publish_workspace_def split: prod.split sum.split)

lemma clone_tidy:
  assumes ok: "homes_ok wv b w" and git: "git_stays_in_target wv" and abs: "is_abs (wv_users_dir wv)"
    and ws: "ws \<in> set (bs_clones b)"
  shows "tidy wv b w (run_clone wv ws b w)"
proof -
  have under: "below (users_root wv) (path_elements wv (ws_path ws))"
    using ok ws managed_below[OF abs] by (auto simp: homes_ok_def)
  define ow where "ow = (case ws_owner ws of None \<Rightarrow> [] | Some u \<Rightarrow> u)"
  define b0 where "b0 = b\<lparr>bs_clones := remove1 ws (bs_clones b)\<rparr>"
  obtain out e b1 where b1: "run_git wv [] (home_dir wv ow) (clone_args ws) b0 = ((out, e), b1)"
    by (metis surj_pair)
  have l: "last (clone_args ws) = ws_path ws" by (simp add: clone_args_def)
  have k0: "keeps_outside wv b b0" by (simp add: b0_def)
  have c1: "bs_clones b1 = remove1 ws (bs_clones b)"
    using git_other[of wv "[]" "home_dir wv ow" "clone_args ws" b0] unfolding b1 by (simp add: b0_def)
  have "keeps_outside wv b0 b1"
    using keeps_git[OF git, of "[]" "clone_args ws" b0 "home_dir wv ow"] under l by (simp add: b1)
  then have k1: "keeps_outside wv b b1" using k0 keeps_outside_trans by blast
  have k2: "keeps_outside wv b (snd (remove_all wv (ws_path ws) b1))"
    using keeps_outside_trans[OF k1 keeps_remove[OF under]] .
  have rows: "homes_ok wv b' (snd (workspaces_set_state i st m t w))"
    if "set (bs_clones b') \<subseteq> set (bs_clones b)" for b' i st m t
    using ok that set_state_home[of w wv] by (auto simp: homes_ok_def)
  have sub: "set (remove1 ws (bs_clones b)) \<subseteq> set (bs_clones b)" by (rule set_remove1_subset)
  have step: "tidy wv b w (set_workspace_state i o1 st m b' w)"
    if "keeps_outside wv b b'" "bs_clones b' = remove1 ws (bs_clones b)" for i o1 st m b'
    using that rows[of "fst (set_workspace_state i o1 st m b' w)"] sub
    by (simp add: tidy_def set_workspace_state_parts keeps_outside_def)
  have "run_clone wv ws b w = (case e of
      Some x \<Rightarrow> set_workspace_state (ws_id ws) ow WorkspaceFailed (clone_failure_message wv out (ws_repo_url ws))
        (snd (remove_all wv (ws_path ws) b1)) w
    | None \<Rightarrow> set_workspace_state (ws_id ws) ow WorkspaceReady [] b1 w)"
    by (simp add: run_clone_def ow_def[symmetric] b0_def[symmetric] b1 Let_def split: option.split)
  then show ?thesis using step k1 k2 c1 by (simp split: option.split)
qed

text \<open>Every operation is tidy, so the whole life of the service is.\<close>

lemma workspace_op_tidy:
  assumes "workspace_op wv (b, w) s" and "homes_ok wv b w" and "git_stays_in_target wv" and "is_abs (wv_users_dir wv)"
  shows "tidy wv b w s"
  using assms
proof cases
  case (elsewhere w')
  with assms(2) show ?thesis by (simp add: tidy_def homes_ok_def)
qed (simp_all add: create_tidy update_tidy set_access_tidy delete_tidy retry_tidy clone_tidy)

lemma workspace_life_tidy:
  assumes "(workspace_op wv)\<^sup>*\<^sup>* s s'" and "homes_ok wv (fst s) (snd s)" and "git_stays_in_target wv"
    and "is_abs (wv_users_dir wv)"
  shows "tidy wv (fst s) (snd s) s'"
  using assms(1)
proof (induction rule: rtranclp_induct)
  case base
  with assms show ?case by (simp add: tidy_def)
next
  case (step y z)
  have "tidy wv (fst y) (snd y) z"
    by (rule workspace_op_tidy) (use step assms in \<open>simp_all add: tidy_def\<close>)
  with step.IH show ?case using keeps_outside_trans by (auto simp: tidy_def)
qed

section \<open>The life of a workspace\<close>

text \<open>
  The contract of the service: an abstract machine on the states of the rows and the clones under way. Only a new
  or a failed workspace begins a clone, only a clone ends the cloning state, and it ends it ready or failed.
\<close>

type_synonym lifecycle = "(id \<rightharpoonup> workspace_state) \<times> id multiset"

inductive life_move :: "lifecycle \<Rightarrow> lifecycle \<Rightarrow> bool" where
  stay: "life_move s s"
| appear: "m i = None \<Longrightarrow> life_move (m, c) (m(i \<mapsto> WorkspaceReady), c)"
| start: "m i = None \<or> m i = Some WorkspaceFailed \<Longrightarrow> life_move (m, c) (m(i \<mapsto> WorkspaceCloning), add_mset i c)"
| finish: "i \<in># c \<Longrightarrow> st \<in> {WorkspaceReady, WorkspaceFailed} \<Longrightarrow>
    life_move (m, c) (\<lambda>k. if k = i then map_option (\<lambda>_. st) (m i) else m k, c - {#i#})"
| vanish: "life_move (m, c) (m(i := None), c)"

inductive_cases life_moveE: "life_move (m, c) (m', c')"

definition row_state :: "world \<Rightarrow> id \<rightharpoonup> workspace_state" where
  "row_state w i = map_option ws_state (tbl_get ws_id i (wd_workspaces w))"

definition life_abs :: "backstage \<times> world \<Rightarrow> lifecycle" where
  "life_abs s = (row_state (snd s), mset (map ws_id (bs_clones (fst s))))"

text \<open>No row refers to a workspace that does not exist, the foreign keys of the three tables.\<close>

definition references_ok :: "world \<Rightarrow> bool" where
  "references_ok w \<longleftrightarrow> se_workspace ` set (wd_sessions w) \<union> tp_workspace ` set (wd_templates w) \<union>
     pl_workspace ` set (wd_pipelines w) \<subseteq> ws_id ` set (wd_workspaces w)"

lemma tbl_get_delete: "tbl_get key j (tbl_delete key i t) = (if j = i then None else tbl_get key j t)"
  by (induction t) (auto simp: tbl_get_def tbl_delete_def)

lemma tbl_get_updated:
  "(\<And>r. key r = i \<Longrightarrow> key (f r) = i) \<Longrightarrow>
   tbl_get key j (tbl_update key i f t) = (if i = j then map_option f (tbl_get key j t) else tbl_get key j t)"
  by (induction t) (auto simp: tbl_get_def tbl_update_def)

lemma tbl_get_replaced:
  "tbl_get ws_id j (tbl_update ws_id (ws_id x) (\<lambda>r. x\<lparr>ws_created := ws_created r\<rparr>) t) =
   (if ws_id x = j then map_option (\<lambda>r. x\<lparr>ws_created := ws_created r\<rparr>) (tbl_get ws_id j t) else tbl_get ws_id j t)"
  by (rule tbl_get_updated) simp

lemma row_state_same: "wd_workspaces w' = wd_workspaces w \<Longrightarrow> row_state w' = row_state w"
  by (simp add: row_state_def fun_eq_iff)

lemma insert_row_state:
  assumes "insert_workspace ws w = (Inr x, w')"
  shows "row_state w (ws_id ws) = None \<and> row_state w' = (row_state w)(ws_id ws \<mapsto> ws_state ws)"
proof -
  have "ws_id ws \<notin> ws_id ` set (wd_workspaces w)" and w': "wd_workspaces w' = wd_workspaces w @ [ws]"
    using assms by (auto simp: insert_workspace_def workspaces_create_def split: if_splits)
  then have n: "tbl_get ws_id (ws_id ws) (wd_workspaces w) = None" by (simp add: tbl_get_None)
  then show ?thesis
    by (auto simp: row_state_def w' fun_eq_iff tbl_get_append split: option.split)
qed

lemma insert_failed: "insert_workspace ws w = (Inl e, w') \<Longrightarrow> w' = w"
  by (auto simp: insert_workspace_def workspaces_create_def split: if_splits)

text \<open>A creation that is taken back leaves the rows as they were: nothing can refer to the row yet.\<close>

lemma insert_undone:
  assumes "insert_workspace ws w = (Inr x, w')" and "references_ok w"
  shows "wd_workspaces (snd (workspaces_delete (ws_id ws) w')) = wd_workspaces w"
proof -
  have n: "ws_id ws \<notin> ws_id ` set (wd_workspaces w)" and w': "w' = w\<lparr>wd_workspaces := wd_workspaces w @ [ws]\<rparr>"
    using assms(1) by (auto simp: insert_workspace_def workspaces_create_def split: if_splits)
  have "ws_id ws \<notin> se_workspace ` set (wd_sessions w)" "ws_id ws \<notin> tp_workspace ` set (wd_templates w)"
    "ws_id ws \<notin> pl_workspace ` set (wd_pipelines w)"
    using n assms(2) by (auto simp: references_ok_def)
  moreover have "filter (\<lambda>r. ws_id r \<noteq> ws_id ws) (wd_workspaces w) = wd_workspaces w"
    using n by (metis (mono_tags, lifting) filter_True image_eqI)
  ultimately show ?thesis by (simp add: workspaces_delete_def w' tbl_delete_def)
qed

lemma uuid_references [simp]: "new_uuid f w = (u, w') \<Longrightarrow> references_ok w' = references_ok w"
  by (auto simp: new_uuid_def references_ok_def)

lemma update_row_state:
  assumes "workspaces_update ws w = (r, w')" and "row_state w (ws_id ws) = Some st"
  shows "w' = w \<or> row_state w' = (row_state w)(ws_id ws \<mapsto> ws_state ws)"
proof -
  obtain x where x: "tbl_get ws_id (ws_id ws) (wd_workspaces w) = Some x"
    using assms(2) by (auto simp: row_state_def)
  have "tbl_get ws_id j (tbl_update ws_id (ws_id ws) (\<lambda>r. ws\<lparr>ws_created := ws_created r\<rparr>) (wd_workspaces w)) =
      (if j = ws_id ws then Some (ws\<lparr>ws_created := ws_created x\<rparr>) else tbl_get ws_id j (wd_workspaces w))" for j
    using x by (simp add: tbl_get_replaced)
  then show ?thesis
    using assms(1) by (auto simp: workspaces_update_def row_state_def fun_eq_iff split: if_splits)
qed

lemma get_row_state: "workspaces_get i w = Inr ws \<Longrightarrow> row_state w i = Some (ws_state ws) \<and> ws_id ws = i"
  by (auto simp: workspaces_get_def found_Inr row_state_def dest: tbl_get_Some)

lemma visible_row_state: "get_workspace wv a i w = Inr ws \<Longrightarrow> row_state w i = Some (ws_state ws) \<and> ws_id ws = i"
  using get_row_state by (auto simp: get_workspace_def split: sum.splits if_splits)

lemma set_state_row_state:
  "row_state (snd (workspaces_set_state i st m t w)) = (\<lambda>k. if k = i then map_option (\<lambda>_. st) (row_state w i) else row_state w k)"
proof (cases "i \<in> ws_id ` set (wd_workspaces w)")
  case False
  then have "tbl_get ws_id i (wd_workspaces w) = None" by (simp add: tbl_get_None)
  with False show ?thesis by (simp add: workspaces_set_state_def row_state_def fun_eq_iff)
next
  case True
  then show ?thesis
    by (cases "tbl_get ws_id i (wd_workspaces w)") (auto simp: workspaces_set_state_def row_state_def fun_eq_iff tbl_get_update)
qed

lemma life_abs_stay: "wd_workspaces w' = wd_workspaces w \<Longrightarrow> bs_clones b' = bs_clones b \<Longrightarrow> life_move (life_abs (b, w)) (life_abs (b', w'))"
  using life_move.stay[of "life_abs (b, w)"] row_state_same[of w' w] by (simp add: life_abs_def)

lemma life_abs_row:
  "row_state w' = (row_state w)(i \<mapsto> st) \<Longrightarrow> bs_clones b' = bs_clones b @ [x] \<Longrightarrow> ws_id x = i \<Longrightarrow>
   st = WorkspaceCloning \<Longrightarrow> row_state w i \<in> {None, Some WorkspaceFailed} \<Longrightarrow> life_move (life_abs (b, w)) (life_abs (b', w'))"
  using life_move.start[of "row_state w" i "mset (map ws_id (bs_clones b))"] by (auto simp: life_abs_def)

lemma life_abs_appear:
  "row_state w' = (row_state w)(i \<mapsto> WorkspaceReady) \<Longrightarrow> bs_clones b' = bs_clones b \<Longrightarrow> row_state w i = None \<Longrightarrow>
   life_move (life_abs (b, w)) (life_abs (b', w'))"
  using life_move.appear[of "row_state w" i] by (simp add: life_abs_def)

lemma path_moves: "life_move (life_abs (b, w)) (life_abs (snd (create_path_workspace wv a inp b w)))"
proof (cases "ac_admin a \<and> wi_path inp \<noteq> [] \<and> is_abs (wi_path inp) \<and> valid_repo_dir wv (wi_path inp) b")
  case False
  then show ?thesis by (auto simp: create_path_workspace_def life_move.stay)
next
  case True
  obtain u w1 where w1: "new_uuid (ge_uuid (wv_env wv)) w = (u, w1)" by fastforce
  define ws where "ws = new_workspace inp u None (wi_path inp) WorkspaceSourcePath WorkspaceReady (wd_now w)"
  have ws: "ws_id ws = u" "ws_state ws = WorkspaceReady" by (simp_all add: ws_def new_workspace_def)
  obtain r w2 where w2: "insert_workspace ws w1 = (r, w2)" by fastforce
  have run: "snd (create_path_workspace wv a inp b w) = (b, w2)"
    using True by (simp add: create_path_workspace_def w1 ws_def[symmetric] w2 split: sum.split)
  have same: "row_state w1 = row_state w" using row_state_same uuid_workspaces[OF w1] by blast
  show ?thesis
  proof (cases r)
    case (Inl e)
    then have "w2 = w1" using insert_failed w2 by blast
    then show ?thesis unfolding run using life_abs_stay uuid_workspaces[OF w1] by simp
  next
    case (Inr x)
    then show ?thesis unfolding run
      using insert_row_state[of ws w1 x w2] w2 ws same by (simp add: life_abs_appear[of w2 w u b b])
  qed
qed

lemma empty_moves:
  assumes refs: "references_ok w"
  shows "life_move (life_abs (b, w)) (life_abs (snd (create_empty_workspace wv a inp b w)))"
proof (cases "ac_user a = []")
  case True
  then show ?thesis by (simp add: create_empty_workspace_def life_move.stay)
next
  case False
  define dir where "dir = managed_dir_path wv (ac_user a) (wi_name inp)"
  obtain u w1 where w1: "new_uuid (ge_uuid (wv_env wv)) w = (u, w1)" by fastforce
  define ws where "ws = new_workspace inp u (Some (ac_user a)) dir WorkspaceSourceEmpty WorkspaceReady (wd_now w)"
  have ws: "ws_id ws = u" "ws_state ws = WorkspaceReady" by (simp_all add: ws_def new_workspace_def)
  obtain r w2 where w2: "insert_workspace ws w1 = (r, w2)" by fastforce
  have same: "row_state w1 = row_state w" using row_state_same uuid_workspaces[OF w1] by blast
  obtain e1 b1 where b1: "prepare_empty_dir wv dir b = (e1, b1)" by fastforce
  have c1: "bs_clones b1 = bs_clones b" using keeps_prepare[of wv b dir] by (simp add: b1)
  obtain out e2 b2 where b2: "run_git wv dir (home_dir wv (ac_user a)) [''init'', ''-b'', ''main''] b1 = ((out, e2), b2)"
    by (metis surj_pair)
  have c2: "bs_clones b2 = bs_clones b"
    using git_other[of wv dir "home_dir wv (ac_user a)" "[''init'', ''-b'', ''main'']" b1] c1 unfolding b2 by simp
  have c3: "bs_clones (snd (remove_all wv dir b2)) = bs_clones b" using c2 by simp
  show ?thesis
  proof (cases r)
    case (Inl e)
    then have "w2 = w1" using insert_failed w2 by blast
    moreover have "snd (create_empty_workspace wv a inp b w) = (b, w2)"
      using False Inl by (simp add: create_empty_workspace_def dir_def[symmetric] w1 ws_def[symmetric] w2)
    ultimately show ?thesis using life_abs_stay uuid_workspaces[OF w1] by simp
  next
    case (Inr x)
    have undone: "wd_workspaces (snd (workspaces_delete u w2)) = wd_workspaces w"
      using insert_undone[of ws w1 x w2] w2 Inr refs ws uuid_references[OF w1] uuid_workspaces[OF w1] by simp
    have "snd (create_empty_workspace wv a inp b w) \<in> {(b1, snd (workspaces_delete u w2)),
        (snd (remove_all wv dir b2), snd (workspaces_delete u w2)), (b2, w2)}"
      using False Inr by (auto simp: create_empty_workspace_def dir_def[symmetric] w1 ws_def[symmetric] w2 b1 b2 split: option.split)
    moreover have "life_move (life_abs (b, w)) (life_abs (b2, w2))"
      using insert_row_state[of ws w1 x w2] w2 Inr ws same c2 by (simp add: life_abs_appear[of w2 w u b2 b])
    ultimately show ?thesis using life_abs_stay[OF undone] c1 c3 by auto
  qed
qed

lemma git_moves:
  assumes refs: "references_ok w"
  shows "life_move (life_abs (b, w)) (life_abs (snd (create_git_workspace wv a inp b w)))"
proof (cases "ac_user a = [] \<or> \<not> valid_repo_url wv (wi_repo_url inp)")
  case True
  then show ?thesis by (auto simp: create_git_workspace_def life_move.stay)
next
  case False
  define dir where "dir = managed_dir_path wv (ac_user a) (wi_name inp)"
  obtain u w1 where w1: "new_uuid (ge_uuid (wv_env wv)) w = (u, w1)" by fastforce
  define ws where "ws = new_workspace inp u (Some (ac_user a)) dir WorkspaceSourceGit WorkspaceCloning (wd_now w)"
  have ws: "ws_id ws = u" "ws_state ws = WorkspaceCloning" by (simp_all add: ws_def new_workspace_def)
  obtain r w2 where w2: "insert_workspace ws w1 = (r, w2)" by fastforce
  have same: "row_state w1 = row_state w" using row_state_same uuid_workspaces[OF w1] by blast
  obtain e1 b1 where b1: "mkdir_all wv (go_join [dir, ''..'']) b = (e1, b1)" by fastforce
  have c1: "bs_clones b1 = bs_clones b"
    using mkdir_other[of wv "go_join [dir, ''..'']" b] unfolding b1 by simp
  define b2 where "b2 = publish_workspace u (ac_user a) WorkspaceCloning [] b1"
  define b3 where "b3 = b2\<lparr>bs_clones := bs_clones b2 @ [ws]\<rparr>"
  have c3: "bs_clones b3 = bs_clones b @ [ws]" by (simp add: b3_def b2_def publish_workspace_def c1)
  show ?thesis
  proof (cases r)
    case (Inl e)
    then have "w2 = w1" using insert_failed w2 by blast
    moreover have "snd (create_git_workspace wv a inp b w) = (b, w2)"
      using False Inl by (simp add: create_git_workspace_def dir_def[symmetric] w1 ws_def[symmetric] w2)
    ultimately show ?thesis using life_abs_stay uuid_workspaces[OF w1] by simp
  next
    case (Inr x)
    have undone: "wd_workspaces (snd (workspaces_delete u w2)) = wd_workspaces w"
      using insert_undone[of ws w1 x w2] w2 Inr refs ws uuid_references[OF w1] uuid_workspaces[OF w1] by simp
    have "snd (create_git_workspace wv a inp b w) \<in> {(b, snd (workspaces_delete u w2)), (b1, snd (workspaces_delete u w2)), (b3, w2)}"
      using False Inr by (auto simp: create_git_workspace_def dir_def[symmetric] w1 ws_def[symmetric] w2 b1
          b2_def[symmetric] b3_def[symmetric] Let_def split: sum.split option.split bool.split)
    moreover have "life_move (life_abs (b, w)) (life_abs (b3, w2))"
      by (rule life_abs_row[OF _ c3 ws(1)]) (use insert_row_state[of ws w1 x w2] w2 Inr ws same in auto)
    ultimately show ?thesis using life_abs_stay[OF undone] c1 by auto
  qed
qed

lemma create_moves:
  "references_ok w \<Longrightarrow> life_move (life_abs (b, w)) (life_abs (snd (create_workspace wv a inp b w)))"
  using path_moves empty_moves git_moves by (simp add: create_workspace_def Let_def life_move.stay)

text \<open>An update that leaves the state field alone leaves the abstract state alone.\<close>

lemma rewrite_stays:
  assumes "row_state w (ws_id ws) = Some (ws_state ws)" and "workspaces_update ws w = (r, w')"
  shows "row_state w' = row_state w"
  using update_row_state[OF assms(2,1)] assms(1) by (auto simp: fun_upd_idem)

lemma update_moves: "life_move (life_abs (b, w)) (life_abs (b, snd (update_workspace wv a i upd w)))"
proof (cases "get_workspace wv a i w")
  case (Inl e)
  then show ?thesis by (simp add: update_workspace_def life_move.stay)
next
  case (Inr ws)
  define ws' where "ws' = ws\<lparr>ws_profile := patched (wu_profile upd) (ws_profile ws),
      ws_worktrees := patched (wu_worktrees upd) (ws_worktrees ws),
      ws_base_branch := patched (wu_base_branch upd) (ws_base_branch ws),
      ws_auto_checkpoint := patched (wu_auto_checkpoint upd) (ws_auto_checkpoint ws),
      ws_updated := wd_now w\<rparr>"
  obtain r w' where w': "workspaces_update ws' w = (r, w')" by fastforce
  have "row_state w' = row_state w"
    using rewrite_stays[OF _ w'] visible_row_state[OF Inr] by (simp add: ws'_def)
  moreover have "snd (update_workspace wv a i upd w) \<in> {w, w'}"
    by (simp add: update_workspace_def Inr ws'_def[symmetric] w' Let_def split: sum.split)
  ultimately have "life_abs (b, snd (update_workspace wv a i upd w)) = life_abs (b, w)" by (auto simp: life_abs_def)
  then show ?thesis by (simp add: life_move.stay)
qed

lemma access_moves: "life_move (life_abs (b, w)) (life_abs (b, snd (set_access wv a i mode users w)))"
proof (cases "ac_admin a \<and> access_mode_of mode \<noteq> None \<and> (\<exists>ws. workspaces_get i w = Inr ws \<and> ws_owner ws = None)")
  case False
  then have "snd (set_access wv a i mode users w) = w"
    by (auto simp: set_access_def split: option.split sum.split)
  then show ?thesis by (simp add: life_move.stay)
next
  case True
  then obtain m ws where m: "access_mode_of mode = Some m" and ws: "workspaces_get i w = Inr ws" "ws_owner ws = None" by auto
  define ws' where "ws' = ws\<lparr>ws_access := m, ws_updated := wd_now w\<rparr>"
  obtain r w' where w': "workspaces_update ws' w = (r, w')" by fastforce
  have "row_state w' = row_state w"
    using rewrite_stays[OF _ w'] get_row_state[OF ws(1)] by (simp add: ws'_def)
  moreover have "wd_workspaces (snd (set_access wv a i mode users w)) = wd_workspaces w'"
    using True by (simp add: set_access_def m ws ws'_def[symmetric] w' split: sum.split)
  ultimately have "row_state (snd (set_access wv a i mode users w)) = row_state w" using row_state_same by metis
  then have "life_abs (b, snd (set_access wv a i mode users w)) = life_abs (b, w)" by (simp add: life_abs_def)
  then show ?thesis by (simp add: life_move.stay)
qed

lemma delete_moves: "life_move (life_abs (b, w)) (life_abs (snd (delete_workspace wv a i b w)))"
proof -
  have "row_state (snd (workspaces_delete i w)) \<in> {row_state w, (row_state w)(i := None)}"
    by (auto simp: workspaces_delete_def row_state_def tbl_get_delete fun_eq_iff)
  then have gone: "life_move (life_abs (b, w)) (life_abs (b', snd (workspaces_delete i w)))"
    if "bs_clones b' = bs_clones b" for b'
    using that life_move.vanish[of "row_state w" "mset (map ws_id (bs_clones b))" i] life_move.stay[of "life_abs (b, w)"]
    by (auto simp: life_abs_def)
  have c: "bs_clones b' = bs_clones b" if "remove_managed_dir wv p b = (x, b')" for p x b'
    using remove_managed_keeps[of wv b p] that by simp
  have stay: "bs_clones b' = bs_clones b \<Longrightarrow> life_move (life_abs (b, w)) (life_abs (b', w))" for b'
    by (rule life_abs_stay) simp_all
  have "\<exists>b'. bs_clones b' = bs_clones b \<and>
      snd (delete_workspace wv a i b w) \<in> {(b', w), (b', snd (workspaces_delete i w))}"
    using c by (auto simp: delete_workspace_def Let_def split: sum.split prod.split option.split)
  then show ?thesis using stay gone by auto
qed

lemma retry_moves: "life_move (life_abs (b, w)) (life_abs (snd (retry_workspace wv a i b w)))"
proof (cases "\<exists>ws. get_workspace wv a i w = Inr ws \<and> owns_or_admin a ws \<and> ws_source ws = WorkspaceSourceGit \<and>
    ws_state ws = WorkspaceFailed")
  case False
  then have "snd (retry_workspace wv a i b w) = (b, w)"
    by (auto simp: retry_workspace_def split: sum.split)
  then show ?thesis by (simp add: life_move.stay)
next
  case True
  then obtain ws where ws: "get_workspace wv a i w = Inr ws" "owns_or_admin a ws" "ws_source ws = WorkspaceSourceGit"
      "ws_state ws = WorkspaceFailed" by auto
  define b1 where "b1 = snd (remove_all wv (ws_path ws) b)"
  define ws' where "ws' = ws\<lparr>ws_state := WorkspaceCloning, ws_error := [], ws_updated := wd_now w\<rparr>"
  have i: "ws_id ws' = i" "row_state w i = Some WorkspaceFailed" using visible_row_state[OF ws(1)] ws(4) by (auto simp: ws'_def)
  obtain r w1 where w1: "workspaces_update ws' w = (r, w1)" by fastforce
  define b2 where "b2 = publish_workspace i (case ws_owner ws of None \<Rightarrow> [] | Some u \<Rightarrow> u) WorkspaceCloning [] b1"
  define b3 where "b3 = b2\<lparr>bs_clones := bs_clones b2 @ [ws']\<rparr>"
  have c: "bs_clones b1 = bs_clones b" "bs_clones b3 = bs_clones b @ [ws']"
    by (simp_all add: b3_def b2_def b1_def publish_workspace_def)
  have refused: "w1 = w" if "r = Inl e" for e
    using w1 that by (auto simp: workspaces_update_def split: if_splits)
  have st: "ws_state ws' = WorkspaceCloning" by (simp add: ws'_def)
  have written: "row_state w1 = (row_state w)(i \<mapsto> WorkspaceCloning)" if "r = Inr x" for x
  proof -
    have "i \<in> ws_id ` set (wd_workspaces w)" using get_workspace_row[OF ws(1)] by auto
    then have "w1 = w\<lparr>wd_workspaces := tbl_update ws_id i (\<lambda>r. ws'\<lparr>ws_created := ws_created r\<rparr>) (wd_workspaces w)\<rparr>"
      using w1 that i(1) by (auto simp: workspaces_update_def split: if_splits)
    moreover obtain y where "tbl_get ws_id i (wd_workspaces w) = Some y" using i(2) by (auto simp: row_state_def)
    ultimately show ?thesis
      using i(1) st by (auto simp: row_state_def fun_eq_iff tbl_get_replaced)
  qed
  have "snd (retry_workspace wv a i b w) = (case r of Inl _ \<Rightarrow> (b1, w1) | Inr _ \<Rightarrow> (b3, w1))"
    using ws by (simp add: retry_workspace_def b1_def[symmetric] ws'_def[symmetric] w1 b2_def[symmetric] b3_def[symmetric]
        Let_def split: sum.split)
  then show ?thesis
    using refused written c i life_abs_stay[of w w b1 b] life_abs_row[of w1 w i WorkspaceCloning b3 b ws']
    by (cases r) auto
qed

lemma clone_moves:
  assumes ws: "ws \<in> set (bs_clones b)"
  shows "life_move (life_abs (b, w)) (life_abs (run_clone wv ws b w))"
proof -
  define ow where "ow = (case ws_owner ws of None \<Rightarrow> [] | Some u \<Rightarrow> u)"
  define b0 where "b0 = b\<lparr>bs_clones := remove1 ws (bs_clones b)\<rparr>"
  obtain out e b1 where b1: "run_git wv [] (home_dir wv ow) (clone_args ws) b0 = ((out, e), b1)"
    by (metis surj_pair)
  have c1: "bs_clones b1 = remove1 ws (bs_clones b)"
    using git_other[of wv "[]" "home_dir wv ow" "clone_args ws" b0] unfolding b1 by (simp add: b0_def)
  have ids: "mset (map ws_id (remove1 ws (bs_clones b))) = mset (map ws_id (bs_clones b)) - {#ws_id ws#}"
    using ws by (simp add: image_mset_Diff)
  have step: "life_move (life_abs (b, w)) (life_abs (set_workspace_state (ws_id ws) o1 st m b' w))"
    if "bs_clones b' = remove1 ws (bs_clones b)" "st \<in> {WorkspaceReady, WorkspaceFailed}" for o1 st m b'
    using life_move.finish[of "ws_id ws" "mset (map ws_id (bs_clones b))" st "row_state w"] that ws
    by (simp only: life_abs_def set_workspace_state_parts that fst_conv snd_conv ids set_state_row_state) auto
  have "run_clone wv ws b w = (case e of
      Some x \<Rightarrow> set_workspace_state (ws_id ws) ow WorkspaceFailed (clone_failure_message wv out (ws_repo_url ws))
        (snd (remove_all wv (ws_path ws) b1)) w
    | None \<Rightarrow> set_workspace_state (ws_id ws) ow WorkspaceReady [] b1 w)"
    by (simp add: run_clone_def ow_def[symmetric] b0_def[symmetric] b1 Let_def split: option.split)
  then show ?thesis using step c1 by (simp split: option.split)
qed

lemma workspace_op_moves:
  assumes "workspace_op wv (b, w) s" and "references_ok w"
  shows "life_move (life_abs (b, w)) (life_abs s)"
  using assms
  by cases (simp_all add: create_moves update_moves access_moves delete_moves retry_moves clone_moves life_abs_stay)

text \<open>A clone nobody runs any more never ends.\<close>

lemma move_interrupted:
  "life_move (m, c) (m', c') \<Longrightarrow> m i = Some WorkspaceCloning \<Longrightarrow> i \<notin># c \<Longrightarrow> m' i = None \<or> m' i = Some WorkspaceCloning \<and> i \<notin># c'"
  by (erule life_moveE) (auto dest: in_diffD)

lemma move_tracked:
  "life_move (m, c) (m', c') \<Longrightarrow> \<forall>i. m i = Some WorkspaceCloning \<longrightarrow> i \<in># c \<Longrightarrow> m' i = Some WorkspaceCloning \<Longrightarrow> i \<in># c'"
  by (erule life_moveE) (auto simp: in_diff_count split: if_splits)

end
