(* ===== verification/Workspace_Claims.thy ===== *)
theory Workspace_Claims
  imports Workspace_Proofs Service_Examples
begin

text \<open>
  The properties of the workspaces service, and a small deployment of it whose git clones into a directory that does
  not exist yet and refuses one that does.
\<close>

definition demo_git :: "string \<Rightarrow> string \<Rightarrow> string list \<Rightarrow> (string list \<times> bool) list \<Rightarrow>
    (string \<times> error option) \<times> (string list \<times> bool) list" where
  "demo_git dir home args d =
     (let target = clean_path True (split_path (if dir = [] then last args else dir)) []
      in if hd args = ''init'' then (([], None), d @ [(target @ [''.git''], False)])
         else if target \<in> fst ` set d then ((''fatal: destination path already exists'', Some (ErrOther ''exit status 128'')), d)
         else (([], None), d @ [(target, False), (target @ [''.git''], False)]))"

definition demo_url :: "string \<Rightarrow> parsed_url option" where
  "demo_url s = Some \<lparr>ur_host = ''host'', ur_path = ''/r'', ur_user = None, ur_redacted = s\<rparr>"

definition demo_service :: workspace_service where
  "demo_service = \<lparr>wv_env = demo_env, wv_users_dir = ''/data/users'', wv_cwd = ''/'', wv_has_access = True,
     wv_url = demo_url, wv_git = demo_git, wv_disk_error = (\<lambda>k p b. None), wv_is_dir = (\<lambda>p b. True)\<rparr>"

definition demo_backstage :: backstage where
  "demo_backstage = \<lparr>bs_disk = [([''data''], False), ([''data'', ''users''], False), ([''etc''], False)], bs_clones = [], bs_bus = []\<rparr>"

definition demo_owner :: actor where
  "demo_owner = \<lparr>ac_user = ''ann'', ac_admin = False\<rparr>"

definition demo_request :: "string \<Rightarrow> workspace_input" where
  "demo_request name = \<lparr>wi_name = name, wi_source = ''git'', wi_repo_url = ''https://host/r'', wi_branch = [], wi_path = [],
     wi_profile = ''auto'', wi_worktrees = False, wi_base_branch = [], wi_auto_checkpoint = None\<rparr>"

definition demo_first :: "backstage \<times> world" where
  "demo_first = snd (create_workspace demo_service demo_owner (demo_request ''App'') demo_backstage service_world)"

definition demo_second :: "backstage \<times> world" where
  "demo_second = snd (create_workspace demo_service demo_owner (demo_request ''app!'') (fst demo_first) (snd demo_first))"

definition demo_third :: "backstage \<times> world" where
  "demo_third = run_clone demo_service (hd (bs_clones (fst demo_second))) (fst demo_second) (snd demo_second)"

definition demo_fourth :: "backstage \<times> world" where
  "demo_fourth = run_clone demo_service (hd (bs_clones (fst demo_third))) (fst demo_third) (snd demo_third)"

definition managed_states :: "backstage \<times> world \<Rightarrow> (string \<times> workspace_state \<times> bool) list" where
  "managed_states s = map (\<lambda>ws. (ws_name ws, ws_state ws, on_disk demo_service (ws_path ws) (fst s)))
     (filter ws_managed (wd_workspaces (snd s)))"

text \<open>
  Two names with the same slug give two workspaces the same directory when the second is created while the first
  is still cloning. The first clone fills the directory and its workspace is ready; the second one fails because the
  directory exists, and the clean-up of that failure removes it: the first workspace stays ready with its directory
  and everything in it gone.
\<close>

theorem failed_clone_wipes_a_ready_workspace:
  "managed_states demo_third = [(''App'', WorkspaceReady, True), (''app!'', WorkspaceCloning, True)] \<and>
   managed_states demo_fourth = [(''App'', WorkspaceReady, False), (''app!'', WorkspaceFailed, False)]"
  by code_simp


section \<open>The properties\<close>

lemma demo_git_stays: "git_stays_in_target demo_service"
  by (simp add: git_stays_in_target_def demo_service_def demo_git_def Let_def)

lemma demo_homes: "homes_ok demo_service demo_backstage service_world"
  by (simp add: homes_ok_def home_ok_def demo_backstage_def service_world_def demo_workspace_def)

lemma demo_abs: "is_abs (wv_users_dir demo_service)"
  by (simp add: is_abs_def demo_service_def)

lemma demo_first_op: "workspace_op demo_service (demo_backstage, service_world) (fst demo_first, snd demo_first)"
proof -
  have "path_element (ac_user demo_owner)" by (simp add: path_element_def demo_owner_def)
  then show ?thesis
    unfolding demo_first_def prod.collapse by (intro workspace_op.created) simp
qed

text \<open>
  C30: whatever operations run, in any order and with any failures of the disk, nothing outside the directory of the
  users is ever removed, provided git stays inside the directory it is given: every directory the service removes is
  the managed path of a workspace, because the slug of a name is a proper path element.
\<close>

theorem nothing_outside_removed:
  assumes "(workspace_op wv)\<^sup>*\<^sup>* (b, w) (b', w')" and "homes_ok wv b w" and "git_stays_in_target wv"
    and "is_abs (wv_users_dir wv)" and "e \<in> set (bs_disk b)" and "\<not> below (users_root wv) (fst e)"
  shows "e \<in> set (bs_disk b')"
  using workspace_life_tidy[OF assms(1)] assms(2-6) by (auto simp: tidy_def keeps_outside_def)

theorem nothing_outside_removed_witness: "([''etc''], False) \<in> set (bs_disk (fst demo_first))"
proof (rule nothing_outside_removed[where wv = demo_service and b = demo_backstage and w = service_world
      and w' = "snd demo_first"])
  show "(workspace_op demo_service)\<^sup>*\<^sup>* (demo_backstage, service_world) (fst demo_first, snd demo_first)"
    using demo_first_op by blast
  show "([''etc''], False) \<in> set (bs_disk demo_backstage)" by (simp add: demo_backstage_def)
  show "\<not> below (users_root demo_service) (fst ([''etc''], False))" by code_simp
qed (rule demo_homes demo_git_stays demo_abs)+

text \<open>
  C31: the service refines the life of a workspace: a row appears ready or cloning, the cloning state begins at a
  creation or at a retry of a failed clone and always with a clone under way, and only the end of that clone leaves
  it, for ready or failed.
\<close>

theorem workspaces_refine_lifecycle:
  assumes "workspace_op wv (b, w) s" and "references_ok w"
  shows "life_move (life_abs (b, w)) (life_abs s)"
  using assms by (rule workspace_op_moves)

lemma demo_references: "references_ok service_world"
  by (simp add: references_ok_def service_world_def empty_world_def demo_template_def demo_pipeline_def demo_workspace_def)

theorem workspaces_refine_lifecycle_witness:
  "life_move (life_abs (demo_backstage, service_world)) (life_abs (fst demo_first, snd demo_first))"
  by (rule workspaces_refine_lifecycle[OF demo_first_op demo_references])

text \<open>
  A workspace that is cloning while no clone of it runs, as after a restart of the process, never leaves that
  state: an operation either deletes it or leaves it cloning with still no clone under way, and a retry is refused.
\<close>

theorem interrupted_clone_is_stuck:
  assumes "workspace_op wv (b, w) (b', w')" and "references_ok w" and "row_state w i = Some WorkspaceCloning"
    and "i \<notin> ws_id ` set (bs_clones b)"
  shows "(row_state w' i = None \<or> row_state w' i = Some WorkspaceCloning \<and> i \<notin> ws_id ` set (bs_clones b')) \<and>
    snd (retry_workspace wv a i b w) = (b, w)"
proof
  show "row_state w' i = None \<or> row_state w' i = Some WorkspaceCloning \<and> i \<notin> ws_id ` set (bs_clones b')"
    using move_interrupted[OF workspace_op_moves[OF assms(1,2), unfolded life_abs_def fst_conv snd_conv], of i] assms(3,4)
    by auto
  show "snd (retry_workspace wv a i b w) = (b, w)"
    using assms(3) visible_row_state by (fastforce simp: retry_workspace_def split: sum.split)
qed

definition demo_restarted :: "backstage" where
  "demo_restarted = (fst demo_first)\<lparr>bs_clones := []\<rparr>"

theorem interrupted_clone_is_stuck_witness:
  "row_state (snd (set_access demo_service service_actor ''w'' ''listed'' [] (snd demo_first))) ''u'' = Some WorkspaceCloning \<and>
   snd (retry_workspace demo_service demo_owner ''u'' demo_restarted (snd demo_first)) = (demo_restarted, snd demo_first)"
proof -
  have op: "workspace_op demo_service (demo_restarted, snd demo_first)
      (demo_restarted, snd (set_access demo_service service_actor ''w'' ''listed'' [] (snd demo_first)))"
    by (rule workspace_op.listed)
  have refs: "references_ok (snd demo_first)" by code_simp
  have row: "row_state (snd demo_first) ''u'' = Some WorkspaceCloning" by code_simp
  have idle: "''u'' \<notin> ws_id ` set (bs_clones demo_restarted)" by (simp add: demo_restarted_def)
  let ?w = "snd (set_access demo_service service_actor ''w'' ''listed'' [] (snd demo_first))"
  have "row_state ?w ''u'' = None \<or> row_state ?w ''u'' = Some WorkspaceCloning \<and> ''u'' \<notin> ws_id ` set (bs_clones demo_restarted)"
    using interrupted_clone_is_stuck[OF op refs row idle] by blast
  moreover have "row_state ?w ''u'' \<noteq> None" by code_simp
  ultimately have "row_state ?w ''u'' = Some WorkspaceCloning" by argo
  moreover have "snd (retry_workspace demo_service demo_owner ''u'' demo_restarted (snd demo_first)) = (demo_restarted, snd demo_first)"
    using interrupted_clone_is_stuck[OF op refs row idle] by blast
  ultimately show ?thesis ..
qed

text \<open>
  Deleting a managed workspace that an ended session, a template or a pipeline still references first removes its
  directory and then fails on the foreign key: the row stays, and what it points at is gone.
\<close>

theorem deleting_referenced_workspace_loses_its_files:
  assumes "get_workspace wv a i w = Inr ws" and "owns_or_admin a ws" and "ws_managed ws"
    and "\<not> has_active_sessions i w" and "remove_managed_dir wv (ws_path ws) b = (None, b')"
    and "i \<in> se_workspace ` set (wd_sessions w) \<union> tp_workspace ` set (wd_templates w) \<union> pl_workspace ` set (wd_pipelines w)"
  shows "delete_workspace wv a i b w = (Inl ErrForeignKey, b', w) \<and> \<not> on_disk wv (ws_path ws) b'"
proof
  have "i \<in> ws_id ` set (wd_workspaces w)" using get_workspace_row[OF assms(1)] by auto
  then show "delete_workspace wv a i b w = (Inl ErrForeignKey, b', w)"
    using assms by (auto simp: delete_workspace_def workspaces_delete_def)
  show "\<not> on_disk wv (ws_path ws) b'"
    using assms(5) by (auto simp: remove_managed_dir_def remove_all_def on_disk_def below_def map_of_eq_None_iff
        split: if_splits option.splits)
qed

definition demo_used :: world where
  "demo_used = (snd demo_first)\<lparr>wd_templates := [(demo_template ''t'' [])\<lparr>tp_workspace := ''u''\<rparr>]\<rparr>"

theorem deleting_referenced_workspace_loses_its_files_witness:
  "fst (delete_workspace demo_service demo_owner ''u'' (fst demo_third) demo_used) = Inl ErrForeignKey \<and>
   on_disk demo_service ''/data/users/ann/workspaces/app'' (fst demo_third) \<and>
   \<not> on_disk demo_service ''/data/users/ann/workspaces/app''
     (fst (snd (delete_workspace demo_service demo_owner ''u'' (fst demo_third) demo_used)))"
proof -
  have ws: "case get_workspace demo_service demo_owner ''u'' demo_used of Inl e \<Rightarrow> False
      | Inr ws \<Rightarrow> owns_or_admin demo_owner ws \<and> ws_managed ws \<and> ws_path ws = ''/data/users/ann/workspaces/app'' \<and>
          fst (remove_managed_dir demo_service (ws_path ws) (fst demo_third)) = None"
    by code_simp
  then obtain ws where g: "get_workspace demo_service demo_owner ''u'' demo_used = Inr ws" "owns_or_admin demo_owner ws"
      "ws_managed ws" "ws_path ws = ''/data/users/ann/workspaces/app''"
      "fst (remove_managed_dir demo_service (ws_path ws) (fst demo_third)) = None"
    by (auto split: sum.splits)
  then obtain b' where b': "remove_managed_dir demo_service (ws_path ws) (fst demo_third) = (None, b')"
    by (metis prod.collapse)
  have idle: "\<not> has_active_sessions ''u'' demo_used" by code_simp
  have used: "''u'' \<in> se_workspace ` set (wd_sessions demo_used) \<union> tp_workspace ` set (wd_templates demo_used) \<union>
      pl_workspace ` set (wd_pipelines demo_used)"
    by code_simp
  have there: "on_disk demo_service ''/data/users/ann/workspaces/app'' (fst demo_third)" by code_simp
  from deleting_referenced_workspace_loses_its_files[OF g(1-3) idle b' used] show ?thesis
    using g(4) there by simp
qed

text \<open>
  The list of workspaces a user sees is exactly the set of workspaces he can open: each listed one is returned by
  its id, and what is not listed is answered as not found, access lists included.
\<close>

theorem listed_are_the_readable:
  assumes "distinct (map ws_id (wd_workspaces w))"
  shows "set (list_workspaces wv a w) = {ws. get_workspace wv a (ws_id ws) w = Inr ws} \<and>
    (i \<in> ws_id ` set (list_workspaces wv a w) \<or> get_workspace wv a i w = Inl ErrNotFound)"
proof -
  have get: "get_workspace wv a (ws_id ws) w = Inr ws \<longleftrightarrow>
      ws \<in> set (wd_workspaces w) \<and> visible_owner a (ws_owner ws) \<and> access_allowed wv a ws w" for ws
  proof (cases "ws \<in> set (wd_workspaces w)")
    case True
    then show ?thesis using tbl_get_in_set[OF assms True] by (simp add: get_workspace_def workspaces_get_def)
  next
    case False
    then show ?thesis using get_workspace_row[of wv a "ws_id ws" w ws] by blast
  qed
  have admin: "ac_admin a \<Longrightarrow> access_allowed wv a ws w" for ws by (simp add: access_allowed_def)
  have eq: "set (list_workspaces wv a w) = {ws. get_workspace wv a (ws_id ws) w = Inr ws}"
    by (auto simp: list_workspaces_def workspaces_list_visible_def Let_def get visible_owner_def admin)
  have "i \<notin> ws_id ` set (list_workspaces wv a w) \<Longrightarrow> get_workspace wv a i w \<noteq> Inr ws" for ws
    using eq get_workspace_row[of wv a i w ws] by auto
  moreover have "get_workspace wv a i w = Inl e \<Longrightarrow> e = ErrNotFound" for e
    by (auto simp: get_workspace_def workspaces_get_def found_Inl split: sum.splits if_splits)
  ultimately have "i \<in> ws_id ` set (list_workspaces wv a w) \<or> get_workspace wv a i w = Inl ErrNotFound" by (metis sumE)
  with eq show ?thesis by blast
qed

theorem listed_are_the_readable_witness:
  "set (list_workspaces demo_service demo_owner (snd demo_first)) =
     {ws. get_workspace demo_service demo_owner (ws_id ws) (snd demo_first) = Inr ws} \<and>
   get_workspace demo_service demo_owner ''x'' (snd demo_first) = Inl ErrNotFound"
proof -
  have d: "distinct (map ws_id (wd_workspaces (snd demo_first)))" by code_simp
  have n: "''x'' \<notin> ws_id ` set (list_workspaces demo_service demo_owner (snd demo_first))" by code_simp
  show ?thesis using listed_are_the_readable[OF d, of demo_service demo_owner "''x''"] n by blast
qed

end
