(* ===== verification/Gitops.thy ===== *)
theory Gitops
  imports Go_Text
begin

text \<open>
  The git commands, \<open>internal/gitops\<close>: worktrees, checkpoints, diffs, commits, pushes and pull requests. What the git
  and gh binaries answer and do to the disk is the parameter \<open>gi_run\<close> of the host; everything the Go code makes of
  it (which commands it runs, in which order, how it reads their output) is defined here. \<open>'g\<close> is what git keeps.
\<close>

section \<open>The host\<close>

datatype cmd_exit = ExitOk | ExitStatus nat | NotStarted

record 'g checkout =
  co_files :: "string list \<Rightarrow> string option"
  co_dirs :: "string list list"
  co_git :: 'g

datatype file_op = FileStat | FileMkdirAll | FileRead | FileOpen | FileWrite

record 'g git_host =
  gi_environ :: "string list"
  gi_cwd :: string
  gi_executable :: "string \<Rightarrow> bool"
  gi_run :: "string list \<Rightarrow> string \<Rightarrow> string \<Rightarrow> string list \<Rightarrow> 'g checkout \<Rightarrow>
    (string \<times> string \<times> cmd_exit) \<times> 'g checkout"
  gi_file_error :: "file_op \<Rightarrow> string \<Rightarrow> 'g checkout \<Rightarrow> bool"
  gi_time :: "string \<Rightarrow> time option"

datatype git_error =
  ErrNothingToCommit
| ErrNoRemote
| ErrGHUnavailable
| ErrNotAncestor
| ErrInvalidBranch
| ErrNotWorktree
| ErrGit string

type_synonym ('a, 'g) git_result = "(git_error + 'a) \<times> 'g checkout"

record repo =
  rp_path :: string
  rp_env :: "string list option"

record worktree =
  wt_path :: string
  wt_branch :: string
  wt_base :: string
  wt_env :: "string list option"

record author =
  au_name :: string
  au_email :: string

definition max_diff_bytes :: nat where "max_diff_bytes = 2 * 1024 * 1024"

section \<open>Running commands (gitops.go)\<close>

definition default_env :: "string list \<Rightarrow> string list" where
  "default_env environ = filter (\<lambda>kv. \<not> has_prefix kv ''GIT_'') environ @ [''GIT_TERMINAL_PROMPT=0'']"

definition host_env :: "'g git_host \<Rightarrow> string list option \<Rightarrow> string list" where
  "host_env gi env = (case env of Some e \<Rightarrow> e | None \<Rightarrow> default_env (gi_environ gi))"

fun env_value :: "string list \<Rightarrow> string \<Rightarrow> string" where
  "env_value [] key = []"
| "env_value (kv # env) key = (case cut_prefix kv (key @ ''='') of Some v \<Rightarrow> v | None \<Rightarrow> env_value env key)"

fun find_executable :: "'g git_host \<Rightarrow> string \<Rightarrow> string list \<Rightarrow> string option" where
  "find_executable gi name [] = None"
| "find_executable gi name (dir # dirs) =
     (let candidate = go_join [if dir = [] then ''.'' else dir, name]
      in if gi_executable gi candidate then Some candidate else find_executable gi name dirs)"

definition look_path :: "'g git_host \<Rightarrow> string list \<Rightarrow> string \<Rightarrow> string option" where
  "look_path gi env name =
     (if CHR ''/'' \<in> set name then (if gi_executable gi name then Some name else None)
      else (let path = env_value env ''PATH''
            in find_executable gi name (if path = [] then [] else split_char (CHR '':'') path)))"

definition run_cmd ::
  "'g git_host \<Rightarrow> string \<Rightarrow> string list \<Rightarrow> string \<Rightarrow> string list \<Rightarrow> 'g checkout \<Rightarrow>
    (string \<times> string \<times> cmd_exit) \<times> 'g checkout" where
  "run_cmd gi dir env name args co =
     (case look_path gi env name of
        None \<Rightarrow> (([], [], NotStarted), co)
      | Some resolved \<Rightarrow> gi_run gi env resolved dir args co)"

definition git_cmd ::
  "'g git_host \<Rightarrow> string \<Rightarrow> string list \<Rightarrow> string list \<Rightarrow> 'g checkout \<Rightarrow>
    (string \<times> string \<times> cmd_exit) \<times> 'g checkout" where
  "git_cmd gi dir env args co = run_cmd gi dir env ''git'' args co"

text \<open>A git command whose failure ends the operation, with the text its error starts with.\<close>

definition checked_git ::
  "'g git_host \<Rightarrow> string \<Rightarrow> string list \<Rightarrow> string \<Rightarrow> string list \<Rightarrow> 'g checkout \<Rightarrow> (string, 'g) git_result" where
  "checked_git gi dir env what args co =
     (case git_cmd gi dir env args co of
        ((out, stderr, ExitOk), co') \<Rightarrow> (Inr out, co')
      | (_, co') \<Rightarrow> (Inl (ErrGit what), co'))"

definition is_clean_exit :: "cmd_exit \<Rightarrow> bool" where
  "is_clean_exit x \<longleftrightarrow> x = ExitStatus 1"

definition last_non_empty_line :: "string \<Rightarrow> string" where
  "last_non_empty_line s =
     (case filter (\<lambda>l. l \<noteq> []) (map trim_space (rev (split_char (CHR 0x0A) (trim_right (\<lambda>c. c = CHR 0x0A) s)))) of
        [] \<Rightarrow> [] | l # _ \<Rightarrow> l)"

text \<open>The file calls.\<close>

definition host_path :: "'g git_host \<Rightarrow> string \<Rightarrow> string list" where
  "host_path gi p = elements_from (gi_cwd gi) p"

definition file_exists :: "'g git_host \<Rightarrow> string \<Rightarrow> 'g checkout \<Rightarrow> bool" where
  "file_exists gi p co \<longleftrightarrow>
     \<not> gi_file_error gi FileStat p co \<and> (co_files co (host_path gi p) \<noteq> None \<or> host_path gi p \<in> set (co_dirs co))"

datatype read_result = ReadOk string | ReadMissing | ReadFailed

definition read_file :: "'g git_host \<Rightarrow> string \<Rightarrow> 'g checkout \<Rightarrow> read_result" where
  "read_file gi p co =
     (if gi_file_error gi FileRead p co then ReadFailed
      else case co_files co (host_path gi p) of
        Some data \<Rightarrow> ReadOk data
      | None \<Rightarrow> if host_path gi p \<in> set (co_dirs co) then ReadFailed else ReadMissing)"

definition make_dirs :: "'g git_host \<Rightarrow> string \<Rightarrow> 'g checkout \<Rightarrow> 'g checkout option" where
  "make_dirs gi p co =
     (if gi_file_error gi FileMkdirAll p co then None
      else Some (co\<lparr>co_dirs := ancestors [] (host_path gi p) @ co_dirs co\<rparr>))"

text \<open>Opening for appending creates the file; the write may fail after that.\<close>

definition append_file :: "'g git_host \<Rightarrow> string \<Rightarrow> string \<Rightarrow> 'g checkout \<Rightarrow> (unit, 'g) git_result" where
  "append_file gi p text co =
     (if gi_file_error gi FileOpen p co then (Inl (ErrGit ''open exclude file''), co)
      else
        (let el = host_path gi p;
             data = (case co_files co el of Some d \<Rightarrow> d | None \<Rightarrow> []);
             co1 = co\<lparr>co_files := (co_files co)(el \<mapsto> data)\<rparr>
         in if gi_file_error gi FileWrite p co then (Inl (ErrGit ''write exclude file''), co1)
            else (Inr (), co\<lparr>co_files := (co_files co)(el \<mapsto> data @ text)\<rparr>)))"

section \<open>Worktrees (worktree.go)\<close>

definition branch_byte :: "char \<Rightarrow> bool" where
  "branch_byte c \<longleftrightarrow> ascii_alnum c \<or> c = CHR ''-''"

text \<open>\<open>branchRe\<close>.\<close>

definition styr_branch :: "string \<Rightarrow> bool" where
  "styr_branch b \<longleftrightarrow>
     (case cut_prefix b ''styr/'' of
        None \<Rightarrow> False
      | Some name \<Rightarrow> 1 \<le> length name \<and> length name \<le> 60 \<and> list_all branch_byte name)"

definition current_branch :: "'g git_host \<Rightarrow> repo \<Rightarrow> 'g checkout \<Rightarrow> (string, 'g) git_result" where
  "current_branch gi r co =
     (case checked_git gi (rp_path r) (host_env gi (rp_env r)) ''current branch''
        [''rev-parse'', ''--abbrev-ref'', ''HEAD''] co of
        (Inl e, co1) \<Rightarrow> (Inl e, co1)
      | (Inr out, co1) \<Rightarrow> (Inr (trim_space out), co1))"

definition exclude_entry :: string where "exclude_entry = ''.styr/''"

definition exclude_path :: "repo \<Rightarrow> string" where
  "exclude_path r = go_join [rp_path r, ''.git'', ''info'', ''exclude'']"

definition exclude_styr_dir :: "'g git_host \<Rightarrow> repo \<Rightarrow> 'g checkout \<Rightarrow> (unit, 'g) git_result" where
  "exclude_styr_dir gi r co =
     (case make_dirs gi (go_join [exclude_path r, ''..'']) co of
        None \<Rightarrow> (Inl (ErrGit ''create git info dir''), co)
      | Some co1 \<Rightarrow>
          (case read_file gi (exclude_path r) co1 of
             ReadFailed \<Rightarrow> (Inl (ErrGit ''read exclude file''), co1)
           | reading \<Rightarrow>
               (let data = (case reading of ReadOk d \<Rightarrow> d | _ \<Rightarrow> [])
                in if list_ex (\<lambda>line. trim_space line = exclude_entry) (split_char (CHR 0x0A) data) then (Inr (), co1)
                   else (let prefix = (if data \<noteq> [] \<and> last data \<noteq> CHR 0x0A then [CHR 0x0A] else [])
                         in append_file gi (exclude_path r) (prefix @ exclude_entry @ [CHR 0x0A]) co1))))"

definition add_worktree ::
  "'g git_host \<Rightarrow> repo \<Rightarrow> string \<Rightarrow> string \<Rightarrow> string \<Rightarrow> 'g checkout \<Rightarrow> (unit, 'g) git_result" where
  "add_worktree gi r dir branch base co =
     (if \<not> styr_branch branch then (Inl ErrInvalidBranch, co)
      else case checked_git gi (rp_path r) (host_env gi (rp_env r)) ''add worktree''
        [''worktree'', ''add'', ''-b'', branch, dir, if base = [] then ''HEAD'' else base] co of
        (Inl e, co1) \<Rightarrow> (Inl e, co1)
      | (Inr _, co1) \<Rightarrow> exclude_styr_dir gi r co1)"

text \<open>\<open>git worktree list --porcelain\<close>: the entries so far and the one being read.\<close>

type_synonym worktree_entry = "string \<times> string"

definition flush_entry :: "worktree_entry list \<times> worktree_entry \<Rightarrow> worktree_entry list \<times> worktree_entry" where
  "flush_entry s = (case s of (entries, cur) \<Rightarrow> (if fst cur \<noteq> [] then entries @ [cur] else entries, ([], [])))"

definition worktree_line :: "worktree_entry list \<times> worktree_entry \<Rightarrow> string \<Rightarrow> worktree_entry list \<times> worktree_entry" where
  "worktree_line s line =
     (case cut_prefix line ''worktree '' of
        Some p \<Rightarrow> (let (entries, cur) = flush_entry s in (entries, (p, snd cur)))
      | None \<Rightarrow>
          (case cut_prefix line ''branch '' of
             Some b \<Rightarrow> (fst s, (fst (snd s), trim_prefix b ''refs/heads/''))
           | None \<Rightarrow> if line = [] then flush_entry s else s))"

definition parse_worktrees :: "string \<Rightarrow> worktree_entry list" where
  "parse_worktrees out = fst (flush_entry (foldl worktree_line ([], ([], [])) (split_char (CHR 0x0A) out)))"

definition list_worktrees :: "'g git_host \<Rightarrow> repo \<Rightarrow> string list \<Rightarrow> 'g checkout \<Rightarrow> (worktree_entry list, 'g) git_result" where
  "list_worktrees gi r env co =
     (case checked_git gi (rp_path r) env ''worktree list'' [''worktree'', ''list'', ''--porcelain''] co of
        (Inl e, co1) \<Rightarrow> (Inl e, co1)
      | (Inr out, co1) \<Rightarrow> (Inr (parse_worktrees out), co1))"

definition worktree_branch :: "'g git_host \<Rightarrow> repo \<Rightarrow> string list \<Rightarrow> string \<Rightarrow> 'g checkout \<Rightarrow> (string, 'g) git_result" where
  "worktree_branch gi r env dir co =
     (case list_worktrees gi r env co of
        (Inl e, co1) \<Rightarrow> (Inl e, co1)
      | (Inr entries, co1) \<Rightarrow>
          (Inr (case find (\<lambda>e. host_path gi (fst e) = host_path gi dir) entries of None \<Rightarrow> [] | Some e \<Rightarrow> snd e), co1))"

definition worktree_info :: "'g git_host \<Rightarrow> repo \<Rightarrow> string \<Rightarrow> 'g checkout \<Rightarrow> (worktree, 'g) git_result" where
  "worktree_info gi r dir co =
     (case worktree_branch gi r (host_env gi (rp_env r)) dir co of
        (Inl e, co1) \<Rightarrow> (Inl e, co1)
      | (Inr branch, co1) \<Rightarrow>
          (if branch = [] then (Inl ErrNotWorktree, co1)
           else (Inr \<lparr>wt_path = dir, wt_branch = branch, wt_base = [], wt_env = None\<rparr>, co1)))"

definition remove_worktree :: "'g git_host \<Rightarrow> repo \<Rightarrow> string \<Rightarrow> bool \<Rightarrow> 'g checkout \<Rightarrow> (unit, 'g) git_result" where
  "remove_worktree gi r dir delete_branch co =
     (let env = host_env gi (rp_env r);
          (looked, co1) = worktree_branch gi r env dir co;
          branch = (case looked of Inl _ \<Rightarrow> [] | Inr b \<Rightarrow> b)
      in case (if file_exists gi dir co1
               then checked_git gi (rp_path r) env ''remove worktree'' [''worktree'', ''remove'', ''--force'', dir] co1
               else (Inr [], co1)) of
           (Inl e, co2) \<Rightarrow> (Inl e, co2)
         | (Inr _, co2) \<Rightarrow>
             (case (if delete_branch \<and> branch \<noteq> []
                    then checked_git gi (rp_path r) env (''delete branch '' @ branch) [''branch'', ''-D'', branch] co2
                    else (Inr [], co2)) of
                (Inl e, co3) \<Rightarrow> (Inl e, co3)
              | (Inr _, co3) \<Rightarrow> (Inr (), snd (git_cmd gi (rp_path r) env [''worktree'', ''prune''] co3))))"

section \<open>Status and summary (status.go)\<close>

record status_entry =
  sn_x :: char
  sn_y :: char
  sn_path :: string
  sn_orig :: string

definition renamed :: "char \<Rightarrow> char \<Rightarrow> bool" where
  "renamed x y \<longleftrightarrow> x = CHR ''R'' \<or> x = CHR ''C'' \<or> y = CHR ''R'' \<or> y = CHR ''C''"

fun status_entries :: "string list \<Rightarrow> status_entry list" where
  "status_entries [] = []"
| "status_entries (tok # toks) =
     (if length tok < 3 then status_entries toks
      else
        (let e = \<lparr>sn_x = tok ! 0, sn_y = tok ! 1, sn_path = drop 3 tok, sn_orig = []\<rparr>
         in if renamed (sn_x e) (sn_y e)
            then (case toks of [] \<Rightarrow> [e] | o1 # rest \<Rightarrow> e\<lparr>sn_orig := o1\<rparr> # status_entries rest)
            else e # status_entries toks))"

definition parse_status :: "string \<Rightarrow> status_entry list" where
  "parse_status out = status_entries (split_char (CHR 0x00) (trim_right (\<lambda>c. c = CHR 0x00) out))"

definition git_status :: "'g git_host \<Rightarrow> worktree \<Rightarrow> 'g checkout \<Rightarrow> (status_entry list, 'g) git_result" where
  "git_status gi wt co =
     (case checked_git gi (wt_path wt) (host_env gi (wt_env wt)) ''status'' [''status'', ''--porcelain=v1'', ''-z''] co of
        (Inl e, co1) \<Rightarrow> (Inl e, co1)
      | (Inr out, co1) \<Rightarrow> (Inr (parse_status out), co1))"

definition untracked :: "status_entry \<Rightarrow> bool" where
  "untracked e \<longleftrightarrow> sn_x e = CHR ''?'' \<and> sn_y e = CHR ''?''"

record file_change =
  fc_path :: string
  fc_old :: string
  fc_status :: char
  fc_add :: int
  fc_del :: int

record summary =
  sy_files :: "file_change list"
  sy_add :: int
  sy_del :: int

definition parse_count :: "string \<Rightarrow> int" where
  "parse_count s = (case parse_int s of None \<Rightarrow> 0 | Some n \<Rightarrow> n)"

definition split_rename :: "string \<Rightarrow> string \<times> string" where
  "split_rename field =
     (let braces =
        (case index_of field ''{'' of
           None \<Rightarrow> None
         | Some i \<Rightarrow>
             (case index_of (drop i field) ''}'' of
                None \<Rightarrow> None
              | Some k \<Rightarrow>
                  (let prefix = take i field; inner = drop (i + 1) (take (i + k) field); suffix = drop (i + k + 1) field
                   in case split_two inner '' => '' of
                        [old, new] \<Rightarrow> Some (prefix @ old @ suffix, prefix @ new @ suffix)
                      | _ \<Rightarrow> None)))
      in case braces of
           Some p \<Rightarrow> p
         | None \<Rightarrow> (case split_two field '' => '' of [old, new] \<Rightarrow> (old, new) | _ \<Rightarrow> (field, field)))"

definition exists_at_ref ::
  "'g git_host \<Rightarrow> worktree \<Rightarrow> string list \<Rightarrow> string \<Rightarrow> string \<Rightarrow> 'g checkout \<Rightarrow> bool \<times> 'g checkout" where
  "exists_at_ref gi wt env ref path co =
     (let ((_, _, x), co1) = git_cmd gi (wt_path wt) env [''cat-file'', ''-e'', ref @ '':'' @ path] co in (x = ExitOk, co1))"

definition parse_numstat_line ::
  "'g git_host \<Rightarrow> worktree \<Rightarrow> string list \<Rightarrow> string \<Rightarrow> 'g checkout \<Rightarrow> (file_change, 'g) git_result" where
  "parse_numstat_line gi wt env line co =
     (case split_three line [CHR 0x09] of
        [a, d, name] \<Rightarrow>
          (if index_of name '' => '' \<noteq> None
           then (let (old, cur) = split_rename name
                 in (Inr \<lparr>fc_path = cur, fc_old = old, fc_status = CHR ''R'', fc_add = parse_count a, fc_del = parse_count d\<rparr>, co))
           else
             (let (old_exists, co1) = exists_at_ref gi wt env (wt_base wt) name co;
                  new_exists = file_exists gi (go_join [wt_path wt, name]) co1;
                  st = (if \<not> old_exists \<and> new_exists then CHR ''A'' else if old_exists \<and> \<not> new_exists then CHR ''D'' else CHR ''M'')
              in (Inr \<lparr>fc_path = name, fc_old = [], fc_status = st, fc_add = parse_count a, fc_del = parse_count d\<rparr>, co1)))
      | _ \<Rightarrow> (Inl (ErrGit ''unexpected numstat line''), co))"

definition add_change :: "summary \<Rightarrow> file_change \<Rightarrow> summary" where
  "add_change s fc = s\<lparr>sy_files := sy_files s @ [fc], sy_add := sy_add s + fc_add fc, sy_del := sy_del s + fc_del fc\<rparr>"

fun summarise_lines ::
  "'g git_host \<Rightarrow> worktree \<Rightarrow> string list \<Rightarrow> string list \<Rightarrow> summary \<Rightarrow> 'g checkout \<Rightarrow> (summary, 'g) git_result" where
  "summarise_lines gi wt env [] s co = (Inr s, co)"
| "summarise_lines gi wt env (line # lines) s co =
     (if line = [] then summarise_lines gi wt env lines s co
      else case parse_numstat_line gi wt env line co of
        (Inl e, co1) \<Rightarrow> (Inl e, co1)
      | (Inr fc, co1) \<Rightarrow> summarise_lines gi wt env lines (add_change s fc) co1)"

definition count_newlines :: "string \<Rightarrow> nat" where
  "count_newlines data =
     (if data = [] then 0
      else let n = length (filter (\<lambda>c. c = CHR 0x0A) data) in if last data \<noteq> CHR 0x0A then n + 1 else n)"

definition count_lines :: "'g git_host \<Rightarrow> string \<Rightarrow> 'g checkout \<Rightarrow> nat option" where
  "count_lines gi p co = (case read_file gi p co of ReadOk data \<Rightarrow> Some (count_newlines data) | _ \<Rightarrow> None)"

text \<open>An untracked file counts its lines as additions; one that cannot be read is skipped.\<close>

definition summarise_untracked :: "'g git_host \<Rightarrow> worktree \<Rightarrow> 'g checkout \<Rightarrow> summary \<Rightarrow> status_entry \<Rightarrow> summary" where
  "summarise_untracked gi wt co s e =
     (if \<not> untracked e then s
      else case count_lines gi (go_join [wt_path wt, sn_path e]) co of
        None \<Rightarrow> s
      | Some n \<Rightarrow> add_change s \<lparr>fc_path = sn_path e, fc_old = [], fc_status = CHR ''A'', fc_add = int n, fc_del = 0\<rparr>)"

definition diff_summary :: "'g git_host \<Rightarrow> worktree \<Rightarrow> 'g checkout \<Rightarrow> (summary, 'g) git_result" where
  "diff_summary gi wt co =
     (let env = host_env gi (wt_env wt)
      in case checked_git gi (wt_path wt) env ''diff summary'' [''diff'', ''--numstat'', ''-M'', ''--no-color'', wt_base wt] co of
           (Inl e, co1) \<Rightarrow> (Inl e, co1)
         | (Inr out, co1) \<Rightarrow>
             (case summarise_lines gi wt env (split_char (CHR 0x0A) (trim_right (\<lambda>c. c = CHR 0x0A) out))
                \<lparr>sy_files = [], sy_add = 0, sy_del = 0\<rparr> co1 of
                (Inl e, co2) \<Rightarrow> (Inl e, co2)
              | (Inr s, co2) \<Rightarrow>
                  (case git_status gi wt co2 of
                     (Inl e, co3) \<Rightarrow> (Inl e, co3)
                   | (Inr entries, co3) \<Rightarrow> (Inr (foldl (summarise_untracked gi wt co3) s entries), co3))))"

section \<open>Diffs (diff.go)\<close>

datatype line_type = LineContext | LineAdd | LineDel

record diff_line =
  ln_type :: line_type
  ln_old :: int
  ln_new :: int
  ln_text :: string

record hunk =
  hk_old_start :: int
  hk_old_lines :: int
  hk_new_start :: int
  hk_new_lines :: int
  hk_lines :: "diff_line list"

record file_diff =
  fd_path :: string
  fd_old :: string
  fd_status :: char
  fd_binary :: bool
  fd_truncated :: bool
  fd_hunks :: "hunk list"

text \<open>\<open>hunkHeaderRe\<close>: the four groups, an absent one empty.\<close>

definition hunk_range :: "string \<Rightarrow> (string \<times> string \<times> string) option" where
  "hunk_range s =
     (let a = takeWhile decimal_digit s; r = dropWhile decimal_digit s
      in if a = [] then None
         else case r of
           [] \<Rightarrow> Some (a, [], r)
         | c # r' \<Rightarrow>
             (if c = CHR '','' \<and> takeWhile decimal_digit r' \<noteq> []
              then Some (a, takeWhile decimal_digit r', dropWhile decimal_digit r')
              else Some (a, [], r)))"

definition hunk_header :: "string \<Rightarrow> (string \<times> string \<times> string \<times> string) option" where
  "hunk_header line =
     (case cut_prefix line ''@@ -'' of None \<Rightarrow> None | Some s \<Rightarrow>
     (case hunk_range s of None \<Rightarrow> None | Some (a, b, r) \<Rightarrow>
     (case cut_prefix r '' +'' of None \<Rightarrow> None | Some s2 \<Rightarrow>
     (case hunk_range s2 of None \<Rightarrow> None | Some (c, d, r2) \<Rightarrow>
      if has_prefix r2 '' @@'' then Some (a, b, c, d) else None))))"

definition atoi_default :: "string \<Rightarrow> int \<Rightarrow> int" where
  "atoi_default s def = (if s = [] then def else case parse_int s of None \<Rightarrow> def | Some n \<Rightarrow> n)"

text \<open>The parser's state: the diff, and, once a hunk is open, the next line numbers.\<close>

type_synonym diff_state = "file_diff \<times> (int \<times> int) option"

definition push_line :: "diff_line \<Rightarrow> file_diff \<Rightarrow> file_diff" where
  "push_line l fd =
     fd\<lparr>fd_hunks := butlast (fd_hunks fd) @ [(last (fd_hunks fd))\<lparr>hk_lines := hk_lines (last (fd_hunks fd)) @ [l]\<rparr>]\<rparr>"

definition hunk_line :: "string \<Rightarrow> int \<times> int \<Rightarrow> file_diff \<Rightarrow> diff_state" where
  "hunk_line line nos fd =
     (let (o1, n1) = nos
      in case line of
           [] \<Rightarrow> (fd, Some nos)
         | c # text \<Rightarrow>
             (if c = CHR '' '' then
                (push_line \<lparr>ln_type = LineContext, ln_old = o1, ln_new = n1, ln_text = text\<rparr> fd, Some (o1 + 1, n1 + 1))
              else if c = CHR ''+'' then
                (push_line \<lparr>ln_type = LineAdd, ln_old = 0, ln_new = n1, ln_text = text\<rparr> fd, Some (o1, n1 + 1))
              else if c = CHR ''-'' then
                (push_line \<lparr>ln_type = LineDel, ln_old = o1, ln_new = 0, ln_text = text\<rparr> fd, Some (o1 + 1, n1))
              else (fd, Some nos)))"

definition diff_step :: "diff_state \<Rightarrow> string \<Rightarrow> diff_state" where
  "diff_step st line =
     (let (fd, cur) = st
      in if has_prefix line ''rename from ''
         then (fd\<lparr>fd_old := trim_prefix line ''rename from '', fd_status := CHR ''R''\<rparr>, cur)
         else if has_prefix line ''rename to '' then (fd\<lparr>fd_path := trim_prefix line ''rename to ''\<rparr>, cur)
         else if has_prefix line ''new file mode'' then (fd\<lparr>fd_status := CHR ''A''\<rparr>, cur)
         else if has_prefix line ''deleted file mode'' then (fd\<lparr>fd_status := CHR ''D''\<rparr>, cur)
         else if has_prefix line ''Binary files '' \<and> has_suffix line '' differ'' then (fd\<lparr>fd_binary := True\<rparr>, cur)
         else if has_prefix line ''@@ '' then
           (case hunk_header line of
              None \<Rightarrow> (fd, cur)
            | Some (a, b, c, d) \<Rightarrow>
                (let h = \<lparr>hk_old_start = atoi_default a 0, hk_old_lines = atoi_default b 1,
                       hk_new_start = atoi_default c 0, hk_new_lines = atoi_default d 1, hk_lines = []\<rparr>
                 in (fd\<lparr>fd_hunks := fd_hunks fd @ [h]\<rparr>, Some (hk_old_start h, hk_new_start h))))
         else case cur of
           None \<Rightarrow> st
         | Some nos \<Rightarrow> hunk_line line nos fd)"

definition parse_unified_diff :: "string \<Rightarrow> string \<Rightarrow> file_diff" where
  "parse_unified_diff path out =
     fst (foldl diff_step
       (\<lparr>fd_path = path, fd_old = [], fd_status = CHR ''M'', fd_binary = False, fd_truncated = False, fd_hunks = []\<rparr>, None)
       (split_char (CHR 0x0A) out))"

definition split_lines :: "string \<Rightarrow> string list" where
  "split_lines data =
     (if data = [] then []
      else let lines = split_char (CHR 0x0A) data in if last lines = [] then butlast lines else lines)"

fun number_lines :: "int \<Rightarrow> string list \<Rightarrow> diff_line list" where
  "number_lines n [] = []"
| "number_lines n (l # ls) = \<lparr>ln_type = LineAdd, ln_old = 0, ln_new = n, ln_text = l\<rparr> # number_lines (n + 1) ls"

definition untracked_diff :: "string \<Rightarrow> string \<Rightarrow> file_diff" where
  "untracked_diff path data =
     (let fd = \<lparr>fd_path = path, fd_old = [], fd_status = CHR ''A'', fd_binary = False, fd_truncated = False, fd_hunks = []\<rparr>
      in if CHR 0x00 \<in> set (take 8192 data) then fd\<lparr>fd_binary := True\<rparr>
         else
           (let (data', fd') = (if max_diff_bytes < length data then (take max_diff_bytes data, fd\<lparr>fd_truncated := True\<rparr>) else (data, fd));
                lines = split_lines data'
            in if lines = [] then fd'
               else fd'\<lparr>fd_hunks := [\<lparr>hk_old_start = 0, hk_old_lines = 0, hk_new_start = 1, hk_new_lines = int (length lines),
                      hk_lines = number_lines 1 lines\<rparr>]\<rparr>))"

definition untracked_file_diff :: "'g git_host \<Rightarrow> worktree \<Rightarrow> string \<Rightarrow> 'g checkout \<Rightarrow> git_error + file_diff" where
  "untracked_file_diff gi wt path co =
     (case read_file gi (go_join [wt_path wt, path]) co of
        ReadOk data \<Rightarrow> Inr (untracked_diff path data)
      | _ \<Rightarrow> Inl (ErrGit ''read untracked file''))"

definition git_file_diff :: "'g git_host \<Rightarrow> worktree \<Rightarrow> string \<Rightarrow> 'g checkout \<Rightarrow> (file_diff, 'g) git_result" where
  "git_file_diff gi wt path co =
     (case git_status gi wt co of
        (Inl e, co1) \<Rightarrow> (Inl e, co1)
      | (Inr entries, co1) \<Rightarrow>
          (if list_ex (\<lambda>e. untracked e \<and> sn_path e = path) entries then (untracked_file_diff gi wt path co1, co1)
           else case checked_git gi (wt_path wt) (host_env gi (wt_env wt)) ''file diff''
             [''diff'', ''-M'', ''--no-color'', ''-U3'', wt_base wt, ''--'', path] co1 of
             (Inl e, co2) \<Rightarrow> (Inl e, co2)
           | (Inr out, co2) \<Rightarrow>
               (if max_diff_bytes < length out
                then (Inr ((parse_unified_diff path (take max_diff_bytes out))\<lparr>fd_truncated := True\<rparr>), co2)
                else (Inr (parse_unified_diff path out), co2))))"

section \<open>Checkpoints and commits (checkpoint.go)\<close>

definition checkpoint_prefix :: string where "checkpoint_prefix = ''styr: checkpoint''"

definition head_sha :: "'g git_host \<Rightarrow> worktree \<Rightarrow> string list \<Rightarrow> 'g checkout \<Rightarrow> (string, 'g) git_result" where
  "head_sha gi wt env co =
     (case checked_git gi (wt_path wt) env ''head sha'' [''rev-parse'', ''HEAD''] co of
        (Inl e, co1) \<Rightarrow> (Inl e, co1)
      | (Inr out, co1) \<Rightarrow> (Inr (trim_space out), co1))"

definition git_checkpoint :: "'g git_host \<Rightarrow> worktree \<Rightarrow> string \<Rightarrow> 'g checkout \<Rightarrow> (string \<times> bool, 'g) git_result" where
  "git_checkpoint gi wt message co =
     (let env = host_env gi (wt_env wt)
      in case checked_git gi (wt_path wt) env ''checkpoint add'' [''add'', ''-A''] co of
           (Inl e, co1) \<Rightarrow> (Inl e, co1)
         | (Inr _, co1) \<Rightarrow>
             (let ((_, _, x), co2) = git_cmd gi (wt_path wt) env [''diff'', ''--cached'', ''--quiet''] co1
              in if x = ExitOk then
                   (case head_sha gi wt env co2 of (Inl e, co3) \<Rightarrow> (Inl e, co3) | (Inr sha, co3) \<Rightarrow> (Inr (sha, False), co3))
                 else if \<not> is_clean_exit x then (Inl (ErrGit ''checkpoint diff --cached''), co2)
                 else case checked_git gi (wt_path wt) env ''checkpoint commit''
                   [''-c'', ''user.name=Styr'', ''-c'', ''user.email=styr@local'', ''commit'', ''--no-verify'', ''-q'', ''-m'', message] co2 of
                   (Inl e, co3) \<Rightarrow> (Inl e, co3)
                 | (Inr _, co3) \<Rightarrow>
                     (case head_sha gi wt env co3 of (Inl e, co4) \<Rightarrow> (Inl e, co4) | (Inr sha, co4) \<Rightarrow> (Inr (sha, True), co4))))"

record git_commit =
  cm_sha :: string
  cm_subject :: string
  cm_date :: "time option"

definition parse_log_line :: "'g git_host \<Rightarrow> string \<Rightarrow> git_commit list" where
  "parse_log_line gi line =
     (if line = [] then []
      else case split_three line [CHR 0x00] of
        [sha, subject, date] \<Rightarrow> [\<lparr>cm_sha = sha, cm_subject = subject, cm_date = gi_time gi date\<rparr>]
      | _ \<Rightarrow> [])"

definition git_log :: "'g git_host \<Rightarrow> worktree \<Rightarrow> string \<Rightarrow> 'g checkout \<Rightarrow> (git_commit list, 'g) git_result" where
  "git_log gi wt since co =
     (let from = (if since = [] then wt_base wt else since)
      in case checked_git gi (wt_path wt) (host_env gi (wt_env wt)) ''log''
           [''log'', ''--format=%H%x00%s%x00%cI'', from @ ''..HEAD''] co of
           (Inl e, co1) \<Rightarrow> (Inl e, co1)
         | (Inr out, co1) \<Rightarrow>
             (Inr (concat (map (parse_log_line gi) (split_char (CHR 0x0A) (trim_right (\<lambda>c. c = CHR 0x0A) out)))), co1))"

definition git_rewind :: "'g git_host \<Rightarrow> worktree \<Rightarrow> string \<Rightarrow> 'g checkout \<Rightarrow> (unit, 'g) git_result" where
  "git_rewind gi wt sha co =
     (let env = host_env gi (wt_env wt);
          ((_, _, x), co1) = git_cmd gi (wt_path wt) env [''merge-base'', ''--is-ancestor'', sha, ''HEAD''] co
      in if x \<noteq> ExitOk then (Inl ErrNotAncestor, co1)
         else case checked_git gi (wt_path wt) env ''rewind reset'' [''reset'', ''--hard'', sha] co1 of
           (Inl e, co2) \<Rightarrow> (Inl e, co2)
         | (Inr _, co2) \<Rightarrow>
             (case checked_git gi (wt_path wt) env ''rewind clean'' [''clean'', ''-fd''] co2 of
                (Inl e, co3) \<Rightarrow> (Inl e, co3)
              | (Inr _, co3) \<Rightarrow> (Inr (), co3)))"

text \<open>The second half of \<open>Commit\<close>: stage everything and commit it as the author.\<close>

definition commit_staged :: "'g git_host \<Rightarrow> worktree \<Rightarrow> string \<Rightarrow> author \<Rightarrow> 'g checkout \<Rightarrow> (string, 'g) git_result" where
  "commit_staged gi wt message au co =
     (let env = host_env gi (wt_env wt)
      in case checked_git gi (wt_path wt) env ''commit add'' [''add'', ''-A''] co of
           (Inl e, co1) \<Rightarrow> (Inl e, co1)
         | (Inr _, co1) \<Rightarrow>
             (let ((_, _, x), co2) = git_cmd gi (wt_path wt) env [''diff'', ''--cached'', ''--quiet''] co1
              in if x = ExitOk then (Inl ErrNothingToCommit, co2)
                 else if \<not> is_clean_exit x then (Inl (ErrGit ''commit diff --cached''), co2)
                 else case checked_git gi (wt_path wt) env ''commit''
                   [''-c'', ''user.name='' @ au_name au, ''-c'', ''user.email='' @ au_email au, ''commit'', ''-q'', ''-m'', message] co2 of
                   (Inl e, co3) \<Rightarrow> (Inl e, co3)
                 | (Inr _, co3) \<Rightarrow> head_sha gi wt env co3))"

definition has_checkpoints :: "git_commit list \<Rightarrow> bool" where
  "has_checkpoints commits = list_ex (\<lambda>c. has_prefix (cm_subject c) checkpoint_prefix) commits"

definition commit_worktree :: "'g git_host \<Rightarrow> worktree \<Rightarrow> string \<Rightarrow> author \<Rightarrow> 'g checkout \<Rightarrow> (string, 'g) git_result" where
  "commit_worktree gi wt message au co =
     (case git_log gi wt [] co of
        (Inl e, co1) \<Rightarrow> (Inl e, co1)
      | (Inr commits, co1) \<Rightarrow>
          (case (if has_checkpoints commits
                 then checked_git gi (wt_path wt) (host_env gi (wt_env wt)) ''commit reset --soft''
                   [''reset'', ''--soft'', wt_base wt] co1
                 else (Inr [], co1)) of
             (Inl e, co2) \<Rightarrow> (Inl e, co2)
           | (Inr _, co2) \<Rightarrow> commit_staged gi wt message au co2))"

section \<open>Publishing (remote.go)\<close>

definition git_push :: "'g git_host \<Rightarrow> worktree \<Rightarrow> 'g checkout \<Rightarrow> (unit, 'g) git_result" where
  "git_push gi wt co =
     (let env = host_env gi (wt_env wt)
      in case checked_git gi (wt_path wt) env ''list remotes'' [''remote''] co of
           (Inl e, co1) \<Rightarrow> (Inl e, co1)
         | (Inr out, co1) \<Rightarrow>
             (if trim_space out = [] then (Inl ErrNoRemote, co1)
              else case checked_git gi (wt_path wt) env ''push'' [''push'', ''-u'', ''origin'', wt_branch wt] co1 of
                (Inl e, co2) \<Rightarrow> (Inl e, co2)
              | (Inr _, co2) \<Rightarrow> (Inr (), co2)))"

definition create_pr ::
  "'g git_host \<Rightarrow> worktree \<Rightarrow> string \<Rightarrow> string \<Rightarrow> string \<Rightarrow> 'g checkout \<Rightarrow> (string, 'g) git_result" where
  "create_pr gi wt title body base co =
     (let env = host_env gi (wt_env wt)
      in if look_path gi env ''gh'' = None then (Inl ErrGHUnavailable, co)
         else
           (let ((_, _, x), co1) = run_cmd gi (wt_path wt) env ''gh'' [''auth'', ''status''] co
            in if x \<noteq> ExitOk then (Inl ErrGHUnavailable, co1)
               else
                 (let ((out, _, y), co2) = run_cmd gi (wt_path wt) env ''gh''
                    [''pr'', ''create'', ''--head'', wt_branch wt, ''--base'', base, ''--title'', title, ''--body'', body] co1
                  in if y \<noteq> ExitOk then (Inl (ErrGit ''create pr''), co2)
                     else if last_non_empty_line out = [] then (Inl (ErrGit ''create pr: no url in output''), co2)
                     else (Inr (last_non_empty_line out), co2))))"

definition git_patch :: "'g git_host \<Rightarrow> worktree \<Rightarrow> 'g checkout \<Rightarrow> (string, 'g) git_result" where
  "git_patch gi wt co = checked_git gi (wt_path wt) (host_env gi (wt_env wt)) ''patch'' [''diff'', wt_base wt] co"

end
