(* ===== verification/Review.thy ===== *)
theory Review
  imports Gitops
begin

text \<open>
  The review of a worktree session, \<open>internal/sessions/review.go\<close> and \<open>review_actions.go\<close>, with the repository
  \<open>db/review_comments.go\<close>: its diff, the comments that become the next message, and the actions that change the
  repository. The users repository is the field \<open>rv_users\<close>, a display name and an email per user.
\<close>

section \<open>Review comments (db/review_comments.go)\<close>

definition comments_create :: "review_comment \<Rightarrow> world \<Rightarrow> unit result" where
  "comments_create c w =
     (if rc_id c \<in> rc_id ` set (wd_comments w) then (Inl (ErrConflict []), w)
      else if \<not> fk se_id (wd_sessions w) (Some (rc_session c)) then (Inl ErrForeignKey, w)
      else (Inr (), w\<lparr>wd_comments := wd_comments w @ [c]\<rparr>))"

definition comments_list :: "id \<Rightarrow> world \<Rightarrow> review_comment list" where
  "comments_list sid w = order_asc rc_created (sort_key rc_id (filter (\<lambda>c. rc_session c = sid) (wd_comments w)))"

definition comments_mark_sent :: "id list \<Rightarrow> world \<Rightarrow> world" where
  "comments_mark_sent ids w =
     (if ids = [] then w
      else w\<lparr>wd_comments := map (\<lambda>c. if rc_sent c = None \<and> rc_id c \<in> set ids then c\<lparr>rc_sent := Some (wd_now w)\<rparr> else c) (wd_comments w)\<rparr>)"

definition comments_delete :: "id \<Rightarrow> id \<Rightarrow> world \<Rightarrow> unit result" where
  "comments_delete i sid w =
     (if list_ex (\<lambda>c. rc_id c = i \<and> rc_session c = sid) (wd_comments w)
      then (Inr (), w\<lparr>wd_comments := filter (\<lambda>c. \<not> (rc_id c = i \<and> rc_session c = sid)) (wd_comments w)\<rparr>)
      else (Inl ErrNotFound, w))"

section \<open>The service\<close>

record 'g review_service =
  rv_sessions :: session_service
  rv_host :: "'g git_host"
  rv_users :: "(id \<Rightarrow> (string \<times> string) option) option"

type_synonym ('a, 'g) review_result = "(error + 'a) \<times> 'g checkout \<times> world"

definition err_no_worktree :: error where "err_no_worktree = ErrInvalid ''session has no worktree''"
definition still_working :: error where "still_working = ErrConflict ''the session is still working''"

text \<open>The text of an error of the git commands; the prefixes of wrapped errors are left out.\<close>

definition git_failure :: "git_error \<Rightarrow> error" where
  "git_failure e = (case e of ErrGit what \<Rightarrow> ErrOther what | ErrNothingToCommit \<Rightarrow> ErrOther ''nothing to commit''
     | ErrNoRemote \<Rightarrow> ErrOther ''no remote configured'' | ErrGHUnavailable \<Rightarrow> ErrOther ''gh is not available''
     | ErrNotAncestor \<Rightarrow> ErrOther ''not an ancestor'' | ErrInvalidBranch \<Rightarrow> ErrOther ''invalid branch name''
     | ErrNotWorktree \<Rightarrow> ErrOther ''not a registered worktree'')"

definition worktree_of :: "session \<Rightarrow> worktree" where
  "worktree_of s = \<lparr>wt_path = se_worktree s, wt_branch = se_branch s, wt_base = se_base_ref s, wt_env = None\<rparr>"

definition repo_for :: "workspace \<Rightarrow> repo" where
  "repo_for ws = \<lparr>rp_path = ws_path ws, rp_env = None\<rparr>"

definition review_target :: "actor \<Rightarrow> id \<Rightarrow> world \<Rightarrow> error + session \<times> worktree" where
  "review_target a i w =
     (case get_session a i w of
        Inl e \<Rightarrow> Inl e
      | Inr s \<Rightarrow> if se_worktree s = [] then Inl err_no_worktree else Inr (s, worktree_of s))"

section \<open>Diffs\<close>

record review_file =
  rf_path :: string
  rf_old :: string
  rf_status :: char
  rf_add :: int
  rf_del :: int
  rf_binary :: bool

record review_diff =
  rd_base :: string
  rd_branch :: string
  rd_files :: "review_file list"
  rd_add :: int
  rd_del :: int
  rd_dirty :: bool

text \<open>A file of the summary, looked at again when it may be binary.\<close>

fun review_files ::
  "'g git_host \<Rightarrow> worktree \<Rightarrow> file_change list \<Rightarrow> status_entry list \<Rightarrow> 'g checkout \<Rightarrow> review_file list \<times> 'g checkout" where
  "review_files gi wt [] st co = ([], co)"
| "review_files gi wt (f # fs) st co =
     (let (bin, co1) =
        (if list_ex (\<lambda>e. untracked e \<and> sn_path e = fc_path f) st \<or> fc_add f = 0 \<and> fc_del f = 0
         then (case git_file_diff gi wt (fc_path f) co of (Inl e, c) \<Rightarrow> (False, c) | (Inr fd, c) \<Rightarrow> (fd_binary fd, c))
         else (False, co));
          (rest, co2) = review_files gi wt fs st co1
      in (\<lparr>rf_path = fc_path f, rf_old = fc_old f, rf_status = fc_status f, rf_add = fc_add f, rf_del = fc_del f,
           rf_binary = bin\<rparr> # rest, co2))"

definition review_summary :: "'g review_service \<Rightarrow> actor \<Rightarrow> id \<Rightarrow> 'g checkout \<Rightarrow> world \<Rightarrow> (error + review_diff) \<times> 'g checkout" where
  "review_summary rv a i co w =
     (case review_target a i w of Inl e \<Rightarrow> (Inl e, co) | Inr (s, wt) \<Rightarrow>
     (case diff_summary (rv_host rv) wt co of (Inl e, co1) \<Rightarrow> (Inl (git_failure e), co1) | (Inr smry, co1) \<Rightarrow>
     (case git_status (rv_host rv) wt co1 of (Inl e, co2) \<Rightarrow> (Inl (git_failure e), co2) | (Inr st, co2) \<Rightarrow>
        (let (files, co3) = review_files (rv_host rv) wt (sy_files smry) st co2
         in (Inr \<lparr>rd_base = se_base_ref s, rd_branch = se_branch s, rd_files = files, rd_add = sy_add smry,
               rd_del = sy_del smry, rd_dirty = (st \<noteq> [])\<rparr>, co3)))))"

definition review_file_diff :: "'g review_service \<Rightarrow> actor \<Rightarrow> id \<Rightarrow> string \<Rightarrow> 'g checkout \<Rightarrow> world \<Rightarrow> (error + file_diff) \<times> 'g checkout" where
  "review_file_diff rv a i path co w =
     (case review_target a i w of Inl e \<Rightarrow> (Inl e, co) | Inr (s, wt) \<Rightarrow>
      if path = [] then (Inl (ErrInvalid ''path is required''), co)
      else case git_file_diff (rv_host rv) wt path co of
        (Inl e, co1) \<Rightarrow> (Inl (git_failure e), co1)
      | (Inr fd, co1) \<Rightarrow> (Inr fd, co1))"

definition review_patch :: "'g review_service \<Rightarrow> actor \<Rightarrow> id \<Rightarrow> 'g checkout \<Rightarrow> world \<Rightarrow> (error + string) \<times> 'g checkout" where
  "review_patch rv a i co w =
     (case review_target a i w of Inl e \<Rightarrow> (Inl e, co) | Inr (s, wt) \<Rightarrow>
     (case git_patch (rv_host rv) wt co of
        (Inl e, co1) \<Rightarrow> (Inl (git_failure e), co1)
      | (Inr p, co1) \<Rightarrow> (Inr p, co1)))"

section \<open>Comments\<close>

text \<open>\<open>fillAuthorNames\<close>: a comment and its author's display name or email.\<close>

definition author_of_comment :: "'g review_service \<Rightarrow> review_comment \<Rightarrow> string" where
  "author_of_comment rv c =
     (case rv_users rv of
        None \<Rightarrow> []
      | Some users \<Rightarrow>
          (if rc_author c = [] then []
           else case users (rc_author c) of None \<Rightarrow> [] | Some (name, email) \<Rightarrow> if name = [] then email else name))"

definition review_comments :: "'g review_service \<Rightarrow> actor \<Rightarrow> id \<Rightarrow> world \<Rightarrow> error + (review_comment \<times> string) list" where
  "review_comments rv a i w =
     (case review_target a i w of
        Inl e \<Rightarrow> Inl e
      | Inr _ \<Rightarrow> Inr (map (\<lambda>c. (c, author_of_comment rv c)) (comments_list i w)))"

record comment_input =
  ct_path :: string
  ct_line :: int
  ct_side :: string
  ct_body :: string

definition review_side_of :: "string \<Rightarrow> review_side option" where
  "review_side_of s = (if s = ''old'' then Some ReviewSideOld else if s = ''new'' then Some ReviewSideNew else None)"

definition show_side :: "review_side \<Rightarrow> string" where
  "show_side s = (case s of ReviewSideOld \<Rightarrow> ''old'' | ReviewSideNew \<Rightarrow> ''new'')"

definition add_comment :: "'g review_service \<Rightarrow> actor \<Rightarrow> id \<Rightarrow> comment_input \<Rightarrow> world \<Rightarrow> (review_comment \<times> string) result" where
  "add_comment rv a i inp w =
     (case review_target a i w of Inl e \<Rightarrow> (Inl e, w) | Inr _ \<Rightarrow>
      if ct_path inp = [] then (Inl (ErrInvalid ''path is required''), w)
      else if trim_space (ct_body inp) = [] then (Inl (ErrInvalid ''body is required''), w)
      else case review_side_of (if ct_side inp = [] then ''new'' else ct_side inp) of
        None \<Rightarrow> (Inl (ErrInvalid ''side must be \"old\" or \"new\"''), w)
      | Some side \<Rightarrow>
          (if ct_line inp < 0 then (Inl (ErrInvalid ''line must not be negative''), w)
           else
             (let (u, w1) = new_uuid (ge_uuid (ss_env (rv_sessions rv))) w;
                  c = \<lparr>rc_id = u, rc_session = i, rc_path = ct_path inp, rc_line = ct_line inp, rc_side = side,
                       rc_body = ct_body inp, rc_author = ac_user a, rc_created = wd_now w, rc_sent = None\<rparr>
              in case comments_create c w1 of
                   (Inl e, w2) \<Rightarrow> (Inl e, w2)
                 | (Inr _, w2) \<Rightarrow> (Inr (c, author_of_comment rv c), w2))))"

definition delete_comment :: "actor \<Rightarrow> id \<Rightarrow> id \<Rightarrow> world \<Rightarrow> unit result" where
  "delete_comment a i cid w =
     (case review_target a i w of Inl e \<Rightarrow> (Inl e, w) | Inr _ \<Rightarrow> comments_delete cid i w)"

definition review_heading :: string where
  "review_heading = ''Review comments on your changes (address each, then summarise what you changed):''"

definition format_review :: "review_comment list \<Rightarrow> string" where
  "format_review cs =
     review_heading @
     concat (map (\<lambda>c. [CHR 0x0A] @ ''- '' @ rc_path c @ '':'' @ show_int (rc_line c) @ '' ('' @ show_side (rc_side c) @ ''): '' @ rc_body c) cs)"

definition unsent_comments :: "id \<Rightarrow> world \<Rightarrow> review_comment list" where
  "unsent_comments i w = filter (\<lambda>c. rc_sent c = None) (comments_list i w)"

definition send_review :: "'g review_service \<Rightarrow> actor \<Rightarrow> id \<Rightarrow> world \<Rightarrow> unit result" where
  "send_review rv a i w =
     (case review_target a i w of Inl e \<Rightarrow> (Inl e, w) | Inr _ \<Rightarrow>
      (let unsent = unsent_comments i w
       in if unsent = [] then (Inl (ErrInvalid ''there are no unsent review comments''), w)
          else case send_session (rv_sessions rv) a i (format_review unsent) w of
            (Inl e, w1) \<Rightarrow> (Inl e, w1)
          | (Inr _, w1) \<Rightarrow> (Inr (), comments_mark_sent (map rc_id unsent) w1)))"

definition review_checkpoints :: "actor \<Rightarrow> id \<Rightarrow> world \<Rightarrow> error + checkpoint list" where
  "review_checkpoints a i w =
     (case review_target a i w of Inl e \<Rightarrow> Inl e | Inr _ \<Rightarrow> Inr (checkpoints_list i w))"

section \<open>Actions (review_actions.go)\<close>

definition busy :: "session_state \<Rightarrow> bool" where
  "busy st \<longleftrightarrow> st = SessionRunning \<or> st = SessionWaiting"

definition author_for :: "'g review_service \<Rightarrow> actor \<Rightarrow> author" where
  "author_for rv a =
     (let styr = \<lparr>au_name = ''Styr'', au_email = ''styr@local''\<rparr>
      in case rv_users rv of
           None \<Rightarrow> styr
         | Some users \<Rightarrow>
             (if ac_user a = [] then styr
              else case users (ac_user a) of
                None \<Rightarrow> styr
              | Some (name, email) \<Rightarrow>
                  \<lparr>au_name = (if name \<noteq> [] then name else au_name styr), au_email = (if email \<noteq> [] then email else au_email styr)\<rparr>))"

definition commit_review :: "'g review_service \<Rightarrow> actor \<Rightarrow> id \<Rightarrow> string \<Rightarrow> 'g checkout \<Rightarrow> world \<Rightarrow> (string, 'g) review_result" where
  "commit_review rv a i message co w =
     (case review_target a i w of Inl e \<Rightarrow> (Inl e, co, w) | Inr (s, wt) \<Rightarrow>
      if message = [] then (Inl (ErrInvalid ''message is required''), co, w)
      else if busy (se_state s) then (Inl still_working, co, w)
      else case commit_worktree (rv_host rv) wt message (author_for rv a) co of
        (Inl e, co1) \<Rightarrow>
          (Inl (if e = ErrNothingToCommit then ErrConflict ''there is nothing to commit'' else git_failure e), co1, w)
      | (Inr sha, co1) \<Rightarrow> (Inr sha, co1, w))"

definition default_base :: "'g review_service \<Rightarrow> workspace \<Rightarrow> 'g checkout \<Rightarrow> (error + string) \<times> 'g checkout" where
  "default_base rv ws co =
     (if ws_base_branch ws \<noteq> [] then (Inr (ws_base_branch ws), co)
      else case current_branch (rv_host rv) (repo_for ws) co of
        (Inl e, co1) \<Rightarrow> (Inl (git_failure e), co1)
      | (Inr b, co1) \<Rightarrow> (Inr b, co1))"

definition open_pr ::
  "'g review_service \<Rightarrow> actor \<Rightarrow> id \<Rightarrow> string \<Rightarrow> string \<Rightarrow> string \<Rightarrow> 'g checkout \<Rightarrow> world \<Rightarrow> (error + string) \<times> 'g checkout" where
  "open_pr rv a i title body base co w =
     (case review_target a i w of Inl e \<Rightarrow> (Inl e, co) | Inr (s, wt) \<Rightarrow>
      if title = [] then (Inl (ErrInvalid ''title is required''), co)
      else case workspaces_get (se_workspace s) w of Inl e \<Rightarrow> (Inl e, co) | Inr ws \<Rightarrow>
     (case (if base = [] then default_base rv ws co else (Inr base, co)) of (Inl e, co1) \<Rightarrow> (Inl e, co1) | (Inr target, co1) \<Rightarrow>
     (case git_push (rv_host rv) wt co1 of
        (Inl e, co2) \<Rightarrow>
          (Inl (if e = ErrNoRemote then ErrConflict ''the workspace has no git remote configured'' else git_failure e), co2)
      | (Inr _, co2) \<Rightarrow>
     (case create_pr (rv_host rv) wt title body target co2 of
        (Inl e, co3) \<Rightarrow>
          (Inl (if e = ErrGHUnavailable then ErrConflict ''gh is not installed or not authenticated'' else git_failure e), co3)
      | (Inr url, co3) \<Rightarrow> (Inr url, co3)))))"

text \<open>Git prints no negative counts, so the stored ones are natural numbers.\<close>

definition refresh_diff_stats :: "'g review_service \<Rightarrow> session \<Rightarrow> worktree \<Rightarrow> 'g checkout \<Rightarrow> world \<Rightarrow> 'g checkout \<times> world" where
  "refresh_diff_stats rv s wt co w =
     (case diff_summary (rv_host rv) wt co of
        (Inl e, co1) \<Rightarrow> (co1, w)
      | (Inr smry, co1) \<Rightarrow> (co1, snd (sessions_update_diff_stats (se_id s) (nat (sy_add smry)) (nat (sy_del smry)) w)))"

definition rewind_review :: "'g review_service \<Rightarrow> actor \<Rightarrow> id \<Rightarrow> id \<Rightarrow> 'g checkout \<Rightarrow> world \<Rightarrow> (unit, 'g) review_result" where
  "rewind_review rv a i cid co w =
     (case review_target a i w of Inl e \<Rightarrow> (Inl e, co, w) | Inr (s, wt) \<Rightarrow>
      if busy (se_state s) then (Inl still_working, co, w)
      else case checkpoints_get cid w of Inl e \<Rightarrow> (Inl e, co, w) | Inr cp \<Rightarrow>
      if cp_session cp \<noteq> se_id s then (Inl ErrNotFound, co, w)
      else case git_rewind (rv_host rv) wt (cp_sha cp) co of
        (Inl e, co1) \<Rightarrow>
          (Inl (if e = ErrNotAncestor then ErrConflict ''the checkpoint is no longer on this branch'' else git_failure e), co1, w)
      | (Inr _, co1) \<Rightarrow> (Inr (), refresh_diff_stats rv s wt co1 w))"

definition worktree_in_use_states :: "session_state list" where
  "worktree_in_use_states = [SessionOpen, SessionRunning, SessionWaiting]"

definition discard_review :: "'g review_service \<Rightarrow> actor \<Rightarrow> id \<Rightarrow> 'g checkout \<Rightarrow> world \<Rightarrow> (unit, 'g) review_result" where
  "discard_review rv a i co w =
     (case review_target a i w of Inl e \<Rightarrow> (Inl e, co, w) | Inr (s, wt) \<Rightarrow>
      if busy (se_state s) then (Inl still_working, co, w)
      else if 0 < sessions_count_by_worktree (se_worktree s) (se_id s) worktree_in_use_states w
      then (Inl (ErrConflict ''worktree in use by another session''), co, w)
      else case workspaces_get (se_workspace s) w of Inl e \<Rightarrow> (Inl e, co, w) | Inr ws \<Rightarrow>
     (case close_live_process (rv_sessions rv) (se_id s) w of (Inl e, w1) \<Rightarrow> (Inl e, co, w1) | (Inr _, w1) \<Rightarrow>
     (case remove_worktree (rv_host rv) (repo_for ws) (se_worktree s) True co of
        (Inl e, co1) \<Rightarrow> (Inl (git_failure e), co1, w1)
      | (Inr _, co1) \<Rightarrow>
     (case sessions_set_worktree (se_id s) [] [] [] w1 of (Inl e, w2) \<Rightarrow> (Inl e, co1, w2) | (Inr _, w2) \<Rightarrow>
     (case sessions_update_diff_stats (se_id s) 0 0 w2 of (Inl e, w3) \<Rightarrow> (Inl e, co1, w3) | (Inr _, w3) \<Rightarrow>
      if se_state s = SessionClosed then (Inr (), co1, w3)
      else (let (r, w4) = set_state (se_id s) SessionClosed w3 in (r, co1, w4)))))))"

end
