(* ===== verification/Review_Proofs.thy ===== *)
theory Review_Proofs
  imports Review Git_Proofs Session_Frame
begin

text \<open>
  What a review leaves alone and what it marks: the frame of sending a message with respect to the review comments,
  the message that reaches the process, and the exclude file of a repository.
\<close>

section \<open>Comments are only written by the review\<close>

named_theorems comments_frame \<open>operations that leave the review comments alone\<close>

lemma comments_exec1 [comments_frame]: "wd_comments (snd (sessions_exec1 i f w)) = wd_comments w"
  by (simp add: sessions_exec1_def)

lemma comments_small [comments_frame]:
  "wd_comments (publish m w) = wd_comments w"
  "wd_comments (snd (set_state i st w)) = wd_comments w"
  "wd_comments (snd (call_process ss i c w)) = wd_comments w"
  "wd_comments (snd (register_process i ow w)) = wd_comments w"
  "wd_comments (unregister_process i w) = wd_comments w"
  "wd_comments (release_slot w) = wd_comments w"
  "wd_comments (snd (events_append i ev w)) = wd_comments w"
  "wd_comments (record_user_turn i text w) = wd_comments w"
proof -
  show pub: "wd_comments (publish m w) = wd_comments w" for m w by (simp add: publish_def)
  show "wd_comments (snd (set_state i st w)) = wd_comments w"
    using comments_exec1[of i _ w] by (auto simp: set_state_def session_updates pub split: prod.split sum.split) (metis snd_conv)+
  show ev: "wd_comments (snd (events_append i ev w)) = wd_comments w" for ev
    by (simp add: events_append_def Let_def split: sum.split)
  show "wd_comments (record_user_turn i text w) = wd_comments w"
    using ev[of "EventUser text"] by (auto simp: record_user_turn_def pub split: prod.split sum.split)
  show "wd_comments (snd (call_process ss i c w)) = wd_comments w" "wd_comments (snd (register_process i ow w)) = wd_comments w"
    "wd_comments (unregister_process i w) = wd_comments w" "wd_comments (release_slot w) = wd_comments w"
    by (simp_all add: call_process_def register_process_def unregister_process_def release_slot_def Let_def split: option.split)
qed

lemma comments_slot [comments_frame]: "wd_comments (snd (acquire_slot ss b w)) = wd_comments w"
proof -
  have exit: "wd_comments (handle_exit i code v) = wd_comments v" for i code v
    by (simp add: handle_exit_def Let_def comments_frame)
  have tracked: "wd_comments (close_tracked ss i v) = wd_comments v" for i v
    by (simp add: close_tracked_def comments_frame)
  have "wd_comments (snd (evict_oldest_idle ss v)) = wd_comments v" for v
    by (simp add: evict_oldest_idle_def tracked split: option.split)
  then show ?thesis
    by (auto simp: acquire_slot_def Let_def exit split: option.split)
qed

lemma call_process_log: "wd_calls (snd (call_process ss i c w)) = wd_calls w @ [(i, c)]"
  by (simp add: call_process_def Let_def split: option.split)

lemma start_process_comments: "wd_comments (snd (start_process ss s pf resume first schema sysprompt w)) = wd_comments w"
proof -
  obtain r1 w1 where w1: "acquire_slot ss (\<not> pf_unattended pf) w = (r1, w1)" by fastforce
  obtain r2 w2 where w2: "register_process (se_id s) (se_owner s) w1 = (r2, w2)" by fastforce
  have k: "wd_comments w1 = wd_comments w" "wd_comments w2 = wd_comments w"
    using w1 w2 comments_slot[of ss "\<not> pf_unattended pf" w] comments_small(4)[of "se_id s" "se_owner s" w1] by auto
  show ?thesis
  proof (cases resume)
    case False
    then show ?thesis by (simp add: start_process_def w1 w2 k comments_frame split: option.split sum.split)
  next
    case True
    obtain r3 w3 where w3: "set_state (se_id s) SessionRunning w2 = (r3, w3)" by fastforce
    have "wd_comments w3 = wd_comments w" using w3 k comments_small(2)[of "se_id s" SessionRunning w2] by simp
    with True show ?thesis by (simp add: start_process_def w1 w2 w3 k comments_frame split: option.split sum.split)
  qed
qed

lemma start_process_sends:
  assumes "start_process ss s pf resume first schema sysprompt w = (Inr (), w')" and "first \<noteq> []"
  shows "wd_calls w' \<noteq> [] \<and> last (wd_calls w') = (se_id s, ProcSend first)"
proof -
  obtain w3 where "call_process ss (se_id s) (ProcSend first) (record_user_turn (se_id s) first w3) = (Inr (), w')"
    using assms by (auto simp: start_process_def split: option.splits sum.splits prod.splits)
  then show ?thesis using call_process_log[of ss "se_id s" "ProcSend first" "record_user_turn (se_id s) first w3"] by simp
qed

lemma send_comments: "wd_comments (snd (send_session ss a i text w)) = wd_comments w"
proof -
  have st: "wd_comments v = wd_comments w"
    if "start_process ss s pf b x y z (w\<lparr>wd_starting := k\<rparr>) = (r, v)" for s pf b x y z k r v
    using start_process_comments[of ss s pf b x y z "w\<lparr>wd_starting := k\<rparr>"] that by simp
  show ?thesis
    by (auto simp: send_session_def comments_frame dest: st split: sum.split prod.split)
qed

lemma get_session_id: "get_session a i w = Inr s \<Longrightarrow> se_id s = i \<and> s \<in> set (wd_sessions w)"
  by (auto simp: get_session_def get_visible_def sessions_get_def found_Inr split: sum.splits if_splits dest: tbl_get_Some)

lemma send_delivers:
  assumes "send_session ss a i text w = (Inr (), w')" and "text \<noteq> []"
  shows "wd_calls w' \<noteq> [] \<and> last (wd_calls w') = (i, ProcSend text)"
proof -
  obtain s where s: "get_session a i w = Inr s" "se_state s \<noteq> SessionWaiting"
    using assms(1) by (auto simp: send_session_def split: sum.splits if_splits)
  then have i: "se_id s = i" using get_session_id by blast
  show ?thesis
  proof (cases "live i w")
    case True
    then have "w' = snd (call_process ss i (ProcSend text) (record_user_turn i text w))"
      using assms(1) s by (auto simp: send_session_def)
    then show ?thesis by (simp add: call_process_log)
  next
    case False
    then obtain pf k v where st: "start_process ss s pf True text [] [] (w\<lparr>wd_starting := k\<rparr>) = (Inr (), v)"
        and w': "w' = v\<lparr>wd_starting := removeAll i (wd_starting v)\<rparr>"
      using assms(1) s by (auto simp: send_session_def split: sum.splits if_splits prod.splits)
    from start_process_sends[OF st assms(2)] show ?thesis by (simp add: w' i)
  qed
qed

lemma mark_unsent:
  assumes "distinct (map rc_id (wd_comments w))" and "wd_comments v = wd_comments w"
  shows "wd_comments (comments_mark_sent (map rc_id (unsent_comments i w)) v) =
    map (\<lambda>c. if rc_session c = i \<and> rc_sent c = None then c\<lparr>rc_sent := Some (wd_now v)\<rparr> else c) (wd_comments w)"
proof -
  have set: "set (unsent_comments i w) = {c \<in> set (wd_comments w). rc_session c = i \<and> rc_sent c = None}"
    by (auto simp: unsent_comments_def comments_list_def order_asc_def)
  have row: "c \<in> set (wd_comments w) \<Longrightarrow> rc_sent c = None \<and> rc_id c \<in> set (map rc_id (unsent_comments i w)) \<longleftrightarrow>
      rc_session c = i \<and> rc_sent c = None" for c
    using assms(1) by (auto simp: set distinct_map inj_on_def)
  show ?thesis
  proof (cases "unsent_comments i w = []")
    case True
    have "map (\<lambda>c. if rc_session c = i \<and> rc_sent c = None then c\<lparr>rc_sent := Some (wd_now v)\<rparr> else c) (wd_comments w) = wd_comments w"
      by (rule map_idI) (use True set in auto)
    with True show ?thesis by (simp add: comments_mark_sent_def assms(2))
  next
    case False
    then show ?thesis using row by (simp add: comments_mark_sent_def assms(2))
  qed
qed

section \<open>The exclude file\<close>

definition text_lines :: "string \<Rightarrow> string list" where
  "text_lines s = filter (\<lambda>l. l \<noteq> []) (split_char (CHR 0x0A) s)"

lemma text_lines_append: "text_lines (a @ CHR 0x0A # b) = text_lines a @ text_lines b"
  by (simp add: text_lines_def split_char_append)

lemma exclude_entry_line: "text_lines exclude_entry = [exclude_entry]" "trim_space exclude_entry = exclude_entry"
  by code_simp+

lemma appended_lines:
  "text_lines (data @ (if data \<noteq> [] \<and> last data \<noteq> CHR 0x0A then [CHR 0x0A] else []) @ exclude_entry @ [CHR 0x0A]) =
   text_lines data @ [exclude_entry]"
proof -
  have e: "text_lines (exclude_entry @ [CHR 0x0A]) = [exclude_entry]"
    using text_lines_append[of exclude_entry "[]"] exclude_entry_line(1) by (simp add: text_lines_def)
  consider "data = []" | d where "data = d @ [CHR 0x0A]" | "data \<noteq> []" "last data \<noteq> CHR 0x0A"
    by (cases data rule: rev_cases) auto
  then show ?thesis
  proof cases
    case 1
    then show ?thesis using e by (simp add: text_lines_def)
  next
    case 2
    then show ?thesis using e text_lines_append[of d "[]"] text_lines_append[of d "exclude_entry @ [CHR 0x0A]"]
      by (simp add: text_lines_def)
  next
    case 3
    then show ?thesis using e text_lines_append[of data "exclude_entry @ [CHR 0x0A]"] by simp
  qed
qed

definition excluded :: "string \<Rightarrow> bool" where
  "excluded data \<longleftrightarrow> list_ex (\<lambda>line. trim_space line = exclude_entry) (split_char (CHR 0x0A) data)"

lemma excluded_entry: "exclude_entry \<in> set (text_lines data) \<Longrightarrow> excluded data"
  using exclude_entry_line(2) by (auto simp: text_lines_def excluded_def list_ex_iff)

text \<open>After a success the file ends in the entry or had it before; a second call writes nothing.\<close>

lemma exclude_written:
  assumes "exclude_styr_dir gi r co = (Inr (), co1)"
  shows "\<exists>data. co_files co1 (host_path gi (exclude_path r)) = Some data \<and> excluded data \<and>
    text_lines data = (case co_files co (host_path gi (exclude_path r)) of None \<Rightarrow> [exclude_entry]
      | Some old \<Rightarrow> if excluded old then text_lines old else text_lines old @ [exclude_entry])"
proof -
  let ?p = "exclude_path r"
  let ?el = "host_path gi ?p"
  obtain c where c: "make_dirs gi (go_join [?p, ''..'']) co = Some c"
    using assms by (auto simp: exclude_styr_dir_def split: option.splits)
  have files: "co_files c = co_files co" using c by (auto simp: make_dirs_def split: if_splits)
  define old where "old = (case co_files co ?el of None \<Rightarrow> [] | Some d \<Rightarrow> d)"
  have "read_file gi ?p c \<noteq> ReadFailed" using assms c by (auto simp: exclude_styr_dir_def)
  then have read: "(case read_file gi ?p c of ReadOk d \<Rightarrow> d | _ \<Rightarrow> []) = old" and
      present: "co_files co ?el = None \<longleftrightarrow> read_file gi ?p c = ReadMissing"
    by (auto simp: read_file_def files old_def split: if_splits option.splits)
  have empty: "\<not> excluded []" by code_simp
  show ?thesis
  proof (cases "excluded old")
    case True
    then have "co_files co ?el \<noteq> None" using empty by (cases "co_files co ?el") (simp_all add: old_def)
    then obtain d where d: "co_files co ?el = Some d" "d = old" by (cases "co_files co ?el") (simp_all add: old_def)
    have "co1 = c"
      using assms c True read \<open>read_file gi ?p c \<noteq> ReadFailed\<close>
      by (auto simp: exclude_styr_dir_def excluded_def split: read_result.splits)
    then show ?thesis using d True by (simp add: files)
  next
    case False
    let ?prefix = "if old \<noteq> [] \<and> last old \<noteq> CHR 0x0A then [CHR 0x0A] else []"
    have "append_file gi ?p (?prefix @ exclude_entry @ [CHR 0x0A]) c = (Inr (), co1)"
      using assms c False read \<open>read_file gi ?p c \<noteq> ReadFailed\<close>
      by (auto simp: exclude_styr_dir_def excluded_def split: read_result.splits)
    then have new: "co_files co1 ?el = Some (old @ ?prefix @ exclude_entry @ [CHR 0x0A])"
      by (auto simp: append_file_def files old_def Let_def split: if_splits option.splits)
    have lines: "text_lines (old @ ?prefix @ exclude_entry @ [CHR 0x0A]) = text_lines old @ [exclude_entry]"
      by (rule appended_lines)
    then have "excluded (old @ ?prefix @ exclude_entry @ [CHR 0x0A])" by (intro excluded_entry) simp
    moreover have "text_lines [] = []" by (simp add: text_lines_def)
    ultimately show ?thesis using new lines False by (auto simp: old_def split: option.splits)
  qed
qed

lemma exclude_again:
  assumes "co_files co (host_path gi (exclude_path r)) = Some data" and "excluded data"
  shows "co_files (snd (exclude_styr_dir gi r co)) = co_files co"
proof -
  have "co_files c = co_files co" if "make_dirs gi p co = Some c" for p c
    using that by (auto simp: make_dirs_def split: if_splits)
  then show ?thesis
    using assms by (auto simp: exclude_styr_dir_def read_file_def excluded_def split: option.split read_result.split)
qed

end
