(* ===== verification/Review_Claims.thy ===== *)
theory Review_Claims
  imports Review_Proofs Session_Claims
begin

text \<open>
  The properties of the git commands and of the review, and a small host on which they are instantiated: its git
  answers every command with success, except that the staged diff is never empty, and records the commands.
\<close>

section \<open>A recording host\<close>

definition demo_shell ::
  "string list \<Rightarrow> string \<Rightarrow> string \<Rightarrow> string list \<Rightarrow> string list list checkout \<Rightarrow>
    (string \<times> string \<times> cmd_exit) \<times> string list list checkout" where
  "demo_shell env name dir args co =
     ((if hd args = ''log'' then ''c1'' @ [CHR 0x00] @ ''styr: checkpoint after turn 1'' @ [CHR 0x00, CHR 0x0A]
       else if hd args = ''status'' then ''?? pkg/'' @ [CHR 0x00]
       else if args = [''diff'', ''--numstat'', ''-M'', ''--no-color'', ''base''] then ''3'' @ [CHR 0x09] @ ''1'' @ [CHR 0x09] @ ''a.go'' @ [CHR 0x0A]
       else if args = [''rev-parse'', ''HEAD''] then ''c2'' @ [CHR 0x0A] else [],
       [], if args = [''diff'', ''--cached'', ''--quiet''] then ExitStatus 1 else ExitOk),
      co\<lparr>co_git := co_git co @ [args]\<rparr>)"

definition demo_host :: "string list list git_host" where
  "demo_host = \<lparr>gi_environ = [''PATH=/bin''], gi_cwd = ''/'', gi_executable = (\<lambda>p. True), gi_run = demo_shell,
     gi_file_error = (\<lambda>k p co. False), gi_time = (\<lambda>s. None)\<rparr>"

definition demo_checkout :: "string list list checkout" where
  "demo_checkout = \<lparr>co_files = [[''srv'', ''repo'', ''pkg'', ''b.go''] \<mapsto> ''package pkg'' @ [CHR 0x0A]],
     co_dirs = [[''srv''], [''srv'', ''repo''], [''srv'', ''repo'', ''pkg'']], co_git = []\<rparr>"

definition demo_repo :: repo where
  "demo_repo = \<lparr>rp_path = ''/srv/repo'', rp_env = None\<rparr>"

definition demo_review :: "string list list review_service" where
  "demo_review = \<lparr>rv_sessions = demo_sessions, rv_host = demo_host, rv_users = None\<rparr>"

definition demo_comment :: "id \<Rightarrow> time option \<Rightarrow> review_comment" where
  "demo_comment i sent = \<lparr>rc_id = i, rc_session = ''s'', rc_path = ''a.go'', rc_line = 3, rc_side = ReviewSideNew,
     rc_body = ''why?'', rc_author = ''ann'', rc_created = 0, rc_sent = sent\<rparr>"

definition reviewed_session :: "id \<Rightarrow> session_state \<Rightarrow> session" where
  "reviewed_session i st = \<lparr>se_id = i, se_owner = Some ''ann'', se_title = ''t'', se_workspace = ''w'', se_profile = ''auto'',
     se_harness = kind_claude, se_harness_ref = [], se_state = st, se_origin = OriginUI, se_origin_ref = [],
     se_worktree = ''/srv/repo'', se_model = [], se_effort = [], se_created = 0, se_last_active = 0, se_num_turns = 1,
     se_cost = 0, se_tokens_in = 0, se_tokens_out = 0, se_now_line = [], se_branch = ''styr/s'', se_base_ref = ''base'',
     se_shared = False, se_slash_commands = [], se_diff_add = 0, se_diff_del = 0\<rparr>"

definition review_world :: world where
  "review_world = service_world\<lparr>wd_sessions := [reviewed_session ''s'' SessionOpen, reviewed_session ''t'' SessionRunning],
     wd_comments := [demo_comment ''c'' None, demo_comment ''d'' (Some 0)], wd_procs := [(''s'', Some ''ann'')]\<rparr>"

definition demo_author :: actor where
  "demo_author = \<lparr>ac_user = ''ann'', ac_admin = False\<rparr>"

section \<open>The properties\<close>




text \<open>
  Reading the porcelain status gives back every entry git printed: its two letters, its path and, for a rename or
  a copy, the path it came from, so no entry swallows or splits its neighbours.
\<close>

theorem printed_status_is_read_back:
  assumes "\<forall>e \<in> set es. printable_entry e"
  shows "parse_status (print_status es) = es"
  using assms by (rule parse_printed_status)

theorem printed_status_is_read_back_witness:
  "parse_status (print_status
     [\<lparr>sn_x = CHR ''R'', sn_y = CHR '' '', sn_path = ''b'', sn_orig = ''a''\<rparr>, \<lparr>sn_x = CHR ''?'', sn_y = CHR ''?'', sn_path = ''c'', sn_orig = []\<rparr>]) =
   [\<lparr>sn_x = CHR ''R'', sn_y = CHR '' '', sn_path = ''b'', sn_orig = ''a''\<rparr>, \<lparr>sn_x = CHR ''?'', sn_y = CHR ''?'', sn_path = ''c'', sn_orig = []\<rparr>]"
  by (rule printed_status_is_read_back) (simp add: printable_entry_def renamed_def)

text \<open>
  The name of every session's branch, whatever its id and its title, is one the git commands accept: adding a
  worktree for a session is never refused for its branch.
\<close>

theorem session_branches_are_accepted:
  "fst (add_worktree gi r dir (branch_name i title) base co) \<noteq> Inl ErrInvalidBranch"
proof -
  obtain name where name: "branch_name i title = ''styr/'' @ name" "1 \<le> length name" "length name \<le> 49"
      "set name \<subseteq> {c. ascii_alnum c \<or> c = CHR ''-''}"
    using branch_name_well_formed[of i title] by blast
  have "cut_prefix (branch_name i title) ''styr/'' = Some name" by (simp only: name(1) cut_prefix_append)
  then have "styr_branch (branch_name i title)"
    using name(2-4) by (auto simp: styr_branch_def list_all_iff branch_byte_def)
  moreover have "checked_git gi d vs prefix words c = (Inl e, c') \<Longrightarrow> e \<noteq> ErrInvalidBranch" for d vs prefix words c e c'
    by (auto simp: checked_git_def split: prod.splits cmd_exit.splits)
  moreover have "fst (exclude_styr_dir gi r c) \<noteq> Inl ErrInvalidBranch" for c
    by (auto simp: exclude_styr_dir_def append_file_def Let_def split: option.split read_result.split)
  ultimately show ?thesis by (auto simp: add_worktree_def split: prod.split sum.split)
qed

text \<open>
  The exclude file. After a success it keeps every line it had and holds the entry of the worktrees directory,
  added once and only when no line was that entry; calling again never changes it.
\<close>

theorem worktrees_excluded_once:
  assumes "exclude_styr_dir gi r co = (Inr (), co1)"
  shows "(\<exists>data. co_files co1 (host_path gi (exclude_path r)) = Some data \<and> excluded data \<and>
      text_lines data = (case co_files co (host_path gi (exclude_path r)) of None \<Rightarrow> [exclude_entry]
        | Some old \<Rightarrow> if excluded old then text_lines old else text_lines old @ [exclude_entry])) \<and>
    co_files (snd (exclude_styr_dir gi r co1)) = co_files co1"
  using exclude_written[OF assms] exclude_again[of co1 gi r] by blast

theorem worktrees_excluded_once_witness:
  "co_files (snd (exclude_styr_dir demo_host demo_repo (snd (exclude_styr_dir demo_host demo_repo demo_checkout)))) =
   co_files (snd (exclude_styr_dir demo_host demo_repo demo_checkout))"
proof -
  have "fst (exclude_styr_dir demo_host demo_repo demo_checkout) = Inr ()" by code_simp
  then have "exclude_styr_dir demo_host demo_repo demo_checkout = (Inr (), snd (exclude_styr_dir demo_host demo_repo demo_checkout))"
    by (metis prod.collapse)
  from worktrees_excluded_once[OF this] show ?thesis by blast
qed



text \<open>
  Nothing rewrites a worktree under a session that is running or waiting: its commit, its rewind and its discard
  are refused and change neither the repository nor any row; and a discard is refused the same way while another
  session that is not ended runs in the same worktree.
\<close>

theorem busy_worktrees_left_alone:
  assumes "get_session a i w = Inr s" and "busy (se_state s) \<or>
    (\<exists>t \<in> set (wd_sessions w). se_id t \<noteq> i \<and> se_worktree t = se_worktree s \<and> se_state t \<in> set worktree_in_use_states)"
  shows "snd (discard_review rv a i co w) = (co, w) \<and>
    (busy (se_state s) \<longrightarrow> snd (commit_review rv a i m co w) = (co, w) \<and> snd (rewind_review rv a i cid co w) = (co, w))"
proof -
  have i: "se_id s = i" using get_session_id[OF assms(1)] by simp
  have used: "0 < sessions_count_by_worktree (se_worktree s) (se_id s) worktree_in_use_states w"
    if "t \<in> set (wd_sessions w)" "se_id t \<noteq> i" "se_worktree t = se_worktree s" "se_state t \<in> set worktree_in_use_states" for t
  proof -
    have "t \<in> set (filter (\<lambda>x. se_worktree x = se_worktree s \<and> se_id x \<noteq> se_id s \<and> se_state x \<in> set worktree_in_use_states) (wd_sessions w))"
      using that i by simp
    moreover have "worktree_in_use_states \<noteq> []" by (simp add: worktree_in_use_states_def)
    ultimately show ?thesis unfolding sessions_count_by_worktree_def by (simp only: if_False length_pos_if_in_set)
  qed
  from assms(2) have "snd (discard_review rv a i co w) = (co, w)"
  proof (elim disjE bexE conjE)
    assume "busy (se_state s)"
    then show ?thesis by (simp add: discard_review_def review_target_def assms(1))
  next
    fix t assume "t \<in> set (wd_sessions w)" "se_id t \<noteq> i" "se_worktree t = se_worktree s" "se_state t \<in> set worktree_in_use_states"
    then have "0 < sessions_count_by_worktree (se_worktree s) (se_id s) worktree_in_use_states w" by (rule used)
    then show ?thesis by (simp add: discard_review_def review_target_def assms(1))
  qed
  moreover have "busy (se_state s) \<Longrightarrow> snd (commit_review rv a i m co w) = (co, w)"
    using assms(1) by (simp add: commit_review_def review_target_def)
  moreover have "busy (se_state s) \<Longrightarrow> snd (rewind_review rv a i cid co w) = (co, w)"
    using assms(1) by (simp add: rewind_review_def review_target_def)
  ultimately show ?thesis by blast
qed

theorem busy_worktrees_left_alone_witness:
  "snd (discard_review demo_review demo_author ''s'' demo_checkout review_world) = (demo_checkout, review_world)"
proof -
  have g: "get_session demo_author ''s'' review_world = Inr (reviewed_session ''s'' SessionOpen)" by code_simp
  have "\<exists>t \<in> set (wd_sessions review_world). se_id t \<noteq> ''s'' \<and> se_worktree t = se_worktree (reviewed_session ''s'' SessionOpen) \<and>
      se_state t \<in> set worktree_in_use_states"
    by code_simp
  then show ?thesis using busy_worktrees_left_alone[OF g, where rv = demo_review and co = demo_checkout] by blast
qed

text \<open>
  What a discard refuses, a commit does: with another session running in the same worktree, the commit resets the
  branch and commits whatever that session has written so far.
\<close>

theorem commit_under_a_running_session:
  "fst (discard_review demo_review demo_author ''s'' demo_checkout review_world) =
     Inl (ErrConflict ''worktree in use by another session'') \<and>
   fst (commit_review demo_review demo_author ''s'' ''done'' demo_checkout review_world) = Inr ''c2'' \<and>
   [''reset'', ''--soft'', ''base''] \<in> set (co_git (fst (snd (commit_review demo_review demo_author ''s'' ''done'' demo_checkout review_world))))"
  by code_simp

text \<open>
  The summary of a worktree leaves out the files of a new directory: git's status names the directory, which
  cannot be read as a file, so its files are neither listed nor counted, though the worktree is dirty.
\<close>

theorem new_directory_missing_from_summary:
  "(case fst (review_summary demo_review demo_author ''s'' demo_checkout review_world) of
      Inl e \<Rightarrow> False
    | Inr d \<Rightarrow> rd_dirty d \<and> map rf_path (rd_files d) = [''a.go''] \<and> rd_add d = 3) \<and>
   co_files demo_checkout [''srv'', ''repo'', ''pkg'', ''b.go''] = Some (''package pkg'' @ [CHR 0x0A])"
  by code_simp

text \<open>
  A rename into or out of a directory, which git prints with an empty side between the braces, is given a path
  with two slashes that names no file of the diff.
\<close>

theorem rename_into_a_directory_misread:
  "split_rename ''src/{ => sub}/f.go'' = (''src//f.go'', ''src/sub/f.go'') \<and>
   split_rename ''src/{old => }/f.go'' = (''src/old/f.go'', ''src//f.go'')"
  by code_simp

end
