(* ===== verification/Auth.thy ===== *)
theory Auth
  imports Triggers Sessions Go_Text
begin

text \<open>
  Signing in, \<open>internal/auth\<close>: browser sessions behind a cookie, personal API tokens behind a bearer header, the
  OpenID Connect login and the development bypass; their repositories \<open>db/users.go\<close>, \<open>db/login_sessions.go\<close> and
  \<open>db/api_tokens.go\<close>; and the guards every request passes, \<open>api/middleware.go\<close> and \<open>api/router.go\<close>. The tables of
  accounts are a state of their own, the \<open>accounts\<close>. SHA-256, the random source, the identity provider and the
  encoding of the login cookie are parameters.
\<close>

section \<open>Accounts\<close>

datatype role = RoleAdmin | RoleMember | RoleViewer

record user =
  us_id :: id
  us_issuer :: string
  us_subject :: string
  us_email :: string
  us_name :: string
  us_avatar :: string
  us_role :: role
  us_created :: time
  us_last_login :: time
  us_prefs :: string

record login_session =
  lo_id :: id
  lo_user :: id
  lo_hash :: string
  lo_created :: time
  lo_last_seen :: time
  lo_expires :: time
  lo_agent :: string

record api_token =
  at_id :: id
  at_user :: id
  at_name :: string
  at_hash :: string
  at_prefix :: string
  at_created :: time
  at_last_used :: "time option"
  at_expires :: "time option"

record claude_token =
  ct_user :: id
  ct_cipher :: string
  ct_nonce :: string
  ct_label :: string
  ct_added :: time
  ct_verified :: "time option"

record codex_credential =
  cc_user :: id
  cc_cipher :: string
  cc_nonce :: string
  cc_label :: string
  cc_added :: time

record accounts =
  aw_now :: time
  aw_uuids :: nat
  aw_users :: "user list"
  aw_logins :: "login_session list"
  aw_tokens :: "api_token list"
  aw_claude :: "claude_token list"
  aw_codex :: "codex_credential list"
  aw_runtimes :: "string list"

type_synonym 'a account_result = "(error + 'a) \<times> accounts"

section \<open>Users (db/users.go)\<close>

definition users_create :: "user \<Rightarrow> accounts \<Rightarrow> unit account_result" where
  "users_create u w =
     (if us_id u \<in> us_id ` set (aw_users w) \<or>
        list_ex (\<lambda>x. us_issuer x = us_issuer u \<and> us_subject x = us_subject u) (aw_users w)
      then (Inl (ErrConflict []), w)
      else (Inr (), w\<lparr>aw_users := aw_users w @ [if us_prefs u = [] then u\<lparr>us_prefs := ''{}''\<rparr> else u]\<rparr>))"

definition users_get :: "id \<Rightarrow> accounts \<Rightarrow> error + user" where
  "users_get i w = found (tbl_get us_id i (aw_users w))"

definition users_get_by_subject :: "string \<Rightarrow> string \<Rightarrow> accounts \<Rightarrow> error + user" where
  "users_get_by_subject issuer subject w =
     found (find (\<lambda>u. us_issuer u = issuer \<and> us_subject u = subject) (aw_users w))"

definition users_list :: "accounts \<Rightarrow> user list" where
  "users_list w = order_asc us_created (aw_users w)"

definition users_exec1 :: "id \<Rightarrow> (user \<Rightarrow> user) \<Rightarrow> accounts \<Rightarrow> unit account_result" where
  "users_exec1 i f w =
     (if i \<notin> us_id ` set (aw_users w) then (Inl ErrNotFound, w)
      else (Inr (), w\<lparr>aw_users := tbl_update us_id i f (aw_users w)\<rparr>))"

definition users_update_role :: "id \<Rightarrow> role \<Rightarrow> accounts \<Rightarrow> unit account_result" where
  "users_update_role i r = users_exec1 i (\<lambda>u. u\<lparr>us_role := r\<rparr>)"

definition users_touch_login :: "id \<Rightarrow> accounts \<Rightarrow> unit account_result" where
  "users_touch_login i w = users_exec1 i (\<lambda>u. u\<lparr>us_last_login := aw_now w\<rparr>) w"

definition users_update_profile :: "id \<Rightarrow> string \<Rightarrow> string \<Rightarrow> string \<Rightarrow> accounts \<Rightarrow> unit account_result" where
  "users_update_profile i email name avatar =
     users_exec1 i (\<lambda>u. u\<lparr>us_email := email, us_name := name, us_avatar := avatar\<rparr>)"

definition users_update_prefs :: "id \<Rightarrow> string \<Rightarrow> accounts \<Rightarrow> unit account_result" where
  "users_update_prefs i prefs = users_exec1 i (\<lambda>u. u\<lparr>us_prefs := prefs\<rparr>)"

definition users_count :: "accounts \<Rightarrow> nat" where
  "users_count w = length (aw_users w)"

section \<open>Login sessions and API tokens (db/login_sessions.go, db/api_tokens.go)\<close>

definition account_uuid :: "(nat \<Rightarrow> id) \<Rightarrow> accounts \<Rightarrow> id \<times> accounts" where
  "account_uuid uuid w = (uuid (aw_uuids w), w\<lparr>aw_uuids := Suc (aw_uuids w)\<rparr>)"

definition logins_create :: "(nat \<Rightarrow> id) \<Rightarrow> id \<Rightarrow> string \<Rightarrow> time \<Rightarrow> string \<Rightarrow> accounts \<Rightarrow> id account_result" where
  "logins_create uuid user h expires agent w =
     (let (i, w1) = account_uuid uuid w
      in if i \<in> lo_id ` set (aw_logins w1) \<or> h \<in> lo_hash ` set (aw_logins w1) then (Inl (ErrConflict []), w1)
         else if \<not> fk us_id (aw_users w1) (Some user) then (Inl ErrForeignKey, w1)
         else (Inr i, w1\<lparr>aw_logins := aw_logins w1 @ [\<lparr>lo_id = i, lo_user = user, lo_hash = h, lo_created = aw_now w,
                lo_last_seen = aw_now w, lo_expires = expires, lo_agent = agent\<rparr>]\<rparr>))"

definition logins_get_by_hash :: "string \<Rightarrow> accounts \<Rightarrow> error + login_session" where
  "logins_get_by_hash h w = found (find (\<lambda>l. lo_hash l = h) (aw_logins w))"

definition logins_touch :: "id \<Rightarrow> accounts \<Rightarrow> unit account_result" where
  "logins_touch i w =
     (if i \<notin> lo_id ` set (aw_logins w) then (Inl ErrNotFound, w)
      else (Inr (), w\<lparr>aw_logins := tbl_update lo_id i (\<lambda>l. l\<lparr>lo_last_seen := aw_now w\<rparr>) (aw_logins w)\<rparr>))"

definition logins_delete :: "id \<Rightarrow> accounts \<Rightarrow> unit account_result" where
  "logins_delete i w =
     (if i \<notin> lo_id ` set (aw_logins w) then (Inl ErrNotFound, w)
      else (Inr (), w\<lparr>aw_logins := tbl_delete lo_id i (aw_logins w)\<rparr>))"

definition logins_delete_all :: "id \<Rightarrow> accounts \<Rightarrow> accounts" where
  "logins_delete_all user w = w\<lparr>aw_logins := filter (\<lambda>l. lo_user l \<noteq> user) (aw_logins w)\<rparr>"

definition tokens_create :: "api_token \<Rightarrow> accounts \<Rightarrow> unit account_result" where
  "tokens_create t w =
     (if at_id t \<in> at_id ` set (aw_tokens w) \<or> at_hash t \<in> at_hash ` set (aw_tokens w) then (Inl (ErrConflict []), w)
      else if \<not> fk us_id (aw_users w) (Some (at_user t)) then (Inl ErrForeignKey, w)
      else (Inr (), w\<lparr>aw_tokens := aw_tokens w @ [t]\<rparr>))"

definition tokens_get_by_hash :: "string \<Rightarrow> accounts \<Rightarrow> error + api_token" where
  "tokens_get_by_hash h w = found (find (\<lambda>t. at_hash t = h) (aw_tokens w))"

definition tokens_list_by_user :: "id \<Rightarrow> accounts \<Rightarrow> api_token list" where
  "tokens_list_by_user user w = order_desc at_created (filter (\<lambda>t. at_user t = user) (aw_tokens w))"

definition tokens_touch_used :: "id \<Rightarrow> time \<Rightarrow> accounts \<Rightarrow> unit account_result" where
  "tokens_touch_used i t w =
     (if i \<notin> at_id ` set (aw_tokens w) then (Inl ErrNotFound, w)
      else (Inr (), w\<lparr>aw_tokens := tbl_update at_id i (\<lambda>x. x\<lparr>at_last_used := Some t\<rparr>) (aw_tokens w)\<rparr>))"

definition tokens_delete :: "id \<Rightarrow> id \<Rightarrow> accounts \<Rightarrow> unit account_result" where
  "tokens_delete i user w =
     (if \<not> list_ex (\<lambda>t. at_id t = i \<and> at_user t = user) (aw_tokens w) then (Inl ErrNotFound, w)
      else (Inr (), w\<lparr>aw_tokens := filter (\<lambda>t. \<not> (at_id t = i \<and> at_user t = user)) (aw_tokens w)\<rparr>))"

section \<open>Agent credentials (db/tokens.go, db/codex_credentials.go)\<close>

definition service_token_user :: id where "service_token_user = ''__service__''"

text \<open>\<open>Set\<close> is an \<open>INSERT ... ON CONFLICT DO UPDATE\<close>: the row keeps its place and loses its verification.\<close>

definition claude_set :: "id \<Rightarrow> string \<Rightarrow> string \<Rightarrow> string \<Rightarrow> accounts \<Rightarrow> accounts" where
  "claude_set user cipher nonce label w =
     (let row = \<lparr>ct_user = user, ct_cipher = cipher, ct_nonce = nonce, ct_label = label, ct_added = aw_now w, ct_verified = None\<rparr>
      in w\<lparr>aw_claude := if user \<in> ct_user ` set (aw_claude w) then tbl_update ct_user user (\<lambda>_. row) (aw_claude w)
                       else aw_claude w @ [row]\<rparr>)"

definition claude_get :: "id \<Rightarrow> accounts \<Rightarrow> error + claude_token" where
  "claude_get user w = found (tbl_get ct_user user (aw_claude w))"

definition claude_mark_verified :: "id \<Rightarrow> accounts \<Rightarrow> unit account_result" where
  "claude_mark_verified user w =
     (if user \<notin> ct_user ` set (aw_claude w) then (Inl ErrNotFound, w)
      else (Inr (), w\<lparr>aw_claude := tbl_update ct_user user (\<lambda>c. c\<lparr>ct_verified := Some (aw_now w)\<rparr>) (aw_claude w)\<rparr>))"

definition claude_delete :: "id \<Rightarrow> accounts \<Rightarrow> unit account_result" where
  "claude_delete user w =
     (if user \<notin> ct_user ` set (aw_claude w) then (Inl ErrNotFound, w)
      else (Inr (), w\<lparr>aw_claude := tbl_delete ct_user user (aw_claude w)\<rparr>))"

definition claude_set_service :: "string \<Rightarrow> string \<Rightarrow> string \<Rightarrow> accounts \<Rightarrow> accounts" where
  "claude_set_service = claude_set service_token_user"

definition claude_get_service :: "accounts \<Rightarrow> error + claude_token" where
  "claude_get_service = claude_get service_token_user"

definition codex_set :: "id \<Rightarrow> string \<Rightarrow> string \<Rightarrow> string \<Rightarrow> accounts \<Rightarrow> accounts" where
  "codex_set user cipher nonce label w =
     (let row = \<lparr>cc_user = user, cc_cipher = cipher, cc_nonce = nonce, cc_label = label, cc_added = aw_now w\<rparr>
      in w\<lparr>aw_codex := if user \<in> cc_user ` set (aw_codex w) then tbl_update cc_user user (\<lambda>_. row) (aw_codex w)
                      else aw_codex w @ [row]\<rparr>)"

definition codex_get :: "id \<Rightarrow> accounts \<Rightarrow> error + codex_credential" where
  "codex_get user w = found (tbl_get cc_user user (aw_codex w))"

definition codex_delete :: "id \<Rightarrow> accounts \<Rightarrow> unit account_result" where
  "codex_delete user w =
     (if user \<notin> cc_user ` set (aw_codex w) then (Inl ErrNotFound, w)
      else (Inr (), w\<lparr>aw_codex := tbl_delete cc_user user (aw_codex w)\<rparr>))"

definition codex_set_service :: "string \<Rightarrow> string \<Rightarrow> string \<Rightarrow> accounts \<Rightarrow> accounts" where
  "codex_set_service = codex_set service_token_user"

section \<open>The service\<close>

record oidc_provider =
  op_name :: string
  op_issuer :: string
  op_client :: string
  op_secret :: string
  op_scopes :: "string list"

record id_claims =
  cl_email :: string
  cl_name :: string
  cl_preferred :: string
  cl_picture :: string

record id_token =
  it_subject :: string
  it_nonce :: string
  it_claims :: "id_claims option"

record pkce_state =
  pk_state :: string
  pk_verifier :: string
  pk_nonce :: string
  pk_slug :: string

datatype cookie = SessionCookie string time | SessionCleared | PKCECookie pkce_state | PKCECleared

record request =
  rq_method :: string
  rq_path :: string
  rq_requested_with :: string
  rq_authorization :: string
  rq_session :: "string option"
  rq_pkce :: "pkce_state option"
  rq_agent :: string
  rq_error :: string
  rq_state :: string
  rq_code :: string

record auth_service =
  as_providers :: "oidc_provider list"
  as_base_url :: string
  as_dev_user :: string
  as_has_tokens :: bool
  as_uuid :: "nat \<Rightarrow> id"
  as_random :: "nat \<Rightarrow> string"
  as_verifier :: "nat \<Rightarrow> string"
  as_sha256 :: "string \<Rightarrow> string"
  as_discover :: "oidc_provider \<Rightarrow> accounts \<Rightarrow> error option"
  as_auth_url :: "oidc_provider \<Rightarrow> string \<Rightarrow> string list \<Rightarrow> pkce_state \<Rightarrow> string"
  as_exchange :: "oidc_provider \<Rightarrow> string \<Rightarrow> string \<Rightarrow> error + string"
  as_verify :: "oidc_provider \<Rightarrow> string \<Rightarrow> error + id_token"

record principal =
  pn_user :: user
  pn_login :: id
  pn_token_auth :: bool

definition dev_issuer :: string where "dev_issuer = ''dev''"
definition session_cookie_ttl :: duration where "session_cookie_ttl = 30 * 24 * hour"
definition touch_interval :: duration where "touch_interval = 5 * minute"
definition api_token_prefix :: string where "api_token_prefix = ''styr_pat_''"
definition api_token_prefix_len :: nat where "api_token_prefix_len = 12"
definition callback_path :: string where "callback_path = ''/api/v1/auth/callback''"
definition default_scopes :: "string list" where "default_scopes = [''openid'', ''profile'', ''email'']"

text \<open>\<open>slugify\<close>: one dash for each rune outside the letters and digits; a continuation byte belongs to its rune.\<close>

definition auth_slugify :: "string \<Rightarrow> string" where
  "auth_slugify name =
     concat (map (\<lambda>c. if ascii_alnum c then [c] else if continuation c then [] else ''-'') (to_lower name))"

fun slugs_clash :: "(string \<times> string) list \<Rightarrow> oidc_provider list \<Rightarrow> bool" where
  "slugs_clash seen [] = False"
| "slugs_clash seen (p # ps) =
     (let slug = auth_slugify (op_name p)
      in if (case map_of seen slug of Some other \<Rightarrow> other \<noteq> op_name p | None \<Rightarrow> False) then True
         else slugs_clash ((slug, op_name p) # seen) ps)"

text \<open>\<open>New\<close> refuses two providers of different names and the same slug, and trims the base URL.\<close>

definition new_auth :: "auth_service \<Rightarrow> error + auth_service" where
  "new_auth s =
     (if slugs_clash [] (as_providers s) then Inl (ErrOther ''auth: providers slugify to the same slug'')
      else Inr (s\<lparr>as_base_url := trim_right (\<lambda>c. c = CHR ''/'') (as_base_url s), as_has_tokens := False\<rparr>))"

definition with_api_tokens :: "auth_service \<Rightarrow> auth_service" where
  "with_api_tokens s = s\<lparr>as_has_tokens := True\<rparr>"

definition providers :: "auth_service \<Rightarrow> (string \<times> string) list" where
  "providers s = map (\<lambda>p. (op_name p, auth_slugify (op_name p))) (as_providers s)"

definition provider_config :: "auth_service \<Rightarrow> string \<Rightarrow> oidc_provider option" where
  "provider_config s slug = find (\<lambda>p. auth_slugify (op_name p) = slug) (as_providers s)"

section \<open>Tokens and cookies (cookies.go, tokens.go)\<close>

definition rand_token :: "auth_service \<Rightarrow> accounts \<Rightarrow> string \<times> accounts" where
  "rand_token s w =
     (base64_raw_url (map of_char (take 32 (as_random s (aw_uuids w)))), w\<lparr>aw_uuids := Suc (aw_uuids w)\<rparr>)"

definition hash_token :: "auth_service \<Rightarrow> string \<Rightarrow> string" where
  "hash_token s raw = hex_encode (as_sha256 s raw)"

definition generate_api_token :: "auth_service \<Rightarrow> accounts \<Rightarrow> (string \<times> string \<times> string) \<times> accounts" where
  "generate_api_token s w =
     (let (secret, w1) = rand_token s w; raw = api_token_prefix @ secret
      in ((raw, hash_token s raw, if api_token_prefix_len < length raw then take api_token_prefix_len raw else raw), w1))"

definition principal_from_bearer :: "auth_service \<Rightarrow> request \<Rightarrow> accounts \<Rightarrow> principal option \<times> accounts" where
  "principal_from_bearer s r w =
     (if \<not> as_has_tokens s then (None, w)
      else case cut_prefix (rq_authorization r) ''Bearer '' of
        None \<Rightarrow> (None, w)
      | Some raw \<Rightarrow>
          (if \<not> has_prefix raw api_token_prefix then (None, w)
           else case tokens_get_by_hash (hash_token s raw) w of
             Inl e \<Rightarrow> (None, w)
           | Inr tok \<Rightarrow>
               (if (case at_expires tok of None \<Rightarrow> False | Some t \<Rightarrow> t < aw_now w) then (None, w)
                else case users_get (at_user tok) w of
                  Inl e \<Rightarrow> (None, w)
                | Inr u \<Rightarrow> (Some \<lparr>pn_user = u, pn_login = [], pn_token_auth = True\<rparr>, snd (tokens_touch_used (at_id tok) (aw_now w) w)))))"

section \<open>Browser sessions (service.go)\<close>

definition create_login :: "auth_service \<Rightarrow> id \<Rightarrow> request \<Rightarrow> accounts \<Rightarrow> (error + id) \<times> cookie list \<times> accounts" where
  "create_login s user r w =
     (let (raw, w1) = rand_token s w
      in case logins_create (as_uuid s) user (hash_token s raw) (aw_now w + session_cookie_ttl) (rq_agent r) w1 of
           (Inl e, w2) \<Rightarrow> (Inl e, [], w2)
         | (Inr i, w2) \<Rightarrow> (Inr i, [SessionCookie raw (aw_now w + session_cookie_ttl)], w2))"

definition principal_from_cookie :: "auth_service \<Rightarrow> request \<Rightarrow> accounts \<Rightarrow> principal option \<times> accounts" where
  "principal_from_cookie s r w =
     (case rq_session r of
        None \<Rightarrow> (None, w)
      | Some raw \<Rightarrow>
          (if raw = [] then (None, w)
           else case logins_get_by_hash (hash_token s raw) w of
             Inl e \<Rightarrow> (None, w)
           | Inr l \<Rightarrow>
               (if lo_expires l < aw_now w then (None, w)
                else case users_get (lo_user l) w of
                  Inl e \<Rightarrow> (None, w)
                | Inr u \<Rightarrow>
                    (Some \<lparr>pn_user = u, pn_login = lo_id l, pn_token_auth = False\<rparr>,
                     if touch_interval < aw_now w - lo_last_seen l then snd (logins_touch (lo_id l) w) else w))))"

definition get_or_create_dev_user :: "auth_service \<Rightarrow> accounts \<Rightarrow> user option \<times> accounts" where
  "get_or_create_dev_user s w =
     (case users_get_by_subject dev_issuer (as_dev_user s) w of
        Inr u \<Rightarrow> (Some u, w)
      | Inl e \<Rightarrow>
          (if e \<noteq> ErrNotFound then (None, w)
           else
             (let (i, w1) = account_uuid (as_uuid s) w;
                  u = \<lparr>us_id = i, us_issuer = dev_issuer, us_subject = as_dev_user s, us_email = as_dev_user s,
                       us_name = ''Dev User'', us_avatar = [], us_role = RoleAdmin, us_created = aw_now w,
                       us_last_login = aw_now w, us_prefs = ''{}''\<rparr>
              in case users_create u w1 of (Inl e, w2) \<Rightarrow> (None, w2) | (Inr _, w2) \<Rightarrow> (Some u, w2))))"

definition dev_principal :: "auth_service \<Rightarrow> request \<Rightarrow> accounts \<Rightarrow> principal option \<times> cookie list \<times> accounts" where
  "dev_principal s r w =
     (let (u, w1) =
        (case users_get_by_subject dev_issuer (as_dev_user s) w of
           Inl e \<Rightarrow> if e \<noteq> ErrNotFound then (None, w) else get_or_create_dev_user s w
         | Inr u \<Rightarrow> (Some u, snd (users_touch_login (us_id u) w)))
      in case u of
           None \<Rightarrow> (None, [], w1)
         | Some usr \<Rightarrow>
             (case create_login s (us_id usr) r w1 of
                (Inl e, cs, w2) \<Rightarrow> (None, cs, w2)
              | (Inr i, cs, w2) \<Rightarrow> (Some \<lparr>pn_user = usr, pn_login = i, pn_token_auth = False\<rparr>, cs, w2)))"

definition authenticate :: "auth_service \<Rightarrow> request \<Rightarrow> accounts \<Rightarrow> principal option \<times> cookie list \<times> accounts" where
  "authenticate s r w =
     (case principal_from_cookie s r w of
        (Some p, w1) \<Rightarrow> (Some p, [], w1)
      | (None, w1) \<Rightarrow>
          (case principal_from_bearer s r w1 of
             (Some p, w2) \<Rightarrow> (Some p, [], w2)
           | (None, w2) \<Rightarrow> if as_dev_user s \<noteq> [] then dev_principal s r w2 else (None, [], w2)))"

definition logout :: "auth_service \<Rightarrow> request \<Rightarrow> accounts \<Rightarrow> unit account_result" where
  "logout s r w =
     (case rq_session r of
        None \<Rightarrow> (Inr (), w)
      | Some raw \<Rightarrow>
          (if raw = [] then (Inr (), w)
           else case logins_get_by_hash (hash_token s raw) w of
             Inl e \<Rightarrow> ((if e = ErrNotFound then Inr () else Inl e), w)
           | Inr l \<Rightarrow>
               (case logins_delete (lo_id l) w of
                  (Inl e, w1) \<Rightarrow> ((if e = ErrNotFound then Inr () else Inl e), w1)
                | (Inr _, w1) \<Rightarrow> (Inr (), w1))))"

definition logout_all :: "principal option \<Rightarrow> accounts \<Rightarrow> unit account_result" where
  "logout_all p w =
     (case p of
        None \<Rightarrow> (Inl (ErrOther ''logout-all: no authenticated principal''), w)
      | Some pn \<Rightarrow> (Inr (), logins_delete_all (us_id (pn_user pn)) w))"

section \<open>OpenID Connect (oidc.go)\<close>

text \<open>
  \<open>runtimeFor\<close>: a runtime is what the configured provider and its discovery document determine, so the cache holds
  the slugs whose discovery has succeeded. Discovery depends on the network, here on the moment it is asked.
\<close>

definition runtime_for :: "auth_service \<Rightarrow> string \<Rightarrow> accounts \<Rightarrow> oidc_provider account_result" where
  "runtime_for s slug w =
     (case provider_config s slug of
        None \<Rightarrow> (Inl (ErrOther ''auth: unknown provider''), w)
      | Some cfg \<Rightarrow>
          (if slug \<in> set (aw_runtimes w) then (Inr cfg, w)
           else case as_discover s cfg w of
             Some e \<Rightarrow> (Inl e, w)
           | None \<Rightarrow> (Inr cfg, w\<lparr>aw_runtimes := slug # aw_runtimes w\<rparr>)))"

definition provider_scopes :: "oidc_provider \<Rightarrow> string list" where
  "provider_scopes cfg = (if op_scopes cfg = [] then default_scopes else op_scopes cfg)"

definition begin_login :: "auth_service \<Rightarrow> string \<Rightarrow> accounts \<Rightarrow> (error + string) \<times> cookie list \<times> accounts" where
  "begin_login s slug w =
     (case runtime_for s slug w of
        (Inl e, w1) \<Rightarrow> (Inl e, [], w1)
      | (Inr cfg, w1) \<Rightarrow>
          (let (state, w2) = rand_token s w1;
               (nonce, w3) = rand_token s w2;
               verifier = as_verifier s (aw_uuids w3);
               w4 = w3\<lparr>aw_uuids := Suc (aw_uuids w3)\<rparr>;
               st = \<lparr>pk_state = state, pk_verifier = verifier, pk_nonce = nonce, pk_slug = slug\<rparr>
           in (Inr (as_auth_url s cfg (as_base_url s @ callback_path) (provider_scopes cfg) st), [PKCECookie st], w4)))"

definition resolve_name :: "id_claims \<Rightarrow> string" where
  "resolve_name c =
     (if cl_name c \<noteq> [] then cl_name c else if cl_preferred c \<noteq> [] then cl_preferred c else cl_email c)"

definition upsert_user :: "auth_service \<Rightarrow> string \<Rightarrow> string \<Rightarrow> id_claims \<Rightarrow> accounts \<Rightarrow> user account_result" where
  "upsert_user s issuer subject c w =
     (case users_get_by_subject issuer subject w of
        Inr u \<Rightarrow>
          (let differs = us_email u \<noteq> cl_email c \<or> us_name u \<noteq> cl_name c \<or> us_avatar u \<noteq> cl_picture c;
               (r1, w1) = (if differs then users_update_profile (us_id u) (cl_email c) (cl_name c) (cl_picture c) w else (Inr (), w));
               u1 = (if differs then u\<lparr>us_email := cl_email c, us_name := cl_name c, us_avatar := cl_picture c\<rparr> else u)
           in case r1 of
                Inl e \<Rightarrow> (Inl e, w1)
              | Inr _ \<Rightarrow>
                  (case users_touch_login (us_id u) w1 of
                     (Inl e, w2) \<Rightarrow> (Inl e, w2)
                   | (Inr _, w2) \<Rightarrow> (Inr u1, w2)))
      | Inl e \<Rightarrow>
          (if e \<noteq> ErrNotFound then (Inl e, w)
           else
             (let r = (if users_count w = 0 then RoleAdmin else RoleMember);
                  (i, w1) = account_uuid (as_uuid s) w;
                  u = \<lparr>us_id = i, us_issuer = issuer, us_subject = subject, us_email = cl_email c, us_name = cl_name c,
                       us_avatar = cl_picture c, us_role = r, us_created = aw_now w, us_last_login = aw_now w, us_prefs = []\<rparr>
              in case users_create u w1 of (Inl e, w2) \<Rightarrow> (Inl e, w2) | (Inr _, w2) \<Rightarrow> (Inr u, w2))))"

text \<open>What \<open>CompleteLogin\<close> does with a verified ID token.\<close>

definition finish_login :: "auth_service \<Rightarrow> oidc_provider \<Rightarrow> id_token \<Rightarrow> request \<Rightarrow> accounts \<Rightarrow> (error + user) \<times> cookie list \<times> accounts" where
  "finish_login s cfg t r w =
     (case it_claims t of
        None \<Rightarrow> (Inl (ErrOther ''decode id_token claims''), [PKCECleared], w)
      | Some c \<Rightarrow>
          (case upsert_user s (op_issuer cfg) (it_subject t) (c\<lparr>cl_name := resolve_name c\<rparr>) w of
             (Inl e, w1) \<Rightarrow> (Inl e, [PKCECleared], w1)
           | (Inr u, w1) \<Rightarrow>
               (case create_login s (us_id u) r w1 of
                  (Inl e, cs, w2) \<Rightarrow> (Inl e, PKCECleared # cs, w2)
                | (Inr i, cs, w2) \<Rightarrow> (Inr u, PKCECleared # cs, w2))))"

definition complete_login :: "auth_service \<Rightarrow> request \<Rightarrow> accounts \<Rightarrow> (error + user) \<times> cookie list \<times> accounts" where
  "complete_login s r w =
     (case rq_pkce r of
        None \<Rightarrow> (Inl (ErrOther ''read pkce cookie''), [], w)
      | Some st \<Rightarrow>
          (if rq_error r \<noteq> [] then (Inl (ErrOther ''oidc provider returned error''), [PKCECleared], w)
           else if rq_state r = [] \<or> rq_state r \<noteq> pk_state st then (Inl (ErrOther ''oidc: state mismatch''), [PKCECleared], w)
           else if rq_code r = [] then (Inl (ErrOther ''oidc: callback is missing the code parameter''), [PKCECleared], w)
           else case runtime_for s (pk_slug st) w of
             (Inl e, w1) \<Rightarrow> (Inl e, [PKCECleared], w1)
           | (Inr cfg, w1) \<Rightarrow>
               (case as_exchange s cfg (pk_verifier st) (rq_code r) of
                  Inl e \<Rightarrow> (Inl e, [PKCECleared], w1)
                | Inr raw \<Rightarrow>
                    (if raw = [] then (Inl (ErrOther ''oidc: token response has no id_token''), [PKCECleared], w1)
                     else case as_verify s cfg raw of
                       Inl e \<Rightarrow> (Inl e, [PKCECleared], w1)
                     | Inr t \<Rightarrow>
                         (if it_nonce t \<noteq> pk_nonce st then (Inl (ErrOther ''oidc: nonce mismatch''), [PKCECleared], w1)
                          else finish_login s cfg t r w1)))))"

end
