(* ===== verification/Account_Api.thy ===== *)
theory Account_Api
  imports Auth
begin

text \<open>
  The HTTP surface of accounts, \<open>internal/api\<close>: the envelope of errors (\<open>respond.go\<close>), the guards and their order
  (\<open>middleware.go\<close>, \<open>router.go\<close>, the role checks of \<open>auth/service.go\<close>), user administration and settings
  (\<open>users_handlers.go\<close>), the caller's own profile, tokens and credentials (\<open>me_handlers.go\<close>,
  \<open>api_tokens_handlers.go\<close>) and the login flow (\<open>auth_handlers.go\<close>). A handler answers a \<open>reply\<close>, a status with
  an error code or a body; JSON decoding, encryption and the verification of credentials are parameters.
\<close>

section \<open>Replies (respond.go)\<close>

datatype 'b reply = Refused nat string | Answered nat 'b

definition write_error :: "error \<Rightarrow> 'b reply" where
  "write_error e =
     (case e of
        ErrNotFound \<Rightarrow> Refused 404 ''not_found''
      | ErrForbidden \<Rightarrow> Refused 403 ''forbidden''
      | ErrInvalid _ \<Rightarrow> Refused 422 ''invalid''
      | ErrInvalidProblems _ \<Rightarrow> Refused 422 ''invalid''
      | ErrConflict _ \<Rightarrow> Refused 409 ''conflict''
      | _ \<Rightarrow> Refused 500 ''internal'')"

definition user_message :: "string \<Rightarrow> string \<Rightarrow> string" where
  "user_message msg sentinel =
     (let prefix = sentinel @ '': ''
      in if has_prefix msg prefix \<and> length prefix < length msg then drop (length prefix) msg else msg)"

definition deref_string :: "string option \<Rightarrow> string" where
  "deref_string p = (case p of None \<Rightarrow> [] | Some s \<Rightarrow> s)"

section \<open>Guards (auth/service.go, middleware.go)\<close>

text \<open>A guard answers the refusal it writes, or \<open>None\<close> to pass the request on.\<close>

type_synonym guard = "principal option \<Rightarrow> request \<Rightarrow> (nat \<times> string) option"

definition require_user :: guard where
  "require_user p r = (case p of None \<Rightarrow> Some (401, ''unauthorized'') | Some _ \<Rightarrow> None)"

definition require_admin :: guard where
  "require_admin p r =
     (case p of
        None \<Rightarrow> Some (401, ''unauthorized'')
      | Some pn \<Rightarrow> if us_role (pn_user pn) \<noteq> RoleAdmin then Some (403, ''forbidden'') else None)"

definition require_writer :: guard where
  "require_writer p r =
     (case p of
        None \<Rightarrow> Some (401, ''unauthorized'')
      | Some pn \<Rightarrow> if us_role (pn_user pn) = RoleViewer then Some (403, ''read_only'') else None)"

definition safe_method :: "string \<Rightarrow> bool" where
  "safe_method m \<longleftrightarrow> m \<in> {''GET'', ''HEAD'', ''OPTIONS''}"

definition csrf_guard :: guard where
  "csrf_guard p r =
     (if safe_method (rq_method r) then None
      else if (case p of Some pn \<Rightarrow> pn_token_auth pn | None \<Rightarrow> False) then None
      else if rq_requested_with r \<noteq> ''styr'' then Some (403, ''forbidden'')
      else None)"

definition me_write_exempt :: string where "me_write_exempt = ''/api/v1/me''"

definition writer_guard :: guard where
  "writer_guard p r =
     (if safe_method (rq_method r) then None
      else if has_prefix (rq_path r) me_write_exempt then None
      else require_writer p r)"

text \<open>
  \<open>realIP\<close>: the address a request is taken to come from, when a loopback peer forwards it; the splitting and
  parsing of addresses is the standard library's, an argument.
\<close>

definition real_ip :: "(string \<Rightarrow> string option) \<Rightarrow> (string \<Rightarrow> bool option) \<Rightarrow> string \<Rightarrow> string \<Rightarrow> string" where
  "real_ip split_host loopback remote forwarded_for =
     (let host = (case split_host remote of Some h \<Rightarrow> h | None \<Rightarrow> remote)
      in if loopback host = Some True then
           (let fwd = (if forwarded_for = [] then [] else trim_space (last (split_char CHR '','' forwarded_for)))
            in if fwd \<noteq> [] \<and> loopback fwd \<noteq> None then fwd @ '':0'' else remote)
         else remote)"

section \<open>The router (router.go)\<close>

definition first_refusal :: "guard list \<Rightarrow> principal option \<Rightarrow> request \<Rightarrow> (nat \<times> string) option" where
  "first_refusal gs p r =
     fold (\<lambda>g acc. case acc of Some x \<Rightarrow> Some x | None \<Rightarrow> g p r) gs None"

type_synonym 'b handler = "principal option \<Rightarrow> request \<Rightarrow> accounts \<Rightarrow> 'b reply \<times> cookie list \<times> accounts"

definition serve :: "guard list \<Rightarrow> auth_service \<Rightarrow> 'b handler \<Rightarrow> request \<Rightarrow> accounts \<Rightarrow> 'b reply \<times> cookie list \<times> accounts" where
  "serve gs s h r w =
     (let (p, cs, w1) = authenticate s r w
      in case first_refusal gs p r of
           Some (code, name) \<Rightarrow> (Refused code name, cs, w1)
         | None \<Rightarrow> (let (rep, cs2, w2) = h p r w1 in (rep, cs @ cs2, w2)))"

definition sign_out_guards :: "guard list" where "sign_out_guards = [csrf_guard, require_user]"
definition auth_guards :: "guard list" where "auth_guards = [csrf_guard]"
definition user_guards :: "guard list" where "user_guards = [require_user, csrf_guard, writer_guard]"
definition admin_guards :: "guard list" where "admin_guards = user_guards @ [require_admin]"
definition events_guards :: "guard list" where "events_guards = [require_user]"

section \<open>User administration (users_handlers.go)\<close>

definition role_named :: "string \<Rightarrow> role option" where
  "role_named s =
     (if s = ''admin'' then Some RoleAdmin else if s = ''member'' then Some RoleMember
      else if s = ''viewer'' then Some RoleViewer else None)"

definition is_first_user :: "id \<Rightarrow> accounts \<Rightarrow> bool" where
  "is_first_user i w = (case users_list w of [] \<Rightarrow> False | u # _ \<Rightarrow> us_id u = i)"

definition actor_id :: "principal option \<Rightarrow> id" where
  "actor_id p = (case p of None \<Rightarrow> [] | Some pn \<Rightarrow> us_id (pn_user pn))"

definition list_users :: "(user list) handler" where
  "list_users p r w = (Answered 200 (users_list w), [], w)"

definition patch_user :: "id \<Rightarrow> string option \<Rightarrow> user handler" where
  "patch_user i body p r w =
     (case body of
        None \<Rightarrow> (Refused 422 ''invalid'', [], w)
      | Some name \<Rightarrow>
          (case role_named name of
             None \<Rightarrow> (Refused 422 ''invalid'', [], w)
           | Some rl \<Rightarrow>
               (if actor_id p = i \<and> rl \<noteq> RoleAdmin then (Refused 422 ''invalid'', [], w)
                else if rl \<noteq> RoleAdmin \<and> is_first_user i w then (Refused 422 ''invalid'', [], w)
                else case users_update_role i rl w of
                  (Inl e, w1) \<Rightarrow> (write_error e, [], w1)
                | (Inr _, w1) \<Rightarrow>
                    (case users_get i w1 of
                       Inl e \<Rightarrow> (write_error e, [], w1)
                     | Inr u \<Rightarrow> (Answered 200 u, [], w1)))))"

section \<open>Personal API tokens (api_tokens_handlers.go)\<close>

definition max_token_days :: int where "max_token_days = 3650"

record account_api =
  aa_auth :: auth_service
  aa_token_store :: bool
  aa_codex :: bool
  aa_add_days :: "time \<Rightarrow> int \<Rightarrow> time"
  aa_verify_claude :: "string \<Rightarrow> error option"
  aa_verify_codex :: "string \<Rightarrow> error option"
  aa_seal :: "string \<Rightarrow> nat \<Rightarrow> error + string \<times> string"
  aa_max_open :: int
  aa_idle_timeout :: duration

definition caller :: "principal option \<Rightarrow> id" where
  "caller = actor_id"

definition list_api_tokens :: "account_api \<Rightarrow> (api_token list) handler" where
  "list_api_tokens d p r w =
     (if \<not> aa_token_store d then (Refused 501 ''not_implemented'', [], w)
      else (Answered 200 (tokens_list_by_user (caller p) w), [], w))"

record token_input =
  ti_name :: string
  ti_days :: "int option"

record created_token =
  cd_id :: id
  cd_name :: string
  cd_prefix :: string
  cd_token :: string

definition create_api_token :: "account_api \<Rightarrow> token_input option \<Rightarrow> created_token handler" where
  "create_api_token d body p r w =
     (if \<not> aa_token_store d then (Refused 501 ''not_implemented'', [], w)
      else case body of
        None \<Rightarrow> (Refused 422 ''invalid'', [], w)
      | Some inp \<Rightarrow>
          (let name = trim_space (ti_name inp)
           in if name = [] then (Refused 422 ''invalid'', [], w)
              else if (case ti_days inp of Some n \<Rightarrow> n < 0 \<or> max_token_days < n | None \<Rightarrow> False)
              then (Refused 422 ''invalid'', [], w)
              else
                (let ((raw, h, prefix), w1) = generate_api_token (aa_auth d) w;
                     expires = (case ti_days inp of Some n \<Rightarrow> if 0 < n then Some (aa_add_days d (aw_now w) n) else None | None \<Rightarrow> None);
                     (i, w2) = account_uuid (as_uuid (aa_auth d)) w1;
                     tok = \<lparr>at_id = i, at_user = caller p, at_name = name, at_hash = h, at_prefix = prefix, at_created = aw_now w,
                            at_last_used = None, at_expires = expires\<rparr>
                 in case tokens_create tok w2 of
                      (Inl e, w3) \<Rightarrow> (write_error e, [], w3)
                    | (Inr _, w3) \<Rightarrow> (Answered 201 \<lparr>cd_id = i, cd_name = name, cd_prefix = prefix, cd_token = raw\<rparr>, [], w3))))"

definition delete_api_token :: "account_api \<Rightarrow> id \<Rightarrow> unit handler" where
  "delete_api_token d i p r w =
     (if \<not> aa_token_store d then (Refused 501 ''not_implemented'', [], w)
      else case tokens_delete i (caller p) w of
        (Inl e, w1) \<Rightarrow> (write_error e, [], w1)
      | (Inr _, w1) \<Rightarrow> (Answered 204 (), [], w1))"

section \<open>Profile and credentials (me_handlers.go)\<close>

text \<open>The ellipsis of the labels is its three UTF-8 bytes.\<close>

definition ellipsis :: string where
  "ellipsis = [char_of (226::nat), char_of (128::nat), char_of (166::nat)]"

definition codex_key_label :: "string \<Rightarrow> string" where
  "codex_key_label key = (if length key \<le> 4 then ellipsis @ key else ellipsis @ drop (length key - 4) key)"

definition crypto_suffix :: "string \<Rightarrow> string" where
  "crypto_suffix token = (if length token \<le> 6 then token else drop (length token - 6) token)"

record credential_summary =
  cs_present :: bool
  cs_label :: string
  cs_verified :: "time option"

definition no_credential :: credential_summary where
  "no_credential = \<lparr>cs_present = False, cs_label = [], cs_verified = None\<rparr>"

definition claude_token_for :: "id \<Rightarrow> accounts \<Rightarrow> error + credential_summary" where
  "claude_token_for user w =
     (case claude_get user w of
        Inl e \<Rightarrow> if e = ErrNotFound then Inr no_credential else Inl e
      | Inr c \<Rightarrow> Inr \<lparr>cs_present = True, cs_label = ct_label c, cs_verified = ct_verified c\<rparr>)"

definition codex_key_for :: "account_api \<Rightarrow> id \<Rightarrow> accounts \<Rightarrow> error + credential_summary" where
  "codex_key_for d user w =
     (if \<not> aa_codex d then Inr no_credential
      else case codex_get user w of
        Inl e \<Rightarrow> if e = ErrNotFound then Inr no_credential else Inl e
      | Inr c \<Rightarrow> Inr \<lparr>cs_present = True, cs_label = cc_label c, cs_verified = None\<rparr>)"

record me_view =
  me_user :: user
  me_claude :: credential_summary
  me_codex :: credential_summary

definition me_dto_for :: "account_api \<Rightarrow> user \<Rightarrow> accounts \<Rightarrow> error + me_view" where
  "me_dto_for d u w =
     (case claude_token_for (us_id u) w of
        Inl e \<Rightarrow> Inl e
      | Inr tok \<Rightarrow>
          (case codex_key_for d (us_id u) w of
             Inl e \<Rightarrow> Inl e
           | Inr key \<Rightarrow> Inr \<lparr>me_user = u, me_claude = tok, me_codex = key\<rparr>))"

definition reply_with :: "nat \<Rightarrow> error + 'b \<Rightarrow> 'b reply" where
  "reply_with code res = (case res of Inl e \<Rightarrow> write_error e | Inr x \<Rightarrow> Answered code x)"

text \<open>The handlers under \<open>/me\<close> run behind \<open>RequireUser\<close>: without a principal their dereference panics, \<open>None\<close>.\<close>

definition get_me :: "account_api \<Rightarrow> principal option \<Rightarrow> accounts \<Rightarrow> me_view reply option" where
  "get_me d p w = map_option (\<lambda>pn. reply_with 200 (me_dto_for d (pn_user pn) w)) p"

definition patch_me :: "account_api \<Rightarrow> string option \<Rightarrow> principal option \<Rightarrow> accounts \<Rightarrow> (me_view reply \<times> accounts) option" where
  "patch_me d body p w =
     (case p of
        None \<Rightarrow> (case body of None \<Rightarrow> Some (Refused 422 ''invalid'', w) | Some _ \<Rightarrow> None)
      | Some pn \<Rightarrow>
          Some (case body of
             None \<Rightarrow> (Refused 422 ''invalid'', w)
           | Some prefs \<Rightarrow>
               (if prefs = [] then (reply_with 200 (me_dto_for d (pn_user pn) w), w)
                else case users_update_prefs (us_id (pn_user pn)) prefs w of
                  (Inl e, w1) \<Rightarrow> (write_error e, w1)
                | (Inr _, w1) \<Rightarrow> (reply_with 200 (me_dto_for d ((pn_user pn)\<lparr>us_prefs := prefs\<rparr>) w1), w1))))"

definition sealed :: "account_api \<Rightarrow> string \<Rightarrow> accounts \<Rightarrow> (error + string \<times> string) \<times> accounts" where
  "sealed d plain w = (aa_seal d plain (aw_uuids w), w\<lparr>aw_uuids := Suc (aw_uuids w)\<rparr>)"

definition put_claude_token :: "account_api \<Rightarrow> string option \<Rightarrow> unit handler" where
  "put_claude_token d body p r w =
     (case body of
        None \<Rightarrow> (Refused 422 ''invalid'', [], w)
      | Some token \<Rightarrow>
          (if token = [] then (Refused 422 ''invalid'', [], w)
           else if aa_verify_claude d token \<noteq> None then (Refused 422 ''token_invalid'', [], w)
           else case sealed d token w of
             (Inl e, w1) \<Rightarrow> (write_error e, [], w1)
           | (Inr (cipher, nonce), w1) \<Rightarrow>
               (let w2 = claude_set (caller p) cipher nonce (ellipsis @ crypto_suffix token) w1
                in case claude_mark_verified (caller p) w2 of
                     (Inl e, w3) \<Rightarrow> (write_error e, [], w3)
                   | (Inr _, w3) \<Rightarrow> (Answered 204 (), [], w3))))"

definition delete_claude_token :: "unit handler" where
  "delete_claude_token p r w =
     (case claude_delete (caller p) w of
        (Inl e, w1) \<Rightarrow> (if e = ErrNotFound then (Answered 204 (), [], w1) else (write_error e, [], w1))
      | (Inr _, w1) \<Rightarrow> (Answered 204 (), [], w1))"

definition verify_and_seal_codex_key ::
  "account_api \<Rightarrow> string option \<Rightarrow> accounts \<Rightarrow> (unit reply + string \<times> string \<times> string) \<times> accounts" where
  "verify_and_seal_codex_key d body w =
     (if \<not> aa_codex d then (Inl (Refused 501 ''not_implemented''), w)
      else case body of
        None \<Rightarrow> (Inl (Refused 422 ''invalid''), w)
      | Some key \<Rightarrow>
          (if key = [] then (Inl (Refused 422 ''invalid''), w)
           else if aa_verify_codex d key \<noteq> None then (Inl (Refused 422 ''key_invalid''), w)
           else case sealed d key w of
             (Inl e, w1) \<Rightarrow> (Inl (write_error e), w1)
           | (Inr (cipher, nonce), w1) \<Rightarrow> (Inr (cipher, nonce, codex_key_label key), w1)))"

definition put_codex_key :: "account_api \<Rightarrow> string option \<Rightarrow> unit handler" where
  "put_codex_key d body p r w =
     (case verify_and_seal_codex_key d body w of
        (Inl rep, w1) \<Rightarrow> (rep, [], w1)
      | (Inr (cipher, nonce, label), w1) \<Rightarrow> (Answered 204 (), [], codex_set (caller p) cipher nonce label w1))"

definition delete_codex_key :: "account_api \<Rightarrow> unit handler" where
  "delete_codex_key d p r w =
     (if \<not> aa_codex d then (Refused 501 ''not_implemented'', [], w)
      else case codex_delete (caller p) w of
        (Inl e, w1) \<Rightarrow> (if e = ErrNotFound then (Answered 204 (), [], w1) else (write_error e, [], w1))
      | (Inr _, w1) \<Rightarrow> (Answered 204 (), [], w1))"

section \<open>Server settings (users_handlers.go)\<close>

record settings_view =
  sv_max_open :: int
  sv_idle_timeout :: duration
  sv_service_token :: credential_summary
  sv_codex_key :: credential_summary

definition service_token_status :: "accounts \<Rightarrow> error + credential_summary" where
  "service_token_status w =
     (case claude_get_service w of
        Inl e \<Rightarrow> if e = ErrNotFound then Inr no_credential else Inl e
      | Inr c \<Rightarrow> Inr \<lparr>cs_present = True, cs_label = ct_label c, cs_verified = ct_verified c\<rparr>)"

definition get_settings :: "account_api \<Rightarrow> settings_view handler" where
  "get_settings d p r w =
     (case service_token_status w of
        Inl e \<Rightarrow> (write_error e, [], w)
      | Inr tok \<Rightarrow>
          (case codex_key_for d service_token_user w of
             Inl e \<Rightarrow> (write_error e, [], w)
           | Inr key \<Rightarrow> (Answered 200 \<lparr>sv_max_open = aa_max_open d, sv_idle_timeout = aa_idle_timeout d,
                                    sv_service_token = tok, sv_codex_key = key\<rparr>, [], w)))"

definition put_service_token :: "account_api \<Rightarrow> string option \<Rightarrow> unit handler" where
  "put_service_token d body p r w =
     (case body of
        None \<Rightarrow> (Refused 422 ''invalid'', [], w)
      | Some token \<Rightarrow>
          (if token = [] then (Refused 422 ''invalid'', [], w)
           else if aa_verify_claude d token \<noteq> None then (Refused 422 ''token_invalid'', [], w)
           else case sealed d token w of
             (Inl e, w1) \<Rightarrow> (write_error e, [], w1)
           | (Inr (cipher, nonce), w1) \<Rightarrow>
               (Answered 204 (), [], claude_set_service cipher nonce (ellipsis @ crypto_suffix token) w1)))"

definition put_service_codex_key :: "account_api \<Rightarrow> string option \<Rightarrow> unit handler" where
  "put_service_codex_key d body p r w =
     (case verify_and_seal_codex_key d body w of
        (Inl rep, w1) \<Rightarrow> (rep, [], w1)
      | (Inr (cipher, nonce, label), w1) \<Rightarrow> (Answered 204 (), [], codex_set_service cipher nonce label w1))"

section \<open>Signing in and out (auth_handlers.go)\<close>

definition auth_providers :: "auth_service \<Rightarrow> ((string \<times> string) list) handler" where
  "auth_providers s p r w = (Answered 200 (providers s), [], w)"

text \<open>A redirect is answered with its location.\<close>

definition auth_login :: "auth_service \<Rightarrow> string \<Rightarrow> string handler" where
  "auth_login s slug p r w =
     (case begin_login s slug w of
        (Inl e, cs, w1) \<Rightarrow> (Answered 302 ''/login?error=provider'', cs, w1)
      | (Inr url, cs, w1) \<Rightarrow> (Answered 302 url, cs, w1))"

definition auth_callback :: "auth_service \<Rightarrow> string handler" where
  "auth_callback s p r w =
     (case complete_login s r w of
        (Inl e, cs, w1) \<Rightarrow> (Answered 302 ''/login?error=callback'', cs, w1)
      | (Inr u, cs, w1) \<Rightarrow> (Answered 302 ''/'', cs, w1))"

definition auth_logout :: "auth_service \<Rightarrow> unit handler" where
  "auth_logout s p r w =
     (case logout s r w of
        (Inl e, w1) \<Rightarrow> (write_error e, [SessionCleared], w1)
      | (Inr _, w1) \<Rightarrow> (Answered 204 (), [SessionCleared], w1))"

definition auth_logout_all :: "unit handler" where
  "auth_logout_all p r w =
     (case logout_all p w of
        (Inl e, w1) \<Rightarrow> (write_error e, [SessionCleared], w1)
      | (Inr _, w1) \<Rightarrow> (Answered 204 (), [SessionCleared], w1))"

end
