(* ===== verification/Account_Proofs.thy ===== *)
theory Account_Proofs
  imports Account_Api
begin

text \<open>
  What the accounts keep: their tables stay well formed (\<open>accounts_ok\<close>) and an administrator remains (\<open>governed\<close>)
  across every operation, what a lookup by hash finds (the locale \<open>hashed_credential\<close>, shared by browser sessions
  and API tokens), and what resolving a request to its principal reads and writes.
\<close>

named_theorems account_simps "the repositories of accounts, unfolded"
named_theorems account_safe "operations that keep the accounts governed"

section \<open>Well-formed accounts\<close>

definition subject_of :: "user \<Rightarrow> string \<times> string" where
  "subject_of u = (us_issuer u, us_subject u)"

definition accounts_ok :: "accounts \<Rightarrow> bool" where
  "accounts_ok w \<longleftrightarrow>
     distinct (map us_id (aw_users w)) \<and> distinct (map subject_of (aw_users w)) \<and>
     distinct (map lo_id (aw_logins w)) \<and> distinct (map lo_hash (aw_logins w)) \<and>
     distinct (map at_id (aw_tokens w)) \<and> distinct (map at_hash (aw_tokens w)) \<and>
     lo_user ` set (aw_logins w) \<subseteq> us_id ` set (aw_users w) \<and> at_user ` set (aw_tokens w) \<subseteq> us_id ` set (aw_users w) \<and>
     distinct (map ct_user (aw_claude w)) \<and> distinct (map cc_user (aw_codex w))"

definition has_admin :: "accounts \<Rightarrow> bool" where
  "has_admin w \<longleftrightarrow> (\<exists>u \<in> set (aw_users w). us_role u = RoleAdmin)"

definition governed :: "accounts \<Rightarrow> bool" where
  "governed w \<longleftrightarrow> accounts_ok w \<and> (aw_users w = [] \<or> has_admin w)"

lemma distinct_update:
  "(\<And>r. g (f r) = g r) \<Longrightarrow> distinct (map g (tbl_update key i f t)) = distinct (map g t)"
  by (simp add: map_tbl_update)

lemma image_update: "(\<And>r. g (f r) = g r) \<Longrightarrow> g ` set (tbl_update key i f t) = g ` set t"
proof -
  assume "\<And>r. g (f r) = g r"
  then have "map g (tbl_update key i f t) = map g t" by (rule map_tbl_update)
  then show ?thesis by (metis set_map)
qed

lemma distinct_map_filter_rows: "distinct (map g t) \<Longrightarrow> distinct (map g (filter P t))"
  by (rule distinct_map_filter)

lemma fk_some: "fk key t (Some i) \<longleftrightarrow> i \<in> key ` set t"
  by (auto simp: fk_def)

section \<open>Every operation keeps them governed\<close>

lemma governed_counters [account_safe]:
  "governed w \<Longrightarrow> governed (w\<lparr>aw_uuids := n\<rparr>)"
  "governed w \<Longrightarrow> governed (w\<lparr>aw_now := t\<rparr>)"
  "governed w \<Longrightarrow> governed (w\<lparr>aw_runtimes := rs\<rparr>)"
  by (simp_all add: governed_def accounts_ok_def has_admin_def)

lemma governed_logins:
  assumes "governed w" and "distinct (map lo_id ls)" "distinct (map lo_hash ls)" "lo_user ` set ls \<subseteq> us_id ` set (aw_users w)"
  shows "governed (w\<lparr>aw_logins := ls\<rparr>)"
  using assms by (simp add: governed_def accounts_ok_def has_admin_def)

lemma governed_tokens:
  assumes "governed w" and "distinct (map at_id ts)" "distinct (map at_hash ts)" "at_user ` set ts \<subseteq> us_id ` set (aw_users w)"
  shows "governed (w\<lparr>aw_tokens := ts\<rparr>)"
  using assms by (simp add: governed_def accounts_ok_def has_admin_def)

lemma governedD:
  assumes "governed w"
  shows "distinct (map us_id (aw_users w))" "distinct (map subject_of (aw_users w))"
    "distinct (map lo_id (aw_logins w))" "distinct (map lo_hash (aw_logins w))"
    "distinct (map at_id (aw_tokens w))" "distinct (map at_hash (aw_tokens w))"
    "lo_user ` set (aw_logins w) \<subseteq> us_id ` set (aw_users w)" "at_user ` set (aw_tokens w) \<subseteq> us_id ` set (aw_users w)"
  using assms by (simp_all add: governed_def accounts_ok_def)

lemma governed_owner:
  "governed w \<Longrightarrow> l \<in> set (aw_logins w) \<Longrightarrow> lo_user l \<in> us_id ` set (aw_users w)"
  "governed w \<Longrightarrow> t \<in> set (aw_tokens w) \<Longrightarrow> at_user t \<in> us_id ` set (aw_users w)"
  using governedD(7,8)[of w] by auto

lemma logins_create_governed [account_safe]:
  "governed w \<Longrightarrow> governed (snd (logins_create uuid user h expires agent w))"
  by (auto simp: logins_create_def account_uuid_def Let_def fk_some intro!: governed_logins governed_counters
      dest: governedD(3,4) governed_owner)

lemma logins_touch_governed [account_safe]: "governed w \<Longrightarrow> governed (snd (logins_touch i w))"
  by (auto simp: logins_touch_def distinct_update set_tbl_update governedD(3,4) governed_owner
      intro!: governed_logins)

lemma logins_delete_governed [account_safe]: "governed w \<Longrightarrow> governed (snd (logins_delete i w))"
  using governedD[of w]
  by (auto simp: logins_delete_def tbl_delete_def intro!: governed_logins distinct_map_filter_rows)

lemma logins_delete_all_governed [account_safe]: "governed w \<Longrightarrow> governed (logins_delete_all user w)"
  using governedD[of w]
  by (auto simp: logins_delete_all_def intro!: governed_logins distinct_map_filter_rows)

lemma tokens_create_governed [account_safe]: "governed w \<Longrightarrow> governed (snd (tokens_create t w))"
  by (auto simp: tokens_create_def fk_some intro!: governed_tokens dest: governedD(5,6) governed_owner)

lemma tokens_touch_governed [account_safe]: "governed w \<Longrightarrow> governed (snd (tokens_touch_used i t w))"
  by (auto simp: tokens_touch_used_def distinct_update set_tbl_update governedD(5,6) governed_owner
      intro!: governed_tokens)

lemma tokens_delete_governed [account_safe]: "governed w \<Longrightarrow> governed (snd (tokens_delete i user w))"
  using governedD[of w]
  by (auto simp: tokens_delete_def intro!: governed_tokens distinct_map_filter_rows)

lemma governed_users:
  assumes "governed w" and "map us_id us = map us_id (aw_users w)" and "map subject_of us = map subject_of (aw_users w)"
    and "us \<noteq> [] \<Longrightarrow> \<exists>u \<in> set us. us_role u = RoleAdmin"
  shows "governed (w\<lparr>aw_users := us\<rparr>)"
proof -
  have "us_id ` set us = us_id ` set (aw_users w)" using assms(2) by (metis set_map)
  then show ?thesis using assms by (auto simp: governed_def accounts_ok_def has_admin_def)
qed

lemma users_exec1_governed:
  assumes "governed w" and "\<And>u. us_id (f u) = us_id u" "\<And>u. subject_of (f u) = subject_of u" "\<And>u. us_role (f u) = us_role u"
  shows "governed (snd (users_exec1 i f w))"
proof (cases "i \<in> us_id ` set (aw_users w)")
  case True
  have "map us_role (tbl_update us_id i f (aw_users w)) = map us_role (aw_users w)" using assms(4) by (rule map_tbl_update)
  then have roles: "us_role ` set (tbl_update us_id i f (aw_users w)) = us_role ` set (aw_users w)" by (metis set_map)
  have "\<exists>u \<in> set (aw_users w). us_role u = RoleAdmin" using assms(1) True by (auto simp: governed_def has_admin_def)
  then have "RoleAdmin \<in> us_role ` set (tbl_update us_id i f (aw_users w))" unfolding roles by force
  then have "\<exists>u \<in> set (tbl_update us_id i f (aw_users w)). us_role u = RoleAdmin" by force
  then show ?thesis using True assms by (auto simp: users_exec1_def map_tbl_update intro!: governed_users)
qed (use assms(1) in \<open>simp add: users_exec1_def\<close>)

lemma users_touch_login_governed [account_safe]: "governed w \<Longrightarrow> governed (snd (users_touch_login i w))"
  unfolding users_touch_login_def by (rule users_exec1_governed) (auto simp: subject_of_def)

lemma users_update_profile_governed [account_safe]: "governed w \<Longrightarrow> governed (snd (users_update_profile i e n a w))"
  unfolding users_update_profile_def by (rule users_exec1_governed) (auto simp: subject_of_def)

lemma users_update_prefs_governed [account_safe]: "governed w \<Longrightarrow> governed (snd (users_update_prefs i prefs w))"
  unfolding users_update_prefs_def by (rule users_exec1_governed) (auto simp: subject_of_def)

lemma users_create_governed:
  assumes "governed w" and "aw_users w = [] \<Longrightarrow> us_role u = RoleAdmin"
  shows "governed (snd (users_create u w))"
  using assms by (cases "aw_users w = []")
    (auto simp: users_create_def governed_def accounts_ok_def has_admin_def subject_of_def list_ex_iff Let_def)

lemma users_update_role_governed:
  assumes gov: "governed w" and keep: "r \<noteq> RoleAdmin \<Longrightarrow> \<exists>u \<in> set (aw_users w). us_id u \<noteq> i \<and> us_role u = RoleAdmin"
  shows "governed (snd (users_update_role i r w))"
proof (cases "i \<in> us_id ` set (aw_users w)")
  case True
  have "\<exists>u \<in> set (tbl_update us_id i (\<lambda>u. u\<lparr>us_role := r\<rparr>) (aw_users w)). us_role u = RoleAdmin"
  proof (cases "r = RoleAdmin")
    case True
    obtain u where "u \<in> set (aw_users w)" "us_id u = i" using \<open>i \<in> us_id ` set (aw_users w)\<close> by blast
    then have "u\<lparr>us_role := r\<rparr> \<in> set (tbl_update us_id i (\<lambda>u. u\<lparr>us_role := r\<rparr>) (aw_users w))"
      by (auto simp: set_tbl_update)
    then show ?thesis using True by (intro bexI) auto
  next
    case False
    then obtain u where "u \<in> set (aw_users w)" "us_id u \<noteq> i" "us_role u = RoleAdmin" using keep by blast
    then show ?thesis by (force simp: set_tbl_update)
  qed
  then show ?thesis using gov True
    by (auto simp: users_update_role_def users_exec1_def map_tbl_update subject_of_def intro!: governed_users)
qed (use gov in \<open>simp add: users_update_role_def users_exec1_def\<close>)

lemma credentials_governed [account_safe]:
  "governed w \<Longrightarrow> governed (claude_set i c n l w)"
  "governed w \<Longrightarrow> governed (snd (claude_mark_verified i w))"
  "governed w \<Longrightarrow> governed (snd (claude_delete i w))"
  "governed w \<Longrightarrow> governed (codex_set i c n l w)"
  "governed w \<Longrightarrow> governed (snd (codex_delete i w))"
proof -
  assume g: "governed w"
  have key: "distinct (map key (tbl_update key i (\<lambda>_. row) t)) = distinct (map key t)" if "key row = i"
    for key :: "'r \<Rightarrow> id" and row and t
  proof -
    have "map key (tbl_update key i (\<lambda>_. row) t) = map key t" using that by (induction t) (auto simp: tbl_update_def)
    then show ?thesis by simp
  qed
  show "governed (claude_set i c n l w)" "governed (codex_set i c n l w)"
    using g by (auto simp: claude_set_def codex_set_def Let_def governed_def accounts_ok_def has_admin_def key)
  show "governed (snd (claude_mark_verified i w))"
    using g by (auto simp: claude_mark_verified_def governed_def accounts_ok_def has_admin_def distinct_update)
  show "governed (snd (claude_delete i w))" "governed (snd (codex_delete i w))"
    using g by (auto simp: claude_delete_def codex_delete_def governed_def accounts_ok_def has_admin_def tbl_delete_def
      distinct_map_filter_rows)
qed

section \<open>Signing in keeps them governed\<close>

lemma rand_token_governed [account_safe]: "governed w \<Longrightarrow> governed (snd (rand_token s w))"
  by (simp add: rand_token_def account_safe)

lemma runtime_governed [account_safe]: "governed w \<Longrightarrow> governed (snd (runtime_for s slug w))"
  by (simp add: runtime_for_def account_safe split: option.splits)

lemma create_login_governed [account_safe]: "governed w \<Longrightarrow> governed (snd (snd (create_login s user r w)))"
  unfolding create_login_def
  by (auto simp: Let_def split: prod.splits sum.splits dest!: arg_cong[of _ _ snd] intro: rand_token_governed)
    (metis account_safe snd_conv)+

text \<open>For the result of an operation written as a pair.\<close>

lemma governed_pair: "p = (r, w') \<Longrightarrow> governed (snd p) \<Longrightarrow> governed w'"
  by simp

lemma governed_triple: "p = (r, cs, w') \<Longrightarrow> governed (snd (snd p)) \<Longrightarrow> governed w'"
  by simp

lemma snd_result_case:
  "snd (case p of (Inl e, w') \<Rightarrow> (f e, w') | (Inr x, w') \<Rightarrow> (g x, w')) = snd p"
  by (auto split: prod.splits sum.splits)

lemma snd_snd_result_case:
  "snd (snd (case p of (Inl e, w') \<Rightarrow> (f e, cs, w') | (Inr x, w') \<Rightarrow> (g x, cs', w'))) = snd p"
  by (auto split: prod.splits sum.splits)

lemma users_create_step:
  "users_create u w = (r, w') \<Longrightarrow> governed w \<Longrightarrow> (aw_users w = [] \<Longrightarrow> us_role u = RoleAdmin) \<Longrightarrow> governed w'"
  using users_create_governed[of w u] by simp

lemmas login_steps =
  governed_pair[OF _ logins_create_governed] governed_pair[OF _ logins_delete_governed] governed_pair[OF _ rand_token_governed]
  governed_pair[OF _ runtime_governed] governed_triple[OF _ create_login_governed]

lemma cookie_governed [account_safe]: "governed w \<Longrightarrow> governed (snd (principal_from_cookie s r w))"
  by (simp add: principal_from_cookie_def account_safe split: option.splits sum.splits)

lemma bearer_governed [account_safe]: "governed w \<Longrightarrow> governed (snd (principal_from_bearer s r w))"
  by (simp add: principal_from_bearer_def account_safe split: option.splits sum.splits)

lemma dev_user_governed [account_safe]: "governed w \<Longrightarrow> governed (snd (get_or_create_dev_user s w))"
proof -
  assume g: "governed w"
  obtain i w1 where u: "account_uuid (as_uuid s) w = (i, w1)" by (rule prod.exhaust)
  then have g1: "governed w1" using g by (auto simp: account_uuid_def account_safe)
  show ?thesis
    using g g1 users_create_governed[OF g1]
    by (auto simp: get_or_create_dev_user_def u Let_def snd_result_case split: sum.splits)
qed

lemma dev_principal_governed [account_safe]: "governed w \<Longrightarrow> governed (snd (snd (dev_principal s r w)))"
proof -
  assume g: "governed w"
  define q where "q = (case users_get_by_subject dev_issuer (as_dev_user s) w of
      Inl e \<Rightarrow> if e \<noteq> ErrNotFound then (None, w) else get_or_create_dev_user s w
    | Inr u \<Rightarrow> (Some u, snd (users_touch_login (us_id u) w)))"
  have "governed (snd q)" using g by (auto simp: q_def account_safe split: sum.splits)
  then show ?thesis
    unfolding dev_principal_def q_def[symmetric]
    by (auto split: prod.splits option.splits sum.splits intro: governed_triple[OF _ create_login_governed])
qed

lemma authenticate_governed [account_safe]: "governed w \<Longrightarrow> governed (snd (snd (authenticate s r w)))"
  by (auto simp: authenticate_def split: prod.splits option.splits
    dest: governed_pair[OF _ cookie_governed] governed_pair[OF _ bearer_governed] intro: dev_principal_governed)

lemma logout_governed [account_safe]: "governed w \<Longrightarrow> governed (snd (logout s r w))"
  by (auto simp: logout_def split: prod.splits option.splits sum.splits intro: governed_pair[OF _ logins_delete_governed])

lemma logout_all_governed [account_safe]: "governed w \<Longrightarrow> governed (snd (logout_all p w))"
  by (auto simp: logout_all_def account_safe split: option.splits)

lemma upsert_user_governed [account_safe]: "governed w \<Longrightarrow> governed (snd (upsert_user s issuer subject c w))"
proof -
  assume g: "governed w"
  obtain i w1 where u: "account_uuid (as_uuid s) w = (i, w1)" by (rule prod.exhaust)
  then have g1: "governed w1" and same: "aw_users w1 = aw_users w" using g by (auto simp: account_uuid_def account_safe)
  show ?thesis
  proof (cases "users_get_by_subject issuer subject w")
    case (Inl e)
    then show ?thesis using g users_create_governed[OF g1]
      by (auto simp: upsert_user_def u Let_def users_count_def same snd_result_case)
  next
    case (Inr v)
    define q where "q = (if us_email v \<noteq> cl_email c \<or> us_name v \<noteq> cl_name c \<or> us_avatar v \<noteq> cl_picture c
      then users_update_profile (us_id v) (cl_email c) (cl_name c) (cl_picture c) w else (Inr (), w))"
    have "governed (snd q)" using g by (simp add: q_def users_update_profile_governed)
    then show ?thesis unfolding upsert_user_def Inr sum.case Let_def q_def[symmetric]
      by (auto split: prod.splits sum.splits dest: governed_pair[OF _ users_touch_login_governed])
  qed
qed

lemma finish_login_governed [account_safe]: "governed w \<Longrightarrow> governed (snd (snd (finish_login s cfg t r w)))"
  by (auto simp: finish_login_def split: option.splits prod.splits sum.splits
    dest: governed_pair[OF _ upsert_user_governed] governed_triple[OF _ create_login_governed])

lemma complete_login_governed [account_safe]: "governed w \<Longrightarrow> governed (snd (snd (complete_login s r w)))"
  by (auto simp: complete_login_def account_safe split: option.splits prod.splits sum.splits
    dest: governed_pair[OF _ runtime_governed] intro: finish_login_governed)

lemma begin_login_governed [account_safe]: "governed w \<Longrightarrow> governed (snd (snd (begin_login s slug w)))"
  by (auto simp: begin_login_def Let_def split: prod.splits sum.splits intro!: governed_counters dest!: login_steps)

section \<open>Requests keep them governed\<close>

lemma generate_token_governed [account_safe]: "governed w \<Longrightarrow> governed (snd (generate_api_token s w))"
  by (simp add: generate_api_token_def rand_token_def Let_def account_safe)

lemma sealed_governed [account_safe]: "governed w \<Longrightarrow> governed (snd (sealed d plain w))"
  by (simp add: sealed_def account_safe)

lemma create_api_token_governed [account_safe]: "governed w \<Longrightarrow> governed (snd (snd (create_api_token d body p r w)))"
proof -
  assume g: "governed w"
  obtain raw h prefix w1 where t: "generate_api_token (aa_auth d) w = ((raw, h, prefix), w1)" by (metis prod.exhaust)
  then have "governed w1" using generate_token_governed[OF g, of "aa_auth d"] by simp
  moreover obtain i w2 where u: "account_uuid (as_uuid (aa_auth d)) w1 = (i, w2)" by (rule prod.exhaust)
  ultimately have g2: "governed w2" by (auto simp: account_uuid_def account_safe)
  show ?thesis using g tokens_create_governed[OF g2]
    by (auto simp: create_api_token_def t u Let_def snd_snd_result_case split: option.splits)
qed

lemma delete_api_token_governed [account_safe]: "governed w \<Longrightarrow> governed (snd (snd (delete_api_token d i p r w)))"
  by (auto simp: delete_api_token_def split: prod.splits sum.splits dest: governed_pair[OF _ tokens_delete_governed])

lemma put_claude_governed [account_safe]: "governed w \<Longrightarrow> governed (snd (snd (put_claude_token d body p r w)))"
  by (auto simp: put_claude_token_def Let_def snd_snd_result_case split: option.splits prod.splits sum.splits
    dest!: governed_pair[OF _ sealed_governed] intro: account_safe)

lemma delete_claude_governed [account_safe]: "governed w \<Longrightarrow> governed (snd (snd (delete_claude_token p r w)))"
  by (auto simp: delete_claude_token_def split: prod.splits sum.splits dest: governed_pair[OF _ credentials_governed(3)])

lemma seal_codex_governed: "governed w \<Longrightarrow> governed (snd (verify_and_seal_codex_key d body w))"
  by (auto simp: verify_and_seal_codex_key_def split: option.splits prod.splits sum.splits
    dest: governed_pair[OF _ sealed_governed])

lemma put_codex_governed [account_safe]:
  "governed w \<Longrightarrow> governed (snd (snd (put_codex_key d body p r w)))"
  "governed w \<Longrightarrow> governed (snd (snd (put_service_codex_key d body p r w)))"
  by (auto simp: put_codex_key_def put_service_codex_key_def codex_set_service_def split: prod.splits sum.splits
    dest!: governed_pair[OF _ seal_codex_governed] intro: account_safe)

lemma delete_codex_governed [account_safe]: "governed w \<Longrightarrow> governed (snd (snd (delete_codex_key d p r w)))"
  by (auto simp: delete_codex_key_def split: prod.splits sum.splits dest: governed_pair[OF _ credentials_governed(5)])

lemma put_service_token_governed [account_safe]: "governed w \<Longrightarrow> governed (snd (snd (put_service_token d body p r w)))"
  by (auto simp: put_service_token_def claude_set_service_def split: option.splits prod.splits sum.splits
    dest!: governed_pair[OF _ sealed_governed] intro: account_safe)

lemma patch_me_governed: "patch_me d body p w = Some (rep, w') \<Longrightarrow> governed w \<Longrightarrow> governed w'"
  by (auto simp: patch_me_def split: option.splits prod.splits sum.splits if_splits
    dest: governed_pair[OF _ users_update_prefs_governed])

lemma session_handlers_governed [account_safe]:
  "governed w \<Longrightarrow> governed (snd (snd (auth_login s slug p r w)))"
  "governed w \<Longrightarrow> governed (snd (snd (auth_callback s p r w)))"
  "governed w \<Longrightarrow> governed (snd (snd (auth_logout s p r w)))"
  "governed w \<Longrightarrow> governed (snd (snd (auth_logout_all p r w)))"
  by (auto simp: auth_login_def auth_callback_def auth_logout_def auth_logout_all_def split: prod.splits sum.splits
    dest: governed_triple[OF _ begin_login_governed] governed_triple[OF _ complete_login_governed]
      governed_pair[OF _ logout_governed] governed_pair[OF _ logout_all_governed])

section \<open>Resolving a request to its principal\<close>

text \<open>What authenticating may change of the users: nothing but the time of their last login.\<close>

definition standing :: "user \<Rightarrow> id \<times> role" where
  "standing u = (us_id u, us_role u)"

lemma cookie_users: "principal_from_cookie s r w = (p, w') \<Longrightarrow> aw_users w' = aw_users w"
  by (auto simp: principal_from_cookie_def logins_touch_def split: option.splits sum.splits if_splits)

lemma bearer_users: "principal_from_bearer s r w = (p, w') \<Longrightarrow> aw_users w' = aw_users w"
  by (auto simp: principal_from_bearer_def tokens_touch_used_def split: option.splits sum.splits if_splits)

lemma create_login_users: "create_login s user r w = (res, cs, w') \<Longrightarrow> aw_users w' = aw_users w"
  by (auto simp: create_login_def rand_token_def logins_create_def account_uuid_def Let_def split: prod.splits sum.splits if_splits)

lemma users_get_row: "users_get i w = Inr u \<Longrightarrow> u \<in> set (aw_users w) \<and> us_id u = i"
  by (auto simp: users_get_def found_def dest: tbl_get_Some split: option.splits)

lemma users_by_subject_row:
  "users_get_by_subject iss sub w = Inr u \<Longrightarrow> u \<in> set (aw_users w) \<and> us_issuer u = iss \<and> us_subject u = sub"
  by (auto simp: users_get_by_subject_def found_def find_Some_iff split: option.splits)

lemma cookie_principal:
  "principal_from_cookie s r w = (Some p, w') \<Longrightarrow> pn_user p \<in> set (aw_users w')"
  using cookie_users[of s r w "Some p" w']
  by (auto simp: principal_from_cookie_def dest: users_get_row split: option.splits sum.splits if_splits)

lemma bearer_principal:
  "principal_from_bearer s r w = (Some p, w') \<Longrightarrow> pn_user p \<in> set (aw_users w')"
  using bearer_users[of s r w "Some p" w']
  by (auto simp: principal_from_bearer_def dest: users_get_row split: option.splits sum.splits if_splits)

lemma dev_user_row: "get_or_create_dev_user s w = (Some u, w') \<Longrightarrow> standing u \<in> standing ` set (aw_users w')"
  by (auto simp: get_or_create_dev_user_def users_create_def Let_def account_uuid_def dest: users_by_subject_row
    split: sum.splits if_splits prod.splits)

lemma dev_principal_standing:
  assumes "dev_principal s r w = (Some p, cs, w')"
  shows "standing (pn_user p) \<in> standing ` set (aw_users w')"
proof -
  define q where "q = (case users_get_by_subject dev_issuer (as_dev_user s) w of
      Inl e \<Rightarrow> if e \<noteq> ErrNotFound then (None, w) else get_or_create_dev_user s w
    | Inr u \<Rightarrow> (Some u, snd (users_touch_login (us_id u) w)))"
  obtain u w1 i where q: "q = (Some u, w1)" and c: "create_login s (us_id u) r w1 = (Inr i, cs, w')" and p: "pn_user p = u"
    using assms unfolding dev_principal_def q_def[symmetric]
    by (auto split: prod.splits option.splits sum.splits)
  have "standing u \<in> standing ` set (aw_users w1)"
  proof (cases "users_get_by_subject dev_issuer (as_dev_user s) w")
    case (Inl e)
    with q have "get_or_create_dev_user s w = (Some u, w1)" by (auto simp: q_def split: if_splits)
    then show ?thesis by (rule dev_user_row)
  next
    case (Inr v)
    with q have v: "v = u" and w1: "w1 = snd (users_touch_login (us_id u) w)" by (auto simp: q_def)
    have u: "u \<in> set (aw_users w)" using users_by_subject_row[OF Inr] v by simp
    then have "aw_users w1 = tbl_update us_id (us_id u) (\<lambda>u. u\<lparr>us_last_login := aw_now w\<rparr>) (aw_users w)"
      by (auto simp: w1 users_touch_login_def users_exec1_def)
    moreover have "map standing \<dots> = map standing (aw_users w)" by (rule map_tbl_update) (simp add: standing_def)
    ultimately have "standing ` set (aw_users w1) = standing ` set (aw_users w)" by (metis set_map)
    then show ?thesis using u by simp
  qed
  then show ?thesis using create_login_users[OF c] p by simp
qed

lemma authenticated_standing:
  assumes "authenticate s r w = (Some p, cs, w')"
  shows "standing (pn_user p) \<in> standing ` set (aw_users w')"
  using assms
  by (auto simp: authenticate_def split: prod.splits option.splits if_splits
    dest: cookie_principal bearer_principal dev_principal_standing)

section \<open>Administering users\<close>

lemma patch_user_governed:
  assumes gov: "governed w" and admin: "standing (pn_user pn) \<in> standing ` set (aw_users w)" "us_role (pn_user pn) = RoleAdmin"
  shows "governed (snd (snd (patch_user i body (Some pn) r w)))"
proof -
  obtain a where a: "a \<in> set (aw_users w)" "us_id a = us_id (pn_user pn)" "us_role a = RoleAdmin"
    using admin by (auto simp: standing_def)
  show ?thesis
  proof (cases "body = None \<or> (\<exists>name. body = Some name \<and> role_named name = None)")
    case True
    then show ?thesis using gov by (auto simp: patch_user_def)
  next
    case False
    then obtain name rl where b: "body = Some name" "role_named name = Some rl" by auto
    show ?thesis
    proof (cases "us_id (pn_user pn) = i \<and> rl \<noteq> RoleAdmin")
      case True
      then show ?thesis using gov b by (simp add: patch_user_def actor_id_def)
    next
      case ok: False
      have "governed (snd (users_update_role i rl w))"
        using gov a ok by (intro users_update_role_governed) (auto intro!: bexI[of _ a])
      then show ?thesis using gov b
        by (auto simp: patch_user_def split: prod.splits sum.splits)
    qed
  qed
qed

lemma first_refusal_snoc: "first_refusal (gs @ [g]) p r = (case first_refusal gs p r of Some x \<Rightarrow> Some x | None \<Rightarrow> g p r)"
  by (simp add: first_refusal_def)

lemma serve_governed:
  assumes "governed w" and "\<And>p w1. governed w1 \<Longrightarrow> governed (snd (snd (h p r w1)))"
  shows "governed (snd (snd (serve gs s h r w)))"
  using assms(1) authenticate_governed[of w s r]
  by (auto simp: serve_def Let_def split: prod.splits option.splits dest: governed_triple[OF _ assms(2)])

lemma serve_admin_governed:
  assumes gov: "governed w"
    and h: "\<And>pn w1. governed w1 \<Longrightarrow> standing (pn_user pn) \<in> standing ` set (aw_users w1) \<Longrightarrow> us_role (pn_user pn) = RoleAdmin \<Longrightarrow>
      governed (snd (snd (h (Some pn) r w1)))"
  shows "governed (snd (snd (serve admin_guards s h r w)))"
proof -
  obtain p cs w1 where a: "authenticate s r w = (p, cs, w1)" by (metis prod.exhaust)
  have g1: "governed w1" using authenticate_governed[OF gov, of s r] a by simp
  show ?thesis
  proof (cases "first_refusal admin_guards p r")
    case None
    then obtain pn where p: "p = Some pn" and adm: "us_role (pn_user pn) = RoleAdmin"
      by (auto simp: admin_guards_def first_refusal_snoc require_admin_def split: option.splits if_splits)
    have "governed (snd (snd (h (Some pn) r w1)))"
      using h[OF g1 _ adm] authenticated_standing[OF a[unfolded p]] by simp
    then show ?thesis using None by (auto simp: serve_def a p Let_def split: prod.splits)
  qed (use g1 in \<open>auto simp: serve_def a\<close>)
qed

section \<open>Credentials looked up by their hash\<close>

text \<open>
  Browser sessions and API tokens are both found by the hash of a secret. What a provider promises: the hashes are
  unique, so a lookup finds the row that carries the hash, and none once it is gone.
\<close>

locale hashed_credential =
  fixes rows :: "accounts \<Rightarrow> 'r list" and hash_of :: "'r \<Rightarrow> string" and by_hash :: "string \<Rightarrow> accounts \<Rightarrow> error + 'r"
  assumes by_hash_find: "by_hash h w = found (find (\<lambda>x. hash_of x = h) (rows w))"
begin

lemma by_hash_row: "by_hash h w = Inr x \<Longrightarrow> x \<in> set (rows w) \<and> hash_of x = h"
  by (auto simp: by_hash_find found_def find_Some_iff split: option.splits)

lemma by_hash_absent: "h \<notin> hash_of ` set (rows w) \<Longrightarrow> by_hash h w = Inl ErrNotFound"
  by (auto simp: by_hash_find found_def find_Some_iff split: option.splits)

lemma by_hash_new: "rows w' = rows w @ [x] \<Longrightarrow> hash_of x \<notin> hash_of ` set (rows w) \<Longrightarrow> by_hash (hash_of x) w' = Inr x"
proof -
  assume r: "rows w' = rows w @ [x]" and new: "hash_of x \<notin> hash_of ` set (rows w)"
  have "find (\<lambda>y. hash_of y = hash_of x) (ys @ [x]) = Some x" if "hash_of x \<notin> hash_of ` set ys" for ys
    using that by (induction ys) auto
  then show ?thesis using new by (simp add: by_hash_find r found_def)
qed

end

interpretation logins_by_hash: hashed_credential aw_logins lo_hash logins_get_by_hash
  by unfold_locales (simp add: logins_get_by_hash_def)

interpretation tokens_by_hash: hashed_credential aw_tokens at_hash tokens_get_by_hash
  by unfold_locales (simp add: tokens_get_by_hash_def)

section \<open>What a refused request leaves behind\<close>

text \<open>The accounts up to the times at which sessions were last seen and tokens last used.\<close>

definition untouched :: "accounts \<Rightarrow> accounts \<Rightarrow> bool" where
  "untouched w w' \<longleftrightarrow>
     aw_users w' = aw_users w \<and> aw_claude w' = aw_claude w \<and> aw_codex w' = aw_codex w \<and> aw_now w' = aw_now w \<and>
     map (lo_last_seen_update (\<lambda>_. 0)) (aw_logins w') = map (lo_last_seen_update (\<lambda>_. 0)) (aw_logins w) \<and>
     map (at_last_used_update (\<lambda>_. None)) (aw_tokens w') = map (at_last_used_update (\<lambda>_. None)) (aw_tokens w)"

lemma cookie_none: "principal_from_cookie s r w = (None, w') \<Longrightarrow> w' = w"
  by (auto simp: principal_from_cookie_def split: option.splits sum.splits if_splits)

lemma untouched_refl: "untouched w w"
  by (simp add: untouched_def)

lemma cookie_untouched: "principal_from_cookie s r w = (p, w') \<Longrightarrow> untouched w w'"
  by (auto simp: principal_from_cookie_def logins_touch_def untouched_refl untouched_def map_tbl_update
    split: option.splits sum.splits if_splits)

lemma bearer_untouched: "principal_from_bearer s r w = (p, w') \<Longrightarrow> untouched w w'"
  by (auto simp: principal_from_bearer_def tokens_touch_used_def untouched_refl untouched_def map_tbl_update
    split: option.splits sum.splits if_splits)

lemma authenticate_untouched: "authenticate s r w = (p, cs, w') \<Longrightarrow> as_dev_user s = [] \<Longrightarrow> untouched w w' \<and> cs = []"
  by (auto simp: authenticate_def dest!: cookie_none dest: bearer_untouched cookie_untouched split: prod.splits option.splits)

lemma user_guards_pass:
  "first_refusal user_guards p r = None \<longleftrightarrow>
     (\<exists>pn. p = Some pn \<and> (safe_method (rq_method r) \<or>
        (pn_token_auth pn \<or> rq_requested_with r = ''styr'') \<and>
        (us_role (pn_user pn) \<noteq> RoleViewer \<or> has_prefix (rq_path r) me_write_exempt)))"
  by (auto simp: first_refusal_def user_guards_def require_user_def csrf_guard_def writer_guard_def require_writer_def
    split: option.splits)

lemma user_guards_refuse: "first_refusal user_guards p r = Some (code, name) \<Longrightarrow> code \<in> {401, 403}"
  by (auto simp: first_refusal_def user_guards_def require_user_def csrf_guard_def writer_guard_def require_writer_def
    split: option.splits if_splits)

end
