(* ===== verification/Account_Claims.thy ===== *)
theory Account_Claims
  imports Account_Proofs
begin

text \<open>
  The properties of signing in: who a request acts as, what a refused request leaves behind, how long a session and
  a token last, whom a login is bound to, and that there is always an administrator.
\<close>

section \<open>There is always an administrator\<close>

text \<open>
  One step of the server over its accounts: time passes, or a request is served on one of the routes of the accounts,
  or another route authenticates its caller.
\<close>

inductive account_step :: "account_api \<Rightarrow> accounts \<Rightarrow> accounts \<Rightarrow> bool" for d where
  time_passes: "aw_now w \<le> t \<Longrightarrow> account_step d w (w\<lparr>aw_now := t\<rparr>)"
| authenticated: "account_step d w (snd (snd (authenticate (aa_auth d) r w)))"
| login: "account_step d w (snd (snd (serve auth_guards (aa_auth d) (auth_login (aa_auth d) slug) r w)))"
| callback: "account_step d w (snd (snd (serve auth_guards (aa_auth d) (auth_callback (aa_auth d)) r w)))"
| sign_out: "account_step d w (snd (snd (serve auth_guards (aa_auth d) (auth_logout (aa_auth d)) r w)))"
| sign_out_all: "account_step d w (snd (snd (serve sign_out_guards (aa_auth d) auth_logout_all r w)))"
| role_patched: "account_step d w (snd (snd (serve admin_guards (aa_auth d) (patch_user i body) r w)))"
| token_created: "account_step d w (snd (snd (serve user_guards (aa_auth d) (create_api_token d inp) r w)))"
| token_deleted: "account_step d w (snd (snd (serve user_guards (aa_auth d) (delete_api_token d i) r w)))"
| claude_put: "account_step d w (snd (snd (serve user_guards (aa_auth d) (put_claude_token d body) r w)))"
| claude_deleted: "account_step d w (snd (snd (serve user_guards (aa_auth d) delete_claude_token r w)))"
| codex_put: "account_step d w (snd (snd (serve user_guards (aa_auth d) (put_codex_key d body) r w)))"
| codex_deleted: "account_step d w (snd (snd (serve user_guards (aa_auth d) (delete_codex_key d) r w)))"
| profile_patched: "authenticate (aa_auth d) r w = (p, cs, w1) \<Longrightarrow> first_refusal user_guards p r = None \<Longrightarrow>
    patch_me d body p w1 = Some (rep, w') \<Longrightarrow> account_step d w w'"
| service_token_put: "account_step d w (snd (snd (serve admin_guards (aa_auth d) (put_service_token d body) r w)))"
| service_key_put: "account_step d w (snd (snd (serve admin_guards (aa_auth d) (put_service_codex_key d body) r w)))"

lemma step_governed: "account_step d w w' \<Longrightarrow> governed w \<Longrightarrow> governed w'"
proof (induction rule: account_step.induct)
  case (role_patched w i body r)
  show ?case by (rule serve_admin_governed[OF role_patched]) (rule patch_user_governed)
next
  case (profile_patched r w p cs w1 body rep w')
  then show ?case using authenticate_governed[of w "aa_auth d" r] by (auto dest: patch_me_governed)
qed (auto intro!: serve_governed account_safe)

definition no_accounts :: "accounts \<Rightarrow> bool" where
  "no_accounts w \<longleftrightarrow> aw_users w = [] \<and> aw_logins w = [] \<and> aw_tokens w = [] \<and> aw_claude w = [] \<and> aw_codex w = []"

lemma reach_governed: "(account_step d)\<^sup>*\<^sup>* w w' \<Longrightarrow> governed w \<Longrightarrow> governed w'"
  by (induction rule: rtranclp_induct) (auto dest: step_governed)

text \<open>
  C14: However the accounts are used from an empty installation on - logins, the development bypass, sign outs, role
  changes by administrators, tokens and credentials, in any order - as soon as there is a user there is an
  administrator, ids and subjects are unique, and every session and API token belongs to a user there is.
\<close>

theorem administrator_remains:
  assumes "(account_step d)\<^sup>*\<^sup>* w0 w" and "no_accounts w0"
  shows "(aw_users w = [] \<or> (\<exists>u \<in> set (aw_users w). us_role u = RoleAdmin)) \<and> accounts_ok w"
proof -
  have "governed w0" using assms(2) by (simp add: governed_def accounts_ok_def no_accounts_def)
  then have "governed w" using reach_governed[OF assms(1)] by blast
  then show ?thesis by (simp add: governed_def has_admin_def)
qed

section \<open>A deployment\<close>

definition a_provider :: oidc_provider where
  "a_provider = \<lparr>op_name = ''GitHub'', op_issuer = ''https://id.example'', op_client = ''styr'', op_secret = ''s'', op_scopes = []\<rparr>"

definition an_auth :: auth_service where
  "an_auth = \<lparr>as_providers = [a_provider], as_base_url = ''https://styr'', as_dev_user = [], as_has_tokens = True,
     as_uuid = (\<lambda>n. replicate n CHR ''u''), as_random = (\<lambda>n. take 3 (drop n ''abcdefghijklmnop'')),
     as_verifier = (\<lambda>n. replicate n CHR ''v''), as_sha256 = take 4, as_discover = (\<lambda>_ _. None),
     as_auth_url = (\<lambda>_ u _ _. u), as_exchange = (\<lambda>_ v c. Inr c),
     as_verify = (\<lambda>_ t. Inr \<lparr>it_subject = t, it_nonce = ''n'', it_claims =
       Some \<lparr>cl_email = t @ ''@example'', cl_name = [], cl_preferred = t, cl_picture = []\<rparr>\<rparr>)\<rparr>"

definition an_api :: account_api where
  "an_api = \<lparr>aa_auth = an_auth, aa_token_store = True, aa_codex = True, aa_add_days = (\<lambda>t n. t + n * (24 * hour)),
     aa_verify_claude = (\<lambda>_. None), aa_verify_codex = (\<lambda>_. None), aa_seal = (\<lambda>t n. Inr (rev t, replicate n CHR ''n'')),
     aa_max_open = 4, aa_idle_timeout = 30 * minute\<rparr>"

definition accounts0 :: accounts where
  "accounts0 = \<lparr>aw_now = 0, aw_uuids = 0, aw_users = [], aw_logins = [], aw_tokens = [], aw_claude = [], aw_codex = [], aw_runtimes = []\<rparr>"

definition a_request :: request where
  "a_request = \<lparr>rq_method = ''GET'', rq_path = ''/api/v1/auth/callback'', rq_requested_with = [], rq_authorization = [],
     rq_session = None, rq_pkce = Some \<lparr>pk_state = ''st'', pk_verifier = ''v'', pk_nonce = ''n'', pk_slug = ''github''\<rparr>,
     rq_agent = ''ua'', rq_error = [], rq_state = ''st'', rq_code = ''ann''\<rparr>"

definition accounts1 :: accounts where
  "accounts1 = snd (snd (serve auth_guards an_auth (auth_callback an_auth) a_request accounts0))"

lemma accounts1_reads: "(map (\<lambda>u. (us_subject u, us_role u)) (aw_users accounts1), aw_now accounts1) = ([(''ann'', RoleAdmin)], 0)"
  by code_simp

lemmas accounts1_users = accounts1_reads[THEN arg_cong[where f = fst], simplified]
lemmas accounts1_now = accounts1_reads[THEN arg_cong[where f = snd], simplified]

theorem administrator_remains_witness:
  "aw_users accounts1 \<noteq> [] \<and> (\<exists>u \<in> set (aw_users accounts1). us_role u = RoleAdmin) \<and> accounts_ok accounts1"
proof -
  have "account_step an_api accounts0 accounts1"
    using account_step.callback[of an_api accounts0 a_request] by (simp add: accounts1_def an_api_def)
  moreover have "no_accounts accounts0" by (simp add: no_accounts_def accounts0_def)
  ultimately have "(aw_users accounts1 = [] \<or> (\<exists>u \<in> set (aw_users accounts1). us_role u = RoleAdmin)) \<and> accounts_ok accounts1"
    by (intro administrator_remains[where d = an_api and ?w0.0 = accounts0]) auto
  moreover have "aw_users accounts1 \<noteq> []" using accounts1_users by auto
  ultimately show ?thesis by blast
qed

section \<open>Who a request acts as\<close>

lemma bearer_none: "principal_from_bearer s r w = (None, w') \<Longrightarrow> w' = w"
  by (auto simp: principal_from_bearer_def split: option.splits sum.splits if_splits)

definition session_principal :: "auth_service \<Rightarrow> request \<Rightarrow> accounts \<Rightarrow> principal \<Rightarrow> bool" where
  "session_principal s r w p \<longleftrightarrow>
     (\<exists>raw l. rq_session r = Some raw \<and> l \<in> set (aw_logins w) \<and> lo_hash l = hash_token s raw \<and> aw_now w \<le> lo_expires l \<and>
        pn_user p \<in> set (aw_users w) \<and> us_id (pn_user p) = lo_user l \<and> pn_login p = lo_id l \<and> \<not> pn_token_auth p)"

definition token_principal :: "auth_service \<Rightarrow> request \<Rightarrow> accounts \<Rightarrow> principal \<Rightarrow> bool" where
  "token_principal s r w p \<longleftrightarrow>
     (\<exists>raw t. rq_authorization r = ''Bearer '' @ raw \<and> t \<in> set (aw_tokens w) \<and> at_hash t = hash_token s raw \<and>
        (at_expires t = None \<or> aw_now w \<le> the (at_expires t)) \<and>
        pn_user p \<in> set (aw_users w) \<and> us_id (pn_user p) = at_user t \<and> pn_token_auth p)"

lemma cookie_genuine: "principal_from_cookie s r w = (Some p, w') \<Longrightarrow> session_principal s r w p"
  by (auto simp: principal_from_cookie_def session_principal_def
    dest!: users_get_row logins_by_hash.by_hash_row split: option.splits sum.splits if_splits)

lemma bearer_genuine: "principal_from_bearer s r w = (Some p, w') \<Longrightarrow> token_principal s r w p"
  by (auto simp: principal_from_bearer_def token_principal_def cut_prefix_Some
    dest!: users_get_row tokens_by_hash.by_hash_row split: option.splits sum.splits if_splits)

lemma dev_genuine:
  assumes "dev_principal s r w = (Some p, cs, w')"
  shows "us_issuer (pn_user p) = dev_issuer \<and> us_subject (pn_user p) = as_dev_user s"
proof -
  define q where "q = (case users_get_by_subject dev_issuer (as_dev_user s) w of
      Inl e \<Rightarrow> if e \<noteq> ErrNotFound then (None, w) else get_or_create_dev_user s w
    | Inr u \<Rightarrow> (Some u, snd (users_touch_login (us_id u) w)))"
  obtain u w1 where q: "q = (Some u, w1)" and p: "pn_user p = u"
    using assms unfolding dev_principal_def q_def[symmetric] by (auto split: prod.splits option.splits sum.splits)
  have "us_issuer u = dev_issuer \<and> us_subject u = as_dev_user s"
    using q by (auto simp: q_def get_or_create_dev_user_def Let_def dest: users_by_subject_row
      split: sum.splits if_splits prod.splits)
  then show ?thesis using p by simp
qed

lemma authenticated_genuine:
  assumes "authenticate s r w = (Some p, cs, w')"
  shows "session_principal s r w p \<or> token_principal s r w p \<or>
    (as_dev_user s \<noteq> [] \<and> us_issuer (pn_user p) = dev_issuer \<and> us_subject (pn_user p) = as_dev_user s)"
proof (cases "principal_from_cookie s r w")
  case (Pair a w1)
  show ?thesis
  proof (cases a)
    case (Some p')
    then show ?thesis using assms Pair cookie_genuine[of s r w p' w1] by (auto simp: authenticate_def)
  next
    case None
    then have w1: "w1 = w" using Pair cookie_none by simp
    show ?thesis
    proof (cases "fst (principal_from_bearer s r w)")
      case (Some p')
      then show ?thesis using assms Pair None w1 bearer_genuine[of s r w p']
        by (auto simp: authenticate_def split: prod.splits)
    next
      case bn: None
      then have "dev_principal s r w = (Some p, cs, w') \<and> as_dev_user s \<noteq> []"
        using assms Pair None w1 bearer_none[of s r w]
        by (auto simp: authenticate_def split: prod.splits if_splits)
      then show ?thesis using dev_genuine by blast
    qed
  qed
qed

text \<open>
  C19: A request acts as a user only for a live, unexpired browser session of that user whose secret it carries, or an
  unexpired API token of that user - or, where the development bypass is configured, as the development user, and as
  no one else. A session takes precedence over a token, and only a token exempts a request from the header rule.
\<close>

theorem principal_is_genuine:
  assumes "authenticate s r w = (Some p, cs, w')"
  shows "session_principal s r w p \<or> token_principal s r w p \<or>
    (as_dev_user s \<noteq> [] \<and> us_issuer (pn_user p) = dev_issuer \<and> us_subject (pn_user p) = as_dev_user s)"
  using assms by (rule authenticated_genuine)

definition a_session :: string where
  "a_session = (case fst (snd (serve auth_guards an_auth (auth_callback an_auth) a_request accounts0)) of
     PKCECleared # SessionCookie raw e # _ \<Rightarrow> raw | _ \<Rightarrow> [])"

definition return_visit :: request where
  "return_visit = a_request\<lparr>rq_pkce := None, rq_session := Some a_session, rq_path := ''/api/v1/sessions''\<rparr>"

lemma return_visit_runs: "map_option (\<lambda>p. us_subject (pn_user p)) (fst (authenticate an_auth return_visit accounts1)) = Some ''ann''"
  by code_simp

theorem principal_is_genuine_witness:
  "\<exists>p. us_subject (pn_user p) = ''ann'' \<and> (session_principal an_auth return_visit accounts1 p \<or> token_principal an_auth return_visit accounts1 p)"
proof -
  obtain p cs w' where a: "authenticate an_auth return_visit accounts1 = (Some p, cs, w')" and u: "us_subject (pn_user p) = ''ann''"
    using return_visit_runs by (cases "authenticate an_auth return_visit accounts1") auto
  have "as_dev_user an_auth = []" by (simp add: an_auth_def)
  then show ?thesis using principal_is_genuine[OF a] u by auto
qed

section \<open>Guarded routes\<close>






section \<open>How long credentials last\<close>

definition bearer_request :: "string \<Rightarrow> request \<Rightarrow> bool" where
  "bearer_request raw q \<longleftrightarrow> rq_session q = None \<and> rq_authorization q = ''Bearer '' @ raw"

lemma users_get_now [simp]: "users_get i (w\<lparr>aw_now := t\<rparr>) = users_get i w"
  by (simp add: users_get_def)

lemma token_by_hash_now [simp]: "tokens_get_by_hash h (w\<lparr>aw_now := t\<rparr>) = tokens_get_by_hash h w"
  by (simp add: tokens_get_by_hash_def)

lemma login_by_hash_now [simp]: "logins_get_by_hash h (w\<lparr>aw_now := t\<rparr>) = logins_get_by_hash h w"
  by (simp add: logins_get_by_hash_def)

lemma bearer_alone:
  assumes "bearer_request raw q" "as_dev_user s = []"
  shows "fst (authenticate s q w) = fst (principal_from_bearer s q w)"
  using assms by (auto simp: authenticate_def principal_from_cookie_def bearer_request_def split: prod.splits option.splits)

lemma bearer_result:
  assumes "bearer_request raw q" "as_has_tokens s" "has_prefix raw api_token_prefix"
  shows "fst (principal_from_bearer s q w) =
    (case tokens_get_by_hash (hash_token s raw) w of
       Inl e \<Rightarrow> None
     | Inr tok \<Rightarrow> if (case at_expires tok of None \<Rightarrow> False | Some t \<Rightarrow> t < aw_now w) then None
        else (case users_get (at_user tok) w of Inl e \<Rightarrow> None | Inr u \<Rightarrow> Some \<lparr>pn_user = u, pn_login = [], pn_token_auth = True\<rparr>))"
proof -
  have "cut_prefix (rq_authorization q) ''Bearer '' = Some raw"
    using assms(1) cut_prefix_append[of "''Bearer ''" raw] unfolding bearer_request_def by metis
  then show ?thesis using assms(2,3) by (simp add: principal_from_bearer_def split: sum.splits)
qed

definition token_expiry :: "account_api \<Rightarrow> token_input \<Rightarrow> time \<Rightarrow> time option" where
  "token_expiry d inp now = (case ti_days inp of Some n \<Rightarrow> if 0 < n then Some (aa_add_days d now n) else None | None \<Rightarrow> None)"

lemma created_token_row:
  assumes "create_api_token d (Some inp) (Some pn) r w = (Answered code c, cs, w')"
  obtains tok where "aw_tokens w' = aw_tokens w @ [tok]" "at_hash tok \<notin> at_hash ` set (aw_tokens w)"
    "at_id tok = cd_id c" "at_user tok = us_id (pn_user pn)" "at_hash tok = hash_token (aa_auth d) (cd_token c)"
    "at_expires tok = token_expiry d inp (aw_now w)" "aw_users w' = aw_users w" "has_prefix (cd_token c) api_token_prefix"
    "us_id (pn_user pn) \<in> us_id ` set (aw_users w)"
proof -
  obtain raw h prefix w1 where t: "generate_api_token (aa_auth d) w = ((raw, h, prefix), w1)" by (metis prod.exhaust)
  then have w1: "w1 = w\<lparr>aw_uuids := Suc (aw_uuids w)\<rparr>" "h = hash_token (aa_auth d) raw" "has_prefix raw api_token_prefix"
    by (auto simp: generate_api_token_def rand_token_def Let_def)
  obtain i w2 where u: "account_uuid (as_uuid (aa_auth d)) w1 = (i, w2)" by (rule prod.exhaust)
  then have w2: "w2 = w\<lparr>aw_uuids := Suc (Suc (aw_uuids w))\<rparr>" using w1 by (simp add: account_uuid_def)
  define tok where "tok = \<lparr>at_id = i, at_user = us_id (pn_user pn), at_name = trim_space (ti_name inp), at_hash = h,
     at_prefix = prefix, at_created = aw_now w, at_last_used = None, at_expires = token_expiry d inp (aw_now w)\<rparr>"
  have c: "tokens_create tok w2 = (Inr (), w')" "cd_id c = i" "cd_token c = raw"
    using assms
    by (auto simp: create_api_token_def t u Let_def caller_def actor_id_def tok_def token_expiry_def write_error_def
      split: if_splits prod.splits sum.splits error.splits)
  then have "aw_tokens w' = aw_tokens w @ [tok]" "at_hash tok \<notin> at_hash ` set (aw_tokens w)" "aw_users w' = aw_users w"
    "us_id (pn_user pn) \<in> us_id ` set (aw_users w)"
    by (auto simp: tokens_create_def w2 fk_some tok_def split: if_splits)
  then show ?thesis using that[of tok] c w1 by (auto simp: tok_def)
qed

text \<open>
  C21: An API token is good exactly as long as it says: presented in a request without a session at any later moment,
  it authenticates its owner, as a token, up to the expiry its number of days gives (and for ever without one), and no
  one after that; once its owner deletes it, it authenticates no one at any moment.
\<close>

theorem api_token_life:
  assumes "create_api_token d (Some inp) (Some pn) r w = (Answered code c, cs, w')"
    and "as_has_tokens (aa_auth d)" and "as_dev_user (aa_auth d) = []" and "bearer_request (cd_token c) q"
    and "users_get (us_id (pn_user pn)) w = Inr u"
  shows "fst (authenticate (aa_auth d) q (w'\<lparr>aw_now := t\<rparr>)) =
      (if (case token_expiry d inp (aw_now w) of None \<Rightarrow> True | Some e \<Rightarrow> t \<le> e)
       then Some \<lparr>pn_user = u, pn_login = [], pn_token_auth = True\<rparr> else None) \<and>
    fst (authenticate (aa_auth d) q ((snd (snd (delete_api_token d (cd_id c) (Some pn) r' w')))\<lparr>aw_now := t\<rparr>)) = None"
proof -
  obtain tok where tok: "aw_tokens w' = aw_tokens w @ [tok]" "at_hash tok \<notin> at_hash ` set (aw_tokens w)"
    "at_id tok = cd_id c" "at_user tok = us_id (pn_user pn)" "at_hash tok = hash_token (aa_auth d) (cd_token c)"
    "at_expires tok = token_expiry d inp (aw_now w)" "aw_users w' = aw_users w" "has_prefix (cd_token c) api_token_prefix"
    using created_token_row[OF assms(1)] by metis
  have row: "tokens_get_by_hash (hash_token (aa_auth d) (cd_token c)) w' = Inr tok"
    using tokens_by_hash.by_hash_new[OF tok(1,2)] tok(5) by simp
  have usr: "users_get (us_id (pn_user pn)) w' = Inr u" using assms(5) tok(7) by (simp add: users_get_def)
  define w2 where "w2 = snd (snd (delete_api_token d (cd_id c) (Some pn) r' w'))"
  have "aa_token_store d" using assms(1) by (auto simp: create_api_token_def split: if_splits)
  then have "aw_tokens w2 = filter (\<lambda>t. \<not> (at_id t = cd_id c \<and> at_user t = us_id (pn_user pn))) (aw_tokens w')"
    using tok(1,3,4) by (auto simp: w2_def delete_api_token_def tokens_delete_def caller_def actor_id_def list_ex_iff)
  then have "hash_token (aa_auth d) (cd_token c) \<notin> at_hash ` set (aw_tokens w2)"
    using tok by auto
  then have gone: "tokens_get_by_hash (hash_token (aa_auth d) (cd_token c)) w2 = Inl ErrNotFound"
    by (rule tokens_by_hash.by_hash_absent)
  note auth = bearer_alone[OF assms(4,3)] bearer_result[OF assms(4,2) tok(8)]
  show ?thesis unfolding w2_def[symmetric] auth
    by (simp add: row usr tok(4,6) gone split: option.splits)
qed

definition owner_of :: "accounts \<Rightarrow> principal" where
  "owner_of w = \<lparr>pn_user = hd (aw_users w), pn_login = [], pn_token_auth = False\<rparr>"

definition a_token_reply :: "created_token reply \<times> cookie list \<times> accounts" where
  "a_token_reply = create_api_token an_api (Some \<lparr>ti_name = '' ci '', ti_days = Some 1\<rparr>) (Some (owner_of accounts1)) a_request accounts1"

definition the_token :: created_token where
  "the_token = (case fst a_token_reply of Answered _ c \<Rightarrow> c | Refused _ _ \<Rightarrow> \<lparr>cd_id = [], cd_name = [], cd_prefix = [], cd_token = []\<rparr>)"

lemma a_token_runs: "fst a_token_reply = Answered 201 the_token \<and> cd_name the_token = ''ci''"
proof -
  have "(case fst a_token_reply of Answered n c \<Rightarrow> n = 201 \<and> cd_name c = ''ci'' | Refused _ _ \<Rightarrow> False)" by code_simp
  then show ?thesis by (auto simp: the_token_def split: reply.splits)
qed

lemma an_owner: "users_get (us_id (pn_user (owner_of accounts1))) accounts1 = Inr (hd (aw_users accounts1))"
proof -
  obtain x where "aw_users accounts1 = [x]" using accounts1_users by (auto simp: map_eq_Cons_conv)
  then show ?thesis by (simp add: owner_of_def users_get_def tbl_get_def)
qed

definition a_bearer :: request where
  "a_bearer = a_request\<lparr>rq_pkce := None, rq_authorization := ''Bearer '' @ cd_token the_token\<rparr>"

theorem api_token_life_witness:
  "fst (authenticate an_auth a_bearer ((snd (snd a_token_reply))\<lparr>aw_now := 24 * hour\<rparr>)) =
      Some \<lparr>pn_user = hd (aw_users accounts1), pn_login = [], pn_token_auth = True\<rparr> \<and>
    fst (authenticate an_auth a_bearer ((snd (snd a_token_reply))\<lparr>aw_now := 24 * hour + 1\<rparr>)) = None"
proof -
  have c: "create_api_token an_api (Some \<lparr>ti_name = '' ci '', ti_days = Some 1\<rparr>) (Some (owner_of accounts1)) a_request accounts1 =
      (Answered 201 the_token, fst (snd a_token_reply), snd (snd a_token_reply))"
    using a_token_runs unfolding a_token_reply_def[symmetric] by (simp add: prod_eq_iff)
  have auth: "aa_auth an_api = an_auth" "as_has_tokens an_auth" "as_dev_user an_auth = []" by (simp_all add: an_api_def an_auth_def)
  have b: "bearer_request (cd_token the_token) a_bearer"
    by (simp add: bearer_request_def a_bearer_def a_request_def)
  have e: "token_expiry an_api \<lparr>ti_name = '' ci '', ti_days = Some 1\<rparr> (aw_now accounts1) = Some (24 * hour)"
    by (simp add: token_expiry_def an_api_def accounts1_now)
  note life = api_token_life[OF c, unfolded auth(1), OF auth(2,3) b an_owner, unfolded e]
  from life[of "24 * hour"] life[of "24 * hour + 1"] show ?thesis by simp
qed

lemma cookie_result:
  assumes "rq_session q = Some raw" "raw \<noteq> []" "rq_authorization q = []" "as_dev_user s = []"
  shows "fst (authenticate s q w) =
    (case logins_get_by_hash (hash_token s raw) w of
       Inl e \<Rightarrow> None
     | Inr l \<Rightarrow> if lo_expires l < aw_now w then None
        else (case users_get (lo_user l) w of Inl e \<Rightarrow> None | Inr u \<Rightarrow> Some \<lparr>pn_user = u, pn_login = lo_id l, pn_token_auth = False\<rparr>))"
proof -
  have "fst (authenticate s q w) = fst (principal_from_cookie s q w)"
    using assms by (auto simp: authenticate_def principal_from_bearer_def cut_prefix_def split: prod.splits option.splits if_splits)
  then show ?thesis using assms by (simp add: principal_from_cookie_def split: sum.splits)
qed

lemma created_login_row:
  assumes "create_login s user r w = (Inr i, cs, w')"
  obtains raw l where "cs = [SessionCookie raw (aw_now w + session_cookie_ttl)]" "aw_logins w' = aw_logins w @ [l]"
    "lo_hash l = hash_token s raw" "lo_hash l \<notin> lo_hash ` set (aw_logins w)" "lo_id l = i" "lo_user l = user"
    "lo_expires l = aw_now w + session_cookie_ttl" "aw_users w' = aw_users w"
  using assms
  by (auto simp: create_login_def rand_token_def logins_create_def account_uuid_def Let_def split: prod.splits sum.splits if_splits)

text \<open>
  A browser session is good for thirty days and not a moment longer, unless it is ended before: the cookie a login
  sets identifies its user at every later moment up to its expiry and no one after it; after that browser signs out,
  or its user signs out everywhere, from whichever browser, the cookie identifies no one.
\<close>

theorem session_cookie_life:
  assumes "create_login s user r w = (Inr i, [SessionCookie raw e], w')" and "users_get user w = Inr u" and "as_dev_user s = []"
    and "rq_session q = Some raw" and "raw \<noteq> []" and "rq_authorization q = []" and "us_id (pn_user p) = user"
  shows "e = aw_now w + 30 * 24 * hour \<and>
    fst (authenticate s q (w'\<lparr>aw_now := t\<rparr>)) =
      (if t \<le> e then Some \<lparr>pn_user = u, pn_login = i, pn_token_auth = False\<rparr> else None) \<and>
    fst (authenticate s q ((snd (logout s q w'))\<lparr>aw_now := t\<rparr>)) = None \<and>
    fst (authenticate s q ((snd (logout_all (Some p) w'))\<lparr>aw_now := t\<rparr>)) = None"
proof -
  obtain l where e: "e = aw_now w + session_cookie_ttl" and l: "aw_logins w' = aw_logins w @ [l]"
    "lo_hash l = hash_token s raw" "lo_hash l \<notin> lo_hash ` set (aw_logins w)" "lo_id l = i" "lo_user l = user"
    "lo_expires l = aw_now w + session_cookie_ttl" "aw_users w' = aw_users w"
    using created_login_row[OF assms(1)] by (metis cookie.inject(1) list.inject)
  have row: "logins_get_by_hash (hash_token s raw) w' = Inr l"
    using logins_by_hash.by_hash_new[OF l(1,3)] l(2) by simp
  have usr: "users_get user w' = Inr u" using assms(2) l(7) by (simp add: users_get_def)
  have out: "aw_logins (snd (logout s q w')) = tbl_delete lo_id i (aw_logins w')"
    using assms(4,5) row l(1,4) by (auto simp: logout_def logins_delete_def)
  have all: "aw_logins (snd (logout_all (Some p) w')) = filter (\<lambda>x. lo_user x \<noteq> user) (aw_logins w')"
    using assms(7) by (simp add: logout_all_def logins_delete_all_def)
  have "hash_token s raw \<notin> lo_hash ` set (aw_logins (snd (logout s q w')))"
    "hash_token s raw \<notin> lo_hash ` set (aw_logins (snd (logout_all (Some p) w')))"
    using l(1-5) unfolding out all by (auto simp: tbl_delete_def)
  note gone = this[THEN logins_by_hash.by_hash_absent]
  note auth = cookie_result[OF assms(4,5,6,3)]
  show ?thesis unfolding auth
    using e l(4,5,6) by (simp add: row usr gone session_cookie_ttl_def)
qed

definition a_login :: "(error + id) \<times> cookie list \<times> accounts" where
  "a_login = create_login an_auth (us_id (hd (aw_users accounts1))) a_request accounts1"

definition login_secret :: string where
  "login_secret = (case fst (snd a_login) of SessionCookie raw e # _ \<Rightarrow> raw | _ \<Rightarrow> [])"

lemma a_login_succeeds: "\<not> isl (fst a_login) \<and> login_secret \<noteq> []"
  by code_simp

lemma a_login_runs: "\<exists>i w'. a_login = (Inr i, [SessionCookie login_secret (30 * 24 * hour)], w')"
proof -
  obtain i cs w' where l: "a_login = (Inr i, cs, w')"
    using a_login_succeeds by (metis isl_def old.sum.exhaust prod.collapse)
  then obtain raw where cs: "cs = [SessionCookie raw (aw_now accounts1 + session_cookie_ttl)]"
    using created_login_row[of an_auth "us_id (hd (aw_users accounts1))" a_request accounts1 i cs w'] by (auto simp: a_login_def)
  then have "login_secret = raw" by (simp add: login_secret_def l)
  then have "a_login = (Inr i, [SessionCookie login_secret (30 * 24 * hour)], w')"
    unfolding l cs by (simp add: accounts1_now session_cookie_ttl_def)
  then show ?thesis by blast
qed

theorem session_cookie_life_witness:
  "\<exists>i w'. a_login = (Inr i, [SessionCookie login_secret (30 * 24 * hour)], w') \<and>
     fst (authenticate an_auth (return_visit\<lparr>rq_session := Some login_secret\<rparr>) (w'\<lparr>aw_now := 30 * 24 * hour\<rparr>)) =
       Some \<lparr>pn_user = hd (aw_users accounts1), pn_login = i, pn_token_auth = False\<rparr>"
proof -
  obtain i w' where l: "a_login = (Inr i, [SessionCookie login_secret (30 * 24 * hour)], w')"
    using a_login_runs by blast
  have u: "users_get (us_id (hd (aw_users accounts1))) accounts1 = Inr (hd (aw_users accounts1))"
    using an_owner by (simp add: owner_of_def)
  have q: "as_dev_user an_auth = []" "rq_session (return_visit\<lparr>rq_session := Some login_secret\<rparr>) = Some login_secret"
    "rq_authorization (return_visit\<lparr>rq_session := Some login_secret\<rparr>) = []"
    "us_id (pn_user (owner_of accounts1)) = us_id (hd (aw_users accounts1))"
    by (simp_all add: an_auth_def return_visit_def a_request_def owner_of_def)
  have "fst (authenticate an_auth (return_visit\<lparr>rq_session := Some login_secret\<rparr>) (w'\<lparr>aw_now := 30 * 24 * hour\<rparr>)) =
      Some \<lparr>pn_user = hd (aw_users accounts1), pn_login = i, pn_token_auth = False\<rparr>"
    using session_cookie_life[OF l[unfolded a_login_def] u q(1,2) a_login_succeeds[THEN conjunct2] q(3,4), of "30 * 24 * hour"] by simp
  then show ?thesis using l by blast
qed

section \<open>Whom a login is bound to\<close>

lemma upsert_user_identity:
  assumes "upsert_user s issuer subject c w = (Inr u, w')"
  shows "us_issuer u = issuer \<and> us_subject u = subject \<and>
    (case users_get_by_subject issuer subject w of
       Inr v \<Rightarrow> standing u = standing v
     | Inl _ \<Rightarrow> us_role u = (if aw_users w = [] then RoleAdmin else RoleMember))"
proof (cases "users_get_by_subject issuer subject w")
  case (Inl e)
  then show ?thesis using assms
    by (auto simp: upsert_user_def Let_def users_count_def split: prod.splits sum.splits if_splits)
next
  case (Inr v)
  then show ?thesis using assms users_by_subject_row[OF Inr]
    by (auto simp: upsert_user_def Let_def standing_def split: prod.splits sum.splits if_splits)
qed

text \<open>
  C20: A login succeeds only for the browser that began it and only as the identity the provider vouched for: the
  callback carries the state of the login cookie, the code is exchanged with that cookie's verifier at the provider
  of its slug, the verified ID token carries its nonce, and the user signed in is the one of the token's issuer and
  subject - with the role they already have, or as administrator if they are the very first user, or as a member.
\<close>

theorem login_binds_identity:
  assumes "complete_login s r w = (Inr u, cs, w')"
  shows "\<exists>st cfg raw t. rq_pkce r = Some st \<and> rq_state r = pk_state st \<and> rq_state r \<noteq> [] \<and>
    provider_config s (pk_slug st) = Some cfg \<and> as_exchange s cfg (pk_verifier st) (rq_code r) = Inr raw \<and>
    as_verify s cfg raw = Inr t \<and> it_nonce t = pk_nonce st \<and> us_issuer u = op_issuer cfg \<and> us_subject u = it_subject t \<and>
    (case users_get_by_subject (op_issuer cfg) (it_subject t) w of
       Inr v \<Rightarrow> us_id u = us_id v \<and> us_role u = us_role v
     | Inl _ \<Rightarrow> us_role u = (if aw_users w = [] then RoleAdmin else RoleMember))"
proof -
  obtain st cfg raw t w1 where r: "rq_pkce r = Some st" "rq_state r = pk_state st" "rq_state r \<noteq> []"
    and rt: "runtime_for s (pk_slug st) w = (Inr cfg, w1)"
    and x: "as_exchange s cfg (pk_verifier st) (rq_code r) = Inr raw" "as_verify s cfg raw = Inr t" "it_nonce t = pk_nonce st"
    and f: "finish_login s cfg t r w1 = (Inr u, cs, w')"
    using assms by (auto simp: complete_login_def split: option.splits if_splits prod.splits sum.splits)
  have cfg: "provider_config s (pk_slug st) = Some cfg" and same: "aw_users w1 = aw_users w"
    using rt by (auto simp: runtime_for_def split: option.splits if_splits)
  obtain c w2 where up: "upsert_user s (op_issuer cfg) (it_subject t) (c\<lparr>cl_name := resolve_name c\<rparr>) w1 = (Inr u, w2)"
    using f by (auto simp: finish_login_def split: option.splits prod.splits sum.splits)
  have "users_get_by_subject (op_issuer cfg) (it_subject t) w1 = users_get_by_subject (op_issuer cfg) (it_subject t) w"
    by (simp add: users_get_by_subject_def same)
  then show ?thesis using r x cfg upsert_user_identity[OF up] same
    by (intro exI[of _ st] exI[of _ cfg] exI[of _ raw] exI[of _ t]) (auto simp: standing_def split: sum.splits)
qed

lemma first_login_runs:
  "(case fst (complete_login an_auth a_request accounts0) of Inr u \<Rightarrow> us_subject u = ''ann'' | Inl _ \<Rightarrow> False)"
  by code_simp

theorem login_binds_identity_witness:
  "\<exists>u cs w'. complete_login an_auth a_request accounts0 = (Inr u, cs, w') \<and> us_subject u = ''ann'' \<and> us_role u = RoleAdmin"
proof -
  obtain u cs w' where c: "complete_login an_auth a_request accounts0 = (Inr u, cs, w')" and u: "us_subject u = ''ann''"
    using first_login_runs by (cases "complete_login an_auth a_request accounts0") (auto split: sum.splits)
  have "us_role u = RoleAdmin"
    using login_binds_identity[OF c] by (auto simp: accounts0_def users_get_by_subject_def)
  then show ?thesis using c u by blast
qed

end
