(* ===== verification/Risk.thy ===== *)
theory Risk
  imports Domain Go_Text
begin

text \<open>
  The risk tier of a tool call, \<open>internal/risk\<close>. The patterns are regular expressions of Go's \<open>regexp\<close>: their
  constructors, an executable matcher that lists the ends of the matches from a position in the order of preference
  of Perl and Go (greedy repetition, first alternative first), and, beside it, the relation that defines what
  matches (\<open>Risk_Claims\<close> proves that they agree). Decoding the input's JSON is a parameter.
\<close>

section \<open>Regular expressions\<close>

datatype rx =
    Class "char \<Rightarrow> bool"
  | Empty
  | Boundary
  | StartText
  | EndText
  | Cat rx rx
  | Or rx rx
  | Many rx

definition word_char :: "char \<Rightarrow> bool" where
  "word_char c \<longleftrightarrow> (let n = of_char c :: nat in 97 \<le> n \<and> n \<le> 122 \<or> 65 \<le> n \<and> n \<le> 90 \<or> 48 \<le> n \<and> n \<le> 57 \<or> n = 95)"

definition rx_space :: "char \<Rightarrow> bool" where
  "rx_space c \<longleftrightarrow> (let n = of_char c :: nat in n = 9 \<or> n = 10 \<or> n = 12 \<or> n = 13 \<or> n = 32)"

definition letter :: "char \<Rightarrow> bool" where
  "letter c \<longleftrightarrow> (let n = of_char c :: nat in 97 \<le> n \<and> n \<le> 122 \<or> 65 \<le> n \<and> n \<le> 90)"

definition word_at :: "string \<Rightarrow> nat \<Rightarrow> bool" where
  "word_at s i \<longleftrightarrow> i < length s \<and> word_char (s ! i)"

definition boundary_at :: "string \<Rightarrow> nat \<Rightarrow> bool" where
  "boundary_at s i \<longleftrightarrow> (0 < i \<and> word_at s (i - 1)) \<noteq> word_at s i"

fun many_ends :: "(nat \<Rightarrow> nat list) \<Rightarrow> nat \<Rightarrow> nat \<Rightarrow> nat list" where
  "many_ends f 0 i = [i]"
| "many_ends f (Suc n) i = concat (map (many_ends f n) (filter (\<lambda>j. i < j) (f i))) @ [i]"

fun rx_ends :: "rx \<Rightarrow> string \<Rightarrow> nat \<Rightarrow> nat list" where
  "rx_ends (Class p) s i = (if i < length s \<and> p (s ! i) then [Suc i] else [])"
| "rx_ends Empty s i = [i]"
| "rx_ends Boundary s i = (if boundary_at s i then [i] else [])"
| "rx_ends StartText s i = (if i = 0 then [i] else [])"
| "rx_ends EndText s i = (if i = length s then [i] else [])"
| "rx_ends (Cat a b) s i = concat (map (rx_ends b s) (rx_ends a s i))"
| "rx_ends (Or a b) s i = rx_ends a s i @ rx_ends b s i"
| "rx_ends (Many a) s i = many_ends (rx_ends a s) (length s) i"

text \<open>\<open>MatchString\<close>: a match anywhere. \<open>ReplaceAllString\<close> of an anchored pattern by nothing cuts its preferred match.\<close>

definition rx_search :: "rx \<Rightarrow> string \<Rightarrow> bool" where
  "rx_search r s \<longleftrightarrow> list_ex (\<lambda>i. rx_ends r s i \<noteq> []) [0..<Suc (length s)]"

definition cut_match :: "rx \<Rightarrow> string \<Rightarrow> string" where
  "cut_match r s = (case rx_ends r s 0 of [] \<Rightarrow> s | j # _ \<Rightarrow> drop j s)"

section \<open>The patterns\<close>

fun rx_lit :: "string \<Rightarrow> rx" where
  "rx_lit [] = Empty"
| "rx_lit (c # cs) = Cat (Class ((=) c)) (rx_lit cs)"

fun rx_seq :: "rx list \<Rightarrow> rx" where
  "rx_seq [] = Empty"
| "rx_seq (r # rs) = Cat r (rx_seq rs)"

fun rx_any :: "rx list \<Rightarrow> rx" where
  "rx_any [] = Class (\<lambda>_. False)"
| "rx_any [r] = r"
| "rx_any (r # rs) = Or r (rx_any rs)"

definition some_of :: "(char \<Rightarrow> bool) \<Rightarrow> rx" where
  "some_of p = Cat (Class p) (Many (Class p))"

definition rx_opt :: "rx \<Rightarrow> rx" where
  "rx_opt r = Or r Empty"

definition spaces :: rx where "spaces = some_of rx_space"
definition nonspaces :: rx where "nonspaces = some_of (\<lambda>c. \<not> rx_space c)"
definition letters :: rx where "letters = Many (Class letter)"

definition ssh_prefix :: rx where
  "ssh_prefix = rx_seq [StartText, rx_lit ''ssh'', spaces, rx_opt (rx_seq [rx_lit ''-p'', spaces, nonspaces, spaces]), nonspaces, spaces]"

definition destructive_patterns :: "rx list" where
  "destructive_patterns =
    [rx_seq [Boundary, rx_lit ''rm'', spaces,
       rx_any [rx_seq [rx_lit ''-'', letters, rx_lit ''r'', letters, rx_lit ''f''],
               rx_seq [rx_lit ''-'', letters, rx_lit ''f'', letters, rx_lit ''r'']], Boundary],
     rx_seq [Boundary, rx_lit ''git'', spaces, rx_lit ''push'', spaces, Many (Class (\<lambda>c. c \<noteq> CHR 0x0A)), rx_lit ''--force''],
     rx_seq [Boundary, rx_lit ''git'', spaces, rx_lit ''reset'', spaces, rx_lit ''--hard''],
     rx_seq [Boundary, rx_lit ''dd'', spaces, rx_lit ''if=''],
     rx_seq [Boundary, rx_lit ''mkfs''],
     rx_seq [Boundary, rx_lit ''shutdown'', Boundary],
     rx_seq [Boundary, rx_lit ''reboot'', Boundary],
     rx_seq [Boundary, rx_lit ''pct'', spaces, rx_any [rx_lit ''destroy'', rx_lit ''stop''], Boundary],
     rx_seq [Boundary, rx_lit ''systemctl'', spaces, rx_any [rx_lit ''stop'', rx_lit ''disable'', rx_lit ''mask''], Boundary],
     rx_seq [rx_lit ''DROP'', spaces, rx_lit ''TABLE''],
     rx_seq [Boundary, rx_lit ''truncate'', Boundary],
     rx_seq [rx_lit ''>'', Many (Class rx_space), rx_lit ''/dev/sd'']]"

definition two_words :: "string \<Rightarrow> string \<Rightarrow> rx" where
  "two_words a b = rx_seq [rx_lit a, spaces, rx_lit b]"

definition read_only_commands :: "rx list" where
  "read_only_commands =
     map rx_lit [''cat'', ''ls'', ''grep'', ''rg'', ''find'', ''head'', ''tail'', ''less'', ''journalctl''] @
     [two_words ''systemctl'' ''status'', two_words ''git'' ''status'', two_words ''git'' ''log'', two_words ''git'' ''diff''] @
     map rx_lit [''df'', ''du'', ''free'', ''uptime'', ''ps'', ''top'', ''curl''] @
     [two_words ''wget'' ''-qO-''] @ map rx_lit [''dig'', ''ping''] @
     [two_words ''kubectl'' ''get'', two_words ''docker'' ''ps'', two_words ''docker'' ''logs'', two_words ''pct'' ''list'',
      two_words ''pct'' ''status'', two_words ''qm'' ''list'']"

definition read_only_prefix :: rx where
  "read_only_prefix = rx_seq [StartText, rx_any read_only_commands, rx_any [Class rx_space, EndText]]"

section \<open>Classifying and summing up a call\<close>

definition read_tools :: "string list" where
  "read_tools = [''Read'', ''Glob'', ''Grep'', ''LS'', ''WebSearch'', ''TodoWrite'', ''Task'', ''AskUserQuestion'', ''ExitPlanMode'']"

definition write_tools :: "string list" where
  "write_tools = [''Edit'', ''Write'', ''MultiEdit'', ''NotebookEdit'']"

definition classify_bash :: "string \<Rightarrow> risk_tier" where
  "classify_bash command =
     (if command = [] then RiskExec
      else if list_ex (\<lambda>p. rx_search p command) destructive_patterns then RiskDestructive
      else if rx_search read_only_prefix (cut_match ssh_prefix command) then RiskRead
      else RiskExec)"

text \<open>\<open>input_field\<close> reads a string field of the raw JSON of a tool's input, empty where there is none.\<close>

type_synonym input_field = "string \<Rightarrow> string \<Rightarrow> string"

definition classify :: "input_field \<Rightarrow> string \<Rightarrow> string \<Rightarrow> risk_tier" where
  "classify input_field tool input =
     (if tool \<in> set read_tools then RiskRead
      else if tool = ''WebFetch'' then RiskExec
      else if tool \<in> set write_tools then RiskWrite
      else if tool = ''Bash'' then classify_bash (input_field input ''command'')
      else RiskExec)"

definition truncate :: "string \<Rightarrow> nat \<Rightarrow> string" where
  "truncate s n = (if length s \<le> n then s else take n s)"

definition file_fields :: "string list" where
  "file_fields = [''file_path'', ''pattern'', ''path'']"

definition tool_summary :: "input_field \<Rightarrow> string \<Rightarrow> string \<Rightarrow> string" where
  "tool_summary input_field tool input =
     (if tool = ''Bash'' then ''Bash: '' @ truncate (input_field input ''command'') 120
      else if tool \<in> {''Edit'', ''Write'', ''Read'', ''Grep'', ''Glob''} then
        (case filter (\<lambda>v. v \<noteq> []) (map (input_field input) file_fields) of
           [] \<Rightarrow> tool
         | v # _ \<Rightarrow> tool @ '': '' @ v)
      else tool)"

end
