(* ===== verification/Risk_Claims.thy ===== *)
theory Risk_Claims
  imports Risk
begin

text \<open>
  The matcher of \<open>Risk\<close> against the relation that says what a regular expression matches, and the tiers: what makes
  a command destructive, and that hiding it behind \<open>ssh\<close> never lowers its tier.
\<close>

section \<open>What a pattern matches\<close>

inductive rx_match :: "string \<Rightarrow> rx \<Rightarrow> nat \<Rightarrow> nat \<Rightarrow> bool" for s where
  match_class: "i < length s \<Longrightarrow> p (s ! i) \<Longrightarrow> rx_match s (Class p) i (Suc i)"
| match_empty: "rx_match s Empty i i"
| match_boundary: "boundary_at s i \<Longrightarrow> rx_match s Boundary i i"
| match_start: "rx_match s StartText 0 0"
| match_end: "rx_match s EndText (length s) (length s)"
| match_cat: "rx_match s a i j \<Longrightarrow> rx_match s b j k \<Longrightarrow> rx_match s (Cat a b) i k"
| match_left: "rx_match s a i j \<Longrightarrow> rx_match s (Or a b) i j"
| match_right: "rx_match s b i j \<Longrightarrow> rx_match s (Or a b) i j"
| match_none: "rx_match s (Many a) i i"
| match_more: "rx_match s a i j \<Longrightarrow> rx_match s (Many a) j k \<Longrightarrow> rx_match s (Many a) i k"

inductive_simps rx_match_simps:
  "rx_match s (Class p) i j" "rx_match s Empty i j" "rx_match s Boundary i j" "rx_match s StartText i j"
  "rx_match s EndText i j" "rx_match s (Cat a b) i j" "rx_match s (Or a b) i j"

lemma rx_match_forward: "rx_match s r i j \<Longrightarrow> i \<le> j \<and> (i \<le> length s \<longrightarrow> j \<le> length s)"
  by (induction rule: rx_match.induct) auto

lemma many_closure: "rx_match s (Many a) i k \<longleftrightarrow> (rx_match s a)\<^sup>*\<^sup>* i k"
proof
  assume "rx_match s (Many a) i k"
  then show "(rx_match s a)\<^sup>*\<^sup>* i k"
    by (induction "Many a" i k rule: rx_match.induct) (auto intro: converse_rtranclp_into_rtranclp)
next
  assume "(rx_match s a)\<^sup>*\<^sup>* i k"
  then show "rx_match s (Many a) i k"
    by (induction rule: converse_rtranclp_induct) (auto intro: match_none match_more)
qed

lemma many_ends_sound:
  assumes "\<And>i j. j \<in> set (f i) \<Longrightarrow> R i j"
  shows "k \<in> set (many_ends f n i) \<Longrightarrow> R\<^sup>*\<^sup>* i k"
  by (induction n arbitrary: i) (auto dest: assms intro: converse_rtranclp_into_rtranclp)

lemma many_ends_complete:
  assumes f: "\<And>i j. i \<le> m \<Longrightarrow> R i j \<Longrightarrow> j \<in> set (f i)" and step: "\<And>i j. R i j \<Longrightarrow> i \<le> j \<and> (i \<le> m \<longrightarrow> j \<le> m)"
  shows "R\<^sup>*\<^sup>* i k \<Longrightarrow> i \<le> m \<Longrightarrow> m \<le> n + i \<Longrightarrow> k \<in> set (many_ends f n i)"
proof (induction arbitrary: n rule: converse_rtranclp_induct)
  case base
  then show ?case by (cases n) auto
next
  case (step i j)
  show ?case
  proof (cases "i = j")
    case True
    then show ?thesis using step.IH step.prems by blast
  next
    case False
    then have "i < j" "j \<le> m" using assms(2)[OF step.hyps(1)] step.prems(1) by auto
    moreover obtain n' where n: "n = Suc n'" using calculation step.prems(2) by (cases n) auto
    ultimately have "k \<in> set (many_ends f n' j)" using step.IH step.prems(2) by auto
    then show ?thesis using \<open>i < j\<close> f[OF step.prems(1) step.hyps(1)] by (auto simp: n)
  qed
qed

lemma rx_ends_match: "i \<le> length s \<Longrightarrow> j \<in> set (rx_ends r s i) \<longleftrightarrow> rx_match s r i j"
proof (induction r arbitrary: i j)
  case (Cat a b)
  have "j \<in> set (rx_ends (Cat a b) s i) \<longleftrightarrow> (\<exists>m. rx_match s a i m \<and> j \<in> set (rx_ends b s m))"
    using Cat.IH(1)[OF Cat.prems] by auto
  also have "\<dots> \<longleftrightarrow> (\<exists>m. rx_match s a i m \<and> rx_match s b m j)"
    using Cat.IH(2) rx_match_forward Cat.prems by blast
  finally show ?case by (simp add: rx_match_simps)
next
  case (Many a)
  show ?case
  proof
    assume j: "j \<in> set (rx_ends (Many a) s i)"
    define R where "R i j \<longleftrightarrow> (i \<le> length s \<longrightarrow> rx_match s a i j)" for i j
    have "R\<^sup>*\<^sup>* i j"
      by (rule many_ends_sound[where f = "rx_ends a s"]) (use Many.IH j in \<open>auto simp: R_def\<close>)
    then have "rx_match s (Many a) i j" using Many.prems
      by (induction rule: converse_rtranclp_induct) (auto simp: R_def intro: match_none match_more dest: rx_match_forward)
    then show "rx_match s (Many a) i j" .
  next
    assume "rx_match s (Many a) i j"
    then have "(rx_match s a)\<^sup>*\<^sup>* i j" by (simp add: many_closure)
    then show "j \<in> set (rx_ends (Many a) s i)"
      using many_ends_complete[where R = "rx_match s a" and f = "rx_ends a s" and m = "length s" and n = "length s"]
        Many.IH Many.prems rx_match_forward by auto
  qed
qed (auto simp: rx_match_simps)

lemma rx_search_match: "rx_search r s \<longleftrightarrow> (\<exists>i j. i \<le> length s \<and> rx_match s r i j)"
proof -
  have ne: "xs \<noteq> [] \<longleftrightarrow> (\<exists>j. j \<in> set xs)" for xs :: "nat list" by (cases xs) auto
  have "rx_search r s \<longleftrightarrow> (\<exists>i \<le> length s. \<exists>j. j \<in> set (rx_ends r s i))"
    by (auto simp: rx_search_def list_ex_iff less_Suc_eq_le ne simp del: upt_Suc)
  then show ?thesis using rx_ends_match by blast
qed


section \<open>Behind ssh\<close>

text \<open>A match survives any text put before it that does not end in a word character, unless it is anchored there.\<close>

fun anchored :: "rx \<Rightarrow> bool" where
  "anchored StartText = True"
| "anchored (Cat a b) \<longleftrightarrow> anchored a \<or> anchored b"
| "anchored (Or a b) \<longleftrightarrow> anchored a \<or> anchored b"
| "anchored (Many a) = anchored a"
| "anchored _ = False"

lemma boundary_shift:
  assumes "boundary_at s i" "pre = [] \<or> \<not> word_char (last pre)"
  shows "boundary_at (pre @ s) (length pre + i)"
proof (cases "i = 0")
  case True
  then have "word_at s 0" using assms(1) by (simp add: boundary_at_def)
  moreover have "\<not> (0 < length pre \<and> word_at (pre @ s) (length pre - 1))"
    using assms(2) by (auto simp: word_at_def nth_append last_conv_nth)
  ultimately show ?thesis using True by (auto simp: boundary_at_def word_at_def nth_append)
next
  case False
  then have "word_at (pre @ s) (length pre + i - 1) = word_at s (i - 1)" "word_at (pre @ s) (length pre + i) = word_at s i"
    by (auto simp: word_at_def nth_append)
  then show ?thesis using assms(1) False by (simp add: boundary_at_def)
qed

lemma match_shift:
  assumes "rx_match s r i j" "\<not> anchored r" "pre = [] \<or> \<not> word_char (last pre)"
  shows "rx_match (pre @ s) r (length pre + i) (length pre + j)"
  using assms
proof (induction rule: rx_match.induct)
  case (match_class i p)
  then have "rx_match (pre @ s) (Class p) (length pre + i) (Suc (length pre + i))"
    by (intro rx_match.match_class) (simp_all add: nth_append)
  then show ?case by simp
next
  case (match_boundary i)
  then show ?case by (intro rx_match.match_boundary boundary_shift)
next
  case match_end
  have "rx_match (pre @ s) EndText (length (pre @ s)) (length (pre @ s))" by (rule rx_match.match_end)
  then show ?case by simp
qed (auto intro: rx_match.intros)

lemma destructive_unanchored: "p \<in> set destructive_patterns \<Longrightarrow> \<not> anchored p"
proof -
  have "list_all (\<lambda>p. \<not> anchored p) destructive_patterns"
    by (simp add: destructive_patterns_def spaces_def letters_def some_of_def)
  then show "p \<in> set destructive_patterns \<Longrightarrow> \<not> anchored p" by (simp add: list_all_iff)
qed

definition destructive :: "string \<Rightarrow> bool" where
  "destructive c \<longleftrightarrow> list_ex (\<lambda>p. rx_search p c) destructive_patterns"

lemma destructive_shift:
  assumes "destructive s" "pre = [] \<or> \<not> word_char (last pre)"
  shows "destructive (pre @ s)"
proof -
  obtain p i j where p: "p \<in> set destructive_patterns" "i \<le> length s" "rx_match s p i j"
    using assms(1) by (auto simp: destructive_def list_ex_iff rx_search_match)
  have "rx_match (pre @ s) p (length pre + i) (length pre + j)"
    using match_shift[OF p(3) destructive_unanchored[OF p(1)] assms(2)] .
  moreover have "length pre + i \<le> length (pre @ s)" using p(2) by simp
  ultimately have "rx_search p (pre @ s)" unfolding rx_search_match by blast
  then show ?thesis using p(1) by (auto simp: destructive_def list_ex_iff)
qed

lemma many_class_ends:
  assumes f: "\<And>i. f i = (if i < length s \<and> p (s ! i) then [Suc i] else [])" and "length s \<le> n + i"
  shows "\<exists>xs. many_ends f n i = (i + length (takeWhile p (drop i s))) # xs"
  using assms(2)
proof (induction n arbitrary: i)
  case 0
  then show ?case by simp
next
  case (Suc n)
  show ?case
  proof (cases "i < length s \<and> p (s ! i)")
    case True
    then have d: "drop i s = s ! i # drop (Suc i) s" by (simp add: Cons_nth_drop_Suc)
    obtain xs where "many_ends f n (Suc i) = (Suc i + length (takeWhile p (drop (Suc i) s))) # xs"
      using Suc.IH[of "Suc i"] Suc.prems by auto
    then show ?thesis using True by (simp add: d f[of i])
  next
    case False
    then have "takeWhile p (drop i s) = []"
      by (cases "i < length s") (auto simp: Cons_nth_drop_Suc[symmetric])
    then show ?thesis using False by (auto simp: f[of i])
  qed
qed

lemma some_of_ends:
  assumes "i < length s" "p (s ! i)"
  shows "\<exists>xs. rx_ends (some_of p) s i = (i + length (takeWhile p (drop i s))) # xs"
proof -
  have "drop i s = s ! i # drop (Suc i) s" using assms(1) by (simp add: Cons_nth_drop_Suc)
  then have "i + length (takeWhile p (drop i s)) = Suc i + length (takeWhile p (drop (Suc i) s))" using assms(2) by simp
  then show ?thesis using many_class_ends[of "rx_ends (Class p) s" s p "length s" "Suc i"] assms by (simp add: some_of_def)
qed

lemma takeWhile_drop_prefix:
  assumes "\<forall>c \<in> set b. p c" "c = [] \<or> \<not> p (hd c)"
  shows "takeWhile p (drop (length a) (a @ b @ c)) = b"
  using assms by (cases c) (auto simp: takeWhile_append2)

lemma ssh_cut:
  assumes host: "host \<noteq> []" "\<forall>c \<in> set host. \<not> rx_space c" "hd host \<noteq> CHR ''-''" and cmd: "cmd \<noteq> []" "\<not> rx_space (hd cmd)"
  shows "cut_match ssh_prefix (''ssh '' @ host @ '' '' @ cmd) = cmd"
proof -
  define s where "s = ''ssh '' @ host @ '' '' @ cmd"
  have s3: "s = ''ssh'' @ '' '' @ (host @ '' '' @ cmd)" and s4: "s = ''ssh '' @ host @ ('' '' @ cmd)"
    and s5: "s = (''ssh '' @ host) @ '' '' @ cmd" by (simp_all add: s_def)
  have sp: "rx_space CHR '' ''" by (simp add: rx_space_def)
  have n3: "s ! 3 = CHR '' ''" "3 < length s" by (simp_all add: s_def)
  have n4: "s ! 4 = hd host" "4 < length s" using host(1) by (simp_all add: s_def nth_append hd_conv_nth)
  have n5: "s ! (4 + length host) = CHR '' ''" "4 + length host < length s" by (simp_all add: s_def nth_append)
  obtain xs3 where e3: "rx_ends spaces s 3 = 4 # xs3"
    using some_of_ends[of 3 s rx_space] n3 sp takeWhile_drop_prefix[of "'' ''" rx_space "host @ '' '' @ cmd" "''ssh''"] host
    unfolding spaces_def s3 by auto
  have opt: "rx_ends (rx_opt (rx_seq [rx_lit ''-p'', spaces, nonspaces, spaces])) s 4 = [4]"
    using n4 host(3) by (simp add: rx_opt_def)
  obtain xs4 where e4: "rx_ends nonspaces s 4 = (4 + length host) # xs4"
    using some_of_ends[of 4 s "\<lambda>c. \<not> rx_space c"] n4 host sp
      takeWhile_drop_prefix[of host "\<lambda>c. \<not> rx_space c" "'' '' @ cmd" "''ssh ''"]
    unfolding nonspaces_def s4 by auto
  have "takeWhile rx_space (drop (length (''ssh '' @ host)) s) = '' ''"
    unfolding s5 by (rule takeWhile_drop_prefix) (use sp cmd in auto)
  moreover have "length (''ssh '' @ host) = 4 + length host" by simp
  ultimately have "length (takeWhile rx_space (drop (4 + length host) s)) = 1" by (metis One_nat_def length_Cons list.size(3))
  then obtain xs5 where e5: "rx_ends spaces s (4 + length host) = (5 + length host) # xs5"
    using some_of_ends[of "4 + length host" s rx_space] n5 sp unfolding spaces_def by auto
  have lit: "rx_ends (rx_lit ''ssh'') s 0 = [3]" by (simp add: s_def)
  have "\<exists>ys. rx_ends ssh_prefix s 0 = (5 + length host) # ys"
    unfolding ssh_prefix_def rx_seq.simps rx_ends.simps(6) using lit opt
    by (simp add: e3 e4 e5 del: rx_lit.simps)
  then have "cut_match ssh_prefix s = drop (5 + length host) s" by (auto simp: cut_match_def)
  also have "\<dots> = cmd"
  proof -
    have "length (''ssh '' @ host @ '' '') = 5 + length host" "s = (''ssh '' @ host @ '' '') @ cmd" by (simp_all add: s_def)
    then show ?thesis by (metis append_eq_conv_conj)
  qed
  finally show ?thesis by (simp add: s_def)
qed

fun tier_rank :: "risk_tier \<Rightarrow> nat" where
  "tier_rank RiskRead = 0"
| "tier_rank RiskWrite = 1"
| "tier_rank RiskExec = 2"
| "tier_rank RiskDestructive = 3"

lemma ssh_is_no_read_only: "\<not> rx_search read_only_prefix (''ssh'' @ x)"
proof -
  have "rx_ends (rx_any read_only_commands) (''ssh'' @ x) 0 = []"
    by (simp add: read_only_commands_def two_words_def)
  then have "rx_ends read_only_prefix (''ssh'' @ x) i = []" for i
    unfolding read_only_prefix_def by (cases "i = 0") simp_all
  then show ?thesis unfolding rx_search_def by (simp add: list_ex_iff)
qed

lemma no_ssh_no_cut:
  assumes "take 3 c \<noteq> ''ssh''"
  shows "cut_match ssh_prefix c = c"
proof -
  have "rx_ends (rx_lit ''ssh'') c 0 = []"
  proof (cases "length c < 3")
    case False
    then obtain a b d e where "c = a # b # d # e" by (metis Suc_length_conv length_Cons linorder_not_less list.exhaust list.size(3) numeral_3_eq_3 less_Suc_eq)
    then show ?thesis using assms by auto
  next
    case True
    then show ?thesis by (cases c rule: list.exhaust; cases "tl c"; cases "tl (tl c)") auto
  qed
  then have "rx_ends ssh_prefix c 0 = []" unfolding ssh_prefix_def by (simp del: rx_lit.simps)
  then show ?thesis by (simp add: cut_match_def)
qed

lemma read_only_uncut:
  assumes "rx_search read_only_prefix c"
  shows "cut_match ssh_prefix c = c"
proof (rule no_ssh_no_cut)
  show "take 3 c \<noteq> ''ssh''"
  proof
    assume "take 3 c = ''ssh''"
    then have "c = ''ssh'' @ drop 3 c" by (metis append_take_drop_id)
    then show False using assms ssh_is_no_read_only by metis
  qed
qed

text \<open>
  Running a command on another host never lowers its tier: what is destructive stays destructive behind
  \<open>ssh host\<close>, what needs execution rights still does; and a command that is not itself an \<open>ssh\<close> keeps exactly its
  own tier there, unless the longer text matches a destructive pattern.
\<close>

theorem ssh_never_lowers_risk:
  assumes "host \<noteq> []" and "\<forall>c \<in> set host. \<not> rx_space c" and "hd host \<noteq> CHR ''-''"
    and "cmd \<noteq> []" and "\<not> rx_space (hd cmd)"
  shows "tier_rank (classify_bash cmd) \<le> tier_rank (classify_bash (''ssh '' @ host @ '' '' @ cmd)) \<and>
    (take 3 cmd \<noteq> ''ssh'' \<longrightarrow> classify_bash (''ssh '' @ host @ '' '' @ cmd) \<in> {classify_bash cmd, RiskDestructive})"
proof -
  define far where "far = ''ssh '' @ host @ '' '' @ cmd"
  have d: "destructive cmd \<Longrightarrow> destructive far"
    using destructive_shift[of cmd "''ssh '' @ host @ '' ''"] by (simp add: far_def word_char_def)
  have tier: "classify_bash c = (if destructive c then RiskDestructive
      else if rx_search read_only_prefix (cut_match ssh_prefix c) then RiskRead else RiskExec)" if "c \<noteq> []" for c
    using that by (simp add: classify_bash_def destructive_def)
  have cut: "cut_match ssh_prefix far = cmd" unfolding far_def by (rule ssh_cut) fact+
  have ne: "far \<noteq> []" by (simp add: far_def)
  show ?thesis unfolding far_def[symmetric] tier[OF ne] tier[OF assms(4)] cut
    using d read_only_uncut[of cmd] no_ssh_no_cut[of cmd] by auto
qed

theorem ssh_never_lowers_risk_witness:
  "tier_rank (classify_bash ''rm -rf x'') \<le> tier_rank (classify_bash (''ssh '' @ ''db1'' @ '' '' @ ''rm -rf x'')) \<and>
   classify_bash ''rm -rf x'' = RiskDestructive"
proof -
  have "classify_bash ''rm -rf x'' = RiskDestructive" by code_simp
  moreover have "tier_rank (classify_bash ''rm -rf x'') \<le> tier_rank (classify_bash (''ssh '' @ ''db1'' @ '' '' @ ''rm -rf x''))"
    using ssh_never_lowers_risk[of "''db1''" "''rm -rf x''"] by (simp add: rx_space_def)
  ultimately show ?thesis by blast
qed

text \<open>
  What the patterns miss: a flag letter after the two of \<open>rm -rf\<close> or the two flags apart, and whatever follows a
  read-only command on the same line.
\<close>

lemma recursive_removals_missed: "classify_bash ''rm -rfv x'' = RiskExec" "classify_bash ''rm -r -f x'' = RiskExec"
  by code_simp+

lemma chained_command_reads: "classify_bash ''cat x; rm -r -f y'' = RiskRead" "classify_bash ''find . -delete'' = RiskRead"
  by code_simp+

end
