(* ===== verification/Stats.thy ===== *)
theory Stats
  imports Auth Session_Store
begin

text \<open>
  The read-only views of \<open>internal/stats\<close>: the fleet timeline (\<open>gantt.go\<close>), which turns the events of a session into
  running, waiting and idle segments of a window, and the cost dashboard (\<open>costs.go\<close>). Money is rational, so sums are
  exact. A day is its number since the epoch, in UTC. Where Go sorts rows collected from a map, or with an unstable
  sort, the order among rows of equal cost is not determined; the model takes the order of first occurrence.
\<close>

section \<open>The fleet timeline (gantt.go)\<close>

datatype segment_kind = Running | Waiting | Idle

record segment =
  sg_kind :: segment_kind
  sg_start :: time
  sg_end :: time

record lane =
  ln_session :: id
  ln_title :: string
  ln_owner :: string
  ln_state :: session_state
  ln_segments :: "segment list"

definition gantt_lane_cap :: nat where "gantt_lane_cap = 200"
definition gantt_lookback :: duration where "gantt_lookback = hour"
definition min_idle_segment :: duration where "min_idle_segment = 5 * second"

definition owner_key :: "id option \<Rightarrow> id" where
  "owner_key o' = (case o' of None \<Rightarrow> [] | Some i \<Rightarrow> i)"

definition owner_display_name :: "accounts \<Rightarrow> id \<Rightarrow> string" where
  "owner_display_name acc owner =
     (if owner = [] then ''unattended''
      else case users_get owner acc of
        Inl e \<Rightarrow> owner
      | Inr u \<Rightarrow> if us_name u \<noteq> [] then us_name u else us_email u)"

definition owner_names :: "accounts \<Rightarrow> session list \<Rightarrow> (id \<times> string) list" where
  "owner_names acc ss =
     foldl (\<lambda>out se. let i = owner_key (se_owner se)
        in if i = [] \<or> i \<in> fst ` set out then out else out @ [(i, owner_display_name acc i)])
       [([], ''unattended'')] ss"

definition load_events :: "id \<Rightarrow> time \<Rightarrow> time \<Rightarrow> world \<Rightarrow> event_row list" where
  "load_events sid start until w =
     sort_key ev_seq (filter (\<lambda>e. ev_session e = sid \<and> stored_le start (ev_time e) \<and> stored_le (ev_time e) until) (wd_events w))"

definition close_at :: "(segment_kind \<times> time) option \<Rightarrow> time \<Rightarrow> segment list" where
  "close_at opn t = (case opn of None \<Rightarrow> [] | Some (k, s) \<Rightarrow> [\<lparr>sg_kind = k, sg_start = s, sg_end = t\<rparr>])"

fun busy_from :: "(segment_kind \<times> time) option \<Rightarrow> event_row list \<Rightarrow> time \<Rightarrow> segment list" where
  "busy_from opn [] window_end = close_at opn window_end"
| "busy_from opn (e # es) window_end =
     (case ev_payload e of
        EventUser _ \<Rightarrow> close_at opn (ev_time e) @ busy_from (Some (Running, ev_time e)) es window_end
      | EventPermission _ \<Rightarrow> close_at opn (ev_time e) @ busy_from (Some (Waiting, ev_time e)) es window_end
      | EventToolUse _ \<Rightarrow>
          (if opn \<noteq> None \<and> fst (the opn) = Waiting
           then close_at opn (ev_time e) @ busy_from (Some (Running, ev_time e)) es window_end
           else busy_from opn es window_end)
      | EventText _ \<Rightarrow>
          (if opn \<noteq> None \<and> fst (the opn) = Waiting
           then close_at opn (ev_time e) @ busy_from (Some (Running, ev_time e)) es window_end
           else busy_from opn es window_end)
      | EventResult _ \<Rightarrow> close_at opn (ev_time e) @ busy_from None es window_end
      | EventExit _ \<Rightarrow> close_at opn (ev_time e) @ busy_from None es window_end
      | _ \<Rightarrow> busy_from opn es window_end)"

definition busy_segments :: "event_row list \<Rightarrow> time \<Rightarrow> segment list" where
  "busy_segments evs window_end = busy_from None evs window_end"

definition clip_segments :: "segment list \<Rightarrow> time \<Rightarrow> time \<Rightarrow> segment list" where
  "clip_segments segs start until =
     concat (map (\<lambda>sg.
       let s = (if sg_start sg < start then start else sg_start sg); e = (if until < sg_end sg then until else sg_end sg)
       in if \<not> s < e then [] else [\<lparr>sg_kind = sg_kind sg, sg_start = s, sg_end = e\<rparr>]) segs)"

fun fill_from :: "time \<Rightarrow> segment list \<Rightarrow> time \<Rightarrow> segment list" where
  "fill_from cursor [] until =
     (if min_idle_segment \<le> until - cursor then [\<lparr>sg_kind = Idle, sg_start = cursor, sg_end = until\<rparr>] else [])"
| "fill_from cursor (sg # segs) until =
     (if min_idle_segment \<le> sg_start sg - cursor then [\<lparr>sg_kind = Idle, sg_start = cursor, sg_end = sg_start sg\<rparr>] else []) @
     sg # fill_from (sg_end sg) segs until"

definition fill_idle :: "segment list \<Rightarrow> time \<Rightarrow> time \<Rightarrow> segment list" where
  "fill_idle segs start until = fill_from start segs until"

definition derive_segments :: "event_row list \<Rightarrow> time \<Rightarrow> time \<Rightarrow> segment list" where
  "derive_segments evs start until = fill_idle (clip_segments (busy_segments evs until) start until) start until"

definition gantt_sessions :: "time \<Rightarrow> time \<Rightarrow> actor \<Rightarrow> world \<Rightarrow> session list" where
  "gantt_sessions start until a w =
     take gantt_lane_cap (sort_key (\<lambda>s. - se_last_active s)
       (filter (\<lambda>s. \<not> (se_last_active s < start \<or> until < se_created s)) (sessions_list_visible (ac_user a) (ac_admin a) w)))"

definition gantt :: "accounts \<Rightarrow> time \<Rightarrow> time \<Rightarrow> actor \<Rightarrow> world \<Rightarrow> lane list" where
  "gantt acc start until a w =
     (let selected = gantt_sessions start until a w; owners = owner_names acc selected
      in map (\<lambda>se. \<lparr>ln_session = se_id se, ln_title = se_title se,
           ln_owner = (case map_of owners (owner_key (se_owner se)) of Some n \<Rightarrow> n | None \<Rightarrow> []), ln_state = se_state se,
           ln_segments = derive_segments (load_events (se_id se) (start - gantt_lookback) until w) start until\<rparr>) selected)"

section \<open>The cost dashboard (costs.go)\<close>

definition default_costs_window :: int where "default_costs_window = 30"
definition max_costs_window :: int where "max_costs_window = 365"
definition top_templates_limit :: nat where "top_templates_limit = 5"

record day_cost =
  dc_day :: int
  dc_usd :: usd
  dc_sessions :: nat

record named_cost =
  nc_name :: string
  nc_usd :: usd
  nc_count :: nat

record cost_view =
  co_days :: "day_cost list"
  co_by_user :: "named_cost list"
  co_by_origin :: "named_cost list"
  co_top :: "named_cost list"
  co_total :: usd
  co_window :: int

definition utc_day :: "time \<Rightarrow> int" where
  "utc_day t = t div (24 * hour)"

definition costs_window :: "int \<Rightarrow> int" where
  "costs_window days =
     (let window = (if days \<le> 0 then default_costs_window else days)
      in if max_costs_window < window then max_costs_window else window)"

definition costs_since :: "int \<Rightarrow> time \<Rightarrow> time" where
  "costs_since window now = (utc_day now - (window - 1)) * (24 * hour)"

fun add_to :: "string \<Rightarrow> usd \<Rightarrow> named_cost list \<Rightarrow> named_cost list" where
  "add_to key usd [] = [\<lparr>nc_name = key, nc_usd = usd, nc_count = 1\<rparr>]"
| "add_to key usd (r # rs) =
     (if nc_name r = key then r\<lparr>nc_usd := nc_usd r + usd, nc_count := nc_count r + 1\<rparr> # rs else r # add_to key usd rs)"

definition add_to_day :: "int \<Rightarrow> usd \<Rightarrow> day_cost list \<Rightarrow> day_cost list" where
  "add_to_day d usd = map (\<lambda>r. if dc_day r = d then r\<lparr>dc_usd := dc_usd r + usd, dc_sessions := dc_sessions r + 1\<rparr> else r)"

definition add_session :: "cost_view \<Rightarrow> session \<Rightarrow> cost_view" where
  "add_session c s = c\<lparr>
     co_days := add_to_day (utc_day (se_last_active s)) (se_cost s) (co_days c),
     co_by_user := add_to (owner_key (se_owner s)) (se_cost s) (co_by_user c),
     co_by_origin := add_to (se_origin s) (se_cost s) (co_by_origin c),
     co_total := co_total c + se_cost s\<rparr>"

definition sort_by_usd_desc :: "named_cost list \<Rightarrow> named_cost list" where
  "sort_by_usd_desc rows = sort_key (\<lambda>r. - nc_usd r) rows"

definition named_by_owner :: "accounts \<Rightarrow> named_cost list \<Rightarrow> named_cost list" where
  "named_by_owner acc totals = sort_by_usd_desc (map (\<lambda>r. r\<lparr>nc_name := owner_display_name acc (nc_name r)\<rparr>) totals)"

text \<open>The join of \<open>topTemplates\<close>: \<open>started_at\<close> is compared as text, and a template's rows are one group.\<close>

definition top_templates :: "time \<Rightarrow> actor \<Rightarrow> world \<Rightarrow> named_cost list" where
  "top_templates since a w =
     (let counted = (\<lambda>t. filter (\<lambda>r. rn_template r = Some (tp_id t) \<and> stored_le since (rn_started r) \<and>
            (case tbl_get se_id (rn_session r) (wd_sessions w) of None \<Rightarrow> False
             | Some se \<Rightarrow> ac_admin a \<or> se_owner se = Some (ac_user a) \<or> se_owner se = None)) (wd_runs w));
          groups = filter (\<lambda>t. counted t \<noteq> []) (wd_templates w)
      in take top_templates_limit (sort_by_usd_desc
           (map (\<lambda>t. \<lparr>nc_name = tp_name t, nc_usd = sum_list (map rn_cost (counted t)), nc_count = length (counted t)\<rparr>) groups)))"

definition costs :: "accounts \<Rightarrow> int \<Rightarrow> actor \<Rightarrow> world \<Rightarrow> cost_view" where
  "costs acc days a w =
     (let window = costs_window days;
          since = costs_since window (wd_now w);
          day_order = map (\<lambda>i. utc_day since + int i) [0..<nat window];
          start = \<lparr>co_days = map (\<lambda>d. \<lparr>dc_day = d, dc_usd = 0, dc_sessions = 0\<rparr>) day_order, co_by_user = [], co_by_origin = [],
                   co_top = [], co_total = 0, co_window = window\<rparr>;
          c = foldl add_session start
                (filter (\<lambda>s. \<not> se_last_active s < since) (sessions_list_visible (ac_user a) (ac_admin a) w))
      in c\<lparr>co_by_user := named_by_owner acc (co_by_user c), co_by_origin := sort_by_usd_desc (co_by_origin c),
           co_top := top_templates since a w\<rparr>)"

end
