(* ===== verification/Stats_Claims.thy ===== *)
theory Stats_Claims
  imports Stats Pipeline_Examples
begin

text \<open>
  The timeline against the state of the session at each moment, and the cost dashboard against the sum of the costs
  it is made of.
\<close>

section \<open>The timeline\<close>

text \<open>What a session is doing at a moment: the state its events up to then leave it in, and since when.\<close>

definition next_state :: "(segment_kind \<times> time) option \<Rightarrow> event_row \<Rightarrow> (segment_kind \<times> time) option" where
  "next_state st e =
     (case ev_payload e of
        EventUser _ \<Rightarrow> Some (Running, ev_time e)
      | EventPermission _ \<Rightarrow> Some (Waiting, ev_time e)
      | EventToolUse _ \<Rightarrow> (if map_option fst st = Some Waiting then Some (Running, ev_time e) else st)
      | EventText _ \<Rightarrow> (if map_option fst st = Some Waiting then Some (Running, ev_time e) else st)
      | EventResult _ \<Rightarrow> None
      | EventExit _ \<Rightarrow> None
      | _ \<Rightarrow> st)"

definition doing_at :: "event_row list \<Rightarrow> time \<Rightarrow> segment_kind option" where
  "doing_at evs t = map_option fst (foldl next_state None (filter (\<lambda>e. ev_time e \<le> t) evs))"

definition covers :: "segment list \<Rightarrow> segment_kind \<Rightarrow> time \<Rightarrow> bool" where
  "covers segs k t \<longleftrightarrow> (\<exists>sg \<in> set segs. sg_kind sg = k \<and> sg_start sg \<le> t \<and> t < sg_end sg)"

lemma covers_append [simp]: "covers (a @ b) k t \<longleftrightarrow> covers a k t \<or> covers b k t"
  by (auto simp: covers_def)

lemma covers_close: "covers (close_at opn e) k t \<longleftrightarrow> (\<exists>s. opn = Some (k, s) \<and> s \<le> t \<and> t < e)"
  by (auto simp: covers_def close_at_def split: option.splits)

lemma busy_step:
  "busy_from opn (e # es) u = busy_from opn es u \<and> next_state opn e = opn \<or>
   busy_from opn (e # es) u = close_at opn (ev_time e) @ busy_from (next_state opn e) es u \<and>
     (\<forall>k s. next_state opn e = Some (k, s) \<longrightarrow> s = ev_time e)"
  by (cases "ev_payload e"; cases opn) (auto simp: next_state_def)

declare busy_from.simps(2) [simp del]

lemma late_events_cover_later:
  "\<forall>e \<in> set es. t < ev_time e \<Longrightarrow> (\<And>k s. opn = Some (k, s) \<Longrightarrow> t < s) \<Longrightarrow> \<not> covers (busy_from opn es u) k t"
proof (induction es arbitrary: opn)
  case Nil
  then show ?case by (auto simp: covers_close)
next
  case (Cons e es)
  from busy_step[of opn e es u] show ?case
  proof (elim disjE conjE)
    assume "busy_from opn (e # es) u = busy_from opn es u"
    then show ?thesis using Cons.IH[of opn] Cons.prems by simp
  next
    assume b: "busy_from opn (e # es) u = close_at opn (ev_time e) @ busy_from (next_state opn e) es u"
      and s: "\<forall>k s. next_state opn e = Some (k, s) \<longrightarrow> s = ev_time e"
    have "\<not> covers (busy_from (next_state opn e) es u) k t" using Cons.IH[of "next_state opn e"] Cons.prems s by auto
    then show ?thesis unfolding b using Cons.prems(2) by (auto simp: covers_close)
  qed
qed

lemma busy_covers:
  assumes "sorted (map ev_time es)" and "\<And>k s e. opn = Some (k, s) \<Longrightarrow> e \<in> set es \<Longrightarrow> s \<le> ev_time e" and "t < u"
    and "\<And>k s. opn = Some (k, s) \<Longrightarrow> s \<le> t"
  shows "covers (busy_from opn es u) k t \<longleftrightarrow> map_option fst (foldl next_state opn (filter (\<lambda>e. ev_time e \<le> t) es)) = Some k"
  using assms
proof (induction es arbitrary: opn)
  case Nil
  then show ?case by (auto simp: covers_close)
next
  case (Cons e es)
  show ?case
  proof (cases "ev_time e \<le> t")
    case True
    have "covers (busy_from opn (e # es) u) k t \<longleftrightarrow> covers (busy_from (next_state opn e) es u) k t"
      using busy_step[of opn e es u] True by (auto simp: covers_close)
    also have "\<dots> \<longleftrightarrow> map_option fst (foldl next_state (next_state opn e) (filter (\<lambda>e. ev_time e \<le> t) es)) = Some k"
    proof (rule Cons.IH)
      show "sorted (map ev_time es)" "t < u" using Cons.prems by auto
      have "next_state opn e = opn \<or> (\<forall>k s. next_state opn e = Some (k, s) \<longrightarrow> s = ev_time e)" using busy_step by blast
      then show "s \<le> ev_time e'" if "next_state opn e = Some (k', s)" "e' \<in> set es" for k' s e'
        using that Cons.prems by fastforce
      show "s \<le> t" if "next_state opn e = Some (k', s)" for k' s
        using that True Cons.prems(4) \<open>next_state opn e = opn \<or> _\<close> by auto
    qed
    finally show ?thesis using True by simp
  next
    case False
    then have late: "\<forall>e' \<in> set (e # es). t < ev_time e'" using Cons.prems(1) by auto
    then have none: "filter (\<lambda>e. ev_time e \<le> t) (e # es) = []" by (auto simp: filter_empty_conv)
    have "covers (busy_from opn es' u) k t \<longleftrightarrow> map_option fst opn = Some k" if "\<forall>e' \<in> set es'. t < ev_time e'" for es'
      using that
    proof (induction es')
      case Nil
      then show ?case using Cons.prems(3,4) by (auto simp: covers_close)
    next
      case (Cons e' es')
      from busy_step[of opn e' es' u] show ?case
      proof (elim disjE conjE)
        assume "busy_from opn (e' # es') u = busy_from opn es' u"
        then show ?thesis using Cons by simp
      next
        assume b: "busy_from opn (e' # es') u = close_at opn (ev_time e') @ busy_from (next_state opn e') es' u"
          and s: "\<forall>k s. next_state opn e' = Some (k, s) \<longrightarrow> s = ev_time e'"
        have "\<not> covers (busy_from (next_state opn e') es' u) k t"
          using late_events_cover_later[of es' t "next_state opn e'"] s Cons.prems by auto
        then show ?thesis unfolding b using Cons.prems \<open>\<And>k s. opn = Some (k, s) \<Longrightarrow> s \<le> t\<close> by (auto simp: covers_close)
      qed
    qed
    from this[OF late] show ?thesis unfolding none by simp
  qed
qed

lemma clip_covers: "start \<le> t \<Longrightarrow> t < until \<Longrightarrow> covers (clip_segments segs start until) k t \<longleftrightarrow> covers segs k t"
  by (induction segs) (auto simp: clip_segments_def covers_def Let_def)

lemma fill_covers: "k \<noteq> Idle \<Longrightarrow> covers (fill_from c segs until) k t \<longleftrightarrow> covers segs k t"
  by (induction segs arbitrary: c) (auto simp: covers_def)

text \<open>Segments laid end to end from \<open>c\<close> to \<open>u\<close>: in order, apart, each of positive length; and gaps below the threshold.\<close>

fun laid :: "time \<Rightarrow> segment list \<Rightarrow> time \<Rightarrow> bool" where
  "laid c [] u \<longleftrightarrow> c \<le> u"
| "laid c (sg # segs) u \<longleftrightarrow> c \<le> sg_start sg \<and> sg_start sg < sg_end sg \<and> laid (sg_end sg) segs u"

fun gaps_below :: "duration \<Rightarrow> time \<Rightarrow> segment list \<Rightarrow> time \<Rightarrow> bool" where
  "gaps_below d c [] u \<longleftrightarrow> u - c < d"
| "gaps_below d c (sg # segs) u \<longleftrightarrow> sg_start sg - c < d \<and> gaps_below d (sg_end sg) segs u"

fun rising :: "time \<Rightarrow> segment list \<Rightarrow> bool" where
  "rising c [] = True"
| "rising c (sg # segs) \<longleftrightarrow> c \<le> sg_start sg \<and> (segs \<noteq> [] \<longrightarrow> sg_start sg \<le> sg_end sg \<and> rising (sg_end sg) segs)"

lemma rising_close: "(\<And>k s. opn = Some (k, s) \<Longrightarrow> c \<le> s \<and> s \<le> e) \<Longrightarrow> c \<le> e \<Longrightarrow> rising e segs \<Longrightarrow> rising c (close_at opn e @ segs)"
  by (cases segs) (auto simp: close_at_def split: option.splits)

lemma busy_rising:
  assumes "sorted (map ev_time es)" and "\<And>e. e \<in> set es \<Longrightarrow> c \<le> ev_time e"
    and "\<And>k s. opn = Some (k, s) \<Longrightarrow> c \<le> s \<and> (\<forall>e \<in> set es. s \<le> ev_time e)"
  shows "rising c (busy_from opn es u)"
  using assms
proof (induction es arbitrary: opn c)
  case Nil
  then show ?case by (auto simp: close_at_def split: option.splits)
next
  case (Cons e es)
  from busy_step[of opn e es u] show ?case
  proof (elim disjE conjE)
    assume "busy_from opn (e # es) u = busy_from opn es u"
    then show ?thesis using Cons.IH[of c opn] Cons.prems by simp
  next
    assume b: "busy_from opn (e # es) u = close_at opn (ev_time e) @ busy_from (next_state opn e) es u"
      and s: "\<forall>k s. next_state opn e = Some (k, s) \<longrightarrow> s = ev_time e"
    have "rising (ev_time e) (busy_from (next_state opn e) es u)" using Cons.prems s by (intro Cons.IH) auto
    then show ?thesis unfolding b using Cons.prems by (intro rising_close) auto
  qed
qed

lemma laid_from: "laid c segs u \<Longrightarrow> c' \<le> c \<Longrightarrow> laid c' segs u"
  by (cases segs) auto

lemma clip_laid:
  assumes "rising c segs" and "start \<le> until"
  shows "laid (max start (min c until)) (clip_segments segs start until) until"
  using assms
proof (induction segs arbitrary: c)
  case Nil
  then show ?case by (simp add: clip_segments_def)
next
  case (Cons sg segs)
  define s e where "s = max start (sg_start sg)" and "e = min until (sg_end sg)"
  have split: "clip_segments (sg # segs) start until =
      (if s < e then [\<lparr>sg_kind = sg_kind sg, sg_start = s, sg_end = e\<rparr>] else []) @ clip_segments segs start until"
    by (auto simp: clip_segments_def s_def e_def Let_def)
  have rest: "laid (max start (min (sg_end sg) until)) (clip_segments segs start until) until" if "segs \<noteq> []"
    using Cons that by simp
  show ?case
  proof (cases "s < e")
    case True
    have "max start (min (sg_end sg) until) = e" using True by (auto simp: s_def e_def)
    then have "laid e (clip_segments segs start until) until"
      using rest True by (cases "segs = []") (auto simp: clip_segments_def e_def)
    then show ?thesis using True Cons.prems by (auto simp: split s_def)
  next
    case False
    show ?thesis
    proof (cases "segs = []")
      case True
      have "clip_segments (sg # segs) start until = []" unfolding split using False True by (simp add: clip_segments_def)
      then show ?thesis using Cons.prems by simp
    next
      case ne: False
      then have "max start (min c until) \<le> max start (min (sg_end sg) until)" using Cons.prems by auto
      then show ?thesis using rest[OF ne] False by (simp add: split laid_from)
    qed
  qed
qed

lemma fill_laid: "laid c segs u \<Longrightarrow> laid c (fill_from c segs u) u"
  by (induction segs arbitrary: c) (auto simp: min_idle_segment_def second_def)

lemma fill_gaps: "laid c segs u \<Longrightarrow> gaps_below min_idle_segment c (fill_from c segs u) u"
  by (induction segs arbitrary: c) (auto simp: min_idle_segment_def second_def)

lemma fill_idle_long:
  "sg \<in> set (fill_from c segs u) \<Longrightarrow> sg_kind sg = Idle \<Longrightarrow> (\<forall>x \<in> set segs. sg_kind x \<noteq> Idle) \<Longrightarrow>
   min_idle_segment \<le> sg_end sg - sg_start sg"
  by (induction segs arbitrary: c) (auto split: if_splits)

definition idle_free :: "(segment_kind \<times> time) option \<Rightarrow> bool" where
  "idle_free opn \<longleftrightarrow> map_option fst opn \<noteq> Some Idle"

lemma next_state_idle_free: "idle_free opn \<Longrightarrow> idle_free (next_state opn e)"
  by (cases "ev_payload e") (auto simp: next_state_def idle_free_def)

lemma close_idle_free: "idle_free opn \<Longrightarrow> \<forall>sg \<in> set (close_at opn t). sg_kind sg \<noteq> Idle"
  by (auto simp: close_at_def idle_free_def split: option.splits)

lemma busy_not_idle: "idle_free opn \<Longrightarrow> \<forall>sg \<in> set (busy_from opn es u). sg_kind sg \<noteq> Idle"
proof (induction es arbitrary: opn)
  case Nil
  then show ?case using close_idle_free by simp
next
  case (Cons e es)
  from busy_step[of opn e es u] show ?case
    using Cons.IH[OF Cons.prems] Cons.IH[OF next_state_idle_free[OF Cons.prems, of e]] close_idle_free[OF Cons.prems, of "ev_time e"]
    by (elim disjE conjE) (simp_all add: ball_Un)
qed

lemma clip_kinds: "sg \<in> set (clip_segments segs start until) \<Longrightarrow> sg_kind sg \<in> sg_kind ` set segs"
  by (auto simp: clip_segments_def Let_def split: if_splits)

text \<open>
  C28: The timeline of a session is a true picture of it: within the window its segments follow each other without
  overlap, at every moment the segment shown is running or waiting exactly when the session's events up to that
  moment leave it so, idle segments are at least five seconds long, and nothing of five seconds or more is left blank.
\<close>

theorem timeline_tells_the_state:
  assumes "sorted (map ev_time evs)" and "start \<le> until"
  shows "laid start (derive_segments evs start until) until \<and>
    (\<forall>t k. start \<le> t \<longrightarrow> t < until \<longrightarrow> k \<noteq> Idle \<longrightarrow>
       (covers (derive_segments evs start until) k t \<longleftrightarrow> doing_at evs t = Some k)) \<and>
    (\<forall>sg \<in> set (derive_segments evs start until). sg_kind sg = Idle \<longrightarrow> 5 * second \<le> sg_end sg - sg_start sg) \<and>
    gaps_below (5 * second) start (derive_segments evs start until) until"
proof -
  define early where "early = Min (insert start (ev_time ` set evs))"
  have "rising early (busy_segments evs until)"
    unfolding busy_segments_def using assms(1) by (intro busy_rising) (auto simp: early_def)
  then have "laid (max start (min early until)) (clip_segments (busy_segments evs until) start until) until"
    using assms(2) by (rule clip_laid)
  then have laid: "laid start (clip_segments (busy_segments evs until) start until) until"
    by (rule laid_from) simp
  have kinds: "\<forall>sg \<in> set (clip_segments (busy_segments evs until) start until). sg_kind sg \<noteq> Idle"
    using busy_not_idle[of None evs until] by (force dest: clip_kinds simp: busy_segments_def idle_free_def)
  have "covers (derive_segments evs start until) k t \<longleftrightarrow> doing_at evs t = Some k"
    if "start \<le> t" "t < until" "k \<noteq> Idle" for t k
  proof -
    have "covers (busy_from None evs until) k t \<longleftrightarrow> map_option fst (foldl next_state None (filter (\<lambda>e. ev_time e \<le> t) evs)) = Some k"
      by (rule busy_covers) (use that assms(1) in auto)
    then show ?thesis using that by (simp add: derive_segments_def fill_idle_def fill_covers clip_covers busy_segments_def doing_at_def)
  qed
  then show ?thesis
    using fill_laid[OF laid] fill_gaps[OF laid] fill_idle_long[OF _ _ kinds]
    by (auto simp: derive_segments_def fill_idle_def min_idle_segment_def)
qed

definition an_event :: "time \<Rightarrow> harness_event \<Rightarrow> event_row" where
  "an_event t e = \<lparr>ev_session = ''s'', ev_seq = 1, ev_time = t, ev_payload = e\<rparr>"

definition some_events :: "event_row list" where
  "some_events = [an_event 0 (EventUser ''go''), an_event (20 * second) (EventPermission None),
     an_event (30 * second) (EventText ''ok''), an_event (40 * second) (EventResult None)]"

theorem timeline_tells_the_state_witness:
  "map sg_kind (derive_segments some_events (10 * second) (60 * second)) = [Running, Waiting, Running, Idle] \<and>
   laid (10 * second) (derive_segments some_events (10 * second) (60 * second)) (60 * second) \<and>
   covers (derive_segments some_events (10 * second) (60 * second)) Waiting (25 * second)"
proof -
  have s: "sorted (map ev_time some_events)" "10 * second \<le> 60 * second"
    by (simp_all add: some_events_def an_event_def second_def)
  have "doing_at some_events (25 * second) = Some Waiting"
    by (simp add: doing_at_def some_events_def an_event_def second_def next_state_def)
  then have "covers (derive_segments some_events (10 * second) (60 * second)) Waiting (25 * second)"
    using timeline_tells_the_state[OF s] by (simp add: second_def)
  moreover have "map sg_kind (derive_segments some_events (10 * second) (60 * second)) = [Running, Waiting, Running, Idle]"
    by code_simp
  ultimately show ?thesis using timeline_tells_the_state[OF s] by blast
qed

section \<open>The costs\<close>

lemma add_to_sums:
  "sum_list (map nc_usd (add_to k c rs)) = sum_list (map nc_usd rs) + c"
  "sum_list (map nc_count (add_to k c rs)) = sum_list (map nc_count rs) + 1"
  by (induction rs) auto

lemma add_to_day_Cons [simp]:
  "add_to_day d c (x # ds) =
     (if dc_day x = d then x\<lparr>dc_usd := dc_usd x + c, dc_sessions := dc_sessions x + 1\<rparr> else x) # add_to_day d c ds"
  by (simp add: add_to_day_def)

lemma add_to_day_absent: "d \<notin> dc_day ` set ds \<Longrightarrow> add_to_day d c ds = ds"
  by (induction ds) (auto simp: add_to_day_def)

lemma add_to_day_sums:
  assumes "distinct (map dc_day ds)" and "d \<in> dc_day ` set ds"
  shows "sum_list (map dc_usd (add_to_day d c ds)) = sum_list (map dc_usd ds) + c \<and>
    sum_list (map dc_sessions (add_to_day d c ds)) = sum_list (map dc_sessions ds) + 1"
  using assms
  by (induction ds) (auto simp: add_to_day_absent)

lemma days_of_add: "map dc_day (add_to_day d c ds) = map dc_day ds"
  by (simp add: add_to_day_def)

lemma insort_sums: "sum_list (map f (insort_key g x xs)) = (f x + sum_list (map f xs) :: 'a::comm_monoid_add)"
  by (induction xs) (simp_all add: add.left_commute)

lemma sorted_sums: "sum_list (map f (sort_by_usd_desc rs)) = (sum_list (map f rs) :: 'a::comm_monoid_add)"
  by (induction rs) (simp_all add: sort_by_usd_desc_def insort_sums)

definition balanced :: "cost_view \<Rightarrow> bool" where
  "balanced c \<longleftrightarrow>
     sum_list (map dc_usd (co_days c)) = co_total c \<and> sum_list (map nc_usd (co_by_user c)) = co_total c \<and>
     sum_list (map nc_usd (co_by_origin c)) = co_total c \<and>
     sum_list (map nc_count (co_by_user c)) = sum_list (map dc_sessions (co_days c)) \<and>
     sum_list (map nc_count (co_by_origin c)) = sum_list (map dc_sessions (co_days c))"

lemma add_session_balanced:
  assumes "balanced c" and "distinct (map dc_day (co_days c))" and "utc_day (se_last_active s) \<in> dc_day ` set (co_days c)"
  shows "balanced (add_session c s) \<and> map dc_day (co_days (add_session c s)) = map dc_day (co_days c) \<and>
    sum_list (map dc_sessions (co_days (add_session c s))) = sum_list (map dc_sessions (co_days c)) + 1"
  using assms add_to_day_sums[OF assms(2,3)] by (simp add: balanced_def add_session_def add_to_sums days_of_add)

lemma add_sessions_balanced:
  assumes "balanced c" and "distinct (map dc_day (co_days c))" and "\<forall>s \<in> set ss. utc_day (se_last_active s) \<in> dc_day ` set (co_days c)"
  shows "balanced (foldl add_session c ss) \<and> map dc_day (co_days (foldl add_session c ss)) = map dc_day (co_days c) \<and>
    co_total (foldl add_session c ss) = co_total c + sum_list (map se_cost ss) \<and>
    sum_list (map dc_sessions (co_days (foldl add_session c ss))) = sum_list (map dc_sessions (co_days c)) + length ss \<and>
    co_window (foldl add_session c ss) = co_window c"
  using assms
proof (induction ss arbitrary: c)
  case (Cons s ss)
  have s: "balanced (add_session c s)" "map dc_day (co_days (add_session c s)) = map dc_day (co_days c)"
    "sum_list (map dc_sessions (co_days (add_session c s))) = sum_list (map dc_sessions (co_days c)) + 1"
    using add_session_balanced[of c s] Cons.prems by auto
  then have "dc_day ` set (co_days (add_session c s)) = dc_day ` set (co_days c)" by (metis set_map)
  then show ?case using Cons.IH[of "add_session c s"] s Cons.prems by (auto simp: add_session_def)
qed simp

lemma day_in_window:
  assumes "costs_since window now \<le> t" "t \<le> now" "0 < window"
  shows "utc_day t \<in> set (map (\<lambda>i. utc_day (costs_since window now) + int i) [0..<nat window])"
proof -
  define d where "d = utc_day now - (window - 1)"
  have h: "(24 * hour) > (0::int)" by (simp add: hour_def minute_def second_def)
  have s: "utc_day (costs_since window now) = d" using h by (simp add: utc_day_def costs_since_def d_def)
  have "d \<le> utc_day t" using zdiv_mono1[OF assms(1) h] s by (simp add: utc_day_def)
  moreover have "utc_day t \<le> utc_day now" using zdiv_mono1[OF assms(2) h] by (simp add: utc_day_def)
  ultimately have "utc_day t = d + int (nat (utc_day t - d))" "nat (utc_day t - d) < nat window"
    using assms(3) by (auto simp: d_def)
  then show ?thesis unfolding s set_map by (intro image_eqI[of _ _ "nat (utc_day t - d)"]) auto
qed

lemma window_bounds: "1 \<le> costs_window days \<and> costs_window days \<le> 365"
  by (simp add: costs_window_def default_costs_window_def max_costs_window_def Let_def)

definition window_sessions :: "int \<Rightarrow> actor \<Rightarrow> world \<Rightarrow> session list" where
  "window_sessions days a w =
     filter (\<lambda>s. costs_since (costs_window days) (wd_now w) \<le> se_last_active s) (sessions_list_visible (ac_user a) (ac_admin a) w)"

text \<open>
  The cost dashboard adds up: its total is the cost of exactly the sessions the caller may see that were active in
  the window, and the days, the users and the origins each split that same total and that same number of sessions; the
  window is between one and 365 days, one row for each, the last of them today.
\<close>

theorem costs_add_up:
  assumes "\<forall>s \<in> set (wd_sessions w). se_last_active s \<le> wd_now w"
  shows "let c = costs acc days a w in
    co_total c = sum_list (map se_cost (window_sessions days a w)) \<and> balanced c \<and>
    sum_list (map dc_sessions (co_days c)) = length (window_sessions days a w) \<and>
    map dc_day (co_days c) = map (\<lambda>i. utc_day (wd_now w) - (co_window c - 1) + int i) [0..<nat (co_window c)] \<and>
    1 \<le> co_window c \<and> co_window c \<le> 365"
proof -
  define window where "window = costs_window days"
  define since where "since = costs_since window (wd_now w)"
  define start where "start = \<lparr>co_days = map (\<lambda>d. \<lparr>dc_day = d, dc_usd = 0, dc_sessions = 0\<rparr>)
      (map (\<lambda>i. utc_day since + int i) [0..<nat window]), co_by_user = [], co_by_origin = [], co_top = [], co_total = 0, co_window = window\<rparr>"
  define ss where "ss = window_sessions days a w"
  define c where "c = foldl add_session start ss"
  have filt: "filter (\<lambda>s. \<not> se_last_active s < since) (sessions_list_visible (ac_user a) (ac_admin a) w) = ss"
    by (simp add: ss_def window_sessions_def since_def window_def not_less)
  have costs: "costs acc days a w = c\<lparr>co_by_user := named_by_owner acc (co_by_user c),
      co_by_origin := sort_by_usd_desc (co_by_origin c), co_top := top_templates since a w\<rparr>"
    unfolding costs_def window_def[symmetric] since_def[symmetric] filt Let_def c_def start_def ..
  have w1: "1 \<le> window" "window \<le> 365" using window_bounds unfolding window_def by auto
  have days: "map dc_day (co_days start) = map (\<lambda>i. utc_day since + int i) [0..<nat window]" by (simp add: start_def comp_def)
  have bal: "balanced start" by (simp add: balanced_def start_def comp_def sum_list_triv)
  have dist: "distinct (map dc_day (co_days start))" unfolding days by (simp add: distinct_map inj_on_def)
  have "utc_day (se_last_active s) \<in> dc_day ` set (co_days start)" if "s \<in> set ss" for s
  proof -
    have "costs_since window (wd_now w) \<le> se_last_active s" "s \<in> set (wd_sessions w)"
      using that by (auto simp: ss_def window_sessions_def window_def sessions_list_visible_def)
    then have "utc_day (se_last_active s) \<in> set (map dc_day (co_days start))"
      unfolding days since_def using assms w1 by (intro day_in_window) auto
    then show ?thesis by simp
  qed
  then have c: "balanced c" "map dc_day (co_days c) = map dc_day (co_days start)" "co_total c = sum_list (map se_cost ss)"
    "sum_list (map dc_sessions (co_days c)) = length ss" "co_window c = window"
    using add_sessions_balanced[OF bal dist] unfolding c_def by (auto simp: start_def comp_def sum_list_triv)
  have "utc_day since = utc_day (wd_now w) - (window - 1)"
    by (simp add: since_def costs_since_def utc_day_def hour_def minute_def second_def)
  moreover have "sum_list (map nc_usd (named_by_owner acc rs)) = sum_list (map nc_usd rs)"
    "sum_list (map nc_count (named_by_owner acc rs)) = sum_list (map nc_count rs)" for rs
    by (simp_all add: named_by_owner_def sorted_sums comp_def)
  ultimately show ?thesis using c w1 days
    by (simp add: costs Let_def balanced_def sorted_sums ss_def)
qed

definition paid_session :: "id \<Rightarrow> time \<Rightarrow> usd \<Rightarrow> session" where
  "paid_session i t usd = \<lparr>se_id = i, se_owner = None, se_title = ''t'', se_workspace = ''w'', se_profile = ''auto'',
     se_harness = kind_claude, se_harness_ref = [], se_state = SessionClosed, se_origin = OriginUI, se_origin_ref = [],
     se_worktree = [], se_model = [], se_effort = [], se_created = 0, se_last_active = t, se_num_turns = 1,
     se_cost = usd, se_tokens_in = 0, se_tokens_out = 0, se_now_line = [], se_branch = [], se_base_ref = [],
     se_shared = False, se_slash_commands = [], se_diff_add = 0, se_diff_del = 0\<rparr>"

definition paid_world :: world where
  "paid_world = empty_world\<lparr>wd_now := 24 * hour, wd_sessions := [paid_session ''a'' 0 2, paid_session ''b'' (24 * hour) (1 / 2)]\<rparr>"

definition nobody :: accounts where
  "nobody = \<lparr>aw_now = 0, aw_uuids = 0, aw_users = [], aw_logins = [], aw_tokens = [], aw_claude = [], aw_codex = [], aw_runtimes = []\<rparr>"

theorem costs_add_up_witness:
  "co_total (costs nobody 2 service_actor paid_world) = 5 / 2 \<and> balanced (costs nobody 2 service_actor paid_world)"
proof -
  have h: "\<forall>s \<in> set (wd_sessions paid_world). se_last_active s \<le> wd_now paid_world"
    by (simp add: paid_world_def paid_session_def empty_world_def hour_def minute_def second_def)
  have "sum_list (map se_cost (window_sessions 2 service_actor paid_world)) = 5 / 2"
    by code_simp
  then show ?thesis using costs_add_up[OF h, of nobody 2 service_actor] by (simp add: Let_def)
qed

end
