(* ===== verification/Harness.thy ===== *)
theory Harness
  imports Sessions Go_Text "HOL-Library.Monad_Syntax"
begin

text \<open>
  The agent CLIs, \<open>internal/harness\<close>: what may be started (\<open>types.go\<close>), the argument vectors
  (\<open>claude/harness.go\<close>, \<open>codex/harness.go\<close>) and the codecs of their line protocols (\<open>claude/codec.go\<close>,
  \<open>claude/plan.go\<close>, \<open>codex/codec.go\<close>). The syntax of JSON is \<open>encoding/json\<close>'s, parameters \<open>unmarshal\<close> and
  \<open>marshal\<close> between texts and the values of the datatype \<open>json\<close>; reading a value into a Go struct is written out
  here, with its rules: an absent or null field is the zero value, a field of another type is an error. Field names
  are taken as the protocol spells them.
\<close>

section \<open>JSON values into Go fields\<close>

datatype json =
    JNull
  | JBool bool
  | JNum rat
  | JStr string
  | JArr "json list"
  | JObj "(string \<times> json) list"

type_synonym unmarshal = "string \<Rightarrow> json option"
type_synonym marshal = "json \<Rightarrow> string"

text \<open>The last of several fields of one name counts.\<close>

definition fld :: "string \<Rightarrow> (string \<times> json) list \<Rightarrow> json option" where
  "fld k obj = map_of (rev obj) k"

definition str_of :: "json option \<Rightarrow> string option" where
  "str_of v = (case v of None \<Rightarrow> Some [] | Some JNull \<Rightarrow> Some [] | Some (JStr s) \<Rightarrow> Some s | Some _ \<Rightarrow> None)"

definition bool_of :: "json option \<Rightarrow> bool option" where
  "bool_of v = (case v of None \<Rightarrow> Some False | Some JNull \<Rightarrow> Some False | Some (JBool b) \<Rightarrow> Some b | Some _ \<Rightarrow> None)"

definition rat_of_json :: "json option \<Rightarrow> rat option" where
  "rat_of_json v = (case v of None \<Rightarrow> Some 0 | Some JNull \<Rightarrow> Some 0 | Some (JNum q) \<Rightarrow> Some q | Some _ \<Rightarrow> None)"

definition int_of_json :: "json option \<Rightarrow> int option" where
  "int_of_json v =
     (case v of None \<Rightarrow> Some 0 | Some JNull \<Rightarrow> Some 0
      | Some (JNum q) \<Rightarrow> if rat_of_int \<lfloor>q\<rfloor> = q then Some \<lfloor>q\<rfloor> else None | Some _ \<Rightarrow> None)"

definition obj_of :: "json option \<Rightarrow> (string \<times> json) list option option" where
  "obj_of v = (case v of None \<Rightarrow> Some None | Some JNull \<Rightarrow> Some None | Some (JObj o') \<Rightarrow> Some (Some o') | Some _ \<Rightarrow> None)"

fun all_some :: "('a \<Rightarrow> 'b option) \<Rightarrow> 'a list \<Rightarrow> 'b list option" where
  "all_some f [] = Some []"
| "all_some f (x # xs) = do { y \<leftarrow> f x; ys \<leftarrow> all_some f xs; Some (y # ys) }"

definition list_of :: "(json option \<Rightarrow> 'a option) \<Rightarrow> json option \<Rightarrow> 'a list option" where
  "list_of f v =
     (case v of None \<Rightarrow> Some [] | Some JNull \<Rightarrow> Some [] | Some (JArr js) \<Rightarrow> all_some (\<lambda>j. f (Some j)) js | Some _ \<Rightarrow> None)"

section \<open>What may be started (types.go)\<close>

record harness_profile =
  hp_mode :: string
  hp_allowed :: "string list"
  hp_disallowed :: "string list"
  hp_max_turns :: int

record start_spec =
  sp_session :: string
  sp_resume :: bool
  sp_resume_ref :: string
  sp_title :: string
  sp_cwd :: string
  sp_home :: string
  sp_env :: "(string \<times> string) list"
  sp_profile :: harness_profile
  sp_worktree :: string
  sp_schema :: string
  sp_system_prompt :: string
  sp_model :: string
  sp_fallback :: string
  sp_effort :: string

definition valid_modes :: "string list" where
  "valid_modes = [''default'', ''acceptEdits'', ''plan'', ''dontAsk'', ''auto'']"

definition validate_spec :: "(string \<Rightarrow> bool) \<Rightarrow> start_spec \<Rightarrow> error option" where
  "validate_spec is_uuid s =
     (if \<not> is_uuid (sp_session s) then Some (ErrOther ''harness: session id must be a UUID'')
      else if sp_cwd s = [] \<or> sp_home s = [] then Some (ErrOther ''harness: cwd and home are required'')
      else if hp_mode (sp_profile s) \<notin> set valid_modes then Some (ErrOther ''harness: permission mode is not allowed'')
      else if hp_max_turns (sp_profile s) < 0 then Some (ErrOther ''harness: max turns must be >= 0'')
      else if \<not> valid_effort (sp_effort s) then Some (ErrOther ''harness: effort is not allowed'')
      else None)"

section \<open>Argument vectors (claude/harness.go, codex/harness.go)\<close>

definition flag :: "string \<Rightarrow> string \<Rightarrow> string list" where
  "flag name v = (if v \<noteq> [] then [name, v] else [])"

definition claude_args :: "start_spec \<Rightarrow> string list" where
  "claude_args s =
     (let p = sp_profile s
      in [''-p'', ''--input-format'', ''stream-json'', ''--output-format'', ''stream-json'', ''--verbose'',
          ''--include-partial-messages'', ''--replay-user-messages'', ''--permission-prompt-tool'', ''stdio'',
          ''--permission-mode'', hp_mode p] @
         (if sp_resume s then [''--resume'', sp_session s] else [''--session-id'', sp_session s]) @
         flag ''--name'' (sp_title s) @
         (if hp_allowed p \<noteq> [] then [''--allowedTools'', join_char CHR '','' (hp_allowed p)] else []) @
         (if hp_disallowed p \<noteq> [] then [''--disallowedTools'', join_char CHR '','' (hp_disallowed p)] else []) @
         (if 0 < hp_max_turns p then [''--max-turns'', show_nat (nat (hp_max_turns p))] else []) @
         flag ''--worktree'' (sp_worktree s) @ flag ''--json-schema'' (sp_schema s) @
         flag ''--append-system-prompt'' (sp_system_prompt s) @ flag ''--model'' (sp_model s) @
         flag ''--fallback-model'' (sp_fallback s) @ flag ''--effort'' (sp_effort s))"

definition sandbox_read_only :: string where "sandbox_read_only = ''read-only''"
definition sandbox_workspace_write :: string where "sandbox_workspace_write = ''workspace-write''"

definition sandbox_mode :: "harness_profile \<Rightarrow> string" where
  "sandbox_mode p =
     (if hp_mode p = ''plan'' \<or> hp_mode p = ''dontAsk'' then sandbox_read_only
      else if list_ex (\<lambda>t. t = ''Edit'') (hp_disallowed p) \<and> list_ex (\<lambda>t. t = ''Write'') (hp_disallowed p) then sandbox_read_only
      else sandbox_workspace_write)"

definition codex_args :: "start_spec \<Rightarrow> string \<Rightarrow> string \<Rightarrow> string list" where
  "codex_args s prompt thread =
     [''exec''] @ (if thread \<noteq> [] then [''resume'', thread] else []) @ [''--json''] @
     (if thread = [] then [''-C'', sp_cwd s, ''--sandbox'', sandbox_mode (sp_profile s)]
      else [''-c'', ''sandbox_mode='' @ sandbox_mode (sp_profile s)]) @
     [''--skip-git-repo-check''] @ flag ''-m'' (sp_model s) @ flag ''--output-schema'' (sp_schema s) @ [prompt]"

section \<open>Decoded events (types.go)\<close>

record cli_result =
  cr_subtype :: string
  cr_is_error :: bool
  cr_turns :: int
  cr_cost :: usd
  cr_duration :: int
  cr_tokens_in :: int
  cr_tokens_out :: int
  cr_text :: string
  cr_structured :: "json option"

record cli_permission =
  cq_request :: string
  cq_tool :: string
  cq_input :: "json option"
  cq_tool_use :: string
  cq_plan :: string

record cli_init =
  ci_harness_kind :: string
  ci_session_id :: string
  ci_harness_ref :: string
  ci_init_model :: string
  ci_tools :: "string list"
  ci_commands :: "string list"

datatype cli_event =
    CInit cli_init
  | CPartial string
  | CText string
  | CToolUse string string "json option" string
  | CToolResult string string bool
  | CPermission cli_permission
  | CResult cli_result
  | CRaw string bool
  | CExit int

section \<open>Claude Code (claude/codec.go, claude/plan.go)\<close>

record content_block =
  cb_type :: string
  cb_text :: string
  cb_id :: string
  cb_name :: string
  cb_input :: "json option"
  cb_tool_use :: string
  cb_content :: "json option"
  cb_is_error :: bool

definition no_block :: content_block where
  "no_block = \<lparr>cb_type = [], cb_text = [], cb_id = [], cb_name = [], cb_input = None, cb_tool_use = [], cb_content = None,
     cb_is_error = False\<rparr>"

definition block_of :: "json option \<Rightarrow> content_block option" where
  "block_of v = do {
     ob \<leftarrow> obj_of v;
     case ob of None \<Rightarrow> Some no_block | Some o' \<Rightarrow> do {
       t \<leftarrow> str_of (fld ''type'' o'); x \<leftarrow> str_of (fld ''text'' o'); i \<leftarrow> str_of (fld ''id'' o'); n \<leftarrow> str_of (fld ''name'' o');
       u \<leftarrow> str_of (fld ''tool_use_id'' o'); e \<leftarrow> bool_of (fld ''is_error'' o');
       Some \<lparr>cb_type = t, cb_text = x, cb_id = i, cb_name = n, cb_input = fld ''input'' o', cb_tool_use = u,
         cb_content = fld ''content'' o', cb_is_error = e\<rparr> } }"

text \<open>An absent content is no JSON at all, an error like a plain string.\<close>

definition decode_content_blocks :: "json option \<Rightarrow> content_block list option" where
  "decode_content_blocks raw = (case raw of None \<Rightarrow> None | Some j \<Rightarrow> list_of block_of (Some j))"

definition flatten_content :: "marshal \<Rightarrow> json option \<Rightarrow> string" where
  "flatten_content text raw =
     (case raw of None \<Rightarrow> []
      | Some j \<Rightarrow> (case str_of (Some j) of Some s \<Rightarrow> s
          | None \<Rightarrow> (case list_of block_of (Some j) of Some bs \<Rightarrow> concat (map cb_text bs) | None \<Rightarrow> text j)))"

definition plan_from_input :: "json option \<Rightarrow> string" where
  "plan_from_input raw =
     (case obj_of raw of Some (Some o') \<Rightarrow> (case str_of (fld ''plan'' o') of Some s \<Rightarrow> s | None \<Rightarrow> []) | _ \<Rightarrow> [])"

definition is_plan_exit :: "cli_permission \<Rightarrow> bool" where
  "is_plan_exit q \<longleftrightarrow> cq_tool q = ''ExitPlanMode''"

record control_request =
  ct_subtype :: string
  ct_tool :: string
  ct_input :: "json option"
  ct_tool_use :: string

record envelope =
  en_type :: string
  en_subtype :: string
  en_session :: string
  en_model :: string
  en_tools :: "string list"
  en_commands :: "string list"
  en_message :: "json option option"
  en_delta :: "(string \<times> string \<times> string) option"
  en_request_id :: string
  en_request :: "control_request option"
  en_is_error :: bool
  en_turns :: int
  en_cost :: usd
  en_duration :: int
  en_result :: string
  en_usage :: "(int \<times> int) option"
  en_structured :: "json option"
  en_parent :: string

text \<open>\<open>message\<close> is read down to its raw content, \<open>event\<close> to the types of the event and its delta and the delta's text.\<close>

definition message_of :: "json option \<Rightarrow> json option option option" where
  "message_of v = do {
     ob \<leftarrow> obj_of v;
     case ob of None \<Rightarrow> Some None | Some o' \<Rightarrow> do { _ \<leftarrow> str_of (fld ''role'' o'); Some (Some (fld ''content'' o')) } }"

definition delta_of :: "json option \<Rightarrow> (string \<times> string \<times> string) option option" where
  "delta_of v = do {
     ob \<leftarrow> obj_of v;
     case ob of None \<Rightarrow> Some None | Some o' \<Rightarrow> do {
       t \<leftarrow> str_of (fld ''type'' o'); d \<leftarrow> obj_of (fld ''delta'' o');
       case d of None \<Rightarrow> Some None | Some d' \<Rightarrow> do {
         dt \<leftarrow> str_of (fld ''type'' d'); x \<leftarrow> str_of (fld ''text'' d'); Some (Some (t, dt, x)) } } }"

definition request_of :: "json option \<Rightarrow> control_request option option" where
  "request_of v = do {
     ob \<leftarrow> obj_of v;
     case ob of None \<Rightarrow> Some None | Some o' \<Rightarrow> do {
       t \<leftarrow> str_of (fld ''subtype'' o'); n \<leftarrow> str_of (fld ''tool_name'' o'); u \<leftarrow> str_of (fld ''tool_use_id'' o');
       Some (Some \<lparr>ct_subtype = t, ct_tool = n, ct_input = fld ''input'' o', ct_tool_use = u\<rparr>) } }"

definition usage_of :: "json option \<Rightarrow> (int \<times> int) option option" where
  "usage_of v = do {
     ob \<leftarrow> obj_of v;
     case ob of None \<Rightarrow> Some None | Some o' \<Rightarrow> do {
       i \<leftarrow> int_of_json (fld ''input_tokens'' o'); t \<leftarrow> int_of_json (fld ''output_tokens'' o'); Some (Some (i, t)) } }"

definition envelope_of :: "json \<Rightarrow> envelope option" where
  "envelope_of j = do {
     ob \<leftarrow> obj_of (Some j);
     let o' = (case ob of None \<Rightarrow> [] | Some x \<Rightarrow> x);
     t \<leftarrow> str_of (fld ''type'' o'); st \<leftarrow> str_of (fld ''subtype'' o'); sid \<leftarrow> str_of (fld ''session_id'' o');
     m \<leftarrow> str_of (fld ''model'' o'); ts \<leftarrow> list_of str_of (fld ''tools'' o'); cs \<leftarrow> list_of str_of (fld ''slash_commands'' o');
     msg \<leftarrow> message_of (fld ''message'' o'); d \<leftarrow> delta_of (fld ''event'' o');
     rid \<leftarrow> str_of (fld ''request_id'' o'); rq \<leftarrow> request_of (fld ''request'' o');
     e \<leftarrow> bool_of (fld ''is_error'' o'); n \<leftarrow> int_of_json (fld ''num_turns'' o'); c \<leftarrow> rat_of_json (fld ''total_cost_usd'' o');
     du \<leftarrow> int_of_json (fld ''duration_ms'' o'); r \<leftarrow> str_of (fld ''result'' o'); us \<leftarrow> usage_of (fld ''usage'' o');
     p \<leftarrow> str_of (fld ''parent_tool_use_id'' o');
     Some \<lparr>en_type = t, en_subtype = st, en_session = sid, en_model = m, en_tools = ts, en_commands = cs, en_message = msg,
       en_delta = d, en_request_id = rid, en_request = rq, en_is_error = e, en_turns = n, en_cost = c, en_duration = du,
       en_result = r, en_usage = us, en_structured = fld ''structured_output'' o', en_parent = p\<rparr> }"

definition assistant_events :: "envelope \<Rightarrow> content_block list \<Rightarrow> cli_event list" where
  "assistant_events en bs = concat (map (\<lambda>b.
     if cb_type b = ''text'' then [CText (cb_text b)]
     else if cb_type b = ''tool_use'' then [CToolUse (cb_id b) (cb_name b) (cb_input b) (en_parent en)] else []) bs)"

definition user_events :: "marshal \<Rightarrow> content_block list \<Rightarrow> cli_event list" where
  "user_events text bs = concat (map (\<lambda>b.
     if cb_type b = ''tool_result'' then [CToolResult (cb_tool_use b) (flatten_content text (cb_content b)) (cb_is_error b)] else []) bs)"

definition claude_decode :: "unmarshal \<Rightarrow> marshal \<Rightarrow> string \<Rightarrow> cli_event list" where
  "claude_decode parse text line =
     (case parse line \<bind> envelope_of of
        None \<Rightarrow> [CRaw line True]
      | Some en \<Rightarrow>
          (if en_type en = ''system'' then
             (if en_subtype en \<noteq> ''init'' then []
              else [CInit \<lparr>ci_harness_kind = kind_claude, ci_session_id = en_session en, ci_harness_ref = [],
                      ci_init_model = en_model en, ci_tools = en_tools en, ci_commands = en_commands en\<rparr>])
           else if en_type en = ''rate_limit_event'' then []
           else if en_type en = ''assistant'' then
             (case en_message en of None \<Rightarrow> []
              | Some raw \<Rightarrow> (case decode_content_blocks raw of None \<Rightarrow> [] | Some bs \<Rightarrow> assistant_events en bs))
           else if en_type en = ''user'' then
             (case en_message en of None \<Rightarrow> []
              | Some raw \<Rightarrow> (case decode_content_blocks raw of None \<Rightarrow> [] | Some bs \<Rightarrow> user_events text bs))
           else if en_type en = ''stream_event'' then
             (case en_delta en of
                Some (t, dt, x) \<Rightarrow> if t = ''content_block_delta'' \<and> dt = ''text_delta'' then [CPartial x] else []
              | None \<Rightarrow> [])
           else if en_type en = ''result'' then
             [CResult \<lparr>cr_subtype = en_subtype en, cr_is_error = en_is_error en, cr_turns = en_turns en, cr_cost = en_cost en,
                cr_duration = en_duration en, cr_tokens_in = (case en_usage en of None \<Rightarrow> 0 | Some (i, u) \<Rightarrow> i),
                cr_tokens_out = (case en_usage en of None \<Rightarrow> 0 | Some (i, u) \<Rightarrow> u), cr_text = en_result en,
                cr_structured = en_structured en\<rparr>]
           else if en_type en = ''control_request'' then
             (case en_request en of
                Some q \<Rightarrow>
                  (if ct_subtype q = ''can_use_tool'' then
                     [CPermission \<lparr>cq_request = en_request_id en, cq_tool = ct_tool q, cq_input = ct_input q, cq_tool_use = ct_tool_use q,
                        cq_plan = (if ct_tool q = ''ExitPlanMode'' then plan_from_input (ct_input q) else [])\<rparr>]
                   else [])
              | None \<Rightarrow> [])
           else if en_type en = ''control_response'' then []
           else [CRaw line False]))"

text \<open>What is written to the process, as the value that \<open>json.Marshal\<close> prints on a line of its own.\<close>

definition encode_user :: "string \<Rightarrow> string \<Rightarrow> json" where
  "encode_user session text = JObj
     [(''message'', JObj [(''content'', JStr text), (''role'', JStr ''user'')]), (''parent_tool_use_id'', JNull),
      (''session_id'', JStr session), (''type'', JStr ''user'')]"

record decision =
  de_request :: string
  de_allow :: bool
  de_updated :: "json option"
  de_message :: string

definition encode_decision :: "decision \<Rightarrow> json" where
  "encode_decision d =
     (let inner = (if de_allow d then (''behavior'', JStr ''allow'') # (case de_updated d of None \<Rightarrow> [] | Some j \<Rightarrow> [(''updatedInput'', j)])
                   else [(''behavior'', JStr ''deny''), (''message'', JStr (de_message d))])
      in JObj [(''response'', JObj [(''request_id'', JStr (de_request d)), (''response'', JObj inner), (''subtype'', JStr ''success'')]),
               (''type'', JStr ''control_response'')])"

definition encode_interrupt :: "string \<Rightarrow> json" where
  "encode_interrupt rid = JObj
     [(''request'', JObj [(''subtype'', JStr ''interrupt'')]), (''request_id'', JStr rid), (''type'', JStr ''control_request'')]"

definition headless_builtins :: "string list" where "headless_builtins = [''compact'', ''cost'']"
definition hidden_builtins :: "string list" where
  "hidden_builtins = [''clear'', ''doctor'', ''color'', ''reload-plugins'', ''model'', ''effort'']"

end
