(* ===== verification/Codex.thy ===== *)
theory Codex
  imports Harness
begin

text \<open>
  The Codex CLI, \<open>internal/harness/codex\<close>: its codec (\<open>codec.go\<close>), stateless but for the last text of a turn, and the
  life of a session's process object (\<open>process.go\<close>): one operating system process per turn behind one channel of
  events. The process object is a state; what may happen next - a call of the host, a line of the child, its exit -
  is a step relation, so that every interleaving of host and child is a sequence of steps.
\<close>

section \<open>The codec (codec.go)\<close>

record file_change =
  fg_path :: string
  fg_kind :: string

record codex_item =
  ki_id :: string
  ki_type :: string
  ki_text :: string
  ki_message :: string
  ki_command :: string
  ki_output :: string
  ki_exit :: "int option"
  ki_status :: string
  ki_changes :: "file_change list"

definition opt_int_of :: "json option \<Rightarrow> int option option" where
  "opt_int_of v = (case v of None \<Rightarrow> Some None | Some JNull \<Rightarrow> Some None | Some j \<Rightarrow> map_option Some (int_of_json (Some j)))"

definition change_path :: "string \<Rightarrow> string \<Rightarrow> string \<Rightarrow> string" where
  "change_path path file_path move_path = (if path \<noteq> [] then path else if file_path \<noteq> [] then file_path else move_path)"

definition change_of :: "json option \<Rightarrow> file_change option" where
  "change_of v = do {
     ob \<leftarrow> obj_of v;
     let o' = (case ob of None \<Rightarrow> [] | Some x \<Rightarrow> x);
     p \<leftarrow> str_of (fld ''path'' o'); f \<leftarrow> str_of (fld ''file_path'' o'); m \<leftarrow> str_of (fld ''move_path'' o'); k \<leftarrow> str_of (fld ''kind'' o');
     Some \<lparr>fg_path = change_path p f m, fg_kind = k\<rparr> }"

definition item_of :: "json option \<Rightarrow> codex_item option option" where
  "item_of v = do {
     ob \<leftarrow> obj_of v;
     case ob of None \<Rightarrow> Some None | Some o' \<Rightarrow> do {
       i \<leftarrow> str_of (fld ''id'' o'); t \<leftarrow> str_of (fld ''type'' o'); x \<leftarrow> str_of (fld ''text'' o'); m \<leftarrow> str_of (fld ''message'' o');
       c \<leftarrow> str_of (fld ''command'' o'); a \<leftarrow> str_of (fld ''aggregated_output'' o'); e \<leftarrow> opt_int_of (fld ''exit_code'' o');
       s \<leftarrow> str_of (fld ''status'' o'); g \<leftarrow> list_of change_of (fld ''changes'' o');
       Some (Some \<lparr>ki_id = i, ki_type = t, ki_text = x, ki_message = m, ki_command = c, ki_output = a, ki_exit = e, ki_status = s,
         ki_changes = g\<rparr>) } }"

record codex_envelope =
  ke_type :: string
  ke_thread :: string
  ke_item :: "codex_item option"
  ke_usage :: "(int \<times> int) option"
  ke_message :: string
  ke_error :: "string option"

definition codex_usage_of :: "json option \<Rightarrow> (int \<times> int) option option" where
  "codex_usage_of v = do {
     ob \<leftarrow> obj_of v;
     case ob of None \<Rightarrow> Some None | Some o' \<Rightarrow> do {
       i \<leftarrow> int_of_json (fld ''input_tokens'' o'); _ \<leftarrow> int_of_json (fld ''cached_input_tokens'' o');
       t \<leftarrow> int_of_json (fld ''output_tokens'' o'); Some (Some (i, t)) } }"

definition error_of :: "json option \<Rightarrow> string option option" where
  "error_of v = do { ob \<leftarrow> obj_of v; case ob of None \<Rightarrow> Some None | Some o' \<Rightarrow> do { m \<leftarrow> str_of (fld ''message'' o'); Some (Some m) } }"

definition codex_envelope_of :: "json \<Rightarrow> codex_envelope option" where
  "codex_envelope_of j = do {
     ob \<leftarrow> obj_of (Some j);
     let o' = (case ob of None \<Rightarrow> [] | Some x \<Rightarrow> x);
     t \<leftarrow> str_of (fld ''type'' o'); th \<leftarrow> str_of (fld ''thread_id'' o'); it \<leftarrow> item_of (fld ''item'' o');
     us \<leftarrow> codex_usage_of (fld ''usage'' o'); m \<leftarrow> str_of (fld ''message'' o'); e \<leftarrow> error_of (fld ''error'' o');
     Some \<lparr>ke_type = t, ke_thread = th, ke_item = it, ke_usage = us, ke_message = m, ke_error = e\<rparr> }"

definition item_failed :: "codex_item \<Rightarrow> bool" where
  "item_failed it \<longleftrightarrow> (if ki_status it = ''failed'' then True else ki_exit it \<noteq> None \<and> ki_exit it \<noteq> Some 0)"

definition change_id :: "string \<Rightarrow> nat \<Rightarrow> nat \<Rightarrow> string" where
  "change_id i k n = (if n \<le> 1 then i else i @ ''#'' @ show_nat k)"

definition changed_paths :: "file_change list \<Rightarrow> string" where
  "changed_paths changes =
     foldl (\<lambda>out ch. if fg_path ch = [] then out else if out \<noteq> [] then out @ [CHR 0x0A] @ fg_path ch else fg_path ch) [] changes"

definition decode_item :: "codex_item \<Rightarrow> bool \<Rightarrow> string \<Rightarrow> cli_event list" where
  "decode_item it completed line =
     (if ki_type it = ''agent_message'' then (if \<not> completed then [] else [CText (ki_text it)])
      else if ki_type it = ''reasoning'' then []
      else if ki_type it = ''command_execution'' then
        (if \<not> completed then [CToolUse (ki_id it) ''Bash'' (Some (JObj [(''command'', JStr (ki_command it))])) []]
         else [CToolResult (ki_id it) (ki_output it) (item_failed it)])
      else if ki_type it = ''file_change'' then
        (if \<not> completed then
           concat (map (\<lambda>(k, ch). if fg_path ch = [] then []
             else [CToolUse (change_id (ki_id it) k (length (ki_changes it))) ''Edit''
                (Some (JObj [(''file_path'', JStr (fg_path ch)), (''kind'', JStr (fg_kind ch))])) []])
             (enumerate 0 (ki_changes it)))
         else [CToolResult (ki_id it) (changed_paths (ki_changes it)) (item_failed it)])
      else if ki_type it = ''error'' then [CRaw line True]
      else [CRaw line False])"

definition plain_result :: "string \<Rightarrow> bool \<Rightarrow> string \<Rightarrow> cli_result" where
  "plain_result subtype err text = \<lparr>cr_subtype = subtype, cr_is_error = err, cr_turns = 1, cr_cost = 0, cr_duration = 0,
     cr_tokens_in = 0, cr_tokens_out = 0, cr_text = text, cr_structured = None\<rparr>"

definition codex_decode :: "unmarshal \<Rightarrow> string \<Rightarrow> string \<Rightarrow> cli_event list" where
  "codex_decode parse line model =
     (case parse line \<bind> codex_envelope_of of
        None \<Rightarrow> [CRaw line True]
      | Some en \<Rightarrow>
          (if ke_type en = ''thread.started'' then
             [CInit \<lparr>ci_harness_kind = kind_codex, ci_session_id = ke_thread en, ci_harness_ref = ke_thread en, ci_init_model = model,
                ci_tools = [], ci_commands = []\<rparr>]
           else if ke_type en = ''turn.started'' then []
           else if ke_type en = ''turn.completed'' then
             [CResult ((plain_result ''success'' False [])\<lparr>
                cr_tokens_in := (case ke_usage en of None \<Rightarrow> 0 | Some (i, u) \<Rightarrow> i),
                cr_tokens_out := (case ke_usage en of None \<Rightarrow> 0 | Some (i, u) \<Rightarrow> u)\<rparr>)]
           else if ke_type en = ''turn.failed'' then
             [CResult (plain_result ''error'' True (case ke_error en of None \<Rightarrow> [] | Some m \<Rightarrow> m))]
           else if ke_type en = ''error'' then [CRaw line True]
           else if ke_type en = ''item.started'' \<or> ke_type en = ''item.completed'' then
             (case ke_item en of None \<Rightarrow> [] | Some it \<Rightarrow> decode_item it (ke_type en = ''item.completed'') line)
           else if ke_type en = ''item.updated'' then []
           else [CRaw line False]))"

record decoder =
  dr_model :: string
  dr_schema :: bool
  dr_last :: string
  dr_saw_result :: bool

definition new_decoder :: "string \<Rightarrow> bool \<Rightarrow> decoder" where
  "new_decoder model schema = \<lparr>dr_model = model, dr_schema = schema, dr_last = [], dr_saw_result = False\<rparr>"

definition finish_result :: "unmarshal \<Rightarrow> decoder \<Rightarrow> cli_result \<Rightarrow> cli_result" where
  "finish_result parse d r =
     (let r1 = (if cr_text r = [] then r\<lparr>cr_text := dr_last d\<rparr> else r)
      in if \<not> dr_schema d \<or> dr_last d = [] then r1
         else (case parse (dr_last d) of Some j \<Rightarrow> r1\<lparr>cr_structured := Some j\<rparr> | None \<Rightarrow> r1))"

fun decoder_events :: "unmarshal \<Rightarrow> decoder \<Rightarrow> cli_event list \<Rightarrow> cli_event list \<times> decoder" where
  "decoder_events parse d [] = ([], d)"
| "decoder_events parse d (e # es) =
     (let (e1, d1) = (case e of
          CText t \<Rightarrow> (e, d\<lparr>dr_last := t\<rparr>)
        | CResult r \<Rightarrow> (CResult (finish_result parse d r), d\<lparr>dr_saw_result := True\<rparr>)
        | _ \<Rightarrow> (e, d));
        (es1, d2) = decoder_events parse d1 es
      in (e1 # es1, d2))"

definition decoder_line :: "unmarshal \<Rightarrow> decoder \<Rightarrow> string \<Rightarrow> cli_event list \<times> decoder" where
  "decoder_line parse d line = decoder_events parse d (codex_decode parse line (dr_model d))"

section \<open>The process object (process.go)\<close>

text \<open>
  \<open>cx_turn\<close> is the turn under way (\<open>turnDone\<close> and the goroutine \<open>runTurn\<close> with its decoder): \<open>resultSent\<close> and
  \<open>interrupted\<close> are the object's flags. \<open>cx_events\<close> is everything sent on the channel, \<open>cx_calls\<close> the argument
  vectors executed; \<open>cx_schema\<close> is the path of the schema file while it exists.
\<close>

record codex_process =
  cx_spec :: start_spec
  cx_closed :: bool
  cx_thread :: string
  cx_turn :: "decoder option"
  cx_interrupted :: bool
  cx_result_sent :: bool
  cx_last_exit :: int
  cx_schema :: string
  cx_events :: "cli_event list"
  cx_channel_closed :: bool
  cx_calls :: "string list list"

definition new_process :: "string \<Rightarrow> start_spec \<Rightarrow> codex_process" where
  "new_process path spec =
     \<lparr>cx_spec = (if sp_schema spec \<noteq> [] then spec\<lparr>sp_schema := path\<rparr> else spec), cx_closed = False,
      cx_thread = sp_resume_ref spec, cx_turn = None, cx_interrupted = False, cx_result_sent = False, cx_last_exit = 0,
      cx_schema = (if sp_schema spec \<noteq> [] then path else []), cx_events = [], cx_channel_closed = False, cx_calls = []\<rparr>"

text \<open>\<open>childEnv\<close>: the home, the variables passed through where the server has them, and the spec's own, by name.\<close>

definition passthrough_env_vars :: "string list" where
  "passthrough_env_vars = [''PATH'', ''TERM'', ''LANG'']"

definition child_env :: "(string \<Rightarrow> string option) \<Rightarrow> start_spec \<Rightarrow> string list" where
  "child_env lookup_env s =
     [''HOME='' @ sp_home s] @
     concat (map (\<lambda>k. case lookup_env k of Some v \<Rightarrow> [k @ ''='' @ v] | None \<Rightarrow> []) passthrough_env_vars) @
     map (\<lambda>(k, v). k @ ''='' @ v) (sort_key fst (sp_env s))"

datatype send_outcome = Sent | Refused_Send error | Waits

text \<open>\<open>Send\<close>: a turn that has sent its result is waited for, any other turn under way refuses.\<close>

definition send_turn :: "string \<Rightarrow> codex_process \<Rightarrow> send_outcome \<times> codex_process" where
  "send_turn text p =
     (if cx_closed p then (Refused_Send (ErrOther ''codex: process closed''), p)
      else case cx_turn p of
        None \<Rightarrow>
          (Sent, p\<lparr>cx_turn := Some (new_decoder (sp_model (cx_spec p)) (sp_schema (cx_spec p) \<noteq> [])), cx_interrupted := False,
              cx_result_sent := False, cx_calls := cx_calls p @ [codex_args (cx_spec p) text (cx_thread p)]\<rparr>)
      | Some _ \<Rightarrow>
          (if \<not> cx_result_sent p then (Refused_Send (ErrOther ''codex: a turn is already running''), p) else (Waits, p)))"

text \<open>One event of the turn, sent on the channel after the object has noted the thread or the result.\<close>

definition emit :: "cli_event \<Rightarrow> codex_process \<Rightarrow> codex_process" where
  "emit ev p =
     (let p1 = (case ev of
          CInit i \<Rightarrow> if ci_harness_ref i \<noteq> [] then p\<lparr>cx_thread := ci_harness_ref i\<rparr> else p
        | CResult r \<Rightarrow> p\<lparr>cx_result_sent := True\<rparr>
        | _ \<Rightarrow> p)
      in p1\<lparr>cx_events := cx_events p1 @ [ev]\<rparr>)"

definition child_line :: "unmarshal \<Rightarrow> string \<Rightarrow> decoder \<Rightarrow> codex_process \<Rightarrow> codex_process" where
  "child_line parse line d p =
     (let (evs, d1) = decoder_line parse d line in fold emit evs (p\<lparr>cx_turn := Some d1\<rparr>))"

text \<open>The child has exited with a code and a last line of standard error.\<close>

definition turn_ends :: "int \<Rightarrow> string \<Rightarrow> decoder \<Rightarrow> codex_process \<Rightarrow> codex_process" where
  "turn_ends code stderr d p =
     (let p1 = p\<lparr>cx_last_exit := code\<rparr>;
          p2 = (if dr_saw_result d then p1
                else p1\<lparr>cx_result_sent := True, cx_events := cx_events p1 @
                  [CResult (if cx_interrupted p then plain_result ''interrupted'' True ''turn interrupted'' else plain_result ''error'' True stderr)]\<rparr>)
      in p2\<lparr>cx_turn := None\<rparr>)"

definition interrupt_turn :: "codex_process \<Rightarrow> codex_process" where
  "interrupt_turn p = (if cx_turn p = None \<or> cx_result_sent p then p else p\<lparr>cx_interrupted := True\<rparr>)"

text \<open>\<open>Close\<close>: its first call marks the object closed and takes the schema file; once the turn is over it removes the
  file, reports the exit and closes the channel.\<close>

definition begin_close :: "codex_process \<Rightarrow> codex_process" where
  "begin_close p = (if cx_closed p then p else p\<lparr>cx_closed := True, cx_schema := []\<rparr>)"

definition end_close :: "codex_process \<Rightarrow> codex_process" where
  "end_close p = p\<lparr>cx_events := cx_events p @ [CExit (cx_last_exit p)], cx_channel_closed := True\<rparr>"

inductive codex_step :: "unmarshal \<Rightarrow> codex_process \<Rightarrow> codex_process \<Rightarrow> bool" for parse where
  sends: "codex_step parse p (snd (send_turn text p))"
| line: "cx_turn p = Some d \<Longrightarrow> codex_step parse p (child_line parse line d p)"
| exits: "cx_turn p = Some d \<Longrightarrow> codex_step parse p (turn_ends code stderr d p)"
| interrupts: "codex_step parse p (interrupt_turn p)"
| closes: "codex_step parse p (begin_close p)"
| closed: "cx_closed p \<Longrightarrow> cx_turn p = None \<Longrightarrow> \<not> cx_channel_closed p \<Longrightarrow> codex_step parse p (end_close p)"

inductive_cases codex_stepE: "codex_step parse p p'"

text \<open>A codex session has no approvals to decide.\<close>

definition codex_decide :: "decision \<Rightarrow> error option" where
  "codex_decide d = Some (ErrOther ''harness: operation not supported by this harness'')"

section \<open>The process of Claude Code (claude/process.go)\<close>

text \<open>Everything written to standard input, and nothing once it is closed.\<close>

record claude_process =
  cs_session :: string
  cs_closed :: bool
  cs_stdin :: "json list"

definition claude_write :: "json \<Rightarrow> claude_process \<Rightarrow> error option \<times> claude_process" where
  "claude_write j p =
     (if cs_closed p then (Some (ErrOther ''claude: process closed''), p) else (None, p\<lparr>cs_stdin := cs_stdin p @ [j]\<rparr>))"

definition claude_send :: "string \<Rightarrow> claude_process \<Rightarrow> error option \<times> claude_process" where
  "claude_send text p = claude_write (encode_user (cs_session p) text) p"

definition claude_decide :: "decision \<Rightarrow> claude_process \<Rightarrow> error option \<times> claude_process" where
  "claude_decide d p = claude_write (encode_decision d) p"

definition claude_interrupt :: "string \<Rightarrow> claude_process \<Rightarrow> error option \<times> claude_process" where
  "claude_interrupt uuid p = claude_write (encode_interrupt uuid) p"

end
