(* ===== verification/Harness_Claims.thy ===== *)
theory Harness_Claims
  imports Codex
begin

text \<open>
  The properties of the agent CLIs: the stream of events of a Codex session, what a turn's result carries, and that
  Claude's echoes of what was written to it are not taken for news.
\<close>

section \<open>The events of a line\<close>

fun is_exit :: "cli_event \<Rightarrow> bool" where
  "is_exit (CExit c) = True"
| "is_exit _ = False"

fun is_result :: "cli_event \<Rightarrow> bool" where
  "is_result (CResult r) = True"
| "is_result _ = False"

lemma decode_item_no_exit: "\<forall>e \<in> set (decode_item it c line). \<not> is_exit e"
  by (auto simp: decode_item_def split: if_splits)

lemma codex_decode_no_exit: "\<forall>e \<in> set (codex_decode parse line model). \<not> is_exit e"
  using decode_item_no_exit by (auto simp: codex_decode_def split: option.splits if_splits)

lemma decoder_events_kinds:
  "decoder_events parse d es = (es', d') \<Longrightarrow> list_ex is_exit es' = list_ex is_exit es \<and> list_ex is_result es' = list_ex is_result es \<and>
     dr_saw_result d' = (dr_saw_result d \<or> list_ex is_result es) \<and> dr_model d' = dr_model d \<and> dr_schema d' = dr_schema d"
proof (induction es arbitrary: d es' d')
  case (Cons e es)
  then show ?case by (cases e) (fastforce simp: Let_def split: prod.splits)+
qed simp

lemma decoder_line_kinds:
  assumes "decoder_line parse d line = (evs, d')"
  shows "\<forall>e \<in> set evs. \<not> is_exit e" "dr_saw_result d' = (dr_saw_result d \<or> list_ex is_result evs)"
proof -
  have k: "list_ex is_exit evs = list_ex is_exit (codex_decode parse line (dr_model d))"
    "list_ex is_result evs = list_ex is_result (codex_decode parse line (dr_model d))"
    "dr_saw_result d' = (dr_saw_result d \<or> list_ex is_result (codex_decode parse line (dr_model d)))"
    using decoder_events_kinds[of parse d _ evs d'] assms by (auto simp: decoder_line_def)
  have "\<not> list_ex is_exit (codex_decode parse line (dr_model d))" using codex_decode_no_exit by (auto simp: list_ex_iff)
  then show "\<forall>e \<in> set evs. \<not> is_exit e" using k(1) by (auto simp: list_ex_iff)
  show "dr_saw_result d' = (dr_saw_result d \<or> list_ex is_result evs)" using k by simp
qed

section \<open>The stream of a Codex session\<close>

definition results :: "codex_process \<Rightarrow> nat" where
  "results p = length (filter is_result (cx_events p))"

definition stream_ok :: "codex_process \<Rightarrow> bool" where
  "stream_ok p \<longleftrightarrow>
     (if cx_channel_closed p
      then cx_closed p \<and> cx_turn p = None \<and> (\<exists>es. cx_events p = es @ [CExit (cx_last_exit p)] \<and> (\<forall>e \<in> set es. \<not> is_exit e))
      else \<forall>e \<in> set (cx_events p). \<not> is_exit e) \<and>
     (\<forall>d. cx_turn p = Some d \<longrightarrow> dr_saw_result d = cx_result_sent p) \<and>
     length (cx_calls p) \<le> results p + (if cx_turn p \<noteq> None \<and> \<not> cx_result_sent p then 1 else 0)"

lemma emit_fields:
  "cx_closed (emit e p) = cx_closed p" "cx_turn (emit e p) = cx_turn p" "cx_channel_closed (emit e p) = cx_channel_closed p"
  "cx_calls (emit e p) = cx_calls p" "cx_events (emit e p) = cx_events p @ [e]" "cx_spec (emit e p) = cx_spec p"
  "cx_result_sent (emit e p) = (cx_result_sent p \<or> is_result e)" "cx_last_exit (emit e p) = cx_last_exit p"
  by (cases e; simp add: emit_def Let_def)+

lemma emit_all:
  "cx_closed (fold emit es p) = cx_closed p \<and> cx_turn (fold emit es p) = cx_turn p \<and>
   cx_channel_closed (fold emit es p) = cx_channel_closed p \<and> cx_calls (fold emit es p) = cx_calls p \<and>
   cx_spec (fold emit es p) = cx_spec p \<and> cx_last_exit (fold emit es p) = cx_last_exit p \<and>
   cx_events (fold emit es p) = cx_events p @ es \<and> cx_result_sent (fold emit es p) = (cx_result_sent p \<or> list_ex is_result es)"
  by (induction es arbitrary: p) (simp_all add: emit_fields disj_assoc)

lemma line_stream_ok:
  assumes ok: "stream_ok p" and turn: "cx_turn p = Some d"
  shows "stream_ok (child_line parse line d p)"
proof -
  obtain evs d1 where l: "decoder_line parse d line = (evs, d1)" by (rule prod.exhaust)
  note k = decoder_line_kinds[OF l]
  have open_: "\<not> cx_channel_closed p" using ok turn by (auto simp: stream_ok_def)
  have "list_ex is_result evs \<Longrightarrow> 1 \<le> length (filter is_result evs)"
    by (induction evs) auto
  then show ?thesis
    using ok turn k open_ by (fastforce simp: child_line_def l stream_ok_def emit_all results_def)
qed

lemma step_stream_ok: "codex_step parse p p' \<Longrightarrow> stream_ok p \<Longrightarrow> stream_ok p'"
proof (induction rule: codex_step.induct)
  case (sends p t)
  then show ?case by (auto simp: send_turn_def stream_ok_def results_def new_decoder_def split: option.splits if_splits)
next
  case (line p d line)
  then show ?case by (intro line_stream_ok)
next
  case (exits p d code stderr)
  then show ?case by (auto simp: turn_ends_def stream_ok_def results_def Let_def split: if_splits)
next
  case (interrupts p)
  then show ?case by (auto simp: interrupt_turn_def stream_ok_def results_def)
next
  case (closes p)
  then show ?case by (auto simp: begin_close_def stream_ok_def results_def)
next
  case (closed p)
  then show ?case by (auto simp: end_close_def stream_ok_def results_def)
qed

lemma reachable_stream_ok: "(codex_step parse)\<^sup>*\<^sup>* (new_process path spec) p \<Longrightarrow> stream_ok p"
proof (induction rule: rtranclp_induct)
  case base
  show ?case by (simp add: stream_ok_def new_process_def results_def)
next
  case (step p p')
  then show ?case using step_stream_ok by blast
qed

lemma finished_inert:
  assumes "codex_step parse p p'" "stream_ok p" "cx_channel_closed p"
  shows "p' = p"
  using assms
  by (auto simp: stream_ok_def send_turn_def interrupt_turn_def begin_close_def elim!: codex_stepE)

text \<open>
  C27: However the host's calls and the child's output interleave in a Codex session: every turn that was started has
  its result on the channel, except one that is still running and has not reported yet; the exit of the session is
  reported once, as the last event, when the channel closes; and from then on nothing changes any more, whatever is
  called - nothing is ever sent on the closed channel, no child is started.
\<close>

theorem codex_stream_well_formed:
  assumes "(codex_step parse)\<^sup>*\<^sup>* (new_process path spec) p"
  shows "length (cx_calls p) \<le> length (filter is_result (cx_events p)) + (if cx_turn p \<noteq> None \<and> \<not> cx_result_sent p then 1 else 0) \<and>
    (if cx_channel_closed p
     then \<exists>es. cx_events p = es @ [CExit (cx_last_exit p)] \<and> (\<forall>e \<in> set es. \<not> is_exit e)
     else \<forall>e \<in> set (cx_events p). \<not> is_exit e) \<and>
    (cx_channel_closed p \<longrightarrow> (\<forall>p'. codex_step parse p p' \<longrightarrow> p' = p))"
  using reachable_stream_ok[OF assms] finished_inert[of parse p] by (auto simp: stream_ok_def results_def)

definition a_spec :: start_spec where
  "a_spec = \<lparr>sp_session = ''s'', sp_resume = False, sp_resume_ref = [], sp_title = [], sp_cwd = ''/w'', sp_home = ''/h'', sp_env = [],
     sp_profile = \<lparr>hp_mode = ''plan'', hp_allowed = [], hp_disallowed = [], hp_max_turns = 0\<rparr>, sp_worktree = [], sp_schema = [],
     sp_system_prompt = [], sp_model = [], sp_fallback = [], sp_effort = []\<rparr>"

definition two_lines :: unmarshal where
  "two_lines s =
     (if s = ''text'' then Some (JObj [(''type'', JStr ''item.completed''),
        (''item'', JObj [(''type'', JStr ''agent_message''), (''text'', JStr ''yes'')])])
      else if s = ''done'' then Some (JObj [(''type'', JStr ''turn.completed'')])
      else None)"

definition a_finished_process :: codex_process where
  "a_finished_process = end_close (begin_close (turn_ends 0 [] (new_decoder [] False) (snd (send_turn ''go'' (new_process [] a_spec)))))"

lemma finished_process_reached: "(codex_step two_lines)\<^sup>*\<^sup>* (new_process [] a_spec) a_finished_process"
proof -
  let ?p0 = "new_process [] a_spec" and ?p1 = "snd (send_turn ''go'' (new_process [] a_spec))"
  let ?p2 = "turn_ends 0 [] (new_decoder [] False) ?p1"
  have "codex_step two_lines ?p0 ?p1" by (rule codex_step.sends)
  moreover have "codex_step two_lines ?p1 ?p2"
    by (rule codex_step.exits) (simp add: send_turn_def new_process_def a_spec_def)
  moreover have "codex_step two_lines ?p2 (begin_close ?p2)" by (rule codex_step.closes)
  moreover have "codex_step two_lines (begin_close ?p2) a_finished_process" unfolding a_finished_process_def
    by (rule codex_step.closed) (simp_all add: begin_close_def turn_ends_def send_turn_def new_process_def a_spec_def new_decoder_def Let_def)
  ultimately show ?thesis by (meson converse_rtranclp_into_rtranclp r_into_rtranclp)
qed

theorem codex_stream_well_formed_witness:
  "cx_channel_closed a_finished_process \<and> length (cx_calls a_finished_process) = 1 \<and>
   (\<exists>es. cx_events a_finished_process = es @ [CExit 0] \<and> (\<forall>e \<in> set es. \<not> is_exit e)) \<and>
   {p'. codex_step two_lines a_finished_process p'} \<subseteq> {a_finished_process}"
proof -
  have "cx_channel_closed a_finished_process" "length (cx_calls a_finished_process) = 1" "cx_last_exit a_finished_process = 0"
    by code_simp+
  then show ?thesis using codex_stream_well_formed[OF finished_process_reached] by auto
qed

section \<open>What a turn's result carries\<close>

fun decode_turn :: "unmarshal \<Rightarrow> decoder \<Rightarrow> string list \<Rightarrow> cli_event list" where
  "decode_turn parse d [] = []"
| "decode_turn parse d (l # ls) = (let (es, d1) = decoder_line parse d l in es @ decode_turn parse d1 ls)"

definition last_text :: "string \<Rightarrow> cli_event list \<Rightarrow> string" where
  "last_text t es = foldl (\<lambda>t e. case e of CText x \<Rightarrow> x | _ \<Rightarrow> t) t es"

lemma decoder_events_append:
  "decoder_events parse d (xs @ ys) =
     (let (es, d1) = decoder_events parse d xs; (fs, d2) = decoder_events parse d1 ys in (es @ fs, d2))"
  by (induction xs arbitrary: d) (auto simp: Let_def split: prod.splits cli_event.splits)

lemma decode_turn_events:
  "decode_turn parse d ls = fst (decoder_events parse d (concat (map (\<lambda>l. codex_decode parse l (dr_model d)) ls)))"
proof (induction ls arbitrary: d)
  case (Cons l ls)
  obtain es d1 where e: "decoder_events parse d (codex_decode parse l (dr_model d)) = (es, d1)" by (rule prod.exhaust)
  then have "dr_model d1 = dr_model d" using decoder_events_kinds by blast
  then show ?case using Cons.IH[of d1] e by (simp add: decoder_line_def decoder_events_append Let_def split: prod.splits)
qed simp

lemma decoder_events_result:
  assumes "fst (decoder_events parse d raw) = es @ CResult r # fs"
  shows "\<exists>r0 d'. CResult r0 \<in> set raw \<and> r = finish_result parse d' r0 \<and> dr_schema d' = dr_schema d \<and>
    dr_last d' = last_text (dr_last d) es"
  using assms
proof (induction raw arbitrary: d es)
  case (Cons e raw)
  show ?case
  proof (cases es)
    case Nil
    then show ?thesis using Cons.prems by (cases e) (auto simp: Let_def last_text_def split: prod.splits)
  next
    case (Cons x es')
    have x: "(x = e \<or> is_result e \<and> is_result x) \<and>
        fst (decoder_events parse (case e of CText t \<Rightarrow> d\<lparr>dr_last := t\<rparr> | CResult r \<Rightarrow> d\<lparr>dr_saw_result := True\<rparr> | _ \<Rightarrow> d) raw) =
          es' @ CResult r # fs"
      using \<open>fst (decoder_events parse d (e # raw)) = es @ CResult r # fs\<close> Cons
      by (cases e) (auto simp: Let_def split: prod.splits)
    from Cons.IH[OF conjunct2[OF x]] obtain r0 d' where "CResult r0 \<in> set raw" "r = finish_result parse d' r0"
      "dr_schema d' = dr_schema d" "dr_last d' = last_text (dr_last (case e of CText t \<Rightarrow> d\<lparr>dr_last := t\<rparr>
         | CResult r \<Rightarrow> d\<lparr>dr_saw_result := True\<rparr> | _ \<Rightarrow> d)) es'"
      by (cases e) auto
    moreover have "last_text (dr_last (case e of CText t \<Rightarrow> d\<lparr>dr_last := t\<rparr>
         | CResult r \<Rightarrow> d\<lparr>dr_saw_result := True\<rparr> | _ \<Rightarrow> d)) es' = last_text (dr_last d) es"
      using x Cons by (cases e) (auto simp: last_text_def elim!: is_result.elims)
    ultimately show ?thesis by (intro exI[of _ r0] exI[of _ d']) simp
  qed
qed simp

lemma codex_decode_results:
  "CResult r \<in> set (codex_decode parse line model) \<Longrightarrow> cr_structured r = None \<and> (\<not> cr_is_error r \<longrightarrow> cr_text r = [])"
  by (auto simp: codex_decode_def decode_item_def plain_result_def split: option.splits if_splits)

text \<open>
  The result of a Codex turn carries the answer, which the protocol delivers as an ordinary message before it:
  a successful result has the last text of the turn as its text, and in a turn with a schema that text, where it is
  JSON, as its structured output; without a schema, or where it is not, there is no structured output.
\<close>

theorem turn_result_carries_answer:
  assumes "decode_turn parse (new_decoder model schema) lines = es @ CResult r # fs"
  shows "(\<not> cr_is_error r \<longrightarrow> cr_text r = last_text [] es) \<and>
    cr_structured r = (if schema \<and> last_text [] es \<noteq> [] then parse (last_text [] es) else None)"
proof -
  have "fst (decoder_events parse (new_decoder model schema) (concat (map (\<lambda>l. codex_decode parse l model) lines))) =
      es @ CResult r # fs"
    using assms by (simp add: decode_turn_events new_decoder_def)
  from decoder_events_result[OF this] obtain r0 d' where
    r0: "CResult r0 \<in> set (concat (map (\<lambda>l. codex_decode parse l model) lines))"
    and r: "r = finish_result parse d' r0" and "dr_schema d' = dr_schema (new_decoder model schema)"
    "dr_last d' = last_text (dr_last (new_decoder model schema)) es"
    by blast
  then have d': "dr_schema d' = schema" "dr_last d' = last_text [] es" by (simp_all add: new_decoder_def)
  from r0 have "cr_structured r0 = None \<and> (\<not> cr_is_error r0 \<longrightarrow> cr_text r0 = [])" by (auto dest: codex_decode_results)
  then show ?thesis unfolding r
    by (auto simp: finish_result_def d' Let_def split: option.splits)
qed

theorem turn_result_carries_answer_witness:
  "\<exists>r. decode_turn two_lines (new_decoder [] False) [''text'', ''done''] = [CText ''yes''] @ CResult r # [] \<and> cr_text r = ''yes''"
proof -
  define r where "r = (plain_result ''success'' False [])\<lparr>cr_text := ''yes''\<rparr>"
  have d: "decode_turn two_lines (new_decoder [] False) [''text'', ''done''] = [CText ''yes''] @ CResult r # []"
    unfolding r_def by code_simp
  have "\<not> cr_is_error r" by (simp add: r_def plain_result_def)
  then show ?thesis using turn_result_carries_answer[OF d] d by (auto simp: last_text_def)
qed

text \<open>
  The tool uses of a file change and its result meet under one id only when the change has one path: with several, the
  uses carry numbered ids and the result the bare one.
\<close>

lemma single_change_ids_meet:
  assumes "ki_type it = ''file_change''" "length (ki_changes it) \<le> 1" "CToolUse i n inp par \<in> set (decode_item it False line)"
  shows "i = ki_id it"
  using assms by (auto simp: decode_item_def change_id_def split: if_splits)

lemma several_changes_ids_miss:
  assumes "ki_type it = ''file_change''" "2 \<le> length (ki_changes it)" "CToolUse i n inp par \<in> set (decode_item it False line)"
  shows "i \<noteq> ki_id it \<and> decode_item it True line = [CToolResult (ki_id it) (changed_paths (ki_changes it)) (item_failed it)]"
  using assms by (auto simp: decode_item_def change_id_def split: if_splits)

section \<open>Echoes\<close>

text \<open>
  What Styr writes to Claude Code and the CLI replays is not taken for news: a line that reads back as a user turn,
  a decision or an interrupt of Styr's own decodes to no event at all.
\<close>

lemma own_lines_are_silent:
  assumes "parse l \<in> {Some (encode_user sid t), Some (encode_decision d), Some (encode_interrupt rid)}"
  shows "claude_decode parse render l = []"
proof -
  have "claude_decode parse render l = []" if "parse l = Some (encode_user sid t)"
    using that by (simp add: claude_decode_def encode_user_def envelope_of_def fld_def obj_of_def str_of_def list_of_def
      message_of_def delta_of_def request_of_def usage_of_def bool_of_def int_of_json_def rat_of_json_def
      decode_content_blocks_def Let_def)
  moreover have "claude_decode parse render l = []" if "parse l = Some (encode_decision d)"
    using that by (simp add: claude_decode_def encode_decision_def envelope_of_def fld_def obj_of_def str_of_def list_of_def
      message_of_def delta_of_def request_of_def usage_of_def bool_of_def int_of_json_def rat_of_json_def Let_def)
  moreover have "claude_decode parse render l = []" if "parse l = Some (encode_interrupt rid)"
    using that by (simp add: claude_decode_def encode_interrupt_def envelope_of_def fld_def obj_of_def str_of_def list_of_def
      message_of_def delta_of_def request_of_def usage_of_def bool_of_def int_of_json_def rat_of_json_def Let_def)
  ultimately show ?thesis using assms by auto
qed

end
