(* ===== verification/Notify.thy ===== *)
theory Notify
  imports Go_Text "HOL-Library.Word"
begin

text \<open>
  Telling the outside: the event bus between the services and the browsers (\<open>internal/events/bus.go\<close>) and
  notifications to configured channels (\<open>internal/notify\<close>). The network is a parameter, the answer to each attempt;
  JSON printing, the clock's text and the building of URLs are parameters.
\<close>

section \<open>The event bus (events/bus.go)\<close>

text \<open>
  A subscriber is a buffered channel. \<open>sb_taken\<close> is what its reader has received, the observer's view; \<open>bu_next\<close> and
  \<open>bu_dropped\<close> are unsigned 64-bit counters.
\<close>

record 'm subscriber =
  sb_buffer :: nat
  sb_queue :: "'m list"
  sb_taken :: "'m list"

record 'm bus =
  bu_subs :: "64 word \<rightharpoonup> 'm subscriber"
  bu_next :: "64 word"
  bu_dropped :: "64 word"

definition new_bus :: "'m bus" where
  "new_bus = \<lparr>bu_subs = Map.empty, bu_next = 0, bu_dropped = 0\<rparr>"

definition offer :: "'m \<Rightarrow> 'm subscriber \<Rightarrow> 'm subscriber" where
  "offer m s = (if length (sb_queue s) < sb_buffer s then s\<lparr>sb_queue := sb_queue s @ [m]\<rparr> else s)"

definition full :: "'m subscriber \<Rightarrow> bool" where
  "full s \<longleftrightarrow> sb_buffer s \<le> length (sb_queue s)"

definition publish_message :: "'m \<Rightarrow> 'm bus \<Rightarrow> 'm bus" where
  "publish_message m b = b\<lparr>bu_subs := map_option (offer m) \<circ> bu_subs b,
     bu_dropped := bu_dropped b + of_nat (card {i. \<exists>s. bu_subs b i = Some s \<and> full s})\<rparr>"

definition subscribe :: "nat \<Rightarrow> 'm bus \<Rightarrow> 64 word \<times> 'm bus" where
  "subscribe buffer b =
     (let i = bu_next b + 1
      in (i, b\<lparr>bu_next := i, bu_subs := (bu_subs b)(i \<mapsto> \<lparr>sb_buffer = buffer, sb_queue = [], sb_taken = []\<rparr>)\<rparr>))"

definition unsubscribe :: "64 word \<Rightarrow> 'm bus \<Rightarrow> 'm bus" where
  "unsubscribe i b = b\<lparr>bu_subs := (bu_subs b)(i := None)\<rparr>"

text \<open>The reader of a subscription takes the oldest message of its channel.\<close>

definition receive :: "64 word \<Rightarrow> 'm bus \<Rightarrow> 'm bus" where
  "receive i b =
     (case bu_subs b i of
        Some s \<Rightarrow> (case sb_queue s of [] \<Rightarrow> b
           | m # ms \<Rightarrow> b\<lparr>bu_subs := (bu_subs b)(i \<mapsto> s\<lparr>sb_queue := ms, sb_taken := sb_taken s @ [m]\<rparr>)\<rparr>)
      | None \<Rightarrow> b)"

section \<open>Notifications (notify/notify.go, publish.go, send.go)\<close>

record notice =
  no_kind :: string
  no_title :: string
  no_body :: string
  no_url :: string
  no_priority :: int
  no_tags :: "string list"

record channel =
  ch_id :: string
  ch_kind :: string
  ch_name :: string
  ch_url :: string
  ch_token :: string
  ch_events :: "string list"

record http_request =
  hr_url :: string
  hr_headers :: "(string \<times> string) list"
  hr_body :: string

record webhook_payload =
  wp_kind :: string
  wp_title :: string
  wp_body :: string
  wp_url :: string
  wp_priority :: int
  wp_tags :: "string list"
  wp_sent_at :: string

text \<open>One attempt: a status code, or a failure of the transport.\<close>

datatype attempt_result = Answer int | Failure string

record notifier =
  nf_build_ok :: "string \<Rightarrow> bool"
  nf_answer :: "http_request \<Rightarrow> nat \<Rightarrow> attempt_result"
  nf_encode :: "webhook_payload \<Rightarrow> string option"
  nf_now_text :: string
  nf_cancelled :: bool
  nf_show_int :: "int \<Rightarrow> string"

definition ok_result :: "attempt_result \<Rightarrow> bool" where
  "ok_result r = (case r of Answer c \<Rightarrow> 200 \<le> c \<and> c < 300 | Failure _ \<Rightarrow> False)"

definition retryable :: "attempt_result \<Rightarrow> bool" where
  "retryable r = (case r of Answer c \<Rightarrow> 500 \<le> c | Failure _ \<Rightarrow> True)"

definition result_err :: "notifier \<Rightarrow> string \<Rightarrow> attempt_result \<Rightarrow> error" where
  "result_err n kind r =
     ErrOther (case r of Failure e \<Rightarrow> ''notify: '' @ kind @ '': '' @ e | Answer c \<Rightarrow> ''notify: '' @ kind @ '': HTTP '' @ nf_show_int n c)"

text \<open>\<open>doOnce\<close>: \<open>sent\<close> is every request handed to the client so far; a request that cannot be built is a failure unsent.\<close>

definition do_once :: "notifier \<Rightarrow> string + http_request \<Rightarrow> http_request list \<Rightarrow> attempt_result \<times> http_request list" where
  "do_once n built sent =
     (case built of Inl e \<Rightarrow> (Failure e, sent) | Inr req \<Rightarrow> (nf_answer n req (length sent), sent @ [req]))"

definition send_with_retry ::
  "notifier \<Rightarrow> channel \<Rightarrow> string + http_request \<Rightarrow> http_request list \<Rightarrow> error option \<times> http_request list" where
  "send_with_retry n ch built sent =
     (let (r, sent1) = do_once n built sent
      in if ok_result r then (None, sent1)
         else if retryable r then
           (if nf_cancelled n then (Some (result_err n (ch_kind ch) r), sent1)
            else let (r2, sent2) = do_once n built sent1
                 in if ok_result r2 then (None, sent2) else (Some (result_err n (ch_kind ch) r2), sent2))
         else (Some (result_err n (ch_kind ch) r), sent1))"

definition authorization :: "channel \<Rightarrow> (string \<times> string) list" where
  "authorization ch = (if ch_token ch \<noteq> [] then [(''Authorization'', ''Bearer '' @ ch_token ch)] else [])"

definition build_ntfy_request :: "notifier \<Rightarrow> channel \<Rightarrow> notice \<Rightarrow> string + http_request" where
  "build_ntfy_request n ch ev =
     (if \<not> nf_build_ok n (ch_url ch) then Inl ''invalid URL''
      else Inr \<lparr>hr_url = ch_url ch,
        hr_headers = [(''Title'', no_title ev)] @
          (if no_priority ev \<noteq> 0 then [(''Priority'', nf_show_int n (no_priority ev))] else []) @
          (if no_tags ev \<noteq> [] then [(''Tags'', join_char CHR '','' (no_tags ev))] else []) @
          (if no_url ev \<noteq> [] then [(''Click'', no_url ev)] else []) @ authorization ch,
        hr_body = no_body ev\<rparr>)"

definition build_webhook_request :: "notifier \<Rightarrow> channel \<Rightarrow> notice \<Rightarrow> string + http_request" where
  "build_webhook_request n ch ev =
     (case nf_encode n \<lparr>wp_kind = no_kind ev, wp_title = no_title ev, wp_body = no_body ev, wp_url = no_url ev,
         wp_priority = no_priority ev, wp_tags = no_tags ev, wp_sent_at = nf_now_text n\<rparr> of
        None \<Rightarrow> Inl ''notify: encode webhook body''
      | Some body \<Rightarrow>
          (if \<not> nf_build_ok n (ch_url ch) then Inl ''invalid URL''
           else Inr \<lparr>hr_url = ch_url ch,
             hr_headers = [(''Content-Type'', ''application/json''), (''X-Styr-Event'', no_kind ev)] @ authorization ch, hr_body = body\<rparr>))"

definition send_notice :: "notifier \<Rightarrow> channel \<Rightarrow> notice \<Rightarrow> http_request list \<Rightarrow> error option \<times> http_request list" where
  "send_notice n ch ev sent =
     (if ch_kind ch = ''ntfy'' then send_with_retry n ch (build_ntfy_request n ch ev) sent
      else if ch_kind ch = ''webhook'' then send_with_retry n ch (build_webhook_request n ch ev) sent
      else (Some (ErrOther ''notify: unknown channel kind''), sent))"

definition wants_event :: "channel \<Rightarrow> string \<Rightarrow> bool" where
  "wants_event ch kind \<longleftrightarrow> list_ex (\<lambda>w. w = kind) (ch_events ch)"

fun publish_notice :: "notifier \<Rightarrow> channel list \<Rightarrow> notice \<Rightarrow> http_request list \<Rightarrow> http_request list" where
  "publish_notice n [] ev sent = sent"
| "publish_notice n (ch # chs) ev sent =
     publish_notice n chs ev (if wants_event ch (no_kind ev) then snd (send_notice n ch ev sent) else sent)"

end
