(* ===== verification/Notify_Claims.thy ===== *)
theory Notify_Claims
  imports Notify "HOL-Library.Sublist"
begin

text \<open>What a subscriber of the bus sees of what was published, and what a notification costs.\<close>

section \<open>The bus\<close>

datatype 'm bus_op = Publish 'm | Subscribe nat | Unsubscribe "64 word" | Receive "64 word"

fun bus_apply :: "'m bus_op \<Rightarrow> 'm bus \<Rightarrow> 'm bus" where
  "bus_apply (Publish m) b = publish_message m b"
| "bus_apply (Subscribe n) b = snd (subscribe n b)"
| "bus_apply (Unsubscribe i) b = unsubscribe i b"
| "bus_apply (Receive i) b = receive i b"

fun published :: "'m bus_op list \<Rightarrow> 'm list" where
  "published [] = []"
| "published (Publish m # ops) = m # published ops"
| "published (_ # ops) = published ops"

fun subscriptions :: "'m bus_op list \<Rightarrow> nat" where
  "subscriptions [] = 0"
| "subscriptions (Subscribe n # ops) = Suc (subscriptions ops)"
| "subscriptions (_ # ops) = subscriptions ops"

lemma published_append: "published (a @ b) = published a @ published b"
  by (induction a rule: published.induct) auto

lemma subscriptions_append: "subscriptions (a @ b) = subscriptions a + subscriptions b"
  by (induction a rule: subscriptions.induct) auto

text \<open>What a subscription keeps: a bounded buffer, and what it has been given in the order of publication.\<close>

definition sees :: "nat \<Rightarrow> 'm list \<Rightarrow> 'm subscriber \<Rightarrow> bool" where
  "sees buffer msgs s \<longleftrightarrow>
     sb_buffer s = buffer \<and> length (sb_queue s) \<le> buffer \<and> subseq (sb_taken s @ sb_queue s) msgs \<and>
     (length msgs \<le> buffer \<longrightarrow> sb_taken s @ sb_queue s = msgs)"

lemma offer_sees: "sees n ms s \<Longrightarrow> sees n (ms @ [m]) (offer m s)"
proof -
  assume s: "sees n ms s"
  show ?thesis
  proof (cases "length (sb_queue s) < n")
    case True
    have "subseq ((sb_taken s @ sb_queue s) @ [m]) (ms @ [m])"
      using s by (intro list_emb_append_mono) (auto simp: sees_def)
    then show ?thesis using s True by (auto simp: sees_def offer_def)
  next
    case False
    have sub: "subseq (sb_taken s @ sb_queue s) (ms @ [m])" using s by (auto simp: sees_def intro: subseq_rev_drop_many)
    have "length ms \<le> n \<Longrightarrow> length (sb_queue s) \<le> length ms" using s by (auto simp: sees_def)
    then have "\<not> length (ms @ [m]) \<le> n" using False by auto
    then show ?thesis using s sub False by (simp add: sees_def offer_def)
  qed
qed

lemma bus_run:
  assumes start: "subscribe n b = (i, b1)" and "Unsubscribe i \<notin> set ops" and "subscriptions ops < 2 ^ 64 - 1"
  shows "bu_next (fold bus_apply ops b1) = i + of_nat (subscriptions ops) \<and>
    (\<exists>s. bu_subs (fold bus_apply ops b1) i = Some s \<and> sees n (published ops) s)"
  using assms(2,3)
proof (induction ops rule: rev_induct)
  case Nil
  show ?case using start by (auto simp: subscribe_def Let_def sees_def)
next
  case (snoc x ops)
  let ?b = "fold bus_apply ops b1"
  obtain s where s: "bu_subs ?b i = Some s" "sees n (published ops) s" and nx: "bu_next ?b = i + of_nat (subscriptions ops)"
    using snoc by (auto simp: subscriptions_append)
  show ?case
  proof (cases x)
    case (Publish m)
    then show ?thesis using s nx offer_sees[OF s(2), of m]
      by (simp add: publish_message_def published_append subscriptions_append)
  next
    case (Subscribe k)
    have "Suc (subscriptions ops) < 2 ^ 64" using snoc.prems(2) Subscribe by (simp add: subscriptions_append)
    then have "(of_nat (Suc (subscriptions ops)) :: 64 word) \<noteq> 0"
      unfolding word_of_nat_eq_0_iff by (auto dest: dvd_imp_le)
    then have "i + of_nat (subscriptions ops) + 1 \<noteq> i" by (simp add: add.assoc add.commute)
    then show ?thesis using s nx Subscribe
      by (simp add: subscribe_def Let_def published_append subscriptions_append add.assoc)
  next
    case (Unsubscribe j)
    then show ?thesis using s nx snoc.prems(1) by (simp add: unsubscribe_def published_append subscriptions_append)
  next
    case (Receive j)
    then show ?thesis using s nx
      by (auto simp: receive_def published_append subscriptions_append sees_def split: option.splits list.splits)
  qed
qed

text \<open>
  C33: A browser's subscription to the event bus, whatever else is published, subscribed or read in the meantime: as
  long as it is not ended, the messages it has received and those waiting for it are messages published since it
  began, each at most once and in the order of publication, never more waiting than its buffer holds; and none is
  missing while there were no more than fit the buffer. (The counter of subscriptions has 64 bits.)
\<close>

theorem subscriber_sees_in_order:
  assumes "subscribe n b = (i, b1)" and "Unsubscribe i \<notin> set ops" and "subscriptions ops < 2 ^ 64 - 1"
  shows "\<exists>s. bu_subs (fold bus_apply ops b1) i = Some s \<and> length (sb_queue s) \<le> n \<and>
    subseq (sb_taken s @ sb_queue s) (published ops) \<and>
    (length (published ops) \<le> n \<longrightarrow> sb_taken s @ sb_queue s = published ops)"
  using bus_run[OF assms] by (auto simp: sees_def)

theorem subscriber_sees_in_order_witness:
  "\<exists>s. bu_subs (fold bus_apply [Publish (1::nat), Receive 1, Publish 2, Publish 3] (snd (subscribe 3 new_bus))) 1 = Some s \<and>
     sb_taken s @ sb_queue s = [1, 2, 3]"
proof -
  have "subscribe 3 (new_bus :: nat bus) = (1, snd (subscribe 3 new_bus))" by (simp add: subscribe_def new_bus_def Let_def)
  from subscriber_sees_in_order[OF this, of "[Publish 1, Receive 1, Publish 2, Publish 3]"]
  show ?thesis by auto
qed

section \<open>Notifications\<close>

lemma do_once_log: "do_once n built sent = (r, sent1) \<Longrightarrow>
  sent1 = sent @ (case built of Inl e \<Rightarrow> [] | Inr req \<Rightarrow> [req])"
  by (auto simp: do_once_def split: sum.splits)

definition attempts :: "notifier \<Rightarrow> channel \<Rightarrow> notice \<Rightarrow> http_request list \<Rightarrow> http_request list" where
  "attempts n ch ev sent = drop (length sent) (snd (send_notice n ch ev sent))"

lemma retry_log:
  "\<exists>rs. snd (send_with_retry n ch built sent) = sent @ rs \<and> length rs \<le> 2 \<and> (\<forall>r \<in> set rs. built = Inr r) \<and>
     (length rs = 2 \<longrightarrow> (\<forall>r. built = Inr r \<longrightarrow> retryable (nf_answer n r (length sent))))"
proof (cases built)
  case (Inl e)
  then show ?thesis by (intro exI[of _ "[]"]) (simp add: send_with_retry_def do_once_def Let_def)
next
  case (Inr req)
  let ?r = "nf_answer n req (length sent)"
  show ?thesis
  proof (cases "\<not> ok_result ?r \<and> retryable ?r \<and> \<not> nf_cancelled n")
    case True
    then show ?thesis using Inr by (intro exI[of _ "[req, req]"]) (auto simp: send_with_retry_def do_once_def Let_def)
  next
    case False
    then show ?thesis using Inr by (intro exI[of _ "[req]"]) (auto simp: send_with_retry_def do_once_def Let_def)
  qed
qed

definition request_for :: "notifier \<Rightarrow> channel \<Rightarrow> notice \<Rightarrow> http_request \<Rightarrow> bool" where
  "request_for n ch ev r \<longleftrightarrow>
     ch_kind ch = ''ntfy'' \<and> build_ntfy_request n ch ev = Inr r \<or> ch_kind ch = ''webhook'' \<and> build_webhook_request n ch ev = Inr r"

lemma send_log:
  "\<exists>rs. snd (send_notice n ch ev sent) = sent @ rs \<and> length rs \<le> 2 \<and> (\<forall>r \<in> set rs. request_for n ch ev r) \<and>
     (length rs = 2 \<longrightarrow> retryable (nf_answer n (hd rs) (length sent)))"
proof (cases "ch_kind ch = ''ntfy'' \<or> ch_kind ch = ''webhook''")
  case True
  then show ?thesis
    using retry_log[of n ch "build_ntfy_request n ch ev" sent] retry_log[of n ch "build_webhook_request n ch ev" sent]
    by (auto simp: send_notice_def request_for_def) (metis hd_in_set length_0_conv zero_neq_numeral)+
qed (auto simp: send_notice_def)

lemma request_to_channel:
  "request_for n ch ev r \<Longrightarrow> hr_url r = ch_url ch \<and>
     (\<forall>v. (''Authorization'', v) \<in> set (hr_headers r) \<longrightarrow> v = ''Bearer '' @ ch_token ch)"
  by (auto simp: request_for_def build_ntfy_request_def build_webhook_request_def authorization_def split: if_splits option.splits)

text \<open>
  Publishing a notification tells each channel that wants it and no other, in their order and whatever happens to
  the others: at most two requests to a channel, both to its own address and with no token but its own, and a second
  one only after a failed connection or a server error.
\<close>

theorem notifications_bounded:
  "\<exists>segs. length segs = length chs \<and> publish_notice n chs ev sent = sent @ concat segs \<and>
    (\<forall>k < length chs.
       (\<not> wants_event (chs ! k) (no_kind ev) \<longrightarrow> segs ! k = []) \<and> length (segs ! k) \<le> 2 \<and>
       (\<forall>r \<in> set (segs ! k). hr_url r = ch_url (chs ! k) \<and>
          (\<forall>v. (''Authorization'', v) \<in> set (hr_headers r) \<longrightarrow> v = ''Bearer '' @ ch_token (chs ! k))) \<and>
       (length (segs ! k) = 2 \<longrightarrow>
          retryable (nf_answer n (hd (segs ! k)) (length (sent @ concat (take k segs))))))"
proof (induction chs arbitrary: sent)
  case (Cons ch chs)
  define sent1 where "sent1 = (if wants_event ch (no_kind ev) then snd (send_notice n ch ev sent) else sent)"
  obtain rs where rs: "sent1 = sent @ rs" "length rs \<le> 2" "\<forall>r \<in> set rs. request_for n ch ev r"
    "length rs = 2 \<longrightarrow> retryable (nf_answer n (hd rs) (length sent))" "\<not> wants_event ch (no_kind ev) \<longrightarrow> rs = []"
    using send_log[of n ch ev sent] by (cases "wants_event ch (no_kind ev)") (auto simp: sent1_def)
  obtain segs where segs: "length segs = length chs" "publish_notice n chs ev sent1 = sent1 @ concat segs"
    "\<forall>k < length chs.
       (\<not> wants_event (chs ! k) (no_kind ev) \<longrightarrow> segs ! k = []) \<and> length (segs ! k) \<le> 2 \<and>
       (\<forall>r \<in> set (segs ! k). hr_url r = ch_url (chs ! k) \<and>
          (\<forall>v. (''Authorization'', v) \<in> set (hr_headers r) \<longrightarrow> v = ''Bearer '' @ ch_token (chs ! k))) \<and>
       (length (segs ! k) = 2 \<longrightarrow>
          retryable (nf_answer n (hd (segs ! k)) (length (sent1 @ concat (take k segs)))))"
    using Cons.IH[of sent1] by blast
  have "publish_notice n (ch # chs) ev sent = sent @ concat (rs # segs)" using segs(2) rs(1) by (simp add: sent1_def)
  moreover have "\<forall>r \<in> set rs. hr_url r = ch_url ch \<and>
      (\<forall>v. (''Authorization'', v) \<in> set (hr_headers r) \<longrightarrow> v = ''Bearer '' @ ch_token ch)"
    using rs(3) request_to_channel by blast
  ultimately show ?case using segs(1,3) rs
    by (intro exI[of _ "rs # segs"]) (auto simp: nth_Cons less_Suc_eq_0_disj split: nat.splits)
qed simp

definition a_channel :: "string \<Rightarrow> channel" where
  "a_channel url = \<lparr>ch_id = url, ch_kind = ''ntfy'', ch_name = url, ch_url = url, ch_token = ''t'', ch_events = [''run.failed'']\<rparr>"

definition a_notifier :: notifier where
  "a_notifier = \<lparr>nf_build_ok = (\<lambda>_. True), nf_answer = (\<lambda>_ k. if k = 0 then Failure ''refused'' else Answer 200), nf_encode = (\<lambda>_. None),
     nf_now_text = [], nf_cancelled = False, nf_show_int = (\<lambda>_. [])\<rparr>"

definition a_notice :: notice where
  "a_notice = \<lparr>no_kind = ''run.failed'', no_title = ''t'', no_body = ''b'', no_url = [], no_priority = 0, no_tags = []\<rparr>"

lemma notices_sent: "map hr_url (publish_notice a_notifier [a_channel ''a'', a_channel ''b''] a_notice []) = [''a'', ''a'', ''b'']"
  by code_simp

theorem notifications_bounded_witness:
  "\<exists>s0 s1. publish_notice a_notifier [a_channel ''a'', a_channel ''b''] a_notice [] = s0 @ s1 \<and>
     map hr_url (s0 @ s1) = [''a'', ''a'', ''b''] \<and> length s0 \<le> 2 \<and> (\<forall>r \<in> set s0. hr_url r = ''a'') \<and> (\<forall>r \<in> set s1. hr_url r = ''b'')"
proof -
  define log where "log = publish_notice a_notifier [a_channel ''a'', a_channel ''b''] a_notice []"
  obtain segs where l: "length segs = length [a_channel ''a'', a_channel ''b'']" and p: "log = [] @ concat segs"
    and each: "\<forall>k < length [a_channel ''a'', a_channel ''b'']. length (segs ! k) \<le> 2 \<and>
      (\<forall>r \<in> set (segs ! k). hr_url r = ch_url ([a_channel ''a'', a_channel ''b''] ! k))"
    using notifications_bounded[of "[a_channel ''a'', a_channel ''b'']" a_notifier a_notice "[]"] unfolding log_def by blast
  then obtain s0 s1 where s: "segs = [s0, s1]" by (auto simp: length_Suc_conv)
  have "length s0 \<le> 2" "\<forall>r \<in> set s0. hr_url r = ''a''" "\<forall>r \<in> set s1. hr_url r = ''b''"
    using spec[OF each, of 0] spec[OF each, of 1] by (auto simp: s a_channel_def)
  moreover have "log = s0 @ s1" using p s by simp
  moreover have "map hr_url log = [''a'', ''a'', ''b'']" unfolding log_def by (rule notices_sent)
  ultimately show ?thesis unfolding log_def[symmetric] by metis
qed

end
