(* ===== verification/Profiles.thy ===== *)
theory Profiles
  imports Account_Api Triggers
begin

text \<open>
  Harness profiles: their repository, \<open>db/profiles.go\<close>, and their routes, \<open>api/profiles_handlers.go\<close>. A profile says how
  an agent may act; what the API accepts into the table is therefore what every session runs under. Decoding the body
  is an argument, \<open>None\<close> when it fails; an absent field is \<open>None\<close>.
\<close>

section \<open>The repository (db/profiles.go)\<close>

definition default_harness :: string where "default_harness = ''claude''"

definition harness_or_default :: "string \<Rightarrow> string" where
  "harness_or_default k = (if k = [] then default_harness else k)"

definition whole_seconds :: "duration \<Rightarrow> duration" where
  "whole_seconds d = (if d < 0 then - ((- d) div 1000000000) else d div 1000000000) * 1000000000"

text \<open>A row as it is stored: the harness filled in, the timeout in whole seconds.\<close>

definition profile_row :: "profile \<Rightarrow> profile" where
  "profile_row p = p\<lparr>pf_harness := harness_or_default (pf_harness p), pf_approval_timeout := whole_seconds (pf_approval_timeout p)\<rparr>"

definition profile_name_taken :: "profile \<Rightarrow> world \<Rightarrow> bool" where
  "profile_name_taken p w = list_ex (\<lambda>q. pf_name q = pf_name p \<and> pf_id q \<noteq> pf_id p) (wd_profiles w)"

definition profiles_create :: "profile \<Rightarrow> world \<Rightarrow> unit result" where
  "profiles_create p w =
     (if pf_id p \<in> pf_id ` set (wd_profiles w) \<or> profile_name_taken p w then (Inl (ErrConflict []), w)
      else (Inr (), w\<lparr>wd_profiles := wd_profiles w @ [profile_row p]\<rparr>))"

definition profiles_list :: "world \<Rightarrow> profile list" where
  "profiles_list w = sort_key pf_name (wd_profiles w)"

text \<open>\<open>builtin\<close> is not among the columns an update writes.\<close>

definition profiles_update :: "profile \<Rightarrow> world \<Rightarrow> unit result" where
  "profiles_update p w =
     (if pf_id p \<notin> pf_id ` set (wd_profiles w) then (Inl ErrNotFound, w)
      else if profile_name_taken p w then (Inl (ErrConflict []), w)
      else (Inr (), w\<lparr>wd_profiles := tbl_update pf_id (pf_id p) (\<lambda>q. (profile_row p)\<lparr>pf_builtin := pf_builtin q\<rparr>) (wd_profiles w)\<rparr>))"

text \<open>The profiles a new database holds, \<open>migrations/00001_init.sql\<close> as changed by \<open>00004_model_effort.sql\<close>.\<close>

definition builtin_profiles :: "profile list" where
  "builtin_profiles =
     [\<lparr>pf_id = ''interactive'', pf_name = ''interactive'', pf_mode = ''default'', pf_allowed_tools = [], pf_disallowed_tools = [],
       pf_max_turns = 0, pf_unattended = False, pf_approval_timeout = 0, pf_builtin = True, pf_model = [], pf_effort = [],
       pf_harness = ''claude''\<rparr>,
      \<lparr>pf_id = ''investigate'', pf_name = ''investigate'', pf_mode = ''default'',
       pf_allowed_tools = [''Read'', ''Grep'', ''Glob'', ''Bash(ssh * journalctl *)'', ''Bash(ssh * systemctl status *)'', ''Bash(curl *)''],
       pf_disallowed_tools = [''WebFetch'', ''Edit'', ''Write''], pf_max_turns = 30, pf_unattended = True,
       pf_approval_timeout = 1800 * 1000000000, pf_builtin = True, pf_model = ''sonnet'', pf_effort = ''medium'', pf_harness = ''claude''\<rparr>,
      \<lparr>pf_id = ''remediate'', pf_name = ''remediate'', pf_mode = ''default'',
       pf_allowed_tools = [''Read'', ''Grep'', ''Glob'', ''Bash(ssh * journalctl *)'', ''Bash(ssh * systemctl status *)'',
         ''Bash(ssh * systemctl restart *)'', ''Bash(ssh * pct restart *)'', ''Bash(curl *)''],
       pf_disallowed_tools = [''WebFetch''], pf_max_turns = 40, pf_unattended = True,
       pf_approval_timeout = 1800 * 1000000000, pf_builtin = True, pf_model = ''sonnet'', pf_effort = ''medium'', pf_harness = ''claude''\<rparr>]"

section \<open>The routes (api/profiles_handlers.go)\<close>

type_synonym 'b world_reply = "'b reply \<times> world"

definition allowed_modes :: "string list" where
  "allowed_modes = [''default'', ''acceptEdits'', ''plan'', ''dontAsk'', ''auto'']"

record profile_body =
  pb_name :: "string option"
  pb_mode :: "string option"
  pb_allowed :: "string list option"
  pb_disallowed :: "string list option"
  pb_max_turns :: "int option"
  pb_unattended :: "bool option"
  pb_timeout :: "int option"
  pb_model :: "string option"
  pb_effort :: "string option"
  pb_harness :: "string option"

text \<open>What a reply shows of a profile: an empty harness is claude, the timeout is in seconds.\<close>

definition profile_dto :: "profile \<Rightarrow> profile" where
  "profile_dto p = p\<lparr>pf_harness := (if pf_harness p = [] then kind_claude else pf_harness p),
     pf_approval_timeout := whole_seconds (pf_approval_timeout p)\<rparr>"

definition list_profiles :: "world \<Rightarrow> (profile list) world_reply" where
  "list_profiles w = (Answered 200 (map profile_dto (profiles_list w)), w)"

definition or_else :: "'a option \<Rightarrow> 'a \<Rightarrow> 'a" where
  "or_else x y = (case x of None \<Rightarrow> y | Some v \<Rightarrow> v)"

text \<open>The fields a body sets. Seconds times \<open>time.Second\<close> is a product of 64-bit integers.\<close>

definition patched_profile :: "profile_body \<Rightarrow> profile \<Rightarrow> profile" where
  "patched_profile b p =
     p\<lparr>pf_name := or_else (pb_name b) (pf_name p), pf_mode := or_else (pb_mode b) (pf_mode p),
       pf_allowed_tools := or_else (pb_allowed b) (pf_allowed_tools p),
       pf_disallowed_tools := or_else (pb_disallowed b) (pf_disallowed_tools p),
       pf_max_turns := or_else (pb_max_turns b) (pf_max_turns p),
       pf_unattended := or_else (pb_unattended b) (pf_unattended p),
       pf_approval_timeout := or_else (map_option (\<lambda>n. int64 (n * 1000000000)) (pb_timeout b)) (pf_approval_timeout p),
       pf_model := or_else (pb_model b) (pf_model p), pf_effort := or_else (pb_effort b) (pf_effort p),
       pf_harness := or_else (pb_harness b) (pf_harness p)\<rparr>"

definition mode_refused :: "profile_body \<Rightarrow> bool" where
  "mode_refused b = (case pb_mode b of None \<Rightarrow> False | Some m \<Rightarrow> m \<notin> set allowed_modes)"

definition effort_refused :: "profile_body \<Rightarrow> bool" where
  "effort_refused b = (case pb_effort b of None \<Rightarrow> False | Some e \<Rightarrow> \<not> valid_effort e)"

definition harness_refused :: "profile_body \<Rightarrow> bool" where
  "harness_refused b = (case pb_harness b of None \<Rightarrow> False | Some k \<Rightarrow> \<not> valid_kind k)"

definition new_profile :: "id \<Rightarrow> profile_body \<Rightarrow> profile" where
  "new_profile i b = patched_profile b
     \<lparr>pf_id = i, pf_name = [], pf_mode = [], pf_allowed_tools = [], pf_disallowed_tools = [], pf_max_turns = 0,
      pf_unattended = False, pf_approval_timeout = 0, pf_builtin = False, pf_model = [], pf_effort = [], pf_harness = []\<rparr>"

definition create_profile :: "(nat \<Rightarrow> id) \<Rightarrow> profile_body option \<Rightarrow> world \<Rightarrow> profile world_reply" where
  "create_profile uuid body w =
     (case body of
        None \<Rightarrow> (Refused 422 ''invalid'', w)
      | Some b \<Rightarrow>
          (if or_else (pb_name b) [] = [] \<or> pb_mode b = None then (Refused 422 ''invalid'', w)
           else if mode_refused b then (Refused 422 ''invalid'', w)
           else if effort_refused b then (Refused 422 ''invalid'', w)
           else if harness_refused b then (Refused 422 ''invalid'', w)
           else (let (i, w1) = new_uuid uuid w; p = new_profile i b
                 in case profiles_create p w1 of
                      (Inl e, w2) \<Rightarrow> (write_error e, w2)
                    | (Inr _, w2) \<Rightarrow> (Answered 201 (profile_dto p), w2))))"

definition builtin_refused :: "profile \<Rightarrow> profile_body \<Rightarrow> bool" where
  "builtin_refused p b \<longleftrightarrow> pf_builtin p \<and>
     (pb_name b \<noteq> None \<or> pb_mode b \<noteq> None \<or> pb_allowed b \<noteq> None \<or> pb_disallowed b \<noteq> None \<or> pb_unattended b \<noteq> None)"

definition patch_profile :: "id \<Rightarrow> profile_body option \<Rightarrow> world \<Rightarrow> profile world_reply" where
  "patch_profile i body w =
     (case profiles_get i w of
        Inl e \<Rightarrow> (write_error e, w)
      | Inr p \<Rightarrow>
          (case body of
             None \<Rightarrow> (Refused 422 ''invalid'', w)
           | Some b \<Rightarrow>
               (if mode_refused b then (Refused 422 ''invalid'', w)
                else if effort_refused b then (Refused 422 ''invalid'', w)
                else if harness_refused b then (Refused 422 ''invalid'', w)
                else if builtin_refused p b then (Refused 422 ''invalid'', w)
                else (let q = patched_profile b p
                      in case profiles_update q w of
                           (Inl e, w1) \<Rightarrow> (write_error e, w1)
                         | (Inr _, w1) \<Rightarrow> (Answered 200 (profile_dto q), w1)))))"

end
