(* ===== verification/Run_Api.thy ===== *)
theory Run_Api
  imports Profiles Schedules Runs Pipeline_Service
begin

text \<open>
  The routes in front of templates, triggers, deliveries, webhooks, runs, loops, schedules and pipelines,
  \<open>internal/api/*_handlers.go\<close>. A handler takes the acting user, the parts of the request it reads and the world. The
  body is decoded outside, \<open>None\<close> when that fails; what a reply shows of a row is the row, but for the fields that a
  reply leaves out or adds. Query parameters are texts.
\<close>

section \<open>Shapes of handlers\<close>

text \<open>A service call's error goes through \<open>WriteError\<close>, its value is answered with a status.\<close>

definition answer :: "nat \<Rightarrow> (error + 'b) \<times> 'w \<Rightarrow> 'b reply \<times> 'w" where
  "answer code r = (case r of (Inl e, w) \<Rightarrow> (write_error e, w) | (Inr x, w) \<Rightarrow> (Answered code x, w))"

definition answer_read :: "nat \<Rightarrow> error + 'b \<Rightarrow> 'w \<Rightarrow> 'b reply \<times> 'w" where
  "answer_read code r w = answer code (r, w)"

definition with_body :: "'i option \<Rightarrow> ('i \<Rightarrow> 'b reply \<times> 'w) \<Rightarrow> 'w \<Rightarrow> 'b reply \<times> 'w" where
  "with_body body h w = (case body of None \<Rightarrow> (Refused 422 ''invalid'', w) | Some b \<Rightarrow> h b)"

definition map_reply :: "('a \<Rightarrow> 'b) \<Rightarrow> 'a reply \<times> 'w \<Rightarrow> 'b reply \<times> 'w" where
  "map_reply f r = (case fst r of Refused c n \<Rightarrow> Refused c n | Answered c x \<Rightarrow> Answered c (f x), snd r)"

text \<open>\<open>actorFrom\<close>, \<open>context.go\<close>.\<close>

definition actor_from :: "principal option \<Rightarrow> actor" where
  "actor_from p =
     (case p of
        None \<Rightarrow> \<lparr>ac_user = [], ac_admin = False\<rparr>
      | Some pn \<Rightarrow> \<lparr>ac_user = us_id (pn_user pn), ac_admin = (us_role (pn_user pn) = RoleAdmin)\<rparr>)"

text \<open>A limit in the query: kept when it is a number that passes the test.\<close>

definition query_limit :: "(int \<Rightarrow> bool) \<Rightarrow> int \<Rightarrow> string \<Rightarrow> int" where
  "query_limit good dflt s =
     (if s = [] then dflt else case parse_int s of None \<Rightarrow> dflt | Some n \<Rightarrow> if good n then n else dflt)"

text \<open>An optional JSON object: absent, an object, or something else.\<close>

datatype object_field = Missing | Object vars | NoObject

section \<open>Templates (templates_handlers.go)\<close>

definition handle_templates_list :: "actor \<Rightarrow> world \<Rightarrow> (tmpl list) world_reply" where
  "handle_templates_list a w = answer_read 200 (Inr (list_templates a w)) w"

definition handle_templates_create :: "trigger_service \<Rightarrow> actor \<Rightarrow> template_input option \<Rightarrow> world \<Rightarrow> tmpl world_reply" where
  "handle_templates_create ts a body w = with_body body (\<lambda>b. answer 201 (create_template ts a b w)) w"

definition handle_templates_get :: "actor \<Rightarrow> id \<Rightarrow> world \<Rightarrow> tmpl world_reply" where
  "handle_templates_get a i w = answer_read 200 (get_template a i w) w"

definition handle_templates_patch :: "actor \<Rightarrow> id \<Rightarrow> template_input option \<Rightarrow> world \<Rightarrow> tmpl world_reply" where
  "handle_templates_patch a i body w = with_body body (\<lambda>b. answer 200 (update_template a i b w)) w"

definition handle_templates_delete :: "actor \<Rightarrow> id \<Rightarrow> world \<Rightarrow> unit world_reply" where
  "handle_templates_delete a i w = answer 204 (delete_template a i w)"

record render_body =
  rb_payload :: string
  rb_kind :: string
  rb_title :: "string option"
  rb_prompt :: "string option"

text \<open>
  A failed \<open>Render\<close> keeps what was rendered so far in Go; the reply's text is then the empty text of \<open>ge_render\<close>, as
  in \<open>render_template\<close>.
\<close>

definition render_with_overrides :: "trigger_service \<Rightarrow> actor \<Rightarrow> id \<Rightarrow> string \<Rightarrow> render_body \<Rightarrow> world \<Rightarrow> error + render_result" where
  "render_with_overrides ts a i kind b w =
     (case get_template a i w of
        Inl e \<Rightarrow> Inl e
      | Inr tpl \<Rightarrow>
          (case normalize (ts_env ts) kind (rb_payload b) of
             Inl e \<Rightarrow> Inr \<lparr>rr_title = [], rr_prompt = [], rr_errors = [e]\<rparr>
           | Inr vars \<Rightarrow>
               (let (title, e1) = (case ge_render (ts_env ts) (or_else (rb_title b) (tp_title tpl)) vars of
                      Inl e \<Rightarrow> ([], [RenderFailed e]) | Inr s \<Rightarrow> (s, []));
                    (prompt, e2) = (case ge_render (ts_env ts) (or_else (rb_prompt b) (tp_prompt tpl)) vars of
                      Inl e \<Rightarrow> ([], [RenderFailed e]) | Inr s \<Rightarrow> (s, []))
                in Inr \<lparr>rr_title = title, rr_prompt = prompt, rr_errors = e1 @ e2\<rparr>)))"

definition handle_templates_render :: "trigger_service \<Rightarrow> actor \<Rightarrow> id \<Rightarrow> render_body option \<Rightarrow> world \<Rightarrow> render_result world_reply" where
  "handle_templates_render ts a i body w =
     with_body body (\<lambda>b.
       let kind = (if rb_kind b = [] then ''grafana'' else rb_kind b)
       in if rb_title b \<noteq> None \<or> rb_prompt b \<noteq> None
          then answer_read 200 (render_with_overrides ts a i kind b w) w
          else answer_read 200 (render_template ts a i kind (rb_payload b) w) w) w"

definition handle_templates_run :: "engine \<Rightarrow> actor \<Rightarrow> id \<Rightarrow> object_field option \<Rightarrow> world \<Rightarrow> id world_reply" where
  "handle_templates_run en a i body w =
     with_body body (\<lambda>f. case f of
         NoObject \<Rightarrow> (Refused 422 ''invalid'', w)
       | Missing \<Rightarrow> map_reply rn_id (answer 202 (start_manual en i [] w))
       | Object vs \<Rightarrow> map_reply rn_id (answer 202 (start_manual en i vs w))) w"

section \<open>Triggers (triggers_handlers.go)\<close>

definition allowed_sample_kinds :: "string list" where
  "allowed_sample_kinds = [''generic'', ''grafana'', ''github'']"

text \<open>A reply never shows the hash of the secret.\<close>

definition trigger_dto :: "trigger \<Rightarrow> trigger" where
  "trigger_dto t = t\<lparr>tr_secret_hash := []\<rparr>"

record trigger_body =
  tb_input :: trigger_input
  tb_pipeline :: "string option"

definition trigger_to_domain :: "trigger_body \<Rightarrow> trigger_input" where
  "trigger_to_domain b = (tb_input b)\<lparr>gin_pipeline := deref_string (tb_pipeline b)\<rparr>"

definition exactly_one_target :: "string \<Rightarrow> string option \<Rightarrow> bool" where
  "exactly_one_target template pipeline = ((template \<noteq> []) \<noteq> (deref_string pipeline \<noteq> []))"

definition handle_triggers_list :: "actor \<Rightarrow> world \<Rightarrow> (trigger list) world_reply" where
  "handle_triggers_list a w = answer_read 200 (Inr (map trigger_dto (list_triggers a w))) w"

definition handle_triggers_create :: "trigger_service \<Rightarrow> actor \<Rightarrow> trigger_body option \<Rightarrow> world \<Rightarrow> (trigger \<times> string) world_reply" where
  "handle_triggers_create ts a body w =
     with_body body (\<lambda>b.
       if \<not> exactly_one_target (gin_template (tb_input b)) (tb_pipeline b) then (Refused 422 ''invalid'', w)
       else map_reply (apfst trigger_dto) (answer 201 (create_trigger ts a (trigger_to_domain b) w))) w"

definition handle_triggers_sample :: "trigger_service \<Rightarrow> string \<Rightarrow> world \<Rightarrow> string world_reply" where
  "handle_triggers_sample ts kind w =
     (if kind \<notin> set allowed_sample_kinds then (Refused 404 ''not_found'', w)
      else (Answered 200 (sample_payload (ts_samples ts) kind), w))"

definition handle_triggers_get :: "actor \<Rightarrow> id \<Rightarrow> world \<Rightarrow> trigger world_reply" where
  "handle_triggers_get a i w = map_reply trigger_dto (answer_read 200 (get_trigger a i w) w)"

definition handle_triggers_patch :: "actor \<Rightarrow> id \<Rightarrow> trigger_body option \<Rightarrow> world \<Rightarrow> trigger world_reply" where
  "handle_triggers_patch a i body w =
     with_body body (\<lambda>b.
       if \<not> exactly_one_target (gin_template (tb_input b)) (tb_pipeline b) then (Refused 422 ''invalid'', w)
       else map_reply trigger_dto (answer 200 (update_trigger a i (trigger_to_domain b) w))) w"

definition handle_triggers_delete :: "actor \<Rightarrow> id \<Rightarrow> world \<Rightarrow> unit world_reply" where
  "handle_triggers_delete a i w = answer 204 (delete_trigger a i w)"

definition handle_triggers_rotate :: "trigger_service \<Rightarrow> actor \<Rightarrow> id \<Rightarrow> world \<Rightarrow> string world_reply" where
  "handle_triggers_rotate ts a i w = answer 200 (rotate_secret ts a i w)"

definition handle_triggers_deliveries :: "actor \<Rightarrow> id \<Rightarrow> string \<Rightarrow> world \<Rightarrow> (delivery list) world_reply" where
  "handle_triggers_deliveries a i limit w = answer_read 200 (list_deliveries a i (query_limit (\<lambda>n. n > 0) 50 limit) w) w"

text \<open>What a delivery's reply says: its id, its status and the run it started.\<close>

definition delivery_result :: "delivery \<Rightarrow> id \<times> delivery_status \<times> id option" where
  "delivery_result dl = (dl_id dl, dl_status dl, dl_run dl)"

definition handle_triggers_test :: "trigger_service \<Rightarrow> actor \<Rightarrow> id \<Rightarrow> (string \<times> bool) option \<Rightarrow> world \<Rightarrow>
    (id \<times> delivery_status \<times> id option) world_reply" where
  "handle_triggers_test ts a i body w =
     with_body body (\<lambda>(payload, force). map_reply delivery_result (answer 200 (test_trigger ts a i payload force w))) w"

definition handle_deliveries_replay :: "trigger_service \<Rightarrow> actor \<Rightarrow> id \<Rightarrow> world \<Rightarrow> id option world_reply" where
  "handle_deliveries_replay ts a i w = map_reply dl_run (answer 202 (replay ts a i w))"

section \<open>Webhooks (hooks_handlers.go)\<close>

definition max_hook_body :: nat where "max_hook_body = 256 * 1024"

definition write_hook_error :: "error \<Rightarrow> 'b reply" where
  "write_hook_error e =
     (case e of
        ErrUnknownTrigger \<Rightarrow> Refused 404 ''not_found''
      | ErrBadSecret \<Rightarrow> Refused 401 ''unauthorized''
      | ErrTooLarge \<Rightarrow> Refused 413 ''too_large''
      | _ \<Rightarrow> Refused 500 ''internal'')"

text \<open>The body, unless it breaks off; \<open>MaxBytesReader\<close> stops after the limit.\<close>

definition handle_hooks_deliver :: "trigger_service \<Rightarrow> bool \<Rightarrow> inbound \<Rightarrow> world \<Rightarrow> (id \<times> delivery_status \<times> id option) world_reply" where
  "handle_hooks_deliver ts readable inb w =
     (if length (ib_body inb) > max_hook_body then (Refused 413 ''too_large'', w)
      else if \<not> readable then (Refused 400 ''invalid'', w)
      else case deliver ts inb w of
             (Inl e, w1) \<Rightarrow> (write_hook_error e, w1)
           | (Inr dl, w1) \<Rightarrow> (Answered 202 (delivery_result dl), w1))"

section \<open>Runs and loops (runs_handlers.go, loops_handlers.go)\<close>

definition handle_runs_list :: "engine \<Rightarrow> run_filter \<Rightarrow> string \<Rightarrow> world \<Rightarrow> (run_details list) world_reply" where
  "handle_runs_list en f limit w =
     answer_read 200 (Inr (list_run_details en (f\<lparr>rf_limit := query_limit (\<lambda>_. True) 0 limit\<rparr>) w)) w"

definition handle_runs_get :: "engine \<Rightarrow> id \<Rightarrow> world \<Rightarrow> run_details world_reply" where
  "handle_runs_get en i w = answer_read 200 (get_run_details en i w) w"

definition handle_loops_list :: "engine \<Rightarrow> loop_state option \<Rightarrow> string \<Rightarrow> world \<Rightarrow> (loop list) world_reply" where
  "handle_loops_list en st limit w = answer_read 200 (Inr (list_loops en st (query_limit (\<lambda>n. n > 0) 0 limit) w)) w"

definition handle_loops_get :: "engine \<Rightarrow> id \<Rightarrow> world \<Rightarrow> loop_view world_reply" where
  "handle_loops_get en i w = answer_read 200 (get_loop en i w) w"

definition handle_loops_stop :: "engine \<Rightarrow> id \<Rightarrow> world \<Rightarrow> unit world_reply" where
  "handle_loops_stop en i w = answer 202 (stop_loop en i w)"

section \<open>Schedules (schedules_handlers.go)\<close>

record schedule_body =
  sb_input :: schedule_input
  sb_pipeline :: "string option"

definition schedule_to_domain :: "schedule_body \<Rightarrow> schedule_input" where
  "schedule_to_domain b = (sb_input b)\<lparr>sin_pipeline := deref_string (sb_pipeline b)\<rparr>"

definition handle_schedules_list :: "actor \<Rightarrow> world \<Rightarrow> (schedule list) world_reply" where
  "handle_schedules_list a w = answer_read 200 (Inr (list_schedules a w)) w"

definition handle_schedules_create :: "schedule_service \<Rightarrow> actor \<Rightarrow> schedule_body option \<Rightarrow> world \<Rightarrow> schedule world_reply" where
  "handle_schedules_create sv a body w =
     with_body body (\<lambda>b.
       if \<not> exactly_one_target (sin_template (sb_input b)) (sb_pipeline b) then (Refused 422 ''invalid'', w)
       else answer 201 (create_schedule sv a (schedule_to_domain b) w)) w"

definition handle_schedules_get :: "actor \<Rightarrow> id \<Rightarrow> world \<Rightarrow> schedule world_reply" where
  "handle_schedules_get a i w = answer_read 200 (get_schedule a i w) w"

definition handle_schedules_patch :: "schedule_service \<Rightarrow> actor \<Rightarrow> id \<Rightarrow> schedule_body option \<Rightarrow> world \<Rightarrow> schedule world_reply" where
  "handle_schedules_patch sv a i body w =
     with_body body (\<lambda>b.
       if \<not> exactly_one_target (sin_template (sb_input b)) (sb_pipeline b) then (Refused 422 ''invalid'', w)
       else answer 200 (update_schedule sv a i (schedule_to_domain b) w)) w"

definition handle_schedules_delete :: "actor \<Rightarrow> id \<Rightarrow> world \<Rightarrow> unit world_reply" where
  "handle_schedules_delete a i w = answer 204 (delete_schedule a i w)"

text \<open>The run a schedule started, and the id of the pipeline run when it is one; \<open>Recoverer\<close> answers a panic.\<close>

definition run_reference :: "run \<Rightarrow> id \<times> id" where
  "run_reference r = (rn_id r, case cut_prefix (rn_id r) ''pr:'' of None \<Rightarrow> [] | Some i \<Rightarrow> i)"

definition handle_schedules_run :: "schedule_service \<Rightarrow> actor \<Rightarrow> id \<Rightarrow> world \<Rightarrow> (id \<times> id) world_reply" where
  "handle_schedules_run sv a i w =
     (case run_now sv a i w of
        (None, w1) \<Rightarrow> (Refused 500 [], w1)
      | (Some r, w1) \<Rightarrow> map_reply run_reference (answer 202 (r, w1)))"

definition handle_schedules_firings :: "actor \<Rightarrow> id \<Rightarrow> string \<Rightarrow> world \<Rightarrow> (firing list) world_reply" where
  "handle_schedules_firings a i limit w = answer_read 200 (schedule_firings a i (query_limit (\<lambda>n. n > 0) 0 limit) w) w"

definition handle_schedules_preview :: "schedule_service \<Rightarrow> string option \<Rightarrow> world \<Rightarrow> (time list \<times> string) world_reply" where
  "handle_schedules_preview sv body w =
     (case body of
        None \<Rightarrow> (Refused 422 ''invalid_cron'', w)
      | Some expr \<Rightarrow>
          (case preview sv expr w of Inl e \<Rightarrow> (Refused 422 ''invalid_cron'', w) | Inr v \<Rightarrow> (Answered 200 v, w)))"

section \<open>Pipelines (pipelines_handlers.go, pipeline_runs_handlers.go)\<close>

text \<open>\<open>writePipelineError\<close>: no service constructs a \<open>ValidationError\<close>, so it is \<open>WriteError\<close>.\<close>

definition handle_pipelines_list :: "actor \<Rightarrow> world \<Rightarrow> (pipeline list) world_reply" where
  "handle_pipelines_list a w = answer_read 200 (Inr (list_pipelines a w)) w"

definition handle_pipelines_create :: "executor \<Rightarrow> actor \<Rightarrow> pipeline_input option \<Rightarrow> world \<Rightarrow> pipeline world_reply" where
  "handle_pipelines_create ex a body w = with_body body (\<lambda>b. answer 201 (create_pipeline ex a b w)) w"

definition handle_pipelines_validate :: "executor \<Rightarrow> actor \<Rightarrow> (string \<times> id) option \<Rightarrow> world \<Rightarrow>
    (bool \<times> problem list \<times> graph_node list \<times> (id \<times> id) list) world_reply" where
  "handle_pipelines_validate ex a body w =
     with_body body (\<lambda>(yaml, ws).
       let (problems, g) = ex_validate ex a ws yaml w in (Answered 200 (problems = [], problems, g), w)) w"

definition handle_pipelines_get :: "actor \<Rightarrow> id \<Rightarrow> world \<Rightarrow> pipeline world_reply" where
  "handle_pipelines_get a i w = answer_read 200 (get_pipeline a i w) w"

definition handle_pipelines_patch :: "executor \<Rightarrow> actor \<Rightarrow> id \<Rightarrow> pipeline_input option \<Rightarrow> world \<Rightarrow> pipeline world_reply" where
  "handle_pipelines_patch ex a i body w = with_body body (\<lambda>b. answer 200 (update_pipeline ex a i b w)) w"

definition handle_pipelines_delete :: "actor \<Rightarrow> id \<Rightarrow> world \<Rightarrow> unit world_reply" where
  "handle_pipelines_delete a i w = answer 204 (delete_pipeline a i w)"

definition handle_pipelines_start :: "executor \<Rightarrow> actor \<Rightarrow> id \<Rightarrow> object_field option \<Rightarrow> world \<Rightarrow> id world_reply" where
  "handle_pipelines_start ex a i body w =
     with_body body (\<lambda>f. case f of
         NoObject \<Rightarrow> (Refused 422 ''invalid'', w)
       | Missing \<Rightarrow> map_reply pr_id (answer 202 (start_pipeline ex a i [] ''ui'' [] w))
       | Object vs \<Rightarrow> map_reply pr_id (answer 202 (start_pipeline ex a i vs ''ui'' [] w))) w"

definition handle_pipeline_runs_list :: "actor \<Rightarrow> pipeline_run_filter \<Rightarrow> string \<Rightarrow> world \<Rightarrow> (pipeline_run list) world_reply" where
  "handle_pipeline_runs_list a f limit w =
     answer_read 200 (Inr (list_runs a (f\<lparr>prf_limit := query_limit (\<lambda>_. True) 0 limit\<rparr>) w)) w"

definition handle_pipeline_runs_get :: "executor \<Rightarrow> actor \<Rightarrow> id \<Rightarrow> world \<Rightarrow> run_view world_reply" where
  "handle_pipeline_runs_get ex a i w = answer_read 200 (get_run ex a i w) w"

definition handle_pipeline_runs_cancel :: "executor \<Rightarrow> actor \<Rightarrow> id \<Rightarrow> world \<Rightarrow> unit world_reply" where
  "handle_pipeline_runs_cancel ex a i w = answer 202 (cancel ex a i w)"

definition handle_pipeline_runs_retry :: "executor \<Rightarrow> actor \<Rightarrow> id \<Rightarrow> world \<Rightarrow> unit world_reply" where
  "handle_pipeline_runs_retry ex a i w = answer 202 (retry_failed ex a i w)"

end
