(* ===== verification/Session_Api.thy ===== *)
theory Session_Api
  imports Run_Api Workspaces Review Stats Notify
begin

text \<open>
  The routes in front of sessions, approvals, reviews, workspaces, statistics and notification channels,
  \<open>internal/api/*_handlers.go\<close>, and the repository of those channels, \<open>db/notification_channels.go\<close>. A handler works
  on the part of the \<open>site\<close> its service does: the world, the disk of the workspaces, git's checkout, the channels.
\<close>

section \<open>Sessions (sessions_handlers.go)\<close>

definition handle_sessions_list :: "actor \<Rightarrow> world \<Rightarrow> (session list) world_reply" where
  "handle_sessions_list a w = answer_read 200 (Inr (list_sessions a w)) w"

record session_body =
  nb_workspace :: id
  nb_profile :: id
  nb_title :: string
  nb_prompt :: string
  nb_model :: string
  nb_effort :: string
  nb_worktree :: string
  nb_harness :: string

definition session_input :: "actor \<Rightarrow> session_body \<Rightarrow> create_input" where
  "session_input a b =
     \<lparr>ci_workspace = nb_workspace b, ci_profile = nb_profile b, ci_title = nb_title b, ci_prompt = nb_prompt b,
      ci_origin = OriginUI, ci_origin_ref = [], ci_owner = Some (ac_user a), ci_model = nb_model b, ci_effort = nb_effort b,
      ci_harness = nb_harness b, ci_json_schema = [], ci_system_prompt = [], ci_run = [], ci_worktree = nb_worktree b\<rparr>"

definition handle_sessions_create :: "session_service \<Rightarrow> actor \<Rightarrow> session_body option \<Rightarrow> world \<Rightarrow> session world_reply" where
  "handle_sessions_create ss a body w =
     with_body body (\<lambda>b.
       if nb_workspace b = [] \<or> nb_profile b = [] \<or> nb_prompt b = [] then (Refused 422 ''invalid'', w)
       else answer 201 (create_session ss a (session_input a b) w)) w"

definition handle_sessions_get :: "actor \<Rightarrow> id \<Rightarrow> world \<Rightarrow> session world_reply" where
  "handle_sessions_get a i w = answer_read 200 (get_session a i w) w"

definition handle_sessions_message :: "session_service \<Rightarrow> actor \<Rightarrow> id \<Rightarrow> string option \<Rightarrow> world \<Rightarrow> unit world_reply" where
  "handle_sessions_message ss a i body w =
     with_body body (\<lambda>text'. if text' = [] then (Refused 422 ''invalid'', w) else answer 202 (send_session ss a i text' w)) w"

definition handle_sessions_interrupt :: "session_service \<Rightarrow> actor \<Rightarrow> id \<Rightarrow> world \<Rightarrow> unit world_reply" where
  "handle_sessions_interrupt ss a i w = answer 202 (interrupt_session ss a i w)"

definition handle_sessions_close :: "session_service \<Rightarrow> actor \<Rightarrow> id \<Rightarrow> world \<Rightarrow> unit world_reply" where
  "handle_sessions_close ss a i w = answer 204 (close_session ss a i w)"

definition handle_sessions_model :: "session_service \<Rightarrow> actor \<Rightarrow> id \<Rightarrow> (string \<times> string) option \<Rightarrow> world \<Rightarrow> unit world_reply" where
  "handle_sessions_model ss a i body w =
     with_body body (\<lambda>(model, effort). answer 202 (switch_model ss a i model effort w)) w"

text \<open>
  \<open>ParseInt\<close> with its error ignored: zero for what is no number, the largest 64-bit integer for one that is too large.
  A sequence number below zero reads like zero, since all numbers start at one.
\<close>

definition query_after :: "string \<Rightarrow> nat" where
  "query_after s =
     (case parse_int s of
        Some n \<Rightarrow> nat n
      | None \<Rightarrow> (let ds = (if has_prefix s ''+'' then tl s else s) in if ds \<noteq> [] \<and> list_all decimal_digit ds then 2 ^ 63 - 1 else 0))"

definition handle_sessions_events :: "actor \<Rightarrow> id \<Rightarrow> string \<Rightarrow> string \<Rightarrow> world \<Rightarrow> (event_row list) world_reply" where
  "handle_sessions_events a i after limit w =
     answer_read 200 (session_events a i (query_after after)
       (nat (query_limit (\<lambda>n. n > 0) 500 limit)) w) w"

section \<open>Approvals (approvals_handlers.go)\<close>

text \<open>A pending approval with the title and the last line of its session, where the caller may see it.\<close>

definition approval_dto :: "actor \<Rightarrow> world \<Rightarrow> approval \<Rightarrow> approval \<times> string \<times> string" where
  "approval_dto a w ap =
     (case get_session a (ap_session ap) w of
        Inl e \<Rightarrow> (ap, [], [])
      | Inr s \<Rightarrow> (ap, se_title s, se_now_line s))"

definition handle_approvals_list :: "actor \<Rightarrow> world \<Rightarrow> ((approval \<times> string \<times> string) list) world_reply" where
  "handle_approvals_list a w = answer_read 200 (Inr (map (approval_dto a w) (pending_approvals a w))) w"

record decision_body =
  db_decision :: string
  db_input :: string
  db_message :: string

definition handle_approvals_decide :: "session_service \<Rightarrow> actor \<Rightarrow> id \<Rightarrow> decision_body option \<Rightarrow> world \<Rightarrow> unit world_reply" where
  "handle_approvals_decide ss a i body w =
     with_body body (\<lambda>b.
       if db_decision b \<noteq> ''allow'' \<and> db_decision b \<noteq> ''deny'' then (Refused 422 ''invalid'', w)
       else answer 204 (decide ss a i (db_decision b = ''allow'') (db_input b) (db_message b) w)) w"

text \<open>The time to snooze until, \<open>None\<close> for Go's zero time.\<close>

definition handle_approvals_snooze :: "actor \<Rightarrow> id \<Rightarrow> time option option \<Rightarrow> world \<Rightarrow> unit world_reply" where
  "handle_approvals_snooze a i body w =
     with_body body (\<lambda>until. case until of None \<Rightarrow> (Refused 422 ''invalid'', w) | Some t \<Rightarrow> answer 204 (snooze a i t w)) w"

section \<open>Review (review_handlers.go, review_actions_handlers.go)\<close>

definition write_review_error :: "error \<Rightarrow> 'b reply" where
  "write_review_error e =
     (if e = ErrConflict ''gh is not installed or not authenticated'' then Refused 409 ''gh_unavailable''
      else if e = ErrConflict ''the workspace has no git remote configured'' then Refused 409 ''no_remote''
      else write_error e)"

definition answer_review :: "nat \<Rightarrow> error + 'b \<Rightarrow> 'b reply" where
  "answer_review code r = (case r of Inl e \<Rightarrow> write_review_error e | Inr x \<Rightarrow> Answered code x)"

definition handle_session_diff :: "'g review_service \<Rightarrow> actor \<Rightarrow> id \<Rightarrow> 'g checkout \<Rightarrow> world \<Rightarrow> review_diff reply \<times> 'g checkout" where
  "handle_session_diff rv a i co w = answer 200 (review_summary rv a i co w)"

definition handle_session_file_diff :: "'g review_service \<Rightarrow> actor \<Rightarrow> id \<Rightarrow> string \<Rightarrow> 'g checkout \<Rightarrow> world \<Rightarrow>
    file_diff reply \<times> 'g checkout" where
  "handle_session_file_diff rv a i path co w =
     (if path = [] then (Refused 422 ''invalid'', co) else answer 200 (review_file_diff rv a i path co w))"

definition handle_session_patch :: "'g review_service \<Rightarrow> actor \<Rightarrow> id \<Rightarrow> 'g checkout \<Rightarrow> world \<Rightarrow> string reply \<times> 'g checkout" where
  "handle_session_patch rv a i co w = answer 200 (review_patch rv a i co w)"

definition handle_comments_list :: "'g review_service \<Rightarrow> actor \<Rightarrow> id \<Rightarrow> world \<Rightarrow> ((review_comment \<times> string) list) world_reply" where
  "handle_comments_list rv a i w = answer_read 200 (review_comments rv a i w) w"

definition handle_comment_create :: "'g review_service \<Rightarrow> actor \<Rightarrow> id \<Rightarrow> comment_input option \<Rightarrow> world \<Rightarrow>
    (review_comment \<times> string) world_reply" where
  "handle_comment_create rv a i body w =
     with_body body (\<lambda>b.
       if ct_path b = [] \<or> ct_body b = [] then (Refused 422 ''invalid'', w) else answer 201 (add_comment rv a i b w)) w"

definition handle_comment_delete :: "actor \<Rightarrow> id \<Rightarrow> id \<Rightarrow> world \<Rightarrow> unit world_reply" where
  "handle_comment_delete a i cid w = answer 204 (delete_comment a i cid w)"

definition handle_review_send :: "'g review_service \<Rightarrow> actor \<Rightarrow> id \<Rightarrow> world \<Rightarrow> unit world_reply" where
  "handle_review_send rv a i w = answer 202 (send_review rv a i w)"

definition handle_session_commit :: "'g review_service \<Rightarrow> actor \<Rightarrow> id \<Rightarrow> string option \<Rightarrow> 'g checkout \<times> world \<Rightarrow>
    string reply \<times> 'g checkout \<times> world" where
  "handle_session_commit rv a i body cw =
     with_body body (\<lambda>message.
       if message = [] then (Refused 422 ''invalid'', cw)
       else let (r, cw') = commit_review rv a i message (fst cw) (snd cw) in (answer_review 200 r, cw')) cw"

definition handle_session_pr :: "'g review_service \<Rightarrow> actor \<Rightarrow> id \<Rightarrow> (string \<times> string \<times> string) option \<Rightarrow> 'g checkout \<Rightarrow> world \<Rightarrow>
    string reply \<times> 'g checkout" where
  "handle_session_pr rv a i body co w =
     with_body body (\<lambda>(title, txt', base).
       if title = [] then (Refused 422 ''invalid'', co)
       else let (r, co') = open_pr rv a i title txt' base co w in (answer_review 200 r, co')) co"

definition handle_checkpoints_list :: "actor \<Rightarrow> id \<Rightarrow> world \<Rightarrow> (checkpoint list) world_reply" where
  "handle_checkpoints_list a i w = answer_read 200 (review_checkpoints a i w) w"

definition handle_session_rewind :: "'g review_service \<Rightarrow> actor \<Rightarrow> id \<Rightarrow> id option \<Rightarrow> 'g checkout \<times> world \<Rightarrow>
    unit reply \<times> 'g checkout \<times> world" where
  "handle_session_rewind rv a i body cw =
     with_body body (\<lambda>cid.
       if cid = [] then (Refused 422 ''invalid'', cw) else answer 202 (rewind_review rv a i cid (fst cw) (snd cw))) cw"

definition handle_session_discard :: "'g review_service \<Rightarrow> actor \<Rightarrow> id \<Rightarrow> 'g checkout \<times> world \<Rightarrow> unit reply \<times> 'g checkout \<times> world" where
  "handle_session_discard rv a i cw = answer 204 (discard_review rv a i (fst cw) (snd cw))"

section \<open>Workspaces (workspaces_handlers.go)\<close>

definition write_workspace_error :: "error \<Rightarrow> 'b reply" where
  "write_workspace_error e =
     (if e = invalid_url then Refused 422 ''invalid_url''
      else if e = invalid_path then Refused 422 ''invalid_path''
      else if e = Workspaces.name_taken then Refused 422 ''name_taken''
      else write_error e)"

definition handle_workspaces_list :: "workspace_service \<Rightarrow> actor \<Rightarrow> world \<Rightarrow> (workspace list) world_reply" where
  "handle_workspaces_list wv a w = answer_read 200 (Inr (list_workspaces wv a w)) w"

definition handle_workspaces_create :: "workspace_service \<Rightarrow> actor \<Rightarrow> workspace_input option \<Rightarrow> backstage \<times> world \<Rightarrow>
    workspace reply \<times> backstage \<times> world" where
  "handle_workspaces_create wv a body bw =
     with_body body (\<lambda>b.
       if wi_name b = [] \<or> wi_source b = [] then (Refused 422 ''invalid'', bw)
       else case create_workspace wv a b (fst bw) (snd bw) of
              (Inl e, bw1) \<Rightarrow> (write_workspace_error e, bw1)
            | (Inr ws, bw1) \<Rightarrow> (Answered 201 ws, bw1)) bw"

definition handle_workspaces_get :: "workspace_service \<Rightarrow> actor \<Rightarrow> id \<Rightarrow> world \<Rightarrow> workspace world_reply" where
  "handle_workspaces_get wv a i w = answer_read 200 (get_workspace wv a i w) w"

definition handle_workspaces_patch :: "workspace_service \<Rightarrow> actor \<Rightarrow> id \<Rightarrow> workspace_update option \<Rightarrow> world \<Rightarrow> workspace world_reply" where
  "handle_workspaces_patch wv a i body w = with_body body (\<lambda>b. answer 200 (update_workspace wv a i b w)) w"

definition handle_workspaces_delete :: "workspace_service \<Rightarrow> actor \<Rightarrow> id \<Rightarrow> backstage \<times> world \<Rightarrow> unit reply \<times> backstage \<times> world" where
  "handle_workspaces_delete wv a i bw = answer 204 (delete_workspace wv a i (fst bw) (snd bw))"

definition handle_workspaces_retry :: "workspace_service \<Rightarrow> actor \<Rightarrow> id \<Rightarrow> backstage \<times> world \<Rightarrow> workspace reply \<times> backstage \<times> world" where
  "handle_workspaces_retry wv a i bw = answer 200 (retry_workspace wv a i (fst bw) (snd bw))"

text \<open>The users of an access list that still exist, by id and display name.\<close>

definition access_users :: "user list \<Rightarrow> id list \<Rightarrow> (id \<times> string) list" where
  "access_users users ids =
     concat (map (\<lambda>i. case tbl_get us_id i users of None \<Rightarrow> [] | Some u \<Rightarrow> [(us_id u, us_name u)]) ids)"

definition handle_access_get :: "workspace_service \<Rightarrow> actor \<Rightarrow> id \<Rightarrow> accounts \<Rightarrow> world \<Rightarrow>
    (workspace_access_mode \<times> (id \<times> string) list) world_reply" where
  "handle_access_get wv a i acc w =
     map_reply (\<lambda>(mode, ids). (mode, access_users (users_list acc) ids)) (answer_read 200 (get_access wv a i w) w)"

definition handle_access_put :: "workspace_service \<Rightarrow> actor \<Rightarrow> id \<Rightarrow> (string \<times> id list) option \<Rightarrow> world \<Rightarrow> unit world_reply" where
  "handle_access_put wv a i body w =
     with_body body (\<lambda>(mode, ids).
       if mode \<noteq> ''everyone'' \<and> mode \<noteq> ''listed'' then (Refused 422 ''invalid'', w)
       else answer 204 (set_access wv a i mode ids w)) w"

section \<open>Statistics (stats_handlers.go)\<close>

definition default_gantt_window :: duration where "default_gantt_window = 6 * 3600 * 1000000000"
definition max_gantt_window :: duration where "max_gantt_window = 7 * 24 * 3600 * 1000000000"

text \<open>A bound of the window: \<open>None\<close> when it is not given, \<open>Some None\<close> when it is no timestamp.\<close>

definition handle_stats_gantt :: "actor \<Rightarrow> time option option \<Rightarrow> time option option \<Rightarrow> accounts \<Rightarrow> world \<Rightarrow> (lane list) world_reply" where
  "handle_stats_gantt a start until acc w =
     (case or_else until (Some (wd_now w)) of
        None \<Rightarrow> (Refused 422 ''invalid'', w)
      | Some t1 \<Rightarrow>
          (case or_else start (Some (wd_now w - default_gantt_window)) of
             None \<Rightarrow> (Refused 422 ''invalid'', w)
           | Some t0 \<Rightarrow>
               (if \<not> t0 < t1 then (Refused 422 ''invalid'', w)
                else if t1 - t0 > max_gantt_window then (Refused 422 ''invalid'', w)
                else (Answered 200 (gantt acc t0 t1 a w), w))))"

definition handle_stats_costs :: "actor \<Rightarrow> string \<Rightarrow> accounts \<Rightarrow> world \<Rightarrow> cost_view world_reply" where
  "handle_stats_costs a days acc w = (Answered 200 (costs acc (query_limit (\<lambda>_. True) 0 days) a w), w)"

section \<open>The stream of events (events_handlers.go)\<close>

text \<open>Which messages of the bus a caller's stream shows, by the owner a message carries.\<close>

definition shows_message :: "actor \<Rightarrow> id option \<Rightarrow> bool" where
  "shows_message a owner \<longleftrightarrow> owner = None \<or> owner = Some (ac_user a) \<or> ac_admin a"

section \<open>Notification channels (db/notification_channels.go, notifications_handlers.go)\<close>

record sealed_channel =
  nc_id :: id
  nc_kind :: string
  nc_name :: string
  nc_url :: string
  nc_token :: "(string \<times> string) option"
  nc_events :: "string list"
  nc_enabled :: bool
  nc_created :: time

type_synonym 'a channel_result = "(error + 'a) \<times> sealed_channel list"

definition channels_create :: "sealed_channel \<Rightarrow> sealed_channel list \<Rightarrow> unit channel_result" where
  "channels_create c cs = (if nc_id c \<in> nc_id ` set cs then (Inl (ErrConflict []), cs) else (Inr (), cs @ [c]))"

definition channels_get :: "id \<Rightarrow> sealed_channel list \<Rightarrow> error + sealed_channel" where
  "channels_get i cs = found (tbl_get nc_id i cs)"

definition channels_list :: "sealed_channel list \<Rightarrow> sealed_channel list" where
  "channels_list cs = sort_key nc_name cs"

definition channels_update :: "sealed_channel \<Rightarrow> sealed_channel list \<Rightarrow> unit channel_result" where
  "channels_update c cs =
     (if nc_id c \<notin> nc_id ` set cs then (Inl ErrNotFound, cs)
      else (Inr (), tbl_update nc_id (nc_id c) (\<lambda>q. c\<lparr>nc_created := nc_created q\<rparr>) cs))"

definition channels_delete :: "id \<Rightarrow> sealed_channel list \<Rightarrow> unit channel_result" where
  "channels_delete i cs = (if i \<notin> nc_id ` set cs then (Inl ErrNotFound, cs) else (Inr (), tbl_delete nc_id i cs))"

definition channels_enabled_for :: "string \<Rightarrow> sealed_channel list \<Rightarrow> sealed_channel list" where
  "channels_enabled_for kind cs = sort_key nc_name (filter (\<lambda>c. nc_enabled c \<and> list_ex (\<lambda>e. e = kind) (nc_events c)) cs)"

text \<open>Encryption at rest, \<open>crypto.Box\<close>.\<close>

record box =
  bx_seal :: "string \<Rightarrow> error + string \<times> string"
  bx_open :: "string \<times> string \<Rightarrow> error + string"

definition default_channel_events :: "string list" where
  "default_channel_events = [''run.finished'', ''run.needs_human'', ''run.failed'']"

definition allowed_channel_kinds :: "string list" where "allowed_channel_kinds = [''ntfy'', ''webhook'']"

text \<open>A reply shows whether there is a token, never the token.\<close>

definition channel_dto :: "sealed_channel \<Rightarrow> sealed_channel \<times> bool" where
  "channel_dto c = (c\<lparr>nc_token := None\<rparr>, case nc_token c of None \<Rightarrow> False | Some (cipher, _) \<Rightarrow> cipher \<noteq> [])"

definition handle_channels_list :: "sealed_channel list \<Rightarrow> (sealed_channel \<times> bool) list reply \<times> sealed_channel list" where
  "handle_channels_list cs = (Answered 200 (map channel_dto (channels_list cs)), cs)"

record channel_body =
  cb_kind :: string
  cb_name :: string
  cb_url :: string
  cb_token :: string
  cb_events :: "string list"

definition handle_channels_create :: "box \<Rightarrow> id \<Rightarrow> time \<Rightarrow> channel_body option \<Rightarrow> sealed_channel list \<Rightarrow>
    (sealed_channel \<times> bool) reply \<times> sealed_channel list" where
  "handle_channels_create bx i now body cs =
     with_body body (\<lambda>b.
       if cb_name b = [] \<or> cb_url b = [] \<or> cb_kind b \<notin> set allowed_channel_kinds then (Refused 422 ''invalid'', cs)
       else
         case (if cb_token b = [] then Inr None else map_sum id Some (bx_seal bx (cb_token b))) of
           Inl e \<Rightarrow> (write_error e, cs)
         | Inr tok \<Rightarrow>
             (let c = \<lparr>nc_id = i, nc_kind = cb_kind b, nc_name = cb_name b, nc_url = cb_url b, nc_token = tok,
                       nc_events = (if cb_events b = [] then default_channel_events else cb_events b),
                       nc_enabled = True, nc_created = now\<rparr>
              in map_reply (\<lambda>_. channel_dto c) (answer 201 (channels_create c cs)))) cs"

record channel_patch =
  cp_kind :: "string option"
  cp_name :: "string option"
  cp_url :: "string option"
  cp_token :: "string option"
  cp_events :: "string list option"
  cp_enabled :: "bool option"

definition handle_channels_patch :: "box \<Rightarrow> id \<Rightarrow> channel_patch option \<Rightarrow> sealed_channel list \<Rightarrow>
    (sealed_channel \<times> bool) reply \<times> sealed_channel list" where
  "handle_channels_patch bx i body cs =
     (case channels_get i cs of
        Inl e \<Rightarrow> (write_error e, cs)
      | Inr c \<Rightarrow>
          with_body body (\<lambda>b.
            if or_else (cp_kind b) ''ntfy'' \<notin> set allowed_channel_kinds then (Refused 422 ''invalid'', cs)
            else
              case (case cp_token b of
                      None \<Rightarrow> Inr (nc_token c)
                    | Some t \<Rightarrow> if t = [] then Inr None else map_sum id Some (bx_seal bx t)) of
                Inl e \<Rightarrow> (write_error e, cs)
              | Inr tok \<Rightarrow>
                  (let c' = c\<lparr>nc_kind := or_else (cp_kind b) (nc_kind c), nc_name := or_else (cp_name b) (nc_name c),
                              nc_url := or_else (cp_url b) (nc_url c), nc_events := or_else (cp_events b) (nc_events c),
                              nc_enabled := or_else (cp_enabled b) (nc_enabled c), nc_token := tok\<rparr>
                   in map_reply (\<lambda>_. channel_dto c') (answer 200 (channels_update c' cs)))) cs)"

definition handle_channels_delete :: "id \<Rightarrow> sealed_channel list \<Rightarrow> unit reply \<times> sealed_channel list" where
  "handle_channels_delete i cs = answer 204 (channels_delete i cs)"

text \<open>The notifier's channel for a row, with its token opened.\<close>

definition opened_channel :: "box \<Rightarrow> sealed_channel \<Rightarrow> error + channel" where
  "opened_channel bx c =
     (let row = (\<lambda>tok. \<lparr>ch_id = nc_id c, ch_kind = nc_kind c, ch_name = nc_name c, ch_url = nc_url c, ch_token = tok,
                        ch_events = nc_events c\<rparr>)
      in case nc_token c of
           None \<Rightarrow> Inr (row [])
         | Some (cipher, nonce) \<Rightarrow>
             (if cipher = [] then Inr (row [])
              else case bx_open bx (cipher, nonce) of Inl e \<Rightarrow> Inl e | Inr plain \<Rightarrow> Inr (row plain)))"

definition test_notice :: notice where
  "test_notice = \<lparr>no_kind = ''test'', no_title = ''Styr test notification'', no_body = ''This is a test notification from Styr.'',
     no_url = [], no_priority = 3, no_tags = []\<rparr>"

definition handle_channels_test :: "box \<Rightarrow> notifier \<Rightarrow> id \<Rightarrow> sealed_channel list \<Rightarrow> http_request list \<Rightarrow> unit reply \<times> http_request list" where
  "handle_channels_test bx nf i cs sent =
     (case channels_get i cs of
        Inl e \<Rightarrow> (write_error e, sent)
      | Inr c \<Rightarrow>
          (case opened_channel bx c of
             Inl e \<Rightarrow> (write_error e, sent)
           | Inr ch \<Rightarrow>
               (case send_notice nf ch test_notice sent of
                  (Some e, sent1) \<Rightarrow> (Refused 502 ''notify_failed'', sent1)
                | (None, sent1) \<Rightarrow> (Answered 200 (), sent1))))"

end
