(* ===== verification/Router.thy ===== *)
theory Router
  imports Session_Api
begin

text \<open>
  The router, \<open>internal/api/router.go\<close>, and the tables of routes the handlers' files register: every route behind a
  login, with its method, its path, whether it is for administrators only, and its handler, over everything the API
  serves from, \<open>deps.go\<close>. A call is a route with the parts of the request its handler reads; \<open>chi\<close>'s matching of paths
  is not modelled. A reply is reduced to its status and error code, its body is the handler's. The counters of
  \<open>GET /status\<close> and \<open>GET /version\<close> are left out, and so is the timeout of a request.
\<close>

section \<open>What the API serves from (deps.go)\<close>

text \<open>Everything a request may change.\<close>

record 'g site =
  st_accounts :: accounts
  st_world :: world
  st_backstage :: backstage
  st_checkout :: "'g checkout"
  st_channels :: "sealed_channel list"
  st_sent :: "http_request list"

record 'g deps =
  dp_auth :: auth_service
  dp_accounts :: account_api
  dp_workspaces :: workspace_service
  dp_sessions :: session_service
  dp_review :: "'g review_service"
  dp_box :: box
  dp_triggers :: trigger_service
  dp_runs :: engine
  dp_notifier :: notifier
  dp_schedules :: schedule_service
  dp_pipelines :: executor
  dp_uuid :: "nat \<Rightarrow> id"

type_synonym 'g site_handler = "principal option \<Rightarrow> request \<Rightarrow> 'g site \<Rightarrow> unit reply \<times> cookie list \<times> 'g site"

record 'g route =
  rt_method :: string
  rt_path :: string
  rt_admin :: bool
  rt_handler :: "'g site_handler"

definition to_get :: "string \<Rightarrow> 'g site_handler \<Rightarrow> 'g route" where
  "to_get path h = \<lparr>rt_method = ''GET'', rt_path = path, rt_admin = False, rt_handler = h\<rparr>"

definition to_post :: "string \<Rightarrow> 'g site_handler \<Rightarrow> 'g route" where
  "to_post path h = \<lparr>rt_method = ''POST'', rt_path = path, rt_admin = False, rt_handler = h\<rparr>"

definition to_put :: "string \<Rightarrow> 'g site_handler \<Rightarrow> 'g route" where
  "to_put path h = \<lparr>rt_method = ''PUT'', rt_path = path, rt_admin = False, rt_handler = h\<rparr>"

definition to_patch :: "string \<Rightarrow> 'g site_handler \<Rightarrow> 'g route" where
  "to_patch path h = \<lparr>rt_method = ''PATCH'', rt_path = path, rt_admin = False, rt_handler = h\<rparr>"

definition to_delete :: "string \<Rightarrow> 'g site_handler \<Rightarrow> 'g route" where
  "to_delete path h = \<lparr>rt_method = ''DELETE'', rt_path = path, rt_admin = False, rt_handler = h\<rparr>"

text \<open>\<open>r.With(auth.RequireAdmin)\<close>.\<close>

definition by_admin :: "'g route \<Rightarrow> 'g route" where
  "by_admin rt = rt\<lparr>rt_admin := True\<rparr>"

text \<open>A path below a resource: \<open>/sessions/{id}/messages\<close>.\<close>

definition below :: "string \<Rightarrow> id \<Rightarrow> string \<Rightarrow> string" where
  "below resource i rest = resource @ ''/'' @ i @ rest"

section \<open>Handlers on the parts of the site\<close>

definition outcome :: "'b reply \<Rightarrow> unit reply" where
  "outcome rep = (case rep of Refused c n \<Rightarrow> Refused c n | Answered c _ \<Rightarrow> Answered c ())"

definition on_accounts :: "'b handler \<Rightarrow> 'g site_handler" where
  "on_accounts h p r s = (let (rep, cs, acc) = h p r (st_accounts s) in (outcome rep, cs, s\<lparr>st_accounts := acc\<rparr>))"

definition on_world :: "(actor \<Rightarrow> world \<Rightarrow> 'b world_reply) \<Rightarrow> 'g site_handler" where
  "on_world h p r s = (let (rep, w) = h (actor_from p) (st_world s) in (outcome rep, [], s\<lparr>st_world := w\<rparr>))"

definition on_stats :: "(actor \<Rightarrow> accounts \<Rightarrow> world \<Rightarrow> 'b world_reply) \<Rightarrow> 'g site_handler" where
  "on_stats h p r s = on_world (\<lambda>a. h a (st_accounts s)) p r s"

definition on_disk :: "(actor \<Rightarrow> backstage \<times> world \<Rightarrow> 'b reply \<times> backstage \<times> world) \<Rightarrow> 'g site_handler" where
  "on_disk h p r s =
     (let (rep, bs, w) = h (actor_from p) (st_backstage s, st_world s)
      in (outcome rep, [], s\<lparr>st_backstage := bs, st_world := w\<rparr>))"

definition on_checkout :: "(actor \<Rightarrow> 'g checkout \<Rightarrow> world \<Rightarrow> 'b reply \<times> 'g checkout) \<Rightarrow> 'g site_handler" where
  "on_checkout h p r s =
     (let (rep, co) = h (actor_from p) (st_checkout s) (st_world s) in (outcome rep, [], s\<lparr>st_checkout := co\<rparr>))"

definition on_review :: "(actor \<Rightarrow> 'g checkout \<times> world \<Rightarrow> 'b reply \<times> 'g checkout \<times> world) \<Rightarrow> 'g site_handler" where
  "on_review h p r s =
     (let (rep, co, w) = h (actor_from p) (st_checkout s, st_world s)
      in (outcome rep, [], s\<lparr>st_checkout := co, st_world := w\<rparr>))"

definition on_channels :: "(sealed_channel list \<Rightarrow> 'b reply \<times> sealed_channel list) \<Rightarrow> 'g site_handler" where
  "on_channels h p r s = (let (rep, cs) = h (st_channels s) in (outcome rep, [], s\<lparr>st_channels := cs\<rparr>))"

text \<open>A handler under \<open>/me\<close> panics without a principal, and \<open>Recoverer\<close> answers.\<close>

definition recovered :: "accounts \<Rightarrow> ('b reply \<times> accounts) option \<Rightarrow> 'b reply \<times> cookie list \<times> accounts" where
  "recovered acc res = (case res of None \<Rightarrow> (Refused 500 [], [], acc) | Some (rep, acc') \<Rightarrow> (rep, [], acc'))"

section \<open>Accounts (me, api-tokens, users)\<close>

datatype account_call =
    MeGet | MePatch "string option" | MeTokenPut "string option" | MeTokenDelete
  | MeCodexKeyPut "string option" | MeCodexKeyDelete
  | ApiTokensList | ApiTokensCreate "token_input option" | ApiTokensDelete id
  | UsersList | UsersPatch id "string option" | SettingsGet
  | SettingsTokenPut "string option" | SettingsCodexKeyPut "string option"

fun me_routes :: "'g deps \<Rightarrow> account_call \<Rightarrow> 'g route" where
  "me_routes d MeGet =
     to_get ''/me'' (on_accounts (\<lambda>p r acc. recovered acc (map_option (\<lambda>rep. (rep, acc)) (get_me (dp_accounts d) p acc))))"
| "me_routes d (MePatch body) =
     to_patch ''/me'' (on_accounts (\<lambda>p r acc. recovered acc (patch_me (dp_accounts d) body p acc)))"
| "me_routes d (MeTokenPut body) = to_put ''/me/claude-token'' (on_accounts (put_claude_token (dp_accounts d) body))"
| "me_routes d MeTokenDelete = to_delete ''/me/claude-token'' (on_accounts delete_claude_token)"
| "me_routes d (MeCodexKeyPut body) = to_put ''/me/codex-key'' (on_accounts (put_codex_key (dp_accounts d) body))"
| "me_routes d MeCodexKeyDelete = to_delete ''/me/codex-key'' (on_accounts (delete_codex_key (dp_accounts d)))"
| "me_routes d ApiTokensList = to_get ''/me/api-tokens'' (on_accounts (list_api_tokens (dp_accounts d)))"
| "me_routes d (ApiTokensCreate body) = to_post ''/me/api-tokens'' (on_accounts (create_api_token (dp_accounts d) body))"
| "me_routes d (ApiTokensDelete i) = to_delete (below ''/me/api-tokens'' i []) (on_accounts (delete_api_token (dp_accounts d) i))"
| "me_routes d UsersList = by_admin (to_get ''/users'' (on_accounts list_users))"
| "me_routes d (UsersPatch i body) = by_admin (to_patch (below ''/users'' i []) (on_accounts (patch_user i body)))"
| "me_routes d SettingsGet = by_admin (to_get ''/settings'' (on_accounts (get_settings (dp_accounts d))))"
| "me_routes d (SettingsTokenPut body) =
     by_admin (to_put ''/settings/service-token'' (on_accounts (put_service_token (dp_accounts d) body)))"
| "me_routes d (SettingsCodexKeyPut body) =
     by_admin (to_put ''/settings/codex-key'' (on_accounts (put_service_codex_key (dp_accounts d) body)))"

section \<open>Workspaces and profiles\<close>

datatype workspace_call =
    WorkspacesList | WorkspacesCreate "workspace_input option" | WorkspacesGet id
  | WorkspacesPatch id "workspace_update option" | WorkspacesDelete id | WorkspacesRetry id
  | AccessGet id | AccessPut id "(string \<times> id list) option"

fun workspaces_routes :: "'g deps \<Rightarrow> workspace_call \<Rightarrow> 'g route" where
  "workspaces_routes d WorkspacesList = to_get ''/workspaces'' (on_world (handle_workspaces_list (dp_workspaces d)))"
| "workspaces_routes d (WorkspacesCreate body) =
     to_post ''/workspaces'' (on_disk (\<lambda>a. handle_workspaces_create (dp_workspaces d) a body))"
| "workspaces_routes d (WorkspacesGet i) =
     to_get (below ''/workspaces'' i []) (on_world (\<lambda>a. handle_workspaces_get (dp_workspaces d) a i))"
| "workspaces_routes d (WorkspacesPatch i body) =
     to_patch (below ''/workspaces'' i []) (on_world (\<lambda>a. handle_workspaces_patch (dp_workspaces d) a i body))"
| "workspaces_routes d (WorkspacesDelete i) =
     to_delete (below ''/workspaces'' i []) (on_disk (\<lambda>a. handle_workspaces_delete (dp_workspaces d) a i))"
| "workspaces_routes d (WorkspacesRetry i) =
     to_post (below ''/workspaces'' i ''/retry'') (on_disk (\<lambda>a. handle_workspaces_retry (dp_workspaces d) a i))"
| "workspaces_routes d (AccessGet i) =
     by_admin (to_get (below ''/workspaces'' i ''/access'') (on_stats (\<lambda>a. handle_access_get (dp_workspaces d) a i)))"
| "workspaces_routes d (AccessPut i body) =
     by_admin (to_put (below ''/workspaces'' i ''/access'') (on_world (\<lambda>a. handle_access_put (dp_workspaces d) a i body)))"

datatype profile_call = ProfilesList | ProfilesCreate "profile_body option" | ProfilesPatch id "profile_body option"

fun profiles_routes :: "'g deps \<Rightarrow> profile_call \<Rightarrow> 'g route" where
  "profiles_routes d ProfilesList = to_get ''/profiles'' (on_world (\<lambda>a. list_profiles))"
| "profiles_routes d (ProfilesCreate body) =
     by_admin (to_post ''/profiles'' (on_world (\<lambda>a. create_profile (dp_uuid d) body)))"
| "profiles_routes d (ProfilesPatch i body) =
     by_admin (to_patch (below ''/profiles'' i []) (on_world (\<lambda>a. patch_profile i body)))"

section \<open>Sessions, review and approvals\<close>

datatype session_call =
    SessionsList | SessionsCreate "session_body option" | SessionsGet id | SessionsMessage id "string option"
  | SessionsInterrupt id | SessionsClose id | SessionsModel id "(string \<times> string) option" | SessionsEvents id string string
  | ApprovalsList | ApprovalsDecide id "decision_body option" | ApprovalsSnooze id "time option option"

fun sessions_routes :: "'g deps \<Rightarrow> session_call \<Rightarrow> 'g route" where
  "sessions_routes d SessionsList = to_get ''/sessions'' (on_world handle_sessions_list)"
| "sessions_routes d (SessionsCreate body) =
     to_post ''/sessions'' (on_world (\<lambda>a. handle_sessions_create (dp_sessions d) a body))"
| "sessions_routes d (SessionsGet i) = to_get (below ''/sessions'' i []) (on_world (\<lambda>a. handle_sessions_get a i))"
| "sessions_routes d (SessionsMessage i body) =
     to_post (below ''/sessions'' i ''/messages'') (on_world (\<lambda>a. handle_sessions_message (dp_sessions d) a i body))"
| "sessions_routes d (SessionsInterrupt i) =
     to_post (below ''/sessions'' i ''/interrupt'') (on_world (\<lambda>a. handle_sessions_interrupt (dp_sessions d) a i))"
| "sessions_routes d (SessionsClose i) =
     to_post (below ''/sessions'' i ''/close'') (on_world (\<lambda>a. handle_sessions_close (dp_sessions d) a i))"
| "sessions_routes d (SessionsModel i body) =
     to_post (below ''/sessions'' i ''/model'') (on_world (\<lambda>a. handle_sessions_model (dp_sessions d) a i body))"
| "sessions_routes d (SessionsEvents i after limit) =
     to_get (below ''/sessions'' i ''/events'') (on_world (\<lambda>a. handle_sessions_events a i after limit))"
| "sessions_routes d ApprovalsList = to_get ''/approvals'' (on_world handle_approvals_list)"
| "sessions_routes d (ApprovalsDecide i body) =
     to_post (below ''/approvals'' i []) (on_world (\<lambda>a. handle_approvals_decide (dp_sessions d) a i body))"
| "sessions_routes d (ApprovalsSnooze i body) =
     to_post (below ''/approvals'' i ''/snooze'') (on_world (\<lambda>a. handle_approvals_snooze a i body))"

datatype review_call =
    DiffGet id | DiffFile id string | PatchGet id | CommentsList id | CommentCreate id "comment_input option"
  | CommentDelete id id | ReviewSend id | CommitPost id "string option" | PrPost id "(string \<times> string \<times> string) option"
  | CheckpointsList id | RewindPost id "id option" | DiscardPost id

fun review_routes :: "'g deps \<Rightarrow> review_call \<Rightarrow> 'g route" where
  "review_routes d (DiffGet i) =
     to_get (below ''/sessions'' i ''/diff'') (on_checkout (\<lambda>a. handle_session_diff (dp_review d) a i))"
| "review_routes d (DiffFile i path) =
     to_get (below ''/sessions'' i ''/diff/file'') (on_checkout (\<lambda>a. handle_session_file_diff (dp_review d) a i path))"
| "review_routes d (PatchGet i) =
     to_get (below ''/sessions'' i ''/patch'') (on_checkout (\<lambda>a. handle_session_patch (dp_review d) a i))"
| "review_routes d (CommentsList i) =
     to_get (below ''/sessions'' i ''/comments'') (on_world (\<lambda>a. handle_comments_list (dp_review d) a i))"
| "review_routes d (CommentCreate i body) =
     to_post (below ''/sessions'' i ''/comments'') (on_world (\<lambda>a. handle_comment_create (dp_review d) a i body))"
| "review_routes d (CommentDelete i cid) =
     to_delete (below ''/sessions'' i (below ''/comments'' cid [])) (on_world (\<lambda>a. handle_comment_delete a i cid))"
| "review_routes d (ReviewSend i) =
     to_post (below ''/sessions'' i ''/review'') (on_world (\<lambda>a. handle_review_send (dp_review d) a i))"
| "review_routes d (CommitPost i body) =
     to_post (below ''/sessions'' i ''/commit'') (on_review (\<lambda>a. handle_session_commit (dp_review d) a i body))"
| "review_routes d (PrPost i body) =
     to_post (below ''/sessions'' i ''/pr'') (on_checkout (\<lambda>a. handle_session_pr (dp_review d) a i body))"
| "review_routes d (CheckpointsList i) =
     to_get (below ''/sessions'' i ''/checkpoints'') (on_world (\<lambda>a. handle_checkpoints_list a i))"
| "review_routes d (RewindPost i body) =
     to_post (below ''/sessions'' i ''/rewind'') (on_review (\<lambda>a. handle_session_rewind (dp_review d) a i body))"
| "review_routes d (DiscardPost i) =
     to_post (below ''/sessions'' i ''/discard'') (on_review (\<lambda>a. handle_session_discard (dp_review d) a i))"

section \<open>Templates, triggers, deliveries, runs and loops\<close>

datatype template_call =
    TemplatesList | TemplatesCreate "template_input option" | TemplatesGet id | TemplatesPatch id "template_input option"
  | TemplatesDelete id | TemplatesRender id "render_body option" | TemplatesRun id "object_field option"

fun templates_routes :: "'g deps \<Rightarrow> template_call \<Rightarrow> 'g route" where
  "templates_routes d TemplatesList = to_get ''/templates'' (on_world handle_templates_list)"
| "templates_routes d (TemplatesCreate body) =
     to_post ''/templates'' (on_world (\<lambda>a. handle_templates_create (dp_triggers d) a body))"
| "templates_routes d (TemplatesGet i) = to_get (below ''/templates'' i []) (on_world (\<lambda>a. handle_templates_get a i))"
| "templates_routes d (TemplatesPatch i body) =
     to_patch (below ''/templates'' i []) (on_world (\<lambda>a. handle_templates_patch a i body))"
| "templates_routes d (TemplatesDelete i) =
     to_delete (below ''/templates'' i []) (on_world (\<lambda>a. handle_templates_delete a i))"
| "templates_routes d (TemplatesRender i body) =
     to_post (below ''/templates'' i ''/render'') (on_world (\<lambda>a. handle_templates_render (dp_triggers d) a i body))"
| "templates_routes d (TemplatesRun i body) =
     to_post (below ''/templates'' i ''/run'') (on_world (\<lambda>a. handle_templates_run (dp_runs d) a i body))"

datatype trigger_call =
    TriggersList | TriggersCreate "trigger_body option" | TriggersSample string | TriggersGet id
  | TriggersPatch id "trigger_body option" | TriggersDelete id | TriggersRotate id | TriggersDeliveries id string
  | TriggersTest id "(string \<times> bool) option" | DeliveriesReplay id

fun triggers_routes :: "'g deps \<Rightarrow> trigger_call \<Rightarrow> 'g route" where
  "triggers_routes d TriggersList = to_get ''/triggers'' (on_world handle_triggers_list)"
| "triggers_routes d (TriggersCreate body) =
     to_post ''/triggers'' (on_world (\<lambda>a. handle_triggers_create (dp_triggers d) a body))"
| "triggers_routes d (TriggersSample kind) =
     to_get (below ''/triggers/samples'' kind []) (on_world (\<lambda>a. handle_triggers_sample (dp_triggers d) kind))"
| "triggers_routes d (TriggersGet i) = to_get (below ''/triggers'' i []) (on_world (\<lambda>a. handle_triggers_get a i))"
| "triggers_routes d (TriggersPatch i body) =
     to_patch (below ''/triggers'' i []) (on_world (\<lambda>a. handle_triggers_patch a i body))"
| "triggers_routes d (TriggersDelete i) = to_delete (below ''/triggers'' i []) (on_world (\<lambda>a. handle_triggers_delete a i))"
| "triggers_routes d (TriggersRotate i) =
     to_post (below ''/triggers'' i ''/rotate-secret'') (on_world (\<lambda>a. handle_triggers_rotate (dp_triggers d) a i))"
| "triggers_routes d (TriggersDeliveries i limit) =
     to_get (below ''/triggers'' i ''/deliveries'') (on_world (\<lambda>a. handle_triggers_deliveries a i limit))"
| "triggers_routes d (TriggersTest i body) =
     to_post (below ''/triggers'' i ''/test'') (on_world (\<lambda>a. handle_triggers_test (dp_triggers d) a i body))"
| "triggers_routes d (DeliveriesReplay i) =
     to_post (below ''/deliveries'' i ''/replay'') (on_world (\<lambda>a. handle_deliveries_replay (dp_triggers d) a i))"

datatype run_call =
    RunsList run_filter string | RunsGet id | LoopsList "loop_state option" string | LoopsGet id | LoopsStop id

fun runs_routes :: "'g deps \<Rightarrow> run_call \<Rightarrow> 'g route" where
  "runs_routes d (RunsList f limit) = to_get ''/runs'' (on_world (\<lambda>a. handle_runs_list (dp_runs d) f limit))"
| "runs_routes d (RunsGet i) = to_get (below ''/runs'' i []) (on_world (\<lambda>a. handle_runs_get (dp_runs d) i))"
| "runs_routes d (LoopsList st limit) = to_get ''/loops'' (on_world (\<lambda>a. handle_loops_list (dp_runs d) st limit))"
| "runs_routes d (LoopsGet i) = to_get (below ''/loops'' i []) (on_world (\<lambda>a. handle_loops_get (dp_runs d) i))"
| "runs_routes d (LoopsStop i) = to_post (below ''/loops'' i ''/stop'') (on_world (\<lambda>a. handle_loops_stop (dp_runs d) i))"

section \<open>Schedules, pipelines and their runs\<close>

datatype schedule_call =
    SchedulesList | SchedulesCreate "schedule_body option" | SchedulesPreview "string option" | SchedulesGet id
  | SchedulesPatch id "schedule_body option" | SchedulesDelete id | SchedulesRun id | SchedulesFirings id string

fun schedules_routes :: "'g deps \<Rightarrow> schedule_call \<Rightarrow> 'g route" where
  "schedules_routes d SchedulesList = to_get ''/schedules'' (on_world handle_schedules_list)"
| "schedules_routes d (SchedulesCreate body) =
     to_post ''/schedules'' (on_world (\<lambda>a. handle_schedules_create (dp_schedules d) a body))"
| "schedules_routes d (SchedulesPreview body) =
     to_post ''/schedules/preview'' (on_world (\<lambda>a. handle_schedules_preview (dp_schedules d) body))"
| "schedules_routes d (SchedulesGet i) = to_get (below ''/schedules'' i []) (on_world (\<lambda>a. handle_schedules_get a i))"
| "schedules_routes d (SchedulesPatch i body) =
     to_patch (below ''/schedules'' i []) (on_world (\<lambda>a. handle_schedules_patch (dp_schedules d) a i body))"
| "schedules_routes d (SchedulesDelete i) = to_delete (below ''/schedules'' i []) (on_world (\<lambda>a. handle_schedules_delete a i))"
| "schedules_routes d (SchedulesRun i) =
     to_post (below ''/schedules'' i ''/run'') (on_world (\<lambda>a. handle_schedules_run (dp_schedules d) a i))"
| "schedules_routes d (SchedulesFirings i limit) =
     to_get (below ''/schedules'' i ''/firings'') (on_world (\<lambda>a. handle_schedules_firings a i limit))"

datatype pipeline_call =
    PipelinesList | PipelinesCreate "pipeline_input option" | PipelinesValidate "(string \<times> id) option" | PipelinesGet id
  | PipelinesPatch id "pipeline_input option" | PipelinesDelete id | PipelinesStart id "object_field option"
  | PipelineRunsList pipeline_run_filter string | PipelineRunsGet id | PipelineRunsCancel id | PipelineRunsRetry id

fun pipelines_routes :: "'g deps \<Rightarrow> pipeline_call \<Rightarrow> 'g route" where
  "pipelines_routes d PipelinesList = to_get ''/pipelines'' (on_world handle_pipelines_list)"
| "pipelines_routes d (PipelinesCreate body) =
     to_post ''/pipelines'' (on_world (\<lambda>a. handle_pipelines_create (dp_pipelines d) a body))"
| "pipelines_routes d (PipelinesValidate body) =
     to_post ''/pipelines/validate'' (on_world (\<lambda>a. handle_pipelines_validate (dp_pipelines d) a body))"
| "pipelines_routes d (PipelinesGet i) = to_get (below ''/pipelines'' i []) (on_world (\<lambda>a. handle_pipelines_get a i))"
| "pipelines_routes d (PipelinesPatch i body) =
     to_patch (below ''/pipelines'' i []) (on_world (\<lambda>a. handle_pipelines_patch (dp_pipelines d) a i body))"
| "pipelines_routes d (PipelinesDelete i) = to_delete (below ''/pipelines'' i []) (on_world (\<lambda>a. handle_pipelines_delete a i))"
| "pipelines_routes d (PipelinesStart i body) =
     to_post (below ''/pipelines'' i ''/start'') (on_world (\<lambda>a. handle_pipelines_start (dp_pipelines d) a i body))"
| "pipelines_routes d (PipelineRunsList f limit) =
     to_get ''/pipeline-runs'' (on_world (\<lambda>a. handle_pipeline_runs_list a f limit))"
| "pipelines_routes d (PipelineRunsGet i) =
     to_get (below ''/pipeline-runs'' i []) (on_world (\<lambda>a. handle_pipeline_runs_get (dp_pipelines d) a i))"
| "pipelines_routes d (PipelineRunsCancel i) =
     to_post (below ''/pipeline-runs'' i ''/cancel'') (on_world (\<lambda>a. handle_pipeline_runs_cancel (dp_pipelines d) a i))"
| "pipelines_routes d (PipelineRunsRetry i) =
     to_post (below ''/pipeline-runs'' i ''/retry-failed'') (on_world (\<lambda>a. handle_pipeline_runs_retry (dp_pipelines d) a i))"

section \<open>Statistics and notification channels\<close>

datatype channel_call =
    ChannelsList | ChannelsCreate "channel_body option" | ChannelsPatch id "channel_patch option"
  | ChannelsDelete id | ChannelsTest id

text \<open>A new channel takes the next id; the ids that a refused request leaves unused are never seen.\<close>

definition channels_create_route :: "'g deps \<Rightarrow> channel_body option \<Rightarrow> 'g site_handler" where
  "channels_create_route d body p r s =
     (let (i, w) = new_uuid (dp_uuid d) (st_world s);
          (rep, cs) = handle_channels_create (dp_box d) i (wd_now w) body (st_channels s)
      in (outcome rep, [], s\<lparr>st_channels := cs, st_world := w\<rparr>))"

definition channels_test_route :: "'g deps \<Rightarrow> id \<Rightarrow> 'g site_handler" where
  "channels_test_route d i p r s =
     (let (rep, sent) = handle_channels_test (dp_box d) (dp_notifier d) i (st_channels s) (st_sent s)
      in (outcome rep, [], s\<lparr>st_sent := sent\<rparr>))"

fun notifications_routes :: "'g deps \<Rightarrow> channel_call \<Rightarrow> 'g route" where
  "notifications_routes d ChannelsList = to_get ''/notifications'' (on_channels handle_channels_list)"
| "notifications_routes d (ChannelsCreate body) = by_admin (to_post ''/notifications'' (channels_create_route d body))"
| "notifications_routes d (ChannelsPatch i body) =
     by_admin (to_patch (below ''/notifications'' i []) (on_channels (handle_channels_patch (dp_box d) i body)))"
| "notifications_routes d (ChannelsDelete i) =
     by_admin (to_delete (below ''/notifications'' i []) (on_channels (handle_channels_delete i)))"
| "notifications_routes d (ChannelsTest i) = by_admin (to_post (below ''/notifications'' i ''/test'') (channels_test_route d i))"

datatype stats_call = StatsGantt "time option option" "time option option" | StatsCosts string

fun stats_routes :: "'g deps \<Rightarrow> stats_call \<Rightarrow> 'g route" where
  "stats_routes d (StatsGantt start until) = to_get ''/stats/gantt'' (on_stats (\<lambda>a. handle_stats_gantt a start until))"
| "stats_routes d (StatsCosts days) = to_get ''/stats/costs'' (on_stats (\<lambda>a. handle_stats_costs a days))"

section \<open>The router (router.go)\<close>

datatype call =
    AccountCall account_call | WorkspaceCall workspace_call | ProfileCall profile_call | SessionCall session_call
  | ReviewCall review_call | TemplateCall template_call | TriggerCall trigger_call | RunCall run_call
  | ScheduleCall schedule_call | PipelineCall pipeline_call | ChannelCall channel_call | StatsCall stats_call

fun route_of :: "'g deps \<Rightarrow> call \<Rightarrow> 'g route" where
  "route_of d (AccountCall c) = me_routes d c"
| "route_of d (WorkspaceCall c) = workspaces_routes d c"
| "route_of d (ProfileCall c) = profiles_routes d c"
| "route_of d (SessionCall c) = sessions_routes d c"
| "route_of d (ReviewCall c) = review_routes d c"
| "route_of d (TemplateCall c) = templates_routes d c"
| "route_of d (TriggerCall c) = triggers_routes d c"
| "route_of d (RunCall c) = runs_routes d c"
| "route_of d (ScheduleCall c) = schedules_routes d c"
| "route_of d (PipelineCall c) = pipelines_routes d c"
| "route_of d (ChannelCall c) = notifications_routes d c"
| "route_of d (StatsCall c) = stats_routes d c"

definition route_guards :: "'g route \<Rightarrow> guard list" where
  "route_guards rt = user_guards @ (if rt_admin rt then [require_admin] else [])"

definition request_on :: "'g route \<Rightarrow> request \<Rightarrow> request" where
  "request_on rt r = r\<lparr>rq_method := rt_method rt, rq_path := ''/api/v1'' @ rt_path rt\<rparr>"

text \<open>A request on a route behind a login: authenticated, guarded, handled.\<close>

definition serve_route :: "'g deps \<Rightarrow> 'g route \<Rightarrow> request \<Rightarrow> 'g site \<Rightarrow> unit reply \<times> cookie list \<times> 'g site" where
  "serve_route d rt r0 s =
     (let r = request_on rt r0;
          (p, cs, acc) = authenticate (dp_auth d) r (st_accounts s);
          s1 = s\<lparr>st_accounts := acc\<rparr>
      in case first_refusal (route_guards rt) p r of
           Some (code, name) \<Rightarrow> (Refused code name, cs, s1)
         | None \<Rightarrow> (let (rep, cs2, s2) = rt_handler rt p r s1 in (rep, cs @ cs2, s2)))"

definition serve_call :: "'g deps \<Rightarrow> call \<Rightarrow> request \<Rightarrow> 'g site \<Rightarrow> unit reply \<times> cookie list \<times> 'g site" where
  "serve_call d c r s = serve_route d (route_of d c) r s"

text \<open>A webhook is served without a login.\<close>

definition serve_hook :: "'g deps \<Rightarrow> bool \<Rightarrow> inbound \<Rightarrow> 'g site \<Rightarrow> unit reply \<times> 'g site" where
  "serve_hook d readable inb s =
     (let (rep, w) = handle_hooks_deliver (dp_triggers d) readable inb (st_world s) in (outcome rep, s\<lparr>st_world := w\<rparr>))"

text \<open>\<open>handleEvents\<close>: the frames a caller's stream shows of the messages that reach it, in their order.\<close>

definition stream_frames :: "actor \<Rightarrow> (id option \<times> 'm) list \<Rightarrow> (id option \<times> 'm) list" where
  "stream_frames a ms = filter (\<lambda>m. shows_message a (fst m)) ms"

end
