(* ===== verification/Router_Claims.thy ===== *)
theory Router_Claims
  imports Router Account_Proofs
begin

text \<open>
  What the guards promise over the whole table of routes: reading changes nothing, a viewer changes nothing, and what is
  for administrators changes only at their hands.
\<close>

section \<open>Reading\<close>

lemma snd_answer [simp]: "snd (answer code (r, w)) = w"
  by (simp add: answer_def split: sum.split)

lemma snd_answer_read [simp]: "snd (answer_read code r w) = w"
  by (simp add: answer_read_def)

lemma snd_map_reply [simp]: "snd (map_reply f r) = snd r"
  by (simp add: map_reply_def)


text \<open>The services' part of a site, everything but the accounts and git's checkout.\<close>

definition same_services :: "'g site \<Rightarrow> 'g site \<Rightarrow> bool" where
  "same_services s s' \<longleftrightarrow>
     st_world s' = st_world s \<and> st_backstage s' = st_backstage s \<and> st_channels s' = st_channels s \<and> st_sent s' = st_sent s"

lemma same_services_refl [simp]: "same_services s s"
  by (simp add: same_services_def)







lemmas route_makers = to_get_def to_post_def to_put_def to_patch_def to_delete_def by_admin_def














section \<open>Routes that are not for administrators\<close>

definition roles_of :: "accounts \<Rightarrow> (id \<times> role) list" where
  "roles_of acc = map (\<lambda>u. (us_id u, us_role u)) (aw_users acc)"

text \<open>What only an administrator rules over: the channels, the messages sent to test them, the roles.\<close>

definition same_rule :: "'g site \<Rightarrow> 'g site \<Rightarrow> bool" where
  "same_rule s s' \<longleftrightarrow> st_channels s' = st_channels s \<and> st_sent s' = st_sent s \<and> roles_of (st_accounts s') = roles_of (st_accounts s)"

definition sparing :: "'g site_handler \<Rightarrow> bool" where
  "sparing h \<longleftrightarrow> (\<forall>p r s. same_rule s (snd (snd (h p r s))))"

lemmas handler_kinds = on_accounts_def on_world_def on_stats_def on_disk_def on_checkout_def on_review_def

lemma sparing_kinds [intro]:
  "sparing (on_world h1)" "sparing (on_stats h2)" "sparing (on_disk h3)" "sparing (on_checkout h4)" "sparing (on_review h5)"
  by (simp_all add: sparing_def same_rule_def handler_kinds split_beta)

lemma sparing_accounts: "(\<And>p r acc. roles_of (snd (snd (h p r acc))) = roles_of acc) \<Longrightarrow> sparing (on_accounts h)"
  by (simp add: sparing_def same_rule_def on_accounts_def split_beta)

lemma roles_of_same: "aw_users acc' = aw_users acc \<Longrightarrow> roles_of acc' = roles_of acc"
  by (simp add: roles_of_def)

lemma roles_recovered: "(\<And>rep acc'. res = Some (rep, acc') \<Longrightarrow> roles_of acc' = roles_of acc) \<Longrightarrow> roles_of (snd (snd (recovered acc res))) = roles_of acc"
  by (simp add: recovered_def split: option.split prod.split)

lemma prefs_keep_roles: "roles_of (snd (users_update_prefs i prefs acc)) = roles_of acc"
  by (auto simp: users_update_prefs_def users_exec1_def roles_of_def tbl_update_def)

lemma patch_me_keeps_roles: "patch_me d body p acc = Some (rep, acc') \<Longrightarrow> roles_of acc' = roles_of acc"
  using prefs_keep_roles[of _ _ acc]
  by (auto simp: patch_me_def split: option.splits if_splits sum.splits prod.splits) (metis snd_conv)+

lemma credentials_users [simp]:
  "aw_users (snd (sealed d t acc)) = aw_users acc"
  "aw_users (claude_set i c n l acc) = aw_users acc"
  "aw_users (snd (claude_mark_verified i acc)) = aw_users acc"
  "aw_users (snd (claude_delete i acc)) = aw_users acc"
  "aw_users (codex_set i c n l acc) = aw_users acc"
  "aw_users (snd (codex_delete i acc)) = aw_users acc"
  by (simp_all add: sealed_def claude_set_def claude_mark_verified_def claude_delete_def codex_set_def codex_delete_def Let_def)

lemma claude_routes_users [simp]:
  "aw_users (snd (snd (put_claude_token d body p r acc))) = aw_users acc"
  "aw_users (snd (snd (delete_claude_token p r acc))) = aw_users acc"
  by (simp_all add: put_claude_token_def delete_claude_token_def sealed_def claude_set_def claude_mark_verified_def
      claude_delete_def Let_def split: option.split sum.split prod.split)

lemma codex_routes_users [simp]:
  "aw_users (snd (snd (put_codex_key d body p r acc))) = aw_users acc"
  "aw_users (snd (snd (delete_codex_key d p r acc))) = aw_users acc"
  by (simp_all add: put_codex_key_def delete_codex_key_def verify_and_seal_codex_key_def sealed_def codex_set_def
      codex_delete_def Let_def split: option.split sum.split prod.split)

lemma token_routes_users [simp]:
  "aw_users (snd (snd (create_api_token d tok p r acc))) = aw_users acc"
  "aw_users (snd (snd (delete_api_token d i p r acc))) = aw_users acc"
  by (auto simp: create_api_token_def delete_api_token_def generate_api_token_def account_uuid_def rand_token_def tokens_create_def
      tokens_delete_def Let_def split: option.splits sum.splits prod.splits if_splits)

lemmas own_routes_roles =
  claude_routes_users[THEN roles_of_same] codex_routes_users[THEN roles_of_same] token_routes_users[THEN roles_of_same]

lemma profile_routes_roles:
  "roles_of (snd (snd (recovered acc (map_option (\<lambda>rep. (rep, acc)) (get_me d p acc))))) = roles_of acc"
  "roles_of (snd (snd (recovered acc (patch_me d body p acc)))) = roles_of acc"
  by (auto intro!: roles_recovered dest: patch_me_keeps_roles)

lemma me_spares: "\<not> rt_admin (me_routes d c) \<Longrightarrow> sparing (rt_handler (me_routes d c))"
  by (cases c)
    (simp_all add: route_makers sparing_accounts own_routes_roles profile_routes_roles list_api_tokens_def)

lemma notifications_spare: "\<not> rt_admin (notifications_routes d c) \<Longrightarrow> sparing (rt_handler (notifications_routes d c))"
  by (cases c) (auto simp: route_makers sparing_def same_rule_def on_channels_def handle_channels_list_def)

lemma others_spare:
  "sparing (rt_handler (workspaces_routes d c1))" "sparing (rt_handler (profiles_routes d c2))"
  "sparing (rt_handler (sessions_routes d c3))" "sparing (rt_handler (review_routes d c4))"
  "sparing (rt_handler (templates_routes d c5))" "sparing (rt_handler (triggers_routes d c6))"
  "sparing (rt_handler (runs_routes d c7))" "sparing (rt_handler (schedules_routes d c8))"
  "sparing (rt_handler (pipelines_routes d c9))" "sparing (rt_handler (stats_routes d c10))"
           apply (cases c1; auto simp: route_makers)
          apply (cases c2; auto simp: route_makers)
         apply (cases c3; auto simp: route_makers)
        apply (cases c4; auto simp: route_makers)
       apply (cases c5; auto simp: route_makers)
      apply (cases c6; auto simp: route_makers)
     apply (cases c7; auto simp: route_makers)
    apply (cases c8; auto simp: route_makers)
   apply (cases c9; auto simp: route_makers)
  apply (cases c10; auto simp: route_makers)
  done

lemma route_spares: "\<not> rt_admin (route_of d c) \<Longrightarrow> sparing (rt_handler (route_of d c))"
  by (cases c) (simp_all add: others_spare me_spares notifications_spare)

section \<open>Serving a call\<close>

text \<open>Whom the request authenticates as.\<close>

definition caller_of :: "'g deps \<Rightarrow> call \<Rightarrow> request \<Rightarrow> 'g site \<Rightarrow> principal option" where
  "caller_of d c r s = fst (authenticate (dp_auth d) (request_on (route_of d c) r) (st_accounts s))"


definition is_administrator :: "principal option \<Rightarrow> bool" where
  "is_administrator p \<longleftrightarrow> (case p of None \<Rightarrow> False | Some pn \<Rightarrow> us_role (pn_user pn) = RoleAdmin)"

lemma guards_append:
  "first_refusal (gs @ hs) p r = (case first_refusal gs p r of Some x \<Rightarrow> Some x | None \<Rightarrow> first_refusal hs p r)"
proof -
  have "fold (\<lambda>g acc. case acc of Some x \<Rightarrow> Some x | None \<Rightarrow> g p r) hs (Some x) = Some x" for x :: "nat \<times> string"
    by (induction hs) simp_all
  then show ?thesis by (simp add: first_refusal_def split: option.split)
qed

lemma route_guards_refuse: "first_refusal (route_guards rt) p r = Some (code, name) \<Longrightarrow> code \<in> {401, 403}"
  using user_guards_refuse[of p r]
  by (auto simp: route_guards_def guards_append first_refusal_def[of "[require_admin]"] require_admin_def
      first_refusal_def[of "[]"] split: option.splits if_splits)

lemma admin_passes: "first_refusal (route_guards rt) p r = None \<Longrightarrow> rt_admin rt \<Longrightarrow> is_administrator p"
  by (auto simp: route_guards_def guards_append first_refusal_def[of "[require_admin]"] require_admin_def is_administrator_def
      split: option.splits if_splits)





lemma serve_call_cases:
  assumes "serve_call d c r s = (rep, cs, s')"
  obtains (refused) acc code name where
      "s' = s\<lparr>st_accounts := acc\<rparr>" "rep = Refused code name" "code \<in> {401, 403}"
      "snd (snd (authenticate (dp_auth d) (request_on (route_of d c) r) (st_accounts s))) = acc"
  | (served) acc where
      "first_refusal (route_guards (route_of d c)) (caller_of d c r s) (request_on (route_of d c) r) = None"
      "snd (snd (rt_handler (route_of d c) (caller_of d c r s) (request_on (route_of d c) r) (s\<lparr>st_accounts := acc\<rparr>))) = s'"
      "snd (snd (authenticate (dp_auth d) (request_on (route_of d c) r) (st_accounts s))) = acc"
proof -
  obtain p cs0 acc where a: "authenticate (dp_auth d) (request_on (route_of d c) r) (st_accounts s) = (p, cs0, acc)"
    by (metis prod.exhaust)
  have p: "caller_of d c r s = p" by (simp add: caller_of_def a)
  show thesis
  proof (cases "first_refusal (route_guards (route_of d c)) p (request_on (route_of d c) r)")
    case None
    then show thesis
      using assms by (intro served[of acc]) (auto simp: serve_call_def serve_route_def a p split: prod.splits)
  next
    case (Some x)
    then show thesis
      using assms route_guards_refuse[of "route_of d c" p _ "fst x" "snd x"]
      by (intro refused[of acc "fst x" "snd x"]) (auto simp: serve_call_def serve_route_def a split: prod.splits)
  qed
qed

section \<open>A viewer at the routes\<close>

definition viewer_auth :: auth_service where
  "viewer_auth = \<lparr>as_providers = [], as_base_url = [], as_dev_user = [], as_has_tokens = False, as_uuid = (\<lambda>n. []),
     as_random = (\<lambda>n. []), as_verifier = (\<lambda>n. []), as_sha256 = (\<lambda>_. []), as_discover = (\<lambda>_ _. None),
     as_auth_url = (\<lambda>_ u _ _. u), as_exchange = (\<lambda>_ v c. Inr c), as_verify = (\<lambda>_ t. Inl ErrNotFound)\<rparr>"

definition a_viewer :: user where
  "a_viewer = \<lparr>us_id = ''u'', us_issuer = ''i'', us_subject = ''s'', us_email = [], us_name = ''vi'', us_avatar = [],
     us_role = RoleViewer, us_created = 0, us_last_login = 0, us_prefs = []\<rparr>"

definition viewer_accounts :: accounts where
  "viewer_accounts = \<lparr>aw_now = 9, aw_uuids = 0, aw_users = [a_viewer],
     aw_logins = [\<lparr>lo_id = ''l'', lo_user = ''u'', lo_hash = [], lo_created = 0, lo_last_seen = 9, lo_expires = 99, lo_agent = []\<rparr>],
     aw_tokens = [], aw_claude = [], aw_codex = [], aw_runtimes = []\<rparr>"

definition viewer_request :: request where
  "viewer_request = \<lparr>rq_method = [], rq_path = [], rq_requested_with = ''styr'', rq_authorization = [],
     rq_session = Some ''key'', rq_pkce = None, rq_agent = [], rq_error = [], rq_state = [], rq_code = []\<rparr>"

definition viewer_site :: "'g site \<Rightarrow> 'g site" where
  "viewer_site s = s\<lparr>st_accounts := viewer_accounts\<rparr>"

definition viewer_deps :: "'g deps \<Rightarrow> 'g deps" where
  "viewer_deps d = d\<lparr>dp_auth := viewer_auth\<rparr>"

lemma viewer_signs_in:
  "authenticate viewer_auth (request_on rt viewer_request) viewer_accounts =
     (Some \<lparr>pn_user = a_viewer, pn_login = ''l'', pn_token_auth = False\<rparr>, [], viewer_accounts)"
  by (simp add: authenticate_def principal_from_cookie_def request_on_def viewer_request_def viewer_auth_def viewer_accounts_def
      hash_token_def hex_encode_def logins_get_by_hash_def users_get_def found_def tbl_get_def a_viewer_def touch_interval_def minute_def second_def)

lemma caller_is_viewer: "caller_of (viewer_deps d) c viewer_request (viewer_site s) =
    Some \<lparr>pn_user = a_viewer, pn_login = ''l'', pn_token_auth = False\<rparr>"
  by (simp add: caller_of_def viewer_deps_def viewer_site_def viewer_signs_in)



text \<open>
  C18: What is for administrators only changes at their hands: a call of anyone else leaves the notification channels, the
  messages sent to test them and every user's role as they were, and on a route for administrators it is answered 401
  or 403.
\<close>

theorem administration_needs_admin:
  assumes "serve_call d c r s = (rep, cs, s')" and "as_dev_user (dp_auth d) = []"
    and "\<not> is_administrator (caller_of d c r s)"
  shows "same_rule s s' \<and> (rt_admin (route_of d c) \<longrightarrow> (\<exists>code name. rep = Refused code name \<and> code \<in> {401, 403}))"
proof -
  have roles: "roles_of (snd (snd (authenticate (dp_auth d) q (st_accounts s)))) = roles_of (st_accounts s)" for q
    using authenticate_untouched[OF _ assms(2), of q "st_accounts s"]
    by (metis prod.collapse roles_of_same untouched_def)
  show ?thesis
    using assms(1)
  proof (cases rule: serve_call_cases)
    case (refused acc code name)
    then show ?thesis using roles by (auto simp: same_rule_def)
  next
    case (served acc)
    then have "\<not> rt_admin (route_of d c)" using admin_passes assms(3) by blast
    then show ?thesis
      using route_spares[of d c] served(2,3) roles by (fastforce simp: sparing_def same_rule_def)
  qed
qed

text \<open>The same viewer giving themselves the administrator's role.\<close>

theorem administration_needs_admin_witness:
  "\<forall>(d :: unit deps) s. \<exists>code name cs s'.
     serve_call (viewer_deps d) (AccountCall (UsersPatch ''u'' (Some ''admin''))) viewer_request (viewer_site s) =
       (Refused code name, cs, s') \<and> roles_of (st_accounts s') = [(''u'', RoleViewer)]"
proof (intro allI)
  fix d :: "unit deps" and s
  let ?c = "AccountCall (UsersPatch ''u'' (Some ''admin''))"
  obtain rep cs s' where e: "serve_call (viewer_deps d) ?c viewer_request (viewer_site s) = (rep, cs, s')"
    by (metis prod.exhaust)
  have "\<not> is_administrator (caller_of (viewer_deps d) ?c viewer_request (viewer_site s))"
    by (simp add: is_administrator_def caller_is_viewer a_viewer_def)
  moreover have "as_dev_user (dp_auth (viewer_deps d)) = []" by (simp add: viewer_deps_def viewer_auth_def)
  ultimately have "same_rule (viewer_site s) s' \<and> (\<exists>code name. rep = Refused code name)"
    using administration_needs_admin[OF e] by (auto simp: route_makers)
  then show "\<exists>code name cs s'. serve_call (viewer_deps d) ?c viewer_request (viewer_site s) = (Refused code name, cs, s') \<and>
     roles_of (st_accounts s') = [(''u'', RoleViewer)]"
    using e by (auto simp: same_rule_def viewer_site_def roles_of_def viewer_accounts_def a_viewer_def)
qed

end
