(* ===== verification/Launch.thy ===== *)
theory Launch
  imports Session_Api Codex
begin

text \<open>
  What an agent's process is started with: the encryption of stored secrets (\<open>internal/crypto\<close>), the credential, home
  and working directory of a session and the start specification made of them (\<open>sessions/service.go\<close>), the \<open>Start\<close> of
  both harnesses (\<open>claude/harness.go\<close>, \<open>codex/harness.go\<close>, \<open>claude/process.go\<close>), and the verifiers that try a credential
  before it is stored (\<open>claude/verify.go\<close>, \<open>codex/verify.go\<close>). AES-GCM, SHA-256, random numbers and the runs of a child
  process are parameters.
\<close>

section \<open>Sealed secrets (crypto/secretbox.go)\<close>

record cipher_suite =
  cp_sha256 :: "string \<Rightarrow> string"
  cp_random :: "nat \<Rightarrow> error + string"
  cp_encrypt :: "string \<Rightarrow> string \<Rightarrow> string \<Rightarrow> string"
  cp_decrypt :: "string \<Rightarrow> string \<Rightarrow> string \<Rightarrow> string option"

text \<open>\<open>NewBox\<close>: the key of the box.\<close>

definition new_box :: "cipher_suite \<Rightarrow> string \<Rightarrow> error + string" where
  "new_box cp secret =
     (if length secret < 32 then Inl (ErrOther ''crypto: secret must be at least 32 bytes'') else Inr (cp_sha256 cp secret))"

text \<open>\<open>Seal\<close>, with the random nonce drawn in the given order.\<close>

definition box_seal :: "cipher_suite \<Rightarrow> string \<Rightarrow> string \<Rightarrow> nat \<Rightarrow> error + string \<times> string" where
  "box_seal cp key plain n =
     (case cp_random cp n of Inl e \<Rightarrow> Inl e | Inr nonce \<Rightarrow> Inr (cp_encrypt cp key nonce plain, nonce))"

definition box_open :: "cipher_suite \<Rightarrow> string \<Rightarrow> string \<times> string \<Rightarrow> error + string" where
  "box_open cp key sealed_text =
     (case cp_decrypt cp key (snd sealed_text) (fst sealed_text) of
        None \<Rightarrow> Inl (ErrOther ''cipher: message authentication failed'') | Some plain \<Rightarrow> Inr plain)"

section \<open>The credential of a session (sessions/service.go)\<close>

record launcher =
  la_suite :: cipher_suite
  la_key :: string
  la_has_codex :: bool
  la_users_dir :: string
  la_service_home :: string
  la_mkdir :: "string \<Rightarrow> string option"
  la_is_uuid :: "string \<Rightarrow> bool"
  la_exec :: "string \<Rightarrow> start_spec \<Rightarrow> error option"

definition missing_is_invalid :: "string \<Rightarrow> error \<Rightarrow> error" where
  "missing_is_invalid hint e = (if e = ErrNotFound then ErrInvalid hint else e)"

definition resolve_token :: "launcher \<Rightarrow> id option \<Rightarrow> accounts \<Rightarrow> error + string" where
  "resolve_token la owner acc =
     (let (row, hint) =
        (case owner of
           None \<Rightarrow> (claude_get_service acc, ''add a service token in settings'')
         | Some u \<Rightarrow> (claude_get u acc, ''add a Claude token in your profile''))
      in case row of
           Inl e \<Rightarrow> Inl (missing_is_invalid hint e)
         | Inr c \<Rightarrow> box_open (la_suite la) (la_key la) (ct_cipher c, ct_nonce c))"

definition resolve_codex_key :: "launcher \<Rightarrow> id option \<Rightarrow> accounts \<Rightarrow> error + string" where
  "resolve_codex_key la owner acc =
     (if \<not> la_has_codex la then Inl (ErrInvalid ''the codex harness is not configured on this server'')
      else
        let (row, hint) =
          (case owner of
             None \<Rightarrow> (codex_get service_token_user acc, ''add a service Codex key in settings'')
           | Some u \<Rightarrow> (codex_get u acc, ''add a Codex API key in your profile''))
        in case row of
             Inl e \<Rightarrow> Inl (missing_is_invalid hint e)
           | Inr c \<Rightarrow> box_open (la_suite la) (la_key la) (cc_cipher c, cc_nonce c))"

definition credential_env :: "launcher \<Rightarrow> string \<Rightarrow> id option \<Rightarrow> accounts \<Rightarrow> error + (string \<times> string) list" where
  "credential_env la kind owner acc =
     (if kind = kind_codex
      then map_sum id (\<lambda>key. [(''OPENAI_API_KEY'', key)]) (resolve_codex_key la owner acc)
      else map_sum id (\<lambda>token. [(''CLAUDE_CODE_OAUTH_TOKEN'', token)]) (resolve_token la owner acc))"

definition home_dir :: "launcher \<Rightarrow> id option \<Rightarrow> error + string" where
  "home_dir la owner =
     (let dir = (case owner of None \<Rightarrow> la_service_home la | Some u \<Rightarrow> go_join [la_users_dir la, u])
      in case la_mkdir la dir of Some e \<Rightarrow> Inl (ErrOther (''create home dir: '' @ e)) | None \<Rightarrow> Inr dir)"

definition resume_ref :: "session \<Rightarrow> bool \<Rightarrow> string" where
  "resume_ref s resume = (if resume then se_harness_ref s else [])"

definition session_cwd :: "session \<Rightarrow> workspace \<Rightarrow> string" where
  "session_cwd s ws = (if se_worktree s \<noteq> [] then se_worktree s else ws_path ws)"

definition harness_profile_of :: "profile \<Rightarrow> harness_profile" where
  "harness_profile_of pf =
     \<lparr>hp_mode = pf_mode pf, hp_allowed = pf_allowed_tools pf, hp_disallowed = pf_disallowed_tools pf,
      hp_max_turns = pf_max_turns pf\<rparr>"

definition session_spec ::
  "session \<Rightarrow> workspace \<Rightarrow> profile \<Rightarrow> bool \<Rightarrow> string \<Rightarrow> string \<Rightarrow> (string \<times> string) list \<Rightarrow> string \<Rightarrow> start_spec" where
  "session_spec s ws pf resume schema sysprompt env home =
     \<lparr>sp_session = se_id s, sp_resume = resume, sp_resume_ref = resume_ref s resume, sp_title = se_title s,
      sp_cwd = session_cwd s ws, sp_home = home, sp_env = env, sp_profile = harness_profile_of pf, sp_worktree = [],
      sp_schema = schema, sp_system_prompt = sysprompt, sp_model = se_model s, sp_fallback = [], sp_effort = se_effort s\<rparr>"

text \<open>\<open>Start\<close> of both harnesses: nothing is executed on a specification that does not validate.\<close>

definition harness_start :: "launcher \<Rightarrow> string \<Rightarrow> start_spec \<Rightarrow> error option" where
  "harness_start la kind spec =
     (case validate_spec (la_is_uuid la) spec of Some e \<Rightarrow> Some e | None \<Rightarrow> la_exec la kind spec)"

text \<open>The specification a session's process is started with.\<close>

definition launch_spec ::
  "launcher \<Rightarrow> accounts \<Rightarrow> session \<Rightarrow> workspace \<Rightarrow> profile \<Rightarrow> bool \<Rightarrow> string \<Rightarrow> string \<Rightarrow> error + start_spec" where
  "launch_spec la acc s ws pf resume schema sysprompt =
     (case credential_env la (se_harness s) (se_owner s) acc of
        Inl e \<Rightarrow> Inl e
      | Inr env \<Rightarrow>
          (case home_dir la (se_owner s) of
             Inl e \<Rightarrow> Inl e
           | Inr home \<Rightarrow> Inr (session_spec s ws pf resume schema sysprompt env home)))"

definition error_of :: "error + 'a \<Rightarrow> error option" where
  "error_of r = (case r of Inl e \<Rightarrow> Some e | Inr _ \<Rightarrow> None)"

text \<open>
  The session service over stored credentials and real launches: \<open>startProcess\<close> takes the workspace and the profile its
  caller has read for the session's row.
\<close>

definition launching :: "launcher \<Rightarrow> accounts \<Rightarrow> session_service \<Rightarrow> session_service" where
  "launching la acc ss =
     ss\<lparr>ss_credential := (\<lambda>kind owner. error_of (credential_env la kind owner acc)),
        ss_home := (\<lambda>owner. error_of (home_dir la owner)),
        ss_launch := (\<lambda>s resume schema sysprompt w.
          case workspaces_get (se_workspace s) w of
            Inl e \<Rightarrow> Some e
          | Inr ws \<Rightarrow>
              (case profiles_get (se_profile s) w of
                 Inl e \<Rightarrow> Some e
               | Inr pf \<Rightarrow>
                   (case launch_spec la acc s ws pf resume schema sysprompt of
                      Inl e \<Rightarrow> Some e
                    | Inr spec \<Rightarrow> harness_start la (se_harness s) spec)))\<rparr>"

text \<open>The environment of a Claude process, \<open>claude/process.go\<close>; Codex's is \<open>child_env\<close>.\<close>

definition claude_env :: "(string \<Rightarrow> string option) \<Rightarrow> start_spec \<Rightarrow> string list" where
  "claude_env lookup_env s =
     [''HOME='' @ sp_home s] @
     concat (map (\<lambda>k. case lookup_env k of Some v \<Rightarrow> [k @ ''='' @ v] | None \<Rightarrow> []) passthrough_env_vars) @
     map (\<lambda>(k, v). k @ ''='' @ v) (sp_env s)"

section \<open>Trying a credential (claude/verify.go, codex/verify.go)\<close>

datatype child_end = ChildOk | ChildExited int | ChildTimedOut | ChildNotStarted string

record child_run =
  cr_out :: string
  cr_err :: string
  cr_end :: child_end

text \<open>\<open>filepath.Base\<close>.\<close>

definition path_base :: "string \<Rightarrow> string" where
  "path_base p =
     (if p = [] then ''.''
      else let q = trim_right (\<lambda>c. c = CHR ''/'') p in if q = [] then ''/'' else last (split_char CHR ''/'' q))"

definition truncated :: "string \<Rightarrow> nat \<Rightarrow> string" where
  "truncated s n = (if length s \<le> n then s else take n s @ ellipsis)"

definition or_none :: "string \<Rightarrow> string" where
  "or_none s = (if s = [] then ''no output'' else s)"

definition last_line :: "string \<Rightarrow> string" where
  "last_line s =
     (case find (\<lambda>l. l \<noteq> []) (map trim_space (rev (split_char CHR 0x0A (trim_space s)))) of
        None \<Rightarrow> [] | Some l \<Rightarrow> truncated l 200)"

definition redacted :: "string \<Rightarrow> string \<Rightarrow> string" where
  "redacted secret s = replace_all secret ''[redacted]'' s"

definition run_detail :: "string \<Rightarrow> child_run \<Rightarrow> string" where
  "run_detail secret r =
     (let d = last_line (redacted secret (cr_err r)) in if d = [] then last_line (redacted secret (cr_out r)) else d)"

text \<open>The error of a run that did not exit with success; \<open>verb\<close> says what an exit code means.\<close>

definition run_failure :: "string \<Rightarrow> string \<Rightarrow> string \<Rightarrow> string \<Rightarrow> string \<Rightarrow> child_run \<Rightarrow> string option" where
  "run_failure who exited bin timeout secret r =
     (case cr_end r of
        ChildOk \<Rightarrow> None
      | ChildTimedOut \<Rightarrow> Some (who @ '': verify: timed out after '' @ timeout)
      | ChildExited code \<Rightarrow>
          Some (who @ '': verify: '' @ exited @ path_base bin @ '' exited '' @ show_int code @ '': '' @ or_none (run_detail secret r))
      | ChildNotStarted e \<Rightarrow> Some (who @ '': verify: could not start '' @ path_base bin @ '': '' @ redacted secret e))"

definition rejection :: "string \<Rightarrow> child_run \<Rightarrow> string \<Rightarrow> string" where
  "rejection secret r result =
     (let msg = trim_space (redacted secret result); m = (if msg = [] then run_detail secret r else msg)
      in ''claude: verify: token rejected: '' @ or_none (truncated m 200))"

definition claude_verify ::
  "unmarshal \<Rightarrow> string \<Rightarrow> string \<Rightarrow> (string \<Rightarrow> string + child_run) \<Rightarrow> string \<Rightarrow> string option" where
  "claude_verify unmarshal bin timeout run token =
     (case run token of
        Inl e \<Rightarrow> Some (''claude: verify: create temp home: '' @ e)
      | Inr r \<Rightarrow>
          (case run_failure ''claude'' [] bin timeout token r of
             Some e \<Rightarrow> Some e
           | None \<Rightarrow>
               (case Option.bind (unmarshal (trim_space (cr_out r)))
                       (\<lambda>j. case j of
                          JObj obj \<Rightarrow>
                            (case (bool_of (fld ''is_error'' obj), str_of (fld ''result'' obj)) of
                               (Some b, Some s) \<Rightarrow> Some (b, s) | _ \<Rightarrow> None)
                        | JNull \<Rightarrow> Some (False, [])
                        | _ \<Rightarrow> None) of
                  None \<Rightarrow> Some (''claude: verify: could not parse CLI output: '' @ or_none (run_detail token r))
                | Some (is_error, result) \<Rightarrow> (if is_error then Some (rejection token r result) else None))))"

definition codex_verify :: "string \<Rightarrow> string \<Rightarrow> (string \<Rightarrow> string + child_run) \<Rightarrow> string \<Rightarrow> string option" where
  "codex_verify bin timeout run key =
     (case run key of
        Inl e \<Rightarrow> Some (''codex: verify: '' @ e)
      | Inr r \<Rightarrow> run_failure ''codex'' ''key rejected: '' bin timeout key r)"

text \<open>The verifiers of the development mode, \<open>cmd/styr/wire.go\<close>.\<close>

definition dev_verify :: "string \<Rightarrow> string option" where
  "dev_verify token =
     (if has_prefix token ''sk-ant-'' then None else Some ''claude: dev verifier: token must start with sk-ant-'')"

definition dev_codex_verify :: "string \<Rightarrow> string option" where
  "dev_codex_verify key =
     (if has_prefix key ''sk-'' then None else Some ''codex: dev verifier: key must start with sk-'')"

end
