(* ===== verification/Profile_Claims.thy ===== *)
theory Profile_Claims
  imports Launch
begin

text \<open>
  Harness profiles under the API: what every profile of the table guarantees to the sessions started with it, and what
  no call changes of a builtin profile.
\<close>

section \<open>Profiles\<close>

text \<open>One call of the profile routes, by an administrator or not, or anything that leaves the table alone.\<close>

inductive profile_step :: "(nat \<Rightarrow> id) \<Rightarrow> world \<Rightarrow> world \<Rightarrow> bool" for uuid where
  create: "create_profile uuid body w = (rep, w') \<Longrightarrow> profile_step uuid w w'"
| patch: "patch_profile i body w = (rep, w') \<Longrightarrow> profile_step uuid w w'"
| elsewhere: "wd_profiles w' = wd_profiles w \<Longrightarrow> profile_step uuid w w'"

definition startable :: "profile \<Rightarrow> bool" where
  "startable p \<longleftrightarrow> pf_mode p \<in> set allowed_modes \<and> valid_effort (pf_effort p) \<and> valid_kind (pf_harness p)"

definition profiles_ok :: "profile list \<Rightarrow> bool" where
  "profiles_ok ps \<longleftrightarrow> distinct (map pf_id ps) \<and> distinct (map pf_name ps) \<and> list_all startable ps"

text \<open>What makes a builtin profile what it is.\<close>

definition essence :: "profile \<Rightarrow> id \<times> string \<times> string \<times> string list \<times> string list \<times> bool" where
  "essence p = (pf_id p, pf_name p, pf_mode p, pf_allowed_tools p, pf_disallowed_tools p, pf_unattended p)"

definition builtins :: "profile list \<Rightarrow> (id \<times> string \<times> string \<times> string list \<times> string list \<times> bool) list" where
  "builtins ps = map essence (filter pf_builtin ps)"

lemma row_kept [simp]:
  "pf_id (profile_row p) = pf_id p" "pf_name (profile_row p) = pf_name p" "pf_mode (profile_row p) = pf_mode p"
  "pf_effort (profile_row p) = pf_effort p" "pf_builtin (profile_row p) = pf_builtin p" "essence (profile_row p) = essence p"
  "pf_harness (profile_row p) = harness_or_default (pf_harness p)"
    "pf_allowed_tools (profile_row p) = pf_allowed_tools p" "pf_disallowed_tools (profile_row p) = pf_disallowed_tools p"
    "pf_unattended (profile_row p) = pf_unattended p" "pf_max_turns (profile_row p) = pf_max_turns p"
  by (simp_all add: profile_row_def essence_def)

lemma accepted_startable:
  assumes "startable p \<or> (or_else (pb_mode b) (pf_mode p) \<in> set allowed_modes \<and> valid_effort (pf_effort p) \<and> (pf_harness p = [] \<or> valid_kind (pf_harness p)))"
    and "\<not> mode_refused b" "\<not> effort_refused b" "\<not> harness_refused b"
  shows "startable (profile_row (patched_profile b p))"
  using assms
  by (auto simp: startable_def patched_profile_def or_else_def mode_refused_def effort_refused_def harness_refused_def
      harness_or_default_def default_harness_def valid_kind_def kind_claude_def kind_codex_def split: option.splits)

lemma new_startable:
  assumes "pb_mode b \<noteq> None" "\<not> mode_refused b" "\<not> effort_refused b" "\<not> harness_refused b"
  shows "startable (profile_row (new_profile i b))"
  unfolding new_profile_def
  using assms by (intro accepted_startable) (auto simp: or_else_def mode_refused_def valid_effort_def)

lemma profiles_create_fails: "profiles_create p w = (Inl e, w') \<Longrightarrow> w' = w"
  by (auto simp: profiles_create_def split: if_splits)

lemma profiles_update_fails: "profiles_update p w = (Inl e, w') \<Longrightarrow> w' = w"
  by (auto simp: profiles_update_def split: if_splits)

lemma create_done:
  assumes "profiles_create p w = (Inr (), w')"
  shows "wd_profiles w' = wd_profiles w @ [profile_row p] \<and> pf_id p \<notin> pf_id ` set (wd_profiles w) \<and>
    pf_name p \<notin> pf_name ` set (wd_profiles w)"
proof -
  have "pf_id p \<notin> pf_id ` set (wd_profiles w)" "\<not> profile_name_taken p w" "wd_profiles w' = wd_profiles w @ [profile_row p]"
    using assms by (auto simp: profiles_create_def split: if_splits)
  then show ?thesis unfolding profile_name_taken_def list_ex_iff by (metis (no_types, lifting) image_iff)
qed

lemma update_done:
  "profiles_update p w = (Inr (), w') \<Longrightarrow> \<not> profile_name_taken p w \<and>
     wd_profiles w' = tbl_update pf_id (pf_id p) (\<lambda>r. (profile_row p)\<lparr>pf_builtin := pf_builtin r\<rparr>) (wd_profiles w)"
  by (auto simp: profiles_update_def split: if_splits)

lemma create_adds:
  assumes "create_profile uuid body w = (rep, w')"
  shows "wd_profiles w' = wd_profiles w \<or>
    (\<exists>q. wd_profiles w' = wd_profiles w @ [q] \<and> startable q \<and> \<not> pf_builtin q \<and> pf_id q \<notin> pf_id ` set (wd_profiles w) \<and>
       pf_name q \<notin> pf_name ` set (wd_profiles w))"
proof -
  consider (same) "wd_profiles w' = wd_profiles w"
    | (made) b i w1 where "pb_mode b \<noteq> None" "\<not> mode_refused b" "\<not> effort_refused b" "\<not> harness_refused b"
        "wd_profiles w1 = wd_profiles w" "profiles_create (new_profile i b) w1 = (Inr (), w')"
  proof (cases "\<exists>b. body = Some b \<and> or_else (pb_name b) [] \<noteq> [] \<and> pb_mode b \<noteq> None \<and> \<not> mode_refused b \<and> \<not> effort_refused b \<and> \<not> harness_refused b")
    case True
    then obtain b where b: "body = Some b" "or_else (pb_name b) [] \<noteq> []" "pb_mode b \<noteq> None" "\<not> mode_refused b"
      "\<not> effort_refused b" "\<not> harness_refused b" by blast
    let ?w1 = "w\<lparr>wd_uuids := Suc (wd_uuids w)\<rparr>" and ?i = "uuid (wd_uuids w)"
    obtain res w2 where c: "profiles_create (new_profile ?i b) ?w1 = (res, w2)" by (metis prod.exhaust)
    have w2: "w' = w2" using assms b c by (auto simp: create_profile_def new_uuid_def Let_def split: sum.splits)
    show thesis
    proof (cases res)
      case (Inl e)
      then show thesis using c w2 profiles_create_fails[of "new_profile ?i b" ?w1 e w2] by (intro same) simp
    next
      case (Inr u)
      then show thesis using b c w2 by (intro made[of b ?w1 ?i]) auto
    qed
  next
    case False
    then show thesis
      using assms by (intro same) (auto simp: create_profile_def split: option.splits if_splits)
  qed
  then show ?thesis
  proof cases
    case made
    note 2 = made
    have "\<not> pf_builtin (new_profile i b)" by (simp add: new_profile_def patched_profile_def)
    moreover note create_done[OF 2(6)]
    ultimately show ?thesis
      using new_startable[OF 2(1-4), of i] 2(5)
      by (intro disjI2 exI[of _ "profile_row (new_profile i b)"]) simp
  qed simp
qed

lemma patch_replaces:
  assumes "patch_profile i body w = (rep, w')"
  shows "wd_profiles w' = wd_profiles w \<or>
    (\<exists>p q. tbl_get pf_id i (wd_profiles w) = Some p \<and>
       wd_profiles w' = tbl_update pf_id i (\<lambda>r. q\<lparr>pf_builtin := pf_builtin r\<rparr>) (wd_profiles w) \<and> pf_id q = i \<and>
       (startable p \<longrightarrow> startable q) \<and> (pf_builtin p \<longrightarrow> essence q = essence p) \<and>
       (\<forall>r \<in> set (wd_profiles w). pf_name r = pf_name q \<longrightarrow> pf_id r = i))"
proof -
  consider "wd_profiles w' = wd_profiles w"
    | b p where "tbl_get pf_id i (wd_profiles w) = Some p" "\<not> mode_refused b" "\<not> effort_refused b" "\<not> harness_refused b"
        "\<not> builtin_refused p b" "profiles_update (patched_profile b p) w = (Inr (), w')"
    using assms
    by (auto simp: patch_profile_def profiles_get_def found_def Let_def dest: profiles_update_fails
        split: option.splits if_splits prod.splits sum.splits)
  then show ?thesis
  proof cases
    case 2
    let ?q = "profile_row (patched_profile b p)"
    have i: "pf_id (patched_profile b p) = i" using tbl_get_Some[OF 2(1)] by (simp add: patched_profile_def)
    have "pf_builtin p \<longrightarrow> essence ?q = essence p"
      using 2(5) by (auto simp: builtin_refused_def essence_def patched_profile_def or_else_def)
    moreover have "startable p \<longrightarrow> startable ?q" using accepted_startable 2(2-4) by blast
    moreover have "wd_profiles w' = tbl_update pf_id i (\<lambda>r. ?q\<lparr>pf_builtin := pf_builtin r\<rparr>) (wd_profiles w)"
      using update_done[OF 2(6)] i by simp
    moreover have "\<forall>r \<in> set (wd_profiles w). pf_name r = pf_name ?q \<longrightarrow> pf_id r = i"
      using update_done[OF 2(6)] i by (simp add: profile_name_taken_def list_ex_iff)
    ultimately show ?thesis using 2(1) i by (intro disjI2 exI[of _ p] exI[of _ ?q]) simp
  qed simp
qed

text \<open>Updating the row of one id, seen as a map over the table.\<close>

lemma builtins_map:
  "(\<And>r. r \<in> set ps \<Longrightarrow> pf_builtin (f r) = pf_builtin r \<and> (pf_builtin r \<longrightarrow> essence (f r) = essence r)) \<Longrightarrow>
     builtins (map f ps) = builtins ps"
  by (induction ps) (auto simp: builtins_def)

lemma only_row:
  "distinct (map pf_id ps) \<Longrightarrow> tbl_get pf_id i ps = Some p \<Longrightarrow> r \<in> set ps \<Longrightarrow> pf_id r = i \<Longrightarrow> r = p"
  using tbl_get_in_set[of pf_id ps r] by simp

lemma updated_ok:
  assumes ok: "profiles_ok ps" and p: "tbl_get pf_id i ps = Some p" and q: "pf_id q = i" "startable p \<longrightarrow> startable q"
    and free: "\<forall>r \<in> set ps. pf_name r = pf_name q \<longrightarrow> pf_id r = i"
  shows "profiles_ok (tbl_update pf_id i (\<lambda>r. q\<lparr>pf_builtin := pf_builtin r\<rparr>) ps)" (is "profiles_ok (tbl_update pf_id i ?f ps)")
proof -
  let ?g = "\<lambda>r. if pf_id r = i then ?f r else r"
  have ids: "map pf_id (map ?g ps) = map pf_id ps" using q(1) by simp
  have "inj_on (pf_name \<circ> ?g) (set ps)"
  proof (rule inj_onI)
    fix a b assume ab: "a \<in> set ps" "b \<in> set ps" "(pf_name \<circ> ?g) a = (pf_name \<circ> ?g) b"
    have names: "inj_on pf_name (set ps)" and idents: "inj_on pf_id (set ps)" using ok by (simp_all add: profiles_ok_def distinct_map)
    show "a = b"
    proof (cases "pf_id a = i \<longleftrightarrow> pf_id b = i")
      case True
      then show ?thesis using ab names idents by (cases "pf_id a = i") (auto dest: inj_onD)
    next
      case False
      then show ?thesis using ab free by (cases "pf_id a = i") auto
    qed
  qed
  moreover have "distinct ps" using ok by (simp add: profiles_ok_def distinct_map)
  ultimately have "distinct (map pf_name (map ?g ps))" by (simp add: distinct_map)
  moreover have "startable (?g r)" if "r \<in> set ps" for r
    using that ok q(2) only_row[OF _ p that] by (auto simp: profiles_ok_def list_all_iff startable_def)
  moreover have "distinct (map pf_id (map ?g ps))" unfolding ids using ok by (simp add: profiles_ok_def)
  ultimately show ?thesis unfolding tbl_update_def profiles_ok_def list_all_iff by (metis (no_types, lifting) imageE list.set_map)
qed

lemma profile_step_ok:
  assumes "profile_step uuid w w'" and ok: "profiles_ok (wd_profiles w)"
  shows "profiles_ok (wd_profiles w') \<and> builtins (wd_profiles w') = builtins (wd_profiles w)"
  using assms(1)
proof cases
  case (create body rep)
  show ?thesis using create_adds[OF create] ok by (auto simp: profiles_ok_def builtins_def)
next
  case (patch i body rep)
  show ?thesis
    using patch_replaces[OF patch]
  proof (elim disjE exE conjE)
    fix p q
    assume p: "tbl_get pf_id i (wd_profiles w) = Some p" and q: "pf_id q = i" "startable p \<longrightarrow> startable q"
        "pf_builtin p \<longrightarrow> essence q = essence p"
      and w': "wd_profiles w' = tbl_update pf_id i (\<lambda>r. q\<lparr>pf_builtin := pf_builtin r\<rparr>) (wd_profiles w)"
      and free: "\<forall>r \<in> set (wd_profiles w). pf_name r = pf_name q \<longrightarrow> pf_id r = i"
    have d: "distinct (map pf_id (wd_profiles w))" using ok by (simp add: profiles_ok_def)
    have "essence (q\<lparr>pf_builtin := b\<rparr>) = essence q" for b by (simp add: essence_def)
    then have "builtins (wd_profiles w') = builtins (wd_profiles w)"
      unfolding w' tbl_update_def using only_row[OF d p] q(3) by (intro builtins_map) auto
    then show ?thesis using updated_ok[OF ok p q(1,2) free] w' by simp
  qed (use ok in simp)
next
  case elsewhere
  then show ?thesis using ok by simp
qed

section \<open>Every profile starts sessions\<close>

text \<open>
  C26: Whatever sequence of calls the profile routes serve, every profile of the table keeps an allowed permission mode, a
  known effort and a known harness, under its own id and name; a builtin profile keeps its mode, its tools and whether it
  is attended; and a session started from any of them with turns that are not negative passes the check every harness
  makes before it executes anything.
\<close>

theorem profiles_stay_startable:
  assumes "profiles_ok (wd_profiles w)" and "(profile_step uuid)\<^sup>*\<^sup>* w w'"
    and "p \<in> set (wd_profiles w')" and "0 \<le> pf_max_turns p"
    and "is_uuid (se_id s)" and "session_cwd s ws \<noteq> []" and "home \<noteq> []" and "valid_effort (se_effort s)"
  shows "profiles_ok (wd_profiles w') \<and> builtins (wd_profiles w') = builtins (wd_profiles w) \<and>
    validate_spec is_uuid (session_spec s ws p resume schema sysprompt env home) = None"
proof -
  have ok: "profiles_ok (wd_profiles w') \<and> builtins (wd_profiles w') = builtins (wd_profiles w)"
    using assms(2,1) by (induction rule: rtranclp_induct) (use profile_step_ok in auto)
  moreover have "pf_mode p \<in> set valid_modes"
    using ok assms(3) by (auto simp: profiles_ok_def list_all_iff startable_def allowed_modes_def valid_modes_def)
  ultimately show ?thesis
    using assms(4-) by (simp add: validate_spec_def session_spec_def harness_profile_of_def)
qed

text \<open>The shipped profiles, one of them given more turns and a stronger effort, in any world.\<close>

definition more_turns :: profile_body where
  "more_turns = \<lparr>pb_name = None, pb_mode = None, pb_allowed = None, pb_disallowed = None, pb_max_turns = Some 99,
     pb_unattended = None, pb_timeout = None, pb_model = None, pb_effort = Some ''max'', pb_harness = None\<rparr>"

lemma builtin_profiles_ok: "profiles_ok builtin_profiles"
  by (simp add: profiles_ok_def builtin_profiles_def startable_def allowed_modes_def valid_effort_def valid_efforts_def
      valid_kind_def kind_claude_def)

definition tried_session :: session where
  "tried_session = \<lparr>se_id = ''s'', se_owner = None, se_title = [], se_workspace = ''w'', se_profile = ''remediate'', se_harness = ''claude'',
     se_harness_ref = [], se_state = SessionOpen, se_origin = [], se_origin_ref = [], se_worktree = ''/wt'', se_model = [],
     se_effort = ''max'', se_created = 0, se_last_active = 0, se_num_turns = 0, se_cost = 0, se_tokens_in = 0, se_tokens_out = 0,
     se_now_line = [], se_branch = [], se_base_ref = [], se_shared = False, se_slash_commands = [], se_diff_add = 0, se_diff_del = 0\<rparr>"

theorem profiles_stay_startable_witness:
  "\<forall>w ws. \<exists>rep w'. patch_profile ''remediate'' (Some more_turns) (w\<lparr>wd_profiles := builtin_profiles\<rparr>) = (rep, w') \<and>
     builtins (wd_profiles w') = builtins builtin_profiles \<and>
     validate_spec (\<lambda>_. True) (session_spec tried_session ws (hd (wd_profiles w')) False [] [] [] ''/home'') = None"
proof (intro allI)
  fix w :: world and ws :: workspace
  let ?w = "w\<lparr>wd_profiles := builtin_profiles\<rparr>"
  obtain rep w' where e: "patch_profile ''remediate'' (Some more_turns) ?w = (rep, w')" by (metis prod.exhaust)
  then have r: "(profile_step (\<lambda>_. []))\<^sup>*\<^sup>* ?w w'" by (blast intro: profile_step.patch)
  have ps: "wd_profiles w' = tbl_update pf_id ''remediate''
      (\<lambda>r. (profile_row (patched_profile more_turns (builtin_profiles ! 2)))\<lparr>pf_builtin := pf_builtin r\<rparr>) builtin_profiles"
    using e
    by (auto simp: patch_profile_def profiles_get_def found_def tbl_get_def builtin_profiles_def more_turns_def mode_refused_def
      effort_refused_def harness_refused_def builtin_refused_def valid_effort_def valid_efforts_def profiles_update_def
      patched_profile_def or_else_def profile_name_taken_def Let_def)
  have p: "hd (wd_profiles w') \<in> set (wd_profiles w')" "0 \<le> pf_max_turns (hd (wd_profiles w'))"
    unfolding ps by (simp_all add: tbl_update_def builtin_profiles_def)
  have ok: "profiles_ok (wd_profiles ?w)" using builtin_profiles_ok by simp
  have "session_cwd tried_session ws \<noteq> []" "valid_effort (se_effort tried_session)"
    by (simp_all add: session_cwd_def tried_session_def valid_effort_def valid_efforts_def)
  then show "\<exists>rep w'. patch_profile ''remediate'' (Some more_turns) ?w = (rep, w') \<and> builtins (wd_profiles w') = builtins builtin_profiles \<and>
     validate_spec (\<lambda>_. True) (session_spec tried_session ws (hd (wd_profiles w')) False [] [] [] ''/home'') = None"
    using profiles_stay_startable[OF ok r p, of "\<lambda>_. True" tried_session ws "''/home''" False "[]" "[]" "[]"] e by simp
qed

text \<open>
  Turns below zero are accepted: the profile is stored, and every session started from it is refused by the harness.
\<close>

lemma negative_turns_refused:
  "is_uuid (se_id s) \<Longrightarrow> session_cwd s ws \<noteq> [] \<Longrightarrow> home \<noteq> [] \<Longrightarrow> startable p \<Longrightarrow> pf_max_turns p < 0 \<Longrightarrow>
     validate_spec is_uuid (session_spec s ws p resume schema sysprompt env home) = Some (ErrOther ''harness: max turns must be >= 0'')"
  by (auto simp: validate_spec_def session_spec_def harness_profile_of_def startable_def allowed_modes_def valid_modes_def)

lemma negative_turns_accepted:
  "\<exists>w'. create_profile (\<lambda>_. ''p'') (Some (more_turns\<lparr>pb_name := Some ''n'', pb_mode := Some ''plan'', pb_max_turns := Some (- 1)\<rparr>))
     (w\<lparr>wd_profiles := []\<rparr>) = (Answered 201 (profile_dto (new_profile ''p''
       (more_turns\<lparr>pb_name := Some ''n'', pb_mode := Some ''plan'', pb_max_turns := Some (- 1)\<rparr>))), w')"
  by (simp add: create_profile_def more_turns_def or_else_def mode_refused_def allowed_modes_def effort_refused_def valid_effort_def
      valid_efforts_def harness_refused_def new_uuid_def profiles_create_def profile_name_taken_def Let_def)

end
