(* ===== verification/Launch_Claims.thy ===== *)
theory Launch_Claims
  imports Launch "HOL-Library.Sublist"
begin

text \<open>
  Credentials reach the sessions of their owner and nobody else, profiles the API accepts start sessions, and an error of
  a verification never shows the credential.
\<close>

section \<open>Rows of credentials\<close>

lemma tbl_get_other_update:
  "(\<And>r. key (f r) = i) \<Longrightarrow> i \<noteq> j \<Longrightarrow> tbl_get key j (tbl_update key i f t) = tbl_get key j t"
  by (induction t) (auto simp: tbl_get_def tbl_update_def)

lemma tbl_get_hit:
  "(\<And>r. key (f r) = i) \<Longrightarrow> i \<in> key ` set t \<Longrightarrow> \<exists>r. tbl_get key i (tbl_update key i f t) = Some (f r)"
  by (induction t) (auto simp: tbl_get_def tbl_update_def)

lemma tbl_get_other_delete: "i \<noteq> j \<Longrightarrow> tbl_get key j (tbl_delete key i t) = tbl_get key j t"
  by (induction t) (auto simp: tbl_get_def tbl_delete_def)

lemma claude_set_get:
  "tbl_get ct_user u (aw_claude (claude_set i cipher nonce label acc)) =
     (if u = i then Some \<lparr>ct_user = i, ct_cipher = cipher, ct_nonce = nonce, ct_label = label, ct_added = aw_now acc, ct_verified = None\<rparr>
      else tbl_get ct_user u (aw_claude acc))"
proof -
  let ?row = "\<lparr>ct_user = i, ct_cipher = cipher, ct_nonce = nonce, ct_label = label, ct_added = aw_now acc, ct_verified = None\<rparr>"
  show ?thesis
    using tbl_get_other_update[of ct_user "\<lambda>_. ?row" i u "aw_claude acc"] tbl_get_hit[of ct_user "\<lambda>_. ?row" i "aw_claude acc"]
    by (auto simp: claude_set_def Let_def tbl_get_append tbl_get_None[THEN iffD2] split: option.split)
qed

lemma marked_get:
  "tbl_get ct_user u (aw_claude (snd (claude_mark_verified i acc))) =
     (if u = i then map_option (ct_verified_update (\<lambda>_. Some (aw_now acc))) (tbl_get ct_user u (aw_claude acc))
      else tbl_get ct_user u (aw_claude acc))"
proof (cases "i \<in> ct_user ` set (aw_claude acc)")
  case True
  then show ?thesis
    using tbl_get_update[of ct_user "ct_verified_update (\<lambda>_. Some (aw_now acc))" u i "aw_claude acc"]
    by (auto simp: claude_mark_verified_def)
next
  case False
  then show ?thesis by (auto simp: claude_mark_verified_def tbl_get_None[symmetric])
qed

text \<open>What a stored row says: its ciphertext and nonce.\<close>

definition stored_token :: "id \<Rightarrow> accounts \<Rightarrow> (string \<times> string) option" where
  "stored_token u acc = map_option (\<lambda>c. (ct_cipher c, ct_nonce c)) (tbl_get ct_user u (aw_claude acc))"

lemma stored_set: "stored_token u (claude_set i c n l acc) = (if u = i then Some (c, n) else stored_token u acc)"
  by (simp add: stored_token_def claude_set_get)

lemma stored_mark: "stored_token u (snd (claude_mark_verified i acc)) = stored_token u acc"
  by (simp add: stored_token_def marked_get option.map_comp comp_def)

lemma stored_same: "aw_claude acc' = aw_claude acc \<Longrightarrow> stored_token u acc' = stored_token u acc"
  by (simp add: stored_token_def)

lemma stored_delete: "i \<noteq> u \<Longrightarrow> stored_token u (snd (claude_delete i acc)) = stored_token u acc"
  by (simp add: stored_token_def claude_delete_def tbl_get_other_delete)

lemma resolve_stored:
  "stored_token u acc = Some (c, n) \<Longrightarrow> resolve_token la (Some u) acc = box_open (la_suite la) (la_key la) (c, n)"
  by (auto simp: resolve_token_def stored_token_def claude_get_def found_def split: option.splits)

section \<open>Writes of others\<close>

text \<open>
  Anything the API does to the stored tokens but the writes of user \<open>u\<close>: another user's own routes, an administrator's
  service token, and whatever leaves the table alone.
\<close>

inductive others_write :: "account_api \<Rightarrow> id \<Rightarrow> accounts \<Rightarrow> accounts \<Rightarrow> bool" for d u where
  put: "caller p \<noteq> u \<Longrightarrow> put_claude_token d body p r acc = (rep, cs, acc') \<Longrightarrow> others_write d u acc acc'"
| delete: "caller p \<noteq> u \<Longrightarrow> delete_claude_token p r acc = (rep, cs, acc') \<Longrightarrow> others_write d u acc acc'"
| service: "u \<noteq> service_token_user \<Longrightarrow> put_service_token d body p r acc = (rep, cs, acc') \<Longrightarrow> others_write d u acc acc'"
| elsewhere: "aw_claude acc' = aw_claude acc \<Longrightarrow> others_write d u acc acc'"

lemma put_effect:
  assumes "put_claude_token d body p r acc = (rep, cs, acc')"
  shows "aw_claude acc' = aw_claude acc \<or>
    (\<exists>t c n l acc1. body = Some t \<and> aa_seal d t (aw_uuids acc) = Inr (c, n) \<and> aw_claude acc1 = aw_claude acc \<and>
       acc' = snd (claude_mark_verified (caller p) (claude_set (caller p) c n l acc1)))"
  using assms
  by (auto simp: put_claude_token_def sealed_def Let_def split: option.splits if_splits sum.splits prod.splits)
    (metis accounts.select_convs(6) accounts.surjective accounts.update_convs(2) snd_conv)+

lemma delete_effect:
  "delete_claude_token p r acc = (rep, cs, acc') \<Longrightarrow> acc' = snd (claude_delete (caller p) acc)"
  by (auto simp: delete_claude_token_def split: prod.splits sum.splits if_splits)

lemma service_effect:
  assumes "put_service_token d body p r acc = (rep, cs, acc')"
  shows "aw_claude acc' = aw_claude acc \<or> (\<exists>c n l acc1. aw_claude acc1 = aw_claude acc \<and> acc' = claude_set service_token_user c n l acc1)"
proof -
  let ?acc1 = "acc\<lparr>aw_uuids := Suc (aw_uuids acc)\<rparr>"
  have "acc' = acc \<or> acc' = ?acc1 \<or> (\<exists>c n l. acc' = claude_set service_token_user c n l ?acc1)"
    using assms
    by (auto simp: put_service_token_def sealed_def claude_set_service_def split: option.splits if_splits sum.splits prod.splits)
  moreover have "aw_claude ?acc1 = aw_claude acc" by simp
  ultimately show ?thesis by metis
qed

lemma others_keep_token:
  assumes "others_write d u acc acc'"
  shows "stored_token u acc' = stored_token u acc"
  using assms
proof cases
  case (put p body r rep cs)
  show ?thesis using put_effect[OF put(2)] put(1) by (auto simp: stored_mark stored_set intro: stored_same)
next
  case (delete p r rep cs)
  then show ?thesis using delete_effect[OF delete(2)] by (simp add: stored_delete)
next
  case (service body p r rep cs)
  show ?thesis using service_effect[OF service(2)] service(1) by (auto simp: stored_set intro: stored_same)
qed (rule stored_same)

lemma others_keep_token_star: "(others_write d u)\<^sup>*\<^sup>* acc acc' \<Longrightarrow> stored_token u acc' = stored_token u acc"
  by (induction rule: rtranclp_induct) (simp_all add: others_keep_token)

lemma put_stores:
  assumes "put_claude_token d (Some t) p r acc = (Answered code x, cs, acc')"
  shows "\<exists>c n. aa_seal d t (aw_uuids acc) = Inr (c, n) \<and> stored_token (caller p) acc' = Some (c, n)"
proof -
  have "\<exists>c n l acc1. aa_seal d t (aw_uuids acc) = Inr (c, n) \<and> acc' = snd (claude_mark_verified (caller p) (claude_set (caller p) c n l acc1))"
    using assms
    by (auto simp: put_claude_token_def sealed_def Let_def write_error_def split: if_splits sum.splits prod.splits error.splits)
      (metis snd_conv)+
  then show ?thesis by (auto simp: stored_mark stored_set)
qed

section \<open>A stored token and the sessions of its owner\<close>

text \<open>
  C24: A token reaches exactly the sessions of the user who stored it. Once \<open>PUT /me/claude-token\<close> has accepted a token,
  every Claude session of that user is started with it and with no other credential, whatever other users store or
  delete in the meantime and whatever service token an administrator sets; authenticated encryption decrypts what it
  encrypted under the same key and nonce.
\<close>

theorem token_reaches_own_sessions:
  assumes "\<And>key nonce plain. cp_decrypt (la_suite la) key nonce (cp_encrypt (la_suite la) key nonce plain) = Some plain"
    and "aa_seal d = box_seal (la_suite la) (la_key la)"
    and "put_claude_token d (Some t) (Some pn) r acc = (Answered code (), cs, acc1)"
    and "(others_write d (us_id (pn_user pn)))\<^sup>*\<^sup>* acc1 acc2"
    and "se_owner s = Some (us_id (pn_user pn))" and "se_harness s = kind_claude"
    and "launch_spec la acc2 s ws pf resume schema sysprompt = Inr spec"
  shows "sp_env spec = [(''CLAUDE_CODE_OAUTH_TOKEN'', t)]"
proof -
  let ?u = "us_id (pn_user pn)"
  have u: "caller (Some pn) = ?u" by (simp add: caller_def actor_id_def)
  obtain c n where cn: "aa_seal d t (aw_uuids acc) = Inr (c, n)" "stored_token ?u acc1 = Some (c, n)"
    using put_stores[OF assms(3)] u by auto
  have "stored_token ?u acc2 = Some (c, n)" using cn(2) others_keep_token_star[OF assms(4)] by simp
  moreover have "c = cp_encrypt (la_suite la) (la_key la) n t"
    using cn(1) by (auto simp: assms(2) box_seal_def split: sum.splits)
  ultimately have "resolve_token la (Some ?u) acc2 = Inr t" by (simp add: resolve_stored box_open_def assms(1))
  then show ?thesis
    using assms(5-7) by (auto simp: launch_spec_def credential_env_def kind_claude_def kind_codex_def session_spec_def split: sum.splits)
qed

text \<open>A user without a token of their own never falls back on the service's.\<close>

lemma no_fallback: "stored_token u acc = None \<Longrightarrow> resolve_token la (Some u) acc = Inl (ErrInvalid ''add a Claude token in your profile'')"
  by (auto simp: resolve_token_def stored_token_def claude_get_def found_def missing_is_invalid_def split: option.splits)

text \<open>Ann stores a token, Bob his, an administrator the service's; Ann's session runs on hers.\<close>

definition toy_suite :: cipher_suite where
  "toy_suite = \<lparr>cp_sha256 = (\<lambda>s. s), cp_random = (\<lambda>n. Inr (replicate n CHR ''n'')), cp_encrypt = (\<lambda>k n p. n @ rev p),
     cp_decrypt = (\<lambda>k n c. Some (rev (drop (length n) c)))\<rparr>"

definition toy_launcher :: launcher where
  "toy_launcher = \<lparr>la_suite = toy_suite, la_key = ''k'', la_has_codex = False, la_users_dir = ''/u'', la_service_home = ''/s'',
     la_mkdir = (\<lambda>_. None), la_is_uuid = (\<lambda>_. True), la_exec = (\<lambda>_ _. None)\<rparr>"

definition toy_user :: "id \<Rightarrow> principal" where
  "toy_user i = \<lparr>pn_user = \<lparr>us_id = i, us_issuer = [], us_subject = i, us_email = [], us_name = i, us_avatar = [],
     us_role = RoleMember, us_created = 0, us_last_login = 0, us_prefs = []\<rparr>, pn_login = [], pn_token_auth = False\<rparr>"

definition toy_accounts :: accounts where
  "toy_accounts = \<lparr>aw_now = 0, aw_uuids = 2, aw_users = [], aw_logins = [], aw_tokens = [], aw_claude = [], aw_codex = [], aw_runtimes = []\<rparr>"

definition toy_api :: "account_api \<Rightarrow> account_api" where
  "toy_api d = d\<lparr>aa_seal := box_seal toy_suite ''k'', aa_verify_claude := (\<lambda>_. None)\<rparr>"

definition toy_session :: session where
  "toy_session = \<lparr>se_id = ''s'', se_owner = Some ''ann'', se_title = [], se_workspace = ''w'', se_profile = ''p'', se_harness = ''claude'',
     se_harness_ref = [], se_state = SessionOpen, se_origin = [], se_origin_ref = [], se_worktree = ''/wt'', se_model = [],
     se_effort = [], se_created = 0, se_last_active = 0, se_num_turns = 0, se_cost = 0, se_tokens_in = 0, se_tokens_out = 0,
     se_now_line = [], se_branch = [], se_base_ref = [], se_shared = False, se_slash_commands = [], se_diff_add = 0, se_diff_del = 0\<rparr>"

lemmas toy_defs = toy_api_def toy_suite_def toy_user_def toy_accounts_def box_seal_def sealed_def put_claude_token_def caller_def
  actor_id_def claude_set_def claude_mark_verified_def tbl_update_def

lemma token_kept_apart:
  "\<exists>cs1 acc1. put_claude_token (toy_api d) (Some ''sk-ann'') (Some (toy_user ''ann'')) r toy_accounts = (Answered 204 (), cs1, acc1) \<and>
     (\<exists>cs2 acc2. put_claude_token (toy_api d) (Some ''sk-bob'') (Some (toy_user ''bob'')) r acc1 = (Answered 204 (), cs2, acc2))"
  by (simp add: toy_defs)

theorem token_reaches_own_sessions_witness:
  "\<forall>d r ws pf. \<exists>cs1 acc1 cs2 acc2 spec.
     put_claude_token (toy_api d) (Some ''sk-ann'') (Some (toy_user ''ann'')) r toy_accounts = (Answered 204 (), cs1, acc1) \<and>
     put_claude_token (toy_api d) (Some ''sk-bob'') (Some (toy_user ''bob'')) r acc1 = (Answered 204 (), cs2, acc2) \<and>
     launch_spec toy_launcher acc2 toy_session ws pf False [] [] = Inr spec \<and> sp_env spec = [(''CLAUDE_CODE_OAUTH_TOKEN'', ''sk-ann'')]"
proof (intro allI)
  fix d r ws pf
  obtain cs1 acc1 cs2 acc2 where a: "put_claude_token (toy_api d) (Some ''sk-ann'') (Some (toy_user ''ann'')) r toy_accounts = (Answered 204 (), cs1, acc1)"
    and b: "put_claude_token (toy_api d) (Some ''sk-bob'') (Some (toy_user ''bob'')) r acc1 = (Answered 204 (), cs2, acc2)"
    using token_kept_apart[of d r] by blast
  have u: "us_id (pn_user (toy_user ''ann'')) = ''ann''" by (simp add: toy_user_def)
  have step: "others_write (toy_api d) ''ann'' acc1 acc2"
    using b by (intro others_write.put[OF _ b]) (simp add: toy_user_def caller_def actor_id_def)
  then have star: "(others_write (toy_api d) (us_id (pn_user (toy_user ''ann''))))\<^sup>*\<^sup>* acc1 acc2" unfolding u by blast
  have law: "cp_decrypt (la_suite toy_launcher) k n (cp_encrypt (la_suite toy_launcher) k n q) = Some q" for k n q
    by (simp add: toy_launcher_def toy_suite_def)
  have seal: "aa_seal (toy_api d) = box_seal (la_suite toy_launcher) (la_key toy_launcher)" by (simp add: toy_api_def toy_launcher_def)
  have sess: "se_owner toy_session = Some (us_id (pn_user (toy_user ''ann'')))" "se_harness toy_session = kind_claude"
    by (simp_all add: toy_session_def toy_user_def kind_claude_def)
  obtain c n where "stored_token ''ann'' acc2 = Some (c, n)"
    using put_stores[OF a] others_keep_token[OF step] by (auto simp: toy_user_def caller_def actor_id_def)
  then obtain spec where l: "launch_spec toy_launcher acc2 toy_session ws pf False [] [] = Inr spec"
    by (auto simp: launch_spec_def credential_env_def toy_session_def kind_codex_def resolve_stored box_open_def toy_launcher_def
        toy_suite_def home_dir_def)
  show "\<exists>cs1 acc1 cs2 acc2 spec.
     put_claude_token (toy_api d) (Some ''sk-ann'') (Some (toy_user ''ann'')) r toy_accounts = (Answered 204 (), cs1, acc1) \<and>
     put_claude_token (toy_api d) (Some ''sk-bob'') (Some (toy_user ''bob'')) r acc1 = (Answered 204 (), cs2, acc2) \<and>
     launch_spec toy_launcher acc2 toy_session ws pf False [] [] = Inr spec \<and> sp_env spec = [(''CLAUDE_CODE_OAUTH_TOKEN'', ''sk-ann'')]"
    using token_reaches_own_sessions[OF law seal a star sess l] a b l by blast
qed

section \<open>What a verification quotes\<close>

lemma prefix_of_replaced:
  "prefix p (replace_all old new t) \<Longrightarrow> new \<noteq> [] \<Longrightarrow> hd new \<notin> set p \<Longrightarrow> prefix p t"
proof (induction t arbitrary: p)
  case Nil
  then show ?case by (simp add: replace_all.simps)
next
  case (Cons c t)
  show ?case
  proof (cases "old \<noteq> [] \<and> has_prefix (c # t) old")
    case True
    then have "prefix p (new @ replace_all old new (drop (length old) (c # t)))" using Cons.prems by (simp add: replace_all.simps[of old new "c # t"])
    then show ?thesis using Cons.prems by (cases p; cases new) auto
  next
    case False
    then have "replace_all old new (c # t) = c # replace_all old new t" by (subst replace_all.simps) auto
    then have "prefix p (c # replace_all old new t)" using Cons.prems by simp
    then show ?thesis using Cons.IH Cons.prems by (cases p) auto
  qed
qed

lemma has_prefix_is_prefix: "has_prefix s p \<longleftrightarrow> prefix p s"
  by (induction s p rule: has_prefix.induct) auto

lemma sublist_across:
  "sublist t (a @ b) \<Longrightarrow> a \<noteq> [] \<Longrightarrow> last a \<notin> set t \<Longrightarrow> sublist t a \<or> sublist t b"
proof -
  assume t: "sublist t (a @ b)" and a: "a \<noteq> []" "last a \<notin> set t"
  have "sublist t b" if "t = x @ y" "suffix x a" "prefix y b" for x y
  proof -
    have "x = []"
    proof (rule ccontr)
      assume "x \<noteq> []"
      then have "last x = last a" using that(2) by (auto simp: suffix_def)
      then show False using \<open>x \<noteq> []\<close> that(1) a(2) last_in_set[of x] by simp
    qed
    then show ?thesis using that by (auto intro: prefix_imp_sublist)
  qed
  then show ?thesis using t by (auto simp: sublist_append)
qed

lemma sublist_without_first: "sublist t (c # s) \<Longrightarrow> c \<notin> set t \<Longrightarrow> sublist t s"
  by (cases t) (auto simp: sublist_Cons_right)

lemma sublist_without_last: "sublist t (s @ [c]) \<Longrightarrow> c \<notin> set t \<Longrightarrow> sublist t s"
  using sublist_without_first[of "rev t" c "rev s"] by (metis rev.simps(2) rev_rev_ident set_rev sublist_rev)

lemma sublist_without_end: "sublist t (s @ e) \<Longrightarrow> set t \<inter> set e = {} \<Longrightarrow> sublist t s"
proof (induction e rule: rev_induct)
  case (snoc c e)
  then show ?case using sublist_without_last[of t "s @ e" c] by auto
qed simp

lemma redacted_free:
  assumes "secret \<noteq> []" and "CHR 0x5B \<notin> set secret" and "CHR 0x5D \<notin> set secret" and "\<not> sublist secret ''redacted''"
  shows "\<not> sublist secret (redacted secret s)"
  unfolding redacted_def
proof (induction s rule: length_induct)
  case (1 s)
  show ?case
  proof (cases s)
    case Nil
    then show ?thesis using assms(1) by (simp add: replace_all.simps)
  next
    case (Cons c t)
    show ?thesis
    proof (cases "has_prefix s secret")
      case True
      let ?rest = "replace_all secret ''[redacted]'' (drop (length secret) s)"
      have r: "replace_all secret ''[redacted]'' s = ''[redacted]'' @ ?rest"
        using True Cons assms(1) by (subst replace_all.simps) simp
      have "\<not> sublist secret ''[redacted]''"
        using sublist_without_first[of secret "CHR 0x5B" "''redacted]''"] sublist_without_last[of secret "''redacted''" "CHR 0x5D"] assms
        by auto
      moreover have "\<not> sublist secret ?rest" using 1 Cons assms(1) by (cases secret) auto
      ultimately show ?thesis using sublist_across[of secret "''[redacted]''" ?rest] assms(3) unfolding r by auto
    next
      case False
      have r: "replace_all secret ''[redacted]'' s = c # replace_all secret ''[redacted]'' t"
        using False Cons by (subst replace_all.simps) auto
      have "\<not> sublist secret (replace_all secret ''[redacted]'' t)" using 1 Cons by auto
      moreover have "\<not> prefix secret (replace_all secret ''[redacted]'' s)"
        using prefix_of_replaced[of secret secret "''[redacted]''" s] False assms(2) by (auto simp: has_prefix_is_prefix)
      ultimately show ?thesis unfolding r by (simp add: sublist_Cons_right)
    qed
  qed
qed

lemma trim_sublist: "sublist (trim_space s) s"
proof -
  have "suffix (dropWhile is_space s) s" by (rule suffix_dropWhile)
  moreover have "prefix (rev (dropWhile is_space (rev u))) u" for u :: string
    by (metis rev_rev_ident suffix_dropWhile suffix_to_prefix)
  ultimately show ?thesis
    by (metis prefix_imp_sublist sublist_order.order_trans suffix_imp_sublist trim_func_def trim_left_def trim_right_def trim_space_def)
qed

lemma first_piece: "split_char d s = e # es \<Longrightarrow> prefix e s"
  by (induction s arbitrary: e es) (auto split: if_splits list.splits)

lemma piece_sublist: "l \<in> set (split_char d s) \<Longrightarrow> sublist l s"
proof (induction s arbitrary: l)
  case (Cons c s)
  obtain e es where sp: "split_char d s = e # es" using split_char_nonempty[of d s] by (cases "split_char d s") auto
  show ?case
    using Cons sp first_piece[OF sp] by (cases "c = d") (auto simp: sublist_Cons_right)
qed simp

lemma truncated_free:
  assumes "\<not> sublist secret s" "secret \<noteq> []" "set secret \<inter> set ellipsis = {}"
  shows "\<not> sublist secret (truncated s n)"
proof
  assume t: "sublist secret (truncated s n)"
  have "\<not> sublist secret (take n s)"
    using assms(1) by (meson prefix_imp_sublist sublist_order.order_trans take_is_prefix)
  moreover have "sublist secret (take n s)" if "sublist secret (take n s @ ellipsis)"
    using sublist_without_end[OF that assms(3)] .
  ultimately show False using t assms(1) by (auto simp: truncated_def split: if_splits)
qed

lemma last_line_free:
  assumes "\<not> sublist secret s" "secret \<noteq> []" "set secret \<inter> set ellipsis = {}"
  shows "\<not> sublist secret (last_line s)"
proof (cases "find (\<lambda>l. l \<noteq> []) (map trim_space (rev (split_char CHR 0x0A (trim_space s))))")
  case None
  then show ?thesis using assms(2) by (simp add: last_line_def)
next
  case (Some l)
  then obtain q where "l = trim_space q" "q \<in> set (split_char CHR 0x0A (trim_space s))" by (auto simp: find_Some_iff)
      (metis length_map nth_map nth_mem set_rev length_rev)
  then have "sublist l s" using trim_sublist piece_sublist sublist_order.order_trans by metis
  then have "\<not> sublist secret l" using assms(1) sublist_order.order_trans by blast
  then show ?thesis using Some truncated_free assms(2,3) by (simp add: last_line_def)
qed

text \<open>What the verifiers say of their own, before they quote the CLI.\<close>

definition own_words :: "string \<Rightarrow> string \<Rightarrow> child_run \<Rightarrow> string set" where
  "own_words bin timeout r =
     (let code = (case cr_end r of ChildExited n \<Rightarrow> show_int n | _ \<Rightarrow> [])
      in {''claude: verify: timed out after '' @ timeout, ''claude: verify: '' @ path_base bin @ '' exited '' @ code @ '': '',
          ''claude: verify: could not start '' @ path_base bin @ '': '', ''claude: verify: could not parse CLI output: '',
          ''claude: verify: token rejected: '', ''codex: verify: timed out after '' @ timeout,
          ''codex: verify: key rejected: '' @ path_base bin @ '' exited '' @ code @ '': '',
          ''codex: verify: could not start '' @ path_base bin @ '': ''})"

text \<open>
  C25: An error of a verification never shows the credential it tried. Whatever the CLI prints, on either stream or as
  its result, and however it fails, the error of either verifier is its own fixed words followed by a quotation in
  which the credential does not occur; for a credential without brackets and the bytes of the ellipsis, that is no
  piece of the words put in its place.
\<close>

theorem verification_hides_secret:
  assumes "secret \<noteq> []" and "CHR 0x5B \<notin> set secret" and "CHR 0x5D \<notin> set secret" and "\<not> sublist secret ''redacted''"
    and "set secret \<inter> set ellipsis = {}" and "\<not> sublist secret ''no output''"
    and "claude_verify unmarshal bin timeout (\<lambda>_. Inr r) secret = Some m \<or> codex_verify bin timeout (\<lambda>_. Inr r) secret = Some m"
  shows "\<exists>a \<in> own_words bin timeout r. \<exists>q. m = a @ q \<and> \<not> sublist secret q"
proof -
  have free: "\<not> sublist secret (redacted secret s)" for s using redacted_free[OF assms(1-4)] .
  have detail: "\<not> sublist secret (or_none (run_detail secret r))"
    using last_line_free[OF free assms(1,5)] assms(6) by (simp add: run_detail_def or_none_def Let_def)
  have trimmed: "\<not> sublist secret (trim_space (redacted secret s))" for s
    using free trim_sublist sublist_order.order_trans by blast
  have rejected: "\<exists>q. rejection secret r result = ''claude: verify: token rejected: '' @ q \<and> \<not> sublist secret q" for result
    using truncated_free[OF trimmed assms(1,5)] truncated_free[OF last_line_free[OF free assms(1,5)] assms(1,5)] assms(6)
    by (simp add: rejection_def or_none_def run_detail_def Let_def)
  have failure: "\<exists>a \<in> own_words bin timeout r. \<exists>q. x = a @ q \<and> \<not> sublist secret q"
    if "run_failure ''claude'' [] bin timeout secret r = Some x \<or> run_failure ''codex'' ''key rejected: '' bin timeout secret r = Some x" for x
    using that detail free assms(1) by (cases "cr_end r") (auto simp: run_failure_def own_words_def Let_def)
  show ?thesis
    using assms(7)
  proof
    assume c: "claude_verify unmarshal bin timeout (\<lambda>_. Inr r) secret = Some m"
    show ?thesis
    proof (cases "run_failure ''claude'' [] bin timeout secret r")
      case (Some x)
      then show ?thesis using c failure by (simp add: claude_verify_def)
    next
      case None
      then have "m = ''claude: verify: could not parse CLI output: '' @ or_none (run_detail secret r) \<or> (\<exists>result. m = rejection secret r result)"
        using c by (auto simp: claude_verify_def split: option.splits if_splits)
      then show ?thesis
      proof
        assume "m = ''claude: verify: could not parse CLI output: '' @ or_none (run_detail secret r)"
        then show ?thesis using detail by (force simp: own_words_def Let_def)
      next
        assume "\<exists>result. m = rejection secret r result"
        then obtain q where "m = ''claude: verify: token rejected: '' @ q" "\<not> sublist secret q" using rejected by metis
        then show ?thesis by (force simp: own_words_def Let_def)
      qed
    qed
  next
    assume "codex_verify bin timeout (\<lambda>_. Inr r) secret = Some m"
    then show ?thesis using failure by (simp add: codex_verify_def)
  qed
qed

definition leaky_run :: child_run where
  "leaky_run = \<lparr>cr_out = [], cr_err = ''bad token sk-x'', cr_end = ChildExited 1\<rparr>"

lemma leaky_run_fails: "codex_verify ''codex'' [] (\<lambda>_. Inr leaky_run) ''sk-x'' =
    Some ''codex: verify: key rejected: codex exited 1: bad token [redacted]''"
  by code_simp

theorem verification_hides_secret_witness:
  "\<exists>a \<in> own_words ''codex'' [] leaky_run. \<exists>q. ''codex: verify: key rejected: codex exited 1: bad token [redacted]'' = a @ q \<and>
     \<not> sublist ''sk-x'' q"
proof -
  have "\<not> sublist ''sk-x'' ''redacted''" "\<not> sublist ''sk-x'' ''no output''" by (simp_all add: sublist_Cons_right)
  moreover have "set ''sk-x'' \<inter> set ellipsis = {}" by code_simp
  ultimately show ?thesis
    using leaky_run_fails by (intro verification_hides_secret[where unmarshal = "\<lambda>_. None"]) simp_all
qed

text \<open>A result that does not say whether it is an error is taken for a success.\<close>

lemma silent_result_verifies:
  "claude_verify (\<lambda>_. Some (JObj [])) bin timeout (\<lambda>_. Inr \<lparr>cr_out = ''{}'', cr_err = [], cr_end = ChildOk\<rparr>) secret = None"
  by (simp add: claude_verify_def run_failure_def fld_def bool_of_def str_of_def)

end
