(* ===== verification/Config.thy ===== *)
theory Config
  imports Go_Text Auth
begin

text \<open>
  The configuration, \<open>internal/config\<close>, and what every subcommand of \<open>cmd/styr\<close> does around it: the environment file
  (\<open>env.go\<close>) and the pid file (\<open>pidfile.go\<close>). The \<open>host\<close> is what the commands see and change of the machine: the
  process environment, the files by the elements of their absolute path, the lines printed, the clock. Reading YAML,
  \<open>time.ParseDuration\<close>, quoting and the answers of the kernel are the parameters of a \<open>machine\<close>; messages are texts.
\<close>

section \<open>The host\<close>

record host =
  ho_env :: "string \<Rightarrow> string option"
  ho_files :: "string list \<Rightarrow> string option"
  ho_printed :: "string list"
  ho_now :: time

datatype sys_call =
    SysStat | SysRead | SysCreate | SysWrite | SysClose | SysRemove | SysRename | SysMkdirAll | SysTemp

datatype fault = NotExist string | Fault string

datatype signal_answer = Delivered | NoSuchProcess | NotPermitted

record config =
  cf_env :: string
  cf_listen :: string
  cf_base_url :: string
  cf_data_dir :: string
  cf_secret_key :: string
  cf_claude_bin :: string
  cf_codex_bin :: string
  cf_max_open :: int
  cf_idle_timeout :: duration
  cf_approval_timeout :: duration
  cf_oidc :: "oidc_provider list"
  cf_dev_user :: string

text \<open>
  \<open>mc_error\<close> is how a call on a path may fail for another reason than a missing file; \<open>mc_yaml\<close> is \<open>yaml.Unmarshal\<close>
  into a configuration, which keeps the fields the document does not name and may leave a half read one.
\<close>

record machine =
  mc_cwd :: string
  mc_pid :: nat
  mc_error :: "sys_call \<Rightarrow> string \<Rightarrow> host \<Rightarrow> string option"
  mc_signal :: "int \<Rightarrow> host \<Rightarrow> signal_answer"
  mc_duration :: "string \<Rightarrow> duration option"
  mc_quote :: "string \<Rightarrow> string"
  mc_atoi_error :: "string \<Rightarrow> string"
  mc_yaml :: "string \<Rightarrow> config \<Rightarrow> config \<times> string option"

definition place :: "('m) machine_scheme \<Rightarrow> string \<Rightarrow> string list" where
  "place mc p = elements_from (mc_cwd mc) p"

definition file_of :: "('m) machine_scheme \<Rightarrow> string \<Rightarrow> host \<Rightarrow> string option" where
  "file_of mc p h = ho_files h (place mc p)"

fun fault_text :: "fault \<Rightarrow> string" where
  "fault_text (NotExist e) = e"
| "fault_text (Fault e) = e"

definition not_exist :: "string \<Rightarrow> string \<Rightarrow> fault" where
  "not_exist call p = NotExist (call @ '' '' @ p @ '': no such file or directory'')"

definition stat_file :: "('m) machine_scheme \<Rightarrow> string \<Rightarrow> host \<Rightarrow> fault option" where
  "stat_file mc p h =
     (case mc_error mc SysStat p h of Some e \<Rightarrow> Some (Fault e)
      | None \<Rightarrow> (if file_of mc p h = None then Some (not_exist ''stat'' p) else None))"

definition read_file :: "('m) machine_scheme \<Rightarrow> string \<Rightarrow> host \<Rightarrow> fault + string" where
  "read_file mc p h =
     (case mc_error mc SysRead p h of Some e \<Rightarrow> Inl (Fault e)
      | None \<Rightarrow> (case file_of mc p h of None \<Rightarrow> Inl (not_exist ''open'' p) | Some s \<Rightarrow> Inr s))"

definition put_file :: "('m) machine_scheme \<Rightarrow> string \<Rightarrow> string option \<Rightarrow> host \<Rightarrow> host" where
  "put_file mc p s h = h\<lparr>ho_files := (ho_files h)(place mc p := s)\<rparr>"

definition write_file :: "('m) machine_scheme \<Rightarrow> string \<Rightarrow> string \<Rightarrow> host \<Rightarrow> string option \<times> host" where
  "write_file mc p s h =
     (case mc_error mc SysWrite p h of Some e \<Rightarrow> (Some e, h) | None \<Rightarrow> (None, put_file mc p (Some s) h))"

definition remove_file :: "('m) machine_scheme \<Rightarrow> string \<Rightarrow> host \<Rightarrow> fault option \<times> host" where
  "remove_file mc p h =
     (case mc_error mc SysRemove p h of Some e \<Rightarrow> (Some (Fault e), h)
      | None \<Rightarrow> (if file_of mc p h = None then (Some (not_exist ''remove'' p), h) else (None, put_file mc p None h)))"

definition rename_file :: "('m) machine_scheme \<Rightarrow> string \<Rightarrow> string \<Rightarrow> host \<Rightarrow> string option \<times> host" where
  "rename_file mc p q h =
     (case mc_error mc SysRename p h of Some e \<Rightarrow> (Some e, h)
      | None \<Rightarrow>
          (case file_of mc p h of
             None \<Rightarrow> (Some (fault_text (not_exist (''rename '' @ p) q)), h)
           | Some s \<Rightarrow> (None, if place mc p = place mc q then h else put_file mc q (Some s) (put_file mc p None h))))"

definition print_line :: "string \<Rightarrow> host \<Rightarrow> host" where
  "print_line l h = h\<lparr>ho_printed := ho_printed h @ [l]\<rparr>"

definition get_env :: "string \<Rightarrow> host \<Rightarrow> string" where
  "get_env k h = (case ho_env h k of None \<Rightarrow> [] | Some v \<Rightarrow> v)"

text \<open>\<open>os.Setenv\<close>, which refuses an empty key, a key with an equals sign, and a null byte in either.\<close>

definition set_env :: "string \<Rightarrow> string \<Rightarrow> host \<Rightarrow> host option" where
  "set_env k v h =
     (if k = [] \<or> CHR ''='' \<in> set k \<or> CHR 0x00 \<in> set k \<or> CHR 0x00 \<in> set v then None
      else Some (h\<lparr>ho_env := (ho_env h)(k := Some v)\<rparr>))"

text \<open>
  A package \<open>flag\<close> set of one boolean flag: what it stops with and whether it prints its usage, or the value of the
  flag and the arguments that are left. It stops at the first argument that is no flag.
\<close>

definition parse_bool :: "string \<Rightarrow> bool option" where
  "parse_bool s =
     (if s \<in> {''1'', ''t'', ''T'', ''TRUE'', ''true'', ''True''} then Some True
      else if s \<in> {''0'', ''f'', ''F'', ''FALSE'', ''false'', ''False''} then Some False else None)"

fun parse_flag :: "('m) machine_scheme \<Rightarrow> string \<Rightarrow> bool \<Rightarrow> string list \<Rightarrow> string option + (bool \<times> string list)" where
  "parse_flag mc flag v [] = Inr (v, [])"
| "parse_flag mc flag v (s # args) =
     (if length s < 2 \<or> hd s \<noteq> CHR ''-'' then Inr (v, s # args)
      else if s = ''--'' then Inr (v, args)
      else (let name = (if s ! 1 = CHR ''-'' then drop 2 s else drop 1 s)
            in if name = [] \<or> hd name = CHR ''-'' \<or> hd name = CHR ''='' then Inl (Some (''bad flag syntax: '' @ s))
               else (let (key, given) = (case split_two name ''='' of [k, x] \<Rightarrow> (k, Some x) | _ \<Rightarrow> (name, None))
                     in if key \<noteq> flag
                        then Inl (if key = ''help'' \<or> key = ''h'' then None
                                  else Some (''flag provided but not defined: -'' @ key))
                        else case given of
                               None \<Rightarrow> parse_flag mc flag True args
                             | Some x \<Rightarrow>
                                 (case parse_bool x of
                                    Some b \<Rightarrow> parse_flag mc flag b args
                                  | None \<Rightarrow> Inl (Some (''invalid boolean value '' @ mc_quote mc x @ '' for -'' @ key @
                                                       '': parse error''))))))"

definition flag_failed :: "string option \<Rightarrow> string list \<Rightarrow> host \<Rightarrow> host" where
  "flag_failed e usage h = fold print_line ((case e of None \<Rightarrow> [] | Some m \<Rightarrow> [m]) @ usage) h"

section \<open>The configuration (config.go)\<close>

definition default_oidc_scopes :: "string list" where
  "default_oidc_scopes = [''openid'', ''profile'', ''email'']"

definition default_config :: config where
  "default_config =
     \<lparr>cf_env = ''prod'', cf_listen = ''127.0.0.1:8080'', cf_base_url = [], cf_data_dir = [], cf_secret_key = [],
      cf_claude_bin = ''claude'', cf_codex_bin = ''codex'', cf_max_open = 4,
      cf_idle_timeout = 15 * 60 * 1000000000, cf_approval_timeout = 30 * 60 * 1000000000, cf_oidc = [], cf_dev_user = []\<rparr>"

definition env_text :: "host \<Rightarrow> string \<Rightarrow> string \<Rightarrow> string" where
  "env_text h key v = (case ho_env h (''STYR_'' @ key) of None \<Rightarrow> v | Some x \<Rightarrow> x)"

definition env_integer :: "host \<Rightarrow> string \<Rightarrow> int \<Rightarrow> int" where
  "env_integer h key v =
     (case ho_env h (''STYR_'' @ key) of None \<Rightarrow> v | Some x \<Rightarrow> (case parse_int x of None \<Rightarrow> v | Some n \<Rightarrow> n))"

definition env_duration :: "('m) machine_scheme \<Rightarrow> host \<Rightarrow> string \<Rightarrow> duration \<Rightarrow> duration" where
  "env_duration mc h key v =
     (case ho_env h (''STYR_'' @ key) of None \<Rightarrow> v | Some x \<Rightarrow> (case mc_duration mc x of None \<Rightarrow> v | Some d \<Rightarrow> d))"

definition apply_env :: "('m) machine_scheme \<Rightarrow> host \<Rightarrow> config \<Rightarrow> config" where
  "apply_env mc h c =
     c\<lparr>cf_env := env_text h ''ENV'' (cf_env c),
       cf_listen := env_text h ''LISTEN'' (cf_listen c),
       cf_base_url := env_text h ''BASE_URL'' (cf_base_url c),
       cf_data_dir := env_text h ''DATA_DIR'' (cf_data_dir c),
       cf_secret_key := env_text h ''SECRET_KEY'' (cf_secret_key c),
       cf_claude_bin := env_text h ''CLAUDE_BIN'' (cf_claude_bin c),
       cf_codex_bin := env_text h ''CODEX_BIN'' (cf_codex_bin c),
       cf_max_open := env_integer h ''MAX_OPEN_SESSIONS'' (cf_max_open c),
       cf_idle_timeout := env_duration mc h ''IDLE_TIMEOUT'' (cf_idle_timeout c),
       cf_approval_timeout := env_duration mc h ''APPROVAL_TIMEOUT'' (cf_approval_timeout c),
       cf_dev_user := env_text h ''DEV_USER'' (cf_dev_user c),
       cf_oidc := (case (ho_env h ''STYR_OIDC_CLIENT_SECRET'', cf_oidc c) of
                     (Some v, p # ps) \<Rightarrow> p\<lparr>op_secret := v\<rparr> # ps
                   | _ \<Rightarrow> cf_oidc c)\<rparr>"

definition validate_config :: "('m) machine_scheme \<Rightarrow> config \<Rightarrow> string option" where
  "validate_config mc c =
     (if cf_env c \<noteq> ''prod'' \<and> cf_env c \<noteq> ''dev''
      then Some (''config: env must be '' @ mc_quote mc ''prod'' @ '' or '' @ mc_quote mc ''dev'' @ '', got '' @
                 mc_quote mc (cf_env c))
      else if cf_listen c = [] then Some ''config: listen is required''
      else if cf_data_dir c = [] then Some ''config: data_dir is required''
      else if length (cf_secret_key c) < 32 then Some ''config: secret_key must be at least 32 bytes''
      else if cf_max_open c < 1 then Some ''config: max_open_sessions must be >= 1''
      else if cf_env c = ''prod'' \<and> cf_base_url c = [] then Some ''config: base_url is required in prod''
      else if cf_env c = ''prod'' \<and> cf_oidc c = [] then Some ''config: at least one oidc provider is required in prod''
      else None)"

definition default_data_dir :: "config \<Rightarrow> config" where
  "default_data_dir c =
     (if cf_data_dir c = [] then c\<lparr>cf_data_dir := (if cf_env c = ''dev'' then ''./data'' else ''/var/lib/styr'')\<rparr> else c)"

definition fill_scopes :: "oidc_provider \<Rightarrow> oidc_provider" where
  "fill_scopes p = (if op_scopes p = [] then p\<lparr>op_scopes := default_oidc_scopes\<rparr> else p)"

definition settle_config :: "('m) machine_scheme \<Rightarrow> host \<Rightarrow> config \<Rightarrow> config" where
  "settle_config mc h c = (let d = default_data_dir (apply_env mc h c) in d\<lparr>cf_oidc := map fill_scopes (cf_oidc d)\<rparr>)"

text \<open>\<open>Load\<close> returns the configuration it has so far beside an error.\<close>

definition load_config :: "('m) machine_scheme \<Rightarrow> string \<Rightarrow> host \<Rightarrow> config \<times> string option" where
  "load_config mc path h =
     (let finish = (\<lambda>c. let d = settle_config mc h c in (d, validate_config mc d))
      in if path = [] then finish default_config
         else case read_file mc path h of
                Inl (NotExist _) \<Rightarrow> finish default_config
              | Inl (Fault e) \<Rightarrow> (default_config, Some (''read '' @ path @ '': '' @ e))
              | Inr b \<Rightarrow>
                  (case mc_yaml mc b default_config of
                     (c, Some e) \<Rightarrow> (c, Some (''parse '' @ path @ '': '' @ e))
                   | (c, None) \<Rightarrow> finish c))"

definition db_path :: "config \<Rightarrow> string" where "db_path c = go_join [cf_data_dir c, ''styr.db'']"
definition users_dir :: "config \<Rightarrow> string" where "users_dir c = go_join [cf_data_dir c, ''users'']"
definition workspaces_dir :: "config \<Rightarrow> string" where "workspaces_dir c = go_join [cf_data_dir c, ''workspaces'']"

section \<open>The environment file (env.go)\<close>

definition env_file_path :: "host \<Rightarrow> string" where
  "env_file_path h = (let p = get_env ''STYR_ENV_FILE'' h in if p \<noteq> [] then p else ''/etc/styr/env'')"

definition unquote_value :: "string \<Rightarrow> string" where
  "unquote_value v =
     (if 2 \<le> length v \<and> (hd v = CHR 0x22 \<and> last v = CHR 0x22 \<or> hd v = CHR 0x27 \<and> last v = CHR 0x27)
      then butlast (tl v) else v)"

text \<open>The key and value of a line, unless it is blank, a comment or no assignment.\<close>

definition env_line :: "string \<Rightarrow> (string \<times> string) option" where
  "env_line raw =
     (let line = trim_space raw
      in if line = [] \<or> has_prefix line ''#'' then None
         else case split_two (trim_prefix line ''export '') ''='' of
                [k, v] \<Rightarrow> (if k = [] then None else Some (k, unquote_value (trim_space v)))
              | _ \<Rightarrow> None)"

fun load_env_lines :: "string list \<Rightarrow> host \<Rightarrow> nat \<times> host" where
  "load_env_lines [] h = (0, h)"
| "load_env_lines (l # ls) h =
     (case env_line l of
        None \<Rightarrow> load_env_lines ls h
      | Some (k, v) \<Rightarrow>
          (if ho_env h k \<noteq> None then load_env_lines ls h
           else case set_env k v h of
                  None \<Rightarrow> load_env_lines ls h
                | Some h1 \<Rightarrow> (let (n, h2) = load_env_lines ls h1 in (Suc n, h2))))"

definition load_env_file :: "('m) machine_scheme \<Rightarrow> string \<Rightarrow> host \<Rightarrow> nat \<times> host" where
  "load_env_file mc path h =
     (case read_file mc path h of
        Inl _ \<Rightarrow> (0, h)
      | Inr data \<Rightarrow> load_env_lines (split_char (CHR 0x0A) data) h)"

definition load_env :: "('m) machine_scheme \<Rightarrow> host \<Rightarrow> host" where
  "load_env mc h =
     (let env_file = env_file_path h; (n, h1) = load_env_file mc env_file h
      in if 0 < n then print_line (''note loaded '' @ show_nat n @ '' variable(s) from '' @ env_file) h1
         else if stat_file mc env_file h1 \<noteq> None then h1
         else case read_file mc env_file h1 of
                Inl e \<Rightarrow> print_line (''warn '' @ env_file @ '' exists but is not readable by this user ('' @ fault_text e @
                          ''); secrets from it are missing, run as root or as a member of the file's group'') h1
              | Inr _ \<Rightarrow> h1)"

section \<open>The pid file (pidfile.go)\<close>

definition pid_file_path :: "string \<Rightarrow> string" where
  "pid_file_path data_dir = go_join [data_dir, ''styr.pid'']"

definition write_pid_file :: "('m) machine_scheme \<Rightarrow> string \<Rightarrow> host \<Rightarrow> string option \<times> host" where
  "write_pid_file mc path h =
     (case write_file mc path (show_nat (mc_pid mc) @ [CHR 0x0A]) h of
        (Some e, h1) \<Rightarrow> (Some (''write pid file '' @ path @ '': '' @ e), h1)
      | (None, h1) \<Rightarrow> (None, h1))"

definition remove_pid_file :: "('m) machine_scheme \<Rightarrow> string \<Rightarrow> host \<Rightarrow> string option \<times> host" where
  "remove_pid_file mc path h =
     (case remove_file mc path h of
        (Some (Fault e), h1) \<Rightarrow> (Some (''remove pid file '' @ path @ '': '' @ e), h1)
      | (_, h1) \<Rightarrow> (None, h1))"

definition read_pid_file :: "('m) machine_scheme \<Rightarrow> string \<Rightarrow> host \<Rightarrow> string + int option" where
  "read_pid_file mc path h =
     (case read_file mc path h of
        Inl (NotExist _) \<Rightarrow> Inr None
      | Inl (Fault e) \<Rightarrow> Inl (''read pid file '' @ path @ '': '' @ e)
      | Inr data \<Rightarrow>
          (case parse_int (trim_space data) of
             None \<Rightarrow> Inl (''parse pid file '' @ path @ '': '' @ mc_atoi_error mc (trim_space data))
           | Some pid \<Rightarrow> Inr (Some pid)))"

definition pid_live :: "('m) machine_scheme \<Rightarrow> int \<Rightarrow> host \<Rightarrow> bool" where
  "pid_live mc pid h = (mc_signal mc pid h = Delivered)"

definition server_running :: "('m) machine_scheme \<Rightarrow> string \<Rightarrow> host \<Rightarrow> string + int option" where
  "server_running mc data_dir h =
     (case read_pid_file mc (pid_file_path data_dir) h of
        Inl e \<Rightarrow> Inl e
      | Inr None \<Rightarrow> Inr None
      | Inr (Some pid) \<Rightarrow> Inr (if pid_live mc pid h then Some pid else None))"

end
