(* ===== verification/Backup.thy ===== *)
theory Backup
  imports Config
begin

text \<open>
  Backup and restore, \<open>cmd/styr/backup.go\<close> and \<open>cmd/styr/restore.go\<close>. The bytes of an archive are a text; gzip, tar
  and JSON are parameters between texts and their entries and manifests, SQLite's \<open>VACUUM INTO\<close>, the schema version of
  a database file and the migrations of \<open>db.Open\<close> are parameters on the files of a database. A file written into an
  archive and a temporary directory are not seen by anything else, so of the latter only what ends in the archive is
  modelled.
\<close>

section \<open>Archives and manifests\<close>

datatype yaml =
    YScalar string
  | YSeq "yaml list"
  | YMap "(string \<times> yaml) list"
  | YOther "(yaml \<times> yaml) list"

record manifest =
  mf_version :: string
  mf_schema :: int
  mf_created :: string
  mf_hostname :: string

record tar_entry =
  te_regular :: bool
  te_name :: string
  te_data :: string

text \<open>What \<open>tar.Reader\<close> gives: an entry, an entry whose data breaks off with an error, or no entry but an error.\<close>

datatype tar_item = Whole tar_entry | Torn tar_entry string | Broken string

text \<open>
  \<open>vt_unpack\<close> is \<open>None\<close> on what is no gzip stream. \<open>vt_vacuum\<close> and \<open>vt_migrate\<close> see a database file and its
  write-ahead log; \<open>vt_migrate\<close> is \<open>db.Open\<close> followed by \<open>Close\<close>, which says what it leaves of both beside an error.
  \<open>vt_temp\<close> is the random part of the name of a temporary file.
\<close>

record vault = machine +
  vt_version :: string
  vt_hostname :: "string option"
  vt_rfc3339 :: "time \<Rightarrow> string"
  vt_stamp :: "time \<Rightarrow> string"
  vt_yaml_doc :: "string \<Rightarrow> (string \<times> yaml) list option"
  vt_yaml_print :: "(string \<times> yaml) list \<Rightarrow> string"
  vt_manifest_print :: "manifest \<Rightarrow> string"
  vt_manifest_read :: "string \<Rightarrow> string + manifest"
  vt_pack :: "tar_entry list \<Rightarrow> string"
  vt_unpack :: "string \<Rightarrow> tar_item list option"
  vt_vacuum :: "string \<Rightarrow> string option \<Rightarrow> string + string"
  vt_schema :: "string option \<Rightarrow> string + int"
  vt_migrate :: "string option \<Rightarrow> string option \<Rightarrow> (string option \<times> string option) \<times> string option"
  vt_temp :: "host \<Rightarrow> string"
  vt_temp_dir :: "string \<Rightarrow> host \<Rightarrow> string + string"

definition entry_db :: string where "entry_db = ''styr.db''"
definition entry_config :: string where "entry_config = ''config.yaml''"
definition entry_manifest :: string where "entry_manifest = ''manifest.json''"
definition secret_config_keys :: "string list" where "secret_config_keys = [''secret_key'', ''dev_user'']"

section \<open>Backup (backup.go)\<close>

definition drop_key :: "string \<Rightarrow> (string \<times> yaml) list \<Rightarrow> (string \<times> yaml) list" where
  "drop_key k doc = filter (\<lambda>kv. fst kv \<noteq> k) doc"

fun redact_provider :: "yaml \<Rightarrow> yaml" where
  "redact_provider (YMap m) = YMap (drop_key ''client_secret'' m)"
| "redact_provider y = y"

definition redact_providers :: "yaml \<Rightarrow> yaml" where
  "redact_providers y = (case y of YSeq ps \<Rightarrow> YSeq (map redact_provider ps) | _ \<Rightarrow> y)"

definition redact_doc :: "(string \<times> yaml) list \<Rightarrow> (string \<times> yaml) list" where
  "redact_doc doc =
     map (\<lambda>(k, v). (k, if k = ''oidc'' then redact_providers v else v)) (foldl (\<lambda>d k. drop_key k d) doc secret_config_keys)"

definition redacted_config_yaml :: "('m) vault_scheme \<Rightarrow> string \<Rightarrow> host \<Rightarrow> string option" where
  "redacted_config_yaml vt path h =
     (if path = [] then None
      else case read_file vt path h of
             Inl _ \<Rightarrow> None
           | Inr raw \<Rightarrow>
               (case vt_yaml_doc vt raw of
                  None \<Rightarrow> None
                | Some doc \<Rightarrow> Some (vt_yaml_print vt (redact_doc doc))))"

definition wal_of :: "string \<Rightarrow> string" where "wal_of p = p @ ''-wal''"
definition shm_of :: "string \<Rightarrow> string" where "shm_of p = p @ ''-shm''"

definition vacuum_backup :: "('m) vault_scheme \<Rightarrow> string \<Rightarrow> string \<Rightarrow> host \<Rightarrow> string + (string \<times> int)" where
  "vacuum_backup vt src dst h =
     (case stat_file vt src h of
        Some e \<Rightarrow> Inl (''open database '' @ src @ '': '' @ fault_text e)
      | None \<Rightarrow>
          (case vt_vacuum vt (the (file_of vt src h)) (file_of vt (wal_of src) h) of
             Inl e \<Rightarrow> Inl (''vacuum '' @ src @ '' into '' @ dst @ '': '' @ e)
           | Inr copy \<Rightarrow>
               (case vt_schema vt (Some copy) of
                  Inl e \<Rightarrow> Inl (''read schema version: '' @ e)
                | Inr v \<Rightarrow> Inr (copy, v))))"

definition hostname_or_unknown :: "('m) vault_scheme \<Rightarrow> string" where
  "hostname_or_unknown vt = (case vt_hostname vt of None \<Rightarrow> ''unknown'' | Some n \<Rightarrow> n)"

definition tar_file :: "string \<Rightarrow> string \<Rightarrow> tar_entry" where
  "tar_file name data = \<lparr>te_regular = True, te_name = name, te_data = data\<rparr>"

definition backup_entries :: "string \<Rightarrow> string \<Rightarrow> string option \<Rightarrow> tar_entry list" where
  "backup_entries db manifest_json config_yaml =
     tar_file entry_db db #
     (case config_yaml of None \<Rightarrow> [] | Some y \<Rightarrow> [tar_file entry_config y]) @ [tar_file entry_manifest manifest_json]"

text \<open>\<open>os.Create\<close> truncates first, so a write that fails leaves an empty or half an archive; \<open>SysWrite\<close> fails it.\<close>

definition write_backup_archive ::
  "('m) vault_scheme \<Rightarrow> string \<Rightarrow> string \<Rightarrow> string \<Rightarrow> string option \<Rightarrow> host \<Rightarrow> string option \<times> host" where
  "write_backup_archive vt out db manifest_json config_yaml h =
     (case mc_error vt SysCreate out h of
        Some e \<Rightarrow> (Some (''create '' @ out @ '': '' @ e), h)
      | None \<Rightarrow>
          (let h1 = put_file vt out (Some []) h
           in case write_file vt out (vt_pack vt (backup_entries db manifest_json config_yaml)) h1 of
                (Some e, h2) \<Rightarrow> (Some e, h2)
              | (None, h2) \<Rightarrow> (None, h2)))"

definition backup_manifest :: "('m) vault_scheme \<Rightarrow> int \<Rightarrow> host \<Rightarrow> manifest" where
  "backup_manifest vt schema h =
     \<lparr>mf_version = vt_version vt, mf_schema = schema, mf_created = vt_rfc3339 vt (ho_now h),
      mf_hostname = hostname_or_unknown vt\<rparr>"

definition report_backup :: "string \<Rightarrow> manifest \<Rightarrow> bool \<Rightarrow> host \<Rightarrow> host" where
  "report_backup out mf have_config h =
     fold print_line
       [''backup written to '' @ out, ''  styr_version:   '' @ mf_version mf, ''  schema_version: '' @ show_int (mf_schema mf),
        ''  created_at:     '' @ mf_created mf, ''  hostname:       '' @ mf_hostname mf,
        (if have_config then ''  config.yaml:    included (secret_key, dev_user, oidc client_secret stripped)''
         else ''  config.yaml:    not included (STYR_CONFIG unset or unreadable)'')] h"

definition run_backup :: "('m) vault_scheme \<Rightarrow> string list \<Rightarrow> host \<Rightarrow> nat \<times> host" where
  "run_backup vt args h =
     (case args of
        [out] \<Rightarrow>
          (if out = ''-h'' \<or> out = ''--help'' then (2, print_line ''usage: styr backup <file.tar.gz>'' h)
           else
             (let h1 = load_env vt h; (cfg, bad) = load_config vt (get_env ''STYR_CONFIG'' h1) h1
              in case bad of
                   Some e \<Rightarrow> (1, print_line (''backup: '' @ e) h1)
                 | None \<Rightarrow>
                     (case vt_temp_dir vt ''styr-backup-*'' h1 of
                        Inl e \<Rightarrow> (1, print_line (''backup: '' @ e) h1)
                      | Inr tmp \<Rightarrow>
                          (case vacuum_backup vt (db_path cfg) (go_join [tmp, ''styr.db'']) h1 of
                             Inl e \<Rightarrow> (1, print_line (''backup: '' @ e) h1)
                           | Inr (copy, schema) \<Rightarrow>
                               (let mf = backup_manifest vt schema h1;
                                    yml = redacted_config_yaml vt (get_env ''STYR_CONFIG'' h1) h1
                                in case write_backup_archive vt out copy (vt_manifest_print vt mf) yml h1 of
                                     (Some e, h2) \<Rightarrow> (1, print_line (''backup: '' @ e) h2)
                                   | (None, h2) \<Rightarrow> (0, report_backup out mf (yml \<noteq> None) h2))))))
      | _ \<Rightarrow> (2, print_line ''usage: styr backup <file.tar.gz>'' h))"

section \<open>Restore (restore.go)\<close>

text \<open>
  Reading the archive: the last manifest seen and whether the temporary file exists, which holds every
  \<open>styr.db\<close> entry, one after the other.
\<close>

definition discard_temp :: "('m) vault_scheme \<Rightarrow> string \<Rightarrow> bool \<Rightarrow> host \<Rightarrow> host" where
  "discard_temp vt tmp made h = (if made then snd (remove_file vt tmp h) else h)"

definition append_temp :: "('m) vault_scheme \<Rightarrow> string \<Rightarrow> string \<Rightarrow> host \<Rightarrow> string option \<times> host" where
  "append_temp vt tmp data h =
     (case mc_error vt SysWrite tmp h of
        Some e \<Rightarrow> (Some e, h)
      | None \<Rightarrow> (None, put_file vt tmp (Some (case file_of vt tmp h of None \<Rightarrow> data | Some s \<Rightarrow> s @ data)) h))"

definition make_temp :: "('m) vault_scheme \<Rightarrow> string \<Rightarrow> bool \<Rightarrow> host \<Rightarrow> string option \<times> host" where
  "make_temp vt tmp made h =
     (if made then (None, h)
      else case mc_error vt SysTemp tmp h of Some e \<Rightarrow> (Some e, h) | None \<Rightarrow> (None, put_file vt tmp (Some []) h))"

fun read_archive ::
  "('m) vault_scheme \<Rightarrow> string \<Rightarrow> string \<Rightarrow> tar_item list \<Rightarrow> string option \<times> bool \<Rightarrow> host \<Rightarrow>
     (string + string option \<times> bool) \<times> host" where
  "read_archive vt archive tmp [] got h = (Inr got, h)"
| "read_archive vt archive tmp (Broken e # es) got h =
     (Inl (''read '' @ archive @ '': '' @ e), discard_temp vt tmp (snd got) h)"
| "read_archive vt archive tmp (Torn te e # es) (mb, made) h =
     (if te_regular te \<and> te_name te = entry_manifest
      then (Inl (''read manifest.json: '' @ e), discard_temp vt tmp made h)
      else if te_regular te \<and> te_name te = entry_db
      then (case make_temp vt tmp made h of
              (Some x, h1) \<Rightarrow> (Inl (''create temp file: '' @ x), h1)
            | (None, h1) \<Rightarrow>
                (let h2 = snd (append_temp vt tmp (te_data te) h1)
                 in (Inl (''extract styr.db: '' @ e), discard_temp vt tmp True h2)))
      else (Inl (''read '' @ archive @ '': '' @ e), discard_temp vt tmp made h))"
| "read_archive vt archive tmp (Whole te # es) (mb, made) h =
     (if \<not> te_regular te then read_archive vt archive tmp es (mb, made) h
      else if te_name te = entry_manifest then read_archive vt archive tmp es (Some (te_data te), made) h
      else if te_name te = entry_db
      then (case make_temp vt tmp made h of
              (Some x, h1) \<Rightarrow> (Inl (''create temp file: '' @ x), h1)
            | (None, h1) \<Rightarrow>
                (case append_temp vt tmp (te_data te) h1 of
                   (Some x, h2) \<Rightarrow> (Inl (''extract styr.db: '' @ x), discard_temp vt tmp True h2)
                 | (None, h2) \<Rightarrow> read_archive vt archive tmp es (mb, True) h2))
      else read_archive vt archive tmp es (mb, made) h)"

definition temp_path :: "('m) vault_scheme \<Rightarrow> string \<Rightarrow> host \<Rightarrow> string" where
  "temp_path vt dir h = go_join [dir, ''.styr-restore-'' @ vt_temp vt h]"

definition extract_backup_archive ::
  "('m) vault_scheme \<Rightarrow> string \<Rightarrow> string \<Rightarrow> host \<Rightarrow> (string + manifest \<times> string) \<times> host" where
  "extract_backup_archive vt archive dir h =
     (case read_file vt archive h of
        Inl e \<Rightarrow> (Inl (''open '' @ archive @ '': '' @ fault_text e), h)
      | Inr bytes \<Rightarrow>
          (case vt_unpack vt bytes of
             None \<Rightarrow> (Inl (archive @ '' is not a gzip archive''), h)
           | Some items \<Rightarrow>
               (let tmp = temp_path vt dir h
                in case read_archive vt archive tmp items (None, False) h of
                     (Inl e, h1) \<Rightarrow> (Inl e, h1)
                   | (Inr (None, made), h1) \<Rightarrow>
                       (Inl (archive @ '' is not a styr backup: missing manifest.json''), discard_temp vt tmp made h1)
                   | (Inr (Some mb, False), h1) \<Rightarrow> (Inl (archive @ '' is not a styr backup: missing styr.db''), h1)
                   | (Inr (Some mb, True), h1) \<Rightarrow>
                       (case mc_error vt SysClose tmp h1 of
                          Some e \<Rightarrow> (Inl (''write temp file: '' @ e), discard_temp vt tmp True h1)
                        | None \<Rightarrow>
                            (case vt_manifest_read vt mb of
                               Inl e \<Rightarrow> (Inl (''parse manifest.json: '' @ e), discard_temp vt tmp True h1)
                             | Inr mf \<Rightarrow> (Inr (mf, tmp), h1))))))"

definition latest_schema_version :: "('m) vault_scheme \<Rightarrow> host \<Rightarrow> string + int" where
  "latest_schema_version vt h =
     (case vt_temp_dir vt ''styr-schema-check-*'' h of
        Inl e \<Rightarrow> Inl (''determine latest schema version: '' @ e)
      | Inr _ \<Rightarrow>
          (case vt_migrate vt None None of
             (_, Some e) \<Rightarrow> Inl (''determine latest schema version: '' @ e)
           | ((d, _), None) \<Rightarrow>
               (case vt_schema vt d of
                  Inl e \<Rightarrow> Inl (''determine latest schema version: '' @ e)
                | Inr v \<Rightarrow> Inr v)))"

definition set_aside :: "('m) vault_scheme \<Rightarrow> string \<Rightarrow> string \<Rightarrow> host \<Rightarrow> host" where
  "set_aside vt old new h = (if stat_file vt old h = None then snd (rename_file vt old new h) else h)"

definition aside_path :: "('m) vault_scheme \<Rightarrow> string \<Rightarrow> host \<Rightarrow> string" where
  "aside_path vt db h = db @ ''.bak-'' @ vt_stamp vt (ho_now h)"

definition replace_database ::
  "('m) vault_scheme \<Rightarrow> string \<Rightarrow> string \<Rightarrow> host \<Rightarrow> (string + string) \<times> host" where
  "replace_database vt db new h =
     (case (case stat_file vt db h of
              Some (NotExist _) \<Rightarrow> (Inr [], h)
            | Some (Fault e) \<Rightarrow> (Inl (''stat '' @ db @ '': '' @ e), h)
            | None \<Rightarrow>
                (let bak = aside_path vt db h
                 in case rename_file vt db bak h of
                      (Some e, h1) \<Rightarrow> (Inl (''back up existing database: '' @ e), h1)
                    | (None, h1) \<Rightarrow>
                        (Inr bak, set_aside vt (shm_of db) (shm_of bak) (set_aside vt (wal_of db) (wal_of bak) h1)))) of
        (Inl e, h1) \<Rightarrow> (Inl e, h1)
      | (Inr bak, h1) \<Rightarrow>
          (case rename_file vt new db h1 of
             (Some e, h2) \<Rightarrow> (Inl (''install restored database: '' @ e), h2)
           | (None, h2) \<Rightarrow> (Inr bak, h2)))"

text \<open>\<open>db.Open\<close>, which creates the database when there is none and applies the pending migrations.\<close>

definition open_database :: "('m) vault_scheme \<Rightarrow> string \<Rightarrow> host \<Rightarrow> string option \<times> host" where
  "open_database vt db h =
     (let ((d, wal), e) = vt_migrate vt (file_of vt db h) (file_of vt (wal_of db) h)
      in (e, put_file vt (wal_of db) wal (put_file vt db d h)))"

definition restore_usage :: "string list" where
  "restore_usage = [''Usage of restore:'', ''  -force'',
     ''    '' @ CHR 0x09 # ''restore even if a styr serve process appears to be running'']"

definition restore_failed :: "string \<Rightarrow> host \<Rightarrow> nat \<times> host" where
  "restore_failed e h = (1, print_line (''restore: '' @ e) h)"

definition report_restore :: "string \<Rightarrow> string \<Rightarrow> manifest \<Rightarrow> int \<Rightarrow> string \<Rightarrow> host \<Rightarrow> host" where
  "report_restore archive db mf v bak h =
     fold print_line
       [''restored '' @ archive @ '' into '' @ db,
        ''  backup schema_version: '' @ show_int (mf_schema mf) @ '' (styr '' @ mf_version mf @ '', created '' @ mf_created mf @ '')'',
        ''  migrated to:           '' @ show_int v,
        (if bak \<noteq> [] then ''  previous database kept at '' @ bak else ''  no previous database to keep''),
        ''  config.yaml untouched''] h"

text \<open>The install and the migration, once the archive is extracted and its version is known to be supported.\<close>

definition install_backup :: "('m) vault_scheme \<Rightarrow> string \<Rightarrow> string \<Rightarrow> manifest \<Rightarrow> string \<Rightarrow> host \<Rightarrow> nat \<times> host" where
  "install_backup vt archive db mf tmp h =
     (case replace_database vt db tmp h of
        (Inl e, h1) \<Rightarrow> restore_failed e h1
      | (Inr bak, h1) \<Rightarrow>
          (case open_database vt db h1 of
             (Some e, h2) \<Rightarrow> restore_failed e h2
           | (None, h2) \<Rightarrow>
               (case vt_schema vt (file_of vt db h2) of
                  Inl e \<Rightarrow> restore_failed (''read migrated schema version: '' @ e) h2
                | Inr v \<Rightarrow> (0, report_restore archive db mf v bak h2))))"

definition restore_archive :: "('m) vault_scheme \<Rightarrow> string \<Rightarrow> config \<Rightarrow> host \<Rightarrow> nat \<times> host" where
  "restore_archive vt archive cfg h =
     (case extract_backup_archive vt archive (cf_data_dir cfg) h of
        (Inl e, h1) \<Rightarrow> restore_failed e h1
      | (Inr (mf, tmp), h1) \<Rightarrow>
          (case latest_schema_version vt h1 of
             Inl e \<Rightarrow> restore_failed e (snd (remove_file vt tmp h1))
           | Inr latest \<Rightarrow>
               (if mf_schema mf > latest
                then restore_failed (''backup schema_version '' @ show_int (mf_schema mf) @
                       '' is newer than this binary supports (latest '' @ show_int latest @
                       ''); install a newer styr and retry'') (snd (remove_file vt tmp h1))
                else install_backup vt archive (db_path cfg) mf tmp h1)))"

definition run_restore :: "('m) vault_scheme \<Rightarrow> string list \<Rightarrow> host \<Rightarrow> nat \<times> host" where
  "run_restore vt args h =
     (case parse_flag vt ''force'' False args of
        Inl e \<Rightarrow> (2, flag_failed e restore_usage h)
      | Inr (force, [archive]) \<Rightarrow>
          (let h1 = load_env vt h; (cfg, bad) = load_config vt (get_env ''STYR_CONFIG'' h1) h1
           in case bad of
                Some e \<Rightarrow> restore_failed e h1
              | None \<Rightarrow>
                  (case (if force then Inr None else server_running vt (cf_data_dir cfg) h1) of
                     Inl e \<Rightarrow> restore_failed e h1
                   | Inr (Some pid) \<Rightarrow>
                       restore_failed (''styr serve appears to be running (pid '' @ show_int pid @ '', from '' @
                         pid_file_path (cf_data_dir cfg) @ ''); stop it first or pass --force'') h1
                   | Inr None \<Rightarrow>
                       (case mc_error vt SysMkdirAll (cf_data_dir cfg) h1 of
                          Some e \<Rightarrow> restore_failed e h1
                        | None \<Rightarrow> restore_archive vt archive cfg h1)))
      | Inr _ \<Rightarrow> (2, print_line ''usage: styr restore <file.tar.gz> [--force]'' h))"

end
