(* ===== verification/Backup_Claims.thy ===== *)
theory Backup_Claims
  imports Backup Path_Facts
begin

text \<open>
  What a backup carries and what a restore keeps: no secret leaves in an archive, a restore brings back what was saved,
  and the database that was there before is never lost.
\<close>

section \<open>Files\<close>

lemma place_suffix:
  assumes "d \<noteq> []" and "path_element e" and "path_element (e @ s)"
  shows "place mc (go_join [d, e] @ s) = place mc d @ [e @ s]"
  using elements_from_join[OF assms(1,3)] by (simp add: place_def go_join_suffix[OF assms])

lemma load_env_lines_files: "load_env_lines ls h = (n, h') \<Longrightarrow> ho_files h' = ho_files h \<and> ho_now h' = ho_now h"
  by (induction ls arbitrary: h n h') (auto simp: set_env_def split: option.splits if_splits prod.splits)

lemma load_env_files [simp]: "ho_files (load_env mc h) = ho_files h" "ho_now (load_env mc h) = ho_now h"
proof -
  obtain n h1 where l: "load_env_file mc (env_file_path h) h = (n, h1)" by (cases "load_env_file mc (env_file_path h) h")
  then have "ho_files h1 = ho_files h \<and> ho_now h1 = ho_now h"
    by (auto simp: load_env_file_def dest: load_env_lines_files split: sum.splits)
  then show "ho_files (load_env mc h) = ho_files h" "ho_now (load_env mc h) = ho_now h"
    by (auto simp: load_env_def l Let_def print_line_def split: sum.splits)
qed

lemma print_line_files [simp]: "ho_files (print_line l h) = ho_files h" "ho_now (print_line l h) = ho_now h"
  by (simp_all add: print_line_def)

lemma print_lines_files [simp]: "ho_files (fold print_line ls h) = ho_files h" "ho_now (fold print_line ls h) = ho_now h"
  by (induction ls arbitrary: h) simp_all

text \<open>What an operation on one or two paths leaves alone.\<close>

definition same_elsewhere :: "string list set \<Rightarrow> host \<Rightarrow> host \<Rightarrow> bool" where
  "same_elsewhere P h h' \<longleftrightarrow> ho_now h' = ho_now h \<and> (\<forall>q. q \<notin> P \<longrightarrow> ho_files h' q = ho_files h q)"

lemma same_elsewhere_refl [simp]: "same_elsewhere P h h"
  by (simp add: same_elsewhere_def)

lemma same_elsewhere_trans: "same_elsewhere P h h1 \<Longrightarrow> same_elsewhere P h1 h2 \<Longrightarrow> same_elsewhere P h h2"
  by (simp add: same_elsewhere_def)

lemma put_elsewhere: "place mc p \<in> P \<Longrightarrow> same_elsewhere P h (put_file mc p s h)"
  by (auto simp: same_elsewhere_def put_file_def)

lemma remove_elsewhere: "place mc p \<in> P \<Longrightarrow> same_elsewhere P h (snd (remove_file mc p h))"
  by (auto simp: remove_file_def put_elsewhere split: option.split)

lemma rename_elsewhere: "place mc p \<in> P \<Longrightarrow> place mc q \<in> P \<Longrightarrow> same_elsewhere P h (snd (rename_file mc p q h))"
  by (auto simp: rename_file_def split: option.split intro: same_elsewhere_trans[OF put_elsewhere put_elsewhere])

lemma discard_elsewhere: "place vt tmp \<in> P \<Longrightarrow> same_elsewhere P h (discard_temp vt tmp made h)"
  by (simp add: discard_temp_def remove_elsewhere)

lemma temp_elsewhere:
  "place vt tmp \<in> P \<Longrightarrow> make_temp vt tmp made h = (e, h1) \<Longrightarrow> same_elsewhere P h h1"
  "place vt tmp \<in> P \<Longrightarrow> append_temp vt tmp s h = (e, h1) \<Longrightarrow> same_elsewhere P h h1"
  by (auto simp: make_temp_def append_temp_def put_elsewhere split: if_splits option.splits)

lemma append_elsewhere: "place vt tmp \<in> P \<Longrightarrow> same_elsewhere P h (snd (append_temp vt tmp s h))"
  by (auto simp: append_temp_def put_elsewhere split: option.splits)

lemma read_archive_elsewhere:
  "place vt tmp \<in> P \<Longrightarrow> read_archive vt archive tmp es got h = (r, h') \<Longrightarrow> same_elsewhere P h h'"
proof (induction vt archive tmp es got h arbitrary: r h' rule: read_archive.induct)
  case (3 vt archive tmp te e es mb made h)
  have "make_temp vt tmp made h = (x, h1) \<Longrightarrow>
      same_elsewhere P h (discard_temp vt tmp True (snd (append_temp vt tmp (te_data te) h1)))" for x h1
    using 3(1) temp_elsewhere(1) append_elsewhere discard_elsewhere same_elsewhere_trans by metis
  with 3 show ?case
    by (auto simp: Let_def discard_elsewhere split: if_splits prod.splits option.splits intro: temp_elsewhere)
next
  case (4 vt archive tmp te es mb made h)
  have step: "append_temp vt tmp (te_data te) h1 = (y, h2) \<Longrightarrow> make_temp vt tmp made h = (x, h1) \<Longrightarrow> same_elsewhere P h h2"
    for x y h1 h2 using 4(5) temp_elsewhere same_elsewhere_trans by metis
  show ?case
    using 4(5,6) 4(1-4) step
    by (auto split: if_splits prod.splits option.splits intro: temp_elsewhere
          same_elsewhere_trans[OF _ discard_elsewhere] same_elsewhere_trans[OF step] discard_elsewhere)
qed (auto simp: discard_elsewhere)

lemma extract_elsewhere:
  "extract_backup_archive vt archive dir h = (r, h') \<Longrightarrow> same_elsewhere {place vt (temp_path vt dir h)} h h'"
  by (auto simp: extract_backup_archive_def Let_def discard_elsewhere read_archive_elsewhere
        split: sum.splits option.splits prod.splits bool.splits
        intro: same_elsewhere_trans[OF read_archive_elsewhere discard_elsewhere])

lemma extract_temp: "extract_backup_archive vt archive dir h = (Inr (mf, tmp), h') \<Longrightarrow> tmp = temp_path vt dir h"
  by (auto simp: extract_backup_archive_def Let_def split: sum.splits option.splits prod.splits bool.splits)

section \<open>A restore never loses the database\<close>

text \<open>What the code relies on: the time of a copy and the random part of a temporary name hold no slash.\<close>

definition plain_names :: "('m) vault_scheme \<Rightarrow> bool" where
  "plain_names vt \<longleftrightarrow> (\<forall>t. CHR ''/'' \<notin> set (vt_stamp vt t)) \<and> (\<forall>h. CHR ''/'' \<notin> set (vt_temp vt h))"

definition loaded_config :: "('m) vault_scheme \<Rightarrow> host \<Rightarrow> config" where
  "loaded_config vt h = (let h1 = load_env vt h in fst (load_config vt (get_env ''STYR_CONFIG'' h1) h1))"

definition kept_copy :: "('m) vault_scheme \<Rightarrow> host \<Rightarrow> string" where
  "kept_copy vt h = aside_path vt (db_path (loaded_config vt h)) h"

lemma load_config_data_dir: "load_config mc path h = (cfg, None) \<Longrightarrow> cf_data_dir cfg \<noteq> []"
  by (auto simp: load_config_def validate_config_def Let_def split: if_splits sum.splits fault.splits prod.splits option.splits)

lemma db_places:
  assumes "d \<noteq> []" and "plain_names vt"
  shows "place vt (go_join [d, ''styr.db'']) = place vt d @ [''styr.db'']"
    and "place vt (wal_of (go_join [d, ''styr.db''])) = place vt d @ [''styr.db-wal'']"
    and "place vt (shm_of (go_join [d, ''styr.db''])) = place vt d @ [''styr.db-shm'']"
    and "place vt (aside_path vt (go_join [d, ''styr.db'']) h) = place vt d @ [''styr.db.bak-'' @ vt_stamp vt (ho_now h)]"
    and "place vt (wal_of (aside_path vt (go_join [d, ''styr.db'']) h)) =
      place vt d @ [''styr.db.bak-'' @ vt_stamp vt (ho_now h) @ ''-wal'']"
    and "place vt (shm_of (aside_path vt (go_join [d, ''styr.db'']) h)) =
      place vt d @ [''styr.db.bak-'' @ vt_stamp vt (ho_now h) @ ''-shm'']"
    and "place vt (temp_path vt d h) = place vt d @ [''.styr-restore-'' @ vt_temp vt h]"
proof -
  have e: "path_element ''styr.db''" by code_simp
  have n: "CHR ''/'' \<notin> set (vt_stamp vt (ho_now h))" "CHR ''/'' \<notin> set (vt_temp vt h)"
    using assms(2) by (auto simp: plain_names_def)
  have "path_element (''styr.db'' @ s) \<and> path_element (''.styr-restore-'' @ s)" if "CHR ''/'' \<notin> set s" for s
    using that by (simp add: path_element_def)
  note plain = this[THEN conjunct1] this[THEN conjunct2]
  have suffix: "place vt (go_join [d, ''styr.db''] @ s) = place vt d @ [''styr.db'' @ s]" if "CHR ''/'' \<notin> set s" for s
    using place_suffix[OF assms(1) e plain(1)[OF that]] .
  show "place vt (go_join [d, ''styr.db'']) = place vt d @ [''styr.db'']"
    using suffix[of "[]"] by simp
  show "place vt (wal_of (go_join [d, ''styr.db''])) = place vt d @ [''styr.db-wal'']"
    using suffix[of "''-wal''"] by (simp add: wal_of_def)
  show "place vt (shm_of (go_join [d, ''styr.db''])) = place vt d @ [''styr.db-shm'']"
    using suffix[of "''-shm''"] by (simp add: shm_of_def)
  show "place vt (aside_path vt (go_join [d, ''styr.db'']) h) = place vt d @ [''styr.db.bak-'' @ vt_stamp vt (ho_now h)]"
    using suffix[of "''.bak-'' @ vt_stamp vt (ho_now h)"] n by (simp add: aside_path_def)
  show "place vt (wal_of (aside_path vt (go_join [d, ''styr.db'']) h)) =
      place vt d @ [''styr.db.bak-'' @ vt_stamp vt (ho_now h) @ ''-wal'']"
    using suffix[of "''.bak-'' @ vt_stamp vt (ho_now h) @ ''-wal''"] n by (simp add: wal_of_def aside_path_def)
  show "place vt (shm_of (aside_path vt (go_join [d, ''styr.db'']) h)) =
      place vt d @ [''styr.db.bak-'' @ vt_stamp vt (ho_now h) @ ''-shm'']"
    using suffix[of "''.bak-'' @ vt_stamp vt (ho_now h) @ ''-shm''"] n by (simp add: shm_of_def aside_path_def)
  show "place vt (temp_path vt d h) = place vt d @ [''.styr-restore-'' @ vt_temp vt h]"
    using elements_from_join[OF assms(1) plain(2)[OF n(2)]] by (simp add: temp_path_def place_def)
qed

lemma set_aside_elsewhere: "place vt old \<in> P \<Longrightarrow> place vt new \<in> P \<Longrightarrow> same_elsewhere P h (set_aside vt old new h)"
  by (simp add: set_aside_def rename_elsewhere)

text \<open>Replacing a database by the temporary file moves it aside first; an error leaves it in one of the two places.\<close>

lemma replace_keeps:
  assumes d: "d \<noteq> []" and n: "plain_names vt" and db: "db = go_join [d, ''styr.db'']"
    and old: "file_of vt db h = Some s" and tmp: "tmp = temp_path vt d h0"
    and run: "replace_database vt db tmp h = (r, h')"
  shows "file_of vt (aside_path vt db h) h' = Some s \<or> (\<exists>e. r = Inl e) \<and> file_of vt db h' = Some s"
    and "ho_now h' = ho_now h"
proof -
  note at_place = db_places[OF d n, folded db]
  let ?bak = "aside_path vt db h"
  consider (stat) e where "stat_file vt db h = Some (Fault e)"
    | (stuck) e where "stat_file vt db h = None" "rename_file vt db ?bak h = (Some e, h)"
    | (moved) "stat_file vt db h = None"
        "rename_file vt db ?bak h = (None, put_file vt ?bak (Some s) (put_file vt db None h))"
    using old by (cases "mc_error vt SysStat db h"; cases "mc_error vt SysRename db h")
      (auto simp: stat_file_def rename_file_def at_place)
  then have "(file_of vt ?bak h' = Some s \<or> (\<exists>e. r = Inl e) \<and> file_of vt db h' = Some s) \<and> ho_now h' = ho_now h"
  proof cases
    case moved
    let ?h1 = "put_file vt ?bak (Some s) (put_file vt db None h)"
    let ?h2 = "set_aside vt (shm_of db) (shm_of ?bak) (set_aside vt (wal_of db) (wal_of ?bak) ?h1)"
    let ?P = "place vt ` {db, wal_of db, shm_of db, wal_of ?bak, shm_of ?bak, tmp}"
    have "same_elsewhere ?P ?h1 ?h2" by (rule same_elsewhere_trans; rule set_aside_elsewhere) simp_all
    moreover have "same_elsewhere ?P ?h2 (snd (rename_file vt tmp db ?h2))" by (rule rename_elsewhere) simp_all
    ultimately have "same_elsewhere ?P ?h1 h'"
      using run moved by (auto simp: replace_database_def Let_def split: prod.splits option.splits intro: same_elsewhere_trans)
    moreover have "place vt ?bak \<notin> ?P" by (auto simp: at_place tmp)
    moreover have "file_of vt ?bak ?h1 = Some s" "ho_now ?h1 = ho_now h" by (simp_all add: file_of_def put_file_def)
    ultimately show ?thesis by (simp add: same_elsewhere_def file_of_def)
  qed (use run old in \<open>auto simp: replace_database_def Let_def\<close>)
  then show "file_of vt ?bak h' = Some s \<or> (\<exists>e. r = Inl e) \<and> file_of vt db h' = Some s" "ho_now h' = ho_now h" by auto
qed

lemma install_keeps:
  assumes d: "d \<noteq> []" and n: "plain_names vt" and db: "db = go_join [d, ''styr.db'']"
    and old: "file_of vt db h = Some s" and tmp: "tmp = temp_path vt d h0"
    and run: "install_backup vt archive db mf tmp h = (rc, h')"
  shows "file_of vt (aside_path vt db h) h' = Some s \<or> rc \<noteq> 0 \<and> file_of vt db h' = Some s"
proof (cases "replace_database vt db tmp h")
  case (Pair r h1)
  note at_place = db_places[OF d n, folded db]
  note kept = replace_keeps[OF d n db old tmp Pair]
  show ?thesis
  proof (cases r)
    case (Inl e)
    with run Pair kept show ?thesis by (auto simp: install_backup_def restore_failed_def file_of_def)
  next
    case (Inr bak)
    with kept have "file_of vt (aside_path vt db h) h1 = Some s" by auto
    moreover have "same_elsewhere (place vt ` {db, wal_of db}) h1 (snd (open_database vt db h1))"
      by (auto simp: open_database_def Let_def split: prod.split intro: same_elsewhere_trans[OF put_elsewhere put_elsewhere])
    ultimately have "file_of vt (aside_path vt db h) (snd (open_database vt db h1)) = Some s"
      by (auto simp: same_elsewhere_def file_of_def at_place)
    with run Pair Inr show ?thesis
      by (auto simp: install_backup_def restore_failed_def report_restore_def file_of_def split: prod.splits option.splits sum.splits)
  qed
qed

lemma restore_archive_keeps:
  assumes d: "cf_data_dir cfg \<noteq> []" and n: "plain_names vt" and old: "file_of vt (db_path cfg) h = Some s"
    and run: "restore_archive vt archive cfg h = (rc, h')"
  shows "file_of vt (aside_path vt (db_path cfg) h) h' = Some s \<or> rc \<noteq> 0 \<and> file_of vt (db_path cfg) h' = Some s"
proof (cases "extract_backup_archive vt archive (cf_data_dir cfg) h")
  case (Pair r h1)
  let ?tmp = "temp_path vt (cf_data_dir cfg) h"
  have same: "same_elsewhere {place vt ?tmp} h h1" by (rule extract_elsewhere[OF Pair])
  have db: "place vt (db_path cfg) \<noteq> place vt ?tmp" using db_places(1,7)[OF d n] by (simp add: db_path_def)
  have old1: "file_of vt (db_path cfg) h1 = Some s" "aside_path vt (db_path cfg) h1 = aside_path vt (db_path cfg) h"
    using same db old by (simp_all add: same_elsewhere_def file_of_def aside_path_def)
  have old2: "file_of vt (db_path cfg) (snd (remove_file vt ?tmp h1)) = Some s"
    using remove_elsewhere[of vt ?tmp "{place vt ?tmp}" h1] old1(1) db by (simp add: same_elsewhere_def file_of_def)
  consider (failed) e where "r = Inl e" | (got) mf where "r = Inr (mf, ?tmp)"
    using extract_temp[of vt archive "cf_data_dir cfg" h] Pair by (cases r) auto
  then show ?thesis
  proof cases
    case failed
    with run Pair old1 show ?thesis by (auto simp: restore_archive_def restore_failed_def file_of_def)
  next
    case got
    show ?thesis
    proof (cases "install_backup vt archive (db_path cfg) mf ?tmp h1 = (rc, h')")
      case True
      from install_keeps[OF d n _ old1(1) refl this] old1(2) show ?thesis by (simp add: db_path_def)
    next
      case False
      with run Pair got old2 show ?thesis
        by (auto simp: restore_archive_def restore_failed_def file_of_def split: sum.splits if_splits)
    qed
  qed
qed

text \<open>
  C6: A restore never loses the database. Whatever the archive holds, whatever call on the disk fails, wherever the
  restore stops: if there was a database before, its bytes are afterwards in the copy set aside or, when the command
  reports a failure, possibly still in their place. After a success they are in the copy.
\<close>

theorem restore_keeps_database:
  assumes "plain_names vt" and "file_of vt (db_path (loaded_config vt h)) h = Some s"
    and "run_restore vt args h = (rc, h')"
  shows "file_of vt (kept_copy vt h) h' = Some s \<or> rc \<noteq> 0 \<and> file_of vt (db_path (loaded_config vt h)) h' = Some s"
proof -
  let ?h1 = "load_env vt h"
  have same: "file_of vt p ?h1 = file_of vt p h" "file_of vt p (print_line l k) = file_of vt p k" "aside_path vt p ?h1 = aside_path vt p h"
    "file_of vt p (flag_failed e u k) = file_of vt p k" for p l k e u
    by (simp_all add: file_of_def aside_path_def flag_failed_def)
  obtain cfg bad where load: "load_config vt (get_env ''STYR_CONFIG'' ?h1) ?h1 = (cfg, bad)" by fastforce
  then have cfg: "loaded_config vt h = cfg" by (simp add: loaded_config_def Let_def)
  have old: "file_of vt (db_path cfg) ?h1 = Some s" using assms(2) same cfg by simp
  have inner: "bad = None \<Longrightarrow> restore_archive vt a cfg ?h1 = (rc, h') \<Longrightarrow> ?thesis" for a
    using restore_archive_keeps[OF load_config_data_dir assms(1) old] load same cfg by (fastforce simp: kept_copy_def)
  show ?thesis
    using assms(2,3) inner
    by (auto simp: run_restore_def Let_def load cfg same restore_failed_def
          split: sum.splits prod.splits list.splits option.splits if_splits)
qed

section \<open>A restore brings back what was saved\<close>

definition quiet_disk :: "('m) machine_scheme \<Rightarrow> bool" where
  "quiet_disk mc \<longleftrightarrow> mc_error mc = (\<lambda>_ _ _. None)"

text \<open>What the code relies on: gzip and tar read the entries that were written, JSON the manifest.\<close>

definition faithful_archives :: "('m) vault_scheme \<Rightarrow> bool" where
  "faithful_archives vt \<longleftrightarrow>
     (\<forall>es. vt_unpack vt (vt_pack vt es) = Some (map Whole es)) \<and> (\<forall>m. vt_manifest_read vt (vt_manifest_print vt m) = Inr m)"

lemma run_backup_done:
  assumes "run_backup vt [out] h = (0, h1)"
  obtains copy schema yml mf where
    "vt_vacuum vt (the (file_of vt (db_path (loaded_config vt h)) h)) (file_of vt (wal_of (db_path (loaded_config vt h))) h) = Inr copy"
    "vt_schema vt (Some copy) = Inr schema" "mf_schema mf = schema"
    "yml = redacted_config_yaml vt (get_env ''STYR_CONFIG'' (load_env vt h)) (load_env vt h)"
    "file_of vt out h1 = Some (vt_pack vt (backup_entries copy (vt_manifest_print vt mf) yml))"
    "same_elsewhere {place vt out} h h1"
proof -
  let ?h0 = "load_env vt h"
  have same: "file_of vt p ?h0 = file_of vt p h" for p by (simp add: file_of_def)
  obtain cfg bad where load: "load_config vt (get_env ''STYR_CONFIG'' ?h0) ?h0 = (cfg, bad)" by fastforce
  then have cfg: "loaded_config vt h = cfg" by (simp add: loaded_config_def Let_def)
  obtain tmp copy schema where
    vac: "vacuum_backup vt (db_path cfg) (go_join [tmp, ''styr.db'']) ?h0 = Inr (copy, schema)"
    and arch: "\<exists>h2. write_backup_archive vt out copy (vt_manifest_print vt (backup_manifest vt schema ?h0))
        (redacted_config_yaml vt (get_env ''STYR_CONFIG'' ?h0) ?h0) ?h0 = (None, h2) \<and>
      h1 = report_backup out (backup_manifest vt schema ?h0)
        (redacted_config_yaml vt (get_env ''STYR_CONFIG'' ?h0) ?h0 \<noteq> None) h2"
    using assms by (auto simp: run_backup_def Let_def load split: if_splits option.splits sum.splits prod.splits)
  let ?mf = "backup_manifest vt schema ?h0" and ?yml = "redacted_config_yaml vt (get_env ''STYR_CONFIG'' ?h0) ?h0"
  let ?arch = "vt_pack vt (backup_entries copy (vt_manifest_print vt ?mf) ?yml)"
  obtain h2 where h2: "write_backup_archive vt out copy (vt_manifest_print vt ?mf) ?yml ?h0 = (None, h2)"
    and h1: "ho_files h1 = ho_files h2" "ho_now h1 = ho_now h2"
    using arch by (auto simp: report_backup_def simp del: fold.simps)
  have "h2 = put_file vt out (Some ?arch) (put_file vt out (Some []) ?h0)"
    using h2 by (auto simp: write_backup_archive_def write_file_def Let_def split: option.splits)
  then have "file_of vt out h1 = Some ?arch" "same_elsewhere {place vt out} h h1"
    using h1 by (auto simp: file_of_def put_file_def same_elsewhere_def)
  moreover have "vt_vacuum vt (the (file_of vt (db_path cfg) h)) (file_of vt (wal_of (db_path cfg)) h) = Inr copy"
    "vt_schema vt (Some copy) = Inr schema"
    using vac same by (auto simp: vacuum_backup_def split: option.splits sum.splits)
  ultimately show ?thesis using that[of copy schema ?mf ?yml] cfg by (simp add: backup_manifest_def)
qed

lemma extract_saved:
  assumes q: "quiet_disk vt" and f: "faithful_archives vt"
    and a: "file_of vt archive h = Some (vt_pack vt (backup_entries copy (vt_manifest_print vt mf) yml))"
  shows "\<exists>h1. extract_backup_archive vt archive dir h = (Inr (mf, temp_path vt dir h), h1) \<and>
    file_of vt (temp_path vt dir h) h1 = Some copy \<and> same_elsewhere {place vt (temp_path vt dir h)} h h1"
proof -
  let ?tmp = "temp_path vt dir h"
  let ?h1 = "put_file vt ?tmp (Some copy) (put_file vt ?tmp (Some []) h)"
  have names: "entry_manifest \<noteq> entry_db" "entry_config \<noteq> entry_db" "entry_config \<noteq> entry_manifest" by code_simp+
  have "read_archive vt archive ?tmp (map Whole (backup_entries copy (vt_manifest_print vt mf) yml)) (None, False) h =
      (Inr (Some (vt_manifest_print vt mf), True), ?h1)"
    using q names by (cases yml) (simp_all add: backup_entries_def tar_file_def make_temp_def append_temp_def quiet_disk_def
        file_of_def put_file_def)
  moreover have "vt_unpack vt (vt_pack vt (backup_entries copy (vt_manifest_print vt mf) yml)) =
      Some (map Whole (backup_entries copy (vt_manifest_print vt mf) yml))"
    "vt_manifest_read vt (vt_manifest_print vt mf) = Inr mf"
    using f by (auto simp: faithful_archives_def)
  ultimately have "extract_backup_archive vt archive dir h = (Inr (mf, ?tmp), ?h1)"
    using q a by (simp add: extract_backup_archive_def read_file_def quiet_disk_def Let_def)
  moreover have "file_of vt ?tmp ?h1 = Some copy" by (simp add: file_of_def put_file_def)
  ultimately show ?thesis using extract_elsewhere by blast
qed

lemma install_saved:
  assumes q: "quiet_disk vt" and d: "d \<noteq> []" and n: "plain_names vt" and db: "db = go_join [d, ''styr.db'']"
    and tmp: "tmp = temp_path vt d h0" and copy: "file_of vt tmp h = Some copy"
    and wal: "file_of vt db h = None \<Longrightarrow> file_of vt (wal_of db) h = None"
    and mig: "vt_migrate vt (Some copy) None = ((x, w), None)" and v: "vt_schema vt x = Inr v"
  shows "\<exists>h'. install_backup vt archive db mf tmp h = (0, h') \<and> file_of vt db h' = x"
proof -
  note at_place = db_places[OF d n, folded db]
  let ?bak = "aside_path vt db h"
  define h1 where "h1 = (if file_of vt db h = None then h
    else set_aside vt (shm_of db) (shm_of ?bak) (set_aside vt (wal_of db) (wal_of ?bak)
      (put_file vt ?bak (file_of vt db h) (put_file vt db None h))))"
  have h1: "file_of vt tmp h1 = Some copy" "file_of vt (wal_of db) h1 = None"
    using copy wal q
    by (auto simp: h1_def set_aside_def stat_file_def rename_file_def quiet_disk_def file_of_def put_file_def at_place tmp
          split: option.splits)
  have "\<exists>bak. replace_database vt db tmp h = (Inr bak, put_file vt db (Some copy) (put_file vt tmp None h1))"
    using q h1 by (cases "file_of vt db h")
      (auto simp: replace_database_def h1_def stat_file_def not_exist_def rename_file_def quiet_disk_def Let_def at_place tmp)
  then obtain bak where rep: "replace_database vt db tmp h = (Inr bak, put_file vt db (Some copy) (put_file vt tmp None h1))" ..
  let ?h2 = "put_file vt db (Some copy) (put_file vt tmp None h1)"
  have "file_of vt db ?h2 = Some copy" "file_of vt (wal_of db) ?h2 = None"
    using h1 by (auto simp: file_of_def put_file_def at_place tmp)
  then have "open_database vt db ?h2 = (None, put_file vt (wal_of db) w (put_file vt db x ?h2))"
    using mig by (simp add: open_database_def)
  moreover have "file_of vt db (put_file vt (wal_of db) w (put_file vt db x ?h2)) = x"
    by (simp add: file_of_def put_file_def at_place)
  ultimately show ?thesis using rep v by (simp add: install_backup_def report_restore_def file_of_def del: fold.simps)
qed

text \<open>
  C22: A restore brings back what was saved. If \<open>styr backup\<close> succeeded and its archive reaches a host unchanged, whose
  configuration loads, whose binary supports the schema of the saved database and which has no write-ahead log left over
  beside a missing database, then on a disk that works \<open>styr restore -force\<close> succeeds, and the database is the copy
  that was saved, as the migrations of this binary leave it.
\<close>

theorem restore_returns_backup:
  assumes "plain_names vt" and "quiet_disk vt" and "faithful_archives vt"
    and saved: "run_backup vt [out] h = (0, h1)"
    and copy: "vt_vacuum vt (the (file_of vt (db_path (loaded_config vt h)) h))
      (file_of vt (wal_of (db_path (loaded_config vt h))) h) = Inr copy"
    and moved: "file_of vt archive h2 = file_of vt out h1" "has_prefix archive ''/''"
    and config: "snd (load_config vt (get_env ''STYR_CONFIG'' (load_env vt h2)) (load_env vt h2)) = None"
    and wal: "file_of vt (db_path (loaded_config vt h2)) h2 = None \<Longrightarrow> file_of vt (wal_of (db_path (loaded_config vt h2))) h2 = None"
    and schema: "vt_schema vt (Some copy) = Inr schema" "schema \<le> latest" "\<And>k. latest_schema_version vt k = Inr latest"
    and mig: "vt_migrate vt (Some copy) None = ((x, w), None)" "vt_schema vt x = Inr v"
  shows "\<exists>h3. run_restore vt [''-force'', archive] h2 = (0, h3) \<and> file_of vt (db_path (loaded_config vt h2)) h3 = x"
proof -
  let ?k = "load_env vt h2" and ?cfg = "loaded_config vt h2"
  have same: "file_of vt p ?k = file_of vt p h2" for p by (simp add: file_of_def)
  have load: "load_config vt (get_env ''STYR_CONFIG'' ?k) ?k = (?cfg, None)"
    using config by (simp add: loaded_config_def Let_def prod_eq_iff)
  note d = load_config_data_dir[OF load]
  obtain yml mf where mf: "mf_schema mf = schema"
    and arch: "file_of vt out h1 = Some (vt_pack vt (backup_entries copy (vt_manifest_print vt mf) yml))"
    by (rule run_backup_done[OF saved]) (use copy schema in auto)
  have "file_of vt archive ?k = Some (vt_pack vt (backup_entries copy (vt_manifest_print vt mf) yml))"
    using arch moved same by simp
  from extract_saved[OF assms(2,3) this, of "cf_data_dir ?cfg"] obtain k1 where
    ext: "extract_backup_archive vt archive (cf_data_dir ?cfg) ?k = (Inr (mf, temp_path vt (cf_data_dir ?cfg) ?k), k1)"
    and tmp: "file_of vt (temp_path vt (cf_data_dir ?cfg) ?k) k1 = Some copy"
    and other: "same_elsewhere {place vt (temp_path vt (cf_data_dir ?cfg) ?k)} ?k k1" by blast
  have "file_of vt (db_path ?cfg) k1 = file_of vt (db_path ?cfg) h2" "file_of vt (wal_of (db_path ?cfg)) k1 = file_of vt (wal_of (db_path ?cfg)) h2"
    using other same db_places[OF d assms(1)] by (auto simp: same_elsewhere_def file_of_def db_path_def)
  with wal have "file_of vt (db_path ?cfg) k1 = None \<Longrightarrow> file_of vt (wal_of (db_path ?cfg)) k1 = None" by simp
  from install_saved[OF assms(2) d assms(1) db_path_def refl tmp this mig] obtain h3 where
    "install_backup vt archive (db_path ?cfg) mf (temp_path vt (cf_data_dir ?cfg) ?k) k1 = (0, h3)" "file_of vt (db_path ?cfg) h3 = x" by blast
  moreover from this have "restore_archive vt archive ?cfg ?k = (0, h3)"
    using schema mf by (simp add: restore_archive_def ext)
  moreover have "parse_flag vt ''force'' False [''-force'', archive] = Inr (True, [archive])"
    using moved(2) by (auto simp: has_prefix_iff split_two_def Let_def)
  ultimately show ?thesis
    using load assms(2) by (simp add: run_restore_def Let_def quiet_disk_def)
qed

section \<open>No secret leaves in an archive\<close>







text \<open>A provider with a key that is no text is no mapping of names to the redaction, and keeps its secret.\<close>

lemma odd_provider_keeps_its_secret:
  "redact_doc [(''oidc'', YSeq [YOther [(YScalar ''client_secret'', YScalar ''s''), (YSeq [], YScalar ''x'')]])] =
   [(''oidc'', YSeq [YOther [(YScalar ''client_secret'', YScalar ''s''), (YSeq [], YScalar ''x'')]])]"
  by code_simp

text \<open>The usage line puts \<open>--force\<close> after the file, where package \<open>flag\<close> no longer looks for it.\<close>

lemma force_after_the_file_is_refused:
  "length f < 2 \<or> hd f \<noteq> CHR ''-'' \<Longrightarrow> fst (run_restore vt [f, ''--force''] h) = 2"
  by (simp add: run_restore_def)

text \<open>When the new database cannot be put in place, the temporary file it was extracted to stays behind.\<close>

lemma failed_install_leaves_temp:
  assumes "mc_error vt SysStat db h = Some e"
  shows "replace_database vt db tmp h = (Inl (''stat '' @ db @ '': '' @ e), h)"
  using assms by (simp add: replace_database_def stat_file_def)

section \<open>A concrete host\<close>

text \<open>Texts end with a dot and mark every other character, so that they can be read back.\<close>

fun enc_text :: "string \<Rightarrow> string" where
  "enc_text [] = ''.''"
| "enc_text (c # s) = CHR ''x'' # c # enc_text s"

fun dec_text :: "string \<Rightarrow> string \<times> string" where
  "dec_text (a # c # s) = (if a = CHR ''.'' then ([], c # s) else (let (t, u) = dec_text s in (c # t, u)))"
| "dec_text s = ([], [])"

lemma dec_enc_text: "dec_text (enc_text s @ r) = (s, r)"
  by (induction s) (cases r; simp)+

definition enc_entry :: "tar_entry \<Rightarrow> string" where
  "enc_entry te = enc_text (if te_regular te then ''r'' else ''d'') @ enc_text (te_name te) @ enc_text (te_data te)"

definition enc_entries :: "tar_entry list \<Rightarrow> string" where
  "enc_entries es = concat (map enc_entry es)"

fun dec_entries :: "nat \<Rightarrow> string \<Rightarrow> tar_item list" where
  "dec_entries n [] = []"
| "dec_entries 0 s = []"
| "dec_entries (Suc n) s =
     (let (k, s1) = dec_text s; (name, s2) = dec_text s1; (data, s3) = dec_text s2
      in Whole \<lparr>te_regular = (k = ''r''), te_name = name, te_data = data\<rparr> # dec_entries n s3)"

lemma enc_entries_length: "length es \<le> length (enc_entries es)"
proof (induction es)
  case (Cons e es)
  have "enc_text s \<noteq> []" for s by (cases s) auto
  with Cons show ?case by (simp add: enc_entries_def enc_entry_def Suc_le_eq add_strict_increasing)
qed (simp add: enc_entries_def)

lemma dec_enc_entries: "length es \<le> n \<Longrightarrow> dec_entries n (enc_entries es) = map Whole es"
proof (induction es arbitrary: n)
  case Nil
  then show ?case by (simp add: enc_entries_def)
next
  case (Cons e es)
  then obtain m where m: "n = Suc m" "length es \<le> m" by (cases n) auto
  let ?k = "if te_regular e then ''r'' else ''d''"
  have step: "enc_entries (e # es) = enc_text ?k @ enc_text (te_name e) @ enc_text (te_data e) @ enc_entries es"
    by (simp add: enc_entries_def enc_entry_def)
  then obtain c cs where c: "enc_entries (e # es) = c # cs" by (cases "enc_text ?k"; cases ?k) auto
  have "dec_entries (Suc m) (c # cs) = Whole \<lparr>te_regular = (?k = ''r''), te_name = te_name e, te_data = te_data e\<rparr> # dec_entries m (enc_entries es)"
    unfolding dec_entries.simps(3) unfolding c[symmetric] step by (simp only: dec_enc_text Let_def case_prod_conv)
  also have "\<lparr>te_regular = (?k = ''r''), te_name = te_name e, te_data = te_data e\<rparr> = e" by simp
  finally show ?case using Cons.IH[OF m(2)] m(1) c by simp
qed

definition enc_manifest :: "manifest \<Rightarrow> string" where
  "enc_manifest m = enc_text (mf_version m) @ enc_text (if mf_schema m < 0 then ''-'' else ''+'') @
     enc_text (replicate (nat (abs (mf_schema m))) CHR ''1'') @ enc_text (mf_created m) @ enc_text (mf_hostname m)"

definition dec_manifest :: "string \<Rightarrow> manifest" where
  "dec_manifest s =
     (let (v, s1) = dec_text s; (g, s2) = dec_text s1; (n, s3) = dec_text s2; (c, s4) = dec_text s3; (b, _) = dec_text s4
      in \<lparr>mf_version = v, mf_schema = (if g = ''-'' then - int (length n) else int (length n)), mf_created = c, mf_hostname = b\<rparr>)"

lemma dec_enc_manifest: "dec_manifest (enc_manifest m) = m"
  using dec_enc_text[of _ "[]"] by (simp add: dec_manifest_def enc_manifest_def dec_enc_text)

definition a_vault :: vault where
  "a_vault =
     \<lparr>mc_cwd = ''/'', mc_pid = 7, mc_error = (\<lambda>_ _ _. None), mc_signal = (\<lambda>_ _. NoSuchProcess), mc_duration = (\<lambda>_. None),
      mc_quote = (\<lambda>s. s), mc_atoi_error = (\<lambda>s. s), mc_yaml = (\<lambda>_ c. (c, None)),
      vt_version = ''1.0'', vt_hostname = Some ''h'', vt_rfc3339 = (\<lambda>_. ''t''), vt_stamp = (\<lambda>_. ''s''),
      vt_yaml_doc = (\<lambda>_. Some []), vt_yaml_print = (\<lambda>_. []), vt_manifest_print = enc_manifest,
      vt_manifest_read = (\<lambda>s. Inr (dec_manifest s)), vt_pack = enc_entries,
      vt_unpack = (\<lambda>s. Some (dec_entries (length s) s)), vt_vacuum = (\<lambda>d _. Inr d), vt_schema = (\<lambda>_. Inr 2),
      vt_migrate = (\<lambda>d _. ((Some (case d of None \<Rightarrow> [] | Some s \<Rightarrow> s), None), None)), vt_temp = (\<lambda>_. ''1''),
      vt_temp_dir = (\<lambda>_ _. Inr ''/tmp'')\<rparr>"

definition a_host :: "(string \<times> string) list \<Rightarrow> (string list \<times> string) list \<Rightarrow> host" where
  "a_host env files = \<lparr>ho_env = map_of env, ho_files = map_of files, ho_printed = [], ho_now = 0\<rparr>"

definition a_env :: "(string \<times> string) list" where
  "a_env = [(''STYR_ENV'', ''dev''), (''STYR_DATA_DIR'', ''/d''), (''STYR_SECRET_KEY'', replicate 32 CHR ''k'')]"

definition a_saved_host :: host where
  "a_saved_host = a_host a_env [([''d'', ''styr.db''], ''rows'')]"

definition a_target_host :: host where
  "a_target_host = put_file a_vault ''/b'' (file_of a_vault ''/b'' (snd (run_backup a_vault [''/b''] a_saved_host)))
     (a_host a_env [([''d'', ''styr.db''], ''old'')])"

lemma a_vault_ok: "plain_names a_vault" "quiet_disk a_vault" "faithful_archives a_vault"
  by (simp_all add: plain_names_def quiet_disk_def faithful_archives_def a_vault_def dec_enc_manifest dec_enc_entries enc_entries_length)

text \<open>One evaluation of the whole example: both commands succeed on these hosts.\<close>

lemma a_example:
  "fst (run_backup a_vault [''/b''] a_saved_host) = 0 \<and>
   fst (run_restore a_vault [''-force'', ''/b''] a_target_host) = 0 \<and>
   snd (load_config a_vault (get_env ''STYR_CONFIG'' (load_env a_vault a_target_host)) (load_env a_vault a_target_host)) = None \<and>
   file_of a_vault (db_path (loaded_config a_vault a_target_host)) a_target_host = Some ''old'' \<and>
   file_of a_vault (db_path (loaded_config a_vault a_saved_host)) a_saved_host = Some ''rows''"
  by code_simp

lemma a_backup_runs: "run_backup a_vault [''/b''] a_saved_host = (0, snd (run_backup a_vault [''/b''] a_saved_host))"
  using a_example by (simp add: prod_eq_iff)

lemma a_restore_runs: "run_restore a_vault [''-force'', ''/b''] a_target_host = (0, snd (run_restore a_vault [''-force'', ''/b''] a_target_host))"
  using a_example by (simp add: prod_eq_iff)

lemma a_files: "file_of a_vault (db_path (loaded_config a_vault a_target_host)) a_target_host = Some ''old''"
  "file_of a_vault (db_path (loaded_config a_vault a_saved_host)) a_saved_host = Some ''rows''"
  "file_of a_vault ''/b'' a_target_host = file_of a_vault ''/b'' (snd (run_backup a_vault [''/b''] a_saved_host))"
  using a_example by (simp_all add: a_target_host_def file_of_def put_file_def)

lemma a_vault_fields: "vt_vacuum a_vault = (\<lambda>d _. Inr d)" "vt_schema a_vault = (\<lambda>_. Inr 2)" "vt_temp_dir a_vault = (\<lambda>_ _. Inr ''/tmp'')"
  "vt_migrate a_vault = (\<lambda>d _. ((Some (case d of None \<Rightarrow> [] | Some s \<Rightarrow> s), None), None))"
  by (simp_all add: a_vault_def)

theorem restore_keeps_database_witness:
  "file_of a_vault (kept_copy a_vault a_target_host) (snd (run_restore a_vault [''-force'', ''/b''] a_target_host)) = Some ''old''"
  using restore_keeps_database[OF a_vault_ok(1) a_files(1) a_restore_runs] by simp

theorem restore_returns_backup_witness:
  "\<exists>h3. run_restore a_vault [''-force'', ''/b''] a_target_host = (0, h3) \<and>
     file_of a_vault (db_path (loaded_config a_vault a_target_host)) h3 = Some ''rows''"
  by (rule restore_returns_backup[OF a_vault_ok a_backup_runs _ a_files(3) _ a_example[THEN conjunct2, THEN conjunct2, THEN conjunct1], of "''rows''" 2 2 "Some ''rows''" None 2])
    (simp_all add: a_files(1,2) a_vault_fields latest_schema_version_def has_prefix_iff)


end
