(* ===== verification/Doctor.thy ===== *)
theory Doctor
  imports Config Gitops Workspaces "HOL-Library.Word"
begin

text \<open>
  \<open>styr doctor\<close>, \<open>cmd/styr/doctor.go\<close>: its checks, their verdicts and the exit code, and the pruning of worktrees no
  session row names. The database is the world the commands open; subprocesses, the network, directory listings and
  \<open>statfs\<close> are parameters. Of what the checks do to the disk, a directory made or a temporary file removed again, nothing
  is kept. Sizes are exact below \<open>2 ^ 53\<close>, where Go's \<open>float64\<close> is.
\<close>

section \<open>Verdicts\<close>

datatype verdict = Fine | Skipped string | Warned string | Failed string

definition err_skip :: string where "err_skip = ''skip''"
definition err_warn :: string where "err_warn = ''warn''"

fun verdict_text :: "verdict \<Rightarrow> string" where
  "verdict_text Fine = []"
| "verdict_text (Skipped r) = err_skip @ '': '' @ r"
| "verdict_text (Warned r) = err_warn @ '': '' @ r"
| "verdict_text (Failed e) = e"

definition check_reason :: "verdict \<Rightarrow> string \<Rightarrow> string" where
  "check_reason v sentinel = trim_prefix (verdict_text v) (sentinel @ '': '')"

datatype walked = Unreadable | Directory | NoInfo | Sized int

record 'g clinic = machine +
  dc_git :: "'g git_host"
  dc_look_path :: "string \<Rightarrow> string option"
  dc_version :: "string \<Rightarrow> string option"
  dc_http_get :: "string \<Rightarrow> string + nat \<times> string"
  dc_statfs :: "string \<Rightarrow> string + 64 word \<times> 64 word"
  dc_open_db :: "string \<Rightarrow> string option"
  dc_read_dir :: "string \<Rightarrow> 'g checkout \<Rightarrow> fault + (string \<times> bool) list"
  dc_walk :: "string \<Rightarrow> 'g checkout \<Rightarrow> walked list"

section \<open>Sizes\<close>

definition disk_warn_bytes :: int where "disk_warn_bytes = 1024 * 1024 * 1024"
definition disk_fail_bytes :: int where "disk_fail_bytes = 200 * 1024 * 1024"

text \<open>\<open>%.1f\<close> of a quotient: the nearest tenth, and of two the even one.\<close>

definition one_decimal :: "int \<Rightarrow> int \<Rightarrow> string" where
  "one_decimal n unit =
     (let q = n * 10 div unit; r = n * 10 mod unit;
          t = (if 2 * r > unit \<or> 2 * r = unit \<and> odd q then q + 1 else q)
      in show_int (t div 10) @ ''.'' @ show_int (t mod 10))"

definition format_bytes :: "int \<Rightarrow> string" where
  "format_bytes n =
     (if n \<ge> 1024 * 1024 * 1024 then one_decimal n (1024 * 1024 * 1024) @ '' GiB''
      else if n \<ge> 1024 * 1024 then one_decimal n (1024 * 1024) @ '' MiB''
      else if n \<ge> 1024 then one_decimal n 1024 @ '' KiB''
      else show_int n @ '' B'')"

definition walked_size :: "walked \<Rightarrow> int" where
  "walked_size e = (case e of Sized n \<Rightarrow> n | _ \<Rightarrow> 0)"

definition dir_size :: "('g, 'm) clinic_scheme \<Rightarrow> string \<Rightarrow> 'g checkout \<Rightarrow> int" where
  "dir_size dc p co = sum_list (map walked_size (dc_walk dc p co))"

section \<open>Single checks\<close>

definition fail_with :: "string \<Rightarrow> string option \<Rightarrow> verdict" where
  "fail_with prefix e = (case e of None \<Rightarrow> Fine | Some m \<Rightarrow> Failed (prefix @ m))"

definition check_disk_space :: "('g, 'm) clinic_scheme \<Rightarrow> string \<Rightarrow> host \<Rightarrow> verdict" where
  "check_disk_space dc dir h =
     (if dir = [] then Failed ''data_dir not configured''
      else case mc_error dc SysMkdirAll dir h of
             Some e \<Rightarrow> Failed (''create '' @ dir @ '': '' @ e)
           | None \<Rightarrow>
               (case dc_statfs dc dir of
                  Inl e \<Rightarrow> Failed (''statfs '' @ dir @ '': '' @ e)
                | Inr (bavail, bsize) \<Rightarrow>
                    (let free = sint (bavail * bsize)
                     in if free < disk_fail_bytes
                        then Failed (''only '' @ format_bytes free @ '' free on '' @ dir @ '', want at least '' @ format_bytes disk_fail_bytes)
                        else if free < disk_warn_bytes
                        then Warned (''only '' @ format_bytes free @ '' free on '' @ dir @ '', want at least '' @ format_bytes disk_warn_bytes)
                        else Fine)))"

definition check_data_dir_writable :: "('g, 'm) clinic_scheme \<Rightarrow> string \<Rightarrow> host \<Rightarrow> verdict" where
  "check_data_dir_writable dc dir h =
     (case mc_error dc SysMkdirAll dir h of
        Some e \<Rightarrow> Failed (''create '' @ dir @ '': '' @ e)
      | None \<Rightarrow>
          (case mc_error dc SysTemp (go_join [dir, ''.doctor-'']) h of
             Some e \<Rightarrow> Failed (''write to '' @ dir @ '': '' @ e)
           | None \<Rightarrow>
               (case mc_error dc SysRemove (go_join [dir, ''.doctor-'']) h of
                  Some e \<Rightarrow> Failed (''clean up '' @ go_join [dir, ''.doctor-''] @ '': '' @ e)
                | None \<Rightarrow> Fine)))"

definition check_claude_binary :: "('g, 'm) clinic_scheme \<Rightarrow> string \<Rightarrow> verdict" where
  "check_claude_binary dc bin = fail_with (bin @ '' --version: '') (dc_version dc bin)"

definition check_codex_binary :: "('g, 'm) clinic_scheme \<Rightarrow> string \<Rightarrow> verdict" where
  "check_codex_binary dc bin =
     (if bin = [] then Skipped ''codex_bin not configured; Codex sessions unavailable''
      else if dc_look_path dc bin \<noteq> None
      then Skipped (bin @ '' not found; Codex sessions unavailable until it is installed'')
      else fail_with (bin @ '' --version: '') (dc_version dc bin))"

definition check_git :: "('g, 'm) clinic_scheme \<Rightarrow> verdict" where
  "check_git dc = fail_with ''git not found on PATH: '' (dc_look_path dc ''git'')"

definition check_secret_key :: "config \<Rightarrow> verdict" where
  "check_secret_key cfg =
     (if length (cf_secret_key cfg) < 32
      then Failed (''secret_key is '' @ show_nat (length (cf_secret_key cfg)) @ '' bytes, want at least 32'') else Fine)"

definition check_database_opens :: "('g, 'm) clinic_scheme \<Rightarrow> string \<Rightarrow> verdict" where
  "check_database_opens dc path = fail_with [] (dc_open_db dc path)"

fun check_providers :: "('g, 'm) clinic_scheme \<Rightarrow> oidc_provider list \<Rightarrow> verdict" where
  "check_providers dc [] = Fine"
| "check_providers dc (p # ps) =
     (case dc_http_get dc (trim_right (\<lambda>c. c = CHR ''/'') (op_issuer p) @ ''/.well-known/openid-configuration'') of
        Inl e \<Rightarrow> Failed (op_name p @ '': '' @ e)
      | Inr (code, status) \<Rightarrow>
          (if code \<noteq> 200 then Failed (op_name p @ '': unexpected status '' @ status) else check_providers dc ps))"

definition check_oidc_discovery :: "('g, 'm) clinic_scheme \<Rightarrow> config \<Rightarrow> verdict" where
  "check_oidc_discovery dc cfg =
     (if cf_env cfg = ''dev'' then Skipped ''dev mode''
      else if cf_oidc cfg = [] then Skipped ''no oidc providers configured''
      else check_providers dc (cf_oidc cfg))"

definition check_pid_file :: "('g, 'm) clinic_scheme \<Rightarrow> config \<Rightarrow> host \<Rightarrow> verdict" where
  "check_pid_file dc cfg h =
     (if cf_data_dir cfg = [] then Failed ''data_dir not configured''
      else let path = pid_file_path (cf_data_dir cfg)
           in case read_pid_file dc path h of
                Inl e \<Rightarrow> Failed e
              | Inr None \<Rightarrow> Fine
              | Inr (Some pid) \<Rightarrow>
                  (if pid_live dc pid h then Fine
                   else Warned (''stale pid file '' @ path @ '' names pid '' @ show_int pid @
                          '', which is not running; `styr serve` overwrites it on its next start'')))"

section \<open>Orphan worktrees\<close>

record orphan_worktree =
  ow_workspace :: string
  ow_path :: string
  ow_size :: int

definition orphans_in :: "('g, 'm) clinic_scheme \<Rightarrow> workspace \<Rightarrow> string \<Rightarrow> (string \<times> bool) list \<Rightarrow> world \<Rightarrow> 'g checkout \<Rightarrow>
    orphan_worktree list" where
  "orphans_in dc ws base entries w co =
     concat (map (\<lambda>(name, is_dir).
        let path = go_join [base, name]
        in if \<not> is_dir then []
           else case sessions_get_by_worktree path w of
                  Inr _ \<Rightarrow> []
                | Inl _ \<Rightarrow> [\<lparr>ow_workspace = ws_path ws, ow_path = path, ow_size = dir_size dc path co\<rparr>]) entries)"

fun orphans_of :: "('g, 'm) clinic_scheme \<Rightarrow> workspace list \<Rightarrow> world \<Rightarrow> 'g checkout \<Rightarrow> string + orphan_worktree list" where
  "orphans_of dc [] w co = Inr []"
| "orphans_of dc (ws # wss) w co =
     (let base = go_join [ws_path ws, worktrees_subdir]
      in case dc_read_dir dc base co of
           Inl (NotExist _) \<Rightarrow> orphans_of dc wss w co
         | Inl (Fault e) \<Rightarrow> Inl (''read '' @ base @ '': '' @ e)
         | Inr entries \<Rightarrow>
             (case orphans_of dc wss w co of
                Inl e \<Rightarrow> Inl e
              | Inr os \<Rightarrow> Inr (orphans_in dc ws base entries w co @ os)))"

definition find_orphan_worktrees :: "('g, 'm) clinic_scheme \<Rightarrow> config \<Rightarrow> world \<Rightarrow> 'g checkout \<Rightarrow> string + orphan_worktree list" where
  "find_orphan_worktrees dc cfg w co =
     (if cf_data_dir cfg = [] then Inr []
      else case dc_open_db dc (db_path cfg) of
             Some e \<Rightarrow> Inl (''open database: '' @ e)
           | None \<Rightarrow> orphans_of dc (workspaces_list_visible [] True w) w co)"

definition check_orphan_worktrees :: "('g, 'm) clinic_scheme \<Rightarrow> config \<Rightarrow> world \<Rightarrow> 'g checkout \<Rightarrow> verdict" where
  "check_orphan_worktrees dc cfg w co =
     (case find_orphan_worktrees dc cfg w co of
        Inl e \<Rightarrow> Failed e
      | Inr [] \<Rightarrow> Fine
      | Inr os \<Rightarrow> Warned (show_nat (length os) @ '' orphan worktree(s) using '' @ format_bytes (sum_list (map ow_size os)) @
                    ''; run `styr doctor --prune-worktrees` to remove them''))"

fun remove_orphans :: "('g, 'm) clinic_scheme \<Rightarrow> orphan_worktree list \<Rightarrow> nat \<times> int \<Rightarrow> 'g checkout \<Rightarrow>
    (nat \<times> int \<times> string option) \<times> 'g checkout" where
  "remove_orphans dc [] (removed, freed) co = ((removed, freed, None), co)"
| "remove_orphans dc (q # os) (removed, freed) co =
     (case remove_worktree (dc_git dc) \<lparr>rp_path = ow_workspace q, rp_env = None\<rparr> (ow_path q) True co of
        (Inl _, co1) \<Rightarrow> ((removed, freed, Some (''remove worktree '' @ ow_path q)), co1)
      | (Inr _, co1) \<Rightarrow> remove_orphans dc os (Suc removed, freed + ow_size q) co1)"

definition prune_orphan_worktrees :: "('g, 'm) clinic_scheme \<Rightarrow> config \<Rightarrow> world \<Rightarrow> 'g checkout \<Rightarrow>
    (nat \<times> int \<times> string option) \<times> 'g checkout" where
  "prune_orphan_worktrees dc cfg w co =
     (case find_orphan_worktrees dc cfg w co of
        Inl e \<Rightarrow> ((0, 0, Some e), co)
      | Inr os \<Rightarrow> remove_orphans dc os (0, 0) co)"

section \<open>The command\<close>

definition doctor_checks :: "('g, 'm) clinic_scheme \<Rightarrow> config \<Rightarrow> world \<Rightarrow> 'g checkout \<Rightarrow> host \<Rightarrow> (string \<times> verdict) list" where
  "doctor_checks dc cfg w co h =
     [(''config loads'', fail_with [] (snd (load_config dc (get_env ''STYR_CONFIG'' h) h))),
      (''data dir writable'', check_data_dir_writable dc (cf_data_dir cfg) h),
      (''claude binary found and --version runs'', check_claude_binary dc (cf_claude_bin cfg)),
      (''codex binary found (optional)'', check_codex_binary dc (cf_codex_bin cfg)),
      (''git on PATH'', check_git dc),
      (''secret key length'', check_secret_key cfg),
      (''database opens'', check_database_opens dc (db_path cfg)),
      (''oidc discovery reachable'', check_oidc_discovery dc cfg),
      (''disk space free on data dir'', check_disk_space dc (cf_data_dir cfg) h),
      (''orphan session worktrees'', check_orphan_worktrees dc cfg w co),
      (''pid file liveness'', check_pid_file dc cfg h)]"

fun report_check :: "string \<times> verdict \<Rightarrow> string" where
  "report_check (name, Fine) = ''ok  '' @ name"
| "report_check (name, Skipped r) = ''skip '' @ name @ '': '' @ check_reason (Skipped r) err_skip"
| "report_check (name, Warned r) = ''warn '' @ name @ '': '' @ check_reason (Warned r) err_warn"
| "report_check (name, Failed e) = ''FAIL '' @ name @ '': '' @ e"

fun is_failed :: "verdict \<Rightarrow> bool" where
  "is_failed (Failed e) = True"
| "is_failed _ = False"

definition report_prune :: "nat \<times> int \<times> string option \<Rightarrow> string" where
  "report_prune r =
     (case r of
        (removed, freed, Some e) \<Rightarrow> ''warn prune worktrees: '' @ e
      | (removed, freed, None) \<Rightarrow>
          (if removed = 0 then ''note no orphan worktrees to prune''
           else ''note pruned '' @ show_nat removed @ '' orphan worktree(s), freed '' @ format_bytes freed))"

definition doctor_usage :: "string list" where
  "doctor_usage = [''Usage of doctor:'', ''  -prune-worktrees'',
     ''    '' @ CHR 0x09 # ''remove orphan session worktrees (no session row references them) before running checks'']"

definition run_doctor :: "('g, 'm) clinic_scheme \<Rightarrow> string list \<Rightarrow> world \<Rightarrow> 'g checkout \<times> host \<Rightarrow> nat \<times> 'g checkout \<times> host" where
  "run_doctor dc args w s =
     (case parse_flag dc ''prune-worktrees'' False args of
        Inl e \<Rightarrow> (2, fst s, flag_failed e doctor_usage (snd s))
      | Inr (prune, _) \<Rightarrow>
          (let h1 = load_env dc (snd s);
               cfg = fst (load_config dc (get_env ''STYR_CONFIG'' h1) h1);
               (h2, co) = (if \<not> prune then (h1, fst s)
                           else let (r, co1) = prune_orphan_worktrees dc cfg w (fst s) in (print_line (report_prune r) h1, co1));
               verdicts = doctor_checks dc cfg w co h2
           in (if list_ex (is_failed \<circ> snd) verdicts then 1 else 0, co, fold (print_line \<circ> report_check) verdicts h2)))"

end
