(* ===== verification/Doctor_Claims.thy ===== *)
theory Doctor_Claims
  imports Doctor
begin

text \<open>What \<open>styr doctor --prune-worktrees\<close> removes, and when the command fails.\<close>

section \<open>Orphans\<close>






section \<open>Pruning\<close>




text \<open>A workspace with two worktrees, one of a session and one of none, whatever git answers.\<close>

definition two_worktrees :: "(unit, unit) clinic_scheme \<Rightarrow> (unit, unit) clinic_scheme" where
  "two_worktrees dc = dc\<lparr>dc_open_db := (\<lambda>_. None), dc_read_dir := (\<lambda>_ _. Inr [(''a'', True), (''b'', True)])\<rparr>"

definition one_session :: "workspace \<Rightarrow> session \<Rightarrow> world \<Rightarrow> world" where
  "one_session ws s w = w\<lparr>wd_workspaces := [ws\<lparr>ws_path := ''/w''\<rparr>], wd_sessions := [s\<lparr>se_worktree := ''/w/.styr/worktrees/a''\<rparr>]\<rparr>"

lemma two_worktrees_paths:
  "go_join [go_join [''/w'', worktrees_subdir], ''a''] = ''/w/.styr/worktrees/a''"
  "go_join [go_join [''/w'', worktrees_subdir], ''b''] = ''/w/.styr/worktrees/b''"
  by code_simp+

lemma one_orphan:
  "find_orphan_worktrees (two_worktrees dc) (cfg\<lparr>cf_data_dir := ''/d''\<rparr>) (one_session ws s w) co =
     Inr [\<lparr>ow_workspace = ''/w'', ow_path = ''/w/.styr/worktrees/b'', ow_size = dir_size (two_worktrees dc) ''/w/.styr/worktrees/b'' co\<rparr>]"
  by (simp add: find_orphan_worktrees_def two_worktrees_def one_session_def workspaces_list_visible_def order_asc_def orphans_in_def
      two_worktrees_paths sessions_get_by_worktree_def Let_def)


section \<open>The verdict of the command\<close>

text \<open>The exit code is 1 exactly when some check failed: warnings and skipped checks do not count.\<close>

lemma doctor_fails_on_failure:
  "parse_flag dc ''prune-worktrees'' False args = Inr (False, rest) \<Longrightarrow> run_doctor dc args w (co, h) = (code, co', h') \<Longrightarrow>
     co' = co \<and> (code = 1 \<longleftrightarrow> list_ex (is_failed \<circ> snd) (doctor_checks dc
       (fst (load_config dc (get_env ''STYR_CONFIG'' (load_env dc h)) (load_env dc h))) w co (load_env dc h)))"
  by (auto simp: run_doctor_def Let_def split: if_splits)

end
