(* ===== verification/Server.thy ===== *)
theory Server
  imports Router Launch Wiring Backup Doctor Risk Harness
begin

text \<open>
  The binary, \<open>cmd/styr\<close>: the composition root \<open>wireServices\<close> (\<open>wire.go\<close>), what \<open>GET /status\<close> and \<open>GET /version\<close> report
  (\<open>status_handlers.go\<close>), the start and the end of \<open>styr serve\<close> (\<open>serve.go\<close>), \<open>styr migrate\<close> and the dispatch of the
  commands (\<open>main.go\<close>). A \<open>platform\<close> holds the services with everything that is not code of the repository; the wiring
  puts the configuration and the services into each other. What requests and tickers do while the server is up is a
  parameter of \<open>run_serve\<close>; listening, signals and the timeouts of the shutdown are not modelled.
\<close>

section \<open>The status of the server\<close>

record harness_info =
  hi_kind :: string
  hi_available :: bool
  hi_version :: string
  hi_bin :: string

record status_info =
  si_version :: string
  si_claude :: string
  si_open :: nat
  si_slots :: int
  si_queue :: nat
  si_harnesses :: "harness_info list"

definition first_line :: "string \<Rightarrow> string" where
  "first_line s =
     (case find (\<lambda>l. l \<noteq> []) (map trim_space (split_char CHR 0x0A s)) of None \<Rightarrow> [] | Some l \<Rightarrow> take 80 l)"

text \<open>\<open>output\<close> is the standard output of \<open>--version\<close>, when the binary runs and ends with success in time.\<close>

definition probe_version :: "(string \<Rightarrow> string option) \<Rightarrow> string \<Rightarrow> string" where
  "probe_version output bin = (case output bin of None \<Rightarrow> ''unknown'' | Some out \<Rightarrow> first_line out)"

definition harness_info_of :: "string \<Rightarrow> string \<Rightarrow> string \<Rightarrow> harness_info" where
  "harness_info_of kind bin v = \<lparr>hi_kind = kind, hi_available = (v \<noteq> ''unknown''), hi_version = v, hi_bin = bin\<rparr>"

definition status_of :: "string \<Rightarrow> (string \<Rightarrow> string option) \<Rightarrow> config \<Rightarrow> status_info" where
  "status_of version output cfg =
     (let claude_version = probe_version output (cf_claude_bin cfg)
      in \<lparr>si_version = version, si_claude = claude_version, si_open = 0, si_slots = cf_max_open cfg, si_queue = 0,
          si_harnesses = [harness_info_of kind_claude (cf_claude_bin cfg) claude_version,
            harness_info_of kind_codex (cf_codex_bin cfg) (probe_version output (cf_codex_bin cfg))]\<rparr>)"

definition status_models :: "(string \<times> string) list" where
  "status_models =
     [(''fable'', ''Fable 5.1''), (''opus'', ''Opus 5''), (''sonnet'', ''Sonnet 5''), (''haiku'', ''Haiku 4.5'')]"

record status_view =
  sw_info :: status_info
  sw_models :: "(string \<times> string) list"
  sw_efforts :: "string list"
  sw_hidden :: "string list"

definition handle_status :: "status_info \<Rightarrow> status_view reply" where
  "handle_status info =
     Answered 200 \<lparr>sw_info = info, sw_models = status_models, sw_efforts = valid_efforts, sw_hidden = hidden_builtins\<rparr>"

definition api_version :: string where "api_version = ''1.0.0''"

text \<open>\<open>settings\<close> is the build information of the binary, when it has one.\<close>

definition build_commit :: "(string \<times> string) list option \<Rightarrow> string" where
  "build_commit settings =
     (case settings of
        None \<Rightarrow> ''unknown''
      | Some kvs \<Rightarrow>
          (case map_of kvs ''vcs.revision'' of
             None \<Rightarrow> ''unknown''
           | Some v \<Rightarrow> if 12 < length v then take 12 v else if v = [] then ''unknown'' else v))"

definition handle_version :: "string \<Rightarrow> (string \<times> string) list option \<Rightarrow> (string \<times> string \<times> string) reply" where
  "handle_version version settings = Answered 200 (version, api_version, build_commit settings)"

section \<open>The composition root (wire.go)\<close>

definition run_timeout :: duration where "run_timeout = 30 * minute"

record 'g platform =
  pl_suite :: cipher_suite
  pl_launcher :: launcher
  pl_sessions :: session_service
  pl_engine :: engine
  pl_deployment :: deployment
  pl_workspaces :: workspace_service
  pl_git :: "'g git_host"
  pl_notifier :: notifier
  pl_auth :: auth_service
  pl_accounts :: account_api
  pl_unmarshal :: unmarshal
  pl_input_field :: input_field
  pl_try_claude :: "string \<Rightarrow> string + child_run"
  pl_try_codex :: "string \<Rightarrow> string + child_run"
  pl_uuid :: "nat \<Rightarrow> id"

definition wire_launcher :: "config \<Rightarrow> 'g platform \<Rightarrow> string \<Rightarrow> launcher" where
  "wire_launcher cfg pl key =
     (pl_launcher pl)\<lparr>la_suite := pl_suite pl, la_key := key, la_has_codex := True, la_users_dir := users_dir cfg,
       la_service_home := go_join [users_dir cfg, ''__service__'']\<rparr>"

text \<open>The sessions service, whose launches read the credentials as they are stored.\<close>

definition wire_sessions :: "config \<Rightarrow> 'g platform \<Rightarrow> string \<Rightarrow> accounts \<Rightarrow> session_service" where
  "wire_sessions cfg pl key acc =
     launching (wire_launcher cfg pl key) acc
       ((pl_sessions pl)\<lparr>ss_max_open := cf_max_open cfg, ss_idle_timeout := cf_idle_timeout cfg, ss_registered := valid_kind,
         ss_classify := classify (pl_input_field pl)\<rparr>)"

definition names_of :: "accounts \<Rightarrow> id \<Rightarrow> (string \<times> string) option" where
  "names_of acc i = (case users_get i acc of Inl _ \<Rightarrow> None | Inr u \<Rightarrow> Some (us_name u, us_email u))"

definition wire_engine :: "config \<Rightarrow> 'g platform \<Rightarrow> session_service \<Rightarrow> engine" where
  "wire_engine cfg pl ss =
     (pl_engine pl)\<lparr>en_sessions := ss, en_timeout := run_timeout, en_has_loops := True, en_has_events := True,
       en_has_bus := True, en_has_notifier := True, en_base_url := cf_base_url cfg\<rparr>"

text \<open>The development login is possible in development only, whatever the configuration names as its user.\<close>

definition effective_dev_user :: "config \<Rightarrow> string" where
  "effective_dev_user cfg = (if cf_env cfg = ''dev'' then cf_dev_user cfg else [])"

definition wire_auth :: "config \<Rightarrow> 'g platform \<Rightarrow> error + auth_service" where
  "wire_auth cfg pl =
     map_sum id with_api_tokens
       (new_auth ((pl_auth pl)\<lparr>as_providers := cf_oidc cfg, as_base_url := cf_base_url cfg,
         as_dev_user := effective_dev_user cfg\<rparr>))"

definition error_from :: "string option \<Rightarrow> error option" where
  "error_from e = map_option ErrOther e"

definition wire_accounts :: "config \<Rightarrow> 'g platform \<Rightarrow> string \<Rightarrow> auth_service \<Rightarrow> account_api" where
  "wire_accounts cfg pl key au =
     (pl_accounts pl)\<lparr>aa_auth := au, aa_token_store := True, aa_codex := True,
       aa_verify_claude := (\<lambda>token. error_from
         (if cf_env cfg = ''dev'' then dev_verify token
          else claude_verify (pl_unmarshal pl) (cf_claude_bin cfg) ''1m0s'' (pl_try_claude pl) token)),
       aa_verify_codex := (\<lambda>k. error_from
         (if cf_env cfg = ''dev'' then dev_codex_verify k else codex_verify (cf_codex_bin cfg) ''1m0s'' (pl_try_codex pl) k)),
       aa_seal := box_seal (pl_suite pl) key, aa_max_open := cf_max_open cfg, aa_idle_timeout := cf_idle_timeout cfg\<rparr>"

text \<open>
  \<open>wireServices\<close>, for the accounts as they are: what the services read of them changes with every request, so the
  dependencies are those of one moment.
\<close>

definition wire_services :: "config \<Rightarrow> 'g platform \<Rightarrow> accounts \<Rightarrow> string + 'g deps" where
  "wire_services cfg pl acc =
     (case new_box (pl_suite pl) (cf_secret_key cfg) of
        Inl e \<Rightarrow> Inl (''wire: '' @ error_text e)
      | Inr key \<Rightarrow>
          (let ss = wire_sessions cfg pl key acc;
               en = wire_engine cfg pl ss;
               dp = (pl_deployment pl)\<lparr>dp_engine := en\<rparr>
           in case wire_auth cfg pl of
                Inl e \<Rightarrow> Inl (''wire: '' @ error_text e)
              | Inr au \<Rightarrow>
                  Inr \<lparr>dp_auth = au, dp_accounts = wire_accounts cfg pl key au,
                    dp_workspaces = (pl_workspaces pl)\<lparr>wv_users_dir := users_dir cfg, wv_has_access := True\<rparr>,
                    dp_sessions = ss,
                    dp_review = \<lparr>rv_sessions = ss, rv_host = pl_git pl, rv_users = Some (names_of acc)\<rparr>,
                    dp_box = \<lparr>bx_seal = (\<lambda>plain. box_seal (pl_suite pl) key plain (aw_uuids acc)),
                      bx_open = box_open (pl_suite pl) key\<rparr>,
                    dp_triggers = wired_triggers dp, dp_runs = en, dp_notifier = pl_notifier pl,
                    dp_schedules = wired_schedules dp, dp_pipelines = wired_executor dp, dp_uuid = pl_uuid pl\<rparr>))"

section \<open>Serving (serve.go)\<close>

text \<open>No process survives a restart: what the services keep in memory is gone, and the rows of the sessions say so.\<close>

definition restarted :: "world \<Rightarrow> world" where
  "restarted w =
     w\<lparr>wd_procs := [], wd_closing := [], wd_starting := [], wd_slots := 0, wd_notified := [], wd_completed := [],
       wd_loop_vars := [], wd_bus := []\<rparr>"

definition stale :: "session_state \<Rightarrow> bool" where
  "stale st = (st = SessionOpen \<or> st = SessionRunning \<or> st = SessionWaiting)"

definition reset_stale_sessions :: "world \<Rightarrow> world" where
  "reset_stale_sessions w =
     w\<lparr>wd_sessions := map (\<lambda>s. if stale (se_state s) then s\<lparr>se_state := SessionClosed\<rparr> else s) (wd_sessions w)\<rparr>"

text \<open>Seeding binds the shipped templates to the first shared workspace; its errors are logged.\<close>

definition seed_templates :: "trigger_service \<Rightarrow> world \<Rightarrow> world" where
  "seed_templates ts w =
     (case find (\<lambda>ws. ws_owner ws = None) (workspaces_list_visible [] False w) of
        None \<Rightarrow> w
      | Some ws \<Rightarrow> snd (ensure_seeded ts (ws_id ws) w))"

text \<open>One tick of \<open>runMaintenanceLoop\<close>.\<close>

definition maintenance_tick :: "'g deps \<Rightarrow> world \<Rightarrow> world" where
  "maintenance_tick d w = seed_templates (dp_triggers d) (run_maintenance (dp_sessions d) w)"

text \<open>
  \<open>runServe\<close> up to the moment it listens: the exit code when it does not get there. The environment file's notes go to
  the log, so that standard output holds the error of the configuration only.
\<close>

definition serve_env :: "('m) vault_scheme \<Rightarrow> host \<Rightarrow> host" where
  "serve_env vt h = (load_env vt h)\<lparr>ho_printed := ho_printed h\<rparr>"

definition serve_pid :: "config \<Rightarrow> string" where "serve_pid cfg = pid_file_path (cf_data_dir cfg)"

definition give_up :: "('m) vault_scheme \<Rightarrow> config \<Rightarrow> 'g site \<Rightarrow> host \<Rightarrow> (nat + 'd) \<times> 'g site \<times> host" where
  "give_up vt cfg s h = (Inl 1, s, snd (remove_pid_file vt (serve_pid cfg) h))"

definition serve_services ::
  "('m) vault_scheme \<Rightarrow> 'g platform \<Rightarrow> config \<Rightarrow> 'g site \<Rightarrow> host \<Rightarrow> (nat + 'g deps) \<times> 'g site \<times> host" where
  "serve_services vt pl cfg s h =
     (case open_database vt (db_path cfg) h of
        (Some e, h1) \<Rightarrow> give_up vt cfg s h1
      | (None, h1) \<Rightarrow>
          (let s1 = s\<lparr>st_world := reset_stale_sessions (restarted (st_world s))\<rparr>
           in case wire_services cfg pl (st_accounts s1) of
                Inl e \<Rightarrow> give_up vt cfg s1 h1
              | Inr d \<Rightarrow> (Inr d, s1\<lparr>st_world := seed_templates (dp_triggers d) (st_world s1)\<rparr>, h1)))"

definition boot :: "('m) vault_scheme \<Rightarrow> 'g platform \<Rightarrow> 'g site \<Rightarrow> host \<Rightarrow> config \<times> (nat + 'g deps) \<times> 'g site \<times> host" where
  "boot vt pl s h =
     (let h1 = serve_env vt h; (cfg, e) = load_config vt (get_env ''STYR_CONFIG'' h1) h1
      in (cfg,
          case e of
            Some err \<Rightarrow> (Inl 1, s, print_line (''serve: '' @ err) h1)
          | None \<Rightarrow>
              (if mc_error vt SysMkdirAll (cf_data_dir cfg) h1 \<noteq> None then (Inl 1, s, h1)
               else case write_pid_file vt (serve_pid cfg) h1 of
                      (Some err, h2) \<Rightarrow> (Inl 1, s, h2)
                    | (None, h2) \<Rightarrow> serve_services vt pl cfg s h2)))"

text \<open>
  The whole of \<open>runServe\<close>: \<open>life\<close> is what requests and tickers make of the server until it ends, and \<open>listen_failed\<close> whether
  it ends because it could not listen rather than by a signal; only then its sessions are shut down.
\<close>

definition run_serve ::
  "('m) vault_scheme \<Rightarrow> 'g platform \<Rightarrow> ('g deps \<Rightarrow> 'g site \<Rightarrow> 'g site) \<Rightarrow> bool \<Rightarrow> 'g site \<Rightarrow> host \<Rightarrow> nat \<times> 'g site \<times> host" where
  "run_serve vt pl life listen_failed s h =
     (case boot vt pl s h of
        (_, Inl code, s1, h1) \<Rightarrow> (code, s1, h1)
      | (cfg, Inr d, s1, h1) \<Rightarrow>
          (let s2 = life d s1; h2 = snd (remove_pid_file vt (serve_pid cfg) h1)
           in if listen_failed then (1, s2, h2)
              else (0, s2\<lparr>st_world := snd (shutdown (dp_sessions d) (st_world s2))\<rparr>, h2)))"

section \<open>The web front end's files (web/spa.go)\<close>

definition path_ext :: "string \<Rightarrow> string" where
  "path_ext p =
     (let e = last (split_char CHR ''/'' p)
      in if CHR ''.'' \<in> set e then CHR ''.'' # last (split_char CHR ''.'' e) else [])"

text \<open>
  \<open>spaHandler\<close>: the caching it asks for and the path the file server is given; \<open>there\<close> says whether a file of the bundle
  can be opened.
\<close>

definition spa_handler :: "(string \<Rightarrow> bool) \<Rightarrow> string \<Rightarrow> string option \<times> string" where
  "spa_handler there url =
     (let p = go_clean (if has_prefix url ''/'' then url else CHR ''/'' # url)
      in if has_prefix p ''/assets/'' then (Some ''public, max-age=31536000, immutable'', url)
         else if p = ''/'' then (Some ''no-cache'', url)
         else if p = ''/index.html'' then (Some ''no-cache'', ''/'')
         else if there p then (None, url)
         else if path_ext p = [] then (Some ''no-cache'', ''/'')
         else (None, url))"

section \<open>The other commands (migrate.go, main.go)\<close>

definition migrate_failed :: "string \<Rightarrow> host \<Rightarrow> nat \<times> host" where
  "migrate_failed e h = (1, print_line (''migrate: '' @ e) h)"

definition run_migrate :: "('m) vault_scheme \<Rightarrow> host \<Rightarrow> nat \<times> host" where
  "run_migrate vt h =
     (let h1 = load_env vt h
      in case load_config vt (get_env ''STYR_CONFIG'' h1) h1 of
           (_, Some e) \<Rightarrow> migrate_failed e h1
         | (cfg, None) \<Rightarrow>
             (case mc_error vt SysMkdirAll (cf_data_dir cfg) h1 of
                Some e \<Rightarrow> migrate_failed e h1
              | None \<Rightarrow>
                  (case open_database vt (db_path cfg) h1 of
                     (Some e, h2) \<Rightarrow> migrate_failed e h2
                   | (None, h2) \<Rightarrow> (0, print_line ''migrations applied'' h2))))"

record 'g binary =
  bn_commit :: string
  bn_platform :: "'g platform"
  bn_life :: "'g deps \<Rightarrow> 'g site \<Rightarrow> 'g site"
  bn_listen_failed :: bool

text \<open>\<open>run\<close>, the dispatch of \<open>main\<close>; each command with what it may change.\<close>

definition run_styr ::
  "'g binary \<Rightarrow> ('m) vault_scheme \<Rightarrow> ('g, 'n) clinic_scheme \<Rightarrow> string list \<Rightarrow> 'g site \<Rightarrow> host \<Rightarrow> nat \<times> 'g site \<times> host" where
  "run_styr bn vt dc args0 s h =
     (let args = (if args0 = [] then [''serve''] else args0); command = hd args
      in if command = ''version'' then
           (0, s, print_line (''styr '' @ vt_version vt @ '' ('' @ bn_commit bn @ '')'') h)
         else if command = ''serve'' then run_serve vt (bn_platform bn) (bn_life bn) (bn_listen_failed bn) s h
         else if command = ''migrate'' then (let (code, h1) = run_migrate vt h in (code, s, h1))
         else if command = ''doctor'' then
           (let (code, co, h1) = run_doctor dc (tl args) (st_world s) (st_checkout s, h) in (code, s\<lparr>st_checkout := co\<rparr>, h1))
         else if command = ''backup'' then (let (code, h1) = run_backup vt (tl args) h in (code, s, h1))
         else if command = ''restore'' then (let (code, h1) = run_restore vt (tl args) h in (code, s, h1))
         else (2, s, print_line ''usage: styr [serve|migrate|doctor|backup|restore|version]''
                (print_line (''unknown command '' @ mc_quote vt command) h)))"

end
