(* ===== verification/Server_Claims.thy ===== *)
theory Server_Claims
  imports Server Backup_Claims Session_Proofs Account_Proofs
begin

text \<open>
  Properties of the server put together: what a configuration that loads guarantees of the wired services, and what a
  restart leaves behind.
\<close>

section \<open>What a loaded configuration guarantees\<close>

lemma load_config_valid:
  assumes "load_config mc path h = (cfg, None)"
  shows "validate_config mc cfg = None"
  using assms by (auto simp: load_config_def Let_def split: if_splits sum.splits fault.splits prod.splits option.splits)

lemma validate_configD:
  assumes "validate_config mc cfg = None"
  shows "32 \<le> length (cf_secret_key cfg)" and "1 \<le> cf_max_open cfg"
  using assms by (auto simp: validate_config_def split: if_splits)

lemma wire_servicesE:
  assumes "wire_services cfg pl acc = Inr d"
  obtains key au where "wire_auth cfg pl = Inr au" and "dp_auth d = au"
    and "dp_sessions d = wire_sessions cfg pl key acc" and "dp_triggers d = wired_triggers ((pl_deployment pl)
      \<lparr>dp_engine := wire_engine cfg pl (wire_sessions cfg pl key acc)\<rparr>)"
  using assms by (auto simp: wire_services_def Let_def split: sum.splits)

lemma wire_auth_dev_user: "wire_auth cfg pl = Inr au \<Longrightarrow> as_dev_user au = effective_dev_user cfg"
  by (auto simp: wire_auth_def new_auth_def with_api_tokens_def split: if_splits)

lemma wire_services_fails:
  assumes "wire_services cfg pl acc = Inl e" and "32 \<le> length (cf_secret_key cfg)"
  shows "slugs_clash [] (cf_oidc cfg)"
  using assms by (auto simp: wire_services_def wire_auth_def new_auth_def new_box_def Let_def split: if_splits)

lemma no_credentials_no_principal:
  assumes "as_dev_user s = []" and "rq_session r = None \<or> rq_session r = Some []"
    and "\<not> has_prefix (rq_authorization r) (''Bearer '' @ api_token_prefix)"
  shows "authenticate s r w = (None, [], w)"
  using assms by (auto simp: authenticate_def principal_from_cookie_def principal_from_bearer_def cut_prefix_Some
      has_prefix_iff split: option.splits)

lemma refused_first: "g p r = Some x \<Longrightarrow> first_refusal (g # gs) p r = Some x"
proof -
  have "fold (\<lambda>g acc. case acc of Some x \<Rightarrow> Some x | None \<Rightarrow> g p r) gs (Some x) = Some x" by (induction gs) auto
  moreover assume "g p r = Some x"
  ultimately show ?thesis by (simp add: first_refusal_def)
qed

text \<open>
  C16: A production server answers nobody without credentials. When the configuration loads and its environment is not
  the development's, then the wiring fails only where two providers have names with the same slug, and otherwise every
  call of a request with neither a session cookie nor an API token is answered 401 and changes nothing, whatever
  \<open>dev_user\<close> the configuration still names.
\<close>

theorem production_needs_credentials:
  assumes "load_config mc path h = (cfg, None)" and "cf_env cfg \<noteq> ''dev''"
    and "rq_session r = None \<or> rq_session r = Some []"
    and "\<not> has_prefix (rq_authorization r) (''Bearer '' @ api_token_prefix)"
  shows "case wire_services cfg pl acc of
      Inl e \<Rightarrow> slugs_clash [] (cf_oidc cfg)
    | Inr d \<Rightarrow> serve_call d c r s = (Refused 401 ''unauthorized'', [], s)"
proof (cases "wire_services cfg pl acc")
  case (Inl e)
  with wire_services_fails[OF this] validate_configD(1)[OF load_config_valid[OF assms(1)]] show ?thesis by simp
next
  case (Inr d)
  have "as_dev_user (dp_auth d) = []"
    using wire_servicesE[OF Inr] wire_auth_dev_user assms(2) by (metis effective_dev_user_def)
  from no_credentials_no_principal[OF this] assms(3,4)
  have "authenticate (dp_auth d) (request_on (route_of d c) r) (st_accounts s) = (None, [], st_accounts s)"
    by (simp add: request_on_def)
  then show ?thesis
    by (simp add: Inr serve_call_def serve_route_def Let_def route_guards_def user_guards_def
        refused_first[where x = "(401, ''unauthorized'')"] require_user_def)
qed

definition prod_machine :: vault where
  "prod_machine = a_vault\<lparr>mc_yaml := (\<lambda>_ c. (c\<lparr>cf_dev_user := ''eve'',
     cf_oidc := [\<lparr>op_name = ''p'', op_issuer = ''i'', op_client = ''c'', op_secret = ''s'', op_scopes = []\<rparr>]\<rparr>, None))\<rparr>"

definition prod_host :: host where
  "prod_host = a_host [(''STYR_BASE_URL'', ''https://styr''), (''STYR_SECRET_KEY'', replicate 32 CHR ''k'')]
     [([''c.yml''], [])]"

definition no_request :: request where
  "no_request = \<lparr>rq_method = [], rq_path = [], rq_requested_with = [], rq_authorization = ''Bearer x'', rq_session = None,
     rq_pkce = None, rq_agent = [], rq_error = [], rq_state = [], rq_code = []\<rparr>"

lemma prod_loads:
  "let (cfg, e) = load_config prod_machine ''/c.yml'' prod_host
   in e = None \<and> cf_env cfg = ''prod'' \<and> \<not> slugs_clash [] (cf_oidc cfg)"
  by code_simp

theorem production_needs_credentials_witness:
  "\<forall>(pl :: unit platform) acc s i. \<exists>d. wire_services (fst (load_config prod_machine ''/c.yml'' prod_host)) pl acc = Inr d \<and>
     serve_call d (SessionCall (SessionsClose i)) no_request s = (Refused 401 ''unauthorized'', [], s)"
proof (intro allI)
  fix pl :: "unit platform" and acc s i
  let ?cfg = "fst (load_config prod_machine ''/c.yml'' prod_host)"
  have "load_config prod_machine ''/c.yml'' prod_host = (?cfg, None)" using prod_loads by (auto simp: prod_eq_iff)
  from production_needs_credentials[OF this, where r = no_request and pl = pl and acc = acc and
      c = "SessionCall (SessionsClose i)" and s = s] prod_loads
  show "\<exists>d. wire_services ?cfg pl acc = Inr d \<and>
     serve_call d (SessionCall (SessionsClose i)) no_request s = (Refused 401 ''unauthorized'', [], s)"
    by (auto simp: no_request_def api_token_prefix_def split: sum.splits prod.splits)
qed

section \<open>What a restart leaves behind\<close>

lemma seed_all_frame:
  "seed_all ts have_names ws sds w = (r, w') \<Longrightarrow> \<exists>n ts'. w' = w\<lparr>wd_uuids := n, wd_templates := ts'\<rparr>"
proof (induction sds arbitrary: w)
  case Nil
  then show ?case by (intro exI[of _ "wd_uuids w"] exI[of _ "wd_templates w"]) simp
next
  case (Cons sd sds)
  show ?case
  proof (cases "sd_name sd \<in> set have_names")
    case True
    then show ?thesis using Cons by simp
  next
    case False
    let ?w1 = "w\<lparr>wd_uuids := Suc (wd_uuids w)\<rparr>"
    obtain q w2 where c: "templates_create (seeded_template (ge_uuid (ts_env ts) (wd_uuids w)) ws (wd_now w) sd) ?w1 = (q, w2)"
      by fastforce
    then have w2: "w2 = ?w1\<lparr>wd_templates := wd_templates w2\<rparr>"
      by (auto simp: templates_create_def split: if_splits)
    show ?thesis
    proof (cases q)
      case (Inl e)
      then have "w' = w2" using Cons.prems False c by (simp add: new_uuid_def)
      with w2 show ?thesis by metis
    next
      case (Inr x)
      then have "seed_all ts have_names ws sds w2 = (r, w')" using Cons.prems False c by (simp add: new_uuid_def)
      from Cons.IH[OF this] obtain n ts' where "w' = w2\<lparr>wd_uuids := n, wd_templates := ts'\<rparr>" by blast
      also have "\<dots> = w\<lparr>wd_uuids := n, wd_templates := ts'\<rparr>" by (subst w2) simp
      finally show ?thesis by blast
    qed
  qed
qed

lemma seed_templates_frame: "\<exists>n ts'. seed_templates ts w = w\<lparr>wd_uuids := n, wd_templates := ts'\<rparr>"
proof -
  have same: "\<exists>n ts'. w = w\<lparr>wd_uuids := n, wd_templates := ts'\<rparr>"
    by (intro exI[of _ "wd_uuids w"] exI[of _ "wd_templates w"]) simp
  show ?thesis
    by (auto simp: seed_templates_def ensure_seeded_def same split: option.split)
      (metis prod.collapse seed_all_frame)
qed

lemma bootE:
  assumes "boot vt pl s h = (cfg, Inr d, s1, h1)"
  obtains h0 n ts' where "load_config vt (get_env ''STYR_CONFIG'' h0) h0 = (cfg, None)"
    and "wire_services cfg pl (st_accounts s) = Inr d"
    and "s1 = s\<lparr>st_world := (reset_stale_sessions (restarted (st_world s)))\<lparr>wd_uuids := n, wd_templates := ts'\<rparr>\<rparr>"
proof -
  let ?h0 = "serve_env vt h"
  let ?w = "reset_stale_sessions (restarted (st_world s))"
  from assms obtain h2 where l: "load_config vt (get_env ''STYR_CONFIG'' ?h0) ?h0 = (cfg, None)"
    and v: "serve_services vt pl cfg s h2 = (Inr d, s1, h1)"
    by (auto simp: boot_def Let_def split: prod.splits option.splits if_splits)
  from v have d: "wire_services cfg pl (st_accounts s) = Inr d"
    and s1: "s1 = s\<lparr>st_world := seed_templates (dp_triggers d) ?w\<rparr>"
    by (auto simp: serve_services_def give_up_def Let_def split: prod.splits option.splits sum.splits)
  obtain n ts' where "seed_templates (dp_triggers d) ?w = ?w\<lparr>wd_uuids := n, wd_templates := ts'\<rparr>"
    using seed_templates_frame by blast
  with s1 l d show ?thesis using that by simp
qed

lemma wire_sessions_max: "ss_max_open (wire_sessions cfg pl key acc) = cf_max_open cfg"
  by (simp add: wire_sessions_def launching_def)

text \<open>
  C11: A restart leaves no ghosts. When \<open>styr serve\<close> comes up, no row says that a session is open, running or waiting,
  and nothing else of any session has changed; and from there on, whatever the sessions service is asked to do, there
  are never more processes than the configuration allows, never two for a session, and one slot taken for each.
\<close>

theorem restart_leaves_no_ghosts:
  assumes "boot vt pl s h = (cfg, Inr d, s1, h1)" and "transcript_ok (st_world s)"
    and "(session_op (dp_sessions d))\<^sup>*\<^sup>* (st_world s1) w"
  shows "list_all (\<lambda>x. \<not> stale (se_state x)) (wd_sessions (st_world s1)) \<and>
    list_all2 (\<lambda>x y. y = x\<lparr>se_state := se_state y\<rparr> \<and> (stale (se_state x) \<or> y = x))
      (wd_sessions (st_world s)) (wd_sessions (st_world s1)) \<and>
    int (length (wd_procs w)) \<le> cf_max_open cfg \<and> distinct (map fst (wd_procs w)) \<and> wd_slots w = length (wd_procs w)"
proof -
  from bootE[OF assms(1)] obtain h0 n ts' where
    l: "load_config vt (get_env ''STYR_CONFIG'' h0) h0 = (cfg, None)" and d: "wire_services cfg pl (st_accounts s) = Inr d"
    and s1: "s1 = s\<lparr>st_world := (reset_stale_sessions (restarted (st_world s)))\<lparr>wd_uuids := n, wd_templates := ts'\<rparr>\<rparr>" by metis
  have "transcript_ok (st_world s1)"
    using assms(2) transcript_cong[of "st_world s1" "st_world s"] by (simp add: s1 reset_stale_sessions_def restarted_def)
  then have "slots_ok (dp_sessions d) (st_world s1)"
    by (simp add: slots_at_def s1 reset_stale_sessions_def restarted_def)
  from session_ops_slots[OF assms(3) this]
  have "int (length (wd_procs w)) \<le> max 1 (ss_max_open (dp_sessions d)) \<and> distinct (map fst (wd_procs w)) \<and>
      wd_slots w = length (wd_procs w)"
    by (auto simp: slots_at_def slot_count_def split: if_splits)
  moreover have "max 1 (ss_max_open (dp_sessions d)) = cf_max_open cfg"
    using wire_servicesE[OF d] wire_sessions_max validate_configD(2)[OF load_config_valid[OF l]] by (metis max.absorb2)
  moreover have "list_all (\<lambda>x. \<not> stale (se_state x)) (wd_sessions (st_world s1))"
    by (auto simp: s1 reset_stale_sessions_def restarted_def list_all_iff stale_def)
  moreover have "list_all2 (\<lambda>x y. y = x\<lparr>se_state := se_state y\<rparr> \<and> (stale (se_state x) \<or> y = x))
      (wd_sessions (st_world s)) (wd_sessions (st_world s1))"
    by (simp add: s1 reset_stale_sessions_def restarted_def list.rel_map list.rel_refl)
  ultimately show ?thesis by simp
qed

definition crashed_world :: "session \<Rightarrow> world \<Rightarrow> world" where
  "crashed_world x w = w\<lparr>wd_sessions := [x\<lparr>se_state := SessionRunning\<rparr>], wd_procs := [(se_id x, None)], wd_slots := 1,
     wd_events := []\<rparr>"

lemma dev_server_boots:
  "fst (boot a_vault pl s a_saved_host) = fst (load_config a_vault [] (serve_env a_vault a_saved_host))"
  "\<exists>d. fst (snd (boot a_vault pl s a_saved_host)) = Inr d"
proof -
  let ?h = "serve_env a_vault a_saved_host"
  have "let (cfg, e) = load_config a_vault [] ?h in e = None \<and> get_env ''STYR_CONFIG'' ?h = [] \<and> cf_oidc cfg = []"
    by code_simp
  then have c: "load_config a_vault [] ?h = (fst (load_config a_vault [] ?h), None)" "get_env ''STYR_CONFIG'' ?h = []"
    "cf_oidc (fst (load_config a_vault [] ?h)) = []"
    by (auto simp: prod_eq_iff)
  obtain key where key: "new_box (pl_suite pl) (cf_secret_key (fst (load_config a_vault [] ?h))) = Inr key"
    using validate_configD(1)[OF load_config_valid[OF c(1)]] by (simp add: new_box_def)
  show "fst (boot a_vault pl s a_saved_host) = fst (load_config a_vault [] ?h)"
    using c(1,2) by (simp add: boot_def Let_def split: prod.splits)
  show "\<exists>d. fst (snd (boot a_vault pl s a_saved_host)) = Inr d"
    using c(1,2) c(3) key
    by (auto simp: boot_def Let_def serve_services_def write_pid_file_def write_file_def open_database_def a_vault_def
        wire_services_def wire_auth_def new_auth_def split: prod.splits option.splits sum.splits)
qed

theorem restart_leaves_no_ghosts_witness:
  "\<forall>(pl :: unit platform) (s :: unit site) x w. \<exists>cfg d s1 h1.
     boot a_vault pl (s\<lparr>st_world := crashed_world x w\<rparr>) a_saved_host = (cfg, Inr d, s1, h1) \<and>
     map se_state (wd_sessions (st_world s1)) = [SessionClosed] \<and> wd_slots (st_world s1) = 0"
proof (intro allI)
  fix pl :: "unit platform" and s :: "unit site" and x :: session and w :: world
  let ?s = "s\<lparr>st_world := crashed_world x w\<rparr>"
  obtain cfg d s1 h1 where b: "boot a_vault pl ?s a_saved_host = (cfg, Inr d, s1, h1)"
    using dev_server_boots(2)[of pl ?s] by (metis prod.collapse)
  have t: "transcript_ok (st_world ?s)" by (simp add: crashed_world_def transcript_ok_def)
  note g = restart_leaves_no_ghosts[OF b t rtranclp.rtrancl_refl]
  from bootE[OF b] obtain n ts' where
    "s1 = ?s\<lparr>st_world := (reset_stale_sessions (restarted (st_world ?s)))\<lparr>wd_uuids := n, wd_templates := ts'\<rparr>\<rparr>" by metis
  then have e: "map se_state (wd_sessions (st_world s1)) = [SessionClosed]" "wd_procs (st_world s1) = []"
    by (simp_all add: crashed_world_def reset_stale_sessions_def restarted_def stale_def)
  show "\<exists>cfg d s1 h1. boot a_vault pl ?s a_saved_host = (cfg, Inr d, s1, h1) \<and>
     map se_state (wd_sessions (st_world s1)) = [SessionClosed] \<and> wd_slots (st_world s1) = 0"
    using b e g by auto
qed

end
