(* ===== verification/Rendering.thy ===== *)
theory Rendering
  imports Templates Go_Text
begin

text \<open>
  \<open>Render\<close> of \<open>internal/templates/render.go\<close> around Go's template engine, and the \<open>join\<close> of its function table; the
  parameter \<open>ge_render\<close> of \<open>go_env\<close> stands for \<open>render\<close> with the engine of \<open>text/template\<close>. The engine, which parses
  and executes a template, and the printing of values are parameters.
\<close>

datatype engine_error = ParseFailed string | ExecuteFailed string

text \<open>What the engine prints for absent values is removed from its output, wherever it stands.\<close>

definition render_output :: "string \<Rightarrow> string" where
  "render_output out = replace_all ''<nil>'' [] (replace_all ''<no value>'' [] out)"

definition render :: "(string \<Rightarrow> vars \<Rightarrow> engine_error + string) \<Rightarrow> string \<Rightarrow> vars \<Rightarrow> string + string" where
  "render execute tmpl vs =
     (case execute tmpl vs of
        Inl (ParseFailed e) \<Rightarrow> Inl (''templates: parse template: '' @ e)
      | Inl (ExecuteFailed e) \<Rightarrow> Inl (''templates: render template: '' @ e)
      | Inr out \<Rightarrow> Inr (render_output out))"

fun joined_with :: "string \<Rightarrow> string list \<Rightarrow> string" where
  "joined_with sep [] = []"
| "joined_with sep [s] = s"
| "joined_with sep (s # ss) = s @ sep @ joined_with sep ss"

text \<open>\<open>join\<close>: \<open>sprint\<close> is \<open>fmt.Sprint\<close>, which leaves a string as it is; \<open>type_name\<close> is \<open>%T\<close>.\<close>

definition join_func :: "(json \<Rightarrow> string) \<Rightarrow> (json \<Rightarrow> string) \<Rightarrow> string \<Rightarrow> json \<Rightarrow> string + string" where
  "join_func sprint type_name sep list =
     (case list of
        JNull \<Rightarrow> Inr []
      | JArr js \<Rightarrow> Inr (joined_with sep (map sprint js))
      | _ \<Rightarrow> Inl (''templates: join: unsupported list type '' @ type_name list))"

text \<open>The cleanup does not tell what the engine printed from what a payload held.\<close>

lemma cleanup_eats_payload:
  "render (\<lambda>tmpl vs. Inr (case vs of [(k, JStr s)] \<Rightarrow> s | _ \<Rightarrow> [])) ''{{.msg}}'' [(''msg'', JStr ''got <nil>'')] = Inr ''got ''"
  by code_simp

end
