(* ===== verification/Compat.thy ===== *)
theory Compat
  imports Prelude "HOL-Library.List_Lexorder" "HOL-Library.Char_ord"
begin

text \<open>
  The guard of the API's compatibility promise, \<open>hack/openapi-compat\<close>: the comparison of two OpenAPI documents
  (\<open>compare.go\<close>) and its command (\<open>main.go\<close>). A document is a decoded YAML value; a \<open>map[string]any\<close> is an association
  list read by \<open>map_of\<close>, and a type assertion that fails leaves the empty map. Reading and decoding a file is a
  parameter.
\<close>

section \<open>Reports\<close>

type_synonym doc = "(string \<times> json) list"

record compat_report =
  cr_breaking :: "string list"
  cr_paths :: nat
  cr_schemas :: nat
  cr_bodies :: nat

definition breakingf :: "string \<Rightarrow> compat_report \<Rightarrow> compat_report" where
  "breakingf s r = r\<lparr>cr_breaking := cr_breaking r @ [s]\<rparr>"

definition http_methods :: "string list" where
  "http_methods = [''get'', ''put'', ''post'', ''delete'', ''options'', ''head'', ''patch'', ''trace'']"

definition upper_char :: "char \<Rightarrow> char" where
  "upper_char c = (let n = of_char c :: nat in if 97 \<le> n \<and> n \<le> 122 then char_of (n - 32) else c)"

definition operation_name :: "string \<Rightarrow> string \<Rightarrow> string" where
  "operation_name verb path = map upper_char verb @ '' '' @ path"

section \<open>Reading a document\<close>

fun map_at :: "json option \<Rightarrow> doc option" where
  "map_at (Some (JObj m)) = Some m"
| "map_at _ = None"

definition map_or_nil :: "json option \<Rightarrow> doc" where
  "map_or_nil v = (case map_at v of None \<Rightarrow> [] | Some m \<Rightarrow> m)"

definition sorted_keys :: "(string \<times> 'v) list \<Rightarrow> string list" where
  "sorted_keys m = sort (remdups (map fst m))"

definition path_items :: "doc \<Rightarrow> doc" where
  "path_items d = map_or_nil (map_of d ''paths'')"

definition component_schemas :: "doc \<Rightarrow> doc" where
  "component_schemas d = map_or_nil (map_of (map_or_nil (map_of d ''components'')) ''schemas'')"

definition schema_prefix :: string where "schema_prefix = ''#/components/schemas/''"

definition resolve_schema :: "doc \<Rightarrow> doc \<Rightarrow> doc" where
  "resolve_schema schema schemas =
     (case map_of schema ''$ref'' of
        Some (JStr ref) \<Rightarrow>
          (case cut_prefix ref schema_prefix of
             None \<Rightarrow> schema
           | Some name \<Rightarrow> (case map_at (map_of schemas name) of None \<Rightarrow> schema | Some s \<Rightarrow> s))
      | _ \<Rightarrow> schema)"

definition request_body_schema :: "doc \<Rightarrow> doc \<Rightarrow> doc option" where
  "request_body_schema op schemas =
     (case map_at (map_of op ''requestBody'') of
        None \<Rightarrow> None
      | Some body \<Rightarrow>
          (case map_at (map_of body ''content'') of
             None \<Rightarrow> None
           | Some content \<Rightarrow>
               (case map_at (map_of content ''application/json'') of
                  None \<Rightarrow> None
                | Some media \<Rightarrow>
                    (case map_at (map_of media ''schema'') of
                       None \<Rightarrow> None
                     | Some schema \<Rightarrow> Some (resolve_schema schema schemas)))))"

fun strings_of :: "json list \<Rightarrow> string list" where
  "strings_of [] = []"
| "strings_of (JStr s # js) = s # strings_of js"
| "strings_of (_ # js) = strings_of js"

fun comma_joined :: "string list \<Rightarrow> string" where
  "comma_joined [] = []"
| "comma_joined [s] = s"
| "comma_joined (s # ss) = s @ '','' @ comma_joined ss"

definition type_signature :: "json \<Rightarrow> doc \<Rightarrow> string" where
  "type_signature prop schemas =
     (case map_at (Some prop) of
        None \<Rightarrow> []
      | Some p \<Rightarrow>
          (case map_of (resolve_schema p schemas) ''type'' of
             Some (JStr t) \<Rightarrow> t
           | Some (JArr ts) \<Rightarrow> comma_joined (sort (strings_of ts))
           | _ \<Rightarrow> []))"

definition string_set :: "json option \<Rightarrow> string list" where
  "string_set v = (case v of Some (JArr js) \<Rightarrow> strings_of js | _ \<Rightarrow> [])"

section \<open>The comparison\<close>

definition compare_path_method :: "doc \<Rightarrow> doc \<Rightarrow> string \<Rightarrow> string \<Rightarrow> compat_report \<Rightarrow> compat_report" where
  "compare_path_method olds news path verb r =
     (if map_of (map_or_nil (map_of olds path)) verb = None then r
      else
        let r1 = r\<lparr>cr_paths := Suc (cr_paths r)\<rparr>
        in case map_at (map_of news path) of
             None \<Rightarrow> breakingf (''removed path: '' @ operation_name verb path) r1
           | Some item \<Rightarrow>
               (if map_of item verb = None then breakingf (''removed operation: '' @ operation_name verb path) r1 else r1))"

definition compare_paths :: "doc \<Rightarrow> doc \<Rightarrow> compat_report \<Rightarrow> compat_report" where
  "compare_paths olds news r =
     fold (\<lambda>path. fold (compare_path_method olds news path) http_methods) (sorted_keys olds) r"

definition compare_property :: "string \<Rightarrow> doc \<Rightarrow> doc \<Rightarrow> doc \<Rightarrow> string \<Rightarrow> compat_report \<Rightarrow> compat_report" where
  "compare_property ctx olds news schemas name r =
     (case map_of news name of
        None \<Rightarrow> breakingf (ctx @ '': removed property '' @ go_quote name) r
      | Some new_prop \<Rightarrow>
          (let old_type = type_signature (case map_of olds name of None \<Rightarrow> JNull | Some p \<Rightarrow> p) schemas;
               new_type = type_signature new_prop schemas
           in if old_type \<noteq> [] \<and> new_type \<noteq> [] \<and> old_type \<noteq> new_type
              then breakingf (ctx @ '': property '' @ go_quote name @ '' changed type from '' @ go_quote old_type @ '' to '' @
                     go_quote new_type) r
              else r))"

definition compare_properties :: "string \<Rightarrow> doc \<Rightarrow> doc \<Rightarrow> doc \<Rightarrow> compat_report \<Rightarrow> compat_report" where
  "compare_properties ctx old_schema new_schema schemas r =
     (let olds = map_or_nil (map_of old_schema ''properties''); news = map_or_nil (map_of new_schema ''properties'')
      in fold (compare_property ctx olds news schemas) (sorted_keys olds) r)"

definition compare_schema :: "doc \<Rightarrow> doc \<Rightarrow> string \<Rightarrow> compat_report \<Rightarrow> compat_report" where
  "compare_schema olds news name r =
     (let r1 = r\<lparr>cr_schemas := Suc (cr_schemas r)\<rparr>
      in case map_at (map_of news name) of
           None \<Rightarrow> breakingf (''removed schema: components.schemas.'' @ name) r1
         | Some new_schema \<Rightarrow>
             compare_properties (''schema '' @ name) (map_or_nil (map_of olds name)) new_schema news r1)"

definition compare_component_schemas :: "doc \<Rightarrow> doc \<Rightarrow> compat_report \<Rightarrow> compat_report" where
  "compare_component_schemas olds news r = fold (compare_schema olds news) (sorted_keys olds) r"

definition compare_required :: "string \<Rightarrow> string list \<Rightarrow> string list \<Rightarrow> compat_report \<Rightarrow> compat_report" where
  "compare_required ctx olds news r =
     fold (\<lambda>name r. if name \<in> set olds then r else breakingf (ctx @ '': new required field '' @ go_quote name) r)
       (sort (remdups news)) r"

definition compare_body :: "string \<Rightarrow> doc \<Rightarrow> doc \<Rightarrow> doc \<Rightarrow> compat_report \<Rightarrow> compat_report" where
  "compare_body ctx old_body new_body schemas r =
     (let r1 = r\<lparr>cr_bodies := Suc (cr_bodies r)\<rparr>
      in compare_properties ctx old_body new_body schemas
           (compare_required ctx (string_set (map_of old_body ''required'')) (string_set (map_of new_body ''required'')) r1))"

text \<open>The operation of a method on a path, when it is a mapping.\<close>

definition operation_at :: "doc \<Rightarrow> string \<Rightarrow> string \<Rightarrow> doc option" where
  "operation_at items path verb = map_at (map_of (map_or_nil (map_of items path)) verb)"

definition compare_operation_body ::
  "doc \<Rightarrow> doc \<Rightarrow> doc \<Rightarrow> doc \<Rightarrow> string \<Rightarrow> string \<Rightarrow> compat_report \<Rightarrow> compat_report" where
  "compare_operation_body olds news old_schemas new_schemas path verb r =
     (case (operation_at olds path verb, operation_at news path verb) of
        (Some old_op, Some new_op) \<Rightarrow>
          (case (request_body_schema old_op old_schemas, request_body_schema new_op new_schemas) of
             (Some old_body, Some new_body) \<Rightarrow>
               compare_body (''request body of '' @ operation_name verb path) old_body new_body new_schemas r
           | _ \<Rightarrow> r)
      | _ \<Rightarrow> r)"

definition compare_request_bodies :: "doc \<Rightarrow> doc \<Rightarrow> doc \<Rightarrow> doc \<Rightarrow> compat_report \<Rightarrow> compat_report" where
  "compare_request_bodies olds news old_schemas new_schemas r =
     fold (\<lambda>path. fold (compare_operation_body olds news old_schemas new_schemas path) http_methods) (sorted_keys olds) r"

definition compare_docs :: "doc \<Rightarrow> doc \<Rightarrow> compat_report" where
  "compare_docs old new =
     compare_request_bodies (path_items old) (path_items new) (component_schemas old) (component_schemas new)
       (compare_component_schemas (component_schemas old) (component_schemas new)
         (compare_paths (path_items old) (path_items new)
           \<lparr>cr_breaking = [], cr_paths = 0, cr_schemas = 0, cr_bodies = 0\<rparr>))"

section \<open>The command\<close>

text \<open>\<open>run\<close>: the exit code, the lines on standard output and those on standard error.\<close>

definition run_compat :: "(string \<Rightarrow> string + doc) \<Rightarrow> string list \<Rightarrow> nat \<times> string list \<times> string list" where
  "run_compat load args =
     (case args of
        [old_path, new_path] \<Rightarrow>
          (case load old_path of
             Inl e \<Rightarrow> (2, [], [''openapi-compat: reading '' @ old_path @ '': '' @ e])
           | Inr old \<Rightarrow>
               (case load new_path of
                  Inl e \<Rightarrow> (2, [], [''openapi-compat: reading '' @ new_path @ '': '' @ e])
                | Inr new \<Rightarrow>
                    (let r = compare_docs old new;
                         out = [''openapi-compat: '' @ old_path @ '' -> '' @ new_path,
                           ''  paths/methods checked: '' @ show_nat (cr_paths r),
                           ''  component schemas checked: '' @ show_nat (cr_schemas r),
                           ''  request bodies checked: '' @ show_nat (cr_bodies r)]
                     in if cr_breaking r = [] then (0, out @ [''  OK: no breaking changes''], [])
                        else (1, out, (''openapi-compat: '' @ show_nat (length (cr_breaking r)) @ '' breaking change(s) found'') #
                               map (\<lambda>b. ''  BREAKING: '' @ b) (cr_breaking r)))))
      | _ \<Rightarrow> (2, [], [''usage: openapi-compat <old.yaml> <new.yaml>'']))"

end
