(* ===== verification/Compat_Claims.thy ===== *)
theory Compat_Claims
  imports Compat
begin

text \<open>
  What the guard of the API promises: it reports nothing exactly for the documents that are compatible, by a
  specification in terms of what the documents hold; and two places where it is not what its description says.
\<close>

section \<open>Compatible documents\<close>










section \<open>What the loops report\<close>





lemma breaking_breakingf [simp]: "cr_breaking (breakingf s r) = cr_breaking r @ [s]"
  by (simp add: breakingf_def)












section \<open>The properties\<close>


section \<open>Where the guard is not what it says\<close>

definition document :: "(string \<times> json) list \<Rightarrow> doc" where
  "document schemas = [(''components'', JObj [(''schemas'', JObj schemas)])]"

definition with_state :: "string \<Rightarrow> doc" where
  "with_state t = document [(''State'', JObj [(''type'', JStr t)]),
     (''Run'', JObj [(''properties'', JObj [(''state'', JObj [(''$ref'', JStr ''#/components/schemas/State'')])])])]"

text \<open>
  The references of the old document are resolved in the new one, so a property whose referenced schema changed its
  type is compared with itself.
\<close>

theorem retyped_reference_unreported: "cr_breaking (compare_docs (with_state ''string'') (with_state ''integer'')) = []"
  by code_simp

text \<open>A boolean schema, legal in OpenAPI 3.1, is reported as removed from a document compared with itself.\<close>

theorem boolean_schema_reported:
  "cr_breaking (compare_docs (document [(''Any'', JBool True)]) (document [(''Any'', JBool True)])) =
     [''removed schema: components.schemas.Any'']"
  by code_simp

end
