(* ===== verification/Claude_Process.thy ===== *)
theory Claude_Process
  imports Launch
begin

text \<open>
  The life of a Claude Code process behind one session, \<open>claude/process.go\<close>: one operating system process whose standard
  output is decoded line by line onto a channel of events, whose last line of standard error goes into the exit, and
  whose standard input takes the host's messages until it is closed. What may happen next - a call of the host, a line
  of either stream, the end of the process - is a step relation, as in \<open>Codex\<close>. The killing of a process that does not
  end in time is its end; \<open>cl_lines\<close> records the lines that were decoded.
\<close>

record claude_session = claude_process +
  cl_reading :: bool
  cl_err_reading :: bool
  cl_last_err :: string
  cl_exit_error :: string
  cl_lines :: "string list"
  cl_events :: "cli_event list"
  cl_channel_closed :: bool

definition claude_started :: "start_spec \<Rightarrow> claude_session" where
  "claude_started spec =
     \<lparr>cs_session = sp_session spec, cs_closed = False, cs_stdin = [], cl_reading = True, cl_err_reading = True,
      cl_last_err = [], cl_exit_error = [], cl_lines = [], cl_events = [], cl_channel_closed = False\<rparr>"

text \<open>The limits of the scanners: a line that reaches them ends the reading of its stream.\<close>

definition max_out_line :: nat where "max_out_line = 16 * 1024 * 1024"
definition max_err_line :: nat where "max_err_line = 64 * 1024"

definition out_line :: "unmarshal \<Rightarrow> marshal \<Rightarrow> string \<Rightarrow> claude_session \<Rightarrow> claude_session" where
  "out_line rd tx l p =
     (if \<not> cl_reading p then p
      else if max_out_line \<le> length l then p\<lparr>cl_reading := False\<rparr>
      else p\<lparr>cl_lines := cl_lines p @ [l], cl_events := cl_events p @ claude_decode rd tx l\<rparr>)"

definition err_line :: "string \<Rightarrow> claude_session \<Rightarrow> claude_session" where
  "err_line l p =
     (if \<not> cl_err_reading p then p
      else if max_err_line \<le> length l then p\<lparr>cl_err_reading := False\<rparr>
      else p\<lparr>cl_last_err := l\<rparr>)"

text \<open>The exit code \<open>cmd.Wait\<close> is read as.\<close>

definition exit_code :: "child_end \<Rightarrow> int" where
  "exit_code e = (case e of ChildOk \<Rightarrow> 0 | ChildExited code \<Rightarrow> code | _ \<Rightarrow> -1)"

definition process_ends :: "child_end \<Rightarrow> claude_session \<Rightarrow> claude_session" where
  "process_ends e p =
     p\<lparr>cl_reading := False, cl_exit_error := cl_last_err p, cl_events := cl_events p @ [CExit (exit_code e)],
       cl_channel_closed := True\<rparr>"

text \<open>The first half of \<open>Close\<close>; the second waits for the end or brings it about.\<close>

definition close_stdin :: "claude_session \<Rightarrow> claude_session" where
  "close_stdin p = p\<lparr>cs_closed := True\<rparr>"

text \<open>A call of the host on the fields that are its own.\<close>

definition host_call :: "json \<Rightarrow> claude_session \<Rightarrow> error option \<times> claude_session" where
  "host_call j p =
     (if cs_closed p then (Some (ErrOther ''claude: process closed''), p) else (None, p\<lparr>cs_stdin := cs_stdin p @ [j]\<rparr>))"

inductive claude_step :: "unmarshal \<Rightarrow> marshal \<Rightarrow> claude_session \<Rightarrow> claude_session \<Rightarrow> bool"
  for rd :: unmarshal and tx :: marshal where
  writes: "claude_step rd tx p (snd (host_call j p))"
| prints: "\<not> cl_channel_closed p \<Longrightarrow> claude_step rd tx p (out_line rd tx l p)"
| complains: "claude_step rd tx p (err_line l p)"
| closes: "claude_step rd tx p (close_stdin p)"
| ends: "\<not> cl_channel_closed p \<Longrightarrow> claude_step rd tx p (process_ends e p)"

inductive_cases claude_stepE: "claude_step rd tx p p'"

section \<open>What the channel carries\<close>

definition claude_stream_ok :: "unmarshal \<Rightarrow> marshal \<Rightarrow> claude_session \<Rightarrow> bool" where
  "claude_stream_ok rd tx p \<longleftrightarrow>
     (let decoded = concat (map (claude_decode rd tx) (cl_lines p))
      in if cl_channel_closed p then (\<exists>code. cl_events p = decoded @ [CExit code]) \<and> \<not> cl_reading p
         else cl_events p = decoded)"

lemmas claude_step_defs = host_call_def out_line_def err_line_def close_stdin_def process_ends_def

lemma claude_step_ok: "claude_step rd tx p p' \<Longrightarrow> claude_stream_ok rd tx p \<Longrightarrow> claude_stream_ok rd tx p'"
  by (auto simp: claude_stream_ok_def claude_step_defs Let_def elim!: claude_stepE split: if_splits)

text \<open>
  The events of a session are the decoded lines of its standard output, in order and none lost, followed by one exit
  when the channel closes.
\<close>

lemma claude_stream:
  "(claude_step rd tx)\<^sup>*\<^sup>* (claude_started spec) p \<Longrightarrow> claude_stream_ok rd tx p"
proof (induction rule: rtranclp_induct)
  case base
  show ?case by (simp add: claude_stream_ok_def claude_started_def)
qed (rule claude_step_ok)

text \<open>Nothing is written after \<open>Close\<close>, and nothing is sent after the exit.\<close>

lemma closed_stays_closed:
  "(claude_step rd tx)\<^sup>*\<^sup>* p p' \<Longrightarrow> (cs_closed p \<longrightarrow> cs_closed p' \<and> cs_stdin p' = cs_stdin p) \<and>
     (cl_channel_closed p \<longrightarrow> cl_channel_closed p' \<and> cl_events p' = cl_events p \<and> cl_exit_error p' = cl_exit_error p)"
proof (induction rule: rtranclp_induct)
  case (step q r)
  from step(2) have "(cs_closed q \<longrightarrow> cs_closed r \<and> cs_stdin r = cs_stdin q) \<and>
      (cl_channel_closed q \<longrightarrow> cl_channel_closed r \<and> cl_events r = cl_events q \<and> cl_exit_error r = cl_exit_error q)"
    by (auto simp: claude_step_defs elim!: claude_stepE)
  with step(3) show ?case by auto
qed simp

text \<open>After a line of standard error at the limit the exit never learns of a later one.\<close>

lemma long_error_line_blinds:
  assumes "(claude_step rd tx)\<^sup>*\<^sup>* (err_line l p) p'" and "max_err_line \<le> length l" and "cl_err_reading p"
  shows "cl_last_err p' = cl_last_err p"
proof -
  have "\<not> cl_err_reading p' \<and> cl_last_err p' = cl_last_err p" using assms(1)
  proof (induction rule: rtranclp_induct)
    case base
    then show ?case using assms(2,3) by (simp add: err_line_def)
  next
    case (step q r)
    from step(2,3) show ?case by (auto simp: claude_step_defs elim!: claude_stepE split: if_splits)
  qed
  then show ?thesis by simp
qed

end
