(* ===== verification/Spec2Isabelle.thy ===== *)
theory Spec2Isabelle
  imports Pipeline_Claims Trigger_Claims Schedule_Claims Run_Claims Session_Claims Workspace_Claims Review_Claims Account_Claims
    Risk_Claims Stats_Claims Harness_Claims Notify_Claims Router_Claims Profile_Claims
    Launch_Claims Backup_Claims Doctor_Claims Server_Claims Rendering Compat_Claims Claude_Process
begin

text \<open>
  \<^bold>\<open>A verification development for Styr\<close>

  Styr (Go, \<open>src/internal\<close>) runs coding agents on a server: a person or a trigger starts a \<^emph>\<open>session\<close>, a process
  of an agent CLI with a transcript and approvals; a \<^emph>\<open>run\<close> is an unattended session started from a template,
  possibly repeated in an until-done \<^emph>\<open>loop\<close>; a \<^emph>\<open>pipeline\<close> is a graph of steps, each of which is a run;
  \<^emph>\<open>triggers\<close> start runs and pipelines from webhooks and \<^emph>\<open>schedules\<close> start them by the clock. The services call
  each other through small interfaces, keep their rows in SQLite, and tell each other about the ends of runs and
  the states of sessions over an in-process bus.

  \<^bold>\<open>The model.\<close> A \<^emph>\<open>world\<close> (\<open>Store\<close>) is one record of all tables, the clock, the counter of generated
  ids, the messages published and the in-memory maps of the services. Every method is a HOL function from its
  receiver's configuration (a record of the service's dependencies), its arguments and a world to a result
  (\<open>Inl\<close> an error of \<open>Domain\<close>, \<open>Inr\<close> a value) and a new world; its branches are the branches and early returns
  of the Go code, in order. A panic or a failed goroutine is a boolean or an option in the result. What is not Go
  code of the repository is a parameter, a field of one of these records: text templates, JSON and YAML
  decoding, cron expressions, UUIDs, SHA-256 and random bytes (\<open>go_env\<close>, \<open>deployment\<close>), and what an agent
  process, git and the file system answer (\<open>session_service\<close>). Repositories are keyed tables with the
  constraints of the migrations: unique keys, foreign keys and cascades; disk and network failures of the
  database are not modelled. Times are integers of nanoseconds; comparisons inside SQL are comparisons of the
  stored text, so \<open>Timestamps\<close> models the RFC3339Nano text they are stored as.

  \<^bold>\<open>Theories.\<close>
  \<^item> \<open>Prelude\<close>: strings, runes, tables and maps; the interfaces of a keyed repository are locales of \<open>Store\<close> and
    \<open>Access\<close> (\<open>keyed_repo\<close>, \<open>owned_repo\<close>), interpreted for every table.
  \<^item> \<open>Domain\<close> (\<open>internal/domain\<close>), \<open>Timestamps\<close> (\<open>db/scan.go\<close>), \<open>Store\<close>, \<open>Session_Store\<close> (\<open>internal/db\<close>),
    \<open>Access\<close> (who may see and change a row; the contracts \<open>run_starter\<close> and \<open>session_closer\<close> between services).
  \<^item> \<open>Pipeline_Def\<close> (\<open>pipelines/def.go\<close>: parsing, validation, topological order), \<open>Pipeline_Graph\<close> (the newest
    attempt per slot, node states), \<open>Pipeline_Exec\<close> (\<open>advance.go\<close>: starting, finishing, retrying, fan-out,
    settling), \<open>Pipeline_Service\<close> (\<open>executor.go\<close>, \<open>view.go\<close>); \<open>Pipeline_Proofs\<close>, \<open>Pipeline_Advance\<close>,
    \<open>Pipeline_Correct\<close>, \<open>Pipeline_Properties\<close> their lemmas, \<open>Pipeline_Examples\<close> a concrete deployment,
    \<open>Pipeline_Claims\<close> the properties.
  \<^item> \<open>Templates\<close> (\<open>internal/templates\<close>), \<open>Triggers\<close> (\<open>internal/triggers\<close>), \<open>Schedules\<close> (\<open>internal/schedules\<close>),
    with \<open>Trigger_Proofs\<close>, \<open>Trigger_Claims\<close> and \<open>Schedule_Claims\<close>.
  \<^item> \<open>Sessions\<close> (\<open>internal/sessions\<close>: creating, sending, the pump, slots and eviction, approvals, worktrees,
    switching models), \<open>Session_Frame\<close> (what it leaves alone), \<open>Session_Proofs\<close> (slots, processes, transcripts),
    \<open>Session_Claims\<close>.
  \<^item> \<open>Workspaces\<close> (\<open>internal/workspaces\<close>: the managed directories, clones in the background and access lists; its
    disk and its clones under way are a second state, the \<open>backstage\<close>), \<open>Workspace_Proofs\<close> (where managed
    directories lie, the abstract life of a workspace), \<open>Workspace_Claims\<close>.
  \<^item> \<open>Gitops\<close> (\<open>internal/gitops\<close>: the git and gh commands and the parsing of their output), \<open>Review\<close>
    (\<open>sessions/review.go\<close>, \<open>review_actions.go\<close>: diffs, comments, commit, rewind, discard), with \<open>Git_Proofs\<close>,
    \<open>Review_Proofs\<close> and \<open>Review_Claims\<close>; \<open>Go_Text\<close> holds the paths and strings of Go they share.
  \<^item> \<open>Auth\<close> (\<open>internal/auth\<close>: browser sessions, API tokens, the OpenID Connect login; the repositories of users,
    sessions and tokens) and \<open>Account_Api\<close> (the middleware, router and handlers of \<open>internal/api\<close> that serve
    accounts, settings and credentials), over a state of their own, the \<open>accounts\<close>; \<open>Account_Proofs\<close> (the invariants
    of that state; the locale \<open>hashed_credential\<close>), \<open>Account_Claims\<close>.
  \<^item> \<open>Risk\<close> (\<open>internal/risk\<close>: a matcher of regular expressions and the tiers of tool calls; its \<open>classify\<close> is what
    the parameter of \<open>Sessions\<close> stands for), \<open>Risk_Claims\<close>; \<open>Stats\<close> (\<open>internal/stats\<close>: timeline and costs),
    \<open>Stats_Claims\<close>.
  \<^item> \<open>Harness\<close> (\<open>internal/harness\<close>, \<open>harness/claude\<close>: argument vectors and codecs over JSON values), \<open>Codex\<close>
    (\<open>harness/codex\<close>: its codec, and its process object as a step relation), \<open>Claude_Process\<close> (the same for
    \<open>harness/claude\<close>), \<open>Harness_Claims\<close>; \<open>Notify\<close>
    (\<open>internal/events\<close>, \<open>internal/notify\<close>: the bus and the notifications), \<open>Notify_Claims\<close>.
  \<^item> \<open>Profiles\<close> (the repository and endpoints of the permission profiles), \<open>Run_Api\<close> and \<open>Session_Api\<close> (the handlers of
    \<open>internal/api\<close> in front of the services), \<open>Router\<close> (the table of all routes with the guards in front of them, over a
    \<open>site\<close>: the accounts, the world, the disk, the checkouts and the channels), \<open>Router_Claims\<close>, \<open>Profile_Claims\<close>.
  \<^item> \<open>Launch\<close> (\<open>internal/crypto\<close>, the credential, home and start specification of a session, the verifiers of
    credentials; \<open>launching\<close> is the session service over them), \<open>Launch_Claims\<close>.
  \<^item> \<open>Go_Path\<close> and \<open>Path_Facts\<close> (\<open>path/filepath\<close>), \<open>Config\<close> (\<open>internal/config\<close>, \<open>cmd/styr/env.go\<close>, \<open>pidfile.go\<close>, over a
    \<open>host\<close> with its files and environment), \<open>Backup\<close> (\<open>cmd/styr/backup.go\<close>, \<open>restore.go\<close>) and \<open>Doctor\<close>
    (\<open>cmd/styr/doctor.go\<close>), with \<open>Backup_Claims\<close> and \<open>Doctor_Claims\<close>.
  \<^item> \<open>Server\<close> (\<open>cmd/styr/wire.go\<close>, \<open>serve.go\<close>, \<open>migrate.go\<close>, \<open>main.go\<close>, \<open>api/status_handlers.go\<close>): the composition root over a
    \<open>platform\<close> of everything that is not code of the repository, the start of the server and the commands of the
    binary, which compose all the theories above; \<open>Server_Claims\<close>. \<open>Rendering\<close> is \<open>Render\<close> of \<open>internal/templates\<close>
    around Go's template engine.
  \<^item> \<open>Compat\<close> (\<open>hack/openapi-compat\<close>: the guard of the API's compatibility promise), \<open>Compat_Claims\<close>.
  \<^item> \<open>Runs\<close> (\<open>internal/runs\<close>: runs and loops), \<open>Run_Frame\<close>, \<open>Run_Proofs\<close> (an abstract machine and the proof
    that the engine refines it), \<open>Run_Claims\<close>.
  \<^item> \<open>Wiring\<close> (\<open>cmd/styr/wire.go\<close>): the executor, triggers and schedules put together, each an interpretation of the
    contract the others rely on; \<open>Service_Examples\<close> a concrete deployment of all of them.

  \<^bold>\<open>What the properties show.\<close> Pipelines: validation accepts exactly the well-formed definitions; the order
  respects the needs; the executor starts a step only after its needs, ends a run only when
  nothing is left, applies the end of a run once, and its cancel, retry, timeout and fan-out do what they promise.
  Runs: the engine refines a machine of five moves, from which closed runs are final and a loop stays within its
  budget with one run at a time; the sweep closes what overran. Sessions: never more processes than slots, never
  two for a session, transcripts without gaps, each approval decided once, attached worktrees confined. Triggers
  and schedules: only the secret opens a trigger, accepted deliveries keep their distance and the storm cap, each
  due schedule fires once per tick and never over a running one. Workspaces: nothing outside
  the directory of the users is ever removed, the service refines the life of a workspace, and its list shows what
  can be opened. Review: the parsers of git's output invert its printers, a comment reaches the agent exactly once,
  and no worktree is rewritten under a working session. Accounts: an administrator always remains, a request acts as
  the user its cookie or token was issued to and no longer than it lives, a login is bound to its identity, and a
  refused write changes nothing. Agents: the events of a Codex session end with one exit and each turn with one
  result, which carries the answer. Risk: the tier of a command is what its patterns say, by a relation the matcher
  is proved equal to. Statistics: the timeline says at each moment what the session was doing, the sums of costs
  agree. Notifications: a subscriber sees a subsequence of what was published, in order, and each notification costs
  a bounded number of attempts. The router: on the whole table of routes a viewer changes
  nothing and administration needs an administrator. Secrets: a stored token reaches the sessions of its user and no
  others, no error of a verification shows it, and no backup holds one. Restore and doctor: a database that is there
  is never lost, what was saved comes back, and pruning spares every session's worktree. Profiles: whatever the routes
  serve, the table stays well typed. The server: a production configuration answers nobody without credentials, and
  a restart leaves no session without a process looking alive. The guard of the API reports a change exactly when one
  of its rules is broken. Some properties state what the code does where
  that is not what it means to do; they are the findings of the manifest.

  \<^bold>\<open>Bounds and fuel.\<close> Recursions of the source that are loops over finite lists are structural. The topological
  sort's queue loop is a \<open>function\<close> with a termination proof; the slug search of triggers runs over its 998
  candidates; \<open>finish\<close>, \<open>advance\<close> and \<open>nextIteration\<close> of the run engine call each other, but only one level deep,
  which \<open>finish_with\<close> makes explicit. No definition takes fuel that could run out.

  \<^bold>\<open>Not modelled.\<close> The migrations and SQLite itself, the listening, tickers and signals of \<open>styr serve\<close>, the transport of server-sent events and of uploads, request logging and response
  headers, the recorders under \<open>hack\<close>, the fake agents of the tests, the web front end, and the spawning of operating
  system processes with their pipes and signals. Methods are atomic, but
  for the background clones of \<open>Workspaces\<close> and the process objects of the harnesses: the interleavings of concurrent
  calls inside one method are not modelled, nor are database failures other than constraint violations.
\<close>

end
